(* ===== verification/Prelude.thy ===== *)
theory Prelude
  imports Main "HOL-Library.Word"
begin

text \<open>
  The shared vocabulary of the development: byte strings, exceptions as values, the little-endian
  packing of Python's \<open>struct\<close> module, slices and slice assignment, and the lemma collections
  the component theories prove with.

  A Python \<open>bytes\<close> or \<open>bytearray\<close> is a list of 8-bit words. A Python integer is an \<open>int\<close> where
  the code may see a negative value and a \<open>nat\<close> where it was read from bytes or counts them.
  A raised exception is an \<open>Inl\<close> result; the message is the constant part of the source's
  message, which identifies the branch that raised.
\<close>

unbundle bit_operations_syntax

section \<open>Types\<close>

type_synonym byte = "8 word"

type_synonym bytes = "8 word list"

text \<open>The exception classes the modelled code raises or lets through.\<close>

datatype exn =
    ProtocolError string      \<comment> \<open>\<open>protocol.ProtocolError\<close>\<close>
  | ProtocolErrorText "nat list"   \<comment> \<open>a \<open>ProtocolError\<close> whose message quotes text; its code points\<close>
  | AdbUnavailable string     \<comment> \<open>\<open>adb_backup.AdbUnavailable\<close>, a subclass of \<open>ProtocolError\<close>\<close>
  | ValidationError string    \<comment> \<open>\<open>image.ValidationError\<close>\<close>
  | StreamError string        \<comment> \<open>\<open>stream_identify.StreamIdentificationError\<close>\<close>
  | StructError               \<comment> \<open>\<open>struct.error\<close>\<close>
  | ValueError string
  | UnicodeError              \<comment> \<open>\<open>UnicodeDecodeError\<close>, \<open>UnicodeEncodeError\<close>, subclasses of \<open>ValueError\<close>\<close>
  | TypeError
  | AttributeError
  | IndexError
  | KeyError
  | AssertionError
  | EOFError
  | ZeroDivisionError
  | RecursionError
  | LzmaError                 \<comment> \<open>\<open>lzma.LZMAError\<close>\<close>
  | OSError
  | FileExistsError           \<comment> \<open>a subclass of \<open>OSError\<close>\<close>
  | FileNotFoundError         \<comment> \<open>a subclass of \<open>OSError\<close>\<close>

type_synonym 'a res = "exn + 'a"

text \<open>\<open>except ProtocolError\<close> also catches the subclass \<open>AdbUnavailable\<close>.\<close>

fun is_protocol_error :: "exn \<Rightarrow> bool" where
  "is_protocol_error (ProtocolError _) = True"
| "is_protocol_error (ProtocolErrorText _) = True"
| "is_protocol_error (AdbUnavailable _) = True"
| "is_protocol_error _ = False"

fun is_os_error :: "exn \<Rightarrow> bool" where
  "is_os_error OSError = True"
| "is_os_error FileExistsError = True"
| "is_os_error FileNotFoundError = True"
| "is_os_error _ = False"

section \<open>Lemma collections\<close>

named_theorems slicing \<open>how slices, pslice assignment and packing act on concatenations\<close>
named_theorems constants \<open>the numeric constants of the source\<close>

section \<open>Exceptions as values\<close>

fun res_bind :: "'a res \<Rightarrow> ('a \<Rightarrow> 'b res) \<Rightarrow> 'b res" where
  "res_bind (Inl e) f = Inl e"
| "res_bind (Inr x) f = f x"

definition require :: "bool \<Rightarrow> exn \<Rightarrow> unit res" where
  "require b e = (if b then Inr () else Inl e)"

lemma res_bind_eq_Inr [simp]:
  "res_bind m f = Inr y \<longleftrightarrow> (\<exists>x. m = Inr x \<and> f x = Inr y)"
  by (cases m) auto

lemma res_bind_eq_Inl:
  "res_bind m f = Inl e \<longleftrightarrow> m = Inl e \<or> (\<exists>x. m = Inr x \<and> f x = Inl e)"
  by (cases m) auto

lemma res_bind_cong [fundef_cong]:
  "m = m' \<Longrightarrow> (\<And>x. m' = Inr x \<Longrightarrow> f x = g x) \<Longrightarrow> res_bind m f = res_bind m' g"
  by (cases m') auto

lemma require_eq [simp]:
  "require b e = Inr u \<longleftrightarrow> b"
  "require b e = Inl e' \<longleftrightarrow> \<not> b \<and> e' = e"
  by (auto simp: require_def)

text \<open>The first error of a list of results, or all values (a Python list comprehension).\<close>

fun res_map :: "('a \<Rightarrow> 'b res) \<Rightarrow> 'a list \<Rightarrow> 'b list res" where
  "res_map f [] = Inr []"
| "res_map f (x # xs) = res_bind (f x) (\<lambda>y. res_bind (res_map f xs) (\<lambda>ys. Inr (y # ys)))"

lemma res_map_Inr:
  "res_map f xs = Inr ys \<longleftrightarrow> list_all2 (\<lambda>x y. f x = Inr y) xs ys"
  by (induction xs arbitrary: ys) (auto simp: list_all2_Cons1)

lemma res_map_length: "res_map f xs = Inr ys \<Longrightarrow> length ys = length xs"
  by (simp add: res_map_Inr list_all2_lengthD)

section \<open>Slices\<close>

text \<open>
  \<open>xs[a:b]\<close> with nonnegative bounds: bounds past the end are clamped, and \<open>b < a\<close> gives the
  empty pslice.
\<close>

definition pslice :: "'a list \<Rightarrow> nat \<Rightarrow> nat \<Rightarrow> 'a list" where
  "pslice xs a b = take (b - a) (drop a xs)"

text \<open>
  \<open>xs[off:off+len(ys)] = ys\<close> on a \<open>bytearray\<close>, and \<open>struct.pack_into\<close>, which both overwrite
  \<open>length ys\<close> elements that exist.
\<close>

definition put :: "'a list \<Rightarrow> nat \<Rightarrow> 'a list \<Rightarrow> 'a list" where
  "put xs off ys = take off xs @ ys @ drop (off + length ys) xs"

lemma length_pslice [simp]: "length (pslice xs a b) = min (b - a) (length xs - a)"
  by (simp add: pslice_def)

lemma length_put [simp]: "off + length ys \<le> length xs \<Longrightarrow> length (put xs off ys) = length xs"
  by (simp add: put_def)

lemma pslice_all [simp]: "length xs \<le> b \<Longrightarrow> pslice xs 0 b = xs"
  by (simp add: pslice_def)

lemma pslice_empty [simp]: "b \<le> a \<Longrightarrow> pslice xs a b = []"
  by (simp add: pslice_def)

lemma nth_pslice [simp]: "i < b - a \<Longrightarrow> a + i < length xs \<Longrightarrow> pslice xs a b ! i = xs ! (a + i)"
  by (simp add: pslice_def)

lemma pslice_append_left [slicing]: "b \<le> length xs \<Longrightarrow> pslice (xs @ ys) a b = pslice xs a b"
  by (auto simp: pslice_def)

lemma pslice_append_right [slicing]:
  "length xs \<le> a \<Longrightarrow> pslice (xs @ ys) a b = pslice ys (a - length xs) (b - length xs)"
  by (auto simp: pslice_def)

lemma pslice_Cons [slicing]: "0 < a \<Longrightarrow> pslice (x # xs) a b = pslice xs (a - 1) (b - 1)"
  by (cases a; cases b) (simp_all add: pslice_def)

lemma pslice_Cons_0 [slicing]: "0 < b \<Longrightarrow> pslice (x # xs) 0 b = x # pslice xs 0 (b - 1)"
  by (cases b) (simp_all add: pslice_def)

lemma pslice_two: "a + 2 \<le> length xs \<Longrightarrow> pslice xs a (a + 2) = [xs ! a, xs ! (a + 1)]"
  by (rule nth_equalityI) (auto simp: less_2_cases_iff)

lemma pslice_append_mid: "a \<le> length xs \<Longrightarrow> length xs \<le> b \<Longrightarrow>
    pslice (xs @ ys) a b = drop a xs @ take (b - length xs) ys"
  by (auto simp: pslice_def)

lemma pslice_exact:
  "a = length xs \<Longrightarrow> b = a + length ys \<Longrightarrow> pslice (xs @ ys @ zs) a b = ys"
  by (simp add: pslice_def)

lemma pslice_alt: "pslice xs a b = drop a (take b xs)"
  by (simp add: pslice_def drop_take)

lemma pslice_pslice:
  "pslice (pslice xs a b) c d = pslice xs (a + c) (min b (a + d))"
  by (simp add: pslice_alt take_drop min.commute ac_simps)

lemma pslice_eq_nth:
  assumes "b \<le> length xs" "b \<le> length ys"
  shows "pslice xs a b = pslice ys a b \<longleftrightarrow> (\<forall>i. a \<le> i \<and> i < b \<longrightarrow> xs ! i = ys ! i)"
proof
  assume eq: "pslice xs a b = pslice ys a b"
  show "\<forall>i. a \<le> i \<and> i < b \<longrightarrow> xs ! i = ys ! i"
  proof (intro allI impI)
    fix i assume i: "a \<le> i \<and> i < b"
    then have "i - a < b - a" "a + (i - a) = i" by auto
    then have "pslice xs a b ! (i - a) = xs ! i" "pslice ys a b ! (i - a) = ys ! i"
      using i assms nth_pslice [of "i - a" b a xs] nth_pslice [of "i - a" b a ys] by auto
    with eq show "xs ! i = ys ! i" by simp
  qed
next
  assume "\<forall>i. a \<le> i \<and> i < b \<longrightarrow> xs ! i = ys ! i"
  then show "pslice xs a b = pslice ys a b"
    using assms by (intro nth_equalityI) (auto split: if_splits)
qed

lemma pslice_replicate [simp]: "pslice (replicate n x) a b = replicate (min (b - a) (n - a)) x"
  by (simp add: pslice_def)

lemma nth_put:
  "off + length ys \<le> length xs \<Longrightarrow> i < length xs \<Longrightarrow>
    put xs off ys ! i = (if off \<le> i \<and> i < off + length ys then ys ! (i - off) else xs ! i)"
  by (auto simp: put_def nth_append)

lemma pslice_put_same [simp]:
  "off + length ys \<le> length xs \<Longrightarrow> e = off + length ys \<Longrightarrow> pslice (put xs off ys) off e = ys"
  by (simp add: put_def pslice_def)

lemma pslice_put_before:
  "off + length ys \<le> length xs \<Longrightarrow> b \<le> off \<Longrightarrow> pslice (put xs off ys) a b = pslice xs a b"
  by (auto simp: pslice_eq_nth nth_put)

lemma pslice_put_after:
  "off + length ys \<le> length xs \<Longrightarrow> off + length ys \<le> a \<Longrightarrow> b \<le> length xs \<Longrightarrow>
    pslice (put xs off ys) a b = pslice xs a b"
  by (auto simp: pslice_eq_nth nth_put)

lemma put_append_left [slicing]:
  "off + length ys \<le> length xs \<Longrightarrow> put (xs @ zs) off ys = put xs off ys @ zs"
  by (simp add: put_def)

lemma put_append_right [slicing]:
  "length xs \<le> off \<Longrightarrow> put (xs @ zs) off ys = xs @ put zs (off - length xs) ys"
  by (simp add: put_def Suc_diff_le)

lemma put_0 [slicing]: "put xs 0 ys = ys @ drop (length ys) xs"
  by (simp add: put_def)

lemma pslice_update_inside:
  "a \<le> i \<Longrightarrow> pslice (xs[i := x]) a b = (pslice xs a b)[i - a := x]"
  by (simp add: pslice_def drop_update_swap take_update_swap)

lemma pslice_update_outside: "i < a \<or> b \<le> i \<Longrightarrow> pslice (xs[i := x]) a b = pslice xs a b"
  by (auto simp: pslice_alt take_update_swap list_update_beyond)

section \<open>Little-endian integers\<close>

text \<open>
  \<open>int.from_bytes(b, "little")\<close>, which is also what \<open>struct.unpack\<close> reads for the unsigned
  formats, and the bytes \<open>struct.pack\<close> writes for a value in range.
\<close>

fun le_val :: "bytes \<Rightarrow> nat" where
  "le_val [] = 0"
| "le_val (b # bs) = unat b + 256 * le_val bs"

fun le_bytes :: "nat \<Rightarrow> nat \<Rightarrow> bytes" where
  "le_bytes 0 v = []"
| "le_bytes (Suc n) v = word_of_nat v # le_bytes n (v div 256)"

text \<open>\<open>int.from_bytes(b, "big")\<close>.\<close>

definition be_val :: "bytes \<Rightarrow> nat" where
  "be_val bs = le_val (rev bs)"

text \<open>
  \<open>struct.unpack_from\<close> of an unsigned \<open>n\<close>-byte little-endian field at an offset the caller has
  checked to be in range.
\<close>

definition le_at :: "bytes \<Rightarrow> nat \<Rightarrow> nat \<Rightarrow> nat" where
  "le_at n_src off n = le_val (pslice n_src off (off + n))"

text \<open>\<open>struct.pack\<close> of an unsigned \<open>n\<close>-byte field: \<open>struct.error\<close> when out of range.\<close>

definition struct_pack :: "nat \<Rightarrow> int \<Rightarrow> bytes res" where
  "struct_pack n v =
     (if 0 \<le> v \<and> v < 256 ^ n then Inr (le_bytes n (nat v)) else Inl StructError)"

text \<open>\<open>struct.pack_into\<close> at an offset the caller has checked to be in range.\<close>

definition struct_pack_into :: "nat \<Rightarrow> bytes \<Rightarrow> nat \<Rightarrow> int \<Rightarrow> bytes res" where
  "struct_pack_into n xs off v = res_bind (struct_pack n v) (\<lambda>bs. Inr (put xs off bs))"

lemma length_le_bytes [simp]: "length (le_bytes n v) = n"
  by (induction n arbitrary: v) auto

lemma le_val_bound: "le_val bs < 256 ^ length bs"
proof (induction bs)
  case (Cons b bs)
  have "unat b < 256" using unsigned_less [of b] by simp
  with Cons show ?case by simp
qed simp

lemma le_val_le_bytes [simp]: "le_val (le_bytes n v) = v mod 256 ^ n"
proof (induction n arbitrary: v)
  case (Suc n)
  have "unat (word_of_nat v :: byte) = v mod 256"
    by (simp add: unat_of_nat)
  with Suc show ?case by (simp add: mod_mult2_eq)
qed simp

lemma le_bytes_le_val [simp]: "le_bytes (length bs) (le_val bs) = bs"
proof (induction bs)
  case (Cons b bs)
  have "unat b < 256" using unsigned_less [of b] by simp
  then have "(unat b + 256 * le_val bs) div 256 = le_val bs"
    and "word_of_nat (unat b + 256 * le_val bs) = b"
    by (simp_all add: word_unat_eq_iff unat_of_nat del: of_nat_add of_nat_mult)
  with Cons show ?case by simp
qed simp

lemma le_val_inj: "length as = length bs \<Longrightarrow> le_val as = le_val bs \<Longrightarrow> as = bs"
  by (metis le_bytes_le_val)

lemma le_at_append_left [slicing]:
  "off + n \<le> length xs \<Longrightarrow> le_at (xs @ ys) off n = le_at xs off n"
  by (simp add: le_at_def slicing)

lemma le_at_append_right [slicing]:
  "length xs \<le> off \<Longrightarrow> le_at (xs @ ys) off n = le_at ys (off - length xs) n"
  by (simp add: le_at_def slicing)

lemma le_at_bound: "le_at xs off n < 256 ^ n"
proof -
  have "le_at xs off n < 256 ^ length (pslice xs off (off + n))"
    unfolding le_at_def by (rule le_val_bound)
  also have "\<dots> \<le> 256 ^ n" by (rule power_increasing) auto
  finally show ?thesis .
qed

lemma le_at_le_bytes [simp]: "le_at (le_bytes n v) 0 n = v mod 256 ^ n"
  by (simp add: le_at_def)

lemma le_bytes_2: "le_bytes 2 v = [word_of_nat v, word_of_nat (v div 256)]"
  by (simp add: numeral_2_eq_2)

lemma le_bytes_4: "le_bytes 4 v = [word_of_nat v, word_of_nat (v div 256),
    word_of_nat (v div 256 div 256), word_of_nat (v div 256 div 256 div 256)]"
proof -
  have "(4 :: nat) = Suc (Suc (Suc (Suc 0)))" by simp
  then show ?thesis by (simp only: le_bytes.simps)
qed

lemma le_at_Cons [slicing]: "0 < off \<Longrightarrow> le_at (x # xs) off n = le_at xs (off - 1) n"
  by (simp add: le_at_def slicing)

lemma le_at_update_outside: "i < off \<or> off + n \<le> i \<Longrightarrow> le_at (xs[i := x]) off n = le_at xs off n"
  by (simp add: le_at_def pslice_update_outside)

text \<open>Changing a byte of a field changes the field's value.\<close>

lemma le_at_update_inside:
  assumes "off \<le> i" "i < off + n" "off + n \<le> length xs" "xs ! i \<noteq> x"
  shows "le_at (xs[i := x]) off n \<noteq> le_at xs off n"
proof
  assume "le_at (xs[i := x]) off n = le_at xs off n"
  then have "pslice (xs[i := x]) off (off + n) = pslice xs off (off + n)"
    unfolding le_at_def by (rule le_val_inj [rotated]) simp
  then have "pslice (xs[i := x]) off (off + n) ! (i - off) = pslice xs off (off + n) ! (i - off)"
    by simp
  then show False using assms by simp
qed

lemma le_at_field [slicing]: "le_at (le_bytes n v @ xs) 0 n = v mod 256 ^ n"
  by (simp add: le_at_append_left)

lemma pslice_prefix [slicing]: "b = length xs \<Longrightarrow> pslice (xs @ ys) 0 b = xs"
  by (simp add: pslice_def)

lemma struct_pack_Inr:
  "struct_pack n v = Inr bs \<longleftrightarrow> 0 \<le> v \<and> v < 256 ^ n \<and> bs = le_bytes n (nat v)"
  by (auto simp: struct_pack_def)

lemma struct_pack_ok [simp]:
  "0 \<le> v \<Longrightarrow> v < 256 ^ n \<Longrightarrow> struct_pack n v = Inr (le_bytes n (nat v))"
  by (simp add: struct_pack_def)

lemma struct_pack_into_ok [simp]:
  "0 \<le> v \<Longrightarrow> v < 256 ^ n \<Longrightarrow> struct_pack_into n xs off v = Inr (put xs off (le_bytes n (nat v)))"
  by (simp add: struct_pack_into_def)

lemma struct_pack_into_error [simp]:
  "\<not> (0 \<le> v \<and> v < 256 ^ n) \<Longrightarrow> struct_pack_into n xs off v = Inl StructError"
  by (simp add: struct_pack_into_def struct_pack_def)

section \<open>Python ranges\<close>

text \<open>\<open>range(0, stop, step)\<close> for a positive step.\<close>

definition range_step :: "nat \<Rightarrow> nat \<Rightarrow> nat list" where
  "range_step stop step = map (\<lambda>i. i * step) [0..<(stop + step - 1) div step]"

lemma length_range_step [simp]: "length (range_step stop step) = (stop + step - 1) div step"
  by (simp add: range_step_def)

lemma nth_range_step [simp]:
  "i < (stop + step - 1) div step \<Longrightarrow> range_step stop step ! i = i * step"
  by (simp add: range_step_def)

lemma concat_chunks:
  assumes "0 < k"
  shows "concat (map (\<lambda>i. pslice xs (i * k) (i * k + k)) [0..<n]) = take (n * k) xs"
proof (induction n)
  case (Suc n)
  have "take (n * k) xs @ pslice xs (n * k) (n * k + k) = take (n * k + k) xs"
    by (simp add: pslice_def take_add)
  with Suc show ?case by (simp add: add.commute)
qed simp

lemma ceil_div_mult: "0 < k \<Longrightarrow> n \<le> (n + k - 1) div k * (k :: nat)"
  using dividend_less_div_times [of k "n + k - 1"] by linarith

text \<open>Cutting a list into steps of \<open>k\<close> elements and joining the pieces gives the list back.\<close>

lemma concat_range_step:
  assumes "0 < k"
  shows "concat (map (\<lambda>a. pslice xs a (a + k)) (range_step (length xs) k)) = xs"
  using concat_chunks [OF assms, of xs] ceil_div_mult [OF assms, of "length xs"]
  by (simp add: range_step_def comp_def)

section \<open>Dictionaries built from a list of entries\<close>

lemma map_of_rev_distinct:
  assumes "distinct (map fst xs)"
  shows "map_of (rev xs) = map_of xs"
proof
  fix k
  have "map_of (rev xs) k = Some v \<longleftrightarrow> map_of xs k = Some v" for v
    using assms by (simp add: map_of_eq_Some_iff flip: rev_map)
  then show "map_of (rev xs) k = map_of xs k"
    by (metis not_Some_eq)
qed

end
