(* ===== verification/Crc.thy ===== *)
theory Crc
  imports Prelude
begin

text \<open>
  The two checksums of the wire and flash formats that are shift registers: the vendor's 16-bit
  CRC of \<open>cc2camera/protocol.py\<close> (\<open>crc16_normal\<close>) and the CRC-32 of Python's \<open>zlib\<close>, which
  \<open>cc2camera/image.py\<close> (\<open>jffs2_crc\<close>) uses with the initial value of JFFS2.

  The locale \<open>bit_crc\<close> states what a one-bit step needs for the register to notice every change
  confined to one byte; both steps are interpretations of it. The vendor polynomial has neither
  bit 15 nor bits 14 and 13, so its register only ever holds 13 bits after the first byte: the
  step is not injective on 16 bits, and the interpretation is for differences below \<open>2 ^ 13\<close>.
\<close>

unbundle bit_operations_syntax

section \<open>Shift-register checksums\<close>

lemma xor_zero_iff: "x XOR y = 0 \<longleftrightarrow> x = (y :: 'a::len word)"
  by (metis xor.assoc xor.left_neutral xor_self_eq)

definition crc_byte :: "('a::len word \<Rightarrow> 'a word) \<Rightarrow> 'a word \<Rightarrow> byte \<Rightarrow> 'a word" where
  "crc_byte step crc b = (step ^^ 8) (crc XOR ucast b)"

definition crc_fold :: "('a::len word \<Rightarrow> 'a word) \<Rightarrow> 'a word \<Rightarrow> bytes \<Rightarrow> 'a word" where
  "crc_fold step init data = foldl (crc_byte step) init data"

lemma crc_fold_Nil [simp]: "crc_fold step init [] = init"
  and crc_fold_Cons [simp]:
    "crc_fold step init (b # bs) = crc_fold step (crc_byte step init b) bs"
  and crc_fold_append:
    "crc_fold step init (xs @ ys) = crc_fold step (crc_fold step init xs) ys"
  by (simp_all add: crc_fold_def)

locale bit_crc =
  fixes step :: "'a::len word \<Rightarrow> 'a word"
    and good :: "'a word \<Rightarrow> bool"
  assumes step_xor: "step (x XOR y) = step x XOR step y"
    and good_step: "good d \<Longrightarrow> good (step d)"
    and step_zero: "good d \<Longrightarrow> step d = 0 \<Longrightarrow> d = 0"
    and good_byte: "good (ucast (b :: byte))"
    and byte_zero: "ucast (b :: byte) = (0 :: 'a word) \<Longrightarrow> b = 0"
begin

lemma steps_xor: "(step ^^ n) (x XOR y) = (step ^^ n) x XOR (step ^^ n) y"
  by (induction n) (simp_all add: step_xor)

lemma steps_good: "good d \<Longrightarrow> good ((step ^^ n) d)"
  by (induction n) (simp_all add: good_step)

lemma steps_zero: "good d \<Longrightarrow> (step ^^ n) d = 0 \<Longrightarrow> d = 0"
  by (induction n) (auto dest: step_zero [OF steps_good])

lemma byte_diff: "crc_byte step x b XOR crc_byte step y c
    = (step ^^ 8) ((x XOR y) XOR ucast (b XOR c))"
  by (simp add: crc_byte_def steps_xor unsigned_xor_eq ac_simps)

text \<open>A difference in the register survives whatever equal bytes follow.\<close>

lemma register_diff:
  "good (x XOR y) \<Longrightarrow> x \<noteq> y \<Longrightarrow> crc_fold step x data \<noteq> crc_fold step y data"
proof (induction data arbitrary: x y)
  case (Cons b data)
  let ?x = "crc_byte step x b" and ?y = "crc_byte step y b"
  have diff: "?x XOR ?y = (step ^^ 8) (x XOR y)"
    by (simp add: byte_diff)
  have "?x \<noteq> ?y"
    using Cons.prems diff steps_zero [of "x XOR y" 8] by (auto simp: xor_zero_iff)
  moreover have "good (?x XOR ?y)"
    using Cons.prems(1) by (simp add: diff steps_good)
  ultimately show ?case
    using Cons.IH by simp
qed simp

text \<open>Two byte strings that differ in exactly one byte never have the same checksum.\<close>

theorem one_byte_detected:
  assumes "b \<noteq> c"
  shows "crc_fold step init (xs @ b # ys) \<noteq> crc_fold step init (xs @ c # ys)"
proof -
  let ?r = "crc_fold step init xs"
  let ?x = "crc_byte step ?r b" and ?y = "crc_byte step ?r c"
  have diff: "?x XOR ?y = (step ^^ 8) (ucast (b XOR c))"
    by (simp add: byte_diff)
  have "b XOR c \<noteq> 0"
    using assms by (simp add: xor_zero_iff)
  then have "?x XOR ?y \<noteq> 0"
    unfolding diff using steps_zero [OF good_byte] byte_zero by blast
  then have "?x \<noteq> ?y" by auto
  moreover have "good (?x XOR ?y)"
    unfolding diff by (rule steps_good [OF good_byte])
  ultimately show ?thesis
    by (simp add: crc_fold_append register_diff)
qed

lemma one_byte_update_detected:
  assumes "i < length data" "data ! i \<noteq> c"
  shows "crc_fold step init (data[i := c]) \<noteq> crc_fold step init data"
  using one_byte_detected [OF assms(2) [symmetric], of init "take i data" "drop (Suc i) data"]
    assms(1) by (simp add: upd_conv_take_nth_drop id_take_nth_drop [symmetric])

end

section \<open>The vendor's 16-bit checksum\<close>

text \<open>\<open>crc = ((crc >> 1) ^ 0x1021) if (crc & 1) else (crc >> 1)\<close> on a 16-bit register.\<close>

definition crc16_bit :: "16 word \<Rightarrow> 16 word" where
  "crc16_bit crc = (if crc AND 1 \<noteq> 0 then drop_bit 1 crc XOR 0x1021 else drop_bit 1 crc)"

definition crc16_normal :: "bytes \<Rightarrow> 16 word" where
  "crc16_normal data = crc_fold crc16_bit 0xFFFF data"

section \<open>The CRC-32 of zlib and of JFFS2\<close>

definition crc32_bit :: "32 word \<Rightarrow> 32 word" where
  "crc32_bit crc = (if crc AND 1 \<noteq> 0 then drop_bit 1 crc XOR 0xEDB88320 else drop_bit 1 crc)"

text \<open>\<open>zlib.crc32(data, value)\<close>: the register is complemented on the way in and out.\<close>

definition zlib_crc32 :: "bytes \<Rightarrow> 32 word \<Rightarrow> 32 word" where
  "zlib_crc32 data value = NOT (crc_fold crc32_bit (NOT value) data)"

definition jffs2_crc :: "bytes \<Rightarrow> 32 word" where
  "jffs2_crc data = zlib_crc32 data 0xFFFFFFFF XOR 0xFFFFFFFF"

lemma jffs2_crc_fold: "jffs2_crc data = crc_fold crc32_bit 0 data"
proof -
  have "(0xFFFFFFFF :: 32 word) = - 1" by simp
  then show ?thesis
    unfolding jffs2_crc_def zlib_crc32_def
    by (simp only: bit.compl_one bit.xor_one_right bit.double_compl)
qed

section \<open>Both steps satisfy the contract\<close>

lemma and_one_iff_odd: "x AND 1 \<noteq> 0 \<longleftrightarrow> odd (x :: 'a::len word)"
  by (simp add: and_one_eq odd_iff_mod_2_eq_one)

lemma crc16_bit_odd:
  "crc16_bit x = (if odd x then drop_bit 1 x XOR 0x1021 else drop_bit 1 x)"
  unfolding crc16_bit_def and_one_iff_odd ..

lemma crc32_bit_odd:
  "crc32_bit x = (if odd x then drop_bit 1 x XOR 0xEDB88320 else drop_bit 1 x)"
  unfolding crc32_bit_def and_one_iff_odd ..

lemma unat_drop_bit_1: "unat (drop_bit 1 (x :: 'a::len word)) = unat x div 2"
  by (simp only: unat_drop_bit_eq) (simp add: drop_bit_eq_div)

lemma odd_word_iff: "odd (x :: 'a::len word) \<longleftrightarrow> odd (unat x)"
  by (simp add: bit_unsigned_iff flip: bit_0)

lemma crc16_bit_xor: "crc16_bit (x XOR y) = crc16_bit x XOR crc16_bit y"
  by (auto simp: crc16_bit_odd even_xor_iff drop_bit_xor ac_simps)

lemma crc32_bit_xor: "crc32_bit (x XOR y) = crc32_bit x XOR crc32_bit y"
  by (auto simp: crc32_bit_odd even_xor_iff drop_bit_xor ac_simps)

lemma unat_byte_bound: "unat (b :: byte) < 256"
  using unsigned_less [of b] by simp

lemma unat_word16_bound: "unat (w :: 16 word) < 65536"
  using unsigned_less [of w] by simp

lemma take_bit_word_iff: "take_bit k y = (y :: 'a::len word) \<longleftrightarrow> unat y < 2 ^ k"
  by (simp add: word_unat_eq_iff unsigned_take_bit_eq take_bit_nat_eq_self_iff)

text \<open>
  The vendor polynomial \<open>0x1021\<close> has no bit above bit 12, so each step narrows the register by one
  bit until it holds 13.
\<close>

lemma crc16_bit_bound:
  assumes "13 \<le> k" "unat x < 2 ^ Suc k"
  shows "unat (crc16_bit x) < 2 ^ k"
proof -
  have "unat (drop_bit 1 x) < 2 ^ k"
    unfolding unat_drop_bit_1 using assms(2) by simp
  moreover have "unat (0x1021 :: 16 word) < 2 ^ k"
  proof -
    have "(2 :: nat) ^ 13 \<le> 2 ^ k" using assms(1) by (rule power_increasing) simp
    then show ?thesis by simp
  qed
  ultimately have "take_bit k (drop_bit 1 x XOR 0x1021) = drop_bit 1 x XOR 0x1021"
    by (simp only: take_bit_xor take_bit_word_iff [THEN iffD2])
  then have "unat (drop_bit 1 x XOR 0x1021) < 2 ^ k"
    by (simp only: take_bit_word_iff)
  with \<open>unat (drop_bit 1 x) < 2 ^ k\<close> show ?thesis
    unfolding crc16_bit_odd by (simp split: if_split)
qed

lemma even_half_zero: "even (unat d) \<Longrightarrow> unat d div 2 = 0 \<Longrightarrow> d = (0 :: 'a::len word)"
  by (metis dvd_mult_div_cancel mult_0_right unat_eq_zero)

lemma unat_ucast_byte: "8 \<le> LENGTH('a) \<Longrightarrow> unat (ucast (b :: byte) :: 'a::len word) = unat b"
  by (simp add: unsigned_ucast_eq take_bit_nat_eq_self_iff)
     (use unat_byte_bound [of b] power_increasing [of 8 "LENGTH('a)" "2 :: nat"] in simp)

lemma crc16_step_zero:
  assumes "unat d < 2 ^ 13" "crc16_bit d = 0"
  shows "d = 0"
proof (cases "odd d")
  case True
  with assms(2) have "drop_bit 1 d = 0x1021"
    by (simp add: crc16_bit_odd xor_zero_iff)
  then have "unat d div 2 = unat (0x1021 :: 16 word)"
    by (metis unat_drop_bit_1)
  with assms(1) show ?thesis by simp
next
  case False
  with assms(2) have "unat d div 2 = 0"
    by (metis crc16_bit_odd unat_0 unat_drop_bit_1)
  with False show ?thesis
    by (intro even_half_zero) (simp_all add: odd_word_iff)
qed

lemma crc32_step_zero:
  assumes "crc32_bit d = 0"
  shows "d = 0"
proof (cases "odd d")
  case True
  with assms have "drop_bit 1 d = 0xEDB88320"
    by (simp add: crc32_bit_odd xor_zero_iff)
  then have "unat d div 2 = unat (0xEDB88320 :: 32 word)"
    by (metis unat_drop_bit_1)
  moreover have "unat d < 2 ^ 32"
    using unsigned_less [of d] by simp
  ultimately show ?thesis by simp
next
  case False
  with assms have "unat d div 2 = 0"
    by (metis crc32_bit_odd unat_0 unat_drop_bit_1)
  with False show ?thesis
    by (intro even_half_zero) (simp_all add: odd_word_iff)
qed

lemma ucast_byte_zero: "8 \<le> LENGTH('a) \<Longrightarrow> ucast (b :: byte) = (0 :: 'a::len word) \<Longrightarrow> b = 0"
  by (metis unat_0 unat_eq_zero unat_ucast_byte)

interpretation crc16: bit_crc crc16_bit "\<lambda>d. unat d < 2 ^ 13"
proof
  fix x y d :: "16 word" and b :: byte
  show "crc16_bit (x XOR y) = crc16_bit x XOR crc16_bit y"
    by (rule crc16_bit_xor)
  show "unat d < 2 ^ 13 \<Longrightarrow> unat (crc16_bit d) < 2 ^ 13"
    by (rule crc16_bit_bound) simp_all
  show "unat d < 2 ^ 13 \<Longrightarrow> crc16_bit d = 0 \<Longrightarrow> d = 0"
    by (rule crc16_step_zero)
  show "unat (ucast b :: 16 word) < 2 ^ 13"
    using unat_byte_bound [of b] by (simp add: unat_ucast_byte)
  show "ucast b = (0 :: 16 word) \<Longrightarrow> b = 0"
    by (rule ucast_byte_zero) simp_all
qed

interpretation crc32: bit_crc crc32_bit "\<lambda>_. True"
proof
  fix x y d :: "32 word" and b :: byte
  show "crc32_bit (x XOR y) = crc32_bit x XOR crc32_bit y"
    by (rule crc32_bit_xor)
  show "crc32_bit d = 0 \<Longrightarrow> d = 0"
    by (rule crc32_step_zero)
  show "ucast b = (0 :: 32 word) \<Longrightarrow> b = 0"
    by (rule ucast_byte_zero) simp_all
qed simp_all

section \<open>The register holds thirteen bits\<close>

lemma crc16_bit_steps:
  assumes "13 \<le> k"
  shows "unat x < 2 ^ (k + n) \<Longrightarrow> unat ((crc16_bit ^^ n) x) < 2 ^ k"
proof (induction n arbitrary: x)
  case (Suc n)
  then have "unat (crc16_bit x) < 2 ^ (k + n)"
    using assms by (intro crc16_bit_bound) simp_all
  with Suc.IH show ?case
    by (simp add: funpow_swap1)
qed simp

lemma crc16_byte_13_bits: "unat (crc_byte crc16_bit crc b) < 2 ^ 13"
proof -
  let ?x = "crc XOR ucast b"
  have "unat ((crc16_bit ^^ 3) ?x) < 2 ^ 13"
    by (rule crc16_bit_steps) (use unsigned_less [of ?x] in simp_all)
  then have "unat ((crc16_bit ^^ 5) ((crc16_bit ^^ 3) ?x)) < 2 ^ 13"
    by (rule crc16.steps_good)
  moreover have "(crc16_bit ^^ 8) ?x = (crc16_bit ^^ 5) ((crc16_bit ^^ 3) ?x)"
    by (simp flip: funpow_add [THEN fun_cong, simplified])
  ultimately show ?thesis
    by (simp add: crc_byte_def)
qed

lemma crc16_normal_13_bits:
  assumes "data \<noteq> []"
  shows "unat (crc16_normal data) < 2 ^ 13"
proof -
  obtain xs b where "data = xs @ [b]"
    using assms by (cases data rule: rev_cases) auto
  then show ?thesis
    using crc16_byte_13_bits by (simp add: crc16_normal_def crc_fold_append)
qed

end
