(* ===== verification/Hashes.thy ===== *)
theory Hashes
  imports Prelude
begin

text \<open>
  The two digests the code takes from Python's \<open>hashlib\<close>: MD5 (RFC 1321), whose raw 16 bytes the
  update header carries, and SHA-256 (FIPS 180-4), which the image validators compare as lower-case
  hexadecimal text.

  The component models take the digest functions as parameters, because no check depends on which
  function it is: a theorem about a validator holds for every function, this one included. What a
  component does need of a digest is the law of a locale, and the definitions here discharge it.
\<close>

unbundle bit_operations_syntax

section \<open>Contracts\<close>

text \<open>What the update header relies on: the digest fills its 16-byte field.\<close>

locale digest16 =
  fixes md5 :: "bytes \<Rightarrow> bytes"
  assumes digest_length: "length (md5 data) = 16"

text \<open>What the reports and manifests rely on: \<open>hexdigest()\<close> returns 64 hexadecimal digits.\<close>

locale hex_digest =
  fixes sha256 :: "bytes \<Rightarrow> string"
  assumes hex_length: "length (sha256 data) = 64"
    and hex_chars: "set (sha256 data) \<subseteq> set ''0123456789abcdef''"

section \<open>MD5\<close>

type_synonym word32 = "32 word"

definition md5_constants :: "word32 list" where
  "md5_constants =
    [0xD76AA478, 0xE8C7B756, 0x242070DB, 0xC1BDCEEE, 0xF57C0FAF, 0x4787C62A, 0xA8304613, 0xFD469501,
     0x698098D8, 0x8B44F7AF, 0xFFFF5BB1, 0x895CD7BE, 0x6B901122, 0xFD987193, 0xA679438E, 0x49B40821,
     0xF61E2562, 0xC040B340, 0x265E5A51, 0xE9B6C7AA, 0xD62F105D, 0x02441453, 0xD8A1E681, 0xE7D3FBC8,
     0x21E1CDE6, 0xC33707D6, 0xF4D50D87, 0x455A14ED, 0xA9E3E905, 0xFCEFA3F8, 0x676F02D9, 0x8D2A4C8A,
     0xFFFA3942, 0x8771F681, 0x6D9D6122, 0xFDE5380C, 0xA4BEEA44, 0x4BDECFA9, 0xF6BB4B60, 0xBEBFBC70,
     0x289B7EC6, 0xEAA127FA, 0xD4EF3085, 0x04881D05, 0xD9D4D039, 0xE6DB99E5, 0x1FA27CF8, 0xC4AC5665,
     0xF4292244, 0x432AFF97, 0xAB9423A7, 0xFC93A039, 0x655B59C3, 0x8F0CCC92, 0xFFEFF47D, 0x85845DD1,
     0x6FA87E4F, 0xFE2CE6E0, 0xA3014314, 0x4E0811A1, 0xF7537E82, 0xBD3AF235, 0x2AD7D2BB, 0xEB86D391]"

definition md5_shifts :: "nat list" where
  "md5_shifts =
    [7, 12, 17, 22, 7, 12, 17, 22, 7, 12, 17, 22, 7, 12, 17, 22,
     5, 9, 14, 20, 5, 9, 14, 20, 5, 9, 14, 20, 5, 9, 14, 20,
     4, 11, 16, 23, 4, 11, 16, 23, 4, 11, 16, 23, 4, 11, 16, 23,
     6, 10, 15, 21, 6, 10, 15, 21, 6, 10, 15, 21, 6, 10, 15, 21]"

text \<open>The message, a one bit, zeros up to 56 modulo 64 bytes, and the bit length.\<close>

definition md5_pad :: "bytes \<Rightarrow> bytes" where
  "md5_pad data =
     data @ [0x80] @ replicate ((119 - length data mod 64) mod 64) 0 @ le_bytes 8 (8 * length data)"

definition le_words :: "bytes \<Rightarrow> word32 list" where
  "le_words bs = map (\<lambda>i. word_of_nat (le_at bs (4 * i) 4)) [0..<length bs div 4]"

definition md5_round :: "word32 list \<Rightarrow> word32 \<times> word32 \<times> word32 \<times> word32 \<Rightarrow> nat \<Rightarrow>
    word32 \<times> word32 \<times> word32 \<times> word32" where
  "md5_round m abcd i = (case abcd of (a, b, c, d) \<Rightarrow>
     let (f, g) =
           (if i < 16 then ((b AND c) OR (NOT b AND d), i)
            else if i < 32 then ((d AND b) OR (NOT d AND c), (5 * i + 1) mod 16)
            else if i < 48 then (b XOR c XOR d, (3 * i + 5) mod 16)
            else (c XOR (b OR NOT d), (7 * i) mod 16))
     in (d, b + word_rotl (md5_shifts ! i) (f + a + md5_constants ! i + m ! g), b, c))"

definition md5_block :: "word32 \<times> word32 \<times> word32 \<times> word32 \<Rightarrow> bytes \<Rightarrow>
    word32 \<times> word32 \<times> word32 \<times> word32" where
  "md5_block abcd block = (case (abcd, foldl (md5_round (le_words block)) abcd [0..<64]) of
     ((a, b, c, d), (a', b', c', d')) \<Rightarrow> (a + a', b + b', c + c', d + d'))"

definition blocks64 :: "bytes \<Rightarrow> bytes list" where
  "blocks64 bs = map (\<lambda>i. pslice bs (64 * i) (64 * i + 64)) [0..<length bs div 64]"

definition md5_digest :: "bytes \<Rightarrow> bytes" where
  "md5_digest data =
     (case foldl md5_block (0x67452301, 0xEFCDAB89, 0x98BADCFE, 0x10325476) (blocks64 (md5_pad data)) of
        (a, b, c, d) \<Rightarrow> concat (map (\<lambda>w. le_bytes 4 (unat w)) [a, b, c, d]))"

section \<open>SHA-256\<close>

definition sha256_constants :: "word32 list" where
  "sha256_constants =
    [0x428A2F98, 0x71374491, 0xB5C0FBCF, 0xE9B5DBA5, 0x3956C25B, 0x59F111F1, 0x923F82A4, 0xAB1C5ED5,
     0xD807AA98, 0x12835B01, 0x243185BE, 0x550C7DC3, 0x72BE5D74, 0x80DEB1FE, 0x9BDC06A7, 0xC19BF174,
     0xE49B69C1, 0xEFBE4786, 0x0FC19DC6, 0x240CA1CC, 0x2DE92C6F, 0x4A7484AA, 0x5CB0A9DC, 0x76F988DA,
     0x983E5152, 0xA831C66D, 0xB00327C8, 0xBF597FC7, 0xC6E00BF3, 0xD5A79147, 0x06CA6351, 0x14292967,
     0x27B70A85, 0x2E1B2138, 0x4D2C6DFC, 0x53380D13, 0x650A7354, 0x766A0ABB, 0x81C2C92E, 0x92722C85,
     0xA2BFE8A1, 0xA81A664B, 0xC24B8B70, 0xC76C51A3, 0xD192E819, 0xD6990624, 0xF40E3585, 0x106AA070,
     0x19A4C116, 0x1E376C08, 0x2748774C, 0x34B0BCB5, 0x391C0CB3, 0x4ED8AA4A, 0x5B9CCA4F, 0x682E6FF3,
     0x748F82EE, 0x78A5636F, 0x84C87814, 0x8CC70208, 0x90BEFFFA, 0xA4506CEB, 0xBEF9A3F7, 0xC67178F2]"

definition sha256_init :: "word32 list" where
  "sha256_init =
    [0x6A09E667, 0xBB67AE85, 0x3C6EF372, 0xA54FF53A, 0x510E527F, 0x9B05688C, 0x1F83D9AB, 0x5BE0CD19]"

definition sha256_pad :: "bytes \<Rightarrow> bytes" where
  "sha256_pad data =
     data @ [0x80] @ replicate ((119 - length data mod 64) mod 64) 0 @ rev (le_bytes 8 (8 * length data))"

definition be_words :: "bytes \<Rightarrow> word32 list" where
  "be_words bs = map (\<lambda>i. word_of_nat (be_val (pslice bs (4 * i) (4 * i + 4)))) [0..<length bs div 4]"

definition sha256_extend :: "word32 list \<Rightarrow> nat \<Rightarrow> word32 list" where
  "sha256_extend w i =
     (let x = w ! (i - 15); y = w ! (i - 2);
          s0 = word_rotr 7 x XOR word_rotr 18 x XOR drop_bit 3 x;
          s1 = word_rotr 17 y XOR word_rotr 19 y XOR drop_bit 10 y
      in w @ [w ! (i - 16) + s0 + w ! (i - 7) + s1])"

fun sha256_round :: "word32 list \<Rightarrow> word32 list \<Rightarrow> nat \<Rightarrow> word32 list" where
  "sha256_round w [a, b, c, d, e, f, g, h] i =
     (let s1 = word_rotr 6 e XOR word_rotr 11 e XOR word_rotr 25 e;
          ch = (e AND f) XOR (NOT e AND g);
          t1 = h + s1 + ch + sha256_constants ! i + w ! i;
          s0 = word_rotr 2 a XOR word_rotr 13 a XOR word_rotr 22 a;
          maj = (a AND b) XOR (a AND c) XOR (b AND c)
      in [t1 + (s0 + maj), a, b, c, d + t1, e, f, g])"
| "sha256_round w st i = st"

definition sha256_block :: "word32 list \<Rightarrow> bytes \<Rightarrow> word32 list" where
  "sha256_block st block =
     (let w = foldl sha256_extend (be_words block) [16..<64]
      in map2 (+) st (foldl (sha256_round w) st [0..<64]))"

text \<open>\<open>hexdigest()\<close>: two lower-case digits per byte.\<close>

definition hex_digit :: "nat \<Rightarrow> char" where
  "hex_digit n = (''0123456789abcdef'' ! n)"

definition hex_bytes :: "bytes \<Rightarrow> string" where
  "hex_bytes bs = concat (map (\<lambda>b. [hex_digit (unat b div 16), hex_digit (unat b mod 16)]) bs)"

definition sha256_hexdigest :: "bytes \<Rightarrow> string" where
  "sha256_hexdigest data =
     hex_bytes (concat (map (\<lambda>w. rev (le_bytes 4 (unat w)))
       (foldl sha256_block sha256_init (blocks64 (sha256_pad data)))))"

section \<open>The contracts hold\<close>

interpretation md5: digest16 md5_digest
  by unfold_locales (simp add: md5_digest_def split: prod.split)

lemma length_sha256_round [simp]: "length (sha256_round w st i) = length st"
  by (induction w st i rule: sha256_round.induct) (simp_all add: Let_def)

lemma length_sha256_rounds: "length (foldl (sha256_round w) st is) = length st"
  by (induction "is" arbitrary: st) simp_all

lemma length_sha256_blocks: "length (foldl sha256_block st bs) = length st"
  by (induction bs arbitrary: st) (simp_all add: sha256_block_def Let_def length_sha256_rounds)

lemma length_hex_bytes: "length (hex_bytes bs) = 2 * length bs"
  by (induction bs) (simp_all add: hex_bytes_def)

lemma length_concat_le_bytes:
  "length (concat (map (\<lambda>w. rev (le_bytes 4 (unat w))) ws)) = 4 * length ws"
  by (induction ws) simp_all

lemma hex_digit_in: "n < 16 \<Longrightarrow> hex_digit n \<in> set ''0123456789abcdef''"
  unfolding hex_digit_def by (rule nth_mem) simp

lemma set_hex_bytes_subset:
  assumes "\<And>n. n < 16 \<Longrightarrow> hex_digit n \<in> A"
  shows "set (hex_bytes bs) \<subseteq> A"
proof (induction bs)
  case (Cons b bs)
  have "unat b div 16 < 16"
    using unsigned_less [of b, where ?'a = nat] by simp
  then have "hex_digit (unat b div 16) \<in> A" by (rule assms)
  moreover have "hex_digit (unat b mod 16) \<in> A" by (rule assms) simp
  ultimately show ?case
    using Cons by (simp add: hex_bytes_def)
qed (simp add: hex_bytes_def)

lemma set_hex_bytes: "set (hex_bytes bs) \<subseteq> set ''0123456789abcdef''"
  by (rule set_hex_bytes_subset) (rule hex_digit_in)

interpretation sha256: hex_digest sha256_hexdigest
proof
  fix data :: bytes
  have "length sha256_init = 8" by (simp add: sha256_init_def)
  then show "length (sha256_hexdigest data) = 64"
    by (simp add: sha256_hexdigest_def length_hex_bytes length_concat_le_bytes length_sha256_blocks)
  show "set (sha256_hexdigest data) \<subseteq> set ''0123456789abcdef''"
    unfolding sha256_hexdigest_def by (rule set_hex_bytes)
qed

end
