(* ===== verification/Protocol.thy ===== *)
theory Protocol
  imports Prelude Crc Hashes
begin

text \<open>
  \<open>cc2camera/protocol.py\<close>: the frames of the two updater stages, the update blob and the local
  checks on a restore image. The normal (Linux) stage exchanges fixed 1024-byte reports with a
  16-bit checksum; the bootloader stage exchanges length-prefixed frames with an additive
  checksum, carried in 3072-byte reports.

  \<open>hashlib.md5\<close> is a parameter (\<open>md5\<close>, returning the digest bytes): nothing here depends on
  which digest it is, only that it has 16 bytes, the law of the locale \<open>digest16\<close>.
\<close>

unbundle bit_operations_syntax

section \<open>Constants\<close>

definition FLASH_SIZE :: nat where "FLASH_SIZE = 0x800000"
definition UPGRADE_FLAG_OFFSET :: nat where "UPGRADE_FLAG_OFFSET = 0x7F8000"
definition UPGRADE_FLAG_0 :: nat where "UPGRADE_FLAG_0 = 0x55504454"
definition UPGRADE_MODE_CDC :: int where "UPGRADE_MODE_CDC = 0x010203A0"
definition UPGRADE_MODE_HID :: int where "UPGRADE_MODE_HID = 0x010203A1"
definition NORMAL_VID :: nat where "NORMAL_VID = 0xA108"
definition NORMAL_PID :: nat where "NORMAL_PID = 0x2240"
definition BOOT_VID :: nat where "BOOT_VID = 0xA108"
definition BOOT_HID_PID :: nat where "BOOT_HID_PID = 0xFF08"
definition NORMAL_REPORT_SIZE :: nat where "NORMAL_REPORT_SIZE = 1024"
definition BOOT_REPORT_SIZE :: nat where "BOOT_REPORT_SIZE = 3072"
definition BOOT_REPORT_ID :: byte where "BOOT_REPORT_ID = 1"
definition BOOT_FRAME_CAPACITY :: nat where "BOOT_FRAME_CAPACITY = BOOT_REPORT_SIZE - 1"
definition BOOT_DATA_OVERHEAD :: nat where "BOOT_DATA_OVERHEAD = 11"
definition BOOT_DATA_SIZE :: nat where "BOOT_DATA_SIZE = BOOT_FRAME_CAPACITY - BOOT_DATA_OVERHEAD"
definition BOOT_IMAGE_HEADER_SIZE :: nat where "BOOT_IMAGE_HEADER_SIZE = 128"

lemmas protocol_consts [constants] =
  FLASH_SIZE_def UPGRADE_FLAG_OFFSET_def UPGRADE_FLAG_0_def UPGRADE_MODE_CDC_def
  UPGRADE_MODE_HID_def NORMAL_VID_def NORMAL_PID_def BOOT_VID_def BOOT_HID_PID_def
  NORMAL_REPORT_SIZE_def BOOT_REPORT_SIZE_def BOOT_REPORT_ID_def BOOT_FRAME_CAPACITY_def
  BOOT_DATA_OVERHEAD_def BOOT_DATA_SIZE_def BOOT_IMAGE_HEADER_SIZE_def

section \<open>Normal-mode reports\<close>

record normal_frame =
  nf_command :: nat
  nf_frame_type :: nat
  nf_status :: nat
  nf_payload :: bytes

text \<open>
  The report before its checksum: zeroed, then report ID, magic, command, type, length, status
  and payload. \<open>status\<close> is the only field the guards leave unchecked, so packing it may raise
  \<open>struct.error\<close>.
\<close>

definition fill_normal_report :: "int \<Rightarrow> bytes \<Rightarrow> int \<Rightarrow> int \<Rightarrow> bytes res" where
  "fill_normal_report command payload frame_type status =
     (let report = replicate NORMAL_REPORT_SIZE 0;
          report = report[0 := 1];
          report = put report 1 [0x5A, 0x5A]
      in res_bind (struct_pack_into 2 report 3 command) (\<lambda>report.
         let report = report[5 := word_of_int frame_type]
         in res_bind (struct_pack_into 2 report 6 (int (length payload))) (\<lambda>report.
            res_bind (struct_pack_into 4 report 8 status) (\<lambda>report.
            Inr (put report 14 payload)))))"

definition build_normal_report :: "int \<Rightarrow> bytes \<Rightarrow> int \<Rightarrow> int \<Rightarrow> bytes res" where
  "build_normal_report command payload frame_type status =
     (if \<not> (0 \<le> command \<and> command \<le> 0xFFFF)
      then Inl (ProtocolError ''normal-mode command must fit in 16 bits'')
      else if frame_type \<noteq> 1 \<and> frame_type \<noteq> 2
      then Inl (ProtocolError ''payload-bearing normal frame type must be 1 or 2'')
      else if length payload > NORMAL_REPORT_SIZE - 14
      then Inl (ProtocolError ''normal-mode payload is too large'')
      else res_bind (fill_normal_report command payload frame_type status) (\<lambda>report.
        let crc_input = take 12 report @ payload
        in struct_pack_into 2 report 12 (int (unat (crc16_normal crc_input)))))"

text \<open>A report may arrive without its leading report ID, which the parser then puts back.\<close>

definition with_report_id :: "bytes \<Rightarrow> bytes" where
  "with_report_id report =
     (if length report = NORMAL_REPORT_SIZE - 1 \<and> take 2 report = [0x5A, 0x5A]
      then 1 # report else report)"

text \<open>
  The checks after that. The unpacked offsets are within the 14 header bytes that the length
  check guarantees.
\<close>

definition parse_identified_report :: "bytes \<Rightarrow> normal_frame res" where
  "parse_identified_report report =
     (if length report < 14 then Inl (ProtocolError ''short normal-mode report'')
      else if report ! 0 \<noteq> 1 then Inl (ProtocolError ''unexpected normal-mode report ID'')
      else if pslice report 1 3 \<noteq> [0x5A, 0x5A] then Inl (ProtocolError ''bad normal-mode magic'')
      else
        let command = le_at report 3 2;
            frame_type = unat (report ! 5);
            len = le_at report 6 2;
            status = le_at report 8 4
        in if 14 + len > length report
           then Inl (ProtocolError ''normal-mode payload length exceeds report'')
           else
             let payload = pslice report 14 (14 + len);
                 stored_crc = le_at report 12 2;
                 crc_input = take 12 report @ (if frame_type = 1 \<or> frame_type = 2 then payload else [])
             in if unat (crc16_normal crc_input) \<noteq> stored_crc
                then Inl (ProtocolError ''normal-mode CRC mismatch'')
                else Inr \<lparr>nf_command = command, nf_frame_type = frame_type,
                          nf_status = status, nf_payload = payload\<rparr>)"

definition parse_normal_report :: "bytes \<Rightarrow> normal_frame res" where
  "parse_normal_report report = parse_identified_report (with_report_id report)"

definition upgrade_flag_payload :: "int \<Rightarrow> bytes res" where
  "upgrade_flag_payload mode =
     (if mode \<noteq> UPGRADE_MODE_CDC \<and> mode \<noteq> UPGRADE_MODE_HID
      then Inl (ProtocolError ''unknown bootloader transport flag'')
      else res_bind (struct_pack 4 (int UPGRADE_FLAG_0)) (\<lambda>a.
           res_bind (struct_pack 4 mode) (\<lambda>b. Inr (a @ b))))"

section \<open>Bootloader frames\<close>

text \<open>\<open>sum(data) & 0xFF\<close>.\<close>

definition additive_checksum :: "bytes \<Rightarrow> byte" where
  "additive_checksum data = word_of_nat (sum_list (map unat data))"

record boot_frame =
  bf_frame_type :: nat
  bf_payload :: bytes
  bf_total_length :: nat

definition build_boot_frame :: "int \<Rightarrow> bytes \<Rightarrow> bytes res" where
  "build_boot_frame frame_type payload =
     (let total = length payload + 7
      in if total > 0xFFFF \<or> total > BOOT_FRAME_CAPACITY
         then Inl (ProtocolError ''bootloader frame is too large'')
         else
           let frame = replicate total 0;
               frame = put frame 0 [0x80, 0x00, 0xEE];
               frame = frame[3 := word_of_int frame_type]
           in res_bind (struct_pack_into 2 frame 4 (int total)) (\<lambda>frame.
              let frame = put frame 6 payload
              in Inr (frame[total - 1 := additive_checksum (butlast frame)])))"

definition parse_boot_frame :: "bytes \<Rightarrow> bool \<Rightarrow> boot_frame res" where
  "parse_boot_frame data device_response =
     (let expected_magic = (if device_response then [0x81, 0x00, 0xEE] else [0x80, 0x00, 0xEE])
      in if length data < 7 then Inl (ProtocolError ''short bootloader frame'')
         else if take 3 data \<noteq> expected_magic
         then Inl (ProtocolError ''bad bootloader frame magic'')
         else
           let total = le_at data 4 2
           in if \<not> (7 \<le> total \<and> total \<le> length data)
              then Inl (ProtocolError ''invalid bootloader frame length'')
              else
                let frame = take total data
                in if additive_checksum (butlast frame) \<noteq> last frame
                   then Inl (ProtocolError ''bootloader additive checksum mismatch'')
                   else Inr \<lparr>bf_frame_type = unat (frame ! 3), bf_payload = drop 6 (butlast frame),
                             bf_total_length = total\<rparr>)"

text \<open>\<open>frame.ljust(BOOT_FRAME_CAPACITY, b"\0")\<close> behind the report ID.\<close>

definition to_boot_hid_report :: "bytes \<Rightarrow> bytes res" where
  "to_boot_hid_report frame =
     (if length frame > BOOT_FRAME_CAPACITY
      then Inl (ProtocolError ''frame does not fit in a bootloader HID report'')
      else Inr (BOOT_REPORT_ID # frame @ replicate (BOOT_FRAME_CAPACITY - length frame) 0))"

definition from_boot_hid_report :: "bytes \<Rightarrow> boot_frame res" where
  "from_boot_hid_report report =
     parse_boot_frame
       (case report of [] \<Rightarrow> report | b # rest \<Rightarrow> if b = BOOT_REPORT_ID then rest else report)
       True"

section \<open>The update blob\<close>

record update_plan =
  flash_offset :: int
  image_size :: int
  transfer_size :: int
  image_md5 :: string
  packet_count :: int
  packet_payload_size :: int
  packets_per_ack :: int

definition validate_flash_range :: "int \<Rightarrow> int \<Rightarrow> unit res" where
  "validate_flash_range offset len =
     (if offset < 0 \<or> len \<le> 0
      then Inl (ProtocolError ''flash offset must be nonnegative and length must be positive'')
      else if offset + len > int FLASH_SIZE
      then Inl (ProtocolError ''flash range exceeds the 8 MiB device'')
      else Inr ())"

text \<open>
  \<open>math.ceil(len(blob) / BOOT_DATA_SIZE)\<close> divides two integers below \<open>2 ^ 24\<close> in floating point;
  the correctly rounded quotient has the same ceiling as the exact one, which is written here in
  integers.
\<close>

definition build_update_blob :: "(bytes \<Rightarrow> bytes) \<Rightarrow> bytes \<Rightarrow> int \<Rightarrow> (bytes \<times> update_plan) res" where
  "build_update_blob md5 img offset =
     res_bind (validate_flash_range offset (int (length img))) (\<lambda>_.
     let header = replicate BOOT_IMAGE_HEADER_SIZE 0
     in res_bind (struct_pack_into 4 header 4 offset) (\<lambda>header.
        res_bind (struct_pack_into 4 header 8 (int (length img))) (\<lambda>header.
        let digest = md5 img;
            header = take 12 header @ digest @ drop 28 header;
            blob = header @ img
        in Inr (blob, \<lparr>flash_offset = offset,
                       image_size = int (length img),
                       transfer_size = int (length blob),
                       image_md5 = hex_bytes digest,
                       packet_count = int ((length blob + BOOT_DATA_SIZE - 1) div BOOT_DATA_SIZE),
                       packet_payload_size = int BOOT_DATA_SIZE,
                       packets_per_ack = 1\<rparr>))))"

definition build_metadata_frame :: "update_plan \<Rightarrow> int \<Rightarrow> bytes res" where
  "build_metadata_frame plan firmware_version =
     res_bind (struct_pack 2 (packet_payload_size plan)) (\<lambda>a.
     res_bind (struct_pack 4 (transfer_size plan)) (\<lambda>b.
     res_bind (struct_pack 2 (packets_per_ack plan)) (\<lambda>c.
     res_bind (struct_pack 2 firmware_version) (\<lambda>d.
     build_boot_frame 1 (a @ b @ c @ d)))))"

text \<open>
  The generator yields each numbered frame or raises at that frame, so it is the list of the
  results in order; a consumer stops at the first error.
\<close>

definition data_frame :: "bytes \<Rightarrow> nat \<Rightarrow> nat \<Rightarrow> bytes res" where
  "data_frame blob sequence start =
     res_bind (struct_pack 4 (int sequence)) (\<lambda>s.
     build_boot_frame 3 (s @ pslice blob start (start + BOOT_DATA_SIZE)))"

definition iter_data_frames :: "bytes \<Rightarrow> (nat \<times> bytes res) list" where
  "iter_data_frames blob =
     map (\<lambda>(sequence, start). (sequence, data_frame blob sequence start))
       (enumerate 0 (range_step (length blob) BOOT_DATA_SIZE))"

definition validate_full_restore_image :: "bytes \<Rightarrow> unit res" where
  "validate_full_restore_image img =
     (if length img \<noteq> FLASH_SIZE
      then Inl (ProtocolError ''full restore requires exactly 8388608 bytes'')
      else if le_at img UPGRADE_FLAG_OFFSET 4 = UPGRADE_FLAG_0
      then Inl (ProtocolError ''image contains the persistent upgrade magic at 0x7f8000 and would boot-loop'')
      else Inr ())"

lemma unat_word_of_int_byte: "unat (word_of_int i :: byte) = nat (i mod 256)"
  by (simp add: unsigned_of_int take_bit_eq_mod)

section \<open>What the report builder lays out\<close>

definition normal_header :: "nat \<Rightarrow> nat \<Rightarrow> nat \<Rightarrow> nat \<Rightarrow> bytes" where
  "normal_header command frame_type len status =
     [1, 0x5A, 0x5A] @ le_bytes 2 command @ [word_of_nat frame_type] @ le_bytes 2 len @ le_bytes 4 status"

lemma length_normal_header [simp]: "length (normal_header c t l s) = 12"
  by (simp add: normal_header_def)

definition normal_layout :: "nat \<Rightarrow> bytes \<Rightarrow> nat \<Rightarrow> nat \<Rightarrow> bytes" where
  "normal_layout command payload frame_type status =
     (let header = normal_header command frame_type (length payload) status
      in header @ le_bytes 2 (unat (crc16_normal (header @ payload))) @ payload
         @ replicate (NORMAL_REPORT_SIZE - 14 - length payload) 0)"

lemma length_normal_layout:
  "length payload \<le> NORMAL_REPORT_SIZE - 14 \<Longrightarrow>
    length (normal_layout c payload t s) = NORMAL_REPORT_SIZE"
  by (simp add: normal_layout_def constants Let_def)

lemma word_of_int_nat: "0 \<le> i \<Longrightarrow> (word_of_int i :: byte) = word_of_nat (nat i)"
  by (metis nat_0_le of_int_of_nat_eq)

lemma fill_normal_report_layout:
  assumes "0 \<le> command" "command \<le> 0xFFFF" "0 \<le> frame_type"
    and "length payload \<le> NORMAL_REPORT_SIZE - 14" "0 \<le> status" "status < 2 ^ 32"
  shows "fill_normal_report command payload frame_type status =
     Inr (normal_header (nat command) (nat frame_type) (length payload) (nat status)
          @ [0, 0] @ payload @ replicate (NORMAL_REPORT_SIZE - 14 - length payload) 0)"
proof -
  let ?zs = "replicate 1010 (0 :: byte)"
  let ?c = "le_bytes 2 (nat command)" and ?l = "le_bytes 2 (length payload)"
    and ?s = "le_bytes 4 (nat status)" and ?t = "word_of_nat (nat frame_type) :: byte"
  have zeros: "replicate NORMAL_REPORT_SIZE (0 :: byte)
      = [0, 0, 0, 0, 0, 0, 0, 0, 0, 0, 0, 0, 0, 0] @ ?zs"
    using replicate_add [of 14 1010 "0 :: byte"] by (simp add: constants numeral_eq_Suc)
  have magic: "put ((replicate NORMAL_REPORT_SIZE (0 :: byte))[0 := 1]) 1 [0x5A, 0x5A]
      = [1, 0x5A, 0x5A, 0, 0, 0, 0, 0, 0, 0, 0, 0, 0, 0] @ ?zs"
    unfolding zeros by (simp add: put_def)
  have cmd: "put ([1, 0x5A, 0x5A, 0, 0, 0, 0, 0, 0, 0, 0, 0, 0, 0] @ ?zs) 3 ?c
      = ([1, 0x5A, 0x5A] @ ?c @ [0, 0, 0, 0, 0, 0, 0, 0, 0]) @ ?zs"
    by (simp add: put_append_left) (simp add: put_def)
  have ftype: "(([1, 0x5A, 0x5A] @ ?c @ [0, 0, 0, 0, 0, 0, 0, 0, 0]) @ ?zs)[5 := ?t]
      = ([1, 0x5A, 0x5A] @ ?c @ [?t, 0, 0, 0, 0, 0, 0, 0, 0]) @ ?zs"
    by (simp add: le_bytes_2)
  have len: "put (([1, 0x5A, 0x5A] @ ?c @ [?t, 0, 0, 0, 0, 0, 0, 0, 0]) @ ?zs) 6 ?l
      = ([1, 0x5A, 0x5A] @ ?c @ [?t] @ ?l @ [0, 0, 0, 0, 0, 0]) @ ?zs"
    by (simp add: put_def le_bytes_2)
  have stat: "put (([1, 0x5A, 0x5A] @ ?c @ [?t] @ ?l @ [0, 0, 0, 0, 0, 0]) @ ?zs) 8 ?s
      = ([1, 0x5A, 0x5A] @ ?c @ [?t] @ ?l @ ?s @ [0, 0]) @ ?zs"
    by (simp add: put_def le_bytes_2)
  have pay: "put (([1, 0x5A, 0x5A] @ ?c @ [?t] @ ?l @ ?s @ [0, 0]) @ ?zs) 14 payload
      = ([1, 0x5A, 0x5A] @ ?c @ [?t] @ ?l @ ?s @ [0, 0]) @ payload @ drop (length payload) ?zs"
    by (subst put_append_right) (simp_all add: put_0)
  have ranges: "int (length payload) < 256 ^ 2" "command < 256 ^ 2" "status < 256 ^ 4"
    using assms by (simp_all add: constants)
  show ?thesis
    unfolding fill_normal_report_def Let_def
    using assms ranges
    by (simp only: magic struct_pack_into_ok res_bind.simps cmd ftype len stat pay word_of_int_nat
        nat_int of_nat_0_le_iff)
       (simp add: normal_header_def constants)
qed

lemma build_normal_report_eq:
  assumes "0 \<le> command" "command \<le> 0xFFFF" "frame_type = 1 \<or> frame_type = 2"
    and "length payload \<le> NORMAL_REPORT_SIZE - 14" "0 \<le> status" "status < 2 ^ 32"
  shows "build_normal_report command payload frame_type status =
    Inr (normal_layout (nat command) payload (nat frame_type) (nat status))"
proof -
  let ?h = "normal_header (nat command) (nat frame_type) (length payload) (nat status)"
  have crc: "unat (crc16_normal (?h @ payload)) < 256 ^ 2"
    using unsigned_less [of "crc16_normal (?h @ payload)"] by simp
  have "0 \<le> frame_type" using assms(3) by auto
  then show ?thesis
    using assms crc
    by (simp add: build_normal_report_def fill_normal_report_layout normal_layout_def
        Let_def put_append_right put_0 del: of_nat_unat)
qed

lemma build_normal_report_Inr:
  assumes "build_normal_report command payload frame_type status = Inr r"
  shows "0 \<le> command" "command \<le> 0xFFFF" "frame_type = 1 \<or> frame_type = 2"
    "length payload \<le> NORMAL_REPORT_SIZE - 14" "0 \<le> status" "status < 2 ^ 32"
    "r = normal_layout (nat command) payload (nat frame_type) (nat status)"
proof -
  show g: "0 \<le> command" "command \<le> 0xFFFF" "frame_type = 1 \<or> frame_type = 2"
    "length payload \<le> NORMAL_REPORT_SIZE - 14"
    using assms by (auto simp: build_normal_report_def split: if_splits)
  have "0 \<le> status \<and> status < 256 ^ 4"
  proof (rule ccontr)
    assume "\<not> (0 \<le> status \<and> status < 256 ^ 4)"
    with assms show False
      by (auto simp: build_normal_report_def fill_normal_report_def Let_def split: if_splits)
  qed
  then show "0 \<le> status" "status < 2 ^ 32" by simp_all
  with g assms show "r = normal_layout (nat command) payload (nat frame_type) (nat status)"
    by (simp add: build_normal_report_eq)
qed

text \<open>
  The parser on a report in the builder's layout, with any header, checksum and payload bytes: it
  accepts exactly when the stored checksum is the one of the covered bytes.
\<close>

lemma parse_normal_layout:
  assumes "t = 1 \<or> t = 2" "length payload < 65536" "s < 2 ^ 32" "c < 65536"
    and "k + length payload + 14 \<noteq> NORMAL_REPORT_SIZE - 1"
  shows "parse_normal_report (normal_header c t (length payload) s @ le_bytes 2 crc @ payload @ replicate k 0)
    = (if unat (crc16_normal (normal_header c t (length payload) s @ payload)) \<noteq> crc mod 65536
       then Inl (ProtocolError ''normal-mode CRC mismatch'')
       else Inr \<lparr>nf_command = c, nf_frame_type = t, nf_status = s, nf_payload = payload\<rparr>)"
proof -
  let ?h = "normal_header c t (length payload) s"
  let ?r = "?h @ le_bytes 2 crc @ payload @ replicate k 0"
  have len: "length ?r = k + length payload + 14" by simp
  have t: "unat (word_of_nat t :: byte) = t"
    using assms(1) by auto
  have fields: "?r ! 0 = 1" "pslice ?r 1 3 = [0x5A, 0x5A]" "take 12 ?r = ?h"
    "le_at ?r 3 2 = c" "unat (?r ! 5) = t" "le_at ?r 6 2 = length payload"
    "le_at ?r 8 4 = s" "pslice ?r 14 (14 + length payload) = payload"
    "le_at ?r 12 2 = crc mod 65536"
    using assms(2-4) t
    by (simp_all add: normal_header_def slicing nth_append)
  show ?thesis
    unfolding parse_normal_report_def parse_identified_report_def with_report_id_def Let_def
    using assms(5) by (simp add: len fields assms(1) del: append_assoc One_nat_def)
qed

text \<open>Replacing a byte of the header or of the payload replaces it in the checksummed bytes.\<close>

lemma crc16_normal_update:
  "i < length data \<Longrightarrow> data ! i \<noteq> b \<Longrightarrow> crc16_normal (data[i := b]) \<noteq> crc16_normal data"
  unfolding crc16_normal_def by (rule crc16.one_byte_update_detected)

lemma additive_checksum_append:
  "additive_checksum (xs @ ys) = additive_checksum xs + additive_checksum ys"
  by (simp add: additive_checksum_def)

lemma additive_checksum_Cons [simp]: "additive_checksum (x # xs) = x + additive_checksum xs"
  by (simp add: additive_checksum_def)

lemma additive_checksum_Nil [simp]: "additive_checksum [] = 0"
  by (simp add: additive_checksum_def)

lemma additive_checksum_update:
  assumes "i < length data"
  shows "additive_checksum (data[i := b]) = additive_checksum data - data ! i + b"
proof -
  have "additive_checksum (take i data @ data ! i # drop (Suc i) data) = additive_checksum data"
    using assms by (simp add: id_take_nth_drop [symmetric])
  then show ?thesis
    using assms by (simp add: upd_conv_take_nth_drop additive_checksum_append algebra_simps)
qed

section \<open>What the frame builder lays out\<close>

definition boot_layout :: "byte list \<Rightarrow> byte \<Rightarrow> bytes \<Rightarrow> bytes" where
  "boot_layout magic t payload =
     (let body = magic @ [t] @ le_bytes 2 (length payload + 7) @ payload
      in body @ [additive_checksum body])"

lemma length_boot_layout: "length (boot_layout magic t payload) = length magic + length payload + 4"
  by (simp add: boot_layout_def Let_def)

lemma build_boot_frame_eq:
  assumes "length payload + 7 \<le> BOOT_FRAME_CAPACITY"
  shows "build_boot_frame frame_type payload =
    Inr (boot_layout [0x80, 0, 0xEE] (word_of_int frame_type) payload)"
proof -
  let ?n = "length payload" and ?t = "word_of_int frame_type :: byte"
  let ?b = "[0x80, 0, 0xEE, ?t] @ le_bytes 2 (?n + 7) @ payload"
  have zeros: "replicate (?n + 7) (0 :: byte) = [0, 0, 0, 0, 0, 0] @ replicate ?n 0 @ [0]"
    by (simp add: numeral_eq_Suc replicate_append_same)
  have head: "(put (replicate (?n + 7) 0) 0 [0x80, 0, 0xEE])[3 := ?t]
      = [0x80, 0, 0xEE, ?t, 0, 0] @ replicate ?n 0 @ [0]"
    unfolding zeros by (simp add: put_def)
  have len: "put ([0x80, 0, 0xEE, ?t, 0, 0] @ replicate ?n 0 @ [0]) 4 (le_bytes 2 (?n + 7))
      = ([0x80, 0, 0xEE, ?t] @ le_bytes 2 (?n + 7)) @ replicate ?n 0 @ [0]"
    by (simp add: put_def)
  have pay: "put (([0x80, 0, 0xEE, ?t] @ le_bytes 2 (?n + 7)) @ replicate ?n 0 @ [0]) 6 payload
      = ?b @ [0]"
    by (subst put_append_right) (simp_all add: put_0)
  have "butlast (?b @ [0]) = ?b" by (simp only: butlast_snoc)
  moreover have "(?b @ [0])[?n + 7 - 1 := x] = ?b @ [x]" for x
    by (simp add: list_update_append)
  moreover have "int (?n + 7) < 256 ^ 2"
    using assms by (simp add: constants)
  ultimately show ?thesis
    using assms unfolding build_boot_frame_def Let_def
    by (simp only: head struct_pack_into_ok of_nat_0_le_iff nat_int len pay res_bind.simps)
       (simp add: boot_layout_def Let_def constants)
qed

lemma build_boot_frame_Inr:
  assumes "build_boot_frame frame_type payload = Inr f"
  shows "length payload + 7 \<le> BOOT_FRAME_CAPACITY"
    "f = boot_layout [0x80, 0, 0xEE] (word_of_int frame_type) payload"
proof -
  show g: "length payload + 7 \<le> BOOT_FRAME_CAPACITY"
    using assms by (auto simp: build_boot_frame_def Let_def split: if_splits)
  show "f = boot_layout [0x80, 0, 0xEE] (word_of_int frame_type) payload"
    using assms by (simp add: build_boot_frame_eq [OF g])
qed

text \<open>The parser on a frame followed by HID padding, for any trailing checksum byte.\<close>

lemma parse_boot_layout:
  assumes "length payload < 65529"
    and "magic = (if device_response then [0x81, 0, 0xEE] else [0x80, 0, 0xEE])"
    and "body = magic @ [t] @ le_bytes 2 (length payload + 7) @ payload"
  shows "parse_boot_frame (body @ [chk] @ pad) device_response =
    (if additive_checksum body \<noteq> chk
     then Inl (ProtocolError ''bootloader additive checksum mismatch'')
     else Inr \<lparr>bf_frame_type = unat t, bf_payload = payload, bf_total_length = length payload + 7\<rparr>)"
proof -
  let ?d = "body @ [chk] @ pad"
  have m: "length magic = 3" using assms(2) by simp
  have lb: "length body = length payload + 6" using m assms(3) by simp
  have whole: "take (length payload + 7) ?d = body @ [chk]"
    by (simp add: lb)
  have fields: "take 3 body = magic" "le_at ?d 4 2 = length payload + 7"
    "(body @ [chk]) ! 3 = t" "drop 6 body = payload"
    using m assms(1) lb by (simp_all add: assms(3) slicing nth_append)
  show ?thesis
    unfolding parse_boot_frame_def Let_def assms(2) [symmetric]
    by (simp add: whole fields lb del: append_assoc append_Cons)
qed

section \<open>Properties of normal-mode reports\<close>

text \<open>\<open>build_normal_report\<close> on every input: the first violated guard raises its error, a status
  outside 32 bits raises \<open>struct.error\<close>, and otherwise the result is the 1024-byte layout.\<close>

theorem build_normal_report_cases:
  "build_normal_report command payload frame_type status =
     (if command < 0 \<or> 0xFFFF < command
      then Inl (ProtocolError ''normal-mode command must fit in 16 bits'')
      else if frame_type \<notin> {1, 2}
      then Inl (ProtocolError ''payload-bearing normal frame type must be 1 or 2'')
      else if 1010 < length payload
      then Inl (ProtocolError ''normal-mode payload is too large'')
      else if status < 0 \<or> 2 ^ 32 \<le> status then Inl StructError
      else Inr (normal_layout (nat command) payload (nat frame_type) (nat status)))"
proof -
  have "length payload < 256 ^ 2" if "length payload \<le> 1010"
    using that by simp
  then show ?thesis
    using build_normal_report_eq [of command frame_type payload status]
    by (auto simp: build_normal_report_def fill_normal_report_def Let_def constants)
qed

text \<open>C30: a report that was built parses back to its fields, with and without the leading report
  ID that some HID stacks strip.\<close>

theorem normal_report_roundtrip:
  assumes "build_normal_report command payload frame_type status = Inr r"
  shows "length r = 1024 \<and>
    parse_normal_report r = Inr \<lparr>nf_command = nat command, nf_frame_type = nat frame_type,
      nf_status = nat status, nf_payload = payload\<rparr> \<and>
    parse_normal_report (tl r) = parse_normal_report r"
proof (intro conjI)
  note b = build_normal_report_Inr [OF assms]
  let ?h = "normal_header (nat command) (nat frame_type) (length payload) (nat status)"
  show len: "length r = 1024"
    using length_normal_layout [OF b(4)] b(7) by (simp add: constants)
  have r: "r = ?h @ le_bytes 2 (unat (crc16_normal (?h @ payload))) @ payload
      @ replicate (NORMAL_REPORT_SIZE - 14 - length payload) 0"
    using b(7) by (simp add: normal_layout_def Let_def)
  show "parse_normal_report r = Inr \<lparr>nf_command = nat command, nf_frame_type = nat frame_type,
      nf_status = nat status, nf_payload = payload\<rparr>"
    unfolding r using b(1-6) unat_word16_bound [of "crc16_normal (?h @ payload)"]
    by (subst parse_normal_layout) (auto simp: constants)
  have "r = 1 # tl r" "take 2 (tl r) = [0x5A, 0x5A]" "length (tl r) = NORMAL_REPORT_SIZE - 1"
    using len by (simp_all add: r normal_header_def constants)
  then have "with_report_id (tl r) = r" "with_report_id r = r"
    using len by (simp_all add: with_report_id_def constants)
  then show "parse_normal_report (tl r) = parse_normal_report r"
    by (simp add: parse_normal_report_def)
qed

theorem normal_report_roundtrip_witness:
  "\<exists>r. build_normal_report 0x3200 [7, 8, 9] 2 5 = Inr r \<and>
     parse_normal_report r = Inr \<lparr>nf_command = 0x3200, nf_frame_type = 2, nf_status = 5,
       nf_payload = [7, 8, 9]\<rparr>"
proof -
  have "build_normal_report 0x3200 [7, 8, 9] 2 5
      = Inr (normal_layout (nat 0x3200) [7, 8, 9] (nat 2) (nat 5))" (is "_ = Inr ?r")
    by (rule build_normal_report_eq) (simp_all add: constants)
  with normal_report_roundtrip [OF this] show ?thesis by auto
qed

text \<open>C31: no single damaged byte goes unnoticed. Changing one byte of a built report, anywhere up
  to the end of its payload, makes the parser refuse it; only the type byte (which switches the
  checksum's coverage) and the two length bytes (which move its end) are outside the claim.\<close>

theorem normal_report_damage_detected:
  assumes built: "build_normal_report command payload frame_type status = Inr r"
    and i: "i < 14 + length payload" "i \<notin> {5, 6, 7}"
    and damage: "r ! i \<noteq> b"
  shows "\<exists>m. parse_normal_report (r[i := b]) = Inl (ProtocolError m)"
proof -
  note w = build_normal_report_Inr [OF built]
  let ?n = "length payload" and ?r = "r[i := b]"
  let ?covered = "\<lambda>x. take 12 x @ pslice x 14 (14 + ?n)"
  have len: "length r = 1024"
    using length_normal_layout [OF w(4)] w(7) by (simp add: constants)
  have n: "14 + ?n \<le> 1024" using w(4) by (simp add: constants)
  have fields: "r ! 5 = word_of_nat (nat frame_type)" "le_at r 6 2 = ?n"
      "le_at r 12 2 = unat (crc16_normal (?covered r))" "take 3 r = [1, 0x5A, 0x5A]"
    using w unat_word16_bound by (auto simp: normal_layout_def normal_header_def Let_def slicing
        nth_append constants mod_less)
  have t: "unat (r ! 5) = 1 \<or> unat (r ! 5) = 2"
    using w(3) by (auto simp: fields)
  show ?thesis
  proof (cases "i < 3")
    case True
    have "r ! j = [1, 0x5A, 0x5A] ! j" if "j < 3" for j
      using nth_take [OF that, of r] fields(4) by simp
    from this [of 0] this [of 1] this [of 2]
    have "r ! 0 = 1" "r ! 1 = 0x5A" "r ! 2 = 0x5A" by simp_all
    moreover have "pslice ?r 1 3 = [?r ! 1, ?r ! 2]"
      using pslice_two [of 1 ?r] len by (simp add: numeral_2_eq_2 numeral_3_eq_3)
    moreover have "i = 0 \<or> i = 1 \<or> i = 2" using True by auto
    ultimately have "\<not> (?r ! 0 = 1 \<and> pslice ?r 1 3 = [0x5A, 0x5A])"
      using damage len by auto
    then show ?thesis
      using len by (auto simp: parse_normal_report_def with_report_id_def parse_identified_report_def constants)
  next
    case False
    have "i < 6 \<or> 6 + 2 \<le> i" using i(2) by (simp add: numeral_eq_Suc) arith
    then have same: "le_at ?r 6 2 = ?n" "?r ! 5 = r ! 5"
      using i by (simp_all add: fields le_at_update_outside)
    have "unat (crc16_normal (?covered ?r)) \<noteq> le_at ?r 12 2"
    proof (cases "i = 12 \<or> i = 13")
      case True
      then have "le_at ?r 12 2 \<noteq> le_at r 12 2"
        using len damage by (intro le_at_update_inside) auto
      moreover have "?covered ?r = ?covered r"
        using True by (auto simp: pslice_update_outside)
      ultimately show ?thesis using fields(3) by simp
    next
      case False
      let ?j = "if i < 12 then i else i - 2"
      have "?covered ?r = (?covered r)[?j := b]" "?covered r ! ?j \<noteq> b" "?j < length (?covered r)"
        using False i damage len n
        by (auto simp: list_update_append nth_append pslice_update_outside pslice_update_inside
            take_update_swap list_update_beyond)
      then have "crc16_normal (?covered ?r) \<noteq> crc16_normal (?covered r)"
        by (metis crc16_normal_update)
      moreover have "le_at ?r 12 2 = le_at r 12 2"
        using False by (intro le_at_update_outside) auto
      ultimately show ?thesis
        using fields(3) by (simp add: word_unat_eq_iff)
    qed
    then show ?thesis
      using len n t same
      by (simp add: parse_normal_report_def with_report_id_def parse_identified_report_def constants Let_def)
  qed
qed

theorem normal_report_damage_detected_witness:
  "\<exists>r m. build_normal_report 0x3200 [7, 8, 9] 2 5 = Inr r \<and>
     parse_normal_report (r[15 := 0]) = Inl (ProtocolError m)"
proof -
  have built: "build_normal_report 0x3200 [7, 8, 9] 2 5
      = Inr (normal_layout (nat 0x3200) [7, 8, 9] (nat 2) (nat 5))" (is "_ = Inr ?r")
    by (rule build_normal_report_eq) (simp_all add: constants)
  have "?r ! 15 \<noteq> 0"
    by (simp add: normal_layout_def Let_def nth_append)
  with normal_report_damage_detected [OF built, of 15 0] built show ?thesis
    by auto
qed

text \<open>The vendor checksum stored in a built report never needs more than 13 of its 16 bits:
  the polynomial \<open>0x1021\<close> is applied to a register that shifts right, so bits 13 to 15 are always
  zero after the first byte.\<close>

theorem normal_report_checksum_13_bits:
  assumes "build_normal_report command payload frame_type status = Inr r"
  shows "le_at r 12 2 < 0x2000"
proof -
  note w = build_normal_report_Inr [OF assms]
  let ?h = "normal_header (nat command) (nat frame_type) (length payload) (nat status)"
  have "le_at r 12 2 = unat (crc16_normal (?h @ payload))"
    using w(7) unat_word16_bound by (simp add: normal_layout_def Let_def slicing mod_less)
  moreover have "?h @ payload \<noteq> []" by (simp add: normal_header_def)
  ultimately show ?thesis using crc16_normal_13_bits [of "?h @ payload"] by simp
qed

theorem normal_report_checksum_13_bits_witness:
  "\<exists>r. build_normal_report 0x4000 [] 1 0 = Inr r \<and> le_at r 12 2 < 0x2000"
proof -
  have "build_normal_report 0x4000 [] 1 0
      = Inr (normal_layout (nat 0x4000) [] (nat 1) (nat 0))"
    by (rule build_normal_report_eq) (simp_all add: constants)
  from this normal_report_checksum_13_bits [OF this] show ?thesis by blast
qed

section \<open>Properties of bootloader frames\<close>

lemma build_boot_frame_parse:
  assumes "build_boot_frame frame_type payload = Inr f"
  shows "parse_boot_frame (f @ pad) False = Inr \<lparr>bf_frame_type = nat (frame_type mod 256),
      bf_payload = payload, bf_total_length = length f\<rparr>"
    and "parse_boot_frame (f @ pad) True = Inl (ProtocolError ''bad bootloader frame magic'')"
proof -
  note b = build_boot_frame_Inr [OF assms]
  let ?t = "word_of_int frame_type :: byte"
  let ?body = "[0x80, 0, 0xEE] @ [?t] @ le_bytes 2 (length payload + 7) @ payload"
  have f: "f = ?body @ [additive_checksum ?body]"
    unfolding b(2) boot_layout_def Let_def by simp
  have n: "length payload < 65529" using b(1) by (simp add: constants)
  show "parse_boot_frame (f @ pad) False = Inr \<lparr>bf_frame_type = nat (frame_type mod 256),
      bf_payload = payload, bf_total_length = length f\<rparr>"
    using parse_boot_layout [OF n, of "[0x80, 0, 0xEE]" False ?body ?t "additive_checksum ?body" pad]
    unfolding f by (simp only: append_assoc unat_word_of_int_byte if_False simp_thms refl) simp
  show "parse_boot_frame (f @ pad) True = Inl (ProtocolError ''bad bootloader frame magic'')"
    unfolding f by (simp add: parse_boot_frame_def)
qed

text \<open>a bootloader frame that was built, carried in a HID report with any padding, parses back
  to its type byte and payload in the host direction, is refused in the device direction, and its
  report has exactly 3072 bytes.\<close>

theorem boot_frame_roundtrip:
  assumes "build_boot_frame frame_type payload = Inr f"
  shows "parse_boot_frame (f @ pad) False = Inr \<lparr>bf_frame_type = nat (frame_type mod 256),
      bf_payload = payload, bf_total_length = length f\<rparr> \<and>
    parse_boot_frame (f @ pad) True = Inl (ProtocolError ''bad bootloader frame magic'') \<and>
    (\<exists>zs. to_boot_hid_report f = Inr (BOOT_REPORT_ID # f @ zs) \<and>
      length (BOOT_REPORT_ID # f @ zs) = BOOT_REPORT_SIZE)"
  using build_boot_frame_parse [OF assms] build_boot_frame_Inr [OF assms]
  by (simp add: to_boot_hid_report_def length_boot_layout constants)

theorem boot_frame_roundtrip_witness:
  "\<exists>f. build_boot_frame 3 [1, 2] = Inr f \<and>
     parse_boot_frame (f @ [0, 0]) False = Inr \<lparr>bf_frame_type = 3, bf_payload = [1, 2],
       bf_total_length = length f\<rparr>"
proof -
  have "build_boot_frame 3 [1, 2] = Inr (boot_layout [0x80, 0, 0xEE] (word_of_int 3) [1, 2])"
    by (rule build_boot_frame_eq) (simp add: constants)
  from this boot_frame_roundtrip [OF this, of "[0, 0]"] show ?thesis by auto
qed

text \<open>Changing one byte of a built bootloader frame (its magic, type, payload or checksum; any
  byte but the two of the length) makes the parser refuse it, whatever padding follows.\<close>

theorem boot_frame_damage_detected:
  assumes built: "build_boot_frame frame_type payload = Inr f"
    and i: "i < length f" "i \<notin> {4, 5}"
    and damage: "f ! i \<noteq> b"
  shows "\<exists>m. parse_boot_frame (f[i := b] @ pad) False = Inl (ProtocolError m)"
proof -
  note w = build_boot_frame_Inr [OF built]
  let ?t = "word_of_int frame_type :: byte" and ?n = "length payload"
  let ?body = "[0x80, 0, 0xEE] @ [?t] @ le_bytes 2 (?n + 7) @ payload"
  have f: "f = ?body @ [additive_checksum ?body]"
    unfolding w(2) boot_layout_def Let_def by simp
  have n: "?n < 65529" using w(1) by (simp add: constants)
  consider "i < 3" | "i = 3" | "6 \<le> i" "i < ?n + 6" | "i = ?n + 6"
    using i f by fastforce
  then show ?thesis
  proof cases
    case 1
    then have "take 3 (f[i := b] @ pad) \<noteq> [0x80, 0, 0xEE]"
      using damage f by (auto simp: less_Suc_eq numeral_3_eq_3 nth_append)
    then show ?thesis
      using f by (simp add: parse_boot_frame_def)
  next
    case 2
    have "parse_boot_frame (([0x80, 0, 0xEE] @ [b] @ le_bytes 2 (?n + 7) @ payload)
        @ [additive_checksum ?body] @ pad) False
      = Inl (ProtocolError ''bootloader additive checksum mismatch'')"
      using 2 damage f by (subst parse_boot_layout [OF n _ refl]) (auto simp: additive_checksum_append)
    then show ?thesis using 2 f by simp
  next
    case 3
    let ?p = "payload[i - 6 := b]"
    define h where "h = [0x80, 0, 0xEE] @ [?t] @ le_bytes 2 (?n + 7)"
    have h: "length h = 6" "f = h @ payload @ [additive_checksum ?body]"
      by (simp_all add: h_def f)
    have lt: "i - 6 < ?n" using 3 by simp
    then have j: "i - 6 < ?n" "payload ! (i - 6) \<noteq> b" "f[i := b] = h @ ?p @ [additive_checksum ?body]"
      using 3 damage h(1) unfolding h(2) by (simp_all add: list_update_append nth_append)
    then have f': "f[i := b] =
        ([0x80, 0, 0xEE] @ [?t] @ le_bytes 2 (length ?p + 7) @ ?p) @ [additive_checksum ?body]"
      by (simp add: h_def)
    have "additive_checksum ?p \<noteq> additive_checksum payload"
      using j by (simp add: additive_checksum_update)
    then have "parse_boot_frame (([0x80, 0, 0xEE] @ [?t] @ le_bytes 2 (length ?p + 7) @ ?p)
        @ [additive_checksum ?body] @ pad) False
      = Inl (ProtocolError ''bootloader additive checksum mismatch'')"
      using n by (subst parse_boot_layout [OF _ _ refl]) (auto simp: additive_checksum_append)
    then show ?thesis using f' by simp
  next
    case 4
    have "parse_boot_frame (?body @ [b] @ pad) False
      = Inl (ProtocolError ''bootloader additive checksum mismatch'')"
      using 4 damage f by (subst parse_boot_layout [OF n _ refl]) (auto simp: nth_append)
    moreover have "f[i := b] = ?body @ [b]"
    proof -
      have lb: "i = length ?body" using 4 by simp
      show ?thesis unfolding f lb by (rule list_update_length)
    qed
    ultimately show ?thesis by simp
  qed
qed

theorem boot_frame_damage_detected_witness:
  "\<exists>f m. build_boot_frame 3 [1, 2] = Inr f \<and>
     parse_boot_frame (f[6 := 9] @ []) False = Inl (ProtocolError m)"
proof -
  have built: "build_boot_frame 3 [1, 2] = Inr (boot_layout [0x80, 0, 0xEE] (word_of_int 3) [1, 2])"
    (is "_ = Inr ?f") by (rule build_boot_frame_eq) (simp add: constants)
  have "6 < length ?f" "?f ! 6 \<noteq> 9"
    by (simp_all add: boot_layout_def Let_def nth_append)
  with boot_frame_damage_detected [OF built, of 6 9 "[]"] built show ?thesis by auto
qed

section \<open>Properties of the update blob and its packets\<close>

context digest16
begin

lemma update_header:
  assumes "build_update_blob md5 img offset = Inr (blob, plan)"
  shows "0 \<le> offset" "0 < length img" "offset + int (length img) \<le> int FLASH_SIZE"
    "blob = ([0, 0, 0, 0] @ le_bytes 4 (nat offset) @ le_bytes 4 (length img) @ md5 img
      @ replicate 100 0) @ img"
    "plan = \<lparr>flash_offset = offset, image_size = int (length img),
      transfer_size = int (length blob), image_md5 = hex_bytes (md5 img),
      packet_count = int ((length blob + BOOT_DATA_SIZE - 1) div BOOT_DATA_SIZE),
      packet_payload_size = int BOOT_DATA_SIZE, packets_per_ack = 1\<rparr>"
proof -
  let ?o = "le_bytes 4 (nat offset)" and ?n = "le_bytes 4 (length img)"
  show r: "0 \<le> offset" "0 < length img" "offset + int (length img) \<le> int FLASH_SIZE"
    using assms by (auto simp: build_update_blob_def validate_flash_range_def split: if_splits)
  then have ranges: "offset < 256 ^ 4" "int (length img) < 256 ^ 4"
    by (simp_all add: constants)
  have zeros: "replicate BOOT_IMAGE_HEADER_SIZE (0 :: byte) = [0, 0, 0, 0, 0, 0, 0, 0, 0, 0, 0, 0] @ replicate 16 0 @ replicate 100 0"
  proof -
    have "replicate 12 (0 :: byte) = [0, 0, 0, 0, 0, 0, 0, 0, 0, 0, 0, 0]"
      by (simp add: numeral_eq_Suc)
    then show ?thesis
      using replicate_add [of 12 116 "0 :: byte"] replicate_add [of 16 100 "0 :: byte"]
      by (simp add: BOOT_IMAGE_HEADER_SIZE_def)
  qed
  have h1: "put (replicate BOOT_IMAGE_HEADER_SIZE 0) 4 ?o
      = ([0, 0, 0, 0] @ ?o @ [0, 0, 0, 0]) @ replicate 16 0 @ replicate 100 0"
    unfolding zeros by (simp add: put_def)
  have h2: "put (([0, 0, 0, 0] @ ?o @ [0, 0, 0, 0]) @ replicate 16 0 @ replicate 100 0) 8 ?n
      = ([0, 0, 0, 0] @ ?o @ ?n) @ replicate 16 0 @ replicate 100 0"
    by (simp add: put_def)
  have h3: "take 12 (([0, 0, 0, 0] @ ?o @ ?n) @ replicate 16 0 @ replicate 100 0) @ md5 img
        @ drop 28 (([0, 0, 0, 0] @ ?o @ ?n) @ replicate 16 0 @ replicate 100 0)
      = [0, 0, 0, 0] @ ?o @ ?n @ md5 img @ replicate 100 0"
    by simp
  have ok: "validate_flash_range offset (int (length img)) = Inr ()"
    using r by (simp add: validate_flash_range_def)
  let ?b = "([0, 0, 0, 0] @ ?o @ ?n @ md5 img @ replicate 100 0) @ img"
  have "blob = ?b \<and> plan = \<lparr>flash_offset = offset, image_size = int (length img),
      transfer_size = int (length ?b), image_md5 = hex_bytes (md5 img),
      packet_count = int ((length ?b + BOOT_DATA_SIZE - 1) div BOOT_DATA_SIZE),
      packet_payload_size = int BOOT_DATA_SIZE, packets_per_ack = 1\<rparr>"
    using assms unfolding build_update_blob_def ok Let_def
    by (simp only: res_bind.simps struct_pack_into_ok [OF r(1) ranges(1)]
        struct_pack_into_ok [OF of_nat_0_le_iff ranges(2)] nat_int h1 h2 h3 sum.inject prod.inject)
      blast
  then show "blob = ?b"
    and "plan = \<lparr>flash_offset = offset, image_size = int (length img),
      transfer_size = int (length blob), image_md5 = hex_bytes (md5 img),
      packet_count = int ((length blob + BOOT_DATA_SIZE - 1) div BOOT_DATA_SIZE),
      packet_payload_size = int BOOT_DATA_SIZE, packets_per_ack = 1\<rparr>"
    by blast+
qed

lemma blob_length:
  "build_update_blob md5 img offset = Inr (blob, plan) \<Longrightarrow> length blob = 128 + length img"
  using update_header(4) [of img offset blob plan] by (simp add: digest_length)

end

text \<open>C17: the blob that \<open>build_update_blob\<close> returns is a 128-byte header with offset, image size and
  MD5 at the positions the bootloader reads, followed by the image itself, and the plan agrees
  with it: the packets are exactly as many as the blob needs.\<close>

theorem update_blob_layout:
  assumes "build_update_blob md5_digest img offset = Inr (blob, plan)"
  shows "take 4 blob = [0, 0, 0, 0] \<and> le_at blob 4 4 = nat offset \<and> le_at blob 8 4 = length img \<and>
    pslice blob 12 28 = md5_digest img \<and> drop 128 blob = img \<and>
    transfer_size plan = int (length blob) \<and> image_md5 plan = hex_bytes (md5_digest img) \<and>
    (packet_count plan - 1) * 3060 < int (length blob) \<and> int (length blob) \<le> packet_count plan * 3060"
proof -
  note h = md5.update_header [OF assms]
  have "nat offset < 256 ^ 4" "length img < 256 ^ 4"
    using h(1-3) by (simp_all add: constants)
  then have "take 4 blob = [0, 0, 0, 0]" "le_at blob 4 4 = nat offset" "le_at blob 8 4 = length img"
    "pslice blob 12 28 = md5_digest img" "drop 128 blob = img"
    by (simp_all add: h(4) slicing md5.digest_length)
  moreover have "transfer_size plan = int (length blob)" "image_md5 plan = hex_bytes (md5_digest img)"
    using h(5) by simp_all
  moreover have "(packet_count plan - 1) * 3060 < int (length blob)"
    "int (length blob) \<le> packet_count plan * 3060"
    using h(5) md5.blob_length [OF assms] by (simp_all add: constants)
  ultimately show ?thesis by blast
qed

lemma validate_flash_range_0: "0 < n \<Longrightarrow> n \<le> FLASH_SIZE \<Longrightarrow> validate_flash_range 0 (int n) = Inr ()"
  by (simp add: validate_flash_range_def)

lemma build_update_blob_ok:
  assumes "0 < length img" "length img \<le> FLASH_SIZE"
  shows "\<exists>blob plan. build_update_blob md5 img 0 = Inr (blob, plan)"
proof -
  have "int (length img) < 256 ^ 4" using assms by (simp add: constants)
  then show ?thesis
    using assms by (simp add: build_update_blob_def validate_flash_range_0 Let_def)
qed

theorem update_blob_layout_witness:
  "\<exists>blob plan. build_update_blob md5_digest [1, 2, 3] 0 = Inr (blob, plan) \<and> drop 128 blob = [1, 2, 3]"
proof -
  obtain blob plan where "build_update_blob md5_digest [1, 2, 3] 0 = Inr (blob, plan)"
    using build_update_blob_ok [of "[1, 2, 3]" md5_digest] by (auto simp: constants)
  with update_blob_layout [OF this] show ?thesis by blast
qed

text \<open>The bytes of packet \<open>i\<close>, its frame, and the frames of a blob.\<close>

definition data_chunk :: "bytes \<Rightarrow> nat \<Rightarrow> bytes" where
  "data_chunk blob i = pslice blob (i * 3060) (i * 3060 + 3060)"

definition data_layout :: "bytes \<Rightarrow> nat \<Rightarrow> bytes" where
  "data_layout blob i = boot_layout [0x80, 0, 0xEE] 3 (le_bytes 4 i @ data_chunk blob i)"

lemma length_data_chunk: "length (data_chunk blob i) \<le> 3060"
  by (simp add: data_chunk_def)

lemma build_data_layout: "build_boot_frame 3 (le_bytes 4 i @ data_chunk blob i) = Inr (data_layout blob i)"
  using build_boot_frame_eq [of "le_bytes 4 i @ data_chunk blob i" 3] length_data_chunk [of blob i]
  by (simp add: data_layout_def constants)

lemma iter_data_frames_eq:
  assumes "(length blob + 3059) div 3060 \<le> 2 ^ 32"
  shows "iter_data_frames blob = map (\<lambda>i. (i, Inr (data_layout blob i))) [0..<(length blob + 3059) div 3060]"
proof -
  let ?n = "(length blob + 3059) div 3060"
  have range: "range_step (length blob) BOOT_DATA_SIZE = map (\<lambda>i. i * 3060) [0..<?n]"
    by (simp add: range_step_def constants add.commute)
  have data: "data_frame blob i (i * 3060) = Inr (data_layout blob i)" if "i < ?n" for i
  proof -
    have "int i < 256 ^ 4" using that assms by simp
    then show ?thesis
      using build_data_layout [of i blob] by (simp add: data_frame_def data_chunk_def constants)
  qed
  show ?thesis
    unfolding iter_data_frames_def range
    by (rule nth_equalityI) (auto simp: nth_enumerate_eq data)
qed

lemma concat_data_chunks: "concat (map (data_chunk blob) [0..<(length blob + 3059) div 3060]) = blob"
  using concat_range_step [of 3060 blob]
  by (simp add: range_step_def data_chunk_def [abs_def] comp_def add.commute)

text \<open>The packets of a blob (of up to \<open>2 ^ 32\<close> packets) are all built, are numbered from zero
  without gaps, are as many as the plan counts, each fit one HID report and parse as type 3 with
  their number in front, and their data in order is the blob.\<close>

theorem data_frames_reassemble:
  assumes "(length blob + 3059) div 3060 \<le> 2 ^ 32"
  shows "\<exists>frames chunks. map snd (iter_data_frames blob) = map Inr frames \<and>
    map fst (iter_data_frames blob) = [0..<(length blob + 3059) div 3060] \<and>
    list_all2 (\<lambda>f (i, c). length f \<le> BOOT_FRAME_CAPACITY \<and>
      parse_boot_frame f False = Inr \<lparr>bf_frame_type = 3, bf_payload = le_bytes 4 i @ c,
        bf_total_length = length f\<rparr>) frames (enumerate 0 chunks) \<and>
    concat chunks = blob"
proof -
  let ?n = "(length blob + 3059) div 3060"
  have parsed: "length (data_layout blob i) \<le> BOOT_FRAME_CAPACITY \<and>
      parse_boot_frame (data_layout blob i) False = Inr \<lparr>bf_frame_type = 3,
        bf_payload = le_bytes 4 i @ data_chunk blob i, bf_total_length = length (data_layout blob i)\<rparr>" for i
    using build_boot_frame_parse(1) [OF build_data_layout [of i blob], of "[]"] length_data_chunk [of blob i]
    by (simp add: data_layout_def length_boot_layout constants)
  have "list_all2 (\<lambda>f (i, c). length f \<le> BOOT_FRAME_CAPACITY \<and>
      parse_boot_frame f False = Inr \<lparr>bf_frame_type = 3, bf_payload = le_bytes 4 i @ c,
        bf_total_length = length f\<rparr>) (map (data_layout blob) [0..<?n])
      (enumerate 0 (map (data_chunk blob) [0..<?n]))"
    using parsed by (auto simp: list_all2_conv_all_nth nth_enumerate_eq)
  then show ?thesis
    using concat_data_chunks [of blob] iter_data_frames_eq [OF assms]
    by (intro exI [of _ "map (data_layout blob) [0..<?n]"] exI [of _ "map (data_chunk blob) [0..<?n]"])
       (simp add: comp_def)
qed

theorem data_frames_reassemble_witness:
  "\<exists>frames chunks. map snd (iter_data_frames (replicate 4000 7)) = map Inr frames \<and>
     concat chunks = replicate 4000 (7 :: byte)"
  using data_frames_reassemble [of "replicate 4000 7"] by auto

text \<open>\<open>validate_full_restore_image\<close> accepts exactly the images of 8 MiB whose four bytes at
  \<open>0x7f8000\<close> are not the upgrade magic \<open>54 44 50 55\<close>, with which the camera would boot-loop.\<close>

theorem full_restore_image_accepted_iff:
  "validate_full_restore_image img = Inr () \<longleftrightarrow>
     length img = 8388608 \<and> pslice img 0x7F8000 0x7F8004 \<noteq> [0x54, 0x44, 0x50, 0x55]"
proof -
  have magic: "le_val [0x54, 0x44, 0x50, 0x55] = 0x55504454" by simp
  have "le_val (pslice img 0x7F8000 0x7F8004) = 0x55504454 \<longleftrightarrow>
      pslice img 0x7F8000 0x7F8004 = [0x54, 0x44, 0x50, 0x55]" if "length img = 8388608"
  proof
    assume "le_val (pslice img 0x7F8000 0x7F8004) = 0x55504454"
    with magic show "pslice img 0x7F8000 0x7F8004 = [0x54, 0x44, 0x50, 0x55]"
      by (intro le_val_inj) (use that in simp_all)
  qed (use magic in simp)
  then show ?thesis
    by (simp add: validate_full_restore_image_def constants le_at_def)
qed

end
