(* ===== verification/Commands.thy ===== *)
theory Commands
  imports Protocol
begin

text \<open>
  \<open>cc2camera/commands.py\<close>: the side-effect-free command layer. The enumerations and the tables are
  the source's, in its order; the builders serialize one request each; the decoders read the two
  reply frames of the bootloader.

  An argument the source annotates \<open>str | bytes\<close> is a \<open>text_or_bytes\<close>; a Python string is the list of
  its code points, so that \<open>encode\<close> can fail where Python's does.
\<close>

unbundle bit_operations_syntax

section \<open>Vocabulary of the normal mode\<close>

datatype normal_frame_type = PAYLOAD_OR_CONTINUATION | FINAL_PAYLOAD

fun frame_type_value :: "normal_frame_type \<Rightarrow> int" where
  "frame_type_value PAYLOAD_OR_CONTINUATION = 1"
| "frame_type_value FINAL_PAYLOAD = 2"

datatype normal_status = SUCCESS | HANDLER_FAILURE | BAD_REPORT_ID | BAD_MAGIC | BAD_CRC
  | UNKNOWN_COMMAND_GROUP

fun status_value :: "normal_status \<Rightarrow> nat" where
  "status_value SUCCESS = 0"
| "status_value HANDLER_FAILURE = 1"
| "status_value BAD_REPORT_ID = 2"
| "status_value BAD_MAGIC = 3"
| "status_value BAD_CRC = 4"
| "status_value UNKNOWN_COMMAND_GROUP = 5"

datatype normal_command_family = VERSION | CONFIGURATION | FILE_UPLOAD | UPGRADE_TRIGGER

record normal_dispatch_behavior =
  ndb_first :: nat
  ndb_last :: nat
  ndb_behavior :: string
  ndb_response :: string

definition NORMAL_DISPATCH_MAP :: "normal_dispatch_behavior list" where
  "NORMAL_DISPATCH_MAP =
    [\<lparr>ndb_first = 0x0000, ndb_last = 0x0FFF, ndb_behavior = ''only exact 0x0001 is implemented'',
      ndb_response = ''other values: no response''\<rparr>,
     \<lparr>ndb_first = 0x1000, ndb_last = 0x1FFF, ndb_behavior = ''recognized no-op group'',
      ndb_response = ''no response''\<rparr>,
     \<lparr>ndb_first = 0x2000, ndb_last = 0x2FFF, ndb_behavior = ''listed configuration commands only'',
      ndb_response = ''unknown values: no response''\<rparr>,
     \<lparr>ndb_first = 0x3000, ndb_last = 0x3FFF, ndb_behavior = ''listed upload commands only'',
      ndb_response = ''unknown values: no response''\<rparr>,
     \<lparr>ndb_first = 0x4000, ndb_last = 0x4FFF, ndb_behavior = ''write upgrade words and reboot'',
      ndb_response = ''status 0/1, then reboot''\<rparr>,
     \<lparr>ndb_first = 0x5000, ndb_last = 0xFFFF, ndb_behavior = ''unknown command group'',
      ndb_response = ''status 5''\<rparr>]"

section \<open>The command numbers\<close>

datatype normal_command =
  VERSION_QUERY | CONFIG_GET_MANUFACTURER_LABEL | CONFIG_SET_MANUFACTURER_LABEL |
    CONFIG_GET_SERIAL_LABEL | CONFIG_SET_SERIAL_LABEL | CONFIG_GET_PRODUCT_NUMBER |
    CONFIG_SET_PRODUCT_NUMBER | CONFIG_GET_VENDOR_ID | CONFIG_SET_VENDOR_ID |
    CONFIG_GET_PRODUCT_ID | CONFIG_SET_PRODUCT_ID | CONFIG_GET_DEVICE_BCD |
    CONFIG_SET_DEVICE_BCD | CONFIG_GET_MODEL_LABEL | CONFIG_SET_MODEL_LABEL |
    CONFIG_GET_CMEI_LABEL | CONFIG_SET_CMEI_LABEL | CONFIG_GET_APP_KEY | CONFIG_SET_APP_KEY |
    CONFIG_GET_PRODUCT_LABEL | CONFIG_SET_PRODUCT_LABEL | CONFIG_GET_ADB_ENABLED |
    CONFIG_SET_ADB_ENABLED | CONFIG_GET_SENSOR_NAME | CONFIG_SET_SENSOR_NAME |
    CONFIG_GET_I2C_ADDRESS | CONFIG_SET_I2C_ADDRESS | CONFIG_GET_DEFAULT_BOOT |
    CONFIG_SET_DEFAULT_BOOT | CONFIG_GET_SENSOR_FPS | CONFIG_SET_SENSOR_FPS |
    CONFIG_GET_SENSOR_WIDTH | CONFIG_SET_SENSOR_WIDTH | CONFIG_GET_SENSOR_HEIGHT |
    CONFIG_SET_SENSOR_HEIGHT | CONFIG_GET_HV_FLIP | CONFIG_SET_HV_FLIP |
    CONFIG_GET_RATE_CONTROL_MODE | CONFIG_SET_RATE_CONTROL_MODE | CONFIG_GET_BITRATE |
    CONFIG_SET_BITRATE | CONFIG_GET_QP_VALUE | CONFIG_SET_QP_VALUE | UPLOAD_INITIALIZE |
    UPLOAD_TARGET_3110 | UPLOAD_TARGET_3111 | UPLOAD_TARGET_3112 | UPLOAD_TARGET_3113 |
    UPLOAD_TARGET_SENSOR_MODULE | UPLOAD_TARGET_SENSOR_CONFIGURATION | UPLOAD_TARGET_3116 |
    UPLOAD_TARGET_3120 | UPLOAD_TARGET_3150 | UPLOAD_TARGET_31F0 | UPLOAD_APPEND_DATA |
    UPLOAD_COMMIT | UPGRADE_AND_REBOOT

primrec wire_value :: "normal_command \<Rightarrow> nat" where
  "wire_value VERSION_QUERY = 0x0001"
| "wire_value CONFIG_GET_MANUFACTURER_LABEL = 0x2000"
| "wire_value CONFIG_SET_MANUFACTURER_LABEL = 0x2001"
| "wire_value CONFIG_GET_SERIAL_LABEL = 0x2010"
| "wire_value CONFIG_SET_SERIAL_LABEL = 0x2011"
| "wire_value CONFIG_GET_PRODUCT_NUMBER = 0x2020"
| "wire_value CONFIG_SET_PRODUCT_NUMBER = 0x2021"
| "wire_value CONFIG_GET_VENDOR_ID = 0x2030"
| "wire_value CONFIG_SET_VENDOR_ID = 0x2031"
| "wire_value CONFIG_GET_PRODUCT_ID = 0x2040"
| "wire_value CONFIG_SET_PRODUCT_ID = 0x2041"
| "wire_value CONFIG_GET_DEVICE_BCD = 0x2050"
| "wire_value CONFIG_SET_DEVICE_BCD = 0x2051"
| "wire_value CONFIG_GET_MODEL_LABEL = 0x2F00"
| "wire_value CONFIG_SET_MODEL_LABEL = 0x2F01"
| "wire_value CONFIG_GET_CMEI_LABEL = 0x2F10"
| "wire_value CONFIG_SET_CMEI_LABEL = 0x2F11"
| "wire_value CONFIG_GET_APP_KEY = 0x2F20"
| "wire_value CONFIG_SET_APP_KEY = 0x2F21"
| "wire_value CONFIG_GET_PRODUCT_LABEL = 0x2F30"
| "wire_value CONFIG_SET_PRODUCT_LABEL = 0x2F31"
| "wire_value CONFIG_GET_ADB_ENABLED = 0x2F40"
| "wire_value CONFIG_SET_ADB_ENABLED = 0x2F41"
| "wire_value CONFIG_GET_SENSOR_NAME = 0x2F50"
| "wire_value CONFIG_SET_SENSOR_NAME = 0x2F51"
| "wire_value CONFIG_GET_I2C_ADDRESS = 0x2F60"
| "wire_value CONFIG_SET_I2C_ADDRESS = 0x2F61"
| "wire_value CONFIG_GET_DEFAULT_BOOT = 0x2F70"
| "wire_value CONFIG_SET_DEFAULT_BOOT = 0x2F71"
| "wire_value CONFIG_GET_SENSOR_FPS = 0x2F80"
| "wire_value CONFIG_SET_SENSOR_FPS = 0x2F81"
| "wire_value CONFIG_GET_SENSOR_WIDTH = 0x2F90"
| "wire_value CONFIG_SET_SENSOR_WIDTH = 0x2F91"
| "wire_value CONFIG_GET_SENSOR_HEIGHT = 0x2FA0"
| "wire_value CONFIG_SET_SENSOR_HEIGHT = 0x2FA1"
| "wire_value CONFIG_GET_HV_FLIP = 0x2FB0"
| "wire_value CONFIG_SET_HV_FLIP = 0x2FB1"
| "wire_value CONFIG_GET_RATE_CONTROL_MODE = 0x2FC0"
| "wire_value CONFIG_SET_RATE_CONTROL_MODE = 0x2FC1"
| "wire_value CONFIG_GET_BITRATE = 0x2FD0"
| "wire_value CONFIG_SET_BITRATE = 0x2FD1"
| "wire_value CONFIG_GET_QP_VALUE = 0x2FE0"
| "wire_value CONFIG_SET_QP_VALUE = 0x2FE1"
| "wire_value UPLOAD_INITIALIZE = 0x3000"
| "wire_value UPLOAD_TARGET_3110 = 0x3110"
| "wire_value UPLOAD_TARGET_3111 = 0x3111"
| "wire_value UPLOAD_TARGET_3112 = 0x3112"
| "wire_value UPLOAD_TARGET_3113 = 0x3113"
| "wire_value UPLOAD_TARGET_SENSOR_MODULE = 0x3114"
| "wire_value UPLOAD_TARGET_SENSOR_CONFIGURATION = 0x3115"
| "wire_value UPLOAD_TARGET_3116 = 0x3116"
| "wire_value UPLOAD_TARGET_3120 = 0x3120"
| "wire_value UPLOAD_TARGET_3150 = 0x3150"
| "wire_value UPLOAD_TARGET_31F0 = 0x31F0"
| "wire_value UPLOAD_APPEND_DATA = 0x3200"
| "wire_value UPLOAD_COMMIT = 0x3300"
| "wire_value UPGRADE_AND_REBOOT = 0x4000"

text \<open>The members in declaration order, as iterating over the enumeration gives them.\<close>

definition normal_commands :: "normal_command list" where
  "normal_commands =
    [VERSION_QUERY, CONFIG_GET_MANUFACTURER_LABEL, CONFIG_SET_MANUFACTURER_LABEL,
     CONFIG_GET_SERIAL_LABEL, CONFIG_SET_SERIAL_LABEL, CONFIG_GET_PRODUCT_NUMBER,
     CONFIG_SET_PRODUCT_NUMBER, CONFIG_GET_VENDOR_ID, CONFIG_SET_VENDOR_ID,
     CONFIG_GET_PRODUCT_ID, CONFIG_SET_PRODUCT_ID, CONFIG_GET_DEVICE_BCD,
     CONFIG_SET_DEVICE_BCD, CONFIG_GET_MODEL_LABEL, CONFIG_SET_MODEL_LABEL,
     CONFIG_GET_CMEI_LABEL, CONFIG_SET_CMEI_LABEL, CONFIG_GET_APP_KEY, CONFIG_SET_APP_KEY,
     CONFIG_GET_PRODUCT_LABEL, CONFIG_SET_PRODUCT_LABEL, CONFIG_GET_ADB_ENABLED,
     CONFIG_SET_ADB_ENABLED, CONFIG_GET_SENSOR_NAME, CONFIG_SET_SENSOR_NAME,
     CONFIG_GET_I2C_ADDRESS, CONFIG_SET_I2C_ADDRESS, CONFIG_GET_DEFAULT_BOOT,
     CONFIG_SET_DEFAULT_BOOT, CONFIG_GET_SENSOR_FPS, CONFIG_SET_SENSOR_FPS,
     CONFIG_GET_SENSOR_WIDTH, CONFIG_SET_SENSOR_WIDTH, CONFIG_GET_SENSOR_HEIGHT,
     CONFIG_SET_SENSOR_HEIGHT, CONFIG_GET_HV_FLIP, CONFIG_SET_HV_FLIP,
     CONFIG_GET_RATE_CONTROL_MODE, CONFIG_SET_RATE_CONTROL_MODE, CONFIG_GET_BITRATE,
     CONFIG_SET_BITRATE, CONFIG_GET_QP_VALUE, CONFIG_SET_QP_VALUE, UPLOAD_INITIALIZE,
     UPLOAD_TARGET_3110, UPLOAD_TARGET_3111, UPLOAD_TARGET_3112, UPLOAD_TARGET_3113,
     UPLOAD_TARGET_SENSOR_MODULE, UPLOAD_TARGET_SENSOR_CONFIGURATION, UPLOAD_TARGET_3116,
     UPLOAD_TARGET_3120, UPLOAD_TARGET_3150, UPLOAD_TARGET_31F0, UPLOAD_APPEND_DATA,
     UPLOAD_COMMIT, UPGRADE_AND_REBOOT]"

text \<open>\<open>NormalCommand(value)\<close>: the member with that wire value, or \<open>ValueError\<close>.\<close>

definition normal_command_of :: "int \<Rightarrow> normal_command option" where
  "normal_command_of v = find (\<lambda>c. int (wire_value c) = v) normal_commands"

text \<open>\<open>command.name\<close>, used by the catalog for the upload commands.\<close>

primrec command_name :: "normal_command \<Rightarrow> string" where
  "command_name VERSION_QUERY = ''VERSION_QUERY''"
| "command_name CONFIG_GET_MANUFACTURER_LABEL = ''CONFIG_GET_MANUFACTURER_LABEL''"
| "command_name CONFIG_SET_MANUFACTURER_LABEL = ''CONFIG_SET_MANUFACTURER_LABEL''"
| "command_name CONFIG_GET_SERIAL_LABEL = ''CONFIG_GET_SERIAL_LABEL''"
| "command_name CONFIG_SET_SERIAL_LABEL = ''CONFIG_SET_SERIAL_LABEL''"
| "command_name CONFIG_GET_PRODUCT_NUMBER = ''CONFIG_GET_PRODUCT_NUMBER''"
| "command_name CONFIG_SET_PRODUCT_NUMBER = ''CONFIG_SET_PRODUCT_NUMBER''"
| "command_name CONFIG_GET_VENDOR_ID = ''CONFIG_GET_VENDOR_ID''"
| "command_name CONFIG_SET_VENDOR_ID = ''CONFIG_SET_VENDOR_ID''"
| "command_name CONFIG_GET_PRODUCT_ID = ''CONFIG_GET_PRODUCT_ID''"
| "command_name CONFIG_SET_PRODUCT_ID = ''CONFIG_SET_PRODUCT_ID''"
| "command_name CONFIG_GET_DEVICE_BCD = ''CONFIG_GET_DEVICE_BCD''"
| "command_name CONFIG_SET_DEVICE_BCD = ''CONFIG_SET_DEVICE_BCD''"
| "command_name CONFIG_GET_MODEL_LABEL = ''CONFIG_GET_MODEL_LABEL''"
| "command_name CONFIG_SET_MODEL_LABEL = ''CONFIG_SET_MODEL_LABEL''"
| "command_name CONFIG_GET_CMEI_LABEL = ''CONFIG_GET_CMEI_LABEL''"
| "command_name CONFIG_SET_CMEI_LABEL = ''CONFIG_SET_CMEI_LABEL''"
| "command_name CONFIG_GET_APP_KEY = ''CONFIG_GET_APP_KEY''"
| "command_name CONFIG_SET_APP_KEY = ''CONFIG_SET_APP_KEY''"
| "command_name CONFIG_GET_PRODUCT_LABEL = ''CONFIG_GET_PRODUCT_LABEL''"
| "command_name CONFIG_SET_PRODUCT_LABEL = ''CONFIG_SET_PRODUCT_LABEL''"
| "command_name CONFIG_GET_ADB_ENABLED = ''CONFIG_GET_ADB_ENABLED''"
| "command_name CONFIG_SET_ADB_ENABLED = ''CONFIG_SET_ADB_ENABLED''"
| "command_name CONFIG_GET_SENSOR_NAME = ''CONFIG_GET_SENSOR_NAME''"
| "command_name CONFIG_SET_SENSOR_NAME = ''CONFIG_SET_SENSOR_NAME''"
| "command_name CONFIG_GET_I2C_ADDRESS = ''CONFIG_GET_I2C_ADDRESS''"
| "command_name CONFIG_SET_I2C_ADDRESS = ''CONFIG_SET_I2C_ADDRESS''"
| "command_name CONFIG_GET_DEFAULT_BOOT = ''CONFIG_GET_DEFAULT_BOOT''"
| "command_name CONFIG_SET_DEFAULT_BOOT = ''CONFIG_SET_DEFAULT_BOOT''"
| "command_name CONFIG_GET_SENSOR_FPS = ''CONFIG_GET_SENSOR_FPS''"
| "command_name CONFIG_SET_SENSOR_FPS = ''CONFIG_SET_SENSOR_FPS''"
| "command_name CONFIG_GET_SENSOR_WIDTH = ''CONFIG_GET_SENSOR_WIDTH''"
| "command_name CONFIG_SET_SENSOR_WIDTH = ''CONFIG_SET_SENSOR_WIDTH''"
| "command_name CONFIG_GET_SENSOR_HEIGHT = ''CONFIG_GET_SENSOR_HEIGHT''"
| "command_name CONFIG_SET_SENSOR_HEIGHT = ''CONFIG_SET_SENSOR_HEIGHT''"
| "command_name CONFIG_GET_HV_FLIP = ''CONFIG_GET_HV_FLIP''"
| "command_name CONFIG_SET_HV_FLIP = ''CONFIG_SET_HV_FLIP''"
| "command_name CONFIG_GET_RATE_CONTROL_MODE = ''CONFIG_GET_RATE_CONTROL_MODE''"
| "command_name CONFIG_SET_RATE_CONTROL_MODE = ''CONFIG_SET_RATE_CONTROL_MODE''"
| "command_name CONFIG_GET_BITRATE = ''CONFIG_GET_BITRATE''"
| "command_name CONFIG_SET_BITRATE = ''CONFIG_SET_BITRATE''"
| "command_name CONFIG_GET_QP_VALUE = ''CONFIG_GET_QP_VALUE''"
| "command_name CONFIG_SET_QP_VALUE = ''CONFIG_SET_QP_VALUE''"
| "command_name UPLOAD_INITIALIZE = ''UPLOAD_INITIALIZE''"
| "command_name UPLOAD_TARGET_3110 = ''UPLOAD_TARGET_3110''"
| "command_name UPLOAD_TARGET_3111 = ''UPLOAD_TARGET_3111''"
| "command_name UPLOAD_TARGET_3112 = ''UPLOAD_TARGET_3112''"
| "command_name UPLOAD_TARGET_3113 = ''UPLOAD_TARGET_3113''"
| "command_name UPLOAD_TARGET_SENSOR_MODULE = ''UPLOAD_TARGET_SENSOR_MODULE''"
| "command_name UPLOAD_TARGET_SENSOR_CONFIGURATION = ''UPLOAD_TARGET_SENSOR_CONFIGURATION''"
| "command_name UPLOAD_TARGET_3116 = ''UPLOAD_TARGET_3116''"
| "command_name UPLOAD_TARGET_3120 = ''UPLOAD_TARGET_3120''"
| "command_name UPLOAD_TARGET_3150 = ''UPLOAD_TARGET_3150''"
| "command_name UPLOAD_TARGET_31F0 = ''UPLOAD_TARGET_31F0''"
| "command_name UPLOAD_APPEND_DATA = ''UPLOAD_APPEND_DATA''"
| "command_name UPLOAD_COMMIT = ''UPLOAD_COMMIT''"
| "command_name UPGRADE_AND_REBOOT = ''UPGRADE_AND_REBOOT''"

text \<open>\<open>str.lower()\<close> on ASCII text.\<close>

definition lower_char :: "char \<Rightarrow> char" where
  "lower_char c = (if 65 \<le> (of_char c :: nat) \<and> (of_char c :: nat) \<le> 90
                   then char_of ((of_char c :: nat) + 32) else c)"

section \<open>The configuration table\<close>

datatype configuration_key =
  MANUFACTURER_LABEL | SERIAL_LABEL | PRODUCT_NUMBER | VENDOR_ID | PRODUCT_ID | DEVICE_BCD |
    MODEL_LABEL | CMEI_LABEL | APP_KEY | PRODUCT_LABEL | ADB_ENABLED | SENSOR_NAME |
    I2C_ADDRESS | DEFAULT_BOOT | SENSOR_FPS | SENSOR_WIDTH | SENSOR_HEIGHT | HV_FLIP |
    RATE_CONTROL_MODE | BITRATE | QP_VALUE

primrec key_value :: "configuration_key \<Rightarrow> string" where
  "key_value MANUFACTURER_LABEL = ''manufact_lab''"
| "key_value SERIAL_LABEL = ''serial_lab''"
| "key_value PRODUCT_NUMBER = ''productnumber''"
| "key_value VENDOR_ID = ''vendor_id''"
| "key_value PRODUCT_ID = ''product_id''"
| "key_value DEVICE_BCD = ''device_bcd''"
| "key_value MODEL_LABEL = ''model_lab''"
| "key_value CMEI_LABEL = ''cmei_lab''"
| "key_value APP_KEY = ''appkey''"
| "key_value PRODUCT_LABEL = ''product_lab''"
| "key_value ADB_ENABLED = ''adb_en''"
| "key_value SENSOR_NAME = ''sensor_name''"
| "key_value I2C_ADDRESS = ''i2c_addr''"
| "key_value DEFAULT_BOOT = ''default_boot''"
| "key_value SENSOR_FPS = ''sensor_fps''"
| "key_value SENSOR_WIDTH = ''sensor_width''"
| "key_value SENSOR_HEIGHT = ''sensor_height''"
| "key_value HV_FLIP = ''hvflip''"
| "key_value RATE_CONTROL_MODE = ''rcmode''"
| "key_value BITRATE = ''bitrate''"
| "key_value QP_VALUE = ''qp_value''"

record config_command_pair =
  cp_key :: configuration_key
  cp_get :: normal_command
  cp_set :: normal_command
  cp_present :: bool

definition config_pair :: "configuration_key \<Rightarrow> normal_command \<Rightarrow> normal_command \<Rightarrow> bool \<Rightarrow>
    config_command_pair" where
  "config_pair k g s p = \<lparr>cp_key = k, cp_get = g, cp_set = s, cp_present = p\<rparr>"

definition CONFIGURATION_COMMANDS :: "config_command_pair list" where
  "CONFIGURATION_COMMANDS =
    [config_pair MANUFACTURER_LABEL CONFIG_GET_MANUFACTURER_LABEL CONFIG_SET_MANUFACTURER_LABEL True,
     config_pair SERIAL_LABEL CONFIG_GET_SERIAL_LABEL CONFIG_SET_SERIAL_LABEL True,
     config_pair PRODUCT_NUMBER CONFIG_GET_PRODUCT_NUMBER CONFIG_SET_PRODUCT_NUMBER False,
     config_pair VENDOR_ID CONFIG_GET_VENDOR_ID CONFIG_SET_VENDOR_ID True,
     config_pair PRODUCT_ID CONFIG_GET_PRODUCT_ID CONFIG_SET_PRODUCT_ID True,
     config_pair DEVICE_BCD CONFIG_GET_DEVICE_BCD CONFIG_SET_DEVICE_BCD True,
     config_pair MODEL_LABEL CONFIG_GET_MODEL_LABEL CONFIG_SET_MODEL_LABEL False,
     config_pair CMEI_LABEL CONFIG_GET_CMEI_LABEL CONFIG_SET_CMEI_LABEL False,
     config_pair APP_KEY CONFIG_GET_APP_KEY CONFIG_SET_APP_KEY False,
     config_pair PRODUCT_LABEL CONFIG_GET_PRODUCT_LABEL CONFIG_SET_PRODUCT_LABEL True,
     config_pair ADB_ENABLED CONFIG_GET_ADB_ENABLED CONFIG_SET_ADB_ENABLED True,
     config_pair SENSOR_NAME CONFIG_GET_SENSOR_NAME CONFIG_SET_SENSOR_NAME True,
     config_pair I2C_ADDRESS CONFIG_GET_I2C_ADDRESS CONFIG_SET_I2C_ADDRESS True,
     config_pair DEFAULT_BOOT CONFIG_GET_DEFAULT_BOOT CONFIG_SET_DEFAULT_BOOT True,
     config_pair SENSOR_FPS CONFIG_GET_SENSOR_FPS CONFIG_SET_SENSOR_FPS True,
     config_pair SENSOR_WIDTH CONFIG_GET_SENSOR_WIDTH CONFIG_SET_SENSOR_WIDTH True,
     config_pair SENSOR_HEIGHT CONFIG_GET_SENSOR_HEIGHT CONFIG_SET_SENSOR_HEIGHT True,
     config_pair HV_FLIP CONFIG_GET_HV_FLIP CONFIG_SET_HV_FLIP True,
     config_pair RATE_CONTROL_MODE CONFIG_GET_RATE_CONTROL_MODE CONFIG_SET_RATE_CONTROL_MODE True,
     config_pair BITRATE CONFIG_GET_BITRATE CONFIG_SET_BITRATE True,
     config_pair QP_VALUE CONFIG_GET_QP_VALUE CONFIG_SET_QP_VALUE True]"

text \<open>\<open>{entry.key: entry for entry in CONFIGURATION_COMMANDS}\<close>: the last entry of a key wins.\<close>

definition CONFIGURATION_BY_KEY :: "configuration_key \<rightharpoonup> config_command_pair" where
  "CONFIGURATION_BY_KEY = map_of (rev (map (\<lambda>e. (cp_key e, e)) CONFIGURATION_COMMANDS))"

section \<open>The upload table\<close>

datatype upload_state = IDLE | NEED_TARGET | RECEIVING | READY_TO_COMMIT | ERROR

fun upload_state_value :: "upload_state \<Rightarrow> nat" where
  "upload_state_value IDLE = 1"
| "upload_state_value NEED_TARGET = 2"
| "upload_state_value RECEIVING = 3"
| "upload_state_value READY_TO_COMMIT = 4"
| "upload_state_value ERROR = 5"

record upload_command_descriptor =
  ucd_command :: normal_command
  ucd_required_state :: upload_state
  ucd_operation :: string
  ucd_normal_next_state :: upload_state
  ucd_accepts_payload :: bool
  ucd_destructive :: bool

definition upload_entry :: "normal_command \<Rightarrow> upload_state \<Rightarrow> string \<Rightarrow> upload_state \<Rightarrow> bool \<Rightarrow> bool \<Rightarrow>
    upload_command_descriptor" where
  "upload_entry c r text n p d = \<lparr>ucd_command = c, ucd_required_state = r, ucd_operation = text,
     ucd_normal_next_state = n, ucd_accepts_payload = p, ucd_destructive = d\<rparr>"

definition UPLOAD_COMMANDS :: "upload_command_descriptor list" where
  "UPLOAD_COMMANDS =
    [upload_entry UPLOAD_INITIALIZE IDLE
       ''allocate 0x01000200-byte buffer and reset counters'' NEED_TARGET False False,
     upload_entry UPLOAD_TARGET_3110 NEED_TARGET
       ''select literal destination path'' RECEIVING True False,
     upload_entry UPLOAD_TARGET_3111 NEED_TARGET
       ''select literal destination path'' RECEIVING True False,
     upload_entry UPLOAD_TARGET_3112 NEED_TARGET
       ''select literal destination path'' RECEIVING True False,
     upload_entry UPLOAD_TARGET_3113 NEED_TARGET
       ''select literal destination path'' RECEIVING True False,
     upload_entry UPLOAD_TARGET_SENSOR_MODULE NEED_TARGET
       ''derive /system/lib/modules/sensor_%s_t31.ko'' RECEIVING False False,
     upload_entry UPLOAD_TARGET_SENSOR_CONFIGURATION NEED_TARGET
       ''derive /system/etc/sensor/%s-t31.bin'' RECEIVING False False,
     upload_entry UPLOAD_TARGET_3116 NEED_TARGET
       ''select literal destination path'' RECEIVING True False,
     upload_entry UPLOAD_TARGET_3120 NEED_TARGET
       ''select literal destination path'' RECEIVING True False,
     upload_entry UPLOAD_TARGET_3150 NEED_TARGET
       ''select literal destination path through equivalent handler'' RECEIVING True False,
     upload_entry UPLOAD_TARGET_31F0 NEED_TARGET
       ''select literal destination path'' RECEIVING True False,
     upload_entry UPLOAD_APPEND_DATA RECEIVING
       ''append absolute-sequence-numbered data; type 2 marks final'' RECEIVING True False,
     upload_entry UPLOAD_COMMIT READY_TO_COMMIT
       ''remove target, write bytes, and chmod 0777'' IDLE False True]"

definition LITERAL_UPLOAD_TARGET_COMMANDS :: "normal_command set" where
  "LITERAL_UPLOAD_TARGET_COMMANDS =
    {UPLOAD_TARGET_3110, UPLOAD_TARGET_3111, UPLOAD_TARGET_3112, UPLOAD_TARGET_3113,
     UPLOAD_TARGET_3116, UPLOAD_TARGET_3120, UPLOAD_TARGET_3150, UPLOAD_TARGET_31F0}"

definition DERIVED_UPLOAD_TARGET_COMMANDS :: "normal_command set" where
  "DERIVED_UPLOAD_TARGET_COMMANDS = {UPLOAD_TARGET_SENSOR_MODULE, UPLOAD_TARGET_SENSOR_CONFIGURATION}"

section \<open>The catalog\<close>

record normal_command_descriptor =
  ncd_command :: nat
  ncd_name :: string
  ncd_family :: normal_command_family
  ncd_request :: string
  ncd_success_response :: string
  ncd_side_effect :: string
  ncd_source_anchor :: string

definition config_entries :: "config_command_pair \<Rightarrow> normal_command_descriptor list" where
  "config_entries pair =
    [\<lparr>ncd_command = wire_value (cp_get pair), ncd_name = ''config_get_'' @ key_value (cp_key pair),
      ncd_family = CONFIGURATION, ncd_request = ''empty payload (payload is ignored)'',
      ncd_success_response = ''type 1, status 0, raw value bytes'', ncd_side_effect = ''none'',
      ncd_source_anchor = ''hid_update GET 0x00401cd0 / dispatcher 0x004024c0''\<rparr>,
     \<lparr>ncd_command = wire_value (cp_set pair), ncd_name = ''config_set_'' @ key_value (cp_key pair),
      ncd_family = CONFIGURATION, ncd_request = ''replacement value bytes; frame type 1 or 2'',
      ncd_success_response = ''type 0, status 0'',
      ncd_side_effect = ''rewrites '' @ key_value (cp_key pair) @ '' in persistent uvc.config'',
      ncd_source_anchor = ''hid_update SET 0x00402038 / dispatcher 0x004024c0''\<rparr>]"

definition upload_catalog_entry :: "upload_command_descriptor \<Rightarrow> normal_command_descriptor" where
  "upload_catalog_entry upload =
     \<lparr>ncd_command = wire_value (ucd_command upload),
      ncd_name = map lower_char (command_name (ucd_command upload)),
      ncd_family = FILE_UPLOAD, ncd_request = ucd_operation upload,
      ncd_success_response = ''type 0, status 0 (wrong-state calls can falsely succeed)'',
      ncd_side_effect = (if ucd_destructive upload then ''destructive file replacement''
                         else ''changes uploader state or buffers data''),
      ncd_source_anchor = ''hid_update dispatcher 0x00402e3c''\<rparr>"

definition version_entry :: normal_command_descriptor where
  "version_entry =
     \<lparr>ncd_command = wire_value VERSION_QUERY, ncd_name = ''version_query'', ncd_family = VERSION,
      ncd_request = ''empty payload (extra bytes are ignored by firmware)'',
      ncd_success_response = ''type 1, status 0, first line of /tmp/version.txt'',
      ncd_side_effect = ''none'', ncd_source_anchor = ''hid_update 0x004015e4''\<rparr>"

definition upgrade_entry :: normal_command_descriptor where
  "upgrade_entry =
     \<lparr>ncd_command = wire_value UPGRADE_AND_REBOOT, ncd_name = ''upgrade_and_reboot'',
      ncd_family = UPGRADE_TRIGGER,
      ncd_request = ''exactly 8 upgrade-word bytes; canonical command 0x4000'',
      ncd_success_response = ''type 0, status 0 on write success; reboot follows even on failure'',
      ncd_side_effect = ''writes flash 0x7f8000 and reboots into U-Boot updater'',
      ncd_source_anchor = ''hid_update 0x00401364; group branch 0x0040123c''\<rparr>"

definition NORMAL_COMMAND_CATALOG :: "normal_command_descriptor list" where
  "NORMAL_COMMAND_CATALOG =
     [version_entry] @ concat (map config_entries CONFIGURATION_COMMANDS)
       @ map upload_catalog_entry UPLOAD_COMMANDS @ [upgrade_entry]"

definition NORMAL_COMMAND_BY_VALUE :: "nat \<rightharpoonup> normal_command_descriptor" where
  "NORMAL_COMMAND_BY_VALUE = map_of (rev (map (\<lambda>e. (ncd_command e, e)) NORMAL_COMMAND_CATALOG))"

definition is_upgrade_trigger_command :: "int \<Rightarrow> bool" where
  "is_upgrade_trigger_command command \<longleftrightarrow>
     0 \<le> command \<and> command \<le> 0xFFFF \<and> command AND 0xF000 = 0x4000"

text \<open>\<open>f"{command:04x}"\<close> of a nonnegative integer.\<close>

fun hex_text :: "nat \<Rightarrow> string" where
  "hex_text n = (if n < 16 then [hex_digit n] else hex_text (n div 16) @ [hex_digit (n mod 16)])"

declare hex_text.simps [simp del]

definition hex_padded :: "nat \<Rightarrow> nat \<Rightarrow> string" where
  "hex_padded width n = replicate (width - length (hex_text n)) (CHR ''0'') @ hex_text n"

definition describe_normal_command :: "int \<Rightarrow> normal_command_descriptor option" where
  "describe_normal_command command =
     (case (if 0 \<le> command then NORMAL_COMMAND_BY_VALUE (nat command) else None) of
        Some exact \<Rightarrow> Some exact
      | None \<Rightarrow>
          if is_upgrade_trigger_command command
          then map_option (\<lambda>canonical. canonical\<lparr>ncd_command := nat command,
                 ncd_name := ''upgrade_and_reboot_0x'' @ hex_padded 4 (nat command)\<rparr>)
               (NORMAL_COMMAND_BY_VALUE (wire_value UPGRADE_AND_REBOOT))
          else None)"

section \<open>Arguments\<close>

text \<open>A \<open>str\<close> (its code points) or a bytes-like object.\<close>

datatype text_or_bytes = Text "nat list" | Bytes bytes

text \<open>
  \<open>str.encode("utf-8")\<close>: one to four bytes per code point; a surrogate raises
  \<open>UnicodeEncodeError\<close>, a \<open>ValueError\<close>.
\<close>

definition utf8_char :: "nat \<Rightarrow> bytes res" where
  "utf8_char c =
     (if c < 0x80 then Inr [word_of_nat c]
      else if c < 0x800 then Inr [word_of_nat (0xC0 + c div 64), word_of_nat (0x80 + c mod 64)]
      else if 0xD800 \<le> c \<and> c \<le> 0xDFFF then Inl (ValueError ''surrogates not allowed'')
      else if c < 0x10000 then Inr [word_of_nat (0xE0 + c div 4096),
        word_of_nat (0x80 + c div 64 mod 64), word_of_nat (0x80 + c mod 64)]
      else Inr [word_of_nat (0xF0 + c div 262144), word_of_nat (0x80 + c div 4096 mod 64),
        word_of_nat (0x80 + c div 64 mod 64), word_of_nat (0x80 + c mod 64)])"

definition encode_utf8 :: "nat list \<Rightarrow> bytes res" where
  "encode_utf8 text = res_bind (res_map utf8_char text) (\<lambda>bs. Inr (concat bs))"

definition encode_ascii :: "nat list \<Rightarrow> bytes res" where
  "encode_ascii text = (if \<forall>c \<in> set text. c < 0x80 then Inr (map word_of_nat text)
                        else Inl (ValueError ''ordinal not in range(128)''))"

fun raw_payload :: "text_or_bytes \<Rightarrow> bytes res" where
  "raw_payload (Text t) = encode_utf8 t"
| "raw_payload (Bytes b) = Inr b"

text \<open>A key argument is a member of the enumeration or text naming one.\<close>

datatype key_argument = Key configuration_key | KeyText string

definition configuration_keys :: "configuration_key list" where
  "configuration_keys = map cp_key CONFIGURATION_COMMANDS"

definition configuration_key_of :: "string \<Rightarrow> configuration_key option" where
  "configuration_key_of text = find (\<lambda>k. key_value k = text) configuration_keys"

definition configuration_pair :: "key_argument \<Rightarrow> config_command_pair res" where
  "configuration_pair key =
     (case (case key of Key k \<Rightarrow> Some k | KeyText t \<Rightarrow> configuration_key_of t) of
        None \<Rightarrow> Inl (ProtocolError ''unknown configuration key'')
      | Some normalized \<Rightarrow>
          (case CONFIGURATION_BY_KEY normalized of
             None \<Rightarrow> Inl (ValueError ''KeyError'')
           | Some pair \<Rightarrow> Inr pair))"

section \<open>Builders of normal-mode requests\<close>

text \<open>\<open>build_normal_report(command)\<close> with the default payload, type and status.\<close>

definition plain_report :: "normal_command \<Rightarrow> bytes \<Rightarrow> bytes res" where
  "plain_report command payload = build_normal_report (int (wire_value command)) payload 1 0"

definition build_version_request :: "bytes res" where
  "build_version_request = plain_report VERSION_QUERY []"

definition build_config_get_request :: "key_argument \<Rightarrow> bytes res" where
  "build_config_get_request key =
     res_bind (configuration_pair key) (\<lambda>pair. plain_report (cp_get pair) [])"

definition build_config_set_request ::
    "key_argument \<Rightarrow> text_or_bytes \<Rightarrow> normal_frame_type \<Rightarrow> bytes res" where
  "build_config_set_request key value frame_type =
     res_bind (configuration_pair key) (\<lambda>pair.
     res_bind (raw_payload value) (\<lambda>payload.
     build_normal_report (int (wire_value (cp_set pair))) payload (frame_type_value frame_type) 0))"

text \<open>The bytes of \<open>[A-Za-z0-9_./-]\<close>.\<close>

definition safe_path_byte :: "byte \<Rightarrow> bool" where
  "safe_path_byte b \<longleftrightarrow>
     (0x41 \<le> b \<and> b \<le> 0x5A) \<or> (0x61 \<le> b \<and> b \<le> 0x7A) \<or> (0x30 \<le> b \<and> b \<le> 0x39) \<or>
     b = 0x5F \<or> b = 0x2E \<or> b = 0x2F \<or> b = 0x2D"

text \<open>\<open>_SAFE_UPLOAD_PATH.fullmatch(encoded) is not None\<close>.\<close>

definition safe_upload_path :: "bytes \<Rightarrow> bool" where
  "safe_upload_path encoded \<longleftrightarrow> encoded \<noteq> [] \<and> list_all safe_path_byte encoded"

definition ascii :: "string \<Rightarrow> bytes" where
  "ascii text = map of_char text"

definition ADB_UPLOAD_COMMAND_TARGET :: bytes where
  "ADB_UPLOAD_COMMAND_TARGET = ascii ''/tmp/.cc2flash-adbd-bootstrap;/bin/adbd&''"

text \<open>The two \<open>assert\<close> statements before the build hold of the constant (proved below).\<close>

definition build_adb_upload_command_target_request :: "bytes res" where
  "build_adb_upload_command_target_request = plain_report UPLOAD_TARGET_3110 ADB_UPLOAD_COMMAND_TARGET"

definition build_upload_initialize_request :: "bytes res" where
  "build_upload_initialize_request = plain_report UPLOAD_INITIALIZE []"

definition encode_upload_path :: "text_or_bytes \<Rightarrow> bytes res" where
  "encode_upload_path path =
     (case path of
        Text t \<Rightarrow> (case encode_ascii t of
                     Inl _ \<Rightarrow> Inl (ProtocolError ''upload path must be ASCII or bytes-like'')
                   | Inr b \<Rightarrow> Inr b)
      | Bytes b \<Rightarrow> Inr b)"

definition build_upload_target_request :: "int \<Rightarrow> text_or_bytes option \<Rightarrow> bytes res" where
  "build_upload_target_request command path =
     (case normal_command_of command of
        None \<Rightarrow> Inl (ProtocolError ''unknown upload target command'')
      | Some selected \<Rightarrow>
          if selected \<in> DERIVED_UPLOAD_TARGET_COMMANDS
          then (if path \<noteq> None
                then Inl (ProtocolError ''sensor-derived upload target must not include a path'')
                else plain_report selected [])
          else if selected \<notin> LITERAL_UPLOAD_TARGET_COMMANDS
          then Inl (ProtocolError ''not an upload target command'')
          else (case path of
             None \<Rightarrow> Inl (ProtocolError ''literal upload target requires a path'')
           | Some p \<Rightarrow>
               res_bind (encode_upload_path p) (\<lambda>encoded.
               if encoded = [] \<or> length encoded > 127 \<or> \<not> safe_upload_path encoded
               then Inl (ProtocolError ''upload path must be 1-127 safe ASCII path bytes'')
               else plain_report selected encoded)))"

definition build_upload_data_request :: "int \<Rightarrow> bytes \<Rightarrow> bool \<Rightarrow> bytes res" where
  "build_upload_data_request sequence data final =
     (if \<not> (0 \<le> sequence \<and> sequence \<le> 0xFFFFFFFF)
      then Inl (ProtocolError ''upload sequence must fit in an unsigned 32-bit integer'')
      else build_normal_report (int (wire_value UPLOAD_APPEND_DATA)) data
             (frame_type_value (if final then FINAL_PAYLOAD else PAYLOAD_OR_CONTINUATION)) sequence)"

definition build_upload_commit_request :: "bytes res" where
  "build_upload_commit_request = plain_report UPLOAD_COMMIT []"

definition build_upgrade_request :: "int \<Rightarrow> int \<Rightarrow> bytes res" where
  "build_upgrade_request mode command =
     (if \<not> is_upgrade_trigger_command command
      then Inl (ProtocolError ''upgrade trigger command must be in the 0x4xxx group'')
      else res_bind (upgrade_flag_payload mode) (\<lambda>payload. build_normal_report command payload 1 0))"

section \<open>The bootloader stage\<close>

datatype boot_frame_type = HOST_TRANSFER_METADATA | DEVICE_NEXT_PACKET_ACK | HOST_TRANSFER_DATA
  | DEVICE_TERMINAL_STATUS

fun boot_type_value :: "boot_frame_type \<Rightarrow> nat" where
  "boot_type_value HOST_TRANSFER_METADATA = 1"
| "boot_type_value DEVICE_NEXT_PACKET_ACK = 2"
| "boot_type_value HOST_TRANSFER_DATA = 3"
| "boot_type_value DEVICE_TERMINAL_STATUS = 5"

record boot_frame_type_descriptor =
  bfd_frame_type :: boot_frame_type
  bfd_direction :: string
  bfd_payload :: string
  bfd_meaning :: string
  bfd_source_anchor :: string

definition BOOT_FRAME_TYPES :: "boot_frame_type_descriptor list" where
  "BOOT_FRAME_TYPES =
    [\<lparr>bfd_frame_type = HOST_TRANSFER_METADATA, bfd_direction = ''host -> device'',
      bfd_payload = ''exactly 10 bytes'', bfd_meaning = ''initialize firmware transfer'',
      bfd_source_anchor = ''U-Boot type-1 branch 0x80117d1c''\<rparr>,
     \<lparr>bfd_frame_type = DEVICE_NEXT_PACKET_ACK, bfd_direction = ''device -> host'',
      bfd_payload = ''u32le(next expected absolute packet)'',
      bfd_meaning = ''acknowledge or request retransmission'',
      bfd_source_anchor = ''U-Boot send_ack path''\<rparr>,
     \<lparr>bfd_frame_type = HOST_TRANSFER_DATA, bfd_direction = ''host -> device'',
      bfd_payload = ''u32le(sequence) plus data'', bfd_meaning = ''append numbered transfer data'',
      bfd_source_anchor = ''U-Boot type-3 branch 0x80118094''\<rparr>,
     \<lparr>bfd_frame_type = DEVICE_TERMINAL_STATUS, bfd_direction = ''device -> host'',
      bfd_payload = ''one byte: 01 success, 00 failure'',
      bfd_meaning = ''RAM-image MD5 result, sent before flash erase/write'',
      bfd_source_anchor = ''U-Boot finalization 0x801183b0''\<rparr>]"

text \<open>
  The packet count is compared with \<open>(transfer_size + packet_payload_size - 1) // packet_payload_size\<close>;
  \<open>div\<close> on \<open>int\<close> rounds like Python's \<open>//\<close>, and the divisor has been checked to be positive.
\<close>

definition build_boot_metadata_request :: "update_plan \<Rightarrow> int \<Rightarrow> bytes res" where
  "build_boot_metadata_request plan firmware_version =
     (if \<not> (1 \<le> packet_payload_size plan \<and> packet_payload_size plan \<le> int BOOT_DATA_SIZE)
      then Inl (ProtocolError ''metadata packet payload must be 1..3060 bytes for HID'')
      else if \<not> (1 \<le> transfer_size plan \<and> transfer_size plan \<le> 0xFFFFFFFF)
      then Inl (ProtocolError ''metadata transfer size must fit in a nonzero u32'')
      else if \<not> (1 \<le> packets_per_ack plan \<and> packets_per_ack plan \<le> 0xFFFF)
      then Inl (ProtocolError ''metadata packets-per-ACK must fit in a nonzero u16'')
      else if \<not> (0 \<le> firmware_version \<and> firmware_version \<le> 0xFFFF)
      then Inl (ProtocolError ''metadata firmware version must fit in a u16'')
      else
        let expected_packets = (transfer_size plan + packet_payload_size plan - 1) div packet_payload_size plan
        in if packet_count plan \<noteq> expected_packets
           then Inl (ProtocolError ''metadata packet count does not match'')
           else build_metadata_frame plan firmware_version)"

definition build_boot_data_request :: "int \<Rightarrow> bytes \<Rightarrow> bytes res" where
  "build_boot_data_request sequence data =
     (if \<not> (0 \<le> sequence \<and> sequence \<le> 0xFFFFFFFF)
      then Inl (ProtocolError ''bootloader sequence must fit in an unsigned 32-bit integer'')
      else if length data > BOOT_DATA_SIZE
      then Inl (ProtocolError ''bootloader data exceeds the HID maximum of 3060 bytes'')
      else res_bind (struct_pack 4 sequence) (\<lambda>s.
           build_boot_frame (int (boot_type_value HOST_TRANSFER_DATA)) (s @ data)))"

text \<open>A reply is given as a parsed frame or as the bytes read.\<close>

datatype boot_reply = Parsed boot_frame | Raw bytes

fun coerce_device_boot_frame :: "boot_reply \<Rightarrow> boot_frame res" where
  "coerce_device_boot_frame (Parsed f) = Inr f"
| "coerce_device_boot_frame (Raw frame) =
     (if length frame \<ge> 4 \<and> frame ! 0 = 1 \<and> pslice frame 1 4 = [0x81, 0x00, 0xEE]
      then from_boot_hid_report frame
      else parse_boot_frame frame True)"

definition decode_boot_ack :: "boot_reply \<Rightarrow> nat res" where
  "decode_boot_ack frame =
     res_bind (coerce_device_boot_frame frame) (\<lambda>parsed.
     if bf_frame_type parsed \<noteq> boot_type_value DEVICE_NEXT_PACKET_ACK
     then Inl (ProtocolError ''expected bootloader type 2 ACK'')
     else if length (bf_payload parsed) \<noteq> 4
     then Inl (ProtocolError ''bootloader type 2 ACK payload must be exactly four bytes'')
     else Inr (le_val (bf_payload parsed)))"

definition decode_boot_terminal_status :: "boot_reply \<Rightarrow> bool res" where
  "decode_boot_terminal_status frame =
     res_bind (coerce_device_boot_frame frame) (\<lambda>parsed.
     if bf_frame_type parsed \<noteq> boot_type_value DEVICE_TERMINAL_STATUS
     then Inl (ProtocolError ''expected bootloader type 5 status'')
     else if bf_payload parsed \<noteq> [0] \<and> bf_payload parsed \<noteq> [1]
     then Inl (ProtocolError ''bootloader type 5 payload must be one byte 00 or 01'')
     else Inr (bf_payload parsed = [1]))"

section \<open>Library instances\<close>

text \<open>The members of the \<open>IntEnum\<close>s compare as their values do.\<close>

lemma wire_value_inj:
  assumes "wire_value a = wire_value b"
  shows "a = b"
proof -
  have "distinct (map wire_value normal_commands)" by (simp add: normal_commands_def)
  moreover have "c \<in> set normal_commands" for c by (cases c) (simp_all add: normal_commands_def)
  ultimately show ?thesis using assms by (auto simp: distinct_map inj_on_def)
qed

instantiation upload_state :: linorder
begin

definition less_eq_upload_state :: "upload_state \<Rightarrow> upload_state \<Rightarrow> bool" where
  "less_eq_upload_state a b \<longleftrightarrow> upload_state_value a \<le> upload_state_value b"

definition less_upload_state :: "upload_state \<Rightarrow> upload_state \<Rightarrow> bool" where
  "less_upload_state a b \<longleftrightarrow> upload_state_value a < upload_state_value b"

instance
proof
  fix a b :: upload_state
  show "a \<le> b \<Longrightarrow> b \<le> a \<Longrightarrow> a = b"
    by (cases a; cases b; simp add: less_eq_upload_state_def)
qed (auto simp: less_eq_upload_state_def less_upload_state_def)

end

section \<open>Facts about the tables\<close>

lemma UNIV_normal_commands: "set normal_commands = UNIV"
proof -
  have "c \<in> set normal_commands" for c
    by (cases c) (simp_all add: normal_commands_def)
  then show ?thesis by auto
qed

lemma normal_command_of_wire_value [simp]: "normal_command_of (int (wire_value c)) = Some c"
proof -
  have "find (\<lambda>d. int (wire_value d) = int (wire_value c)) xs = Some c" if "c \<in> set xs" for xs
    using that by (induction xs) (auto dest: wire_value_inj)
  then show ?thesis
    by (simp add: normal_command_of_def UNIV_normal_commands)
qed

lemma normal_command_of_Some: "normal_command_of v = Some c \<Longrightarrow> v = int (wire_value c)"
  by (auto simp: normal_command_of_def find_Some_iff)

lemma catalog_values: "map ncd_command NORMAL_COMMAND_CATALOG = map wire_value
    ([VERSION_QUERY] @ concat (map (\<lambda>p. [cp_get p, cp_set p]) CONFIGURATION_COMMANDS)
      @ map ucd_command UPLOAD_COMMANDS @ [UPGRADE_AND_REBOOT])"
  by (simp add: NORMAL_COMMAND_CATALOG_def version_entry_def upgrade_entry_def
      upload_catalog_entry_def config_entries_def map_concat comp_def)

lemma catalog_members:
  "[VERSION_QUERY] @ concat (map (\<lambda>p. [cp_get p, cp_set p]) CONFIGURATION_COMMANDS)
      @ map ucd_command UPLOAD_COMMANDS @ [UPGRADE_AND_REBOOT] = normal_commands"
  by (simp add: CONFIGURATION_COMMANDS_def UPLOAD_COMMANDS_def normal_commands_def
      config_pair_def upload_entry_def)

lemma catalog_wire_values: "map ncd_command NORMAL_COMMAND_CATALOG = map wire_value normal_commands"
  unfolding catalog_values catalog_members ..

lemma distinct_normal_commands: "distinct normal_commands"
  by (simp add: normal_commands_def)

lemma catalog_distinct: "distinct (map ncd_command NORMAL_COMMAND_CATALOG)"
  unfolding catalog_wire_values distinct_map
  using distinct_normal_commands by (auto intro: inj_onI wire_value_inj)

text \<open>The catalog lists every member of \<open>NormalCommand\<close> exactly once, in declaration order, under
  57 distinct wire values, so the lookup table built from it loses no entry.\<close>

theorem catalog_complete_and_unambiguous:
  "map ncd_command NORMAL_COMMAND_CATALOG = map wire_value normal_commands \<and>
   set normal_commands = UNIV \<and> length normal_commands = 57 \<and>
   distinct (map ncd_command NORMAL_COMMAND_CATALOG) \<and>
   ran NORMAL_COMMAND_BY_VALUE = set NORMAL_COMMAND_CATALOG"
proof -
  have "map fst (map (\<lambda>e. (ncd_command e, e)) NORMAL_COMMAND_CATALOG) = map ncd_command NORMAL_COMMAND_CATALOG"
    by (simp add: comp_def)
  then have "ran NORMAL_COMMAND_BY_VALUE = snd ` set (map (\<lambda>e. (ncd_command e, e)) NORMAL_COMMAND_CATALOG)"
    unfolding NORMAL_COMMAND_BY_VALUE_def
    using catalog_distinct by (simp only: map_of_rev_distinct ran_distinct)
  then show ?thesis
    using catalog_distinct catalog_wire_values UNIV_normal_commands
    by (simp add: image_image) (simp add: normal_commands_def)
qed

lemma CONFIGURATION_BY_KEY_pair: "\<exists>pair. CONFIGURATION_BY_KEY k = Some pair \<and> cp_key pair = k \<and>
    pair \<in> set CONFIGURATION_COMMANDS"
  by (cases k) (simp_all add: CONFIGURATION_BY_KEY_def CONFIGURATION_COMMANDS_def config_pair_def)

lemma is_upgrade_trigger_iff: "is_upgrade_trigger_command c \<longleftrightarrow> 0x4000 \<le> c \<and> c \<le> 0x4FFF"
proof (cases "0 \<le> c \<and> c \<le> 0xFFFF")
  case True
  have "(0xF000 :: int) = push_bit 12 (mask 4)" by (simp add: mask_eq_exp_minus_1 push_bit_eq_mult)
  then have "c AND 0xF000 = push_bit 12 (take_bit 4 (drop_bit 12 c))"
    by (simp add: bit_eq_iff bit_simps) (auto simp: le_iff_add)
  also have "\<dots> = 4096 * (c div 4096 mod 16)"
    by (simp add: push_bit_eq_mult take_bit_eq_mod drop_bit_eq_div)
  finally have "c AND 0xF000 = 0x4000 \<longleftrightarrow> c div 4096 mod 16 = 4" by auto
  moreover have "c div 4096 mod 16 = c div 4096"
    using True by (intro mod_pos_pos_trivial) auto
  ultimately show ?thesis
    using True unfolding is_upgrade_trigger_command_def by auto
qed (auto simp: is_upgrade_trigger_command_def)

lemma by_value_Some: "NORMAL_COMMAND_BY_VALUE v = Some d \<Longrightarrow> ncd_command d = v"
  by (auto simp: NORMAL_COMMAND_BY_VALUE_def dest!: map_of_SomeD)

lemma by_value_dom: "dom NORMAL_COMMAND_BY_VALUE = range wire_value"
proof -
  have "dom NORMAL_COMMAND_BY_VALUE = set (map ncd_command NORMAL_COMMAND_CATALOG)"
    by (simp add: NORMAL_COMMAND_BY_VALUE_def dom_map_of_conv_image_fst image_image)
  then show ?thesis
    by (simp add: catalog_wire_values UNIV_normal_commands del: set_map) (simp add: UNIV_normal_commands)
qed

text \<open>\<open>describe_normal_command\<close> describes exactly the 57 members and the whole \<open>0x4xxx\<close> group, and the
  descriptor it returns carries the command that was asked for.\<close>

theorem describe_normal_command_domain:
  "map_option ncd_command (describe_normal_command c) =
     (if (\<exists>m. c = int (wire_value m)) \<or> (0x4000 \<le> c \<and> c \<le> 0x4FFF) then Some (nat c) else None)"
proof (cases "\<exists>m. c = int (wire_value m)")
  case True
  then obtain m where m: "c = int (wire_value m)" ..
  then obtain d where "NORMAL_COMMAND_BY_VALUE (wire_value m) = Some d"
    using by_value_dom by blast
  then show ?thesis
    using m by_value_Some by (auto simp: describe_normal_command_def)
next
  case False
  then have "NORMAL_COMMAND_BY_VALUE (nat c) = None" if "0 \<le> c"
    using that by_value_dom by (metis domIff nat_0_le rangeE)
  moreover obtain d where "NORMAL_COMMAND_BY_VALUE (wire_value UPGRADE_AND_REBOOT) = Some d"
    using by_value_dom by blast
  ultimately show ?thesis
    using False by (simp add: describe_normal_command_def is_upgrade_trigger_iff)
qed

text \<open>Every configuration key has its pair, found by member and by name, and the pair's numbers
  are an even GET command of the \<open>0x2xxx\<close> group and the odd SET command after it.\<close>

theorem configuration_pairs:
  "\<exists>pair. configuration_pair (Key k) = Inr pair \<and> configuration_pair (KeyText (key_value k)) = Inr pair \<and>
     cp_key pair = k \<and> wire_value (cp_set pair) = wire_value (cp_get pair) + 1 \<and>
     even (wire_value (cp_get pair)) \<and> wire_value (cp_get pair) div 0x1000 = 2"
proof -
  have "configuration_key_of (key_value k) = Some k"
    by (cases k) (simp_all add: configuration_key_of_def configuration_keys_def
        CONFIGURATION_COMMANDS_def config_pair_def)
  moreover obtain pair where "CONFIGURATION_BY_KEY k = Some pair" "cp_key pair = k"
    "pair \<in> set CONFIGURATION_COMMANDS"
    using CONFIGURATION_BY_KEY_pair by blast
  moreover from this have "wire_value (cp_set pair) = wire_value (cp_get pair) + 1 \<and>
     even (wire_value (cp_get pair)) \<and> wire_value (cp_get pair) div 0x1000 = 2"
    by (auto simp: CONFIGURATION_COMMANDS_def config_pair_def)
  ultimately show ?thesis
    by (simp add: configuration_pair_def)
qed

lemma plain_report_Inr:
  "length payload \<le> 1010 \<Longrightarrow> plain_report c payload = Inr (normal_layout (wire_value c) payload 1 0)"
proof -
  have "wire_value c \<le> 0xFFFF" by (cases c) simp_all
  then show "length payload \<le> 1010 \<Longrightarrow> ?thesis"
    by (simp add: plain_report_def build_normal_report_eq constants)
qed

lemma parse_built_report:
  assumes "build_normal_report command payload frame_type status = Inr r"
  shows "parse_normal_report r = Inr \<lparr>nf_command = nat command, nf_frame_type = nat frame_type,
    nf_status = nat status, nf_payload = payload\<rparr>"
proof -
  note b = build_normal_report_Inr [OF assms]
  let ?h = "normal_header (nat command) (nat frame_type) (length payload) (nat status)"
  have r: "r = ?h @ le_bytes 2 (unat (crc16_normal (?h @ payload))) @ payload
      @ replicate (NORMAL_REPORT_SIZE - 14 - length payload) 0"
    using b(7) by (simp add: normal_layout_def Let_def)
  show ?thesis
    unfolding r using b(1-6) unat_word16_bound [of "crc16_normal (?h @ payload)"]
    by (subst parse_normal_layout) (auto simp: constants)
qed

lemma parse_plain_report:
  "plain_report c payload = Inr r \<Longrightarrow> parse_normal_report r = Inr \<lparr>nf_command = wire_value c,
    nf_frame_type = 1, nf_status = 0, nf_payload = payload\<rparr>"
  unfolding plain_report_def by (drule parse_built_report) simp

text \<open>C32: an upload-target request that is built carries one of the eight literal selectors and a path
  of 1 to 127 bytes, every one of them a letter, digit, \<open>_\<close>, \<open>.\<close>, \<open>/\<close> or \<open>-\<close>: no space and no shell
  metacharacter reaches the camera's unquoted \<open>rm\<close> and \<open>chmod\<close>.\<close>

theorem upload_target_is_safe:
  assumes "build_upload_target_request command (Some path) = Inr r"
  shows "\<exists>c encoded. c \<in> LITERAL_UPLOAD_TARGET_COMMANDS \<and> command = int (wire_value c) \<and>
    encode_upload_path path = Inr encoded \<and>
    parse_normal_report r = Inr \<lparr>nf_command = wire_value c, nf_frame_type = 1, nf_status = 0,
      nf_payload = encoded\<rparr> \<and>
    1 \<le> length encoded \<and> length encoded \<le> 127 \<and> list_all safe_path_byte encoded \<and>
    set encoded \<inter> set (ascii '' ;&|$`<>(){}*?!#~'') = {}"
proof -
  obtain c encoded where c: "normal_command_of command = Some c" "c \<in> LITERAL_UPLOAD_TARGET_COMMANDS"
    and e: "encode_upload_path path = Inr encoded" "encoded \<noteq> []" "length encoded \<le> 127"
      "list_all safe_path_byte encoded"
    and r: "plain_report c encoded = Inr r"
    using assms by (auto simp: build_upload_target_request_def safe_upload_path_def
        split: option.splits if_splits)
  have "\<not> safe_path_byte b" if "b \<in> set (ascii '' ;&|$`<>(){}*?!#~'')" for b
    using that by (auto simp: ascii_def safe_path_byte_def)
  then have "set encoded \<inter> set (ascii '' ;&|$`<>(){}*?!#~'') = {}"
    using e(4) unfolding list_all_iff by blast
  with c e r show ?thesis
    using normal_command_of_Some [OF c(1)] parse_plain_report [OF r]
    by (intro exI [of _ c] exI [of _ encoded]) (auto simp: Suc_le_eq)
qed

theorem upload_target_is_safe_witness:
  "\<exists>r. build_upload_target_request 0x3110 (Some (Bytes (ascii ''/tmp/a''))) = Inr r \<and>
     parse_normal_report r = Inr \<lparr>nf_command = 0x3110, nf_frame_type = 1, nf_status = 0,
       nf_payload = ascii ''/tmp/a''\<rparr>"
proof -
  have cmd: "normal_command_of 0x3110 = Some UPLOAD_TARGET_3110"
    using normal_command_of_wire_value [of UPLOAD_TARGET_3110] by simp
  have "safe_upload_path (ascii ''/tmp/a'')"
    by (simp add: safe_upload_path_def ascii_def safe_path_byte_def)
  then have "build_upload_target_request 0x3110 (Some (Bytes (ascii ''/tmp/a'')))
      = Inr (normal_layout 0x3110 (ascii ''/tmp/a'') 1 0)"
    by (simp add: build_upload_target_request_def cmd DERIVED_UPLOAD_TARGET_COMMANDS_def
        LITERAL_UPLOAD_TARGET_COMMANDS_def encode_upload_path_def plain_report_Inr ascii_def)
  from this upload_target_is_safe [OF this] show ?thesis
    by (auto simp: encode_upload_path_def)
qed

text \<open>The one audited injection target is built as documented (at most 127 bytes, no space, sent
  with selector \<open>0x3110\<close>), and the general builder refuses that same path under every command.\<close>

theorem adb_target_only_from_its_builder:
  "0x20 \<notin> set ADB_UPLOAD_COMMAND_TARGET \<and> length ADB_UPLOAD_COMMAND_TARGET \<le> 127 \<and>
   build_adb_upload_command_target_request = Inr (normal_layout 0x3110 ADB_UPLOAD_COMMAND_TARGET 1 0) \<and>
   (\<exists>m. build_upload_target_request command (Some (Bytes ADB_UPLOAD_COMMAND_TARGET))
      = Inl (ProtocolError m))"
proof -
  have "\<not> safe_upload_path ADB_UPLOAD_COMMAND_TARGET"
    by (simp add: safe_upload_path_def ADB_UPLOAD_COMMAND_TARGET_def ascii_def safe_path_byte_def)
  then have "\<exists>m. build_upload_target_request command (Some (Bytes ADB_UPLOAD_COMMAND_TARGET))
      = Inl (ProtocolError m)"
    by (auto simp: build_upload_target_request_def encode_upload_path_def split: option.split)
  moreover have "0x20 \<notin> set ADB_UPLOAD_COMMAND_TARGET"
    and len: "length ADB_UPLOAD_COMMAND_TARGET \<le> 127"
    by (simp_all add: ADB_UPLOAD_COMMAND_TARGET_def ascii_def comp_def)
  moreover have "build_adb_upload_command_target_request
      = Inr (normal_layout 0x3110 ADB_UPLOAD_COMMAND_TARGET 1 0)"
    using len by (simp add: build_adb_upload_command_target_request_def plain_report_Inr)
  ultimately show ?thesis by blast
qed

text \<open>\<open>build_upgrade_request\<close> accepts exactly the \<open>0x4xxx\<close> commands with one of the two transport
  flags, and what it sends is the eight flag bytes: the magic and the transport.\<close>

theorem upgrade_request_flags:
  "build_upgrade_request mode command =
     (if command < 0x4000 \<or> 0x4FFF < command
      then Inl (ProtocolError ''upgrade trigger command must be in the 0x4xxx group'')
      else if mode \<notin> {0x010203A0, 0x010203A1}
      then Inl (ProtocolError ''unknown bootloader transport flag'')
      else Inr (normal_layout (nat command)
        ([0x54, 0x44, 0x50, 0x55] @ [word_of_int (mode mod 256), 3, 2, 1]) 1 0))"
proof -
  have flags: "upgrade_flag_payload m = Inr ([0x54, 0x44, 0x50, 0x55] @ [word_of_int (m mod 256), 3, 2, 1])"
    if "m = 0x010203A0 \<or> m = 0x010203A1" for m
    using that by (auto simp: upgrade_flag_payload_def constants struct_pack_def le_bytes_4)
  show ?thesis
    using flags [of mode]
    by (auto simp: build_upgrade_request_def is_upgrade_trigger_iff build_normal_report_eq
        upgrade_flag_payload_def constants)
qed

lemma build_metadata_frame_eq:
  assumes "0 \<le> packet_payload_size plan" "packet_payload_size plan < 2 ^ 16"
    "0 \<le> transfer_size plan" "transfer_size plan < 2 ^ 32"
    "0 \<le> packets_per_ack plan" "packets_per_ack plan < 2 ^ 16" "0 \<le> v" "v < 2 ^ 16"
  shows "build_metadata_frame plan v = Inr (boot_layout [0x80, 0, 0xEE] 1
    (le_bytes 2 (nat (packet_payload_size plan)) @ le_bytes 4 (nat (transfer_size plan))
     @ le_bytes 2 (nat (packets_per_ack plan)) @ le_bytes 2 (nat v)))"
  using assms by (simp add: build_metadata_frame_def build_boot_frame_eq constants)

text \<open>The plan of every blob that is built passes the metadata checks (the redundant packet count
  included), and its type-1 frame has the documented 17 bytes with packet size 3060, the blob's
  length, one packet per acknowledgement and version 0.\<close>

theorem metadata_request_of_blob:
  assumes "build_update_blob md5_digest img offset = Inr (blob, plan)"
  shows "\<exists>f. build_boot_metadata_request plan 0 = Inr f \<and> length f = 17 \<and>
    parse_boot_frame f False = Inr \<lparr>bf_frame_type = 1,
      bf_payload = le_bytes 2 3060 @ le_bytes 4 (length blob) @ le_bytes 2 1 @ le_bytes 2 0,
      bf_total_length = 17\<rparr>"
proof -
  note h = md5.update_header [OF assms]
  have len: "length blob = 128 + length img" by (rule md5.blob_length [OF assms])
  have small: "length blob \<le> 128 + 0x800000" using h(1,3) len by (simp add: constants)
  have "packet_count plan = (transfer_size plan + packet_payload_size plan - 1) div packet_payload_size plan"
    using len unfolding h(5) by (simp add: constants zdiv_int of_nat_diff)
  then have "build_boot_metadata_request plan 0 = build_metadata_frame plan 0"
    using small len unfolding build_boot_metadata_request_def by (simp add: h(5) constants)
  also have "\<dots> = Inr (boot_layout [0x80, 0, 0xEE] 1
      (le_bytes 2 3060 @ le_bytes 4 (length blob) @ le_bytes 2 1 @ le_bytes 2 0))" (is "_ = Inr ?f")
    using small by (subst build_metadata_frame_eq) (simp_all add: h(5) constants)
  finally have f: "build_boot_metadata_request plan 0 = Inr ?f" .
  have "build_boot_frame 1 (le_bytes 2 3060 @ le_bytes 4 (length blob) @ le_bytes 2 1 @ le_bytes 2 0) = Inr ?f"
    by (simp add: build_boot_frame_eq constants)
  from build_boot_frame_parse(1) [OF this, of "[]"] f show ?thesis
    by (simp add: length_boot_layout)
qed

theorem metadata_request_of_blob_witness:
  "\<exists>blob plan f. build_update_blob md5_digest [1, 2, 3] 0 = Inr (blob, plan) \<and>
     build_boot_metadata_request plan 0 = Inr f \<and> length f = 17"
proof -
  obtain blob plan where "build_update_blob md5_digest [1, 2, 3] 0 = Inr (blob, plan)"
    using build_update_blob_ok [of "[1, 2, 3]" md5_digest] by (auto simp: constants)
  with metadata_request_of_blob [OF this] show ?thesis by blast
qed

text \<open>A device frame, bare or inside a HID report, is read as that frame.\<close>

lemma coerce_device_frame:
  assumes "length payload < 65529"
  shows "coerce_device_boot_frame (Raw (boot_layout [0x81, 0, 0xEE] t payload @ pad)) =
      Inr \<lparr>bf_frame_type = unat t, bf_payload = payload, bf_total_length = length payload + 7\<rparr>"
    and "coerce_device_boot_frame (Raw (1 # boot_layout [0x81, 0, 0xEE] t payload @ pad)) =
      Inr \<lparr>bf_frame_type = unat t, bf_payload = payload, bf_total_length = length payload + 7\<rparr>"
proof -
  let ?body = "[0x81, 0, 0xEE] @ [t] @ le_bytes 2 (length payload + 7) @ payload"
  have l: "boot_layout [0x81, 0, 0xEE] t payload @ pad = ?body @ [additive_checksum ?body] @ pad"
    by (simp add: boot_layout_def Let_def)
  have p: "parse_boot_frame (boot_layout [0x81, 0, 0xEE] t payload @ pad) True =
      Inr \<lparr>bf_frame_type = unat t, bf_payload = payload, bf_total_length = length payload + 7\<rparr>"
    unfolding l by (subst parse_boot_layout [OF assms, of "[0x81, 0, 0xEE]" True]) simp_all
  obtain rest where r: "boot_layout [0x81, 0, 0xEE] t payload @ pad = 0x81 # 0 # 0xEE # rest"
    by (simp add: boot_layout_def Let_def)
  note p' = p [unfolded r]
  show "coerce_device_boot_frame (Raw (boot_layout [0x81, 0, 0xEE] t payload @ pad)) =
      Inr \<lparr>bf_frame_type = unat t, bf_payload = payload, bf_total_length = length payload + 7\<rparr>"
    unfolding r by (simp add: p')
  show "coerce_device_boot_frame (Raw (1 # boot_layout [0x81, 0, 0xEE] t payload @ pad)) =
      Inr \<lparr>bf_frame_type = unat t, bf_payload = payload, bf_total_length = length payload + 7\<rparr>"
    unfolding r by (simp add: p' from_boot_hid_report_def constants pslice_def)
qed

text \<open>What the two decoders make of a frame that was read.\<close>

lemma decode_of_coerced:
  assumes "coerce_device_boot_frame fr = Inr f"
  shows "decode_boot_ack fr =
      (if bf_frame_type f \<noteq> 2 then Inl (ProtocolError ''expected bootloader type 2 ACK'')
       else if length (bf_payload f) \<noteq> 4
       then Inl (ProtocolError ''bootloader type 2 ACK payload must be exactly four bytes'')
       else Inr (le_val (bf_payload f)))"
    and "decode_boot_terminal_status fr =
      (if bf_frame_type f \<noteq> 5 then Inl (ProtocolError ''expected bootloader type 5 status'')
       else if bf_payload f \<noteq> [0] \<and> bf_payload f \<noteq> [1]
       then Inl (ProtocolError ''bootloader type 5 payload must be one byte 00 or 01'')
       else Inr (bf_payload f = [1]))"
  using assms by (simp_all add: decode_boot_ack_def decode_boot_terminal_status_def)

text \<open>The decoders read what the bootloader sends, bare or in a HID report: a type-2 frame gives the
  32-bit packet number, a type-5 frame the status byte, and neither is taken for the other.\<close>

theorem boot_replies_decoded:
  "pre \<in> {[], [1]} \<Longrightarrow>
   decode_boot_ack (Raw (pre @ boot_layout [0x81, 0, 0xEE] 2 (le_bytes 4 n) @ pad)) = Inr (n mod 2 ^ 32) \<and>
   decode_boot_terminal_status (Raw (pre @ boot_layout [0x81, 0, 0xEE] 5 [of_bool ok] @ pad)) = Inr ok \<and>
   decode_boot_ack (Raw (pre @ boot_layout [0x81, 0, 0xEE] 5 [of_bool ok] @ pad))
     = Inl (ProtocolError ''expected bootloader type 2 ACK'') \<and>
   decode_boot_terminal_status (Raw (pre @ boot_layout [0x81, 0, 0xEE] 2 (le_bytes 4 n) @ pad))
     = Inl (ProtocolError ''expected bootloader type 5 status'')"
proof -
  assume pre: "pre \<in> {[], [1]}"
  have c: "coerce_device_boot_frame (Raw (pre @ boot_layout [0x81, 0, 0xEE] t payload @ pad)) =
      Inr \<lparr>bf_frame_type = unat t, bf_payload = payload, bf_total_length = length payload + 7\<rparr>"
    if "length payload < 65529" for t payload
    using pre coerce_device_frame [OF that, of t pad] by (auto simp del: coerce_device_boot_frame.simps)
  show ?thesis
    using decode_of_coerced [OF c [of "le_bytes 4 n" 2]] decode_of_coerced [OF c [of "[of_bool ok]" 5]]
    by (cases ok) simp_all
qed

theorem boot_replies_decoded_witness:
  "decode_boot_ack (Raw ([1] @ boot_layout [0x81, 0, 0xEE] 2 (le_bytes 4 7) @ [0])) = Inr 7"
  using boot_replies_decoded [of "[1]" 7 "[0]" True] by simp

end
