(* ===== verification/Hid_Transport.thy ===== *)
theory Hid_Transport
  imports Commands "HOL-Library.Sublist"
begin

text \<open>
  \<open>cc2camera/hid_transport.py\<close>: the host side of the two updater stages over the third-party
  package \<open>hid\<close>. The package is a record of operations on a device state \<open>'s\<close> (\<open>hid_api\<close>), each
  of which may raise; the clock (\<open>now\<close>, \<open>sleep\<close>, in milliseconds) is read from that state. What the code did is kept in a
  trace of events, so that theorems can speak of the reports sent and the answers read for every
  device whatsoever.
\<close>

section \<open>Effects\<close>

text \<open>A stateful operation that may raise: it returns a result and the state it leaves.\<close>

type_synonym ('w, 'a) io = "'w \<Rightarrow> 'a res \<times> 'w"

definition io_lift :: "'a res \<Rightarrow> ('w, 'a) io" where
  "io_lift r w = (r, w)"

definition io_return :: "'a \<Rightarrow> ('w, 'a) io" where
  "io_return x = io_lift (Inr x)"

definition io_raise :: "exn \<Rightarrow> ('w, 'a) io" where
  "io_raise e = io_lift (Inl e)"

definition io_bind :: "('w, 'a) io \<Rightarrow> ('a \<Rightarrow> ('w, 'b) io) \<Rightarrow> ('w, 'b) io" where
  "io_bind m f w = (case m w of (Inl e, w') \<Rightarrow> (Inl e, w') | (Inr x, w') \<Rightarrow> f x w')"

lemma io_bind_lift [simp]:
  "io_bind (io_lift (Inr x)) f = f x" "io_bind (io_lift (Inl e)) f = io_raise e"
  "io_bind (io_return x) f = f x" "io_bind (io_raise e) f = io_raise e"
  by (simp_all add: fun_eq_iff io_bind_def io_lift_def io_return_def io_raise_def)

lemma io_bind_ok: "m w = (Inr x, w') \<Longrightarrow> io_bind m f w = f x w'"
  by (simp add: io_bind_def)

lemma io_bind_failed: "m w = (Inl e, w') \<Longrightarrow> io_bind m f w = (Inl e, w')"
  by (simp add: io_bind_def)

text \<open>\<open>try: m except ...: handler\<close>.\<close>

definition io_catch :: "('w, 'a) io \<Rightarrow> (exn \<Rightarrow> ('w, 'a) io) \<Rightarrow> ('w, 'a) io" where
  "io_catch m handler w = (case m w of (Inl e, w') \<Rightarrow> handler e w' | (Inr x, w') \<Rightarrow> (Inr x, w'))"

text \<open>A \<open>for\<close> loop whose body may raise.\<close>

fun io_each :: "('a \<Rightarrow> ('w, unit) io) \<Rightarrow> 'a list \<Rightarrow> ('w, unit) io" where
  "io_each f [] = io_return ()"
| "io_each f (x # xs) = io_bind (f x) (\<lambda>_. io_each f xs)"

section \<open>The HID package and the world\<close>

record 's hid_api =
  api_enumerate :: "'s \<Rightarrow> nat \<Rightarrow> nat \<Rightarrow> nat res \<times> 's"   \<comment> \<open>how many devices match\<close>
  api_open :: "'s \<Rightarrow> unit res \<times> 's"
  api_write :: "'s \<Rightarrow> bytes \<Rightarrow> int res \<times> 's"
  api_read :: "'s \<Rightarrow> nat \<Rightarrow> nat \<Rightarrow> bytes res \<times> 's"     \<comment> \<open>size and timeout in milliseconds\<close>
  api_close :: "'s \<Rightarrow> 's"

datatype hid_event =
    Opened nat nat
  | Wrote bytes
  | Got bytes
  | Closed

record 's world =
  device :: 's
  trace :: "hid_event list"
  reported :: "(int \<times> int) list"     \<comment> \<open>the calls of the \<open>progress\<close> callback\<close>

definition emit :: "hid_event \<Rightarrow> 's world \<Rightarrow> 's world" where
  "emit e w = w\<lparr>trace := trace w @ [e]\<rparr>"

text \<open>\<open>_hid_module\<close>: the package may be missing.\<close>

definition hid_module :: "'s hid_api option \<Rightarrow> 's hid_api res" where
  "hid_module api =
     (case api of
        None \<Rightarrow> Inl (ProtocolError ''HID support could not load.'')
      | Some a \<Rightarrow> Inr a)"

definition enumerate_ids :: "'s hid_api \<Rightarrow> nat \<Rightarrow> nat \<Rightarrow> ('s world, nat) io" where
  "enumerate_ids api vid pid w =
     (case api_enumerate api (device w) vid pid of (r, d) \<Rightarrow> (r, w\<lparr>device := d\<rparr>))"

text \<open>A clock that is the device state itself, and a package that never finds a device.\<close>

definition deaf_package :: "int hid_api" where
  "deaf_package = \<lparr>api_enumerate = (\<lambda>d _ _. (Inr 0, d)), api_open = (\<lambda>d. (Inl OSError, d)),
     api_write = (\<lambda>d _. (Inl OSError, d)), api_read = (\<lambda>d _ _. (Inl OSError, d)), api_close = id\<rparr>"

text \<open>\<open>expected_devices\<close> on the (vendor, product) pairs of the enumerated devices.\<close>

definition expected_devices :: "(nat \<times> nat) list \<Rightarrow> (nat \<times> nat) list" where
  "expected_devices items =
     filter (\<lambda>item. item = (NORMAL_VID, NORMAL_PID) \<or> item = (BOOT_VID, BOOT_HID_PID)) items"

section \<open>The handle\<close>

text \<open>\<open>HidHandle.__init__\<close>; the handle itself is the API record.\<close>

definition open_handle :: "'s hid_api option \<Rightarrow> nat \<Rightarrow> nat \<Rightarrow> ('s world, 's hid_api) io" where
  "open_handle package vid pid =
     io_bind (io_lift (hid_module package)) (\<lambda>api.
     io_bind (enumerate_ids api vid pid) (\<lambda>matches.
     if matches \<noteq> 1 then io_raise (ProtocolError ''expected exactly one HID'')
     else (\<lambda>w. case api_open api (device w) of
            (Inl e, d) \<Rightarrow> (Inl e, w\<lparr>device := d\<rparr>)
          | (Inr _, d) \<Rightarrow> (Inr api, emit (Opened vid pid) (w\<lparr>device := d\<rparr>)))))"

definition close_handle :: "'s hid_api \<Rightarrow> 's world \<Rightarrow> 's world" where
  "close_handle handle w = emit Closed (w\<lparr>device := api_close handle (device w)\<rparr>)"

text \<open>\<open>with HidHandle(vid, pid) as handle: body\<close>; the handle is closed on every way out.\<close>

definition with_handle ::
    "'s hid_api option \<Rightarrow> nat \<Rightarrow> nat \<Rightarrow> ('s hid_api \<Rightarrow> ('s world, 'a) io) \<Rightarrow> ('s world, 'a) io" where
  "with_handle package vid pid body =
     io_bind (open_handle package vid pid) (\<lambda>handle w.
       case body handle w of (r, w') \<Rightarrow> (r, close_handle handle w'))"

definition write_exact :: "'s hid_api \<Rightarrow> bytes \<Rightarrow> ('s world, unit) io" where
  "write_exact handle report w =
     (case api_write handle (device w) report of (r, d) \<Rightarrow>
        let w' = emit (Wrote report) (w\<lparr>device := d\<rparr>)
        in case r of
             Inl e \<Rightarrow> (Inl e, w')
           | Inr count \<Rightarrow>
               if count \<noteq> int (length report) \<and> count \<noteq> int (length report) - 1
               then (Inl (ProtocolError ''short HID write''), w')
               else (Inr (), w'))"

definition read_report :: "'s hid_api \<Rightarrow> nat \<Rightarrow> nat \<Rightarrow> ('s world, bytes) io" where
  "read_report handle count timeout_ms w =
     (case api_read handle (device w) count timeout_ms of
        (Inl e, d) \<Rightarrow> (Inl e, w\<lparr>device := d\<rparr>)
      | (Inr data, d) \<Rightarrow>
          if data = [] then (Inl (ProtocolError ''timed out waiting for HID response''), w\<lparr>device := d\<rparr>)
          else (Inr data, emit (Got data) (w\<lparr>device := d\<rparr>)))"

section \<open>The normal stage\<close>

definition exchange_normal :: "'s hid_api \<Rightarrow> bytes \<Rightarrow> nat \<Rightarrow> ('s world, normal_frame) io" where
  "exchange_normal handle request timeout_ms =
     io_bind (io_lift (parse_normal_report request)) (\<lambda>sent.
     io_bind (write_exact handle request) (\<lambda>_.
     io_bind (io_bind (read_report handle NORMAL_REPORT_SIZE timeout_ms) (\<lambda>data.
       io_lift (parse_normal_report data))) (\<lambda>response.
     if nf_command response \<noteq> nf_command sent
     then io_raise (ProtocolError ''normal updater replied to another command'')
     else if nf_status response \<noteq> 0
     then io_raise (ProtocolError ''normal updater rejected command'')
     else io_return response)))"

text \<open>The calls in this module use the default timeout and discard the response.\<close>

definition exchange :: "'s hid_api \<Rightarrow> bytes \<Rightarrow> ('s world, unit) io" where
  "exchange handle request = io_bind (exchange_normal handle request 5000) (\<lambda>_. io_return ())"

definition ADB_UPLOAD_COMMAND_CONTENT :: bytes where [constants]: "ADB_UPLOAD_COMMAND_CONTENT = [10]"
definition NORMAL_UPLOAD_CHUNK_SIZE :: nat where [constants]: "NORMAL_UPLOAD_CHUNK_SIZE = NORMAL_REPORT_SIZE - 14"
definition NORMAL_UPLOAD_CAPACITY :: nat where [constants]: "NORMAL_UPLOAD_CAPACITY = 0x01000200"

definition upload_chunks :: "bytes \<Rightarrow> bytes list" where
  "upload_chunks content =
     map (\<lambda>start. pslice content start (start + NORMAL_UPLOAD_CHUNK_SIZE))
       (range_step (length content) NORMAL_UPLOAD_CHUNK_SIZE)"

definition upload_normal_file ::
    "'s hid_api option \<Rightarrow> text_or_bytes \<Rightarrow> bytes \<Rightarrow> ('s world, unit) io" where
  "upload_normal_file package path content =
     (if content = [] then io_raise (ProtocolError ''normal upload content must not be empty'')
      else if length content > NORMAL_UPLOAD_CAPACITY
      then io_raise (ProtocolError ''normal upload exceeds the receive buffer'')
      else
        io_bind (io_lift build_upload_initialize_request) (\<lambda>initialize_request.
        io_bind (io_lift (build_upload_target_request
            (int (wire_value UPLOAD_TARGET_3110)) (Some path))) (\<lambda>target_request.
        with_handle package NORMAL_VID NORMAL_PID (\<lambda>handle.
          io_bind (exchange handle initialize_request) (\<lambda>_.
          io_bind (exchange handle target_request) (\<lambda>_.
          let chunks = upload_chunks content
          in io_bind (io_each (\<lambda>(sequence, chunk).
               let final = (sequence + 1 = length chunks)
               in io_bind (io_lift (build_upload_data_request (int sequence) chunk final))
                    (exchange handle)) (enumerate 0 chunks)) (\<lambda>_.
             io_bind (io_lift build_upload_commit_request) (exchange handle))))))))"

text \<open>The exceptions the final exchange is allowed to end with.\<close>

fun expected_commit_failure :: "exn \<Rightarrow> bool" where
  "expected_commit_failure OSError = True"
| "expected_commit_failure e = is_protocol_error e"

definition start_adb_through_upload_command :: "'s hid_api option \<Rightarrow> ('s world, unit) io" where
  "start_adb_through_upload_command package =
     io_bind (io_lift build_upload_initialize_request) (\<lambda>initialize_request.
     io_bind (io_lift build_adb_upload_command_target_request) (\<lambda>target_request.
     io_bind (io_lift (build_upload_data_request 0 ADB_UPLOAD_COMMAND_CONTENT True)) (\<lambda>final_data_request.
     io_bind (io_lift build_upload_commit_request) (\<lambda>commit_request.
     with_handle package NORMAL_VID NORMAL_PID (\<lambda>handle.
       io_bind (exchange handle initialize_request) (\<lambda>_.
       io_bind (exchange handle target_request) (\<lambda>_.
       io_bind (exchange handle final_data_request) (\<lambda>_.
       io_catch (exchange handle commit_request)
         (\<lambda>e. if expected_commit_failure e then io_return () else io_raise e)))))))))"

definition enter_bootloader :: "'s hid_api option \<Rightarrow> ('s world, unit) io" where
  "enter_bootloader package =
     io_bind (io_lift (build_upgrade_request UPGRADE_MODE_HID 0x4000)) (\<lambda>request.
     with_handle package NORMAL_VID NORMAL_PID (\<lambda>handle. exchange handle request))"

section \<open>Waiting for a device\<close>

text \<open>
  The polling loop with its deadline, on \<open>fuel\<close> iterations; \<open>None\<close> means that the fuel ran out
  before the clock reached the deadline.
\<close>

fun wait_loop :: "nat \<Rightarrow> 's hid_api option \<Rightarrow> ('s \<Rightarrow> int) \<Rightarrow> ('s \<Rightarrow> int \<Rightarrow> 's) \<Rightarrow> nat \<Rightarrow> nat \<Rightarrow> int \<Rightarrow>
    's world \<Rightarrow> (unit res \<times> 's world) option" where
  "wait_loop 0 package now sleep vid pid deadline w = None"
| "wait_loop (Suc fuel) package now sleep vid pid deadline w =
     (if now (device w) < deadline
      then (case io_bind (io_lift (hid_module package)) (\<lambda>api. enumerate_ids api vid pid) w of
              (Inl e, w') \<Rightarrow> Some (Inl e, w')
            | (Inr found, w') \<Rightarrow>
                if found \<noteq> 0 then Some (Inr (), w')
                else wait_loop fuel package now sleep vid pid deadline
                       (w'\<lparr>device := sleep (device w') 500\<rparr>))
      else Some (Inl (ProtocolError ''timed out waiting for HID''), w))"

definition wait_for_hid :: "nat \<Rightarrow> 's hid_api option \<Rightarrow> ('s \<Rightarrow> int) \<Rightarrow> ('s \<Rightarrow> int \<Rightarrow> 's) \<Rightarrow> nat \<Rightarrow> nat \<Rightarrow> int \<Rightarrow>
    's world \<Rightarrow> (unit res \<times> 's world) option" where
  "wait_for_hid fuel package now sleep vid pid timeout w =
     wait_loop fuel package now sleep vid pid (now (device w) + timeout) w"

section \<open>The bootloader stage\<close>

text \<open>One pass of the loop of \<open>restore_blob\<close> over the numbered frames.\<close>

definition restore_frame ::
    "'s hid_api \<Rightarrow> update_plan \<Rightarrow> bool \<Rightarrow> nat \<times> bytes res \<Rightarrow> ('s world, unit) io" where
  "restore_frame handle plan progress item =
     (case item of (sequence, frame) \<Rightarrow>
       io_bind (io_lift frame) (\<lambda>frame.
       io_bind (io_lift (to_boot_hid_report frame)) (\<lambda>report.
       io_bind (write_exact handle report) (\<lambda>_.
       let final = (int sequence + 1 = packet_count plan);
           timeout = (if final then 120000 else 10000)
       in io_bind (io_bind (read_report handle BOOT_REPORT_SIZE timeout) (\<lambda>data.
            io_lift (from_boot_hid_report data))) (\<lambda>reply.
          io_bind
            (if final
             then io_bind (io_lift (decode_boot_terminal_status (Parsed reply))) (\<lambda>ok.
               if \<not> ok then io_raise (ProtocolError ''bootloader rejected the whole-image MD5'')
               else io_return ())
             else io_bind (io_lift (decode_boot_ack (Parsed reply))) (\<lambda>acknowledged.
               if acknowledged \<noteq> sequence + 1
               then io_raise (ProtocolError ''bootloader requested another packet; retry is not implemented'')
               else io_return ())) (\<lambda>_.
          if progress
          then (\<lambda>w. (Inr (), w\<lparr>reported := reported w @ [(int sequence + 1, packet_count plan)]\<rparr>))
          else io_return ()))))))"

definition restore_blob ::
    "'s hid_api option \<Rightarrow> bytes \<Rightarrow> update_plan \<Rightarrow> bool \<Rightarrow> ('s world, unit) io" where
  "restore_blob package blob plan progress =
     with_handle package BOOT_VID BOOT_HID_PID (\<lambda>handle.
       io_bind (io_lift (build_boot_metadata_request plan 0)) (\<lambda>metadata.
       io_bind (io_lift (to_boot_hid_report metadata)) (\<lambda>report.
       io_bind (write_exact handle report) (\<lambda>_.
       io_bind (io_bind (read_report handle BOOT_REPORT_SIZE 10000) (\<lambda>data.
         io_lift (from_boot_hid_report data))) (\<lambda>reply.
       io_bind (io_lift (decode_boot_ack (Parsed reply))) (\<lambda>acknowledged.
       if acknowledged \<noteq> 0 then io_raise (ProtocolError ''unexpected metadata acknowledgement'')
       else io_each (restore_frame handle plan progress) (iter_data_frames blob)))))))"

section \<open>Conversations\<close>

text \<open>
  A planned exchange is a report and the test its answer has to pass. A trace follows a plan when
  it writes the planned reports in order, each after an accepted answer to the one before, and
  stops at the first answer that is missing or not accepted.
\<close>

type_synonym exchange = "bytes \<times> (bytes \<Rightarrow> bool)"

fun follows :: "exchange list \<Rightarrow> hid_event list \<Rightarrow> bool" where
  "follows xs [] = True"
| "follows ((r, ok) # xs) [Wrote r'] = (r' = r)"
| "follows ((r, ok) # xs) (Wrote r' # Got d # tr) =
     (r' = r \<and> (if ok d then follows xs tr else tr = []))"
| "follows _ _ = False"

fun completes :: "exchange list \<Rightarrow> hid_event list \<Rightarrow> bool" where
  "completes [] tr = (tr = [])"
| "completes ((r, ok) # xs) (Wrote r' # Got d # tr) = (r' = r \<and> ok d \<and> completes xs tr)"
| "completes _ _ = False"

lemma completes_follows: "completes xs tr \<Longrightarrow> follows xs tr"
  by (induction xs tr rule: completes.induct) auto

lemma follows_append: "completes xs tr \<Longrightarrow> follows ys tr' \<Longrightarrow> follows (xs @ ys) (tr @ tr')"
  by (induction xs tr rule: completes.induct) auto

lemma completes_append: "completes xs tr \<Longrightarrow> completes ys tr' \<Longrightarrow> completes (xs @ ys) (tr @ tr')"
  by (induction xs tr rule: completes.induct) auto

lemma follows_extend: "follows xs tr \<Longrightarrow> follows (xs @ ys) tr"
  by (induction xs tr rule: follows.induct) (auto split: if_splits)

lemma completes_Nil [simp]: "completes xs [] \<longleftrightarrow> xs = []"
  by (cases xs) auto

lemma not_completes_extend:
  "follows xs tr \<Longrightarrow> \<not> completes xs tr \<Longrightarrow> \<not> completes (xs @ ys) tr"
  by (induction xs tr rule: follows.induct) (auto split: if_splits)

lemma not_completes_append:
  "completes xs tr \<Longrightarrow> \<not> completes ys tr' \<Longrightarrow> \<not> completes (xs @ ys) (tr @ tr')"
  by (induction xs tr rule: completes.induct) auto

text \<open>The reports a trace wrote, and those a plan has.\<close>

definition writes :: "hid_event list \<Rightarrow> bytes list" where
  "writes tr = List.map_filter (\<lambda>e. case e of Wrote r \<Rightarrow> Some r | _ \<Rightarrow> None) tr"

lemma writes_simps [simp]:
  "writes [] = []" "writes (Wrote r # tr) = r # writes tr" "writes (Got d # tr) = writes tr"
  "writes (Opened v p # tr) = writes tr" "writes (Closed # tr) = writes tr"
  by (simp_all add: writes_def map_filter_simps)

lemma writes_append [simp]: "writes (a @ b) = writes a @ writes b"
  by (simp add: writes_def map_filter_def)

lemma follows_writes: "follows xs tr \<Longrightarrow> prefix (writes tr) (map fst xs)"
  by (induction xs tr rule: follows.induct) (auto split: if_splits)

lemma completes_writes: "completes xs tr \<Longrightarrow> writes tr = map fst xs"
  by (induction xs tr rule: completes.induct) auto

text \<open>An operation that carries out a plan: whatever the device does, it follows the plan, and it
  returns exactly when it completed it.\<close>

definition carries_out :: "('s world, 'a) io \<Rightarrow> exchange list \<Rightarrow> bool" where
  "carries_out m xs \<longleftrightarrow> (\<forall>w r w'. m w = (r, w') \<longrightarrow>
     (\<exists>tr. trace w' = trace w @ tr \<and> follows xs tr \<and> (\<not> isl r \<longleftrightarrow> completes xs tr)))"

named_theorems plans \<open>what the operations of the host carry out\<close>

lemma carries_out_return [plans]: "carries_out (io_return x) []"
  by (simp add: carries_out_def io_return_def io_lift_def)

lemma carries_out_lift: "carries_out (io_lift (Inr x)) []"
  by (simp add: carries_out_def io_lift_def)

lemma carries_out_bind:
  assumes "carries_out m xs" "\<And>x. carries_out (f x) ys"
  shows "carries_out (io_bind m f) (xs @ ys)"
  unfolding carries_out_def
proof (intro allI impI)
  fix w r w'
  assume run: "io_bind m f w = (r, w')"
  obtain q w1 where m: "m w = (q, w1)" by fastforce
  obtain tr where tr: "trace w1 = trace w @ tr" "follows xs tr" "\<not> isl q \<longleftrightarrow> completes xs tr"
    using assms(1) m unfolding carries_out_def by blast
  show "\<exists>tr. trace w' = trace w @ tr \<and> follows (xs @ ys) tr \<and> (\<not> isl r \<longleftrightarrow> completes (xs @ ys) tr)"
  proof (cases q)
    case (Inl e)
    with run m have "r = Inl e" "w' = w1" by (simp_all add: io_bind_def)
    with tr Inl show ?thesis
      using follows_extend not_completes_extend by (intro exI [of _ tr]) fastforce
  next
    case (Inr x)
    with run m have fx: "f x w1 = (r, w')" by (simp add: io_bind_def)
    then obtain tr' where tr': "trace w' = trace w1 @ tr'" "follows ys tr'" "\<not> isl r \<longleftrightarrow> completes ys tr'"
      using assms(2) [of x] unfolding carries_out_def by blast
    with tr Inr show ?thesis
      using follows_append completes_append not_completes_append
      by (intro exI [of _ "tr @ tr'"]) fastforce
  qed
qed

lemma carries_out_each:
  assumes "\<And>x. x \<in> set xs \<Longrightarrow> carries_out (f x) [p x]"
  shows "carries_out (io_each f xs) (map p xs)"
  using assms
proof (induction xs)
  case (Cons x xs)
  then have "carries_out (f x) [p x]" "carries_out (io_each f xs) (map p xs)" by simp_all
  from carries_out_bind [OF this] show ?case by simp
qed (simp add: carries_out_return)

lemma carries_out_write_read:
  assumes "\<And>d. ok d \<longleftrightarrow> (\<exists>x. f d = Inr x \<and> \<not> isl (g x))" "\<not> ok []"
  shows "carries_out (io_bind (write_exact handle report) (\<lambda>_.
    io_bind (io_bind (read_report handle n t) (\<lambda>d. io_lift (f d))) (\<lambda>x. io_lift (g x)))) [(report, ok)]"
  using assms
  by (auto simp: carries_out_def write_exact_def read_report_def io_bind_def io_lift_def emit_def Let_def
      split: prod.splits sum.splits if_splits)

text \<open>A whole session with one device: nothing at all, or open, plan, close.\<close>

definition conducts :: "('s world, 'a) io \<Rightarrow> nat \<Rightarrow> nat \<Rightarrow> exchange list \<Rightarrow> bool" where
  "conducts m vid pid xs \<longleftrightarrow> (\<forall>w r w'. m w = (r, w') \<longrightarrow>
     (isl r \<and> trace w' = trace w) \<or>
     (\<exists>tr. trace w' = trace w @ [Opened vid pid] @ tr @ [Closed] \<and> follows xs tr \<and>
        (\<not> isl r \<longleftrightarrow> completes xs tr)))"

lemma open_handle_trace:
  assumes "open_handle package vid pid w = (r, w')"
  shows "isl r \<and> trace w' = trace w \<or> \<not> isl r \<and> trace w' = trace w @ [Opened vid pid]"
  using assms
  by (auto simp: open_handle_def hid_module_def io_bind_def io_lift_def io_raise_def enumerate_ids_def
      emit_def split: option.splits sum.splits prod.splits if_splits)

lemma conducts_with_handle:
  assumes "\<And>handle. carries_out (body handle) xs"
  shows "conducts (with_handle package vid pid body) vid pid xs"
  unfolding conducts_def
proof (intro allI impI)
  fix w r w'
  assume run: "with_handle package vid pid body w = (r, w')"
  obtain q w1 where o: "open_handle package vid pid w = (q, w1)" by fastforce
  show "(isl r \<and> trace w' = trace w) \<or> (\<exists>tr. trace w' = trace w @ [Opened vid pid] @ tr @ [Closed] \<and>
      follows xs tr \<and> (\<not> isl r \<longleftrightarrow> completes xs tr))"
  proof (cases q)
    case (Inl e)
    with run o open_handle_trace [OF o] show ?thesis
      by (auto simp add: with_handle_def io_bind_def)
  next
    case (Inr handle)
    obtain r2 w2 where b: "body handle w1 = (r2, w2)" by fastforce
    with run o Inr have "r = r2" "w' = close_handle handle w2"
      by (simp_all add: with_handle_def io_bind_def)
    moreover obtain tr where "trace w2 = trace w1 @ tr" "follows xs tr" "\<not> isl r2 \<longleftrightarrow> completes xs tr"
      using assms [of handle] b unfolding carries_out_def by blast
    ultimately show ?thesis
      using open_handle_trace [OF o] Inr by (intro disjI2 exI [of _ tr]) (simp add: close_handle_def emit_def)
  qed
qed

section \<open>The exchanges of the normal stage\<close>

definition accepts_normal :: "nat \<Rightarrow> bytes \<Rightarrow> bool" where
  "accepts_normal command d \<longleftrightarrow>
     (case parse_normal_report d of
        Inl _ \<Rightarrow> False
      | Inr response \<Rightarrow> nf_command response = command \<and> nf_status response = 0)"

definition normal_plan :: "bytes \<Rightarrow> normal_frame \<Rightarrow> exchange" where
  "normal_plan report f = (report, accepts_normal (nf_command f))"

lemma parse_short_report: "length d < 14 \<Longrightarrow> \<exists>m. parse_normal_report d = Inl (ProtocolError m)"
  by (auto simp: parse_normal_report_def parse_identified_report_def with_report_id_def constants)

lemma not_accepts_Nil [simp]: "\<not> accepts_normal c []"
  using parse_short_report [of "[]"] by (auto simp: accepts_normal_def)

lemma carries_out_exchange:
  assumes "parse_normal_report report = Inr f"
  shows "carries_out (exchange handle report) [normal_plan report f]"
  using assms
  by (auto simp: carries_out_def exchange_def exchange_normal_def write_exact_def read_report_def
      normal_plan_def accepts_normal_def io_bind_def io_lift_def io_return_def io_raise_def emit_def Let_def
      split: prod.splits sum.splits if_splits)

lemma parse_normal_layout_frame:
  assumes "t = 1 \<or> t = 2" "length payload \<le> 1010" "s < 2 ^ 32" "c \<le> 0xFFFF"
  shows "parse_normal_report (normal_layout c payload t s) =
    Inr \<lparr>nf_command = c, nf_frame_type = t, nf_status = s, nf_payload = payload\<rparr>"
proof -
  have "int s < 2 ^ 32" using assms(3) by simp
  then have "build_normal_report (int c) payload (int t) (int s) = Inr (normal_layout c payload t s)"
    using assms by (subst build_normal_report_eq) (auto simp: constants)
  from parse_built_report [OF this] show ?thesis by simp
qed

text \<open>The frames of an upload: initialise, target, the numbered chunks with the last one marked final,
  commit.\<close>

definition data_part :: "nat \<Rightarrow> nat \<times> bytes \<Rightarrow> normal_frame" where
  "data_part n x = \<lparr>nf_command = 0x3200, nf_frame_type = (if fst x + 1 = n then 2 else 1),
     nf_status = fst x, nf_payload = snd x\<rparr>"

definition upload_frames :: "bytes \<Rightarrow> bytes \<Rightarrow> normal_frame list" where
  "upload_frames target content =
     \<lparr>nf_command = 0x3000, nf_frame_type = 1, nf_status = 0, nf_payload = []\<rparr> #
     \<lparr>nf_command = 0x3110, nf_frame_type = 1, nf_status = 0, nf_payload = target\<rparr> #
     map (data_part (length (upload_chunks content))) (enumerate 0 (upload_chunks content)) @
     [\<lparr>nf_command = 0x3300, nf_frame_type = 1, nf_status = 0, nf_payload = []\<rparr>]"

definition frame_report :: "normal_frame \<Rightarrow> bytes" where
  "frame_report f = normal_layout (nf_command f) (nf_payload f) (nf_frame_type f) (nf_status f)"

definition planned :: "normal_frame \<Rightarrow> exchange" where
  "planned f = normal_plan (frame_report f) f"

lemma length_upload_chunk: "c \<in> set (upload_chunks content) \<Longrightarrow> length c \<le> 1010"
  by (auto simp: upload_chunks_def constants)

lemma concat_upload_chunks: "concat (upload_chunks content) = content"
  unfolding upload_chunks_def by (rule concat_range_step) (simp add: constants)

lemma length_upload_chunks: "length (upload_chunks content) = (length content + 1009) div 1010"
  by (simp add: upload_chunks_def constants)

lemma upload_commit_request: "build_upload_commit_request = Inr (normal_layout 0x3300 [] 1 0)"
  by (simp add: build_upload_commit_request_def plain_report_Inr)

lemma upload_initialize_request: "build_upload_initialize_request = Inr (normal_layout 0x3000 [] 1 0)"
  by (simp add: build_upload_initialize_request_def plain_report_Inr)

lemma upload_data_request:
  assumes "length c \<le> 1010" "i < 2 ^ 32"
  shows "build_upload_data_request (int i) c final =
    Inr (normal_layout 0x3200 c (if final then 2 else 1) i)"
  using assms by (simp add: build_upload_data_request_def build_normal_report_eq constants)

lemma upload_target_request:
  assumes "encode_upload_path path = Inr target" "safe_upload_path target" "length target \<le> 127"
  shows "build_upload_target_request (int (wire_value UPLOAD_TARGET_3110)) (Some path) =
    Inr (normal_layout 0x3110 target 1 0)"
proof -
  have "UPLOAD_TARGET_3110 \<notin> DERIVED_UPLOAD_TARGET_COMMANDS"
    "UPLOAD_TARGET_3110 \<in> LITERAL_UPLOAD_TARGET_COMMANDS"
    by (simp_all add: DERIVED_UPLOAD_TARGET_COMMANDS_def LITERAL_UPLOAD_TARGET_COMMANDS_def)
  moreover have "target \<noteq> []" using assms(2) by (simp add: safe_upload_path_def)
  ultimately show ?thesis
    using assms by (simp add: build_upload_target_request_def plain_report_Inr del: wire_value.simps) simp
qed

lemma upload_frames_parse:
  assumes "length target \<le> 127" "length content \<le> NORMAL_UPLOAD_CAPACITY"
    "f \<in> set (upload_frames target content)"
  shows "parse_normal_report (frame_report f) = Inr f"
proof -
  have "i < 2 ^ 32" if "(i, c) \<in> set (enumerate 0 (upload_chunks content))" for i c
    using that assms(2) by (auto simp: in_set_enumerate_eq length_upload_chunks constants)
  moreover have "length c \<le> 1010" if "(i, c) \<in> set (enumerate 0 (upload_chunks content))" for i c
    using that length_upload_chunk [of c content] by (auto simp: in_set_enumerate_eq)
  ultimately show ?thesis
    using assms(1,3) by (auto simp: upload_frames_def frame_report_def data_part_def parse_normal_layout_frame)
qed

lemma carries_out_data:
  assumes "length content \<le> NORMAL_UPLOAD_CAPACITY" "(i, c) \<in> set (enumerate 0 (upload_chunks content))"
  shows "carries_out (io_bind (io_lift (build_upload_data_request (int i) c
      (i + 1 = length (upload_chunks content)))) (exchange handle))
    [planned (data_part (length (upload_chunks content)) (i, c))]"
proof -
  let ?n = "length (upload_chunks content)"
  have c: "length c \<le> 1010" and i: "i < 2 ^ 32"
    using assms length_upload_chunk [of c content]
    by (auto simp: in_set_enumerate_eq length_upload_chunks constants)
  have "data_part ?n (i, c) \<in> set (upload_frames [] content)"
    using assms(2) by (auto simp: upload_frames_def)
  then have "parse_normal_report (frame_report (data_part ?n (i, c))) = Inr (data_part ?n (i, c))"
    using assms(1) by (intro upload_frames_parse [of "[]" content]) simp_all
  from carries_out_exchange [OF this, of handle] upload_data_request [OF c i] show ?thesis
    by (simp add: planned_def frame_report_def data_part_def)
qed

lemma upload_body:
  assumes "length target \<le> 127" "length content \<le> NORMAL_UPLOAD_CAPACITY"
  shows "carries_out
    (io_bind (exchange handle (normal_layout 0x3000 [] 1 0)) (\<lambda>_.
     io_bind (exchange handle (normal_layout 0x3110 target 1 0)) (\<lambda>_.
     io_bind (io_each (\<lambda>(sequence, chunk). io_bind (io_lift (build_upload_data_request (int sequence) chunk
        (sequence + 1 = length (upload_chunks content)))) (exchange handle))
        (enumerate 0 (upload_chunks content))) (\<lambda>_.
     exchange handle (normal_layout 0x3300 [] 1 0)))))
    (map planned (upload_frames target content))"
proof -
  let ?f = "\<lambda>c p. \<lparr>nf_command = c, nf_frame_type = 1, nf_status = 0, nf_payload = p\<rparr>"
  have one: "carries_out (exchange handle (normal_layout c p 1 0)) [planned (?f c p)]"
    if "?f c p \<in> set (upload_frames target content)" for c p
    using carries_out_exchange [OF upload_frames_parse [OF assms that], of handle]
    by (simp add: planned_def frame_report_def)
  have data: "carries_out (io_each (\<lambda>(sequence, chunk). io_bind (io_lift (build_upload_data_request
        (int sequence) chunk (sequence + 1 = length (upload_chunks content)))) (exchange handle))
        (enumerate 0 (upload_chunks content)))
      (map (\<lambda>x. planned (data_part (length (upload_chunks content)) x)) (enumerate 0 (upload_chunks content)))"
    by (rule carries_out_each) (use carries_out_data [OF assms(2)] in auto)
  have plan: "map planned (upload_frames target content) =
      [planned (?f 0x3000 [])] @ [planned (?f 0x3110 target)] @
      map (\<lambda>x. planned (data_part (length (upload_chunks content)) x)) (enumerate 0 (upload_chunks content)) @
      [planned (?f 0x3300 [])]"
    by (simp add: upload_frames_def)
  show ?thesis
    unfolding plan by (intro carries_out_bind one data) (simp_all add: upload_frames_def)
qed

lemma upload_normal_file_eq:
  assumes "encode_upload_path path = Inr target" "safe_upload_path target" "length target \<le> 127"
    and "content \<noteq> []" "length content \<le> NORMAL_UPLOAD_CAPACITY"
  shows "upload_normal_file package path content =
    with_handle package NORMAL_VID NORMAL_PID (\<lambda>handle.
      io_bind (exchange handle (normal_layout 0x3000 [] 1 0)) (\<lambda>_.
      io_bind (exchange handle (normal_layout 0x3110 target 1 0)) (\<lambda>_.
      io_bind (io_each (\<lambda>(sequence, chunk). io_bind (io_lift (build_upload_data_request (int sequence) chunk
        (sequence + 1 = length (upload_chunks content)))) (exchange handle))
        (enumerate 0 (upload_chunks content))) (\<lambda>_.
      exchange handle (normal_layout 0x3300 [] 1 0)))))"
  using assms
  by (simp add: upload_normal_file_def upload_initialize_request upload_commit_request
      upload_target_request Let_def del: wire_value.simps)

text \<open>C33: an upload of a safe path and content, on any device, either opens nothing and raises, or
  opens the normal-stage device, goes through initialise, target, the numbered data frames and
  commit, sends each report only after the echo-and-success answer to the one before, closes the
  device, and returns exactly when every answer was accepted. The planned frames parse back, and
  their data is the content.\<close>

theorem upload_conversation:
  assumes "encode_upload_path path = Inr target" "safe_upload_path target" "length target \<le> 127"
    and "content \<noteq> []" "length content \<le> 0x01000200"
  shows "conducts (upload_normal_file package path content) 0xA108 0x2240
      (map planned (upload_frames target content)) \<and>
    list_all (\<lambda>f. parse_normal_report (frame_report f) = Inr f) (upload_frames target content) \<and>
    concat (map nf_payload (filter (\<lambda>f. nf_command f = 0x3200) (upload_frames target content))) = content"
proof (intro conjI)
  have len: "length content \<le> NORMAL_UPLOAD_CAPACITY" using assms(5) by (simp add: constants)
  show "conducts (upload_normal_file package path content) 0xA108 0x2240
      (map planned (upload_frames target content))"
    using conducts_with_handle [OF upload_body [OF assms(3) len], of package NORMAL_VID NORMAL_PID]
    unfolding upload_normal_file_eq [OF assms(1-4) len] by (simp add: constants)
  show "list_all (\<lambda>f. parse_normal_report (frame_report f) = Inr f) (upload_frames target content)"
    using upload_frames_parse [OF assms(3) len] by (auto simp: list_all_iff)
  have "filter (\<lambda>f. nf_command f = 0x3200) (map (data_part n) xs) = map (data_part n) xs" for n xs
    by (induction xs) (auto simp: data_part_def)
  moreover have "map nf_payload (map (data_part n) xs) = map snd xs" for n xs
    by (simp add: data_part_def)
  ultimately show "concat (map nf_payload (filter (\<lambda>f. nf_command f = 0x3200) (upload_frames target content))) = content"
    by (simp add: upload_frames_def concat_upload_chunks del: map_map)
qed

theorem upload_conversation_witness:
  "conducts (upload_normal_file (Some deaf_package) (Text [47, 97]) [1, 2]) 0xA108 0x2240
     (map planned (upload_frames [47, 97] [1, 2]))"
  using upload_conversation [of "Text [47, 97]" "[47, 97]" "[1, 2]" "Some deaf_package"]
  by (simp add: encode_upload_path_def encode_ascii_def safe_upload_path_def safe_path_byte_def)

text \<open>What an upload refuses, it refuses before any device is touched: empty content, content over
  the device's buffer, and any path the builder rejects leave the world as it was.\<close>

theorem upload_refusals_touch_nothing:
  assumes "content = [] \<or> 0x01000200 < length content \<or> (\<exists>e. encode_upload_path path = Inl e) \<or>
    (\<exists>t. encode_upload_path path = Inr t \<and> (\<not> safe_upload_path t \<or> 127 < length t))"
  shows "\<exists>e. upload_normal_file package path content w = (Inl e, w)"
proof -
  have "UPLOAD_TARGET_3110 \<notin> DERIVED_UPLOAD_TARGET_COMMANDS"
    "UPLOAD_TARGET_3110 \<in> LITERAL_UPLOAD_TARGET_COMMANDS"
    by (simp_all add: DERIVED_UPLOAD_TARGET_COMMANDS_def LITERAL_UPLOAD_TARGET_COMMANDS_def)
  then have "\<exists>e. build_upload_target_request (int (wire_value UPLOAD_TARGET_3110)) (Some path) = Inl e"
    if "content \<noteq> []" "length content \<le> 0x01000200"
    using assms that
    by (cases "encode_upload_path path") (auto simp: build_upload_target_request_def simp del: wire_value.simps)
  then show ?thesis
    by (auto simp: upload_normal_file_def upload_initialize_request io_raise_def io_lift_def constants
        simp del: wire_value.simps)
qed

theorem upload_refusals_touch_nothing_witness:
  "\<exists>e. upload_normal_file (Some deaf_package) (Bytes [0x3B]) [1] \<lparr>device = 5, trace = [], reported = []\<rparr> =
    (Inl e, \<lparr>device = 5, trace = [], reported = []\<rparr>)"
  using upload_refusals_touch_nothing [of "[1]" "Bytes [0x3B]" "Some deaf_package" "\<lparr>device = 5, trace = [], reported = []\<rparr>"]
  by (simp add: encode_upload_path_def safe_upload_path_def safe_path_byte_def)

section \<open>Starting ADB\<close>

definition adb_frames :: "normal_frame list" where
  "adb_frames =
     [\<lparr>nf_command = 0x3000, nf_frame_type = 1, nf_status = 0, nf_payload = []\<rparr>,
      \<lparr>nf_command = 0x3110, nf_frame_type = 1, nf_status = 0, nf_payload = ADB_UPLOAD_COMMAND_TARGET\<rparr>,
      \<lparr>nf_command = 0x3200, nf_frame_type = 2, nf_status = 0, nf_payload = [10]\<rparr>]"

definition commit_frame :: normal_frame where
  "commit_frame = \<lparr>nf_command = 0x3300, nf_frame_type = 1, nf_status = 0, nf_payload = []\<rparr>"

lemma length_adb_target: "length ADB_UPLOAD_COMMAND_TARGET \<le> 127"
  by (simp add: ADB_UPLOAD_COMMAND_TARGET_def ascii_def)

lemma adb_frames_parse: "f \<in> set (commit_frame # adb_frames) \<Longrightarrow> parse_normal_report (frame_report f) = Inr f"
  using length_adb_target
  by (auto simp: adb_frames_def commit_frame_def frame_report_def parse_normal_layout_frame)

lemma io_bind_assoc: "io_bind (io_bind m f) g = io_bind m (\<lambda>x. io_bind (f x) g)"
  by (auto simp: fun_eq_iff io_bind_def split: sum.splits prod.splits)

lemma start_adb_eq:
  "start_adb_through_upload_command package =
    with_handle package NORMAL_VID NORMAL_PID (\<lambda>handle.
      io_bind
        (io_bind (exchange handle (frame_report (adb_frames ! 0))) (\<lambda>_.
         io_bind (exchange handle (frame_report (adb_frames ! 1))) (\<lambda>_.
         exchange handle (frame_report (adb_frames ! 2)))))
        (\<lambda>_. io_catch (exchange handle (frame_report commit_frame))
          (\<lambda>e. if expected_commit_failure e then io_return () else io_raise e)))"
proof -
  have target: "build_adb_upload_command_target_request =
      Inr (normal_layout 0x3110 ADB_UPLOAD_COMMAND_TARGET 1 0)"
    using length_adb_target
    by (simp add: build_adb_upload_command_target_request_def plain_report_Inr)
  then show ?thesis
    using upload_data_request [of "[10]" 0 True]
    by (simp add: target start_adb_through_upload_command_def upload_initialize_request upload_commit_request
        frame_report_def adb_frames_def commit_frame_def ADB_UPLOAD_COMMAND_CONTENT_def io_bind_assoc
        numeral_2_eq_2)
qed

lemma adb_strict_part:
  "carries_out
     (io_bind (exchange handle (frame_report (adb_frames ! 0))) (\<lambda>_.
      io_bind (exchange handle (frame_report (adb_frames ! 1))) (\<lambda>_.
      exchange handle (frame_report (adb_frames ! 2))))) (map planned adb_frames)"
proof -
  have one: "carries_out (exchange handle (frame_report (adb_frames ! i))) [planned (adb_frames ! i)]"
    if "i < 3" for i
    unfolding planned_def using that
    by (intro carries_out_exchange adb_frames_parse) (auto simp: adb_frames_def less_Suc_eq numeral_3_eq_3)
  have "map planned adb_frames = [planned (adb_frames ! 0)] @ [planned (adb_frames ! 1)] @ [planned (adb_frames ! 2)]"
    by (simp add: adb_frames_def)
  then show ?thesis
    by (simp only:) (intro carries_out_bind one; simp)
qed

lemma exchange_writes:
  assumes "parse_normal_report report = Inr f" "exchange handle report w = (r, w')"
  shows "\<exists>tr. trace w' = trace w @ Wrote report # tr \<and> follows [normal_plan report f] (Wrote report # tr)"
  using assms
  by (auto simp: exchange_def exchange_normal_def write_exact_def read_report_def
      normal_plan_def accepts_normal_def io_bind_def io_lift_def io_return_def io_raise_def emit_def Let_def
      split: prod.splits sum.splits if_splits)

lemma caught_commit:
  assumes "io_catch (exchange handle (frame_report commit_frame))
      (\<lambda>e. if expected_commit_failure e then io_return () else io_raise e) w = (r, w')"
  shows "(\<exists>tr. trace w' = trace w @ Wrote (frame_report commit_frame) # tr \<and>
      follows [planned commit_frame] (Wrote (frame_report commit_frame) # tr)) \<and>
    (r = Inr () \<or> (\<exists>e. r = Inl e \<and> \<not> expected_commit_failure e))"
proof -
  obtain q w1 where x: "exchange handle (frame_report commit_frame) w = (q, w1)" by fastforce
  with assms have "w' = w1" "r = Inr () \<or> (\<exists>e. r = Inl e \<and> \<not> expected_commit_failure e)"
    by (auto simp: io_catch_def io_return_def io_raise_def io_lift_def split: sum.splits if_splits)
  moreover have "parse_normal_report (frame_report commit_frame) = Inr commit_frame"
    by (rule adb_frames_parse) simp
  ultimately show ?thesis
    using exchange_writes [OF _ x] by (simp add: planned_def)
qed

lemma adb_start_runs:
  assumes "start_adb_through_upload_command package w = (r, w')"
  shows "(isl r \<and> trace w' = trace w) \<or>
    (\<exists>tr. trace w' = trace w @ [Opened 0xA108 0x2240] @ tr @ [Closed] \<and>
      (isl r \<and> follows (map planned adb_frames) tr \<and> \<not> completes (map planned adb_frames) tr \<or>
       (\<exists>tr1 tr2. tr = tr1 @ Wrote (frame_report commit_frame) # tr2 \<and>
          completes (map planned adb_frames) tr1 \<and>
          follows [planned commit_frame] (Wrote (frame_report commit_frame) # tr2) \<and>
          (r = Inr () \<or> (\<exists>e. r = Inl e \<and> \<not> expected_commit_failure e)))))"
proof -
  obtain q w1 where o: "open_handle package NORMAL_VID NORMAL_PID w = (q, w1)" by fastforce
  note ot = open_handle_trace [OF o]
  show ?thesis
  proof (cases q)
    case (Inl e)
    with o ot assms show ?thesis by (auto simp: start_adb_eq with_handle_def io_bind_def)
  next
    case (Inr handle)
    let ?strict = "io_bind (exchange handle (frame_report (adb_frames ! 0))) (\<lambda>_.
         io_bind (exchange handle (frame_report (adb_frames ! 1))) (\<lambda>_.
         exchange handle (frame_report (adb_frames ! 2))))"
    let ?last = "io_catch (exchange handle (frame_report commit_frame))
          (\<lambda>e. if expected_commit_failure e then io_return () else io_raise e)"
    obtain q2 w2 where s: "?strict w1 = (q2, w2)" by fastforce
    obtain tr where tr: "trace w2 = trace w1 @ tr" "follows (map planned adb_frames) tr"
      "\<not> isl q2 \<longleftrightarrow> completes (map planned adb_frames) tr"
      using adb_strict_part [of handle] s unfolding carries_out_def by blast
    have run: "(case io_bind ?strict (\<lambda>_. ?last) w1 of (r, w') \<Rightarrow> (r, close_handle handle w')) = (r, w')"
      using assms o Inr by (simp add: start_adb_eq with_handle_def io_bind_def)
    show ?thesis
    proof (cases q2)
      case (Inl e)
      with run s have "r = Inl e" "w' = close_handle handle w2" by (auto simp: io_bind_def)
      with tr ot Inl Inr show ?thesis
        by (intro disjI2 exI [of _ tr]) (auto simp: close_handle_def emit_def constants)
    next
      case (Inr u)
      obtain q3 w3 where l: "?last w2 = (q3, w3)" by fastforce
      with run s Inr have r: "r = q3" "w' = close_handle handle w3" by (auto simp: io_bind_def)
      obtain tr2 where tr2: "trace w3 = trace w2 @ Wrote (frame_report commit_frame) # tr2"
        "follows [planned commit_frame] (Wrote (frame_report commit_frame) # tr2)"
        "q3 = Inr () \<or> (\<exists>e. q3 = Inl e \<and> \<not> expected_commit_failure e)"
        using caught_commit [OF l] by blast
      have "trace w' = trace w @ [Opened 0xA108 0x2240] @ (tr @ Wrote (frame_report commit_frame) # tr2) @ [Closed]"
        using ot \<open>q = Inr handle\<close> tr(1) tr2(1) r by (auto simp: close_handle_def emit_def constants)
      with tr(3) tr2 r Inr show ?thesis by auto
    qed
  qed
qed

text \<open>Starting ADB sends initialise, the fixed target and the final data strictly: if one of them is
  not accepted, the commit is not sent and the call raises. Once the three are accepted the commit is
  sent, and whatever becomes of it the call returns, unless the device layer raised something that is
  neither a protocol nor an OS error.\<close>

theorem adb_start_conversation:
  assumes "start_adb_through_upload_command package w = (r, w')"
  shows "(isl r \<and> trace w' = trace w) \<or>
    (\<exists>tr. trace w' = trace w @ [Opened 0xA108 0x2240] @ tr @ [Closed] \<and>
      (isl r \<and> follows (map planned adb_frames) tr \<and> \<not> completes (map planned adb_frames) tr \<or>
       (\<exists>tr1 tr2. tr = tr1 @ Wrote (frame_report commit_frame) # tr2 \<and>
          completes (map planned adb_frames) tr1 \<and>
          follows [planned commit_frame] (Wrote (frame_report commit_frame) # tr2) \<and>
          (r = Inr () \<or> (\<exists>e. r = Inl e \<and> \<not> expected_commit_failure e)))))"
  using assms by (rule adb_start_runs)

text \<open>The hypothesis of C20 is only that the call was made; a missing HID package is one such run.\<close>

theorem adb_start_conversation_witness:
  "trace (snd (start_adb_through_upload_command (None :: unit hid_api option)
     \<lparr>device = (), trace = [], reported = []\<rparr>)) = []"
proof -
  have run: "start_adb_through_upload_command (None :: unit hid_api option) \<lparr>device = (), trace = [], reported = []\<rparr>
    = (Inl (ProtocolError ''HID support could not load.''), \<lparr>device = (), trace = [], reported = []\<rparr>)"
    by (simp add: start_adb_eq with_handle_def open_handle_def hid_module_def io_raise_def io_lift_def)
  from adb_start_conversation [OF run] run show ?thesis by simp
qed

section \<open>The exchanges of the bootloader stage\<close>

definition accepts_ack :: "nat \<Rightarrow> bytes \<Rightarrow> bool" where
  "accepts_ack k d \<longleftrightarrow>
     (case from_boot_hid_report d of
        Inl _ \<Rightarrow> False
      | Inr reply \<Rightarrow> decode_boot_ack (Parsed reply) = Inr k)"

definition accepts_terminal :: "bytes \<Rightarrow> bool" where
  "accepts_terminal d \<longleftrightarrow>
     (case from_boot_hid_report d of
        Inl _ \<Rightarrow> False
      | Inr reply \<Rightarrow> decode_boot_terminal_status (Parsed reply) = Inr True)"

definition boot_hid_report :: "bytes \<Rightarrow> bytes" where
  "boot_hid_report frame = 1 # frame @ replicate (3071 - length frame) 0"

text \<open>The frame that announces a blob, and the exchanges that transfer it: the metadata is answered by a
  request for packet 0, packet \<open>i\<close> by a request for packet \<open>i + 1\<close>, the last one by the verdict.\<close>

definition metadata_layout :: "bytes \<Rightarrow> bytes" where
  "metadata_layout blob = boot_layout [0x80, 0, 0xEE] 1
     (le_bytes 2 3060 @ le_bytes 4 (length blob) @ le_bytes 2 1 @ le_bytes 2 0)"

definition packet_total :: "bytes \<Rightarrow> nat" where
  "packet_total blob = (length blob + 3059) div 3060"

definition packet_test :: "nat \<Rightarrow> nat \<Rightarrow> bytes \<Rightarrow> bool" where
  "packet_test n i = (if i + 1 = n then accepts_terminal else accepts_ack (i + 1))"

definition restore_exchanges :: "bytes \<Rightarrow> exchange list" where
  "restore_exchanges blob =
     (boot_hid_report (metadata_layout blob), accepts_ack 0) #
     map (\<lambda>i. (boot_hid_report (data_layout blob i), packet_test (packet_total blob) i))
       [0..<packet_total blob]"

lemma to_boot_hid_report_eq:
  "length frame \<le> 3071 \<Longrightarrow> to_boot_hid_report frame = Inr (boot_hid_report frame)"
  by (simp add: to_boot_hid_report_def boot_hid_report_def constants)

lemma from_boot_Nil [simp]: "\<exists>m. from_boot_hid_report [] = Inl (ProtocolError m)"
  by (simp add: from_boot_hid_report_def parse_boot_frame_def)

lemma length_boot_frames:
  "length (metadata_layout blob) = 17" "length (data_layout blob i) \<le> 3071"
  using length_data_chunk [of blob i]
  by (simp_all add: metadata_layout_def data_layout_def length_boot_layout)

lemma carries_out_data_frame:
  assumes "packet_count plan = int (packet_total blob)"
  shows "carries_out (restore_frame handle plan progress (i, Inr (data_layout blob i)))
    [(boot_hid_report (data_layout blob i), packet_test (packet_total blob) i)]"
  using assms to_boot_hid_report_eq [OF length_boot_frames(2), of blob i]
  by (auto simp: carries_out_def restore_frame_def packet_test_def write_exact_def read_report_def accepts_terminal_def
      accepts_ack_def io_bind_def io_lift_def io_return_def io_raise_def emit_def Let_def
      split: prod.splits sum.splits if_splits)

lemma built_blob_plan:
  assumes "build_update_blob md5_digest img offset = Inr (blob, plan)"
  shows "packet_count plan = int (packet_total blob)" "packet_total blob \<le> 2 ^ 32"
    "build_boot_metadata_request plan 0 = Inr (metadata_layout blob)"
proof -
  note h = md5.update_header [OF assms]
  have len: "length blob = 128 + length img" by (rule md5.blob_length [OF assms])
  have small: "length blob \<le> 128 + 0x800000" using h(1,3) len by (simp add: constants)
  show "packet_count plan = int (packet_total blob)"
    unfolding h(5) packet_total_def by (simp add: constants)
  show "packet_total blob \<le> 2 ^ 32" using small by (simp add: packet_total_def)
  have "packet_count plan = (transfer_size plan + packet_payload_size plan - 1) div packet_payload_size plan"
    using len unfolding h(5) by (simp add: constants zdiv_int of_nat_diff)
  then have "build_boot_metadata_request plan 0 = build_metadata_frame plan 0"
    using small len unfolding build_boot_metadata_request_def by (simp add: h(5) constants)
  also have "\<dots> = Inr (metadata_layout blob)"
    using small unfolding metadata_layout_def
    by (subst build_metadata_frame_eq) (simp_all add: h(5) constants)
  finally show "build_boot_metadata_request plan 0 = Inr (metadata_layout blob)" .
qed

lemma restore_blob_runs:
  assumes "build_update_blob md5_digest img offset = Inr (blob, plan)"
  shows "conducts (restore_blob package blob plan progress) 0xA108 0xFF08 (restore_exchanges blob)"
proof -
  note b = built_blob_plan [OF assms]
  have frames: "iter_data_frames blob = map (\<lambda>i. (i, Inr (data_layout blob i))) [0..<packet_total blob]"
    using iter_data_frames_eq b(2) by (simp add: packet_total_def)
  let ?meta = "boot_hid_report (metadata_layout blob)"
  have r: "to_boot_hid_report (metadata_layout blob) = Inr ?meta"
    by (rule to_boot_hid_report_eq) (simp add: length_boot_frames)
  let ?head = "\<lambda>handle. io_bind (write_exact handle ?meta) (\<lambda>_.
       io_bind (io_bind (read_report handle BOOT_REPORT_SIZE 10000) (\<lambda>data.
         io_lift (from_boot_hid_report data))) (\<lambda>reply.
       io_bind (io_lift (decode_boot_ack (Parsed reply))) (\<lambda>acknowledged.
       if acknowledged \<noteq> 0 then io_raise (ProtocolError ''unexpected metadata acknowledgement'')
       else io_return ())))"
  have if_bind: "(if c then io_raise e else m) = io_bind (if c then io_raise e else io_return ()) (\<lambda>_. m)"
    for c e and m :: "('s world, unit) io"
    by simp
  have eq: "restore_blob package blob plan progress = with_handle package BOOT_VID BOOT_HID_PID
      (\<lambda>handle. io_bind (?head handle) (\<lambda>_. io_each (restore_frame handle plan progress) (iter_data_frames blob)))"
    unfolding restore_blob_def b(3) io_bind_lift r by (subst if_bind) (simp only: io_bind_assoc)
  have head: "carries_out (?head handle) [(?meta, accepts_ack 0)]" for handle :: "'s hid_api"
    by (auto simp: carries_out_def write_exact_def read_report_def
        accepts_ack_def io_bind_def io_lift_def io_return_def io_raise_def emit_def Let_def
        split: prod.splits sum.splits if_splits)
  have each: "carries_out (io_each (restore_frame handle plan progress) (iter_data_frames blob))
      (map (\<lambda>x. (boot_hid_report (data_layout blob (fst x)), packet_test (packet_total blob) (fst x)))
       (iter_data_frames blob))" for handle :: "'s hid_api"
    by (rule carries_out_each) (use carries_out_data_frame [OF b(1)] in \<open>auto simp: frames\<close>)
  have plan: "restore_exchanges blob = [(?meta, accepts_ack 0)] @
      map (\<lambda>x. (boot_hid_report (data_layout blob (fst x)), packet_test (packet_total blob) (fst x)))
       (iter_data_frames blob)"
    by (simp add: restore_exchanges_def frames comp_def)
  have "conducts (restore_blob package blob plan progress) BOOT_VID BOOT_HID_PID (restore_exchanges blob)"
    unfolding eq plan by (intro conducts_with_handle carries_out_bind head each)
  then show ?thesis by (simp add: constants)
qed

text \<open>C16: the transfer of a built blob, on any device, either opens nothing and raises, or opens the
  bootloader, sends the metadata and then every packet in order, each only after the answer that asks
  for exactly that packet, takes the verdict after the last one, and closes the device. It returns
  exactly when all answers were the expected ones; any other answer ends it without a resend.\<close>

theorem restore_conversation:
  assumes "build_update_blob md5_digest img offset = Inr (blob, plan)"
  shows "conducts (restore_blob package blob plan progress) 0xA108 0xFF08 (restore_exchanges blob)"
  using assms by (rule restore_blob_runs)

theorem restore_conversation_witness:
  "\<exists>blob plan. build_update_blob md5_digest [1, 2, 3] 0 = Inr (blob, plan) \<and>
     conducts (restore_blob (Some deaf_package) blob plan True) 0xA108 0xFF08 (restore_exchanges blob)"
proof -
  obtain blob plan where "build_update_blob md5_digest [1, 2, 3] 0 = Inr (blob, plan)"
    using build_update_blob_ok [of "[1, 2, 3]" md5_digest] by (auto simp: constants)
  with restore_conversation [OF this] show ?thesis by blast
qed

section \<open>Waiting\<close>

text \<open>
  What the loop relies on: the clock never runs backwards, also across an enumeration, and
  \<open>sleep(0.5)\<close> lasts at least half a second.
\<close>

definition sane_clock :: "'s hid_api option \<Rightarrow> ('s \<Rightarrow> int) \<Rightarrow> ('s \<Rightarrow> int \<Rightarrow> 's) \<Rightarrow> bool" where
  "sane_clock package now sleep \<longleftrightarrow>
     (\<forall>d t. now d + t \<le> now (sleep d t)) \<and>
     (\<forall>api d vid pid. package = Some api \<longrightarrow> now d \<le> now (snd (api_enumerate api d vid pid)))"

lemma wait_loop_returns:
  assumes "sane_clock package now sleep" "deadline - now (device w) \<le> 500 * int fuel"
  shows "\<exists>r w'. wait_loop (Suc fuel) package now sleep vid pid deadline w = Some (r, w') \<and>
    (r = Inr () \<or> (\<exists>e. r = Inl e)) \<and> trace w' = trace w \<and>
    (r = Inl (ProtocolError ''timed out waiting for HID'') \<or> package = None \<or> now (device w) < deadline)"
  using assms
proof (induction fuel arbitrary: w)
  case 0
  then show ?case by auto
next
  case (Suc fuel)
  show ?case
  proof (cases "now (device w) < deadline")
    case False
    then show ?thesis by simp
  next
    case before: True
    show ?thesis
    proof (cases package)
      case None
      then show ?thesis using before by (simp add: hid_module_def io_raise_def io_lift_def)
    next
      case (Some api)
      obtain q d where e: "api_enumerate api (device w) vid pid = (q, d)" by fastforce
      show ?thesis
      proof (cases "\<exists>n. q = Inr n \<and> n = 0")
        case False
        then show ?thesis
          using before Some e by (cases q) (auto simp: hid_module_def enumerate_ids_def)
      next
        case True
        let ?w = "w\<lparr>device := sleep d 500\<rparr>"
        have "now (device w) \<le> now d" "now d + 500 \<le> now (sleep d 500)"
          using Suc.prems(1) Some e by (simp_all add: sane_clock_def) (metis snd_conv)
        then have "deadline - now (device ?w) \<le> 500 * int fuel" using Suc.prems(2) by simp
        from Suc.IH [OF Suc.prems(1) this] show ?thesis
          using before Some e True by (auto simp: hid_module_def enumerate_ids_def)
      qed
    qed
  qed
qed

text \<open>With a sane clock, waiting for a device ends: \<open>timeout / 500 ms + 2\<close> rounds are enough fuel. It
  returns, times out or lets the package's exception through, and sends nothing to any device.\<close>

theorem wait_for_hid_ends:
  assumes "sane_clock package now sleep" "timeout \<le> 500 * int fuel"
  shows "\<exists>r w'. wait_for_hid (Suc fuel) package now sleep vid pid timeout w = Some (r, w') \<and> trace w' = trace w"
proof -
  have "now (device w) + timeout - now (device w) \<le> 500 * int fuel" using assms(2) by simp
  from wait_loop_returns [OF assms(1) this, of vid pid] show ?thesis
    unfolding wait_for_hid_def by blast
qed

theorem wait_for_hid_ends_witness:
  "\<exists>r w'. wait_for_hid 3 (Some deaf_package) id (+) 0xA108 0xFF08 1000
     \<lparr>device = 5, trace = [], reported = []\<rparr> = Some (r, w') \<and> trace w' = []"
proof -
  have "sane_clock (Some deaf_package) id (+)" by (simp add: sane_clock_def deaf_package_def)
  from wait_for_hid_ends [OF this, where fuel = 2 and timeout = 1000 and vid = "0xA108" and pid = "0xFF08"
      and w = "\<lparr>device = 5, trace = [], reported = []\<rparr>"]
  show ?thesis by (simp add: numeral_3_eq_3)
qed

end
