(* ===== verification/Device_Models.thy ===== *)
theory Device_Models
  imports Hid_Transport
begin

text \<open>
  The other end of the two protocols, from the reconstructed C of
  \<open>usb-maintenance/source-reconstruction\<close>: the U-Boot updater
  (\<open>uboot_updater_reconstructed.c\<close>) and the upload part of the Linux daemon
  (\<open>hid_update_reconstructed.c\<close>), with the host of \<open>Hid_Transport\<close> run against them.

  \<open>None\<close> is undefined behaviour of the C code: an access outside a buffer, a null pointer. The
  libraries the C code calls are parameters: the allocator, the SPI flash driver, \<open>system\<close> and
  \<open>fopen\<close>. Unsigned C integers are natural numbers with the wrap-around written out.
\<close>

section \<open>The bootloader updater\<close>

record updater =
  subpack_size :: nat
  meta_transfer_size :: nat
  meta_packets_per_ack :: nat
  packet_count_u :: nat
  next_packet :: nat
  batch_first_packet :: nat
  stream_used :: nat
  stream :: "bytes option"
  bad_frame_count :: nat
  terminal_state :: nat
  flash :: bytes

definition ceil_div_u32 :: "nat \<Rightarrow> nat \<Rightarrow> nat" where
  "ceil_div_u32 n d = ((n + d - 1) mod 2 ^ 32) div d"

definition send_ack :: "nat \<Rightarrow> bytes" where
  "send_ack next_expected_packet = boot_layout [0x81, 0x00, 0xEE] 2 (le_bytes 4 next_expected_packet)"

definition send_terminal :: "bool \<Rightarrow> bytes" where
  "send_terminal success = boot_layout [0x81, 0x00, 0xEE] 5 [of_bool success]"

text \<open>\<open>validate_host_frame\<close>; \<open>None\<close> when the declared length leaves the received bytes.\<close>

definition validate_host_frame :: "bytes \<Rightarrow> nat \<Rightarrow> bool option" where
  "validate_host_frame frame received_length =
     (if take 3 frame \<noteq> [0x80, 0x00, 0xEE] then Some False
      else if received_length = 0 \<or> received_length > length frame then None
      else Some (additive_checksum (take (received_length - 1) frame) = frame ! (received_length - 1)))"

text \<open>\<open>request_batch_retry(0)\<close>.\<close>

definition request_batch_retry :: "updater \<Rightarrow> updater \<times> bytes list" where
  "request_batch_retry u =
     (let u = u\<lparr>bad_frame_count := (bad_frame_count u + 1) mod 256\<rparr>
      in if bad_frame_count u \<ge> 5
         then (u\<lparr>terminal_state := 2\<rparr>, [send_terminal False])
         else (u\<lparr>next_packet := batch_first_packet u,
                 stream_used := (batch_first_packet u * subpack_size u) mod 2 ^ 32\<rparr>,
               [send_ack (batch_first_packet u)]))"

text \<open>\<open>accept_metadata\<close>; a zero divisor is undefined. \<open>alloc n\<close> is a block of \<open>n\<close> bytes or \<open>None\<close>.\<close>

definition accept_metadata :: "(nat \<Rightarrow> bytes option) \<Rightarrow> updater \<Rightarrow> bytes \<Rightarrow> nat \<Rightarrow> (updater \<times> bytes list) option" where
  "accept_metadata alloc u frame received_length =
     (case validate_host_frame frame received_length of
        None \<Rightarrow> None
      | Some _ \<Rightarrow>
          if length frame < 16 then None
          else
            let u = u\<lparr>subpack_size := le_at frame 6 2, meta_transfer_size := le_at frame 8 4,
                      meta_packets_per_ack := le_at frame 12 2\<rparr>
            in if subpack_size u = 0 \<or> meta_packets_per_ack u = 0 then None
               else
                 let u = u\<lparr>packet_count_u := ceil_div_u32 (meta_transfer_size u) (subpack_size u),
                           stream := alloc (meta_transfer_size u)\<rparr>
                 in if stream u = None then Some (u, [])
                    else Some (u\<lparr>next_packet := 0, batch_first_packet := 0, stream_used := 0,
                                 bad_frame_count := 0, terminal_state := 0\<rparr>, [send_ack 0]))"

text \<open>\<open>verify_and_program\<close>: \<open>program flash offset data\<close> stands for the erase and the write.\<close>

definition verify_and_program ::
    "(bytes \<Rightarrow> bytes) \<Rightarrow> (bytes \<Rightarrow> nat \<Rightarrow> bytes \<Rightarrow> bytes) \<Rightarrow> updater \<Rightarrow> bytes \<Rightarrow> (updater \<times> bytes list) option" where
  "verify_and_program md5 program u buf =
     (if length buf < 128 then None
      else
        let image_length = le_at buf 8 4
        in if 128 + image_length > length buf then None
           else if md5 (pslice buf 128 (128 + image_length)) \<noteq> pslice buf 12 28
           then Some (u\<lparr>terminal_state := 2\<rparr>, [send_terminal False])
           else Some (u\<lparr>flash := program (flash u) (le_at buf 4 4) (pslice buf 128 (128 + image_length)),
                        terminal_state := 1\<rparr>, [send_terminal True]))"

definition accept_data ::
    "(bytes \<Rightarrow> bytes) \<Rightarrow> (bytes \<Rightarrow> nat \<Rightarrow> bytes \<Rightarrow> bytes) \<Rightarrow> updater \<Rightarrow> bytes \<Rightarrow> nat \<Rightarrow>
     (updater \<times> bytes list) option" where
  "accept_data md5 program u frame received_length =
     (case validate_host_frame frame received_length of
        None \<Rightarrow> None
      | Some False \<Rightarrow> Some (request_batch_retry u)
      | Some True \<Rightarrow>
          let packet = le_at frame 6 4;
              declared = le_at frame 4 2
          in if packet \<noteq> next_packet u then Some (request_batch_retry u)
             else case stream u of
               None \<Rightarrow> None
             | Some buf \<Rightarrow>
                 if declared < 11 \<or> declared - 1 > length frame
                   \<or> stream_used u + (declared - 11) > length buf then None
                 else
                   let buf = put buf (stream_used u) (pslice frame 10 (declared - 1));
                       u = u\<lparr>stream := Some buf, stream_used := stream_used u + (declared - 11),
                             next_packet := (next_packet u + 1) mod 2 ^ 32, bad_frame_count := 0\<rparr>
                   in if packet = (packet_count_u u + (2 ^ 32 - 1)) mod 2 ^ 32 then verify_and_program md5 program u buf
                      else if next_packet u mod meta_packets_per_ack u = 0
                      then Some (u\<lparr>batch_first_packet := next_packet u\<rparr>, [send_ack (next_packet u)])
                      else Some (u, []))"

definition updater_receive ::
    "(nat \<Rightarrow> bytes option) \<Rightarrow> (bytes \<Rightarrow> bytes) \<Rightarrow> (bytes \<Rightarrow> nat \<Rightarrow> bytes \<Rightarrow> bytes) \<Rightarrow> updater \<Rightarrow> bytes \<Rightarrow>
     (updater \<times> bytes list) option" where
  "updater_receive alloc md5 program u frame =
     (if length frame < 6 then None
      else if take 3 frame \<noteq> [0x80, 0x00, 0xEE] then Some (u, [])
      else if frame ! 3 = 1 then accept_metadata alloc u frame (le_at frame 4 2)
      else if frame ! 3 = 3 then accept_data md5 program u frame (le_at frame 4 2)
      else Some (u, []))"

definition hid_receive_report ::
    "(nat \<Rightarrow> bytes option) \<Rightarrow> (bytes \<Rightarrow> bytes) \<Rightarrow> (bytes \<Rightarrow> nat \<Rightarrow> bytes \<Rightarrow> bytes) \<Rightarrow> updater \<Rightarrow> bytes \<Rightarrow>
     (updater \<times> bytes list) option" where
  "hid_receive_report alloc md5 program u report =
     (case report of
        [] \<Rightarrow> None
      | r # embedded \<Rightarrow>
          if r \<noteq> 1 then Some (u, []) else updater_receive alloc md5 program u embedded)"

text \<open>
  The updater behind the HID package: a write delivers the report, its replies queue up as
  3072-byte reports, a read takes the oldest one or times out, and undefined behaviour is a dead
  device.
\<close>

definition updater_api ::
    "(nat \<Rightarrow> bytes option) \<Rightarrow> (bytes \<Rightarrow> bytes) \<Rightarrow> (bytes \<Rightarrow> nat \<Rightarrow> bytes \<Rightarrow> bytes) \<Rightarrow>
     (updater \<times> bytes list) hid_api" where
  "updater_api alloc md5 program = \<lparr>
     api_enumerate = (\<lambda>d vid pid. (Inr (if vid = BOOT_VID \<and> pid = BOOT_HID_PID then 1 else 0), d)),
     api_open = (\<lambda>d. (Inr (), d)),
     api_write = (\<lambda>(u, queue) report.
       case hid_receive_report alloc md5 program u report of
         None \<Rightarrow> (Inl OSError, (u, []))
       | Some (u', replies) \<Rightarrow> (Inr (int (length report)), (u', queue @ map boot_hid_report replies))),
     api_read = (\<lambda>(u, queue) _ _.
       case queue of [] \<Rightarrow> (Inr [], (u, [])) | r # rest \<Rightarrow> (Inr r, (u, rest))),
     api_close = id\<rparr>"

section \<open>A transfer against the updater\<close>

lemma host_frame_fields:
  assumes "length payload < 65529"
  shows "take 3 (boot_layout [0x80, 0, 0xEE] t payload @ pad) = [0x80, 0, 0xEE]"
    and "(boot_layout [0x80, 0, 0xEE] t payload @ pad) ! 3 = t"
    and "le_at (boot_layout [0x80, 0, 0xEE] t payload @ pad) 4 2 = length payload + 7"
    and "validate_host_frame (boot_layout [0x80, 0, 0xEE] t payload @ pad) (length payload + 7) = Some True"
    and "pslice (boot_layout [0x80, 0, 0xEE] t payload @ pad) 6 (length payload + 6) = payload"
proof -
  let ?body = "[0x80, 0, 0xEE] @ [t] @ le_bytes 2 (length payload + 7) @ payload"
  have l: "boot_layout [0x80, 0, 0xEE] t payload @ pad = ?body @ additive_checksum ?body # pad"
    by (simp add: boot_layout_def Let_def)
  have len: "length ?body = length payload + 6" by simp
  show m: "take 3 (boot_layout [0x80, 0, 0xEE] t payload @ pad) = [0x80, 0, 0xEE]"
    unfolding l by simp
  show "(boot_layout [0x80, 0, 0xEE] t payload @ pad) ! 3 = t"
    unfolding l by simp
  show "le_at (boot_layout [0x80, 0, 0xEE] t payload @ pad) 4 2 = length payload + 7"
    unfolding l using assms by (simp add: slicing)
  have "take (length payload + 6) (?body @ additive_checksum ?body # pad) = ?body"
    using len by (metis append_eq_conv_conj)
  moreover have "(?body @ additive_checksum ?body # pad) ! (6 + length payload) = additive_checksum ?body"
    using len by (metis add.commute nth_append_length)
  ultimately show "validate_host_frame (boot_layout [0x80, 0, 0xEE] t payload @ pad) (length payload + 7) = Some True"
    unfolding validate_host_frame_def m unfolding l by (simp del: append_Cons append_Nil)
  show "pslice (boot_layout [0x80, 0, 0xEE] t payload @ pad) 6 (length payload + 6) = payload"
    unfolding l by (simp add: slicing)
qed

lemma put_within:
  assumes "length ys = k" "off = length xs"
  shows "put (xs @ zs) off ys = xs @ ys @ drop k zs"
  using assms by (simp add: put_append_right put_0)

text \<open>The updater while \<open>i\<close> packets of the blob have arrived.\<close>

definition receiving :: "bytes \<Rightarrow> bytes \<Rightarrow> nat \<Rightarrow> updater \<Rightarrow> bool" where
  "receiving blob fl i u \<longleftrightarrow>
     subpack_size u = 3060 \<and> meta_packets_per_ack u = 1 \<and> packet_count_u u = packet_total blob \<and>
     next_packet u = i \<and> stream_used u = min (i * 3060) (length blob) \<and> flash u = fl \<and>
     (\<exists>junk. stream u = Some (take (i * 3060) blob @ junk) \<and>
        length junk = length blob - i * 3060)"

lemma packet_total_bounds:
  assumes "i < packet_total blob"
  shows "i * 3060 < length blob" "i + 1 \<noteq> packet_total blob \<Longrightarrow> (i + 1) * 3060 < length blob"
    "i + 1 = packet_total blob \<Longrightarrow> length blob \<le> (i + 1) * 3060"
  using assms unfolding packet_total_def by (simp_all add: div_less_iff_less_mult less_eq_div_iff_mult_less_eq)

lemma updater_data_step:
  assumes "receiving blob fl i u" "i < packet_total blob" "packet_total blob \<le> 2 ^ 31"
  shows "\<exists>u'. updater_receive alloc md5 program u (data_layout blob i @ pad) =
      (if i + 1 = packet_total blob then verify_and_program md5 program u' blob
       else Some (u', [send_ack (i + 1)])) \<and>
    (i + 1 \<noteq> packet_total blob \<longrightarrow> receiving blob fl (i + 1) u') \<and> flash u' = fl"
proof -
  let ?payload = "le_bytes 4 i @ data_chunk blob i"
  let ?frame = "data_layout blob i @ pad"
  let ?n = "length (data_chunk blob i)"
  have short: "length ?payload < 65529" using length_data_chunk [of blob i] by simp
  note f = host_frame_fields [OF short, of 3 pad, folded data_layout_def]
  obtain junk where u: "subpack_size u = 3060" "meta_packets_per_ack u = 1"
    "packet_count_u u = packet_total blob" "next_packet u = i"
    "stream_used u = min (i * 3060) (length blob)" "flash u = fl"
    "stream u = Some (take (i * 3060) blob @ junk)" "length junk = length blob - i * 3060"
    using assms(1) unfolding receiving_def by blast
  note b = packet_total_bounds [OF assms(2)]
  have chunk: "?n = min 3060 (length blob - i * 3060)" using b(1) by (simp add: data_chunk_def)
  have i: "i < 2 ^ 32" using assms(2,3) by simp
  have len: "length ?frame = ?n + 11 + length pad" by (simp add: data_layout_def length_boot_layout)
  have packet: "le_at ?frame 6 4 = i"
  proof -
    have "le_at ?frame 6 4 = le_val (pslice (pslice ?frame 6 (length ?payload + 6)) 0 4)"
      by (simp add: le_at_def pslice_pslice)
    then show ?thesis unfolding f(5) using i by (simp add: slicing)
  qed
  have data: "pslice ?frame 10 (?n + 10) = data_chunk blob i"
  proof -
    have "pslice ?frame 10 (?n + 10) = pslice (pslice ?frame 6 (length ?payload + 6)) 4 (length ?payload)"
      by (simp add: pslice_pslice add.commute)
    then show ?thesis unfolding f(5) by (simp add: slicing pslice_def)
  qed
  have joined: "take (i * 3060) blob @ data_chunk blob i = take ((i + 1) * 3060) blob"
    by (simp add: data_chunk_def pslice_def take_add [symmetric] add.commute)
  define buf where "buf = take ((i + 1) * 3060) blob @ drop ?n junk"
  have put: "put (take (i * 3060) blob @ junk) (stream_used u) (data_chunk blob i) = buf"
    unfolding buf_def
    using put_within [OF refl, where off = "i * 3060" and xs = "take (i * 3060) blob"
        and ys = "data_chunk blob i" and zs = junk] u(5) joined b(1)
    by (simp flip: append_assoc)
  let ?u = "u\<lparr>stream := Some buf, stream_used := stream_used u + ?n, next_packet := i + 1,
      bad_frame_count := 0\<rparr>"
  have wrap: "Suc i mod 4294967296 = Suc i" using assms(2,3) by simp
  have last: "i = (packet_total blob + 4294967295) mod 4294967296 \<longleftrightarrow> Suc i = packet_total blob"
  proof -
    obtain m where m: "packet_total blob = Suc m" using assms(2) by (cases "packet_total blob") auto
    then have "(packet_total blob + 4294967295) mod 4294967296 = (m + 4294967296) mod 4294967296" by simp
    also have "\<dots> = m" using m assms(3) by (subst mod_add_self2) simp
    finally have "(packet_total blob + 4294967295) mod 4294967296 = packet_total blob - 1" using m by simp
    then show ?thesis using assms(2) by auto
  qed
  have room: "stream_used u + ?n \<le> length (take (i * 3060) blob @ junk)"
    using b(1) u(5,8) chunk by auto
  have declared: "length ?payload + 7 = ?n + 11" by simp
  have run: "accept_data md5 program u ?frame (length ?payload + 7) =
      (if i + 1 = packet_total blob then verify_and_program md5 program ?u buf
       else Some (?u\<lparr>batch_first_packet := i + 1\<rparr>, [send_ack (i + 1)]))"
    unfolding accept_data_def f(4) unfolding f(3) packet u(7) declared using room data
    by (simp add: Let_def u(2-4) len put wrap last add.commute [of _ ?n] del: length_append)
  have receive: "updater_receive alloc md5 program u ?frame = accept_data md5 program u ?frame (length ?payload + 7)"
    unfolding updater_receive_def f(1-3) using len by simp
  have whole: "buf = blob" if "i + 1 = packet_total blob"
    unfolding buf_def using b(3) [OF that] u(8) chunk by simp
  have "receiving blob fl (i + 1) (?u\<lparr>batch_first_packet := i + 1\<rparr>)" if "i + 1 \<noteq> packet_total blob"
    using b(2) [OF that] u chunk by (auto simp: receiving_def buf_def intro!: exI [of _ "drop ?n junk"])
  then show ?thesis
    unfolding receive run using whole u(6)
    by (intro exI [of _ "if i + 1 = packet_total blob then ?u else ?u\<lparr>batch_first_packet := i + 1\<rparr>"]) auto
qed

text \<open>The metadata announces the blob, and the last packet ends in the verdict and the programming.\<close>

lemma updater_metadata_step:
  assumes "alloc (length blob) = Some block" "length block = length blob" "0 < length blob" "length blob < 2 ^ 31"
  shows "\<exists>u'. updater_receive alloc md5 program u (metadata_layout blob @ pad) = Some (u', [send_ack 0]) \<and>
    receiving blob (flash u) 0 u'"
proof -
  let ?payload = "le_bytes 2 3060 @ le_bytes 4 (length blob) @ le_bytes 2 1 @ le_bytes 2 0"
  let ?frame = "metadata_layout blob @ pad"
  have short: "length ?payload < 65529" by simp
  note f = host_frame_fields [OF short, of 1 pad, folded metadata_layout_def]
  have field: "le_at ?frame (6 + k) n = le_at ?payload k n" if "k + n \<le> 10" for k n
  proof -
    have "le_at ?frame (6 + k) n = le_val (pslice (pslice ?frame 6 (length ?payload + 6)) k (k + n))"
      using that by (simp add: le_at_def pslice_pslice add.assoc)
    then show ?thesis unfolding f(5) by (simp add: le_at_def)
  qed
  have fields: "le_at ?frame 6 2 = 3060" "le_at ?frame 8 4 = length blob" "le_at ?frame 12 2 = 1"
    using field [of 0 2] field [of 2 4] field [of 6 2] assms(4) by (simp_all add: slicing)
  have count: "ceil_div_u32 (length blob) 3060 = packet_total blob"
    using assms(4) by (simp add: ceil_div_u32_def packet_total_def)
  have len: "length ?frame = 17 + length pad" by (simp add: length_boot_frames)
  have "updater_receive alloc md5 program u ?frame = accept_metadata alloc u ?frame (length ?payload + 7)"
    unfolding updater_receive_def f(1-3) using len by simp
  also have "\<dots> = Some (u\<lparr>subpack_size := 3060, meta_transfer_size := length blob, meta_packets_per_ack := 1,
      packet_count_u := packet_total blob, stream := Some block, next_packet := 0,
      batch_first_packet := 0, stream_used := 0, bad_frame_count := 0, terminal_state := 0\<rparr>, [send_ack 0])"
    unfolding accept_metadata_def f(4) using len by (simp add: fields count assms(1))
  finally show ?thesis using assms(2) by (auto simp: receiving_def)
qed

lemma updater_verdict:
  assumes "build_update_blob md5_digest img offset = Inr (blob, plan)"
  shows "verify_and_program md5_digest program u blob =
    Some (u\<lparr>flash := program (flash u) (nat offset) img, terminal_state := 1\<rparr>, [send_terminal True])"
proof -
  note h = md5.update_header [OF assms]
  have len: "length blob = 128 + length img" by (rule md5.blob_length [OF assms])
  have d: "length (md5_digest img) = 16" by (rule md5.digest_length)
  have small: "nat offset < 256 ^ 4" "length img < 256 ^ 4" using h(1-3) by (simp_all add: constants)
  have "le_at blob 4 4 = nat offset" "le_at blob 8 4 = length img"
    "pslice blob 12 28 = md5_digest img" "pslice blob 128 (128 + length img) = img"
    unfolding h(4) using small d by (simp_all add: slicing pslice_def)
  then show ?thesis using len by (simp add: verify_and_program_def Let_def)
qed

lemma device_reply:
  assumes "length payload < 65529"
  shows "from_boot_hid_report (boot_hid_report (boot_layout [0x81, 0, 0xEE] t payload)) =
    Inr \<lparr>bf_frame_type = unat t, bf_payload = payload, bf_total_length = length payload + 7\<rparr>"
proof -
  let ?pad = "replicate (3071 - length (boot_layout [0x81, 0, 0xEE] t payload)) (0 :: byte)"
  obtain rest where r: "boot_layout [0x81, 0, 0xEE] t payload @ ?pad = 0x81 # 0 # 0xEE # rest"
    by (simp add: boot_layout_def Let_def)
  show ?thesis
    using coerce_device_frame(2) [OF assms, of t ?pad]
    unfolding boot_hid_report_def r by (simp add: pslice_def)
qed

lemma accepts_device_replies:
  "k < 2 ^ 32 \<Longrightarrow> accepts_ack k (boot_hid_report (send_ack k))"
  "accepts_terminal (boot_hid_report (send_terminal True))"
  using device_reply [of "le_bytes 4 k" 2] device_reply [of "[1]" 5]
  by (simp_all add: accepts_ack_def accepts_terminal_def send_ack_def send_terminal_def
      decode_boot_ack_def decode_boot_terminal_status_def)

text \<open>One report written to the updater and its single reply read back.\<close>

definition at_device :: "'s world \<Rightarrow> 's \<Rightarrow> hid_event list \<Rightarrow> 's world" where
  "at_device w d tr = w\<lparr>device := d, trace := trace w @ tr\<rparr>"

lemma updater_round_trip:
  assumes "device w = (u, [])"
    and "updater_receive alloc md5 program u (frame @ replicate (3071 - length frame) 0) = Some (u', [reply])"
  shows "write_exact (updater_api alloc md5 program) (boot_hid_report frame) w =
      (Inr (), at_device w (u', [boot_hid_report reply]) [Wrote (boot_hid_report frame)])"
    and "read_report (updater_api alloc md5 program) n t
        (at_device w (u', [boot_hid_report reply]) [Wrote (boot_hid_report frame)]) =
      (Inr (boot_hid_report reply),
       at_device w (u', []) [Wrote (boot_hid_report frame), Got (boot_hid_report reply)])"
  using assms
  by (simp_all add: write_exact_def read_report_def updater_api_def at_device_def emit_def Let_def
      hid_receive_report_def boot_hid_report_def)

lemma open_updater:
  "open_handle (Some (updater_api alloc md5 program)) BOOT_VID BOOT_HID_PID w =
    (Inr (updater_api alloc md5 program), emit (Opened BOOT_VID BOOT_HID_PID) w)"
  by (simp add: open_handle_def hid_module_def enumerate_ids_def io_bind_def io_lift_def updater_api_def)

lemma restore_frame_ok:
  assumes "packet_count plan = int (packet_total blob)"
    and wrote: "write_exact handle (boot_hid_report (data_layout blob i)) w = (Inr (), w1)"
    and got: "\<And>t. read_report handle BOOT_REPORT_SIZE t w1 = (Inr d, w2)"
    and test: "packet_test (packet_total blob) i d"
  shows "restore_frame handle plan progress (i, Inr (data_layout blob i)) w =
    (Inr (), if progress then w2\<lparr>reported := reported w2 @ [(int i + 1, int (packet_total blob))]\<rparr> else w2)"
proof -
  have r: "to_boot_hid_report (data_layout blob i) = Inr (boot_hid_report (data_layout blob i))"
    by (rule to_boot_hid_report_eq) (rule length_boot_frames)
  have final: "int i + 1 = packet_count plan \<longleftrightarrow> i + 1 = packet_total blob"
    using assms(1) by linarith
  obtain reply where reply: "from_boot_hid_report d = Inr reply"
    using test by (auto simp: packet_test_def accepts_ack_def accepts_terminal_def split: if_splits sum.splits)
  show ?thesis
  proof (cases "i + 1 = packet_total blob")
    case True
    then have "decode_boot_terminal_status (Parsed reply) = Inr True"
      using test reply by (simp add: packet_test_def accepts_terminal_def)
    then show ?thesis
      unfolding restore_frame_def prod.case io_bind_lift r final using True
      by (simp add: io_bind_def wrote got reply io_lift_def io_return_def assms(1))
  next
    case False
    then have "decode_boot_ack (Parsed reply) = Inr (i + 1)"
      using test reply by (simp add: packet_test_def accepts_ack_def)
    then show ?thesis
      unfolding restore_frame_def prod.case io_bind_lift r final using False
      by (simp add: io_bind_def wrote got reply io_lift_def io_return_def assms(1))
  qed
qed

lemma restore_frame_run:
  assumes "packet_count plan = int (packet_total blob)" "device w = (u, [])"
    and "updater_receive alloc md5 program u (data_layout blob i @ replicate (3071 - length (data_layout blob i)) 0)
      = Some (u', [reply])"
    and "packet_test (packet_total blob) i (boot_hid_report reply)"
  shows "\<exists>w'. restore_frame (updater_api alloc md5 program) plan progress (i, Inr (data_layout blob i)) w = (Inr (), w') \<and>
    device w' = (u', []) \<and>
    reported w' = reported w @ (if progress then [(int i + 1, int (packet_total blob))] else [])"
  using restore_frame_ok [OF assms(1) updater_round_trip [OF assms(2,3)] assms(4), of progress]
  by (simp add: at_device_def)

lemma restore_frames_run:
  assumes blob: "build_update_blob md5_digest img offset = Inr (blob, plan)"
    and "receiving blob fl i u" "device w = (u, [])" "i < packet_total blob"
  shows "\<exists>w'. io_each (restore_frame (updater_api alloc md5_digest program) plan progress)
      (map (\<lambda>i. (i, Inr (data_layout blob i))) [i..<packet_total blob]) w = (Inr (), w') \<and>
    flash (fst (device w')) = program fl (nat offset) img \<and>
    reported w' = reported w @
      (if progress then map (\<lambda>i. (int i + 1, int (packet_total blob))) [i..<packet_total blob] else [])"
  using assms(2-4)
proof (induction "packet_total blob - i" arbitrary: i u w)
  case 0
  then show ?case by simp
next
  case (Suc k)
  note b = built_blob_plan [OF blob]
  have small: "packet_total blob \<le> 2 ^ 31"
    using md5.blob_length [OF blob] md5.update_header(1,3) [OF blob] by (simp add: packet_total_def constants)
  let ?pad = "replicate (3071 - length (data_layout blob i)) 0"
  obtain u' where step: "updater_receive alloc md5_digest program u (data_layout blob i @ ?pad) =
      (if i + 1 = packet_total blob then verify_and_program md5_digest program u' blob
       else Some (u', [send_ack (i + 1)]))"
    and next_: "i + 1 \<noteq> packet_total blob \<longrightarrow> receiving blob fl (i + 1) u'" "flash u' = fl"
    using updater_data_step [OF Suc.prems(1,3) small, of alloc md5_digest program ?pad] by (elim exE conjE) (rule that)
  show ?case
  proof (cases "i + 1 = packet_total blob")
    case True
    let ?u = "u'\<lparr>flash := program (flash u') (nat offset) img, terminal_state := 1\<rparr>"
    have "updater_receive alloc md5_digest program u (data_layout blob i @ ?pad) = Some (?u, [send_terminal True])"
      using step True updater_verdict [OF blob, of program u'] by simp
    from restore_frame_run [OF b(1) Suc.prems(2) this, of progress] accepts_device_replies(2) True
    obtain w' where w': "restore_frame (updater_api alloc md5_digest program) plan progress (i, Inr (data_layout blob i)) w
        = (Inr (), w')" "device w' = (?u, [])"
      "reported w' = reported w @ (if progress then [(int i + 1, int (packet_total blob))] else [])"
      by (auto simp: packet_test_def)
    have "[i..<packet_total blob] = [i]" unfolding True [symmetric] by simp
    with w' next_(2) show ?thesis by (simp add: io_bind_def io_return_def io_lift_def)
  next
    case False
    have i: "i + 1 < 2 ^ 32" "i + 1 < packet_total blob" using False Suc.prems(3) small by simp_all
    have "updater_receive alloc md5_digest program u (data_layout blob i @ ?pad) = Some (u', [send_ack (i + 1)])"
      using step False by simp
    from restore_frame_run [OF b(1) Suc.prems(2) this, of progress] accepts_device_replies(1) [OF i(1)] False
    obtain w1 where w1: "restore_frame (updater_api alloc md5_digest program) plan progress (i, Inr (data_layout blob i)) w
        = (Inr (), w1)" "device w1 = (u', [])"
      "reported w1 = reported w @ (if progress then [(int i + 1, int (packet_total blob))] else [])"
      by (auto simp: packet_test_def)
    have "k = packet_total blob - (i + 1)" using Suc.hyps(2) by simp
    from Suc.hyps(1) [OF this _ w1(2) i(2)] next_(1) False
    obtain w' where "io_each (restore_frame (updater_api alloc md5_digest program) plan progress)
        (map (\<lambda>i. (i, Inr (data_layout blob i))) [i + 1..<packet_total blob]) w1 = (Inr (), w')"
      "flash (fst (device w')) = program fl (nat offset) img"
      "reported w' = reported w1 @
        (if progress then map (\<lambda>i. (int i + 1, int (packet_total blob))) [i + 1..<packet_total blob] else [])"
      by blast
    moreover have "[i..<packet_total blob] = i # [i + 1..<packet_total blob]"
      using Suc.prems(3) by (simp add: upt_conv_Cons)
    ultimately show ?thesis using w1 by (simp add: io_bind_def)
  qed
qed

text \<open>What a restore relies on of the SPI driver: a write within the flash stores the data there.\<close>

definition programs :: "(bytes \<Rightarrow> nat \<Rightarrow> bytes \<Rightarrow> bytes) \<Rightarrow> bool" where
  "programs program \<longleftrightarrow>
     (\<forall>fl off d. off + length d \<le> length fl \<longrightarrow> program fl off d = put fl off d)"


definition blank_updater :: "bytes \<Rightarrow> updater" where
  "blank_updater fl = \<lparr>subpack_size = 0, meta_transfer_size = 0, meta_packets_per_ack = 0, packet_count_u = 0,
     next_packet = 0, batch_first_packet = 0, stream_used = 0, stream = None, bad_frame_count = 0,
     terminal_state = 0, flash = fl\<rparr>"


section \<open>The upload part of the Linux daemon\<close>

text \<open>
  The daemon's context and globals, and the file system it acts on. \<open>shell\<close> is \<open>system\<close>: the effect
  of a command line on the files; \<open>can_open\<close> is whether \<open>fopen(path, "wb")\<close> succeeds. The command
  lines run are recorded.
\<close>

record daemon =
  upload_phase :: upload_state
  upload_data :: "bytes option"       \<comment> \<open>the allocated buffer, its used part\<close>
  last_sequence :: nat
  destination :: "bytes option"
  saw_final :: bool
  files :: "bytes \<rightharpoonup> bytes"
  commands_run :: "bytes list"

record platform =
  shell :: "bytes \<Rightarrow> (bytes \<rightharpoonup> bytes) \<Rightarrow> (bytes \<rightharpoonup> bytes)"
  can_open :: "bytes \<Rightarrow> bool"
  has_memory :: bool

definition run_command :: "platform \<Rightarrow> bytes \<Rightarrow> daemon \<Rightarrow> daemon" where
  "run_command pf c d = d\<lparr>files := shell pf c (files d), commands_run := commands_run d @ [c]\<rparr>"

text \<open>\<open>send_normal_response(command, status, 0, NULL, 0)\<close>: a type-0 report without payload.\<close>

definition send_normal_response :: "nat \<Rightarrow> nat \<Rightarrow> bytes" where
  "send_normal_response command status =
     (let r = normal_header command 0 0 status
      in r @ le_bytes 2 (unat (crc16_normal r)) @ replicate (NORMAL_REPORT_SIZE - 14) 0)"

definition upload_init :: "platform \<Rightarrow> daemon \<Rightarrow> daemon option" where
  "upload_init pf d =
     (if upload_data d = None \<and> \<not> has_memory pf then None
      else Some (d\<lparr>upload_data := Some [], last_sequence := 0, destination := None, saw_final := False\<rparr>))"

text \<open>
  \<open>upload_append\<close> on a report of 1024 bytes. The outer option is undefined behaviour (a payload
  longer than the report, a freed buffer), the inner one the result \<open>-1\<close>.
\<close>

definition upload_append :: "bytes \<Rightarrow> daemon \<Rightarrow> daemon option option" where
  "upload_append r d =
     (let sequence = le_at r 8 4; len = le_at r 6 2
      in if sequence \<ge> 2 \<and> sequence \<noteq> (last_sequence d + 1) mod 2 ^ 32 then Some None
         else case upload_data d of
           None \<Rightarrow> None
         | Some buf \<Rightarrow>
             if length buf + len > NORMAL_UPLOAD_CAPACITY then Some None
             else if 14 + len > length r then None
             else
               let d = (if r ! 5 = 2 then d\<lparr>saw_final := True, upload_phase := READY_TO_COMMIT\<rparr> else d)
               in Some (Some (d\<lparr>upload_data := Some (buf @ pslice r 14 (14 + len)), last_sequence := sequence\<rparr>)))"

text \<open>
  \<open>upload_commit\<close>: \<open>Inl\<close> is the result \<open>-1\<close> with what was done before it. A path that does not fit
  the 256-byte command buffer and a missing path are undefined.
\<close>

definition upload_commit :: "platform \<Rightarrow> daemon \<Rightarrow> (daemon + daemon) option" where
  "upload_commit pf d =
     (case destination d of
        None \<Rightarrow> None
      | Some path \<Rightarrow>
          if length path > 200 then None
          else if \<not> saw_final d then Some (Inl d)
          else
            let d = run_command pf (ascii ''sync'') (run_command pf (ascii ''rm '' @ path) d)
            in if \<not> can_open pf path then Some (Inl d)
               else case upload_data d of
                 None \<Rightarrow> None
               | Some buf \<Rightarrow>
                   let d = d\<lparr>files := (files d)(path \<mapsto> buf)\<rparr>;
                       d = run_command pf (ascii ''chmod 0777 '' @ path) d;
                       d = (if path = ascii ''/system/bin/hid_update''
                            then run_command pf (ascii ''sync'') (run_command pf (ascii ''command'') d)
                            else d)
                   in Some (Inr (d\<lparr>upload_data := None\<rparr>)))"

text \<open>The path a literal-target report selects: the payload up to its first NUL or space.\<close>

definition selected_path :: "bytes \<Rightarrow> bytes" where
  "selected_path payload = takeWhile (\<lambda>b. b \<noteq> 0 \<and> b \<noteq> 0x20) payload"

text \<open>
  \<open>dispatch_upload\<close> except for the two sensor-derived targets, whose path comes from a
  configuration file of the camera (\<open>sensor_path\<close>). A path of 128 bytes or more overruns its buffer.
\<close>

definition dispatch_upload ::
    "platform \<Rightarrow> (nat \<Rightarrow> bytes option) \<Rightarrow> bytes \<Rightarrow> daemon \<Rightarrow> (daemon \<times> bytes list) option" where
  "dispatch_upload pf sensor_path r d =
     (let command = le_at r 3 2; len = le_at r 6 2;
          ok = send_normal_response command 0; fail = send_normal_response command 1
      in if command = 0x3000 then
           (if upload_phase d \<noteq> IDLE then Some (d, [ok])
            else case upload_init pf d of
              None \<Rightarrow> Some (d, [fail])
            | Some d' \<Rightarrow> Some (d'\<lparr>upload_phase := NEED_TARGET\<rparr>, [ok]))
         else if command \<in> {0x3110, 0x3111, 0x3112, 0x3113, 0x3116, 0x3120, 0x3150, 0x31F0} then
           (if upload_phase d \<noteq> NEED_TARGET then Some (d, [ok])
            else if len \<ge> 128 then None
            else Some (d\<lparr>destination := Some (selected_path (pslice r 14 (14 + len))),
                         upload_phase := RECEIVING\<rparr>, [ok]))
         else if command = 0x3114 \<or> command = 0x3115 then
           (if upload_phase d \<noteq> NEED_TARGET then Some (d, [ok])
            else case sensor_path command of
              None \<Rightarrow> Some (d, [fail])
            | Some p \<Rightarrow> Some (d\<lparr>destination := Some p, upload_phase := RECEIVING\<rparr>, [ok]))
         else if command = 0x3200 then
           (if upload_phase d \<noteq> RECEIVING \<and> upload_phase d \<noteq> ERROR then Some (d, [ok])
            else case upload_append r d of
              None \<Rightarrow> None
            | Some None \<Rightarrow> Some (d\<lparr>upload_phase := ERROR\<rparr>, [fail])
            | Some (Some d') \<Rightarrow> Some (d', [ok]))
         else if command = 0x3300 then
           (if upload_phase d \<noteq> READY_TO_COMMIT \<and> upload_phase d \<noteq> ERROR then Some (d, [ok])
            else case upload_commit pf d of
              None \<Rightarrow> None
            | Some (Inl d') \<Rightarrow> Some (d'\<lparr>upload_phase := ERROR, upload_data := None\<rparr>, [fail])
            | Some (Inr d') \<Rightarrow> Some (d'\<lparr>upload_phase := IDLE\<rparr>, [ok]))
         else Some (d, []))"

text \<open>
  \<open>dispatch_normal_report\<close>: the checks of the report, then the upload group; the other groups
  are a parameter, which \<open>Daemon_Config\<close> gives.
\<close>

definition dispatch_normal_report ::
    "platform \<Rightarrow> (nat \<Rightarrow> bytes option) \<Rightarrow> (bytes \<Rightarrow> daemon \<Rightarrow> (daemon \<times> bytes list) option) \<Rightarrow>
     bytes \<Rightarrow> daemon \<Rightarrow> (daemon \<times> bytes list) option" where
  "dispatch_normal_report pf sensor_path other r d =
     (if length r \<noteq> NORMAL_REPORT_SIZE then None
      else
        let command = le_at r 3 2; len = le_at r 6 2;
            covered = take 12 r @ (if r ! 5 = 1 \<or> r ! 5 = 2 then pslice r 14 (14 + len) else [])
        in if r ! 0 \<noteq> 1 then Some (d, [send_normal_response command 2])
           else if r ! 1 \<noteq> 0x5A \<or> r ! 2 \<noteq> 0x5A then Some (d, [send_normal_response command 3])
           else if (r ! 5 = 1 \<or> r ! 5 = 2) \<and> 14 + len > length r then None
           else if unat (crc16_normal covered) \<noteq> le_at r 12 2 then Some (d, [send_normal_response command 4])
           else if command div 0x1000 = 3 then dispatch_upload pf sensor_path r d
           else other r d)"

definition daemon_api ::
    "platform \<Rightarrow> (nat \<Rightarrow> bytes option) \<Rightarrow> (bytes \<Rightarrow> daemon \<Rightarrow> (daemon \<times> bytes list) option) \<Rightarrow>
     (daemon \<times> bytes list) hid_api" where
  "daemon_api pf sensor_path other = \<lparr>
     api_enumerate = (\<lambda>d vid pid. (Inr (if vid = NORMAL_VID \<and> pid = NORMAL_PID then 1 else 0), d)),
     api_open = (\<lambda>d. (Inr (), d)),
     api_write = (\<lambda>(d, queue) report.
       case dispatch_normal_report pf sensor_path other report d of
         None \<Rightarrow> (Inl OSError, (d, []))
       | Some (d', replies) \<Rightarrow> (Inr (int (length report)), (d', queue @ replies))),
     api_read = (\<lambda>(d, queue) _ _.
       case queue of [] \<Rightarrow> (Inr [], (d, [])) | r # rest \<Rightarrow> (Inr r, (d, rest))),
     api_close = id\<rparr>"

section \<open>An upload against the daemon\<close>

lemma report_fields:
  assumes "t = 1 \<or> t = 2" "length payload \<le> 1010" "s < 2 ^ 32" "c \<le> 0xFFFF"
  shows "length (normal_layout c payload t s) = 1024"
    "le_at (normal_layout c payload t s) 3 2 = c"
    "normal_layout c payload t s ! 5 = word_of_nat t"
    "le_at (normal_layout c payload t s) 6 2 = length payload"
    "le_at (normal_layout c payload t s) 8 4 = s"
    "pslice (normal_layout c payload t s) 14 (14 + length payload) = payload"
    "normal_layout c payload t s ! 0 = 1" "normal_layout c payload t s ! 1 = 0x5A"
    "normal_layout c payload t s ! 2 = 0x5A"
    "take 12 (normal_layout c payload t s) = normal_header c t (length payload) s"
    "le_at (normal_layout c payload t s) 12 2 = unat (crc16_normal (normal_header c t (length payload) s @ payload))"
  using assms unat_word16_bound [of "crc16_normal (normal_header c t (length payload) s @ payload)"]
  by (auto simp: normal_layout_def normal_header_def Let_def slicing constants nth_append mod_less)

lemma dispatch_upload_report:
  assumes "t = 1 \<or> t = 2" "length payload \<le> 1010" "s < 2 ^ 32" "c \<le> 0xFFFF" "c div 0x1000 = 3"
  shows "dispatch_normal_report pf sp other (normal_layout c payload t s) d =
    dispatch_upload pf sp (normal_layout c payload t s) d"
proof -
  have "(word_of_nat t :: byte) = 1 \<or> (word_of_nat t :: byte) = 2" using assms(1) by auto
  then show ?thesis
    using assms(2,5) unfolding dispatch_normal_report_def Let_def report_fields [OF assms(1-4)]
    by (simp add: constants)
qed

lemma parse_daemon_response:
  assumes "c \<le> 0xFFFF" "s < 2 ^ 32"
  shows "parse_normal_report (send_normal_response c s) =
    Inr \<lparr>nf_command = c, nf_frame_type = 0, nf_status = s, nf_payload = []\<rparr>"
proof -
  let ?h = "normal_header c 0 0 s"
  let ?r = "?h @ le_bytes 2 (unat (crc16_normal ?h)) @ replicate 1010 0"
  have r: "send_normal_response c s = ?r" by (simp add: send_normal_response_def constants Let_def)
  have fields: "length ?r = 1024" "?r ! 0 = 1" "pslice ?r 1 3 = [0x5A, 0x5A]" "take 12 ?r = ?h"
    "le_at ?r 3 2 = c" "?r ! 5 = 0" "le_at ?r 6 2 = 0" "le_at ?r 8 4 = s"
    "le_at ?r 12 2 = unat (crc16_normal ?h)" "pslice ?r 14 14 = []"
    using assms unat_word16_bound [of "crc16_normal ?h"]
    by (simp_all add: normal_header_def slicing nth_append pslice_def mod_less)
  show ?thesis
    unfolding r parse_normal_report_def with_report_id_def parse_identified_report_def Let_def fields
    by (simp add: constants fields del: One_nat_def append_assoc)
qed

text \<open>One exchange with the daemon: what the host sees, and the state the daemon is left in.\<close>

lemma daemon_exchange:
  assumes "device w = (d, [])" "parse_normal_report report = Inr f" "nf_command f \<le> 0xFFFF" "s < 2 ^ 32"
    and "dispatch_normal_report pf sp other report d = Some (d', [send_normal_response (nf_command f) s])"
  shows "exchange (daemon_api pf sp other) report w =
    (if s = 0 then Inr () else Inl (ProtocolError ''normal updater rejected command''),
     at_device w (d', []) [Wrote report, Got (send_normal_response (nf_command f) s)])"
proof -
  let ?api = "daemon_api pf sp other" and ?reply = "send_normal_response (nf_command f) s"
  have w: "write_exact ?api report w = (Inr (), at_device w (d', [?reply]) [Wrote report])"
    using assms(1,5) by (simp add: write_exact_def daemon_api_def at_device_def emit_def Let_def)
  have "?reply \<noteq> []" by (auto simp: send_normal_response_def Let_def constants)
  then have r: "read_report ?api n t (at_device w (d', [?reply]) [Wrote report]) =
      (Inr ?reply, at_device w (d', []) [Wrote report, Got ?reply])" for n t
    by (simp add: read_report_def daemon_api_def at_device_def emit_def)
  show ?thesis
    unfolding exchange_def exchange_normal_def assms(2) io_bind_lift
    by (simp add: io_bind_def w r io_lift_def io_return_def io_raise_def parse_daemon_response [OF assms(3,4)])
qed

lemma at_device_twice [simp]: "at_device (at_device w d tr) d' tr' = at_device w d' (tr @ tr')"
  "device (at_device w d tr) = d"
  by (simp_all add: at_device_def)

lemma open_daemon:
  "open_handle (Some (daemon_api pf sp other)) NORMAL_VID NORMAL_PID w =
    (Inr (daemon_api pf sp other), emit (Opened NORMAL_VID NORMAL_PID) w)"
  by (simp add: open_handle_def hid_module_def enumerate_ids_def io_bind_def io_lift_def daemon_api_def)

text \<open>The states the daemon goes through, with \<open>d\<close> the idle daemon at the start.\<close>

definition initialised :: "daemon \<Rightarrow> daemon" where
  "initialised d = d\<lparr>upload_data := Some [], last_sequence := 0, destination := None, saw_final := False,
     upload_phase := NEED_TARGET\<rparr>"

definition filled :: "daemon \<Rightarrow> bytes \<Rightarrow> bytes list \<Rightarrow> nat \<Rightarrow> daemon" where
  "filled d target chunks i = d\<lparr>
     upload_phase := if i = length chunks then READY_TO_COMMIT else RECEIVING,
     upload_data := Some (concat (take i chunks)), last_sequence := i - 1,
     destination := Some target, saw_final := (i = length chunks)\<rparr>"

lemma daemon_initialise:
  assumes "upload_phase d = IDLE" "upload_data d \<noteq> None \<or> has_memory pf"
  shows "dispatch_normal_report pf sp other (normal_layout 0x3000 [] 1 0) d =
    Some (initialised d, [send_normal_response 0x3000 0])"
  using assms report_fields [of 1 "[]" 0 "0x3000"]
  by (subst dispatch_upload_report) (auto simp: dispatch_upload_def upload_init_def initialised_def Let_def)

lemma daemon_target:
  assumes "length target \<le> 127"
  shows "dispatch_normal_report pf sp other (normal_layout 0x3110 target 1 0) (initialised d) =
    Some ((initialised d)\<lparr>destination := Some (selected_path target), upload_phase := RECEIVING\<rparr>,
      [send_normal_response 0x3110 0])"
  using assms report_fields [of 1 target 0 "0x3110"]
  by (subst dispatch_upload_report) (simp_all add: dispatch_upload_def initialised_def Let_def)

lemma filled_0:
  "chunks \<noteq> [] \<Longrightarrow> (initialised d)\<lparr>destination := Some p, upload_phase := RECEIVING\<rparr> = filled d p chunks 0"
  by (simp add: initialised_def filled_def)

lemma daemon_data:
  assumes "i < length chunks" "length (chunks ! i) \<le> 1010" "length chunks \<le> 2 ^ 31"
    and "length (concat chunks) \<le> NORMAL_UPLOAD_CAPACITY"
  shows "dispatch_normal_report pf sp other
      (normal_layout 0x3200 (chunks ! i) (if i + 1 = length chunks then 2 else 1) i) (filled d target chunks i) =
    Some (filled d target chunks (i + 1), [send_normal_response 0x3200 0])"
proof -
  define t :: nat where "t = (if i + 1 = length chunks then 2 else 1)"
  have i: "i < 2 ^ 32" using assms(1,3) by simp
  have t: "t = 1 \<or> t = 2" by (simp add: t_def)
  have c: "0x3200 \<le> (0xFFFF :: nat)" by simp
  note f = report_fields [OF t assms(2) i c]
  have next_: "concat (take i chunks) @ chunks ! i = concat (take (Suc i) chunks)"
    using assms(1) by (simp add: take_Suc_conv_app_nth)
  have "concat chunks = concat (take (Suc i) chunks) @ concat (drop (Suc i) chunks)"
    by (metis append_take_drop_id concat_append)
  then have room: "length (concat (take i chunks)) + length (chunks ! i) \<le> NORMAL_UPLOAD_CAPACITY"
    using assms(4) next_ by (metis length_append le_add1 le_trans)
  have type: "(word_of_nat t :: byte) = 2 \<longleftrightarrow> i + 1 = length chunks" by (simp add: t_def)
  have seq: "i \<ge> 2 \<longrightarrow> i = (i - 1 + 1) mod 2 ^ 32" using i by simp
  have "upload_append (normal_layout 0x3200 (chunks ! i) t i) (filled d target chunks i) =
      Some (Some (filled d target chunks (i + 1)))"
    unfolding upload_append_def Let_def f using room assms(1,2) i next_
    by (auto simp: filled_def type)
  moreover have "upload_phase (filled d target chunks i) = RECEIVING"
    using assms(1) by (simp add: filled_def)
  ultimately show ?thesis
    unfolding t_def [symmetric]
    using f(2) by (subst dispatch_upload_report [OF t assms(2) i]) (simp_all add: dispatch_upload_def Let_def)
qed

lemma commit_dispatch:
  "upload_phase d = READY_TO_COMMIT \<Longrightarrow>
   dispatch_normal_report pf sp other (normal_layout 0x3300 [] 1 0) d =
     (case upload_commit pf d of
        None \<Rightarrow> None
      | Some (Inl d') \<Rightarrow>
          Some (d'\<lparr>upload_phase := ERROR, upload_data := None\<rparr>, [send_normal_response 0x3300 1])
      | Some (Inr d') \<Rightarrow> Some (d'\<lparr>upload_phase := IDLE\<rparr>, [send_normal_response 0x3300 0]))"
  using report_fields(2) [of 1 "[]" 0 "0x3300"]
  by (subst dispatch_upload_report)
     (simp_all add: dispatch_upload_def Let_def split: option.split sum.split)

text \<open>What the upload relies on of the camera's shell: on a path without metacharacters, \<open>rm\<close> removes
  that file and nothing else, \<open>chmod\<close> and \<open>sync\<close> leave the contents alone.\<close>

definition plain_shell :: "platform \<Rightarrow> bool" where
  "plain_shell pf \<longleftrightarrow>
     (\<forall>p fs. safe_upload_path p \<longrightarrow> shell pf (ascii ''rm '' @ p) fs = fs(p := None) \<and>
        shell pf (ascii ''chmod 0777 '' @ p) fs = fs) \<and>
     (\<forall>fs. shell pf (ascii ''sync'') fs = fs \<and> shell pf (ascii ''command'') fs = fs)"

lemma commit_writes_file:
  assumes "plain_shell pf" "safe_upload_path p" "length p \<le> 127" "can_open pf p"
    and "destination d = Some p" "saw_final d" "upload_data d = Some buf"
  shows "\<exists>d'. upload_commit pf d = Some (Inr d') \<and> files d' = (files d)(p \<mapsto> buf) \<and> upload_data d' = None"
  using assms
  by (auto simp: upload_commit_def run_command_def plain_shell_def Let_def)

lemma safe_path_selected: "safe_upload_path p \<Longrightarrow> selected_path p = p"
  unfolding selected_path_def
  by (rule takeWhile_eq_all_conv [THEN iffD2])
     (auto simp: safe_upload_path_def list_all_iff safe_path_byte_def)

lemma upload_data_run:
  assumes "i \<le> length chunks" "\<forall>c \<in> set chunks. length c \<le> 1010" "length chunks \<le> 2 ^ 31"
    and "length (concat chunks) \<le> NORMAL_UPLOAD_CAPACITY" "device w = (filled d target chunks i, [])"
  shows "\<exists>w'. io_each (\<lambda>(sequence, chunk). io_bind (io_lift (build_upload_data_request (int sequence) chunk
        (sequence + 1 = length chunks))) (exchange (daemon_api pf sp other)))
      (enumerate i (drop i chunks)) w = (Inr (), w') \<and> device w' = (filled d target chunks (length chunks), [])"
  using assms(1,5)
proof (induction "length chunks - i" arbitrary: i w)
  case 0
  then show ?case by (simp add: io_return_def io_lift_def)
next
  case (Suc k)
  then have i: "i < length chunks" by simp
  let ?c = "chunks ! i" and ?final = "i + 1 = length chunks"
  have c: "length ?c \<le> 1010" "i < 2 ^ 32" using i assms(2,3) by simp_all
  let ?f = "\<lparr>nf_command = 0x3200, nf_frame_type = (if ?final then 2 else 1), nf_status = i, nf_payload = ?c\<rparr>"
  have parse: "parse_normal_report (normal_layout 0x3200 ?c (if ?final then 2 else 1) i) = Inr ?f"
    using c by (intro parse_normal_layout_frame) auto
  have "exchange (daemon_api pf sp other) (normal_layout 0x3200 ?c (if ?final then 2 else 1) i) w =
    (Inr (), at_device w (filled d target chunks (i + 1), [])
      [Wrote (normal_layout 0x3200 ?c (if ?final then 2 else 1) i), Got (send_normal_response 0x3200 0)])"
    using daemon_exchange [OF Suc.prems(2) parse, of 0 pf sp other "filled d target chunks (i + 1)"]
      daemon_data [OF i c(1) assms(3,4), of pf sp other d target] by simp
  moreover have "k = length chunks - (i + 1)" using Suc.hyps(2) by simp
  moreover have "enumerate i (drop i chunks) = (i, ?c) # enumerate (i + 1) (drop (i + 1) chunks)"
    using i by (simp add: Cons_nth_drop_Suc [symmetric])
  ultimately show ?case
    using Suc.hyps(1) [of "i + 1" "at_device w (filled d target chunks (i + 1), [])
      [Wrote (normal_layout 0x3200 ?c (if ?final then 2 else 1) i), Got (send_normal_response 0x3200 0)]"]
      i upload_data_request [OF c, of ?final]
    by (simp add: io_bind_def)
qed


definition idle_daemon :: daemon where
  "idle_daemon = \<lparr>upload_phase = IDLE, upload_data = None, last_sequence = 0, destination = None,
     saw_final = False, files = Map.empty, commands_run = []\<rparr>"

text \<open>A shell that knows \<open>rm\<close> of a path and ignores every other command.\<close>

definition simple_platform :: platform where
  "simple_platform = \<lparr>shell = (\<lambda>c fs. if take 3 c = ascii ''rm '' then fs(drop 3 c := None) else fs),
     can_open = (\<lambda>p. safe_upload_path p), has_memory = True\<rparr>"

lemma simple_platform_plain: "plain_shell simple_platform"
  by (simp add: plain_shell_def simple_platform_def ascii_def)


lemma adb_target_selected: "selected_path ADB_UPLOAD_COMMAND_TARGET = ADB_UPLOAD_COMMAND_TARGET"
  by (simp add: selected_path_def ADB_UPLOAD_COMMAND_TARGET_def ascii_def comp_def)

text \<open>C20: starting ADB on an idle daemon whose \<open>fopen\<close> of the literal target fails (it has a missing
  directory in it): the call returns, the daemon's shell ran \<open>rm /tmp/...;/bin/adbd&\<close> exactly once and
  no \<open>chmod\<close>, and the daemon is left in its error state with its buffer freed.\<close>

theorem adb_start_against_daemon:
  assumes "\<not> can_open pf ADB_UPLOAD_COMMAND_TARGET" "has_memory pf"
    and "upload_phase d = IDLE" "device w = (d, [])"
  shows "\<exists>d' w'. start_adb_through_upload_command (Some (daemon_api pf sp other)) w = (Inr (), w') \<and>
    device w' = (d', []) \<and>
    commands_run d' = commands_run d @ [ascii ''rm /tmp/.cc2flash-adbd-bootstrap;/bin/adbd&'', ascii ''sync''] \<and>
    upload_phase d' = ERROR \<and> upload_data d' = None"
proof -
  let ?api = "daemon_api pf sp other"
  let ?T = "ADB_UPLOAD_COMMAND_TARGET"
  note len = length_adb_target
  let ?w0 = "emit (Opened NORMAL_VID NORMAL_PID) w"
  have d0: "device ?w0 = (d, [])" using assms(4) by (simp add: emit_def)
  have parse: "parse_normal_report (frame_report f) = Inr f" "nf_command f \<le> 0xFFFF"
    if "f \<in> set (commit_frame # adb_frames)" for f
    using adb_frames_parse [OF that] that by (auto simp: adb_frames_def commit_frame_def)
  have frames: "adb_frames ! 0 \<in> set (commit_frame # adb_frames)" "adb_frames ! 1 \<in> set (commit_frame # adb_frames)"
    "adb_frames ! 2 \<in> set (commit_frame # adb_frames)" "commit_frame \<in> set (commit_frame # adb_frames)"
    by (simp_all add: adb_frames_def)
  have cmds: "nf_command (adb_frames ! 0) = 0x3000" "nf_command (adb_frames ! 1) = 0x3110"
    "nf_command (adb_frames ! 2) = 0x3200" "nf_command commit_frame = 0x3300"
    "frame_report (adb_frames ! 0) = normal_layout 0x3000 [] 1 0"
    "frame_report (adb_frames ! 1) = normal_layout 0x3110 ?T 1 0"
    "frame_report (adb_frames ! 2) = normal_layout 0x3200 ([[10]] ! 0) (if 0 + 1 = length [[10]] then 2 else 1) 0"
    "frame_report commit_frame = normal_layout 0x3300 [] 1 0"
    by (simp_all add: adb_frames_def commit_frame_def frame_report_def)
  obtain w1 where w1: "exchange ?api (frame_report (adb_frames ! 0)) ?w0 = (Inr (), w1)"
    "device w1 = (initialised d, [])"
    using daemon_exchange [OF d0 parse [OF frames(1)], of 0 pf sp other "initialised d"]
      daemon_initialise [OF assms(3), of pf sp other] assms(2) cmds by simp
  let ?chunks = "[[10 :: byte]]"
  obtain w2 where w2: "exchange ?api (frame_report (adb_frames ! 1)) w1 = (Inr (), w2)"
    "device w2 = (filled d ?T ?chunks 0, [])"
    using daemon_exchange [OF w1(2) parse [OF frames(2)], of 0 pf sp other "filled d ?T ?chunks 0"]
      daemon_target [OF len, where pf = pf and sp = sp and other = other and d = d] len cmds
      filled_0 [where d = d and p = ?T and chunks = ?chunks] adb_target_selected by simp
  obtain w3 where w3: "exchange ?api (frame_report (adb_frames ! 2)) w2 = (Inr (), w3)"
    "device w3 = (filled d ?T ?chunks 1, [])"
    using daemon_exchange [OF w2(2) parse [OF frames(3)], of 0 pf sp other "filled d ?T ?chunks 1"]
      daemon_data [of 0 ?chunks pf sp other d ?T] cmds by (simp add: constants)
  let ?d3 = "filled d ?T ?chunks 1"
  let ?d4 = "run_command pf (ascii ''sync'') (run_command pf (ascii ''rm '' @ ?T) ?d3)"
  have "upload_commit pf ?d3 = Some (Inl ?d4)"
    using assms(1) len by (simp add: upload_commit_def filled_def Let_def)
  moreover have "upload_phase ?d3 = READY_TO_COMMIT" by (simp add: filled_def)
  ultimately have "dispatch_normal_report pf sp other (normal_layout 0x3300 [] 1 0) ?d3 =
      Some (?d4\<lparr>upload_phase := ERROR, upload_data := None\<rparr>, [send_normal_response 0x3300 1])"
    by (simp add: commit_dispatch del: One_nat_def)
  then obtain w4 where w4: "exchange ?api (frame_report commit_frame) w3 =
      (Inl (ProtocolError ''normal updater rejected command''), w4)"
    "device w4 = (?d4\<lparr>upload_phase := ERROR, upload_data := None\<rparr>, [])"
    using daemon_exchange [OF w3(2) parse [OF frames(4)], of 1 pf sp other] cmds by simp
  have "start_adb_through_upload_command (Some ?api) w = (Inr (), close_handle ?api w4)"
    unfolding start_adb_eq with_handle_def io_bind_assoc
    by (simp add: io_bind_def open_daemon w1(1) w2(1) w3(1) w4(1) io_catch_def io_return_def io_lift_def
        del: One_nat_def)
  moreover have "device (close_handle ?api w4) = device w4"
    by (simp add: close_handle_def emit_def daemon_api_def)
  moreover have "ascii ''rm '' @ ?T = ascii ''rm /tmp/.cc2flash-adbd-bootstrap;/bin/adbd&''"
    by (simp add: ADB_UPLOAD_COMMAND_TARGET_def ascii_def)
  ultimately show ?thesis using w4(2) by (simp add: run_command_def filled_def)
qed

theorem adb_start_against_daemon_witness:
  "\<exists>d' w'. start_adb_through_upload_command (Some (daemon_api simple_platform (\<lambda>_. None) (\<lambda>_ _. None)))
     \<lparr>device = (idle_daemon, []), trace = [], reported = []\<rparr> = (Inr (), w') \<and>
     device w' = (d', []) \<and> upload_phase d' = ERROR"
proof -
  have "\<not> can_open simple_platform ADB_UPLOAD_COMMAND_TARGET" "has_memory simple_platform"
    "upload_phase idle_daemon = IDLE"
    by (simp_all add: simple_platform_def idle_daemon_def ADB_UPLOAD_COMMAND_TARGET_def ascii_def
        safe_upload_path_def safe_path_byte_def)
  from adb_start_against_daemon [OF this, of "\<lparr>device = (idle_daemon, []), trace = [], reported = []\<rparr>"
      "\<lambda>_. None" "\<lambda>_ _. None"] show ?thesis by auto
qed

end
