(* ===== verification/Daemon_Config.thy ===== *)
theory Daemon_Config
  imports Device_Models
begin

text \<open>
  The groups of the update daemon beside the uploads, from the reconstructed C
  (\<open>usb-maintenance/source-reconstruction/hid_update_reconstructed.c\<close>): the configuration file, the version and the
  upgrade words; and the host's configuration requests against them. The outer option is undefined behaviour: a buffer that
  is overrun.
\<close>

unbundle bit_operations_syntax

section \<open>Text of the C library\<close>

text \<open>A C string in a buffer; \<open>isspace\<close>; what \<open>fgets(line, n + 1, fp)\<close> reads of the data to come; \<open>sscanf(text, "%63s", ...)\<close>.\<close>

definition c_string :: "bytes \<Rightarrow> bytes" where
  "c_string buf = takeWhile (\<lambda>b. b \<noteq> 0) buf"

definition c_space :: "byte \<Rightarrow> bool" where
  "c_space b \<longleftrightarrow> (9 \<le> b \<and> b \<le> 13) \<or> b = 0x20"

definition fgets_chunk :: "nat \<Rightarrow> bytes \<Rightarrow> bytes" where
  "fgets_chunk n data = take n (take (Suc (length (takeWhile (\<lambda>b. b \<noteq> 10) data))) data)"

definition scan_word :: "bytes \<Rightarrow> bytes" where
  "scan_word t = take 63 (takeWhile (\<lambda>b. \<not> c_space b) (dropWhile c_space t))"

lemma fgets_chunk_progress: "data \<noteq> [] \<Longrightarrow> 0 < n \<Longrightarrow> 0 < length (fgets_chunk n data)"
  by (cases data) (auto simp: fgets_chunk_def)

section \<open>The configuration file\<close>

definition CONFIG_PATH :: bytes where
  "CONFIG_PATH = ascii ''/etc/conf.d/uvc.config''"

definition config_bindings :: "(nat \<times> string) list" where
  "config_bindings =
     [(0x2000, ''manufact_lab''), (0x2010, ''serial_lab''), (0x2020, ''productnumber''), (0x2030, ''vendor_id''),
      (0x2040, ''product_id''), (0x2050, ''device_bcd''), (0x2F00, ''model_lab''), (0x2F10, ''cmei_lab''), (0x2F20, ''appkey''),
      (0x2F30, ''product_lab''), (0x2F40, ''adb_en''), (0x2F50, ''sensor_name''), (0x2F60, ''i2c_addr''), (0x2F70, ''default_boot''),
      (0x2F80, ''sensor_fps''), (0x2F90, ''sensor_width''), (0x2FA0, ''sensor_height''), (0x2FB0, ''hvflip''), (0x2FC0, ''rcmode''),
      (0x2FD0, ''bitrate''), (0x2FE0, ''qp_value'')]"

text \<open>\<open>config_key_for\<close>: the key, and whether the command sets it.\<close>

fun key_for :: "(nat \<times> string) list \<Rightarrow> nat \<Rightarrow> (string \<times> bool) option" where
  "key_for [] command = None"
| "key_for ((get, key) # bindings) command =
     (if command = get then Some (key, False)
      else if command = (get + 1) mod 0x10000 then Some (key, True)
      else key_for bindings command)"

text \<open>\<open>open_config\<close>: the file's contents when \<open>fopen(path, "rb+")\<close> succeeds.\<close>

definition open_file :: "platform \<Rightarrow> bytes \<Rightarrow> daemon \<Rightarrow> bytes option" where
  "open_file pf path d = (if can_open pf path then files d path else None)"

text \<open>\<open>send_normal_response(command, status, 1, payload, length)\<close>: the type is 0 when there is no payload.\<close>

definition send_payload_response :: "nat \<Rightarrow> nat \<Rightarrow> bytes \<Rightarrow> bytes" where
  "send_payload_response command status payload =
     (if payload = [] then send_normal_response command status else normal_layout command payload 1 status)"

text \<open>The value of a line, if it is the line of the key.\<close>

definition line_value :: "bytes \<Rightarrow> bytes \<Rightarrow> bytes option" where
  "line_value key chunk =
     (let line = c_string chunk; left = takeWhile (\<lambda>b. b \<noteq> 0x3A) line
      in if 0x3A \<notin> set line then None
         else if scan_word left = [] \<or> scan_word left \<noteq> key then None
         else Some (takeWhile (\<lambda>b. b \<noteq> 10) (take 63 (drop (length left + 1) line))))"

function find_value :: "bytes \<Rightarrow> bytes \<Rightarrow> bytes option" where
  "find_value key data =
     (if data = [] then None
      else case line_value key (fgets_chunk 127 data) of
          Some v \<Rightarrow> Some v
        | None \<Rightarrow> find_value key (drop (length (fgets_chunk 127 data)) data))"
  by pat_completeness auto
termination
  by (relation "measure (\<lambda>(_, data). length data)") (use fgets_chunk_progress in auto)

declare find_value.simps [simp del]

definition config_get :: "platform \<Rightarrow> nat \<Rightarrow> bytes \<Rightarrow> daemon \<Rightarrow> bytes" where
  "config_get pf command key d =
     (case open_file pf CONFIG_PATH d of
        None \<Rightarrow> send_normal_response command 1
      | Some data \<Rightarrow>
          (case find_value key data of
             None \<Rightarrow> send_normal_response command 1
           | Some v \<Rightarrow> send_payload_response command 0 v))"

text \<open>
  The search of \<open>config_set\<close>: the file up to and with the colon of the key's line, and the file from the end of
  that line on.
\<close>

definition parsed_key :: "bytes \<Rightarrow> bytes" where
  "parsed_key line = takeWhile (\<lambda>b. b \<noteq> 0 \<and> b \<noteq> 0x20) (take 95 (takeWhile (\<lambda>b. b \<noteq> 0x3A) line))"

function find_line :: "bytes \<Rightarrow> bytes \<Rightarrow> bytes \<Rightarrow> (bytes \<times> bytes) option" where
  "find_line key passed data =
     (if data = [] then None
      else
        let line = takeWhile (\<lambda>b. b \<noteq> 10) data
        in if 0x3A \<in> set line \<and> parsed_key line = key
           then Some (passed @ takeWhile (\<lambda>b. b \<noteq> 0x3A) line @ [0x3A], drop (length line) data)
           else find_line key (passed @ take (length line + 1) data) (drop (length line + 1) data))"
  by pat_completeness auto
termination by (relation "measure (\<lambda>(_, _, data). length data)") auto

declare find_line.simps [simp del]

definition config_set :: "platform \<Rightarrow> nat \<Rightarrow> bytes \<Rightarrow> bytes \<Rightarrow> daemon \<Rightarrow> (daemon \<times> bytes) option" where
  "config_set pf command key new_value d =
     (case open_file pf CONFIG_PATH d of
        None \<Rightarrow> Some (d, send_normal_response command 1)
      | Some data \<Rightarrow>
          if 2048 < length data then None
          else
            (case find_line key [] data of
               None \<Rightarrow> Some (d, send_normal_response command 1)
             | Some (head, tail) \<Rightarrow>
                 let new = head @ new_value @ tail
                 in if 4096 < length new then None
                    else Some (d\<lparr>files := (files d)(CONFIG_PATH \<mapsto> new @ replicate (length data - length new) 0)\<rparr>,
                      send_normal_response command 0)))"

definition dispatch_config :: "platform \<Rightarrow> bytes \<Rightarrow> daemon \<Rightarrow> (daemon \<times> bytes list) option" where
  "dispatch_config pf r d =
     (let command = le_at r 3 2; len = le_at r 6 2
      in case key_for config_bindings command of
           None \<Rightarrow> Some (d, [])
         | Some (key, True) \<Rightarrow>
             if length r < 14 + len then None
             else map_option (\<lambda>(d', reply). (d', [reply])) (config_set pf command (ascii key) (pslice r 14 (14 + len)) d)
         | Some (key, False) \<Rightarrow> Some (d, [config_get pf command (ascii key) d]))"

section \<open>Version, upgrade, sensor paths\<close>

definition version_query :: "platform \<Rightarrow> nat \<Rightarrow> daemon \<Rightarrow> bytes" where
  "version_query pf command d =
     (case open_file pf (ascii ''/tmp/version.txt'') d of
        None \<Rightarrow> send_normal_response command 1
      | Some data \<Rightarrow>
          if data = [] then send_normal_response command 1
          else send_payload_response command 0 (c_string (take 23 (takeWhile (\<lambda>b. b \<noteq> 10) data))))"

text \<open>
  The vendor driver's write of the eight upgrade bytes is the parameter \<open>set_flash\<close>, which returns whether it succeeded;
  the readback after it is not used. The allocation is not checked, and eight bytes are written whatever the payload's length.
\<close>

definition set_upgrade_words_and_reboot ::
    "platform \<Rightarrow> (bytes \<Rightarrow> daemon \<Rightarrow> bool \<times> daemon) \<Rightarrow> nat \<Rightarrow> bytes \<Rightarrow> daemon \<Rightarrow> (daemon \<times> bytes list) option" where
  "set_upgrade_words_and_reboot pf set_flash command payload d =
     (if \<not> has_memory pf \<or> length payload < 8 then None
      else case set_flash (take 8 payload) d of
          (ok, d') \<Rightarrow> Some (run_command pf (ascii ''reboot'') d', [send_normal_response command (if ok then 0 else 1)]))"

definition other_groups ::
    "platform \<Rightarrow> (bytes \<Rightarrow> daemon \<Rightarrow> bool \<times> daemon) \<Rightarrow> bytes \<Rightarrow> daemon \<Rightarrow> (daemon \<times> bytes list) option" where
  "other_groups pf set_flash r d =
     (let command = le_at r 3 2; len = le_at r 6 2; group = command div 0x1000
      in if group = 0 then Some (d, if command = 1 then [version_query pf command d] else [])
         else if group = 1 then Some (d, [])
         else if group = 2 then dispatch_config pf r d
         else if group = 4
         then (if length r < 14 + len then None
               else set_upgrade_words_and_reboot pf set_flash command (pslice r 14 (14 + len)) d)
         else Some (d, [send_normal_response command 5]))"

text \<open>\<open>build_sensor_path\<close>: \<open>sscanf(line, "sensor_name : %63s", ...)\<close> on each line of at most 255 bytes.\<close>

definition sensor_of_line :: "bytes \<Rightarrow> bytes option" where
  "sensor_of_line chunk =
     (let line = c_string chunk; label = ascii ''sensor_name''; rest = dropWhile c_space (drop (length label) line)
      in if take (length label) line \<noteq> label \<or> take 1 rest \<noteq> [0x3A] then None
         else if scan_word (drop 1 rest) = [] then None else Some (scan_word (drop 1 rest)))"

function find_sensor :: "bytes \<Rightarrow> bytes option" where
  "find_sensor data =
     (if data = [] then None
      else case sensor_of_line (fgets_chunk 255 data) of
          Some s \<Rightarrow> Some s
        | None \<Rightarrow> find_sensor (drop (length (fgets_chunk 255 data)) data))"
  by pat_completeness auto
termination
  by (relation "measure length") (use fgets_chunk_progress in auto)

declare find_sensor.simps [simp del]

definition build_sensor_path :: "(bytes \<rightharpoonup> bytes) \<Rightarrow> nat \<Rightarrow> bytes option" where
  "build_sensor_path file command =
     (case file CONFIG_PATH of
        None \<Rightarrow> None
      | Some data \<Rightarrow>
          map_option (\<lambda>sensor.
            if command = 0x3114 then ascii ''/system/lib/modules/sensor_'' @ sensor @ ascii ''_t31.ko''
            else ascii ''/system/etc/sensor/'' @ sensor @ ascii ''-t31.bin'') (find_sensor data))"

text \<open>The daemon on one report, every group included.\<close>

definition daemon_step ::
    "platform \<Rightarrow> (bytes \<Rightarrow> daemon \<Rightarrow> bool \<times> daemon) \<Rightarrow> bytes \<Rightarrow> daemon \<Rightarrow> (daemon \<times> bytes list) option" where
  "daemon_step pf set_flash r d =
     dispatch_normal_report pf (build_sensor_path (files d)) (other_groups pf set_flash) r d"

section \<open>A set value is the value read back\<close>

text \<open>A line of the file: the key, spaces, a colon, the value; an entry is \<open>(key, spaces, value)\<close>.\<close>

type_synonym entry = "bytes \<times> nat \<times> bytes"

definition config_line :: "entry \<Rightarrow> bytes" where
  "config_line = (\<lambda>(key, spaces, value). key @ replicate spaces 0x20 @ [0x3A] @ value @ [10])"

definition config_lines :: "entry list \<Rightarrow> bytes" where
  "config_lines es = concat (map config_line es)"

definition plain_value :: "bytes \<Rightarrow> bool" where
  "plain_value value \<longleftrightarrow> length value \<le> 63 \<and> 0 \<notin> set value \<and> 10 \<notin> set value"

definition plain_entry :: "entry \<Rightarrow> bool" where
  "plain_entry = (\<lambda>(key, spaces, value).
     key \<noteq> [] \<and> length key \<le> 63 \<and> list_all (\<lambda>b. b \<noteq> 0 \<and> b \<noteq> 0x3A \<and> \<not> c_space b) key \<and> plain_value value \<and>
     length (config_line (key, spaces, value)) \<le> 127)"

definition entry_value :: "entry list \<Rightarrow> bytes \<rightharpoonup> bytes" where
  "entry_value es = map_of (map (\<lambda>(key, _, value). (key, value)) es)"

text \<open>The abstract SET: the first entry of the key gets the value.\<close>

primrec set_entry :: "bytes \<Rightarrow> bytes \<Rightarrow> entry list \<Rightarrow> entry list" where
  "set_entry key value [] = []"
| "set_entry key value (e # es) =
     (if fst e = key then (key, fst (snd e), value) # es else e # set_entry key value es)"

lemma plain_entry_bytes:
  assumes "plain_entry (key, spaces, value)" "b \<in> set key"
  shows "b \<noteq> 0" "b \<noteq> 10" "b \<noteq> 0x20" "b \<noteq> 0x3A" "\<not> c_space b"
  using assms by (auto simp: plain_entry_def list_all_iff c_space_def)

lemma takeWhile_stop: "(\<And>b. b \<in> set xs \<Longrightarrow> P b) \<Longrightarrow> \<not> P c \<Longrightarrow> takeWhile P (xs @ c # ys) = xs"
  by (induction xs) auto

lemma left_of_colon:
  assumes "plain_entry (key, spaces, value)"
  shows "takeWhile (\<lambda>b. b \<noteq> 0x3A) (key @ replicate spaces 0x20 @ 0x3A # rest) = key @ replicate spaces 0x20"
proof -
  have "b \<noteq> 0x3A" if "b \<in> set (key @ replicate spaces 0x20)" for b
    using that plain_entry_bytes(4) [OF assms] by auto
  then have "takeWhile (\<lambda>b. b \<noteq> 0x3A) ((key @ replicate spaces 0x20) @ 0x3A # rest) = key @ replicate spaces 0x20"
    by (intro takeWhile_stop) auto
  then show ?thesis by (simp only: append_assoc)
qed

lemma config_line_cut:
  assumes "plain_entry (key, spaces, value)"
  shows "takeWhile (\<lambda>b. b \<noteq> 10) (config_line (key, spaces, value) @ rest) = key @ replicate spaces 0x20 @ [0x3A] @ value"
    and "fgets_chunk 127 (config_line (key, spaces, value) @ rest) = config_line (key, spaces, value)"
proof -
  have b: "b \<noteq> 10" if "b \<in> set (key @ replicate spaces 0x20 @ [0x3A] @ value)" for b
    using that plain_entry_bytes(2) [OF assms] assms by (auto simp: plain_entry_def plain_value_def)
  have l: "config_line (key, spaces, value) @ rest = (key @ replicate spaces 0x20 @ [0x3A] @ value) @ 10 # rest"
    by (simp add: config_line_def)
  show cut: "takeWhile (\<lambda>b. b \<noteq> 10) (config_line (key, spaces, value) @ rest) = key @ replicate spaces 0x20 @ [0x3A] @ value"
    unfolding l by (rule takeWhile_stop) (use b in auto)
  have "length (config_line (key, spaces, value)) = Suc (length (key @ replicate spaces 0x20 @ [0x3A] @ value))"
    by (simp add: config_line_def)
  moreover have "length (config_line (key, spaces, value)) \<le> 127" using assms by (simp add: plain_entry_def)
  ultimately show "fgets_chunk 127 (config_line (key, spaces, value) @ rest) = config_line (key, spaces, value)"
    unfolding fgets_chunk_def cut by (simp del: length_append)
qed

lemma scan_word_plain:
  assumes "plain_entry (key, spaces, value)"
  shows "scan_word (key @ replicate spaces 0x20) = key"
proof -
  have s: "c_space 0x20" by (simp add: c_space_def)
  have "dropWhile c_space (key @ replicate spaces 0x20) = key @ replicate spaces 0x20"
    using assms plain_entry_bytes(5) [OF assms] by (cases key) (auto simp: plain_entry_def)
  moreover have "takeWhile (\<lambda>b. \<not> c_space b) (key @ replicate spaces 0x20) = key"
    using plain_entry_bytes(5) [OF assms] takeWhile_stop [of key "\<lambda>b. \<not> c_space b" "0x20"] s
    by (cases spaces) (auto simp: takeWhile_eq_all_conv)
  ultimately show ?thesis using assms by (simp add: scan_word_def plain_entry_def)
qed

lemma line_value_plain:
  assumes "plain_entry (key, spaces, value)"
  shows "line_value k (config_line (key, spaces, value)) = (if k = key then Some value else None)"
proof -
  have v: "plain_value value" "key \<noteq> []" using assms by (simp_all add: plain_entry_def)
  have c: "c_string (config_line (key, spaces, value)) = config_line (key, spaces, value)"
    using plain_entry_bytes(1) [OF assms] v(1)
    by (auto simp: c_string_def config_line_def plain_value_def takeWhile_eq_all_conv)
  have left: "takeWhile (\<lambda>b. b \<noteq> 0x3A) (config_line (key, spaces, value)) = key @ replicate spaces 0x20"
    using left_of_colon [OF assms] by (simp add: config_line_def)
  have "takeWhile (\<lambda>b. b \<noteq> 10) (take 63 (value @ [10])) = value"
  proof (cases "length value = 63")
    case True
    then show ?thesis using v(1) by (auto simp: plain_value_def takeWhile_eq_all_conv)
  next
    case False
    then have "length (value @ [10]) \<le> 63" using v(1) by (simp add: plain_value_def)
    then have "take 63 (value @ [10]) = value @ [10]" by (rule take_all)
    moreover have "takeWhile (\<lambda>b. b \<noteq> 10) (value @ [10]) = value"
      using v(1) by (intro takeWhile_stop) (auto simp: plain_value_def)
    ultimately show ?thesis by simp
  qed
  moreover have "drop (length (key @ replicate spaces (0x20 :: byte)) + 1) (config_line (key, spaces, value)) = value @ [10]"
    by (simp add: config_line_def)
  moreover have "0x3A \<in> set (config_line (key, spaces, value))" by (simp add: config_line_def)
  ultimately show ?thesis
    unfolding line_value_def c Let_def left scan_word_plain [OF assms] using v(2) by auto
qed

lemma find_value_step:
  assumes "fgets_chunk 127 (chunk @ rest) = chunk" "chunk \<noteq> []"
  shows "find_value k (chunk @ rest) = (case line_value k chunk of None \<Rightarrow> find_value k rest | Some v \<Rightarrow> Some v)"
  using assms(2) by (subst find_value.simps) (simp add: assms(1) split: option.split)

lemma find_line_step:
  assumes "takeWhile (\<lambda>b. b \<noteq> 10) data = line" "data = line @ 10 # rest"
  shows "find_line k passed data =
    (if 0x3A \<in> set line \<and> parsed_key line = k
     then Some (passed @ takeWhile (\<lambda>b. b \<noteq> 0x3A) line @ [0x3A], 10 # rest)
     else find_line k (passed @ line @ [10]) rest)"
proof -
  have "data \<noteq> []" "drop (length line) data = 10 # rest" "drop (length line + 1) data = rest"
    "take (length line + 1) data = line @ [10]"
    using assms(2) by simp_all
  then show ?thesis by (subst find_line.simps) (simp only: assms(1) Let_def if_False)
qed

text \<open>GET on the lines of the entries is the lookup, and SET rewrites the value of the entry.\<close>

lemma find_value_lines:
  assumes "list_all plain_entry es" "entry_value es k = Some v"
  shows "find_value k (config_lines es @ rest) = Some v"
  using assms
proof (induction es)
  case (Cons e es)
  obtain key sp "value" where e: "e = (key, sp, value)" by (cases e)
  have p: "plain_entry (key, sp, value)" using Cons.prems(1) e by simp
  let ?l = "config_line (key, sp, value)" and ?more = "config_lines es @ rest"
  have d: "config_lines (e # es) @ rest = ?l @ ?more" by (simp add: config_lines_def e)
  have "find_value k (?l @ ?more) = (if k = key then Some value else find_value k ?more)"
    using find_value_step [OF config_line_cut(2) [OF p]] line_value_plain [OF p] by (simp add: config_line_def)
  then show ?case
    using Cons unfolding d by (auto simp: entry_value_def e split: if_splits)
qed (simp add: entry_value_def)

lemma parsed_key_plain:
  assumes "plain_entry (key, sp, value)"
  shows "takeWhile (\<lambda>b. b \<noteq> 0x3A) (key @ replicate sp 0x20 @ [0x3A] @ value) = key @ replicate sp 0x20"
    and "parsed_key (key @ replicate sp 0x20 @ [0x3A] @ value) = key"
proof -
  show cut: "takeWhile (\<lambda>b. b \<noteq> 0x3A) (key @ replicate sp 0x20 @ [0x3A] @ value) = key @ replicate sp 0x20"
    using left_of_colon [OF assms, of "value"] by simp
  have "length key \<le> 63" using assms by (simp add: plain_entry_def)
  then have "take 95 (key @ replicate sp 0x20) = key @ replicate (min sp (95 - length key)) (0x20 :: byte)"
    by (simp add: min.commute)
  moreover have "takeWhile (\<lambda>b. b \<noteq> 0 \<and> b \<noteq> 0x20) (key @ replicate j 0x20) = key" for j
    using plain_entry_bytes(1,3) [OF assms] takeWhile_stop [of key "\<lambda>b. b \<noteq> 0 \<and> b \<noteq> 0x20" "0x20"]
    by (cases j) (auto simp: takeWhile_eq_all_conv)
  ultimately show "parsed_key (key @ replicate sp 0x20 @ [0x3A] @ value) = key"
    unfolding parsed_key_def cut by simp
qed

lemma find_line_lines:
  assumes "list_all plain_entry es" "entry_value es k = Some v"
  shows "\<exists>head tail. find_line k passed (config_lines es @ rest) = Some (head, tail) \<and>
    (\<forall>new. head @ new @ tail = passed @ config_lines (set_entry k new es) @ rest)"
  using assms
proof (induction es arbitrary: passed)
  case (Cons e es)
  obtain key sp "value" where e: "e = (key, sp, value)" by (cases e)
  have p: "plain_entry (key, sp, value)" using Cons.prems(1) e by simp
  let ?body = "key @ replicate sp 0x20 @ [0x3A] @ value" and ?more = "config_lines es @ rest"
  have d: "config_lines (e # es) @ rest = config_line (key, sp, value) @ ?more" by (simp add: config_lines_def e)
  have l: "config_line (key, sp, value) @ ?more = (?body @ [10]) @ ?more" by (simp add: config_line_def)
  have run: "find_line k passed (config_line (key, sp, value) @ ?more) =
      (if key = k then Some (passed @ key @ replicate sp 0x20 @ [0x3A], 10 # ?more)
       else find_line k (passed @ config_line (key, sp, value)) ?more)"
    using find_line_step [OF config_line_cut(1) [OF p], of "?more" "?more" k passed] parsed_key_plain [OF p]
    by (auto simp: config_line_def)
  show ?case
  proof (cases "key = k")
    case True
    then show ?thesis unfolding d run by (auto simp: e config_lines_def config_line_def)
  next
    case False
    then have "entry_value es k = Some v" using Cons.prems(2) by (simp add: entry_value_def e split: if_splits)
    with Cons.IH [of "passed @ config_line (key, sp, value)"] Cons.prems(1) False show ?thesis
      unfolding d run by (auto simp: e config_lines_def)
  qed
qed (simp add: entry_value_def)

text \<open>The host's commands are the daemon's: the GET and SET of a key reach the line of that key.\<close>

lemma host_keys_table:
  "list_all (\<lambda>pair.
     key_for config_bindings (wire_value (cp_get pair)) = Some (key_value (cp_key pair), False) \<and>
     key_for config_bindings (wire_value (cp_set pair)) = Some (key_value (cp_key pair), True) \<and>
     wire_value (cp_get pair) div 0x1000 = 2 \<and> wire_value (cp_set pair) div 0x1000 = 2 \<and>
     wire_value (cp_get pair) \<le> 0xFFFF \<and> wire_value (cp_set pair) \<le> 0xFFFF) CONFIGURATION_COMMANDS"
  by (simp add: CONFIGURATION_COMMANDS_def config_pair_def config_bindings_def)

lemma host_keys_known:
  assumes "configuration_pair (Key k) = Inr pair"
  shows "key_for config_bindings (wire_value (cp_get pair)) = Some (key_value k, False)"
    and "key_for config_bindings (wire_value (cp_set pair)) = Some (key_value k, True)"
    and "wire_value (cp_get pair) div 0x1000 = 2" "wire_value (cp_set pair) div 0x1000 = 2"
    and "wire_value (cp_get pair) \<le> 0xFFFF" "wire_value (cp_set pair) \<le> 0xFFFF"
proof -
  have "pair \<in> set CONFIGURATION_COMMANDS" "cp_key pair = k"
    using CONFIGURATION_BY_KEY_pair [of k] assms by (auto simp: configuration_pair_def)
  then show "key_for config_bindings (wire_value (cp_get pair)) = Some (key_value k, False)"
    "key_for config_bindings (wire_value (cp_set pair)) = Some (key_value k, True)"
    "wire_value (cp_get pair) div 0x1000 = 2" "wire_value (cp_set pair) div 0x1000 = 2"
    "wire_value (cp_get pair) \<le> 0xFFFF" "wire_value (cp_set pair) \<le> 0xFFFF"
    using host_keys_table by (auto simp only: list_all_iff)
qed

lemma config_report:
  assumes "t = 1 \<or> t = 2" "length payload \<le> 1010" "c \<le> 0xFFFF" "c div 0x1000 = 2"
  shows "daemon_step pf set_flash (normal_layout c payload t 0) d =
    (case key_for config_bindings c of
       None \<Rightarrow> Some (d, [])
     | Some (key, True) \<Rightarrow> map_option (\<lambda>(d', reply). (d', [reply])) (config_set pf c (ascii key) payload d)
     | Some (key, False) \<Rightarrow> Some (d, [config_get pf c (ascii key) d]))"
proof -
  have t: "(word_of_nat t :: byte) = 1 \<or> (word_of_nat t :: byte) = 2" using assms(1) by auto
  have zero: "(0 :: nat) < 2 ^ 32" by simp
  note f = report_fields [OF assms(1,2) zero assms(3)]
  have "daemon_step pf set_flash (normal_layout c payload t 0) d = dispatch_config pf (normal_layout c payload t 0) d"
    using t assms(2,4) unfolding daemon_step_def dispatch_normal_report_def other_groups_def Let_def f
    by (simp add: constants)
  then show ?thesis
    using assms(2) unfolding dispatch_config_def Let_def f by (simp split: option.split bool.split)
qed

lemma entry_value_set:
  "entry_value es k = Some old \<Longrightarrow> entry_value (set_entry k new es) = (entry_value es)(k \<mapsto> new)"
  by (induction es) (auto simp: entry_value_def fun_eq_iff split: if_splits prod.splits)

lemma length_set_entry:
  "length (config_lines (set_entry k new es)) \<le> length (config_lines es) + length new"
  by (induction es) (auto simp: config_lines_def config_line_def split: prod.splits)

lemma config_get_lines:
  assumes "can_open pf CONFIG_PATH" "files d CONFIG_PATH = Some (config_lines es @ rest)"
    and "list_all plain_entry es" "entry_value es k = Some v"
  shows "config_get pf c k d = send_payload_response c 0 v"
  using assms(1,2) find_value_lines [OF assms(3,4), of rest] by (simp add: config_get_def open_file_def)

lemma config_set_lines:
  assumes "can_open pf CONFIG_PATH" "files d CONFIG_PATH = Some (config_lines es @ replicate n 0)"
    and "length (config_lines es @ replicate n 0) \<le> 2048" "length new \<le> 2048"
    and "list_all plain_entry es" "entry_value es k = Some old"
  shows "config_set pf c k new d =
    Some (d\<lparr>files := (files d)(CONFIG_PATH \<mapsto> config_lines (set_entry k new es) @
        replicate (n + (length (config_lines es) - length (config_lines (set_entry k new es)))) 0)\<rparr>,
      send_normal_response c 0)"
proof -
  let ?data = "config_lines es @ replicate n 0" and ?new = "config_lines (set_entry k new es) @ replicate n 0"
  obtain head tail where f: "find_line k [] ?data = Some (head, tail)" "head @ new @ tail = ?new"
    using find_line_lines [OF assms(5,6), of "[]" "replicate n 0"] by auto
  have "length ?new \<le> 4096" using length_set_entry [of k new es] assms(3,4) by simp
  moreover have "?new @ replicate (length ?data - length ?new) 0 = config_lines (set_entry k new es) @
      replicate (n + (length (config_lines es) - length (config_lines (set_entry k new es)))) 0"
    by (simp add: replicate_add)
  ultimately show ?thesis
    using assms(1-3) unfolding config_set_def open_file_def by (simp add: f Let_def del: append_assoc length_append)
qed

lemma parse_payload_response:
  assumes "c \<le> 0xFFFF" "s < 2 ^ 32" "length payload \<le> 1010"
  shows "parse_normal_report (send_payload_response c s payload) =
    Inr \<lparr>nf_command = c, nf_frame_type = of_bool (payload \<noteq> []), nf_status = s, nf_payload = payload\<rparr>"
  using parse_daemon_response [OF assms(1,2)] parse_normal_layout_frame [OF _ assms(3,2,1), of 1]
  by (simp add: send_payload_response_def)

text \<open>C22: The host's SET of a configuration value, run against the camera's daemon on a file of well-formed lines
  followed by zero bytes (what earlier, longer values left): the daemon answers success and rewrites only the value of that
  key, padding with zero bytes where the file became shorter, so every other key keeps its value; and the host's GET
  of the key then returns exactly the value that was set.\<close>

theorem config_set_then_get:
  assumes pf: "can_open pf CONFIG_PATH"
    and stored: "files d CONFIG_PATH = Some (config_lines es @ replicate n 0)"
      "length (config_lines es @ replicate n 0) \<le> 2048"
    and plain: "list_all plain_entry es" "list_all plain_entry (set_entry (ascii (key_value k)) value es)"
    and old: "entry_value es (ascii (key_value k)) = Some old"
    and set_report: "build_config_set_request (Key k) (Bytes value) frame_type = Inr set_report"
  shows "\<exists>get_report d' ok reply c es'.
    build_config_get_request (Key k) = Inr get_report \<and>
    es' = set_entry (ascii (key_value k)) value es \<and>
    entry_value es' = (entry_value es)(ascii (key_value k) \<mapsto> value) \<and>
    daemon_step pf set_flash set_report d = Some (d', [ok]) \<and>
    d' = d\<lparr>files := (files d)(CONFIG_PATH \<mapsto> config_lines es' @
      replicate (n + (length (config_lines es) - length (config_lines es'))) 0)\<rparr> \<and>
    parse_normal_report ok = Inr \<lparr>nf_command = c + 1, nf_frame_type = 0, nf_status = 0, nf_payload = []\<rparr> \<and>
    daemon_step pf set_flash get_report d' = Some (d', [reply]) \<and>
    parse_normal_report reply =
      Inr \<lparr>nf_command = c, nf_frame_type = of_bool (value \<noteq> []), nf_status = 0, nf_payload = value\<rparr>"
proof -
  let ?key = "ascii (key_value k)" and ?es = "set_entry (ascii (key_value k)) value es"
  obtain pair where pair: "configuration_pair (Key k) = Inr pair" "wire_value (cp_set pair) = wire_value (cp_get pair) + 1"
    using configuration_pairs [of k] by blast
  note h = host_keys_known [OF pair(1)]
  let ?c = "wire_value (cp_get pair)"
  define t where "t = nat (frame_type_value frame_type)"
  have built: "build_normal_report (int (?c + 1)) value (frame_type_value frame_type) 0 = Inr set_report"
    using set_report by (simp add: build_config_set_request_def pair)
  note b = build_normal_report_Inr [OF built]
  have set_eq: "set_report = normal_layout (?c + 1) value t 0" and t: "t = 1 \<or> t = 2" and len: "length value \<le> 1010"
    using b(3,4) b(7) [unfolded nat_int] by (auto simp: t_def constants)
  have get_eq: "build_config_get_request (Key k) = Inr (normal_layout ?c [] 1 0)"
    by (simp add: build_config_get_request_def pair plain_report_Inr)
  note values_set = entry_value_set [OF old, of "value"]
  have found: "entry_value ?es ?key = Some value" by (simp add: values_set)
  let ?m = "n + (length (config_lines es) - length (config_lines ?es))"
  define d' where "d' = d\<lparr>files := (files d)(CONFIG_PATH \<mapsto> config_lines ?es @ replicate ?m 0)\<rparr>"
  have "config_set pf (?c + 1) ?key value d = Some (d', send_normal_response (?c + 1) 0)"
    unfolding d'_def by (rule config_set_lines [OF pf stored _ plain(1) old]) (use len in simp)
  then have set_run: "daemon_step pf set_flash set_report d = Some (d', [send_normal_response (?c + 1) 0])"
    unfolding set_eq using config_report [OF t len, of "?c + 1"] h(2,4,6) pair(2) by simp
  have "config_get pf ?c ?key d' = send_payload_response ?c 0 value"
    by (rule config_get_lines [OF pf _ plain(2) found]) (simp add: d'_def)
  then have get_run: "daemon_step pf set_flash (normal_layout ?c [] 1 0) d' = Some (d', [send_payload_response ?c 0 value])"
    using config_report [of 1 "[]" ?c] h(1,3,5) by simp
  show ?thesis
    using get_eq values_set set_run get_run d'_def parse_daemon_response [of "?c + 1" 0] h(5,6) pair(2)
      parse_payload_response [OF h(5) _ len, of 0]
    by (intro exI [of _ "normal_layout ?c [] 1 0"] exI [of _ d'] exI [of _ "send_normal_response (?c + 1) 0"]
        exI [of _ "send_payload_response ?c 0 value"] exI [of _ ?c] exI [of _ ?es] conjI) simp_all
qed

theorem config_set_then_get_witness:
  "\<exists>d' ok reply set_report get_report.
     build_config_set_request (Key SENSOR_FPS) (Bytes (ascii ''15'')) FINAL_PAYLOAD = Inr set_report \<and>
     build_config_get_request (Key SENSOR_FPS) = Inr get_report \<and>
     daemon_step simple_platform (\<lambda>_ d. (False, d)) set_report
       (idle_daemon\<lparr>files := [CONFIG_PATH \<mapsto> config_lines [(ascii ''sensor_fps'', 1, ascii '' 30'')]]\<rparr>) = Some (d', [ok]) \<and>
     daemon_step simple_platform (\<lambda>_ d. (False, d)) get_report d' = Some (d', [reply]) \<and>
     (\<exists>f. parse_normal_report reply = Inr f \<and> nf_payload f = ascii ''15'')"
proof -
  let ?es = "[(ascii ''sensor_fps'', 1, ascii '' 30'')]"
  let ?d = "idle_daemon\<lparr>files := [CONFIG_PATH \<mapsto> config_lines ?es]\<rparr>"
  obtain pair where pair: "configuration_pair (Key SENSOR_FPS) = Inr pair"
    using configuration_pairs [of SENSOR_FPS] by blast
  have "build_config_set_request (Key SENSOR_FPS) (Bytes (ascii ''15'')) FINAL_PAYLOAD =
      Inr (normal_layout (wire_value (cp_set pair)) (ascii ''15'') 2 0)" (is "_ = Inr ?r")
    using host_keys_known(6) [OF pair]
    by (simp add: build_config_set_request_def pair build_normal_report_eq constants ascii_def)
  moreover have "can_open simple_platform CONFIG_PATH"
    by (simp add: simple_platform_def CONFIG_PATH_def safe_upload_path_def safe_path_byte_def ascii_def)
  moreover have "list_all plain_entry ?es" "list_all plain_entry (set_entry (ascii ''sensor_fps'') (ascii ''15'') ?es)"
    by (simp_all add: plain_entry_def plain_value_def config_line_def c_space_def ascii_def)
  moreover have "length (config_lines ?es) \<le> 2048" by (simp add: config_lines_def config_line_def ascii_def)
  ultimately show ?thesis
    using config_set_then_get [of simple_platform ?d ?es 0 SENSOR_FPS "ascii ''15''" "ascii '' 30''" FINAL_PAYLOAD ?r]
    by (fastforce simp: entry_value_def)
qed

end
