(* ===== verification/Jffs2.thy ===== *)
theory Jffs2
  imports Commands "HOL-Library.List_Lexorder" "HOL-Library.Char_ord" "HOL-Library.AList"
begin

text \<open>
  The JFFS2 part of \<open>cc2camera/image.py\<close>: the scan of the config partition for CRC-valid nodes, the
  reconstruction of its live files, the recovery of the serial number, and the two builders of a
  fresh partition.

  \<open>zlib.decompressobj\<close> is a parameter \<open>inflate\<close>: given the compressed bytes and the output limit it
  returns the output and whether the stream ended exactly there (\<open>eof\<close> with neither an unconsumed
  tail nor unused data), or \<open>None\<close> for \<open>zlib.error\<close>. A Python dict is an association list in
  insertion order.
\<close>

section \<open>Constants\<close>

definition CONFIG_START :: nat where [constants]: "CONFIG_START = 0x7E0000"
definition CONFIG_END :: nat where [constants]: "CONFIG_END = 0x800000"
definition CONFIG_SIZE :: nat where [constants]: "CONFIG_SIZE = CONFIG_END - CONFIG_START"
definition JFFS2_MAGIC :: nat where [constants]: "JFFS2_MAGIC = 0x1985"
definition JFFS2_NODE_ACCURATE :: nat where [constants]: "JFFS2_NODE_ACCURATE = 0x2000"
definition JFFS2_DIRENT :: nat where [constants]: "JFFS2_DIRENT = 1"
definition JFFS2_INODE :: nat where [constants]: "JFFS2_INODE = 2"
definition JFFS2_CLEANMARKER :: nat where [constants]: "JFFS2_CLEANMARKER = 3"

definition SERIAL_NAME :: bytes where
  "SERIAL_NAME = ascii ''serial.cfg''"

definition KNOWN_CONFIG_NAMES :: "bytes list" where
  "KNOWN_CONFIG_NAMES = map ascii [''serial.cfg'', ''uvc.attr'', ''uvc2.attr'', ''uvc.config'',
     ''uvc_dualstream.config'', ''dev_config.cfg'']"

text \<open>\<open>SERIAL_PATTERN.fullmatch\<close>: \<open>serial=12PSSSS\<close>, a digit 3 to 5, 28 capitals or digits, newline.\<close>

definition upper_alnum :: "byte \<Rightarrow> bool" where
  "upper_alnum b \<longleftrightarrow> (0x41 \<le> b \<and> b \<le> 0x5A) \<or> (0x30 \<le> b \<and> b \<le> 0x39)"

definition serial_payload_is_valid :: "bytes \<Rightarrow> bool" where
  "serial_payload_is_valid payload \<longleftrightarrow>
     length payload = 44 \<and> take 14 payload = ascii ''serial=12PSSSS'' \<and>
     payload ! 14 \<in> {0x33, 0x34, 0x35} \<and> list_all upper_alnum (pslice payload 15 43) \<and>
     payload ! 43 = 10"

text \<open>Group 1 of the match.\<close>

definition serial_value_of :: "bytes \<Rightarrow> bytes" where
  "serial_value_of payload = pslice payload 7 43"

definition align4 :: "nat \<Rightarrow> nat" where
  "align4 value = (value + 3) div 4 * 4"

section \<open>Nodes\<close>

record inode_fields =
  i_inode :: nat
  i_version :: nat
  i_mode :: nat
  i_uid :: nat
  i_gid :: nat
  i_file_size :: nat
  i_atime :: nat
  i_mtime :: nat
  i_ctime :: nat
  i_file_offset :: nat
  i_compressed_size :: nat
  i_decompressed_size :: nat
  i_compression :: nat
  i_user_compression :: nat
  i_flags :: nat
  i_payload :: bytes

record dirent_fields =
  d_parent_inode :: nat
  d_version :: nat
  d_inode :: nat
  d_mctime :: nat
  d_dtype :: nat
  d_name :: bytes

datatype node_kind =
    Dirent dirent_fields
  | Inode inode_fields
  | Cleanmarker
  | Other nat              \<comment> \<open>the base type\<close>

record node =
  n_offset :: nat
  n_node_type :: nat
  n_total_length :: nat
  n_current :: bool
  n_obsolete :: bool
  n_kind :: node_kind

definition restored_accurate_slice :: "bytes \<Rightarrow> nat \<Rightarrow> bool \<Rightarrow> bytes" where
  "restored_accurate_slice raw node_type obsolete =
     (if \<not> obsolete then raw
      else put raw 2 (le_bytes 2 (node_type OR JFFS2_NODE_ACCURATE)))"

text \<open>The header checks at one offset: the header's CRC matches as it is, or with the accurate bit set.\<close>

definition header_state :: "bytes \<Rightarrow> nat \<Rightarrow> bool \<times> bool" where
  "header_state data offset =
     (let node_type = le_at data (offset + 2) 2;
          stored_header_crc = le_at data (offset + 8) 4;
          header = pslice data offset (offset + 8);
          current = (unat (jffs2_crc header) = stored_header_crc);
          obsolete = (\<not> current \<and> node_type AND JFFS2_NODE_ACCURATE = 0 \<and>
            unat (jffs2_crc (put header 2 (le_bytes 2 (node_type OR JFFS2_NODE_ACCURATE)))) = stored_header_crc)
      in (current, obsolete))"

definition parse_dirent :: "bytes \<Rightarrow> nat \<Rightarrow> bool \<Rightarrow> node_kind option" where
  "parse_dirent data offset obsolete =
     (let node_type = le_at data (offset + 2) 2;
          name_size = unat (data ! (offset + 28));
          name = pslice data (offset + 40) (offset + 40 + name_size);
          node_crc_bytes = restored_accurate_slice (pslice data offset (offset + 32)) node_type obsolete
      in if unat (jffs2_crc node_crc_bytes) \<noteq> le_at data (offset + 32) 4 then None
         else if unat (jffs2_crc name) \<noteq> le_at data (offset + 36) 4 then None
         else Some (Dirent \<lparr>d_parent_inode = le_at data (offset + 12) 4, d_version = le_at data (offset + 16) 4,
           d_inode = le_at data (offset + 20) 4, d_mctime = le_at data (offset + 24) 4,
           d_dtype = unat (data ! (offset + 29)), d_name = name\<rparr>))"

definition parse_inode :: "bytes \<Rightarrow> nat \<Rightarrow> bool \<Rightarrow> node_kind option" where
  "parse_inode data offset obsolete =
     (let node_type = le_at data (offset + 2) 2;
          field = (\<lambda>k. le_at data (offset + k) 4);
          compressed_size = field 48;
          payload = pslice data (offset + 68) (offset + 68 + compressed_size);
          node_crc_bytes = restored_accurate_slice (pslice data offset (offset + 60)) node_type obsolete
      in if unat (jffs2_crc node_crc_bytes) \<noteq> field 64 then None
         else if unat (jffs2_crc payload) \<noteq> field 60 then None
         else Some (Inode \<lparr>i_inode = field 12, i_version = field 16, i_mode = field 20,
           i_uid = le_at data (offset + 24) 2, i_gid = le_at data (offset + 26) 2,
           i_file_size = field 28, i_atime = field 32, i_mtime = field 36, i_ctime = field 40,
           i_file_offset = field 44, i_compressed_size = compressed_size, i_decompressed_size = field 52,
           i_compression = unat (data ! (offset + 56)), i_user_compression = unat (data ! (offset + 57)),
           i_flags = le_at data (offset + 58) 2, i_payload = payload\<rparr>))"

text \<open>One iteration of the scan.\<close>

definition parse_node :: "bytes \<Rightarrow> nat \<Rightarrow> node option" where
  "parse_node data offset =
     (if le_at data offset 2 \<noteq> JFFS2_MAGIC then None
      else
        let node_type = le_at data (offset + 2) 2;
            total_length = le_at data (offset + 4) 4
        in if total_length < 12 \<or> offset + total_length > length data then None
           else case header_state data offset of (current, obsolete) \<Rightarrow>
             if \<not> current \<and> \<not> obsolete then None
             else
               let base_type = node_type AND 0x0FFF;
                   kind = (if base_type = JFFS2_DIRENT \<and> total_length \<ge> 40 then parse_dirent data offset obsolete
                           else if base_type = JFFS2_INODE \<and> total_length \<ge> 68 then parse_inode data offset obsolete
                           else if base_type = JFFS2_CLEANMARKER then Some Cleanmarker
                           else Some (Other base_type))
               in map_option (\<lambda>k. \<lparr>n_offset = offset, n_node_type = node_type, n_total_length = total_length,
                     n_current = current, n_obsolete = obsolete, n_kind = k\<rparr>) kind)"

definition parse_jffs2 :: "bytes \<Rightarrow> node list" where
  "parse_jffs2 data = List.map_filter (parse_node data) (range_step (length data - 11) 4)"

section \<open>Files\<close>

record config_file =
  cf_name :: bytes
  cf_data :: bytes
  cf_inode :: nat
  cf_mode :: nat
  cf_uid :: nat
  cf_gid :: nat
  cf_atime :: nat
  cf_mtime :: nat
  cf_ctime :: nat
  cf_flags :: nat
  cf_dirent_mctime :: nat
  cf_dtype :: nat

definition decode_jffs2_fragment ::
    "(bytes \<Rightarrow> nat \<Rightarrow> (bytes \<times> bool) option) \<Rightarrow> inode_fields \<Rightarrow> bytes res" where
  "decode_jffs2_fragment inflate f =
     (let sized = (\<lambda>data. if length data \<noteq> i_decompressed_size f
                    then Inl (ValidationError ''decompressed-size mismatch'') else Inr data)
      in if i_decompressed_size f > CONFIG_SIZE
         then Inl (ValidationError ''fragment larger than the config partition'')
         else if i_compression f = 0 then sized (i_payload f)
         else if i_compression f = 1
         then (if i_compressed_size f \<noteq> 0 then Inl (ValidationError ''malformed zero compression'')
               else sized (replicate (i_decompressed_size f) 0))
         else if i_compression f = 6
         then (case inflate (i_payload f) (i_decompressed_size f + 1) of
                 None \<Rightarrow> Inl (ValidationError ''invalid JFFS2 zlib data'')
               | Some (data, ended) \<Rightarrow>
                   if length data \<noteq> i_decompressed_size f
                   then Inl (ValidationError ''decompressed-size mismatch'')
                   else if \<not> ended then Inl (ValidationError ''invalid JFFS2 zlib data'')
                   else sized data)
         else Inl (ValidationError ''unsupported JFFS2 compression''))"

definition inode_of :: "node \<Rightarrow> inode_fields option" where
  "inode_of n = (case n_kind n of Inode f \<Rightarrow> Some f | _ \<Rightarrow> None)"

definition dirent_of :: "node \<Rightarrow> dirent_fields option" where
  "dirent_of n = (case n_kind n of Dirent f \<Rightarrow> Some f | _ \<Rightarrow> None)"

text \<open>The current inode nodes of one inode number, in the order of the scan.\<close>

definition current_fragments :: "node list \<Rightarrow> nat \<Rightarrow> inode_fields list" where
  "current_fragments nodes inode_number =
     filter (\<lambda>f. i_inode f = inode_number) (List.map_filter inode_of (filter n_current nodes))"

text \<open>\<open>data[start:end] = decoded[:end - start]\<close> for the part of a fragment inside the file.\<close>

fun apply_fragments ::
    "(bytes \<Rightarrow> nat \<Rightarrow> (bytes \<times> bool) option) \<Rightarrow> nat \<Rightarrow> inode_fields list \<Rightarrow> bytes \<Rightarrow> bytes res" where
  "apply_fragments inflate file_size [] data = Inr data"
| "apply_fragments inflate file_size (f # fs) data =
     res_bind (decode_jffs2_fragment inflate f) (\<lambda>decoded.
     let start = i_file_offset f
     in if start \<ge> file_size \<or> decoded = [] then apply_fragments inflate file_size fs data
        else apply_fragments inflate file_size fs
               (put data start (take (min (start + length decoded) file_size - start) decoded)))"

text \<open>The body of the loop over the live root entries.\<close>

definition reconstruct_file ::
    "(bytes \<Rightarrow> nat \<Rightarrow> (bytes \<times> bool) option) \<Rightarrow> node list \<Rightarrow> bytes \<Rightarrow> dirent_fields \<Rightarrow> config_file res" where
  "reconstruct_file inflate nodes name dirent =
     (let fragments = sort_key i_version (current_fragments nodes (d_inode dirent))
      in if fragments = [] then Inl (ValidationError ''no CRC-valid current inode'')
         else
           let newest = filter (\<lambda>f. i_version f = i_version (last fragments)) fragments
           in if length newest \<noteq> 1 then Inl (ValidationError ''ambiguous newest metadata'')
              else
                let metadata = hd newest
                in if i_mode metadata AND 0xF000 \<noteq> 0x8000
                   then Inl (ValidationError ''supports only regular files'')
                   else if i_file_size metadata > CONFIG_SIZE
                   then Inl (ValidationError ''impossible size'')
                   else res_bind (apply_fragments inflate (i_file_size metadata) fragments
                          (replicate (i_file_size metadata) 0)) (\<lambda>data.
                        Inr \<lparr>cf_name = name, cf_data = data, cf_inode = d_inode dirent,
                          cf_mode = i_mode metadata, cf_uid = i_uid metadata, cf_gid = i_gid metadata,
                          cf_atime = i_atime metadata, cf_mtime = i_mtime metadata,
                          cf_ctime = i_ctime metadata, cf_flags = i_flags metadata,
                          cf_dirent_mctime = d_mctime dirent, cf_dtype = d_dtype dirent\<rparr>))"

fun reconstruct_files ::
    "(bytes \<Rightarrow> nat \<Rightarrow> (bytes \<times> bool) option) \<Rightarrow> node list \<Rightarrow> (bytes \<times> dirent_fields) list \<Rightarrow> nat list \<Rightarrow>
     config_file list res" where
  "reconstruct_files inflate nodes [] seen = Inr []"
| "reconstruct_files inflate nodes ((name, dirent) # rest) seen =
     (if name = [] \<or> length name > 255 \<or> 0x2F \<in> set name \<or> 0 \<in> set name \<or> d_dtype dirent \<noteq> 8
      then Inl (ValidationError ''cannot safely recreate config entry'')
      else if d_inode dirent \<le> 1 then Inl (ValidationError ''invalid inode number'')
      else if d_inode dirent \<in> set seen
      then Inl (ValidationError ''multiple live names for one inode'')
      else res_bind (reconstruct_file inflate nodes name dirent) (\<lambda>f.
           res_bind (reconstruct_files inflate nodes rest (d_inode dirent # seen)) (\<lambda>fs. Inr (f # fs))))"

type_synonym dirent_map = "((nat \<times> bytes) \<times> dirent_fields) list"

definition live_root_entries :: "dirent_map \<Rightarrow> (bytes \<times> dirent_fields) list" where
  "live_root_entries current_dirents =
     map (\<lambda>((parent, name), d). (name, d))
       (filter (\<lambda>((parent, name), d). parent = 1 \<and> d_inode d \<noteq> 0) current_dirents)"

definition reconstruct_live_config_files ::
    "(bytes \<Rightarrow> nat \<Rightarrow> (bytes \<times> bool) option) \<Rightarrow> node list \<Rightarrow> dirent_map \<Rightarrow> config_file list res" where
  "reconstruct_live_config_files inflate nodes current_dirents =
     (if \<exists>((parent, name), d) \<in> set current_dirents. parent \<noteq> 1 \<and> d_inode d \<noteq> 0
      then Inl (ValidationError ''Preserve-data mode does not support live config subdirectories'')
      else reconstruct_files inflate nodes (sort_key fst (live_root_entries current_dirents)) [])"

section \<open>The serial number and the summary\<close>

fun collect_dirents :: "dirent_fields list \<Rightarrow> dirent_map \<Rightarrow> dirent_map res" where
  "collect_dirents [] m = Inr m"
| "collect_dirents (d # ds) m =
     (let key = (d_parent_inode d, d_name d)
      in case map_of m key of
           None \<Rightarrow> collect_dirents ds (AList.update key d m)
         | Some previous \<Rightarrow>
             if d_version d = d_version previous
             then Inl (ValidationError ''Config has ambiguous current directory entries'')
             else if d_version d > d_version previous then collect_dirents ds (AList.update key d m)
             else collect_dirents ds m)"

text \<open>The shape every accepted serial inode has: one uncompressed fragment that is the whole file.\<close>

definition serial_inode_shape :: "inode_fields \<Rightarrow> bool" where
  "serial_inode_shape f \<longleftrightarrow> i_file_offset f = 0 \<and> i_compression f = 0 \<and>
     i_compressed_size f = i_decompressed_size f \<and> i_file_size f = i_decompressed_size f \<and>
     serial_payload_is_valid (i_payload f)"

text \<open>The payload of the newest matching inode of the live entry, if it has one.\<close>

definition live_serial :: "node list \<Rightarrow> (bytes \<times> dirent_fields) list \<Rightarrow> bytes option res" where
  "live_serial nodes live_entries =
     (case map_of live_entries SERIAL_NAME of
        None \<Rightarrow> Inr None
      | Some dirent \<Rightarrow>
          let candidates = filter serial_inode_shape (current_fragments nodes (d_inode dirent))
          in if candidates = [] then Inr None
             else
               let newest = filter (\<lambda>f. i_version f = Max (set (map i_version candidates))) candidates
               in if length newest \<noteq> 1
                  then Inl (ValidationError ''Multiple equally current serial.cfg inode candidates were found'')
                  else Inr (Some (i_payload (hd newest))))"

text \<open>All distinct historical serials, obsolete nodes included.\<close>

definition historical_serials :: "node list \<Rightarrow> bytes list" where
  "historical_serials nodes =
     remdups (map i_payload (filter serial_inode_shape (List.map_filter inode_of nodes)))"

datatype serial_origin = Live_current | Unique_historical_fallback

definition recover_serial ::
    "node list \<Rightarrow> (bytes \<times> dirent_fields) list \<Rightarrow> (bytes \<times> serial_origin) res" where
  "recover_serial nodes live_entries =
     res_bind (live_serial nodes live_entries) (\<lambda>found.
     case found of
       Some payload \<Rightarrow> Inr (payload, Live_current)
     | None \<Rightarrow>
         (case historical_serials nodes of
            [payload] \<Rightarrow> Inr (payload, Unique_historical_fallback)
          | _ \<Rightarrow> Inl (ValidationError
              ''Could not recover exactly one unambiguous CRC-valid serial.cfg payload'')))"

text \<open>\<open>next(inode for inode in range(2, 0xFFFFFFFF) if inode not in used_inodes)\<close>: one of the first
  \<open>length used + 1\<close> candidates is free.\<close>

definition free_inode :: "nat list \<Rightarrow> nat" where
  "free_inode used = the (find (\<lambda>i. i \<notin> set used) [2..<length used + 3])"

definition serial_file :: "bytes \<Rightarrow> nat \<Rightarrow> config_file" where
  "serial_file payload inode = \<lparr>cf_name = SERIAL_NAME, cf_data = payload, cf_inode = inode, cf_mode = 0x81A4,
     cf_uid = 0, cf_gid = 0, cf_atime = 18, cf_mtime = 18, cf_ctime = 18, cf_flags = 0,
     cf_dirent_mctime = 1, cf_dtype = 8\<rparr>"

definition add_serial_file :: "bytes \<Rightarrow> config_file list \<Rightarrow> config_file list res" where
  "add_serial_file payload files =
     (case find (\<lambda>f. cf_name f = SERIAL_NAME) files of
        None \<Rightarrow> Inr (sort_key cf_name (files @ [serial_file payload (free_inode (map cf_inode files))]))
      | Some f \<Rightarrow>
          if cf_data f \<noteq> payload
          then Inl (ValidationError ''Live serial.cfg content differs from the recovered serial'')
          else Inr files)"

definition kind_name :: "node_kind \<Rightarrow> string" where
  "kind_name k = (case k of Dirent _ \<Rightarrow> ''dirent'' | Inode _ \<Rightarrow> ''inode'' | Cleanmarker \<Rightarrow> ''cleanmarker''
     | Other t \<Rightarrow> ''other_0x'' @ hex_padded 3 t)"

text \<open>\<open>name.decode("ascii", errors="replace")\<close> as code points.\<close>

definition decode_replace :: "bytes \<Rightarrow> nat list" where
  "decode_replace name = map (\<lambda>b. if b < 0x80 then unat b else 0xFFFD) name"

record config_info =
  ci_nodes :: "node list"
  ci_node_count :: nat
  ci_current_node_count :: nat
  ci_obsolete_node_count :: nat
  ci_kind_counts :: "(string \<times> nat) list"
  ci_all_names :: "nat list list"
  ci_live_names :: "nat list list"
  ci_serial_payload :: bytes
  ci_serial_value :: bytes
  ci_serial_source :: serial_origin
  ci_unexpected_names :: "nat list list"
  ci_live_config_files :: "config_file list option"
  ci_non_ff_bytes :: nat
  ci_ff_bytes :: nat

definition extract_serial_and_config_info ::
    "(bytes \<Rightarrow> nat \<Rightarrow> (bytes \<times> bool) option) \<Rightarrow> bytes \<Rightarrow> bool \<Rightarrow> bool \<Rightarrow> config_info res" where
  "extract_serial_and_config_info inflate config allow_unknown_names preserve_live_files =
     (let nodes = parse_jffs2 config
      in if nodes = [] then Inl (ValidationError ''No CRC-valid JFFS2 nodes were found in config'')
         else
           let valid_dirents = List.map_filter dirent_of nodes;
               all_names = remdups (map d_name valid_dirents);
               unexpected_names = filter (\<lambda>n. n \<notin> set KNOWN_CONFIG_NAMES) all_names
           in if unexpected_names \<noteq> [] \<and> \<not> allow_unknown_names
              then Inl (ValidationError ''Config contains unexpected CRC-valid names'')
              else res_bind (collect_dirents (List.map_filter dirent_of (filter n_current nodes)) []) (\<lambda>current_dirents.
                let live_entries = live_root_entries current_dirents
                in res_bind (recover_serial nodes live_entries) (\<lambda>(serial_payload, serial_source).
                   res_bind (if preserve_live_files
                             then res_bind (reconstruct_live_config_files inflate nodes current_dirents) (\<lambda>files.
                                  res_bind (add_serial_file serial_payload files) (\<lambda>files. Inr (Some files)))
                             else Inr None) (\<lambda>live_config_files.
                   let kinds = map (kind_name \<circ> n_kind) nodes
                   in Inr \<lparr>ci_nodes = nodes, ci_node_count = length nodes,
                        ci_current_node_count = length (filter n_current nodes),
                        ci_obsolete_node_count = length (filter n_obsolete nodes),
                        ci_kind_counts = map (\<lambda>k. (k, count_list kinds k)) (sort (remdups kinds)),
                        ci_all_names = sort (map decode_replace all_names),
                        ci_live_names = sort (map (decode_replace \<circ> fst) live_entries),
                        ci_serial_payload = serial_payload,
                        ci_serial_value = serial_value_of serial_payload,
                        ci_serial_source = serial_source,
                        ci_unexpected_names = sort (map decode_replace unexpected_names),
                        ci_live_config_files = live_config_files,
                        ci_non_ff_bytes = length (filter (\<lambda>b. b \<noteq> 0xFF) config),
                        ci_ff_bytes = count_list config 0xFF\<rparr>))))"

section \<open>Building a fresh partition\<close>

text \<open>\<open>struct.pack\<close> of several fields of given widths; a value that does not fit raises.\<close>

definition pack_fields :: "(nat \<times> nat) list \<Rightarrow> bytes res" where
  "pack_fields vals = res_bind (res_map (\<lambda>(n, v). struct_pack n (int v)) vals) (\<lambda>parts. Inr (concat parts))"

definition node_header :: "nat \<Rightarrow> nat \<Rightarrow> bytes res" where
  "node_header node_type len =
     res_bind (pack_fields [(2, JFFS2_MAGIC), (2, node_type), (4, len)]) (\<lambda>header.
     Inr (header @ le_bytes 4 (unat (jffs2_crc header))))"

definition dirent_node :: "bytes \<Rightarrow> (nat \<times> nat) list \<Rightarrow> bytes res" where
  "dirent_node name vals =
     res_bind (node_header 0xE001 (40 + length name)) (\<lambda>header.
     res_bind (pack_fields vals) (\<lambda>rest.
     let prefix = header @ rest
     in Inr (prefix @ le_bytes 4 (unat (jffs2_crc prefix)) @ le_bytes 4 (unat (jffs2_crc name)) @ name)))"

definition inode_node :: "bytes \<Rightarrow> (nat \<times> nat) list \<Rightarrow> bytes res" where
  "inode_node payload vals =
     res_bind (node_header 0xE002 (68 + length payload)) (\<lambda>header.
     res_bind (pack_fields vals) (\<lambda>rest.
     let prefix = header @ rest
     in Inr (prefix @ le_bytes 4 (unat (jffs2_crc payload)) @ le_bytes 4 (unat (jffs2_crc prefix)) @ payload)))"

definition minimal_dirent_fields :: "(nat \<times> nat) list" where
  "minimal_dirent_fields =
     [(4, 1), (4, 123), (4, 7), (4, 1), (1, length SERIAL_NAME), (1, 8), (2, 0)]"

definition minimal_inode_fields :: "nat \<Rightarrow> (nat \<times> nat) list" where
  "minimal_inode_fields len =
     [(4, 7), (4, 2), (4, 0x81A4), (2, 0), (2, 0), (4, len), (4, 18), (4, 18), (4, 18), (4, 0),
      (4, len), (4, len), (1, 0), (1, 0), (2, 0)]"

definition build_minimal_config :: "bytes \<Rightarrow> bytes res" where
  "build_minimal_config serial_payload =
     (if \<not> serial_payload_is_valid serial_payload
      then Inl (ValidationError ''Refusing to build config from an invalid serial payload'')
      else
        let output = replicate CONFIG_SIZE 0xFF
        in res_bind (node_header 0x2003 12) (\<lambda>clean.
           let output = put output 0 clean;
               dirent_offset = 12
           in res_bind (dirent_node SERIAL_NAME minimal_dirent_fields) (\<lambda>dirent.
              let output = put output dirent_offset dirent;
                  inode_offset = align4 (dirent_offset + 40 + length SERIAL_NAME)
              in res_bind (inode_node serial_payload (minimal_inode_fields (length serial_payload))) (\<lambda>inode.
                 if inode_offset + length inode > 0x4000
                 then Inl (ValidationError ''Generated serial.cfg does not fit the first eraseblock'')
                 else
                   let built = put output inode_offset inode
                   in res_bind (extract_serial_and_config_info (\<lambda>_ _. None) built False False) (\<lambda>parsed.
                      if ci_serial_payload parsed \<noteq> serial_payload
                      then Inl (ValidationError ''Internal JFFS2 round-trip validation failed'')
                      else if ci_current_node_count parsed \<noteq> 3
                      then Inl (ValidationError ''Internal JFFS2 validation expected exactly three current nodes'')
                      else Inr built)))))"

text \<open>The layout loop of \<open>build_preserved_config\<close>.\<close>

definition place :: "bytes \<Rightarrow> nat \<Rightarrow> bytes \<Rightarrow> (bytes \<times> nat) res" where
  "place output cursor node =
     (if cursor + length node > 0x4000
      then Inl (ValidationError ''Preserved config files do not fit the supported compact first-eraseblock layout'')
      else Inr (put output cursor node, align4 (cursor + length node)))"

definition file_dirent :: "config_file \<Rightarrow> bytes res" where
  "file_dirent f = dirent_node (cf_name f)
     [(4, 1), (4, 1), (4, cf_inode f), (4, cf_dirent_mctime f), (1, length (cf_name f)), (1, cf_dtype f), (2, 0)]"

definition file_inode :: "config_file \<Rightarrow> bytes res" where
  "file_inode f = inode_node (cf_data f)
     [(4, cf_inode f), (4, 1), (4, cf_mode f), (2, cf_uid f), (2, cf_gid f), (4, length (cf_data f)),
      (4, cf_atime f), (4, cf_mtime f), (4, cf_ctime f), (4, 0), (4, length (cf_data f)),
      (4, length (cf_data f)), (1, 0), (1, 0), (2, cf_flags f)]"

fun place_files :: "config_file list \<Rightarrow> bytes \<Rightarrow> nat \<Rightarrow> bytes res" where
  "place_files [] output cursor = Inr output"
| "place_files (f # fs) output cursor =
     res_bind (file_dirent f) (\<lambda>dirent.
     res_bind (place output cursor dirent) (\<lambda>(output, cursor).
     res_bind (file_inode f) (\<lambda>inode.
     res_bind (place output cursor inode) (\<lambda>(output, cursor).
     place_files fs output cursor))))"

text \<open>The comparison of two dictionaries keyed by distinct names.\<close>

definition same_files :: "config_file list \<Rightarrow> config_file list \<Rightarrow> bool" where
  "same_files xs ys \<longleftrightarrow> set (map cf_name xs) = set (map cf_name ys) \<and>
     (\<forall>x \<in> set xs. \<forall>y \<in> set ys. cf_name x = cf_name y \<longrightarrow> x = y)"

definition build_preserved_config ::
    "(bytes \<Rightarrow> nat \<Rightarrow> (bytes \<times> bool) option) \<Rightarrow> config_file list \<Rightarrow> bytes res" where
  "build_preserved_config inflate files =
     (let files = sort_key cf_name files
      in if files = [] then Inl (ValidationError ''Preserve-data mode found no live config files'')
         else if \<not> distinct (map cf_name files)
         then Inl (ValidationError ''Preserve-data mode found duplicate file names'')
         else
           let serials = map cf_data (filter (\<lambda>f. cf_name f = SERIAL_NAME) files)
           in if length serials \<noteq> 1 \<or> \<not> serial_payload_is_valid (hd serials)
              then Inl (ValidationError ''Preserve-data mode requires exactly one valid serial.cfg'')
              else res_bind (node_header 0x2003 12) (\<lambda>clean.
                   res_bind (place_files files (put (replicate CONFIG_SIZE 0xFF) 0 clean) 12) (\<lambda>built.
                   res_bind (extract_serial_and_config_info inflate built True True) (\<lambda>parsed.
                   case ci_live_config_files parsed of
                     None \<Rightarrow> Inl (ValidationError ''assert rebuilt_files is not None'')
                   | Some rebuilt_files \<Rightarrow>
                       if \<not> same_files rebuilt_files files
                       then Inl (ValidationError ''Internal preserve-files JFFS2 round-trip validation failed'')
                       else if ci_obsolete_node_count parsed \<noteq> 0
                       then Inl (ValidationError ''Internal preserve-files rebuild unexpectedly contains obsolete nodes'')
                       else Inr built))))"

section \<open>What the builders write parses back\<close>

lemma unat_word32_bound: "unat (w :: 32 word) < 4294967296"
  using unsigned_less [of w] by simp

lemma node_header_eq:
  assumes "t < 65536" "n < 4294967296"
  shows "node_header t n = Inr (le_bytes 2 0x1985 @ le_bytes 2 t @ le_bytes 4 n @
    le_bytes 4 (unat (jffs2_crc (le_bytes 2 0x1985 @ le_bytes 2 t @ le_bytes 4 n))))"
  using assms by (simp add: node_header_def pack_fields_def constants)

lemma dirent_node_Inr:
  assumes "dirent_node name [(4, p), (4, v), (4, i), (4, m), (1, length name), (1, t), (2, 0)] = Inr nd"
  shows "\<exists>header prefix. header = le_bytes 2 0x1985 @ le_bytes 2 0xE001 @ le_bytes 4 (40 + length name) \<and>
    prefix = header @ le_bytes 4 (unat (jffs2_crc header)) @ le_bytes 4 p @ le_bytes 4 v @ le_bytes 4 i @
      le_bytes 4 m @ le_bytes 1 (length name) @ le_bytes 1 t @ le_bytes 2 0 \<and>
    nd = prefix @ le_bytes 4 (unat (jffs2_crc prefix)) @ le_bytes 4 (unat (jffs2_crc name)) @ name \<and>
    p < 4294967296 \<and> v < 4294967296 \<and> i < 4294967296 \<and> m < 4294967296 \<and> length name < 256 \<and> t < 256"
proof -
  have b: "p < 4294967296" "v < 4294967296" "i < 4294967296" "m < 4294967296" "length name < 256" "t < 256"
    using assms by (auto simp: dirent_node_def pack_fields_def struct_pack_def split: if_splits)
  then have "node_header 0xE001 (40 + length name) = Inr (le_bytes 2 0x1985 @ le_bytes 2 0xE001 @ le_bytes 4 (40 + length name) @
    le_bytes 4 (unat (jffs2_crc (le_bytes 2 0x1985 @ le_bytes 2 0xE001 @ le_bytes 4 (40 + length name)))))"
    by (intro node_header_eq) simp_all
  with assms b show ?thesis
    by (auto simp: dirent_node_def pack_fields_def Let_def)
qed

lemma pslice_shift: "pslice (pre @ d) (length pre + a) (length pre + b) = pslice d a b"
  by (simp add: pslice_def)

lemma le_at_shift: "le_at (pre @ d) (length pre + k) n = le_at d k n"
  using pslice_shift [of pre d k "k + n"] by (simp add: le_at_def add.assoc)

lemmas shifts = pslice_shift le_at_shift nth_append_length_plus add.assoc

text \<open>A node does not depend on what lies before it, except for its offset.\<close>

lemma parse_kind_shift:
  "parse_dirent (pre @ d) (length pre + off) ob = parse_dirent d off ob"
  "parse_inode (pre @ d) (length pre + off) ob = parse_inode d off ob"
  "header_state (pre @ d) (length pre + off) = header_state d off"
  unfolding parse_dirent_def parse_inode_def header_state_def Let_def by (simp_all only: shifts)

lemma parse_node_shift:
  "parse_node (pre @ d) (length pre + off) =
    map_option (\<lambda>n. n\<lparr>n_offset := length pre + off\<rparr>) (parse_node d off)"
proof -
  have bound: "length (pre @ d) < length pre + off + t \<longleftrightarrow> length d < off + t" for t by auto
  obtain cur ob where h: "header_state d off = (cur, ob)" by fastforce
  show ?thesis
    unfolding parse_node_def Let_def bound parse_kind_shift h prod.case unfolding add.assoc le_at_shift
    by (simp add: option.map_comp comp_def)
qed

lemma take_prefix: "n = length xs \<Longrightarrow> take n (xs @ ys) = xs"
  by simp

lemma parse_dirent_node:
  assumes "dirent_node name [(4, p), (4, v), (4, i), (4, m), (1, length name), (1, t), (2, 0)] = Inr nd"
  shows "parse_node (nd @ post) 0 = Some \<lparr>n_offset = 0, n_node_type = 0xE001, n_total_length = length nd,
      n_current = True, n_obsolete = False, n_kind = Dirent \<lparr>d_parent_inode = p, d_version = v, d_inode = i,
        d_mctime = m, d_dtype = t, d_name = name\<rparr>\<rparr>" (is ?parse)
    and "length nd = 40 + length name"
proof -
  obtain header prefix where d: "header = le_bytes 2 0x1985 @ le_bytes 2 0xE001 @ le_bytes 4 (40 + length name)"
    "prefix = header @ le_bytes 4 (unat (jffs2_crc header)) @ le_bytes 4 p @ le_bytes 4 v @ le_bytes 4 i @
      le_bytes 4 m @ le_bytes 1 (length name) @ le_bytes 1 t @ le_bytes 2 0"
    "nd = prefix @ le_bytes 4 (unat (jffs2_crc prefix)) @ le_bytes 4 (unat (jffs2_crc name)) @ name"
    and b: "p < 4294967296" "v < 4294967296" "i < 4294967296" "m < 4294967296" "length name < 256" "t < 256"
    using dirent_node_Inr [OF assms] by blast
  have l: "length header = 8" "length prefix = 32" by (simp_all add: d(1,2))
  show len: "length nd = 40 + length name" by (simp add: d(3) l)
  let ?d = "nd @ post"
  have slices: "pslice ?d 0 8 = header" "pslice ?d 0 32 = prefix" "pslice ?d 40 (40 + length name) = name"
    using l by (simp_all add: d(3) slicing) (simp add: d(2) l slicing)
  have fields: "le_at ?d 0 2 = 0x1985" "le_at ?d 2 2 = 0xE001" "le_at ?d 4 4 = length nd"
    "le_at ?d 8 4 = unat (jffs2_crc header)" "le_at ?d 12 4 = p" "le_at ?d 16 4 = v" "le_at ?d 20 4 = i"
    "le_at ?d 24 4 = m" "le_at ?d 32 4 = unat (jffs2_crc prefix)" "le_at ?d 36 4 = unat (jffs2_crc name)"
    "?d ! 28 = word_of_nat (length name)" "?d ! 29 = word_of_nat t"
    using b l len by (simp_all add: d slicing nth_append mod_less unat_word32_bound)
  have u: "unat (word_of_nat (length name) :: byte) = length name" "unat (word_of_nat t :: byte) = t"
    using b by (simp_all add: unat_of_nat)
  show ?parse
    using b len l unfolding parse_node_def header_state_def parse_dirent_def Let_def add_0 fields slices
    by (simp add: constants slices fields u restored_accurate_slice_def)
qed

text \<open>The inode fields of a builder, for the values the two builders leave variable.\<close>

definition inode_values :: "nat \<Rightarrow> nat \<Rightarrow> nat \<Rightarrow> nat \<Rightarrow> nat \<Rightarrow> nat \<Rightarrow> nat \<Rightarrow> nat \<Rightarrow> nat \<Rightarrow> nat \<Rightarrow> (nat \<times> nat) list" where
  "inode_values i v mode uid gid len atime mtime ctime flags =
     [(4, i), (4, v), (4, mode), (2, uid), (2, gid), (4, len), (4, atime), (4, mtime), (4, ctime), (4, 0),
      (4, len), (4, len), (1, 0), (1, 0), (2, flags)]"

lemma inode_node_Inr:
  assumes "inode_node payload (inode_values i v mode uid gid (length payload) atime mtime ctime flags) = Inr nd"
  shows "\<exists>header prefix. header = le_bytes 2 0x1985 @ le_bytes 2 0xE002 @ le_bytes 4 (68 + length payload) \<and>
    prefix = header @ le_bytes 4 (unat (jffs2_crc header)) @ le_bytes 4 i @ le_bytes 4 v @ le_bytes 4 mode @
      le_bytes 2 uid @ le_bytes 2 gid @ le_bytes 4 (length payload) @ le_bytes 4 atime @ le_bytes 4 mtime @
      le_bytes 4 ctime @ le_bytes 4 0 @ le_bytes 4 (length payload) @ le_bytes 4 (length payload) @
      le_bytes 1 0 @ le_bytes 1 0 @ le_bytes 2 flags \<and>
    nd = prefix @ le_bytes 4 (unat (jffs2_crc payload)) @ le_bytes 4 (unat (jffs2_crc prefix)) @ payload \<and>
    i < 4294967296 \<and> v < 4294967296 \<and> mode < 4294967296 \<and> uid < 65536 \<and> gid < 65536 \<and>
    68 + length payload < 4294967296 \<and> atime < 4294967296 \<and> mtime < 4294967296 \<and> ctime < 4294967296 \<and>
    flags < 65536"
proof -
  obtain h where h: "node_header 0xE002 (68 + length payload) = Inr h"
    using assms by (auto simp: inode_node_def)
  then have n: "68 + length payload < 4294967296"
    by (auto simp: node_header_def pack_fields_def struct_pack_def constants split: if_splits)
  have b: "i < 4294967296 \<and> v < 4294967296 \<and> mode < 4294967296 \<and> uid < 65536 \<and> gid < 65536 \<and>
      atime < 4294967296 \<and> mtime < 4294967296 \<and> ctime < 4294967296 \<and> flags < 65536"
    using assms by (auto simp: inode_node_def inode_values_def pack_fields_def struct_pack_def split: if_splits)
  have "node_header 0xE002 (68 + length payload) = Inr (le_bytes 2 0x1985 @ le_bytes 2 0xE002 @ le_bytes 4 (68 + length payload) @
    le_bytes 4 (unat (jffs2_crc (le_bytes 2 0x1985 @ le_bytes 2 0xE002 @ le_bytes 4 (68 + length payload)))))"
    using n by (intro node_header_eq) simp_all
  with assms b n show ?thesis
    by (auto simp: inode_node_def inode_values_def pack_fields_def Let_def)
qed

lemma parse_inode_node:
  assumes "inode_node payload (inode_values i v mode uid gid (length payload) atime mtime ctime flags) = Inr nd"
  shows "parse_node (nd @ post) 0 = Some \<lparr>n_offset = 0, n_node_type = 0xE002, n_total_length = length nd,
      n_current = True, n_obsolete = False, n_kind = Inode \<lparr>i_inode = i, i_version = v, i_mode = mode,
        i_uid = uid, i_gid = gid, i_file_size = length payload, i_atime = atime, i_mtime = mtime,
        i_ctime = ctime, i_file_offset = 0, i_compressed_size = length payload,
        i_decompressed_size = length payload, i_compression = 0, i_user_compression = 0, i_flags = flags,
        i_payload = payload\<rparr>\<rparr>" (is ?parse)
    and "length nd = 68 + length payload"
proof -
  obtain header prefix where d: "header = le_bytes 2 0x1985 @ le_bytes 2 0xE002 @ le_bytes 4 (68 + length payload)"
    "prefix = header @ le_bytes 4 (unat (jffs2_crc header)) @ le_bytes 4 i @ le_bytes 4 v @ le_bytes 4 mode @
      le_bytes 2 uid @ le_bytes 2 gid @ le_bytes 4 (length payload) @ le_bytes 4 atime @ le_bytes 4 mtime @
      le_bytes 4 ctime @ le_bytes 4 0 @ le_bytes 4 (length payload) @ le_bytes 4 (length payload) @
      le_bytes 1 0 @ le_bytes 1 0 @ le_bytes 2 flags"
    "nd = prefix @ le_bytes 4 (unat (jffs2_crc payload)) @ le_bytes 4 (unat (jffs2_crc prefix)) @ payload"
    and b: "i < 4294967296" "v < 4294967296" "mode < 4294967296" "uid < 65536" "gid < 65536"
    "68 + length payload < 4294967296" "atime < 4294967296" "mtime < 4294967296" "ctime < 4294967296"
    "flags < 65536"
    using inode_node_Inr [OF assms] by blast
  have l: "length header = 8" "length prefix = 60" by (simp_all add: d(1,2))
  show len: "length nd = 68 + length payload" by (simp add: d(3) l)
  let ?d = "nd @ post"
  have slices: "pslice ?d 0 8 = header" "pslice ?d 0 60 = prefix" "pslice ?d 68 (68 + length payload) = payload"
    using l by (simp_all add: d(3) slicing) (simp add: d(2) l slicing)
  have head: "le_at ?d 0 2 = 0x1985" "le_at ?d 2 2 = 0xE002" "le_at ?d 4 4 = length nd"
    "le_at ?d 8 4 = unat (jffs2_crc header)" "le_at ?d 60 4 = unat (jffs2_crc payload)"
    "le_at ?d 64 4 = unat (jffs2_crc prefix)"
    using b l len by (simp_all add: d slicing nth_append mod_less unat_word32_bound)
  have fields: "le_at ?d 12 4 = i" "le_at ?d 16 4 = v"
    "le_at ?d 20 4 = mode" "le_at ?d 24 2 = uid" "le_at ?d 26 2 = gid" "le_at ?d 28 4 = length payload"
    "le_at ?d 32 4 = atime" "le_at ?d 36 4 = mtime" "le_at ?d 40 4 = ctime" "le_at ?d 44 4 = 0"
    "le_at ?d 48 4 = length payload" "le_at ?d 52 4 = length payload" "?d ! 56 = 0" "?d ! 57 = 0"
    "le_at ?d 58 2 = flags"
    using b l by (simp_all add: d(2,3) slicing nth_append mod_less)
  show ?parse
    using b len l unfolding parse_node_def header_state_def parse_inode_def Let_def add_0 head fields slices
    by (simp add: constants slices restored_accurate_slice_def)
qed

lemma parse_clean_node:
  assumes "node_header 0x2003 12 = Inr nd"
  shows "parse_node (nd @ post) 0 = Some \<lparr>n_offset = 0, n_node_type = 0x2003, n_total_length = 12,
      n_current = True, n_obsolete = False, n_kind = Cleanmarker\<rparr>" (is ?parse)
    and "length nd = 12"
proof -
  define header where "header = le_bytes 2 0x1985 @ le_bytes 2 0x2003 @ le_bytes 4 12"
  have nd: "nd = header @ le_bytes 4 (unat (jffs2_crc header))"
    using assms node_header_eq [of "0x2003" 12] by (simp add: header_def)
  have l: "length header = 8" by (simp add: header_def)
  show len: "length nd = 12" by (simp add: nd l)
  let ?d = "nd @ post"
  have f: "pslice ?d 0 8 = header" "le_at ?d 8 4 = unat (jffs2_crc header)"
    using l by (simp_all add: nd slicing mod_less unat_word32_bound)
  have g: "le_at ?d 0 2 = 0x1985" "le_at ?d 2 2 = 0x2003" "le_at ?d 4 4 = 12"
    by (simp_all add: nd header_def slicing)
  show ?parse
    using len unfolding parse_node_def header_state_def Let_def add_0 f g by (simp add: constants)
qed

section \<open>The minimal partition, byte by byte\<close>

text \<open>The checksum of constant bytes, one bit at a time.\<close>

lemma crc_byte_unfold:
  "crc_byte crc32_bit c b = crc32_bit (crc32_bit (crc32_bit (crc32_bit (crc32_bit (crc32_bit
     (crc32_bit (crc32_bit (c XOR ucast b))))))))"
  by (simp add: crc_byte_def eval_nat_numeral)

lemmas crc_eval = jffs2_crc_fold crc_byte_unfold crc32_bit_def

definition minimal_clean :: bytes where
  "minimal_clean =
    [0x85, 0x19, 3, 0x20, 0x0C, 0, 0, 0, 0xB1, 0xB0, 0x1E, 0xE4]"

definition minimal_dirent_prefix :: bytes where
  "minimal_dirent_prefix =
    [0x85, 0x19, 1, 0xE0, 0x32, 0, 0, 0, 0xF3, 0x76, 0x37, 0x50, 1, 0, 0, 0, 0x7B, 0, 0, 0, 7, 0,
     0, 0, 1, 0, 0, 0, 0x0A, 8, 0, 0]"

definition minimal_inode_prefix :: bytes where
  "minimal_inode_prefix =
    [0x85, 0x19, 2, 0xE0, 0x70, 0, 0, 0, 0xEB, 0x94, 0xBE, 0xE7, 7, 0, 0, 0, 2, 0, 0, 0, 0xA4,
     0x81, 0, 0, 0, 0, 0, 0, 0x2C, 0, 0, 0, 0x12, 0, 0, 0, 0x12, 0, 0, 0, 0x12, 0, 0, 0, 0, 0, 0, 0,
     0x2C, 0, 0, 0, 0x2C, 0, 0, 0, 0, 0, 0, 0]"

lemma crc_clean: "jffs2_crc [0x85, 0x19, 3, 0x20, 0x0C, 0, 0, 0] = 0xe41eb0b1"
  by (simp add: crc_eval)

lemma crc_dirent_header: "jffs2_crc [0x85, 0x19, 1, 0xE0, 0x32, 0, 0, 0] = 0x503776f3"
  by (simp add: crc_eval)

lemma crc_inode_header: "jffs2_crc [0x85, 0x19, 2, 0xE0, 0x70, 0, 0, 0] = 0xe7be94eb"
  by (simp add: crc_eval)

lemma crc_dirent: "jffs2_crc minimal_dirent_prefix = 0x3946fb2f"
  unfolding minimal_dirent_prefix_def by (simp add: crc_eval)

lemma crc_name: "jffs2_crc SERIAL_NAME = 0x8eb6b6b6"
  by (simp add: SERIAL_NAME_def ascii_def crc_eval)

lemma crc_inode: "jffs2_crc minimal_inode_prefix = 0x4b6890a3"
  unfolding minimal_inode_prefix_def by (simp add: crc_eval)

lemma le_bytes_1: "le_bytes 1 v = [word_of_nat v]"
  by simp

lemma header_bytes:
  "le_bytes 2 0x1985 @ le_bytes 2 0x2003 @ le_bytes 4 12 = [0x85, 0x19, 3, 0x20, 0x0C, 0, 0, 0]"
  "le_bytes 2 0x1985 @ le_bytes 2 0xE001 @ le_bytes 4 50 = [0x85, 0x19, 1, 0xE0, 0x32, 0, 0, 0]"
  "le_bytes 2 0x1985 @ le_bytes 2 0xE002 @ le_bytes 4 112 = [0x85, 0x19, 2, 0xE0, 0x70, 0, 0, 0]"
  by (simp_all add: le_bytes_2 le_bytes_4)

lemma header_values:
  "node_header 0x2003 12 = Inr ([0x85, 0x19, 3, 0x20, 0x0C, 0, 0, 0] @ le_bytes 4 0xE41EB0B1)"
  "node_header 0xE001 50 = Inr ([0x85, 0x19, 1, 0xE0, 0x32, 0, 0, 0] @ le_bytes 4 0x503776F3)"
  "node_header 0xE002 112 = Inr ([0x85, 0x19, 2, 0xE0, 0x70, 0, 0, 0] @ le_bytes 4 0xE7BE94EB)"
proof -
  have "node_header t n = Inr ((le_bytes 2 0x1985 @ le_bytes 2 t @ le_bytes 4 n) @
      le_bytes 4 (unat (jffs2_crc (le_bytes 2 0x1985 @ le_bytes 2 t @ le_bytes 4 n))))"
    if "t < 65536" "n < 4294967296" for t n
    using node_header_eq [OF that] by simp
  from this [of "0x2003" 12] this [of "0xE001" 50] this [of "0xE002" 112]
  show "node_header 0x2003 12 = Inr ([0x85, 0x19, 3, 0x20, 0x0C, 0, 0, 0] @ le_bytes 4 0xE41EB0B1)"
    "node_header 0xE001 50 = Inr ([0x85, 0x19, 1, 0xE0, 0x32, 0, 0, 0] @ le_bytes 4 0x503776F3)"
    "node_header 0xE002 112 = Inr ([0x85, 0x19, 2, 0xE0, 0x70, 0, 0, 0] @ le_bytes 4 0xE7BE94EB)"
    unfolding header_bytes crc_clean crc_dirent_header crc_inode_header by simp_all
qed

lemma minimal_clean_node: "node_header 0x2003 12 = Inr minimal_clean"
  unfolding header_values by (simp add: le_bytes_4 minimal_clean_def)

lemma minimal_dirent_node:
  "dirent_node SERIAL_NAME minimal_dirent_fields = Inr (minimal_dirent_prefix @
    [0x2F, 0xFB, 0x46, 0x39] @ [0xB6, 0xB6, 0xB6, 0x8E] @ SERIAL_NAME)"
proof -
  have n: "length SERIAL_NAME = 10" by (simp add: SERIAL_NAME_def ascii_def)
  have "node_header 0xE001 50 = Inr (take 12 minimal_dirent_prefix)"
    unfolding header_values by (simp add: le_bytes_4 minimal_dirent_prefix_def)
  moreover have "pack_fields minimal_dirent_fields = Inr (drop 12 minimal_dirent_prefix)"
    by (simp add: pack_fields_def minimal_dirent_fields_def n le_bytes_2 le_bytes_4 minimal_dirent_prefix_def)
  ultimately show ?thesis
    by (simp add: dirent_node_def n crc_dirent crc_name le_bytes_4 Let_def)
qed

lemma minimal_inode_node:
  assumes "length payload = 44"
  shows "inode_node payload (minimal_inode_fields 44) = Inr (minimal_inode_prefix @
    le_bytes 4 (unat (jffs2_crc payload)) @ [0xA3, 0x90, 0x68, 0x4B] @ payload)"
proof -
  have "node_header 0xE002 112 = Inr (take 12 minimal_inode_prefix)"
    unfolding header_values by (simp add: le_bytes_4 minimal_inode_prefix_def)
  moreover have "pack_fields (minimal_inode_fields 44) = Inr (drop 12 minimal_inode_prefix)"
    by (simp add: pack_fields_def minimal_inode_fields_def le_bytes_2 le_bytes_4 minimal_inode_prefix_def)
  ultimately show ?thesis
    using assms by (simp add: inode_node_def crc_inode le_bytes_4 Let_def)
qed

text \<open>The bytes that \<open>build_minimal_config\<close> writes for a payload.\<close>

definition minimal_image :: "bytes \<Rightarrow> bytes" where
  "minimal_image payload =
     minimal_clean @ (minimal_dirent_prefix @ [0x2F, 0xFB, 0x46, 0x39] @ [0xB6, 0xB6, 0xB6, 0x8E] @ SERIAL_NAME)
     @ [0xFF, 0xFF] @ (minimal_inode_prefix @ le_bytes 4 (unat (jffs2_crc payload)) @ [0xA3, 0x90, 0x68, 0x4B]
     @ payload) @ replicate (CONFIG_SIZE - 176) 0xFF"

lemma minimal_lengths:
  "length minimal_clean = 12" "length minimal_dirent_prefix = 32" "length minimal_inode_prefix = 60"
  "length SERIAL_NAME = 10"
  by (simp_all add: minimal_clean_def minimal_dirent_prefix_def minimal_inode_prefix_def SERIAL_NAME_def ascii_def)

lemma minimal_built:
  assumes "length payload = 44"
  shows "put (put (put (replicate CONFIG_SIZE 0xFF) 0 minimal_clean) 12
      (minimal_dirent_prefix @ [0x2F, 0xFB, 0x46, 0x39] @ [0xB6, 0xB6, 0xB6, 0x8E] @ SERIAL_NAME)) 64
      (minimal_inode_prefix @ le_bytes 4 (unat (jffs2_crc payload)) @ [0xA3, 0x90, 0x68, 0x4B] @ payload)
    = minimal_image payload"
proof -
  let ?D = "minimal_dirent_prefix @ [0x2F, 0xFB, 0x46, 0x39] @ [0xB6, 0xB6, 0xB6, 0x8E] @ SERIAL_NAME"
  let ?I = "minimal_inode_prefix @ le_bytes 4 (unat (jffs2_crc payload)) @ [0xA3, 0x90, 0x68, 0x4B] @ payload"
  let ?F = "\<lambda>n. replicate n (0xFF :: byte)"
  have l: "length ?D = 50" "length ?I = 112" using assms by (simp_all add: minimal_lengths)
  have r: "replicate CONFIG_SIZE (0xFF :: byte) = ?F 12 @ ?F 50 @ ?F 2 @ ?F 112 @ ?F (CONFIG_SIZE - 176)"
    by (simp add: constants flip: replicate_add)
  have two: "?F 2 = [0xFF, 0xFF]" by (simp add: numeral_2_eq_2)
  have "put (?F 12 @ ?F 50 @ ?F 2 @ ?F 112 @ ?F (CONFIG_SIZE - 176)) 0 minimal_clean =
      minimal_clean @ ?F 50 @ ?F 2 @ ?F 112 @ ?F (CONFIG_SIZE - 176)"
    by (simp add: put_0 minimal_lengths)
  moreover have "put (minimal_clean @ ?F 50 @ ?F 2 @ ?F 112 @ ?F (CONFIG_SIZE - 176)) 12 ?D =
      minimal_clean @ ?D @ ?F 2 @ ?F 112 @ ?F (CONFIG_SIZE - 176)"
    using l(1) by (simp add: put_append_right put_0 minimal_lengths del: append_assoc)
  moreover have "put ((minimal_clean @ ?D @ ?F 2) @ ?F 112 @ ?F (CONFIG_SIZE - 176)) 64 ?I =
      (minimal_clean @ ?D @ ?F 2) @ ?I @ ?F (CONFIG_SIZE - 176)"
    using l by (subst put_append_right) (simp_all add: put_0 minimal_lengths del: append_assoc)
  ultimately show ?thesis
    unfolding r minimal_image_def by (simp add: two)
qed

text \<open>Where the magic number stands at a word boundary.\<close>

fun magic_words :: "bytes \<Rightarrow> bool list" where
  "magic_words (a # b # c # d # rest) = (a = 0x85 \<and> b = 0x19) # magic_words rest"
| "magic_words _ = []"

lemma length_magic_words [simp]: "length (magic_words xs) = length xs div 4"
  by (induction xs rule: magic_words.induct) auto

lemma nth_magic_words:
  "i < length xs div 4 \<Longrightarrow> magic_words xs ! i \<longleftrightarrow> xs ! (i * 4) = 0x85 \<and> xs ! (i * 4 + 1) = 0x19"
proof (induction xs arbitrary: i rule: magic_words.induct)
  case (1 a b c d rest)
  then show ?case by (cases i) auto
qed auto

lemma parse_node_magic:
  assumes "off + 2 \<le> length d" "\<not> (d ! off = 0x85 \<and> d ! (off + 1) = 0x19)"
  shows "parse_node d off = None"
proof -
  have "le_at d off 2 = unat (d ! off) + 256 * unat (d ! (off + 1))"
    unfolding le_at_def pslice_two [OF assms(1)] by simp
  moreover have "unat (d ! off) = 0x85 \<and> unat (d ! (off + 1)) = 0x19"
    if eq: "unat (d ! off) + 256 * unat (d ! (off + 1)) = 0x1985"
  proof -
    have "(unat (d ! off) + 256 * unat (d ! (off + 1))) mod 256 = unat (d ! off)"
      using unat_byte_bound [of "d ! off"] by simp
    then have "unat (d ! off) = 0x85" unfolding eq by simp
    with eq show ?thesis by simp
  qed
  moreover have "w = 0x85" if "unat w = 0x85" for w :: byte
    using that unsigned_word_eqI [of w "0x85"] by simp
  moreover have "w = 0x19" if "unat w = 0x19" for w :: byte
    using that unsigned_word_eqI [of w "0x19"] by simp
  ultimately have "le_at d off 2 \<noteq> 0x1985" using assms(2) by metis
  then show ?thesis by (simp add: parse_node_def JFFS2_MAGIC_def)
qed

lemma map_filter_cong_filter:
  assumes "\<And>x. x \<in> set xs \<Longrightarrow> \<not> P x \<Longrightarrow> f x = None"
  shows "List.map_filter f xs = List.map_filter f (filter P xs)"
  using assms by (induction xs) (auto simp: map_filter_simps split: option.split)

lemma map_filter_None: "(\<And>x. x \<in> set xs \<Longrightarrow> f x = None) \<Longrightarrow> List.map_filter f xs = []"
  by (induction xs) (auto simp: map_filter_simps)

definition minimal_start :: "bytes \<Rightarrow> bytes" where
  "minimal_start payload = minimal_clean @ (minimal_dirent_prefix @ [0x2F, 0xFB, 0x46, 0x39] @
     [0xB6, 0xB6, 0xB6, 0x8E] @ SERIAL_NAME) @ [0xFF, 0xFF] @ minimal_inode_prefix @
     le_bytes 4 (unat (jffs2_crc payload)) @ [0xA3, 0x90, 0x68, 0x4B]"

lemma minimal_image_start:
  "minimal_image payload = minimal_start payload @ payload @ replicate (CONFIG_SIZE - 176) 0xFF"
  "length (minimal_start payload) = 132"
  by (simp_all add: minimal_image_def minimal_start_def minimal_lengths)

lemma minimal_start_magic:
  "list_all (\<lambda>(i, m). i \<in> {0, 3, 16, 31} \<or> \<not> m) (enumerate 0 (magic_words (minimal_start payload)))"
  unfolding minimal_start_def minimal_clean_def minimal_dirent_prefix_def minimal_inode_prefix_def
    SERIAL_NAME_def le_bytes_4
  by (simp add: ascii_def)

lemma serial_payload_low:
  assumes "serial_payload_is_valid payload"
  shows "length payload = 44" "b \<in> set payload \<Longrightarrow> b < 0x80"
proof -
  show len: "length payload = 44" using assms by (simp add: serial_payload_is_valid_def)
  assume "b \<in> set payload"
  then obtain i where i: "i < 44" "b = payload ! i" using len by (metis in_set_conv_nth)
  have "b \<in> set (take 14 payload)" if "i < 14"
  proof -
    have "take 14 payload ! i = b" "i < length (take 14 payload)" using that len i(2) by simp_all
    then show ?thesis by (metis nth_mem)
  qed
  moreover have "b \<in> set (pslice payload 15 43)" if "15 \<le> i" "i < 43"
  proof -
    have "pslice payload 15 43 ! (i - 15) = b" "i - 15 < length (pslice payload 15 43)"
      using that len i(2) by (simp_all add: pslice_def)
    then show ?thesis by (metis nth_mem)
  qed
  moreover have "i < 14 \<or> i = 14 \<or> 15 \<le> i \<and> i < 43 \<or> i = 43" using i(1) by linarith
  ultimately have "b \<in> set (take 14 payload) \<or> b = payload ! 14 \<or> b \<in> set (pslice payload 15 43) \<or> b = payload ! 43"
    using i(2) by blast
  moreover have "b < 0x80" if "upper_alnum b"
    using that by (auto simp: upper_alnum_def word_le_nat_alt word_less_nat_alt)
  moreover have "\<forall>b \<in> set (ascii ''serial=12PSSSS''). b < 0x80"
    by (simp add: ascii_def)
  ultimately show "b < 0x80"
    using assms by (auto simp: serial_payload_is_valid_def list_all_iff)
qed

definition serial_inode :: "bytes \<Rightarrow> inode_fields" where
  "serial_inode payload = \<lparr>i_inode = 7, i_version = 2, i_mode = 0x81A4, i_uid = 0, i_gid = 0, i_file_size = 44,
     i_atime = 18, i_mtime = 18, i_ctime = 18, i_file_offset = 0, i_compressed_size = 44,
     i_decompressed_size = 44, i_compression = 0, i_user_compression = 0, i_flags = 0, i_payload = payload\<rparr>"

definition serial_dirent :: dirent_fields where
  "serial_dirent = \<lparr>d_parent_inode = 1, d_version = 123, d_inode = 7, d_mctime = 1, d_dtype = 8,
     d_name = SERIAL_NAME\<rparr>"

definition minimal_nodes :: "bytes \<Rightarrow> node list" where
  "minimal_nodes payload =
    [\<lparr>n_offset = 0, n_node_type = 0x2003, n_total_length = 12, n_current = True, n_obsolete = False,
       n_kind = Cleanmarker\<rparr>,
     \<lparr>n_offset = 12, n_node_type = 0xE001, n_total_length = 50, n_current = True, n_obsolete = False,
       n_kind = Dirent serial_dirent\<rparr>,
     \<lparr>n_offset = 64, n_node_type = 0xE002, n_total_length = 112, n_current = True, n_obsolete = False,
       n_kind = Inode (serial_inode payload)\<rparr>]"

lemma minimal_image_nodes_at:
  assumes "length payload = 44"
  shows "parse_node (minimal_image payload) 0 = Some (minimal_nodes payload ! 0)"
    "parse_node (minimal_image payload) 12 = Some (minimal_nodes payload ! 1)"
    "parse_node (minimal_image payload) 64 = Some (minimal_nodes payload ! 2)"
proof -
  let ?D = "minimal_dirent_prefix @ [0x2F, 0xFB, 0x46, 0x39] @ [0xB6, 0xB6, 0xB6, 0x8E] @ SERIAL_NAME"
  let ?I = "minimal_inode_prefix @ le_bytes 4 (unat (jffs2_crc payload)) @ [0xA3, 0x90, 0x68, 0x4B] @ payload"
  let ?T = "replicate (CONFIG_SIZE - 176) (0xFF :: byte)"
  show "parse_node (minimal_image payload) 0 = Some (minimal_nodes payload ! 0)"
    unfolding minimal_image_def using parse_clean_node(1) [OF minimal_clean_node] by (simp add: minimal_nodes_def)
  have d: "dirent_node SERIAL_NAME [(4, 1), (4, 123), (4, 7), (4, 1), (1, length SERIAL_NAME), (1, 8), (2, 0)] = Inr ?D"
    using minimal_dirent_node by (simp add: minimal_dirent_fields_def)
  have "length minimal_clean + 0 = 12" "length ?D = 50" by (simp_all add: minimal_lengths)
  moreover have "minimal_image payload = minimal_clean @ (?D @ ([0xFF, 0xFF] @ ?I @ ?T))"
    by (simp add: minimal_image_def)
  ultimately show "parse_node (minimal_image payload) 12 = Some (minimal_nodes payload ! 1)"
    using parse_node_shift [of minimal_clean "?D @ ([0xFF, 0xFF] @ ?I @ ?T)" 0]
      parse_dirent_node(1) [OF d, of "[0xFF, 0xFF] @ ?I @ ?T"]
    by (simp add: minimal_nodes_def serial_dirent_def)
  have i: "inode_node payload (inode_values 7 2 0x81A4 0 0 (length payload) 18 18 18 0) = Inr ?I"
    using minimal_inode_node [OF assms] by (simp add: minimal_inode_fields_def inode_values_def assms)
  have "length (minimal_clean @ ?D @ [0xFF, 0xFF]) + 0 = 64" "length ?I = 112"
    using assms by (simp_all add: minimal_lengths)
  moreover have "minimal_image payload = (minimal_clean @ ?D @ [0xFF, 0xFF]) @ (?I @ ?T)"
    by (simp add: minimal_image_def)
  ultimately show "parse_node (minimal_image payload) 64 = Some (minimal_nodes payload ! 2)"
    using parse_node_shift [of "minimal_clean @ ?D @ [0xFF, 0xFF]" "?I @ ?T" 0]
      parse_inode_node(1) [OF i, of ?T]
    by (simp add: minimal_nodes_def serial_inode_def assms)
qed

lemma filter_first_words: "filter (\<lambda>i. i \<in> {0, 3, 16}) [0..<17 + m] = [0, 3, 16 :: nat]"
proof -
  have "[0..<17 + m] = [0..<17] @ [17..<17 + m]" by (rule upt_add_eq_append) simp
  moreover have "filter (\<lambda>i. i \<in> {0, 3, 16}) [17..<17 + m] = []" by (auto simp: filter_empty_conv)
  moreover have "filter (\<lambda>i. i \<in> {0, 3, 16}) [0..<17] = [0, 3, 16 :: nat]" by code_simp
  ultimately show ?thesis by (metis append_Nil2 filter_append)
qed

lemma parse_minimal_image:
  assumes "serial_payload_is_valid payload"
  shows "parse_jffs2 (minimal_image payload) = minimal_nodes payload"
proof -
  let ?img = "minimal_image payload" and ?start = "minimal_start payload"
  note low = serial_payload_low [OF assms]
  note st = minimal_image_start [of payload]
  have len: "length ?img = 131072" using low(1) by (simp add: st constants)
  have silent: "parse_node ?img (i * 4) = None" if "i < 32766" "i \<notin> {0, 3, 16}" for i
  proof (cases "i < 33")
    case True
    show ?thesis
    proof (cases "i = 31")
      case True
      have "le_at ?img 128 4 = 0x4B6890A3"
        unfolding st(1) minimal_start_def by (simp add: slicing minimal_lengths le_at_def pslice_def)
      then show ?thesis using True len by (simp add: parse_node_def)
    next
      case False
      then have "\<not> magic_words ?start ! i"
        using minimal_start_magic [of payload] True that(2) st(2)
        by (auto simp: list_all_length nth_enumerate_eq)
      then have "\<not> (?start ! (i * 4) = 0x85 \<and> ?start ! (i * 4 + 1) = 0x19)"
        using nth_magic_words [of i ?start] True st(2) by simp
      moreover have "?img ! (i * 4) = ?start ! (i * 4)" "?img ! (i * 4 + 1) = ?start ! (i * 4 + 1)"
        using True st by (simp_all add: nth_append)
      ultimately show ?thesis using that(1) len by (intro parse_node_magic) simp_all
    qed
  next
    case False
    have "?img ! (i * 4) \<noteq> 0x85"
    proof (cases "i < 44")
      case True
      then have "i * 4 - 132 < 44" by simp
      then have "?img ! (i * 4) \<in> set payload"
        using False st low(1) by (simp add: nth_append)
      from low(2) [OF this] show ?thesis by auto
    next
      case False
      then have "\<not> i * 4 - 132 < 44" by simp
      with False have "?img ! (i * 4) = 0xFF"
        using that(1) st low(1) by (simp add: nth_append constants)
      then show ?thesis by simp
    qed
    then show ?thesis using that(1) len by (intro parse_node_magic) simp_all
  qed
  have split: "32766 = 17 + (32749 :: nat)" by simp
  have "range_step (length ?img - 11) 4 = map (\<lambda>i. i * 4) [0..<32766]"
    by (simp add: len range_step_def)
  then have "parse_jffs2 ?img = List.map_filter (\<lambda>i. parse_node ?img (i * 4)) [0..<32766]"
    by (simp add: parse_jffs2_def List.map_filter_def comp_def filter_map)
  also have "\<dots> = List.map_filter (\<lambda>i. parse_node ?img (i * 4)) (filter (\<lambda>i. i \<in> {0, 3, 16}) [0..<32766])"
    proof (rule map_filter_cong_filter)
    fix x :: nat
    assume "x \<in> set [0..<32766]" "x \<notin> {0, 3, 16}"
    then have "x < 32766" "x \<notin> {0, 3, 16}" by auto
    then show "parse_node ?img (x * 4) = None" by (rule silent)
  qed
  also have "filter (\<lambda>i. i \<in> {0, 3, 16}) [0..<32766] = [0, 3, 16 :: nat]"
    unfolding split by (rule filter_first_words)
  finally show ?thesis
    using minimal_image_nodes_at [OF low(1)] by (simp add: map_filter_simps minimal_nodes_def)
qed

lemma minimal_nodes_serial:
  assumes "serial_payload_is_valid payload"
  shows "List.map_filter dirent_of (minimal_nodes payload) = [serial_dirent]"
    "filter n_current (minimal_nodes payload) = minimal_nodes payload"
    "filter n_obsolete (minimal_nodes payload) = []"
    "collect_dirents [serial_dirent] [] = Inr [((1, SERIAL_NAME), serial_dirent)]"
    "live_root_entries [((1, SERIAL_NAME), serial_dirent)] = [(SERIAL_NAME, serial_dirent)]"
    "recover_serial (minimal_nodes payload) [(SERIAL_NAME, serial_dirent)] = Inr (payload, Live_current)"
proof -
  show "List.map_filter dirent_of (minimal_nodes payload) = [serial_dirent]"
    "filter n_current (minimal_nodes payload) = minimal_nodes payload"
    "filter n_obsolete (minimal_nodes payload) = []"
    by (simp_all add: minimal_nodes_def dirent_of_def map_filter_simps)
  show "collect_dirents [serial_dirent] [] = Inr [((1, SERIAL_NAME), serial_dirent)]"
    "live_root_entries [((1, SERIAL_NAME), serial_dirent)] = [(SERIAL_NAME, serial_dirent)]"
    by (simp_all add: serial_dirent_def live_root_entries_def)
  have "current_fragments (minimal_nodes payload) 7 = [serial_inode payload]"
    by (simp add: current_fragments_def minimal_nodes_def inode_of_def map_filter_simps serial_inode_def)
  moreover have "serial_inode_shape (serial_inode payload)" "i_payload (serial_inode payload) = payload"
    using assms by (simp_all add: serial_inode_shape_def serial_inode_def)
  ultimately show "recover_serial (minimal_nodes payload) [(SERIAL_NAME, serial_dirent)] = Inr (payload, Live_current)"
    by (simp add: recover_serial_def live_serial_def serial_dirent_def)
qed

lemma minimal_info:
  assumes "serial_payload_is_valid payload"
  shows "\<exists>info. extract_serial_and_config_info inflate (minimal_image payload) False False = Inr info \<and>
    ci_serial_payload info = payload \<and> ci_serial_source info = Live_current \<and>
    ci_current_node_count info = 3 \<and> ci_obsolete_node_count info = 0"
proof -
  note n = minimal_nodes_serial [OF assms]
  have known: "SERIAL_NAME \<in> set KNOWN_CONFIG_NAMES" by (simp add: SERIAL_NAME_def KNOWN_CONFIG_NAMES_def)
  have "minimal_nodes payload \<noteq> []" "length (minimal_nodes payload) = 3" "d_name serial_dirent = SERIAL_NAME"
    by (simp_all add: minimal_nodes_def serial_dirent_def)
  then show ?thesis
    unfolding extract_serial_and_config_info_def Let_def parse_minimal_image [OF assms] n(1,2)
    by (simp add: n known del: collect_dirents.simps One_nat_def)
qed

lemma minimal_config_built:
  assumes "serial_payload_is_valid payload"
  shows "build_minimal_config payload = Inr (minimal_image payload)"
proof -
  have len: "length payload = 44" by (rule serial_payload_low(1) [OF assms])
  obtain info where info: "extract_serial_and_config_info (\<lambda>_ _. None) (minimal_image payload) False False = Inr info"
    "ci_serial_payload info = payload" "ci_current_node_count info = 3"
    using minimal_info [OF assms, of "\<lambda>_ _. None"] by blast
  have off: "align4 (12 + 40 + length SERIAL_NAME) = 64" by (simp add: align4_def minimal_lengths)
  show ?thesis
    unfolding build_minimal_config_def Let_def minimal_clean_node minimal_dirent_node len
      minimal_inode_node [OF len] res_bind.simps off minimal_built [OF len] info
    using assms len by (simp add: minimal_lengths info)
qed

text \<open>C34: for every valid serial payload, the minimal partition is built without an error: 128 KiB whose
  only nodes, at any offset and whatever its data checksum is, are the clean marker, the directory
  entry and the inode, and reading it back gives that serial, from the live entry.\<close>

theorem minimal_config_always_built:
  assumes "serial_payload_is_valid payload"
  shows "\<exists>built info. build_minimal_config payload = Inr built \<and> length built = 131072 \<and>
    parse_jffs2 built = minimal_nodes payload \<and>
    extract_serial_and_config_info inflate built False False = Inr info \<and>
    ci_serial_payload info = payload \<and> ci_serial_source info = Live_current \<and>
    ci_current_node_count info = 3 \<and> ci_obsolete_node_count info = 0"
proof -
  have "length (minimal_image payload) = 131072"
    using serial_payload_low(1) [OF assms] minimal_image_start [of payload] by (simp add: constants)
  with minimal_config_built [OF assms] parse_minimal_image [OF assms] minimal_info [OF assms]
  show ?thesis by blast
qed

definition sample_serial :: bytes where
  "sample_serial = ascii ''serial=12PSSSS3ABCDEFGHIJKLMNOPQRSTUVWXYZ01'' @ [10]"

lemma sample_serial_valid: "serial_payload_is_valid sample_serial"
  by (simp add: sample_serial_def serial_payload_is_valid_def ascii_def pslice_def upper_alnum_def)

theorem minimal_config_always_built_witness:
  "\<exists>built. build_minimal_config sample_serial = Inr built \<and> length built = 131072"
  using minimal_config_always_built [OF sample_serial_valid] by blast

end
