(* ===== verification/Jffs2_Props.thy ===== *)
theory Jffs2_Props
  imports Jffs2
begin

text \<open>
  What the JFFS2 scan, the serial recovery and the rebuilt partition guarantee.
\<close>

section \<open>Damage\<close>

lemma jffs2_crc_damage:
  assumes "i < length data" "data ! i \<noteq> x"
  shows "jffs2_crc (data[i := x]) \<noteq> jffs2_crc data"
  using crc32.one_byte_update_detected [OF assms] by (simp add: jffs2_crc_fold)

lemma restored_slice_update:
  assumes "4 \<le> k" "k < length xs"
  shows "restored_accurate_slice (xs[k := x]) t ob = (restored_accurate_slice xs t ob)[k := x]"
    and "restored_accurate_slice xs t ob ! k = xs ! k"
    and "length (restored_accurate_slice xs t ob) = length xs"
  using assms
  by (auto simp: restored_accurate_slice_def nth_put nth_list_update intro!: nth_equalityI)

text \<open>The bytes a node's checksums cover after its header.\<close>

definition covered_length :: "node \<Rightarrow> nat" where
  "covered_length n = (case n_kind n of
     Inode f \<Rightarrow> 68 + length (i_payload f) | Dirent f \<Rightarrow> 40 + length (d_name f) | _ \<Rightarrow> 0)"

lemma prefix_damage:
  assumes "off + 4 \<le> i" "i < off + k" "off + k \<le> length data" "data ! i \<noteq> x"
  shows "jffs2_crc (restored_accurate_slice (pslice (data[i := x]) off (off + k)) t ob) \<noteq>
    jffs2_crc (restored_accurate_slice (pslice data off (off + k)) t ob)"
proof -
  let ?p = "pslice data off (off + k)"
  have in_range: "4 \<le> i - off" "i - off < length ?p" and byte: "?p ! (i - off) \<noteq> x"
    using assms by (simp_all add: pslice_def)
  have "pslice (data[i := x]) off (off + k) = ?p[i - off := x]"
    using assms(1) by (simp add: pslice_update_inside)
  then show ?thesis
    using jffs2_crc_damage [of "i - off" "restored_accurate_slice ?p t ob" x] in_range byte
    by (simp add: restored_slice_update)
qed

lemma slice_damage:
  assumes "a \<le> i" "i < b" "i < length data" "data ! i \<noteq> x"
  shows "jffs2_crc (pslice (data[i := x]) a b) \<noteq> jffs2_crc (pslice data a b)"
proof -
  have "i - a < length (pslice data a b)" "pslice data a b ! (i - a) \<noteq> x"
    using assms by (auto simp: pslice_def)
  from jffs2_crc_damage [OF this] show ?thesis
    using assms(1) by (simp add: pslice_update_inside)
qed

lemma inode_damage:
  assumes "parse_inode data off ob = Some (Inode f)" "off + 68 \<le> length data"
    and "off + 12 \<le> i" "i < off + 68 + length (i_payload f)" "data ! i \<noteq> x"
  shows "parse_inode (data[i := x]) off ob = None"
proof -
  let ?d = "data[i := x]" and ?size = "le_at data (off + 48) 4"
  let ?pre = "\<lambda>d. restored_accurate_slice (pslice d off (off + 60)) (le_at d (off + 2) 2) ob"
  have ok: "unat (jffs2_crc (?pre data)) = le_at data (off + 64) 4"
    "unat (jffs2_crc (pslice data (off + 68) (off + 68 + ?size))) = le_at data (off + 60) 4"
    and payload: "i_payload f = pslice data (off + 68) (off + 68 + ?size)"
    using assms(1) by (auto simp: parse_inode_def Let_def split: if_splits)
  have type: "le_at ?d (off + 2) 2 = le_at data (off + 2) 2"
    using assms(3) by (simp add: le_at_update_outside)
  consider "i < off + 60" | "off + 60 \<le> i \<and> i < off + 64" | "off + 64 \<le> i \<and> i < off + 68" | "off + 68 \<le> i"
    by linarith
  then show ?thesis
  proof cases
    case 1
    have "jffs2_crc (?pre ?d) \<noteq> jffs2_crc (?pre data)"
      unfolding type by (rule prefix_damage) (use 1 assms in simp_all)
    moreover have "le_at ?d (off + 64) 4 = le_at data (off + 64) 4"
      using 1 by (simp add: le_at_update_outside)
    ultimately have "unat (jffs2_crc (?pre ?d)) \<noteq> le_at ?d (off + 64) 4"
      using ok(1) by (metis unsigned_word_eqI)
    then show ?thesis by (simp add: parse_inode_def Let_def)
  next
    case 2
    have "le_at ?d (off + 60) 4 \<noteq> le_at data (off + 60) 4"
      by (rule le_at_update_inside) (use 2 assms in simp_all)
    moreover have "le_at ?d (off + 48) 4 = ?size"
      "pslice ?d (off + 68) (off + 68 + ?size) = pslice data (off + 68) (off + 68 + ?size)"
      using 2 by (simp_all add: le_at_update_outside pslice_update_outside)
    ultimately show ?thesis using ok(2) by (simp add: parse_inode_def Let_def)
  next
    case 3
    have "le_at ?d (off + 64) 4 \<noteq> le_at data (off + 64) 4"
      by (rule le_at_update_inside) (use 3 assms in simp_all)
    moreover have "pslice ?d off (off + 60) = pslice data off (off + 60)"
      using 3 by (simp add: pslice_update_outside)
    ultimately show ?thesis using ok(1) unfolding parse_inode_def Let_def type by simp
  next
    case 4
    have len: "i < length data" "i < off + 68 + ?size" using assms(4) payload 4 by auto
    have "jffs2_crc (pslice ?d (off + 68) (off + 68 + ?size)) \<noteq> jffs2_crc (pslice data (off + 68) (off + 68 + ?size))"
      by (rule slice_damage) (use 4 len assms in simp_all)
    moreover have "le_at ?d (off + 60) 4 = le_at data (off + 60) 4" "le_at ?d (off + 48) 4 = ?size"
      using 4 by (simp_all add: le_at_update_outside)
    ultimately have "unat (jffs2_crc (pslice ?d (off + 68) (off + 68 + le_at ?d (off + 48) 4))) \<noteq> le_at ?d (off + 60) 4"
      using ok(2) by (metis unsigned_word_eqI)
    then show ?thesis by (simp add: parse_inode_def Let_def)
  qed
qed

lemma dirent_damage:
  assumes "parse_dirent data off ob = Some (Dirent f)" "off + 40 \<le> length data"
    and "off + 12 \<le> i" "i < off + 40 + length (d_name f)" "data ! i \<noteq> x"
  shows "parse_dirent (data[i := x]) off ob = None"
proof -
  let ?d = "data[i := x]" and ?size = "unat (data ! (off + 28))"
  let ?pre = "\<lambda>d. restored_accurate_slice (pslice d off (off + 32)) (le_at d (off + 2) 2) ob"
  have ok: "unat (jffs2_crc (?pre data)) = le_at data (off + 32) 4"
    "unat (jffs2_crc (pslice data (off + 40) (off + 40 + ?size))) = le_at data (off + 36) 4"
    and name: "d_name f = pslice data (off + 40) (off + 40 + ?size)"
    using assms(1) by (auto simp: parse_dirent_def Let_def split: if_splits)
  have type: "le_at ?d (off + 2) 2 = le_at data (off + 2) 2"
    using assms(3) by (simp add: le_at_update_outside)
  consider "i < off + 32" | "off + 32 \<le> i \<and> i < off + 36" | "off + 36 \<le> i \<and> i < off + 40" | "off + 40 \<le> i"
    by linarith
  then show ?thesis
  proof cases
    case 1
    have "jffs2_crc (?pre ?d) \<noteq> jffs2_crc (?pre data)"
      unfolding type by (rule prefix_damage) (use 1 assms in simp_all)
    moreover have "le_at ?d (off + 32) 4 = le_at data (off + 32) 4"
      using 1 by (simp add: le_at_update_outside)
    ultimately have "unat (jffs2_crc (?pre ?d)) \<noteq> le_at ?d (off + 32) 4"
      using ok(1) by (metis unsigned_word_eqI)
    then show ?thesis by (simp add: parse_dirent_def Let_def)
  next
    case 2
    have "le_at ?d (off + 32) 4 \<noteq> le_at data (off + 32) 4"
      by (rule le_at_update_inside) (use 2 assms in simp_all)
    moreover have "pslice ?d off (off + 32) = pslice data off (off + 32)"
      using 2 by (simp add: pslice_update_outside)
    ultimately show ?thesis using ok(1) unfolding parse_dirent_def Let_def type by simp
  next
    case 3
    have "le_at ?d (off + 36) 4 \<noteq> le_at data (off + 36) 4"
      by (rule le_at_update_inside) (use 3 assms in simp_all)
    moreover have "?d ! (off + 28) = data ! (off + 28)"
      "pslice ?d (off + 40) (off + 40 + ?size) = pslice data (off + 40) (off + 40 + ?size)"
      using 3 by (simp_all add: pslice_update_outside)
    ultimately show ?thesis using ok(2) by (simp add: parse_dirent_def Let_def)
  next
    case 4
    have len: "i < length data" "i < off + 40 + ?size" using assms(4) name 4 by auto
    have "jffs2_crc (pslice ?d (off + 40) (off + 40 + ?size)) \<noteq> jffs2_crc (pslice data (off + 40) (off + 40 + ?size))"
      by (rule slice_damage) (use 4 len assms in simp_all)
    moreover have "le_at ?d (off + 36) 4 = le_at data (off + 36) 4" "?d ! (off + 28) = data ! (off + 28)"
      using 4 by (simp_all add: le_at_update_outside)
    ultimately have "unat (jffs2_crc (pslice ?d (off + 40) (off + 40 + unat (?d ! (off + 28))))) \<noteq> le_at ?d (off + 36) 4"
      using ok(2) by (metis unsigned_word_eqI)
    then show ?thesis by (simp add: parse_dirent_def Let_def)
  qed
qed

text \<open>What the scan of one offset comes to when it yields a node.\<close>

lemma parse_node_Some:
  assumes "parse_node data off = Some n"
  shows "le_at data off 2 = JFFS2_MAGIC" "n_node_type n = le_at data (off + 2) 2"
    "n_total_length n = le_at data (off + 4) 4" "12 \<le> n_total_length n" "off + n_total_length n \<le> length data"
    "header_state data off = (n_current n, n_obsolete n)" "n_current n \<or> n_obsolete n" "n_offset n = off"
    "n_kind n = Inode f \<Longrightarrow> n_node_type n AND 0x0FFF = JFFS2_INODE \<and> 68 \<le> n_total_length n \<and>
      parse_inode data off (n_obsolete n) = Some (Inode f)"
    "n_kind n = Dirent g \<Longrightarrow> n_node_type n AND 0x0FFF = JFFS2_DIRENT \<and> 40 \<le> n_total_length n \<and>
      parse_dirent data off (n_obsolete n) = Some (Dirent g)"
proof -
  have inode: "\<exists>f. k = Inode f" if "parse_inode data off b = Some k" for b k
    using that by (auto simp: parse_inode_def Let_def split: if_splits)
  have dirent: "\<exists>g. k = Dirent g" if "parse_dirent data off b = Some k" for b k
    using that by (auto simp: parse_dirent_def Let_def split: if_splits)
  obtain c ob where h: "header_state data off = (c, ob)" by fastforce
  let ?base = "le_at data (off + 2) 2 AND 0x0FFF" and ?len = "le_at data (off + 4) 4"
  obtain k where k: "le_at data off 2 = JFFS2_MAGIC" "12 \<le> ?len" "off + ?len \<le> length data" "c \<or> ob"
    "(if ?base = JFFS2_DIRENT \<and> ?len \<ge> 40 then parse_dirent data off ob
      else if ?base = JFFS2_INODE \<and> ?len \<ge> 68 then parse_inode data off ob
      else if ?base = JFFS2_CLEANMARKER then Some Cleanmarker else Some (Other ?base)) = Some k"
    "n = \<lparr>n_offset = off, n_node_type = le_at data (off + 2) 2, n_total_length = ?len, n_current = c, n_obsolete = ob, n_kind = k\<rparr>"
    using assms unfolding parse_node_def Let_def h prod.case
    by (simp only: option.map not_less not_le de_Morgan_disj not_not split: if_split_asm option.split_asm) (auto simp: not_less)
  show "le_at data off 2 = JFFS2_MAGIC" "n_node_type n = le_at data (off + 2) 2"
    "n_total_length n = le_at data (off + 4) 4" "12 \<le> n_total_length n" "off + n_total_length n \<le> length data"
    "header_state data off = (n_current n, n_obsolete n)" "n_current n \<or> n_obsolete n" "n_offset n = off"
    using k h by simp_all
  show "n_kind n = Inode f \<Longrightarrow> n_node_type n AND 0x0FFF = JFFS2_INODE \<and> 68 \<le> n_total_length n \<and>
      parse_inode data off (n_obsolete n) = Some (Inode f)"
    using k(5,6) by (auto dest!: dirent split: if_split_asm)
  show "n_kind n = Dirent g \<Longrightarrow> n_node_type n AND 0x0FFF = JFFS2_DIRENT \<and> 40 \<le> n_total_length n \<and>
      parse_dirent data off (n_obsolete n) = Some (Dirent g)"
    using k(5,6) by (auto dest!: inode split: if_split_asm)
qed

text \<open>C35: if one byte after the header of a CRC-valid inode or directory node is changed, up to the end
  of its payload or name, the scan no longer yields any node at that offset: no field, checksum,
  payload or name byte can change unnoticed.\<close>

theorem node_damage_detected:
  assumes "parse_node data off = Some n" "off + 12 \<le> i" "i < off + covered_length n" "data ! i \<noteq> x"
  shows "parse_node (data[i := x]) off = None"
proof -
  let ?d = "data[i := x]"
  note s = parse_node_Some [OF assms(1)]
  have same: "le_at ?d off 2 = le_at data off 2" "le_at ?d (off + 2) 2 = le_at data (off + 2) 2"
    "le_at ?d (off + 4) 4 = le_at data (off + 4) 4" "header_state ?d off = header_state data off"
    using assms(2) by (simp_all add: header_state_def le_at_update_outside pslice_update_outside)
  have len: "length ?d = length data" by simp
  show ?thesis
  proof (cases "n_kind n")
    case (Inode f)
    have "parse_inode ?d off (n_obsolete n) = None"
      using s(5) s(9) [OF Inode] assms(2-4) Inode by (intro inode_damage) (auto simp: covered_length_def)
    then show ?thesis
      unfolding parse_node_def same len Let_def s(6) using s(2,3) s(9) [OF Inode]
      by (cases "n_obsolete n") (simp_all add: constants)
  next
    case (Dirent g)
    have "parse_dirent ?d off (n_obsolete n) = None"
      using s(5) s(10) [OF Dirent] assms(2-4) Dirent by (intro dirent_damage) (auto simp: covered_length_def)
    then show ?thesis
      unfolding parse_node_def same len Let_def s(6) using s(2,3) s(10) [OF Dirent]
      by (cases "n_obsolete n") (simp_all add: constants)
  qed (use assms(2,3) in \<open>simp_all add: covered_length_def\<close>)
qed

theorem node_damage_detected_witness:
  "parse_node ((minimal_image sample_serial)[132 := 0]) 64 = None"
proof -
  have len: "length sample_serial = 44" by (rule serial_payload_low(1) [OF sample_serial_valid])
  have n: "parse_node (minimal_image sample_serial) 64 = Some (minimal_nodes sample_serial ! 2)"
    by (rule minimal_image_nodes_at(3) [OF len])
  have c: "covered_length (minimal_nodes sample_serial ! 2) = 112"
    using len by (simp add: covered_length_def minimal_nodes_def serial_inode_def)
  have "minimal_image sample_serial ! 132 = sample_serial ! 0"
    using minimal_image_start [of sample_serial] len by (simp add: nth_append)
  also have "\<dots> \<noteq> 0" by (simp add: sample_serial_def ascii_def)
  finally have "minimal_image sample_serial ! 132 \<noteq> 0" .
  from node_damage_detected [OF n _ _ this] show ?thesis by (simp add: c)
qed

section \<open>Recovered serials\<close>

lemma in_map_filter: "y \<in> set (List.map_filter f xs) \<longleftrightarrow> (\<exists>x \<in> set xs. f x = Some y)"
  by (induction xs) (auto simp: map_filter_simps split: option.splits)

lemma inode_of_Some [simp]: "inode_of n = Some f \<longleftrightarrow> n_kind n = Inode f"
  by (auto simp: inode_of_def split: node_kind.splits)

lemma dirent_of_Some [simp]: "dirent_of n = Some f \<longleftrightarrow> n_kind n = Dirent f"
  by (auto simp: dirent_of_def split: node_kind.splits)

lemma current_fragments_in:
  "f \<in> set (current_fragments nodes i) \<longleftrightarrow>
     i_inode f = i \<and> (\<exists>n \<in> set nodes. n_current n \<and> n_kind n = Inode f)"
  by (auto simp: current_fragments_def in_map_filter)

lemma historical_serials_in:
  "p \<in> set (historical_serials nodes) \<longleftrightarrow>
     (\<exists>n \<in> set nodes. \<exists>f. n_kind n = Inode f \<and> serial_inode_shape f \<and> p = i_payload f)"
  by (auto simp: historical_serials_def in_map_filter)

lemma live_serial_Some:
  assumes "live_serial nodes live = Inr (Some p)"
  shows "\<exists>d f n. map_of live SERIAL_NAME = Some d \<and> n \<in> set nodes \<and> n_current n \<and> n_kind n = Inode f \<and>
    i_inode f = d_inode d \<and> serial_inode_shape f \<and> p = i_payload f \<and>
    (\<forall>m \<in> set nodes. \<forall>g. n_current m \<longrightarrow> n_kind m = Inode g \<longrightarrow> i_inode g = d_inode d \<longrightarrow>
       serial_inode_shape g \<longrightarrow> i_version g \<le> i_version f)"
proof -
  obtain d where d: "map_of live SERIAL_NAME = Some d"
    using assms by (auto simp: live_serial_def split: option.splits)
  let ?c = "filter serial_inode_shape (current_fragments nodes (d_inode d))"
  let ?new = "filter (\<lambda>f. i_version f = Max (set (map i_version ?c))) ?c"
  have "?c \<noteq> []" "length ?new = 1" "p = i_payload (hd ?new)"
    using assms d by (auto simp: live_serial_def Let_def split: if_splits)
  then obtain f where f: "?new = [f]" "p = i_payload f" by (auto simp: length_Suc_conv)
  then have "f \<in> set ?new" by simp
  then have in_c: "f \<in> set ?c" and max: "i_version f = Max (set (map i_version ?c))"
    by (simp_all only: set_filter mem_Collect_eq)
  have "i_version g \<le> i_version f" if "g \<in> set ?c" for g
    unfolding max using that by (intro Max_ge) auto
  then have newest: "\<forall>m \<in> set nodes. \<forall>g. n_current m \<longrightarrow> n_kind m = Inode g \<longrightarrow> i_inode g = d_inode d \<longrightarrow>
      serial_inode_shape g \<longrightarrow> i_version g \<le> i_version f"
    by (simp only: set_filter mem_Collect_eq current_fragments_in) blast
  from in_c obtain n where "n \<in> set nodes" "n_current n" "n_kind n = Inode f" "i_inode f = d_inode d" "serial_inode_shape f"
    by (simp only: set_filter mem_Collect_eq current_fragments_in) blast
  with d f(2) newest show ?thesis by blast
qed

lemma recover_serial_Inr:
  assumes "recover_serial nodes live = Inr (p, origin)"
  shows "origin = Live_current \<and> live_serial nodes live = Inr (Some p) \<or>
    origin = Unique_historical_fallback \<and> live_serial nodes live = Inr None \<and> historical_serials nodes = [p]"
  using assms
  by (auto simp: recover_serial_def split: option.splits list.splits)

lemma extract_Inr:
  assumes "extract_serial_and_config_info inflate config au pl = Inr info"
  shows "ci_nodes info = parse_jffs2 config"
    "\<exists>dirents. collect_dirents (List.map_filter dirent_of (filter n_current (parse_jffs2 config))) [] = Inr dirents \<and>
      recover_serial (parse_jffs2 config) (live_root_entries dirents) = Inr (ci_serial_payload info, ci_serial_source info) \<and>
      (pl \<longrightarrow> (\<exists>files fs. reconstruct_live_config_files inflate (parse_jffs2 config) dirents = Inr files \<and>
        add_serial_file (ci_serial_payload info) files = Inr fs \<and> ci_live_config_files info = Some fs)) \<and>
      (\<not> pl \<longrightarrow> ci_live_config_files info = None)"
    "ci_serial_value info = serial_value_of (ci_serial_payload info)"
    "au \<or> (\<forall>n \<in> set (parse_jffs2 config). \<forall>d. n_kind n = Dirent d \<longrightarrow> d_name d \<in> set KNOWN_CONFIG_NAMES)"
    "ci_current_node_count info = length (filter n_current (parse_jffs2 config))"
proof -
  let ?nodes = "parse_jffs2 config"
  let ?unexpected = "filter (\<lambda>n. n \<notin> set KNOWN_CONFIG_NAMES) (remdups (map d_name (List.map_filter dirent_of ?nodes)))"
  have some: "?nodes \<noteq> []" and known: "\<not> (?unexpected \<noteq> [] \<and> \<not> au)"
    using assms unfolding extract_serial_and_config_info_def Let_def by (metis Inl_Inr_False)+
  note run = assms [unfolded extract_serial_and_config_info_def Let_def if_not_P [OF some] if_not_P [OF known]]
  obtain dirents payload source files where h:
    "collect_dirents (List.map_filter dirent_of (filter n_current ?nodes)) [] = Inr dirents"
    "recover_serial ?nodes (live_root_entries dirents) = Inr (payload, source)"
    "(if pl then res_bind (reconstruct_live_config_files inflate ?nodes dirents) (\<lambda>files.
        res_bind (add_serial_file payload files) (\<lambda>files. Inr (Some files))) else Inr None) = Inr files"
    "ci_nodes info = ?nodes" "ci_serial_payload info = payload" "ci_serial_source info = source"
    "ci_live_config_files info = files" "ci_serial_value info = serial_value_of payload"
    "ci_current_node_count info = length (filter n_current ?nodes)"
    using run by (auto simp del: if_split split: prod.splits)
  show "ci_nodes info = ?nodes" "ci_serial_value info = serial_value_of (ci_serial_payload info)"
    "ci_current_node_count info = length (filter n_current ?nodes)" using h by simp_all
  show "au \<or> (\<forall>n \<in> set ?nodes. \<forall>d. n_kind n = Dirent d \<longrightarrow> d_name d \<in> set KNOWN_CONFIG_NAMES)"
    using known by (auto simp: filter_empty_conv in_map_filter)
  show "\<exists>dirents. collect_dirents (List.map_filter dirent_of (filter n_current ?nodes)) [] = Inr dirents \<and>
      recover_serial ?nodes (live_root_entries dirents) = Inr (ci_serial_payload info, ci_serial_source info) \<and>
      (pl \<longrightarrow> (\<exists>files fs. reconstruct_live_config_files inflate ?nodes dirents = Inr files \<and>
        add_serial_file (ci_serial_payload info) files = Inr fs \<and> ci_live_config_files info = Some fs)) \<and>
      (\<not> pl \<longrightarrow> ci_live_config_files info = None)"
    using h by (intro exI [of _ dirents]) auto
qed

text \<open>C5: a serial that \<open>extract_serial_and_config_info\<close> returns is well formed and was stored whole in
  an uncompressed CRC-valid inode of the partition. A live one is in a current inode and no acceptable
  current inode of that file is newer; a fallback is the only acceptable serial in the whole
  partition. Without permission for unknown names, every CRC-valid name is a known one.\<close>

theorem recovered_serial_is_stored:
  assumes "extract_serial_and_config_info inflate config allow_unknown preserve = Inr info"
  shows "serial_payload_is_valid (ci_serial_payload info) \<and>
    (\<exists>n f. n \<in> set (parse_jffs2 config) \<and> n_kind n = Inode f \<and> serial_inode_shape f \<and>
       i_payload f = ci_serial_payload info \<and>
       (ci_serial_source info = Live_current \<longrightarrow> n_current n \<and>
         (\<forall>m \<in> set (parse_jffs2 config). \<forall>g. n_current m \<and> n_kind m = Inode g \<and> i_inode g = i_inode f \<and>
            serial_inode_shape g \<longrightarrow> i_version g \<le> i_version f)) \<and>
       (ci_serial_source info = Unique_historical_fallback \<longrightarrow>
         (\<forall>m \<in> set (parse_jffs2 config). \<forall>g. n_kind m = Inode g \<and> serial_inode_shape g \<longrightarrow>
            i_payload g = i_payload f))) \<and>
    (allow_unknown \<or> (\<forall>n \<in> set (parse_jffs2 config). \<forall>d. n_kind n = Dirent d \<longrightarrow>
       d_name d \<in> set KNOWN_CONFIG_NAMES))"
proof -
  let ?nodes = "parse_jffs2 config" and ?p = "ci_serial_payload info"
  obtain dirents where "recover_serial ?nodes (live_root_entries dirents) = Inr (?p, ci_serial_source info)"
    using extract_Inr(2) [OF assms] by blast
  then consider (live) "ci_serial_source info = Live_current"
      "live_serial ?nodes (live_root_entries dirents) = Inr (Some ?p)"
    | (old) "ci_serial_source info = Unique_historical_fallback" "historical_serials ?nodes = [?p]"
    using recover_serial_Inr by blast
  then have "\<exists>n f. n \<in> set ?nodes \<and> n_kind n = Inode f \<and> serial_inode_shape f \<and> i_payload f = ?p \<and>
       (ci_serial_source info = Live_current \<longrightarrow> n_current n \<and>
         (\<forall>m \<in> set ?nodes. \<forall>g. n_current m \<and> n_kind m = Inode g \<and> i_inode g = i_inode f \<and>
            serial_inode_shape g \<longrightarrow> i_version g \<le> i_version f)) \<and>
       (ci_serial_source info = Unique_historical_fallback \<longrightarrow>
         (\<forall>m \<in> set ?nodes. \<forall>g. n_kind m = Inode g \<and> serial_inode_shape g \<longrightarrow> i_payload g = i_payload f))"
  proof cases
    case live
    obtain d f n where "map_of (live_root_entries dirents) SERIAL_NAME = Some d \<and> n \<in> set ?nodes \<and>
      n_current n \<and> n_kind n = Inode f \<and> i_inode f = d_inode d \<and> serial_inode_shape f \<and> ?p = i_payload f \<and>
      (\<forall>m \<in> set ?nodes. \<forall>g. n_current m \<longrightarrow> n_kind m = Inode g \<longrightarrow> i_inode g = d_inode d \<longrightarrow>
         serial_inode_shape g \<longrightarrow> i_version g \<le> i_version f)"
      using live_serial_Some [OF live(2)] by (elim exE) (rule that)
    then show ?thesis using live(1) by (intro exI [of _ n] exI [of _ f]) auto
  next
    case old
    have "?p \<in> set (historical_serials ?nodes)" by (simp add: old(2))
    then obtain n f where "n \<in> set ?nodes" "n_kind n = Inode f" "serial_inode_shape f" "?p = i_payload f"
      by (auto simp: historical_serials_in)
    moreover have "i_payload g = ?p"
      if "m \<in> set ?nodes" "n_kind m = Inode g" "serial_inode_shape g" for m g
      using that historical_serials_in [of "i_payload g" ?nodes] old(2) by auto
    ultimately show ?thesis using old(1) by (intro exI [of _ n] exI [of _ f]) auto
  qed
  moreover from this obtain f where "serial_inode_shape f" "i_payload f = ?p" by (elim exE conjE) (rule that)
  then have "serial_payload_is_valid ?p" by (simp add: serial_inode_shape_def)
  moreover note extract_Inr(4) [OF assms]
  ultimately show ?thesis by (intro conjI)
qed

theorem recovered_serial_is_stored_witness:
  "\<exists>info. extract_serial_and_config_info (\<lambda>_ _. None) (minimal_image sample_serial) False False = Inr info \<and>
     serial_payload_is_valid (ci_serial_payload info)"
proof -
  obtain info where "extract_serial_and_config_info (\<lambda>_ _. None) (minimal_image sample_serial) False False = Inr info"
    using minimal_info [OF sample_serial_valid] by blast
  with recovered_serial_is_stored [OF this] show ?thesis by blast
qed

end
