(* ===== verification/Jffs2_Files.thy ===== *)
theory Jffs2_Files
  imports Jffs2_Props
begin

text \<open>
  The live files that \<open>reconstruct_live_config_files\<close> returns follow the log, and the partition that
  \<open>build_preserved_config\<close> writes carries exactly the files it was given.
\<close>

section \<open>Overlay of fragments\<close>

text \<open>A fragment that decodes and holds byte \<open>k\<close> of its file.\<close>

definition covers :: "(bytes \<Rightarrow> nat \<Rightarrow> (bytes \<times> bool) option) \<Rightarrow> nat \<Rightarrow> inode_fields \<Rightarrow> bytes \<Rightarrow> bool" where
  "covers inflate k f decoded \<longleftrightarrow> decode_jffs2_fragment inflate f = Inr decoded \<and>
     i_file_offset f \<le> k \<and> k < i_file_offset f + length decoded"

lemma put_part:
  assumes "length data = n" "start < n"
  shows "length (put data start (take (min (start + length d) n - start) d)) = n"
    and "k < n \<Longrightarrow> put data start (take (min (start + length d) n - start) d) ! k =
      (if start \<le> k \<and> k < start + length d then d ! (k - start) else data ! k)"
proof -
  have l: "start + length (take (min (start + length d) n - start) d) \<le> length data"
    using assms by auto
  then show "length (put data start (take (min (start + length d) n - start) d)) = n"
    using assms by simp
  assume "k < n"
  then show "put data start (take (min (start + length d) n - start) d) ! k =
      (if start \<le> k \<and> k < start + length d then d ! (k - start) else data ! k)"
    using assms l by (auto simp: nth_put)
qed

lemma apply_fragments_Inr:
  assumes "apply_fragments inflate n fs data = Inr out" "length data = n"
  shows "length out = n \<and> (\<forall>f \<in> set fs. \<exists>d. decode_jffs2_fragment inflate f = Inr d) \<and>
    (\<forall>k < n. (\<exists>pre f post d. fs = pre @ f # post \<and> covers inflate k f d \<and> out ! k = d ! (k - i_file_offset f) \<and>
        (\<forall>g \<in> set post. \<forall>e. \<not> covers inflate k g e)) \<or>
      (\<forall>g \<in> set fs. \<forall>e. \<not> covers inflate k g e) \<and> out ! k = data ! k)"
  using assms
proof (induction fs arbitrary: data)
  case Nil
  then show ?case by simp
next
  case (Cons f fs)
  obtain d where d: "decode_jffs2_fragment inflate f = Inr d"
    using Cons.prems(1) by auto
  let ?data = "if i_file_offset f \<ge> n \<or> d = [] then data
    else put data (i_file_offset f) (take (min (i_file_offset f + length d) n - i_file_offset f) d)"
  have rest: "apply_fragments inflate n fs ?data = Inr out"
    using Cons.prems(1) d by (cases "n \<le> i_file_offset f \<or> d = []") (auto simp: Let_def)
  have len: "length ?data = n" using Cons.prems(2) put_part(1) [of data n] by auto
  have here: "?data ! k = (if covers inflate k f d then d ! (k - i_file_offset f) else data ! k)" if "k < n" for k
    using that Cons.prems(2) d put_part(2) [of data n "i_file_offset f" k d] by (auto simp: covers_def)
  have uniq: "covers inflate k f e \<Longrightarrow> e = d" for e k using d by (simp add: covers_def)
  note IH = Cons.IH [OF rest len]
  have "(\<exists>pre f' post e. f # fs = pre @ f' # post \<and> covers inflate k f' e \<and> out ! k = e ! (k - i_file_offset f') \<and>
        (\<forall>g \<in> set post. \<forall>e. \<not> covers inflate k g e)) \<or>
      (\<forall>g \<in> set (f # fs). \<forall>e. \<not> covers inflate k g e) \<and> out ! k = data ! k" if k: "k < n" for k
  proof (cases "\<forall>g \<in> set fs. \<forall>e. \<not> covers inflate k g e")
    case False
    then obtain pre f' post e where "fs = pre @ f' # post" "covers inflate k f' e" "out ! k = e ! (k - i_file_offset f')"
      "\<forall>g \<in> set post. \<forall>e. \<not> covers inflate k g e"
      using IH k by blast
    then show ?thesis by (intro disjI1 exI [of _ "f # pre"]) auto
  next
    case True
    then have out: "out ! k = ?data ! k" using IH k by fastforce
    show ?thesis
    proof (cases "covers inflate k f d")
      case c: True
      then show ?thesis using True out here [OF k] by (intro disjI1 exI [of _ "[]"]) auto
    next
      case False
      then show ?thesis using True out here [OF k] uniq by (intro disjI2) auto
    qed
  qed
  with IH d show ?case by auto
qed

text \<open>What one live file is: its metadata come from the only newest current inode of its number, and every
  byte from the newest current fragment that holds it, or it is zero.\<close>

definition file_follows_log ::
    "(bytes \<Rightarrow> nat \<Rightarrow> (bytes \<times> bool) option) \<Rightarrow> node list \<Rightarrow> config_file \<Rightarrow> bool" where
  "file_follows_log inflate nodes cf \<longleftrightarrow>
     (let fragments = set (current_fragments nodes (cf_inode cf))
      in (\<exists>m \<in> fragments. (\<forall>g \<in> fragments. i_version g \<le> i_version m) \<and> length (cf_data cf) = i_file_size m \<and>
            cf_mode cf = i_mode m \<and> cf_uid cf = i_uid m \<and> cf_gid cf = i_gid m \<and>
            cf_atime cf = i_atime m \<and> cf_mtime cf = i_mtime m \<and> cf_ctime cf = i_ctime m \<and> cf_flags cf = i_flags m) \<and>
         (\<forall>k < length (cf_data cf).
            (\<exists>f \<in> fragments. \<exists>d. covers inflate k f d \<and> cf_data cf ! k = d ! (k - i_file_offset f) \<and>
               (\<forall>g \<in> fragments. \<forall>e. covers inflate k g e \<longrightarrow> i_version g \<le> i_version f)) \<or>
            (\<forall>g \<in> fragments. \<forall>e. \<not> covers inflate k g e) \<and> cf_data cf ! k = 0))"

definition file_is_safe :: "config_file \<Rightarrow> bool" where
  "file_is_safe cf \<longleftrightarrow> cf_name cf \<noteq> [] \<and> length (cf_name cf) \<le> 255 \<and> 0x2F \<notin> set (cf_name cf) \<and>
     0 \<notin> set (cf_name cf) \<and> cf_dtype cf = 8 \<and> 2 \<le> cf_inode cf \<and> cf_mode cf AND 0xF000 = 0x8000 \<and>
     length (cf_data cf) \<le> CONFIG_SIZE"

lemma sorted_last_max: "sorted (map k xs) \<Longrightarrow> g \<in> set xs \<Longrightarrow> k g \<le> k (last xs)"
  by (induction xs) auto

lemma reconstruct_file_Inr:
  assumes "reconstruct_file inflate nodes name dirent = Inr cf"
  shows "cf_name cf = name" "cf_inode cf = d_inode dirent" "cf_dtype cf = d_dtype dirent"
    "cf_dirent_mctime cf = d_mctime dirent" "cf_mode cf AND 0xF000 = 0x8000"
    "length (cf_data cf) \<le> CONFIG_SIZE" "file_follows_log inflate nodes cf"
proof -
  define fs where "fs = sort_key i_version (current_fragments nodes (d_inode dirent))"
  define new where "new = filter (\<lambda>f. i_version f = i_version (last fs)) fs"
  define m where "m = hd new"
  obtain data where ok: "fs \<noteq> []" "length new = 1" "i_mode m AND 0xF000 = 0x8000" "i_file_size m \<le> CONFIG_SIZE"
    and data: "apply_fragments inflate (i_file_size m) fs (replicate (i_file_size m) 0) = Inr data"
    and cf: "cf = \<lparr>cf_name = name, cf_data = data, cf_inode = d_inode dirent, cf_mode = i_mode m,
      cf_uid = i_uid m, cf_gid = i_gid m, cf_atime = i_atime m, cf_mtime = i_mtime m, cf_ctime = i_ctime m,
      cf_flags = i_flags m, cf_dirent_mctime = d_mctime dirent, cf_dtype = d_dtype dirent\<rparr>"
    using assms by (auto simp: reconstruct_file_def Let_def fs_def [symmetric] new_def [symmetric] m_def [symmetric]
        split: if_splits)
  note app = apply_fragments_Inr [OF data length_replicate]
  show "cf_name cf = name" "cf_inode cf = d_inode dirent" "cf_dtype cf = d_dtype dirent"
    "cf_dirent_mctime cf = d_mctime dirent" "cf_mode cf AND 0xF000 = 0x8000"
    "length (cf_data cf) \<le> CONFIG_SIZE"
    using cf ok app by simp_all
  have sorted: "sorted (map i_version fs)" by (simp add: fs_def)
  have "m \<in> set new" unfolding m_def using ok(2) by (cases new) auto
  then have m: "m \<in> set fs" "i_version m = i_version (last fs)" by (simp_all add: new_def)
  have newest: "i_version g \<le> i_version m" if "g \<in> set fs" for g
    unfolding m(2) using that sorted by (intro sorted_last_max)
  have set: "set fs = set (current_fragments nodes (d_inode dirent))" by (simp add: fs_def)
  have bytes: "(\<exists>f \<in> set fs. \<exists>d. covers inflate k f d \<and> data ! k = d ! (k - i_file_offset f) \<and>
        (\<forall>g \<in> set fs. \<forall>e. covers inflate k g e \<longrightarrow> i_version g \<le> i_version f)) \<or>
      (\<forall>g \<in> set fs. \<forall>e. \<not> covers inflate k g e) \<and> data ! k = 0" if k: "k < i_file_size m" for k
  proof (cases "\<forall>g \<in> set fs. \<forall>e. \<not> covers inflate k g e")
    case True
    then show ?thesis using app k by fastforce
  next
    case False
    then obtain pre f post d where s: "fs = pre @ f # post" "covers inflate k f d" "data ! k = d ! (k - i_file_offset f)"
      "\<forall>g \<in> set post. \<forall>e. \<not> covers inflate k g e"
      using app k by blast
    have "sorted (map i_version (pre @ f # post))" using sorted s(1) by metis
    then have "g \<in> set pre \<Longrightarrow> i_version g \<le> i_version f" for g by (auto simp: sorted_append)
    then show ?thesis using s by (intro disjI1 bexI [of _ f]) auto
  qed
  have len: "length data = i_file_size m" using app by blast
  show "file_follows_log inflate nodes cf"
    unfolding file_follows_log_def Let_def cf config_file.simps set [symmetric] len
    using m(1) newest bytes by blast
qed

lemma reconstruct_files_Inr:
  assumes "reconstruct_files inflate nodes es seen = Inr files"
  shows "map cf_name files = map fst es \<and> map cf_inode files = map (d_inode \<circ> snd) es \<and>
    distinct (map cf_inode files) \<and> set (map cf_inode files) \<inter> set seen = {} \<and>
    (\<forall>f \<in> set files. file_is_safe f \<and> file_follows_log inflate nodes f)"
  using assms
proof (induction es arbitrary: seen files)
  case Nil
  then show ?case by simp
next
  case (Cons e es)
  obtain name dirent where e: "e = (name, dirent)" by (cases e)
  have ok: "name \<noteq> []" "length name \<le> 255" "0x2F \<notin> set name" "0 \<notin> set name" "d_dtype dirent = 8"
    "2 \<le> d_inode dirent" "d_inode dirent \<notin> set seen"
    using Cons.prems by (auto simp: e split: if_splits)
  obtain f fs where f: "reconstruct_file inflate nodes name dirent = Inr f"
    and fs: "reconstruct_files inflate nodes es (d_inode dirent # seen) = Inr fs" and files: "files = f # fs"
    using Cons.prems by (auto simp: e split: if_splits)
  note r = reconstruct_file_Inr [OF f]
  have safe: "file_is_safe f" using ok r by (simp add: file_is_safe_def)
  have IH: "map cf_name fs = map fst es" "map cf_inode fs = map (d_inode \<circ> snd) es" "distinct (map cf_inode fs)"
    "set (map cf_inode fs) \<inter> set (d_inode dirent # seen) = {}"
    "\<forall>f \<in> set fs. file_is_safe f \<and> file_follows_log inflate nodes f"
    using Cons.IH [OF fs] by blast+
  show ?case
    unfolding files e
  proof (intro conjI)
    show "map cf_name (f # fs) = map fst ((name, dirent) # es)"
      "map cf_inode (f # fs) = map (d_inode \<circ> snd) ((name, dirent) # es)"
      using r(1,2) IH(1,2) by simp_all
    show "distinct (map cf_inode (f # fs))" "set (map cf_inode (f # fs)) \<inter> set seen = {}"
      using r(2) ok(7) IH(3,4) by auto
    show "\<forall>f \<in> set (f # fs). file_is_safe f \<and> file_follows_log inflate nodes f"
      using safe r(7) IH(5) by simp
  qed
qed

lemma collect_dirents_keys:
  assumes "collect_dirents ds m = Inr m'" "distinct (map fst m)"
  shows "distinct (map fst m')"
  using assms
proof (induction ds arbitrary: m)
  case (Cons d ds)
  then show ?case by (auto simp: Let_def distinct_update split: option.splits if_splits)
qed simp

lemma live_root_in: "(n, d) \<in> set (live_root_entries m) \<longleftrightarrow> ((1, n), d) \<in> set m \<and> d_inode d \<noteq> 0"
  by (force simp: live_root_entries_def)

lemma live_root_Cons:
  "live_root_entries (((p, n), d) # m) =
    (if p = 1 \<and> d_inode d \<noteq> 0 then (n, d) # live_root_entries m else live_root_entries m)"
  by (simp add: live_root_entries_def)

lemma live_root_names:
  assumes "distinct (map fst m)"
  shows "distinct (map fst (live_root_entries m))"
  using assms
proof (induction m)
  case (Cons e m)
  obtain p n d where e: "e = ((p, n), d)" by (cases e) auto
  have "n \<notin> fst ` set (live_root_entries m)" if "p = 1"
    using Cons.prems that by (force simp: e live_root_in)
  then show ?case using Cons by (simp add: e live_root_Cons)
qed (simp add: live_root_entries_def)

lemma distinct_map_sort_key: "distinct (map f (sort_key k xs)) \<longleftrightarrow> distinct (map f xs)"
  by (simp add: distinct_map)


lemma minimal_file_reconstructed:
  assumes "length payload = 44"
  shows "reconstruct_live_config_files inflate (minimal_nodes payload) [((1, SERIAL_NAME), serial_dirent)] =
    Inr [\<lparr>cf_name = SERIAL_NAME, cf_data = payload, cf_inode = 7, cf_mode = 0x81A4, cf_uid = 0, cf_gid = 0,
      cf_atime = 18, cf_mtime = 18, cf_ctime = 18, cf_flags = 0, cf_dirent_mctime = 1, cf_dtype = 8\<rparr>]"
proof -
  have frag: "current_fragments (minimal_nodes payload) 7 = [serial_inode payload]"
    by (simp add: current_fragments_def minimal_nodes_def inode_of_def map_filter_simps serial_inode_def)
  have dec: "decode_jffs2_fragment inflate (serial_inode payload) = Inr payload"
    using assms by (simp add: decode_jffs2_fragment_def serial_inode_def constants)
  have off: "i_file_offset (serial_inode payload) = 0" by (simp add: serial_inode_def)
  have "payload \<noteq> []" using assms by auto
  then have "apply_fragments inflate 44 [serial_inode payload] (replicate 44 0) = Inr payload"
    using assms by (simp add: dec off Let_def put_def)
  then have "reconstruct_file inflate (minimal_nodes payload) SERIAL_NAME serial_dirent =
    Inr \<lparr>cf_name = SERIAL_NAME, cf_data = payload, cf_inode = 7, cf_mode = 0x81A4, cf_uid = 0, cf_gid = 0,
      cf_atime = 18, cf_mtime = 18, cf_ctime = 18, cf_flags = 0, cf_dirent_mctime = 1, cf_dtype = 8\<rparr>"
    by (simp add: reconstruct_file_def frag serial_dirent_def Let_def serial_inode_def constants
        del: apply_fragments.simps)
  moreover have "length SERIAL_NAME \<le> 255" "SERIAL_NAME \<noteq> []" "0x2F \<notin> set SERIAL_NAME" "0 \<notin> set SERIAL_NAME"
    by (simp_all add: SERIAL_NAME_def ascii_def)
  moreover have "d_dtype serial_dirent = 8" "d_inode serial_dirent = 7" by (simp_all add: serial_dirent_def)
  ultimately show ?thesis
    by (simp add: reconstruct_live_config_files_def live_root_entries_def)
qed


section \<open>The rebuilt partition\<close>

text \<open>Two lists of files with distinct names in the same order are determined by their sets.\<close>

lemma same_files_eq:
  assumes "same_files xs ys" "sorted (map cf_name xs)" "distinct (map cf_name xs)"
    "sorted (map cf_name ys)" "distinct (map cf_name ys)"
  shows "xs = ys"
proof -
  have names: "map cf_name xs = map cf_name ys"
    using assms by (intro sorted_distinct_set_unique) (simp_all add: same_files_def)
  then have len: "length xs = length ys" by (metis length_map)
  show ?thesis
  proof (rule nth_equalityI [OF len])
    fix i
    assume i: "i < length xs"
    then have "cf_name (xs ! i) = cf_name (ys ! i)" using names len by (metis nth_map)
    then show "xs ! i = ys ! i"
      using assms(1) i len by (auto simp: same_files_def)
  qed
qed

lemma add_serial_file_sorted:
  assumes "add_serial_file payload files = Inr out" "sorted (map cf_name files)" "distinct (map cf_name files)"
  shows "sorted (map cf_name out)" "distinct (map cf_name out)"
proof -
  have new: "cf_name (serial_file p i) = SERIAL_NAME" for p i by (simp add: serial_file_def)
  have "SERIAL_NAME \<notin> set (map cf_name files)" if "find (\<lambda>f. cf_name f = SERIAL_NAME) files = None"
    using that by (auto simp: find_None_iff)
  then show "sorted (map cf_name out)" "distinct (map cf_name out)"
    using assms unfolding add_serial_file_def
    by (auto simp: distinct_map_sort_key new split: option.splits if_splits)
qed

lemma preserved_files_sorted:
  assumes "extract_serial_and_config_info inflate config au True = Inr info"
  obtains fs where "ci_live_config_files info = Some fs" "sorted (map cf_name fs)" "distinct (map cf_name fs)"
proof -
  obtain dirents files fs where d: "collect_dirents (List.map_filter dirent_of (filter n_current (parse_jffs2 config))) [] = Inr dirents"
    and files: "reconstruct_live_config_files inflate (parse_jffs2 config) dirents = Inr files"
    and fs: "add_serial_file (ci_serial_payload info) files = Inr fs" "ci_live_config_files info = Some fs"
    using extract_Inr(2) [OF assms] by blast
  have keys: "distinct (map fst dirents)" by (rule collect_dirents_keys [OF d]) simp
  let ?es = "sort_key fst (live_root_entries dirents)"
  have "reconstruct_files inflate (parse_jffs2 config) ?es [] = Inr files"
    using files by (simp add: reconstruct_live_config_files_def split: if_splits)
  from reconstruct_files_Inr [OF this] have "map cf_name files = map fst ?es" by blast
  moreover have "distinct (map fst ?es)" using live_root_names [OF keys] by (simp add: distinct_map_sort_key)
  moreover have "sorted (map fst ?es)" by simp
  ultimately have "sorted (map cf_name files)" "distinct (map cf_name files)" by simp_all
  from add_serial_file_sorted [OF fs(1) this] fs(2) that show ?thesis by blast
qed

lemma place_Inr:
  assumes "place out c nd = Inr (out', c')" "length out = CONFIG_SIZE"
  shows "length out' = CONFIG_SIZE" "0x4000 \<le> k \<Longrightarrow> out' ! k = out ! k"
    "c \<le> k \<Longrightarrow> c' = align4 (c + length nd)" "c + length nd \<le> 0x4000"
  using assms by (auto simp: place_def put_def nth_append constants split: if_splits)

lemma place_files_frame:
  assumes "place_files fs out c = Inr built" "length out = CONFIG_SIZE"
  shows "length built = CONFIG_SIZE \<and> (\<forall>k \<ge> 0x4000. built ! k = out ! k)"
  using assms
proof (induction fs arbitrary: out c)
  case (Cons f fs)
  then obtain d i o1 c1 o2 c2 where "place out c d = Inr (o1, c1)" "place o1 c1 i = Inr (o2, c2)"
    "place_files fs o2 c2 = Inr built"
    by auto
  then show ?case using Cons.IH [of o2 c2] Cons.prems(2) place_Inr(1,2) [of out c d o1 c1] place_Inr(1,2) [of o1 c1 i o2 c2]
    by simp
qed simp

end
