(* ===== verification/Backup_Archive.thy ===== *)
theory Backup_Archive
  imports Complex_Main Hashes Jffs2
begin

text \<open>
  What the two readers of a backup ZIP share: JSON values as Python sees them, archive listings, the
  hash functions, and Python's comparisons between a manifest value and an expected scalar.

  \<open>hashlib\<close> is a record of two functions from bytes to the hexadecimal digest. A Python string is the
  list of its code points. An open \<open>zipfile.ZipFile\<close> is the list of its entries, where a member whose
  \<open>read\<close> raises one of the exceptions the code catches has no data. \<open>json.loads\<close> after
  \<open>decode("utf-8")\<close> is a parameter that returns \<open>None\<close> where either raises.
\<close>

section \<open>Strings and hashes\<close>

type_synonym ustring = "nat list"

definition us :: "string \<Rightarrow> ustring" where
  "us text = map of_char text"

record hash_functions =
  sha256 :: "bytes \<Rightarrow> string"
  md5 :: "bytes \<Rightarrow> string"

text \<open>\<open>hashlib\<close> itself.\<close>

definition hashlib :: hash_functions where
  "hashlib = \<lparr>sha256 = sha256_hexdigest, md5 = (\<lambda>data. hex_bytes (md5_digest data))\<rparr>"

text \<open>
  \<open>str.casefold\<close>, as far as a comparison with an ASCII string, or the search for one, can see: the
  capital letters and the code points whose folding has an ASCII character are folded. Every other
  code point folds to code points outside ASCII only, and is kept.
\<close>

definition fold_point :: "nat \<Rightarrow> ustring" where
  "fold_point c =
     (if 65 \<le> c \<and> c \<le> 90 then [c + 32]
      else if c \<in> {0xDF, 0x1E9E} then us ''ss''
      else if c = 0x130 then [0x69, 0x307]
      else if c = 0x149 then [0x2BC, 0x6E]
      else if c = 0x17F then us ''s''
      else if c = 0x1F0 then [0x6A, 0x30C]
      else if c = 0x1E96 then [0x68, 0x331]
      else if c = 0x1E97 then [0x74, 0x308]
      else if c = 0x1E98 then [0x77, 0x30A]
      else if c = 0x1E99 then [0x79, 0x30A]
      else if c = 0x1E9A then [0x61, 0x2BE]
      else if c = 0x212A then us ''k''
      else if c = 0xFB00 then us ''ff''
      else if c = 0xFB01 then us ''fi''
      else if c = 0xFB02 then us ''fl''
      else if c = 0xFB03 then us ''ffi''
      else if c = 0xFB04 then us ''ffl''
      else if c \<in> {0xFB05, 0xFB06} then us ''st''
      else [c])"

definition casefold :: "ustring \<Rightarrow> ustring" where
  "casefold text = concat (map fold_point text)"

text \<open>\<open>Path.suffix\<close>: of the last path component, from its last dot, unless that starts or ends it.\<close>

definition path_name :: "ustring \<Rightarrow> ustring" where
  "path_name path = rev (takeWhile (\<lambda>c. c \<noteq> 0x2F) (rev path))"

definition path_suffix :: "ustring \<Rightarrow> ustring" where
  "path_suffix path =
     (let name = path_name path;
          after = takeWhile (\<lambda>c. c \<noteq> 0x2E) (rev name);
          before = length name - (length after + 1)
      in if 0x2E \<in> set name \<and> 0 < before \<and> after \<noteq> [] then drop before name else [])"

section \<open>JSON values\<close>

text \<open>A finite float is the rational it stands for; Python compares the two exactly.\<close>

datatype json =
    JNull
  | JBool bool
  | JInt int
  | JFloat rat
  | JNonfinite
  | JStr ustring
  | JList "json list"
  | JObject "(ustring \<times> json) list"

text \<open>A bool is a number in Python's comparisons.\<close>

fun json_number :: "json \<Rightarrow> rat option" where
  "json_number (JBool b) = Some (if b then 1 else 0)"
| "json_number (JInt i) = Some (of_int i)"
| "json_number (JFloat r) = Some r"
| "json_number _ = None"

text \<open>\<open>value == expected\<close> for a scalar \<open>expected\<close>.\<close>

definition json_eq :: "json \<Rightarrow> json \<Rightarrow> bool" where
  "json_eq v expected =
     (case (json_number v, json_number expected) of
        (Some a, Some b) \<Rightarrow> a = b
      | _ \<Rightarrow> v = expected \<and> v \<noteq> JNonfinite)"

text \<open>\<open>obj.get(key)\<close>; a missing key reads as \<open>None\<close>, which is also JSON's null.\<close>

definition json_get :: "(ustring \<times> json) list \<Rightarrow> string \<Rightarrow> json" where
  "json_get obj key = (case map_of obj (us key) of None \<Rightarrow> JNull | Some v \<Rightarrow> v)"

text \<open>Every listed key has its expected value.\<close>

definition json_matches :: "(ustring \<times> json) list \<Rightarrow> (string \<times> json) list \<Rightarrow> bool" where
  "json_matches obj expected \<longleftrightarrow> list_all (\<lambda>(key, v). json_eq (json_get obj key) v) expected"

text \<open>\<open>type(v) is int and lo <= v <= hi\<close>.\<close>

fun json_int_within :: "json \<Rightarrow> int \<Rightarrow> int \<Rightarrow> bool" where
  "json_int_within (JInt i) lo hi = (lo \<le> i \<and> i \<le> hi)"
| "json_int_within _ lo hi = False"

section \<open>Archives\<close>

record zip_item =
  zi_filename :: ustring
  zi_flag_bits :: nat
  zi_file_size :: nat
  zi_data :: "bytes option"

text \<open>\<open>by_name[name]\<close> and \<open>archive.read(name)\<close>: a later entry of the same name wins.\<close>

definition zip_entry :: "zip_item list \<Rightarrow> string \<Rightarrow> zip_item option" where
  "zip_entry items name = find (\<lambda>i. zi_filename i = us name) (rev items)"

section \<open>The evidence every reader asks for\<close>

definition MIN_IDENTICAL_READS :: int where "MIN_IDENTICAL_READS = 3"
definition MAX_USB_READ_ATTEMPTS :: int where "MAX_USB_READ_ATTEMPTS = 5"
definition USB_BACKUP_FORMAT :: string where "USB_BACKUP_FORMAT = ''cc2flash-backup-v2''"
definition USB_BACKUP_IMAGE_MEMBER :: string where "USB_BACKUP_IMAGE_MEMBER = ''flash.bin''"
definition USB_BACKUP_MANIFEST_MEMBER :: string where "USB_BACKUP_MANIFEST_MEMBER = ''manifest.json''"
definition USB_BACKUP_MEMBERS :: "ustring set" where
  "USB_BACKUP_MEMBERS = {us USB_BACKUP_IMAGE_MEMBER, us USB_BACKUP_MANIFEST_MEMBER}"
definition MAX_USB_MANIFEST_SIZE :: nat where "MAX_USB_MANIFEST_SIZE = 1024 * 1024"
definition KNOWN_BOOTLOADER_SHA256 :: string where
  "KNOWN_BOOTLOADER_SHA256 = ''5602ec961b4410ccceea0d4910e4fa768c6998bd4ba86143ba50855bdd0b7a54''"
definition EXPECTED_USB_PARTITIONS :: "(int \<times> int \<times> string) list" where
  "EXPECTED_USB_PARTITIONS =
     [(0, 0x040000, ''boot''), (1, 0x150000, ''kernel''), (2, 0x158000, ''root''),
      (3, 0x4E8000, ''system''), (4, 0x010000, ''hwconfig''), (5, 0x020000, ''config'')]"

definition image_hashes :: "hash_functions \<Rightarrow> bytes \<Rightarrow> (string \<times> json) list" where
  "image_hashes H data =
     [(''size'', JInt (int (length data))), (''sha256'', JStr (us (sha256 H data))), (''md5'', JStr (us (md5 H data)))]"

text \<open>The bootloader entry a manifest must carry, apart from its acceptance.\<close>

definition known_reference :: "hash_functions \<Rightarrow> bytes \<Rightarrow> bool" where
  "known_reference H img \<longleftrightarrow> sha256 H (pslice img 0 0x040000) = KNOWN_BOOTLOADER_SHA256"

definition expected_bootloader :: "hash_functions \<Rightarrow> bytes \<Rightarrow> (string \<times> json) list" where
  "expected_bootloader H img =
     (let boot_hash = sha256 H (pslice img 0 0x040000)
      in [(''partition'', JStr (us ''boot'')), (''size'', JInt 0x040000), (''sha256'', JStr (us boot_hash)),
          (''known_sha256'', JStr (us KNOWN_BOOTLOADER_SHA256)),
          (''known_reference'', JBool (boot_hash = KNOWN_BOOTLOADER_SHA256))])"

definition expected_acceptance :: "hash_functions \<Rightarrow> bytes \<Rightarrow> json" where
  "expected_acceptance H img = JStr (us (if known_reference H img then ''known-reference'' else ''explicit-hash''))"

text \<open>What both readers accept as evidence of three identical reads of \<open>img\<close>.\<close>

definition read_evidence :: "hash_functions \<Rightarrow> (ustring \<times> json) list \<Rightarrow> bytes \<Rightarrow> bool" where
  "read_evidence H manifest img \<longleftrightarrow>
     json_get manifest ''format'' = JStr (us USB_BACKUP_FORMAT) \<and>
     json_matches manifest (image_hashes H img) \<and>
     (\<exists>boot. json_get manifest ''bootloader'' = JObject boot \<and> json_matches boot (expected_bootloader H img) \<and>
        json_get boot ''acceptance'' = expected_acceptance H img) \<and>
     json_eq (json_get manifest ''required_identical_reads'') (JInt MIN_IDENTICAL_READS) \<and>
     json_get manifest ''consecutive_identical_reads'' = JInt MIN_IDENTICAL_READS \<and>
     json_int_within (json_get manifest ''read_passes'') MIN_IDENTICAL_READS MAX_USB_READ_ATTEMPTS \<and>
     json_eq (json_get manifest ''maximum_read_attempts'') (JInt MAX_USB_READ_ATTEMPTS)"

lemma json_eq_str [simp]: "json_eq v (JStr s) \<longleftrightarrow> v = JStr s"
  by (cases v) (auto simp: json_eq_def)

lemma json_eq_int_refl [simp]: "json_eq (JInt i) (JInt j) \<longleftrightarrow> i = j"
  by (simp add: json_eq_def)

lemma json_int_within_Ex: "json_int_within v lo hi \<longleftrightarrow> (\<exists>i. v = JInt i \<and> lo \<le> i \<and> i \<le> hi)"
  by (cases v) auto

end
