(* ===== verification/Image_Source.thy ===== *)
theory Image_Source
  imports Backup_Archive
begin

text \<open>
  The inputs of \<open>cc2camera/image.py\<close>: \<open>read_image_source\<close> reads a raw dump or a backup ZIP with its
  evidence, \<open>verify_confirmation_reads\<close> compares further reads with the first one, and
  \<open>difference_summary\<close> says where two images differ. The file system is a record of what reading a
  path gives; \<open>open_zip\<close> is \<open>None\<close> where \<open>zipfile\<close> raises one of the exceptions the code catches.
\<close>

record host_files =
  read_bytes :: "ustring \<Rightarrow> bytes res"
  open_zip :: "ustring \<Rightarrow> zip_item list option"
  json_loads :: "bytes \<Rightarrow> json option"

record usb_evidence =
  ue_read_passes :: int
  ue_required :: int
  ue_consecutive :: int
  ue_maximum :: int
  ue_acceptance :: string

record source_info =
  si_format :: string
  si_image_member :: "string option"
  si_usb :: "usb_evidence option"
  si_size :: nat
  si_sha256 :: string
  si_md5 :: string
  si_evidenced :: int

section \<open>Reading an image\<close>

definition partition_entry_ok :: "json \<Rightarrow> int \<times> int \<times> string \<Rightarrow> bool" where
  "partition_entry_ok item expected =
     (case expected of (index, sz, name) \<Rightarrow>
       (case item of
          JObject obj \<Rightarrow> json_eq (json_get obj ''index'') (JInt index) \<and> json_eq (json_get obj ''size'') (JInt sz) \<and>
            (case json_get obj ''name'' of JStr s \<Rightarrow> casefold s = us name | _ \<Rightarrow> False)
        | _ \<Rightarrow> False))"

definition partitions_ok :: "json \<Rightarrow> bool" where
  "partitions_ok partitions =
     (case partitions of
        JList items \<Rightarrow> length items = length EXPECTED_USB_PARTITIONS \<and>
          list_all2 partition_entry_ok items EXPECTED_USB_PARTITIONS
      | _ \<Rightarrow> False)"

definition validate_usb_backup_manifest :: "hash_functions \<Rightarrow> json \<Rightarrow> bytes \<Rightarrow> source_info res" where
  "validate_usb_backup_manifest H manifest img =
     (case manifest of
        JObject m \<Rightarrow>
          if \<not> json_eq (json_get m ''format'') (JStr (us USB_BACKUP_FORMAT))
          then Inl (ValidationError ''USB backup requires a cc2flash-backup-v2 manifest'')
          else if \<not> json_matches m (image_hashes H img)
          then Inl (ValidationError ''USB backup manifest does not match flash.bin'')
          else (case json_get m ''bootloader'' of
              JObject bootloader \<Rightarrow>
                if \<not> json_matches bootloader (expected_bootloader H img)
                then Inl (ValidationError ''USB backup manifest bootloader does not match flash.bin'')
                else if \<not> json_eq (json_get bootloader ''acceptance'') (expected_acceptance H img)
                then Inl (ValidationError ''USB backup manifest does not contain the required bootloader hash acceptance'')
                else if \<not> json_eq (json_get m ''required_identical_reads'') (JInt MIN_IDENTICAL_READS)
                then Inl (ValidationError ''USB backup does not require three identical reads'')
                else if \<not> json_int_within (json_get m ''consecutive_identical_reads'') MIN_IDENTICAL_READS MIN_IDENTICAL_READS
                then Inl (ValidationError ''USB backup lacks three consecutive identical physical reads'')
                else (case json_get m ''read_passes'' of
                    JInt read_passes \<Rightarrow>
                      if \<not> (MIN_IDENTICAL_READS \<le> read_passes \<and> read_passes \<le> MAX_USB_READ_ATTEMPTS)
                      then Inl (ValidationError ''USB backup has an invalid physical-read count'')
                      else if \<not> json_eq (json_get m ''maximum_read_attempts'') (JInt MAX_USB_READ_ATTEMPTS)
                      then Inl (ValidationError ''USB backup has an unexpected read-attempt policy'')
                      else if \<not> partitions_ok (json_get m ''partitions'')
                      then Inl (ValidationError ''USB backup manifest has an invalid partition map'')
                      else Inr \<lparr>si_format = USB_BACKUP_FORMAT, si_image_member = Some USB_BACKUP_IMAGE_MEMBER,
                        si_usb = Some \<lparr>ue_read_passes = read_passes, ue_required = MIN_IDENTICAL_READS,
                          ue_consecutive = MIN_IDENTICAL_READS, ue_maximum = MAX_USB_READ_ATTEMPTS,
                          ue_acceptance = (if known_reference H img then ''known-reference'' else ''explicit-hash'')\<rparr>,
                        si_size = length img, si_sha256 = sha256 H img, si_md5 = md5 H img,
                        si_evidenced = MIN_IDENTICAL_READS\<rparr>
                  | _ \<Rightarrow> Inl (ValidationError ''USB backup has an invalid physical-read count''))
            | _ \<Rightarrow> Inl (ValidationError ''USB backup manifest has no bootloader fingerprint''))
      | _ \<Rightarrow> Inl (ValidationError ''USB backup manifest must be a JSON object''))"

text \<open>The checks on the archive, from its listing to the bytes of its two members.\<close>

definition read_backup_members :: "zip_item list \<Rightarrow> (bytes \<times> bytes) res" where
  "read_backup_members items =
     (let names = map zi_filename items
      in if length names \<noteq> 2 \<or> set names \<noteq> USB_BACKUP_MEMBERS
         then Inl (ValidationError ''USB backup ZIP must contain exactly flash.bin and manifest.json'')
         else if \<exists>i \<in> set items. zi_flag_bits i AND 1 \<noteq> 0
         then Inl (ValidationError ''USB backup ZIP must not be encrypted'')
         else (case (zip_entry items USB_BACKUP_IMAGE_MEMBER, zip_entry items USB_BACKUP_MANIFEST_MEMBER) of
             (Some flash, Some manifest) \<Rightarrow>
               if zi_file_size flash \<noteq> FLASH_SIZE
               then Inl (ValidationError ''USB backup flash.bin is not exactly 8 MiB'')
               else if zi_file_size manifest > MAX_USB_MANIFEST_SIZE
               then Inl (ValidationError ''USB backup manifest is unexpectedly large'')
               else (case (zi_data flash, zi_data manifest) of
                   (Some img, Some manifest_bytes) \<Rightarrow> Inr (img, manifest_bytes)
                 | _ \<Rightarrow> Inl (ValidationError ''USB backup ZIP is unreadable or corrupt''))
           | _ \<Rightarrow> Inl KeyError))"

definition read_image_source :: "hash_functions \<Rightarrow> host_files \<Rightarrow> ustring \<Rightarrow> (bytes \<times> source_info) res" where
  "read_image_source H fs path =
     (if casefold (path_suffix path) \<noteq> us ''.zip''
      then res_bind (read_bytes fs path) (\<lambda>img.
        Inr (img, \<lparr>si_format = ''raw-flash-image'', si_image_member = None, si_usb = None, si_size = length img,
          si_sha256 = sha256 H img, si_md5 = md5 H img, si_evidenced = 1\<rparr>))
      else case open_zip fs path of
          None \<Rightarrow> Inl (ValidationError ''USB backup ZIP is unreadable or corrupt'')
        | Some items \<Rightarrow>
            res_bind (read_backup_members items) (\<lambda>(img, manifest_bytes).
            if length img \<noteq> FLASH_SIZE then Inl (ValidationError ''USB backup flash.bin is not exactly 8 MiB'')
            else case json_loads fs manifest_bytes of
                None \<Rightarrow> Inl (ValidationError ''USB backup manifest is unreadable'')
              | Some manifest \<Rightarrow>
                  res_bind (validate_usb_backup_manifest H manifest img) (\<lambda>evidence. Inr (img, evidence))))"

section \<open>Comparing reads\<close>

record difference =
  different_bytes :: nat
  first_difference :: "nat option"
  last_difference :: "nat option"

fun scan_differences :: "nat \<Rightarrow> bytes \<Rightarrow> bytes \<Rightarrow> difference \<Rightarrow> difference" where
  "scan_differences index (old # before) (new # after) acc =
     scan_differences (index + 1) before after
       (if old \<noteq> new
        then \<lparr>different_bytes = different_bytes acc + 1,
               first_difference = (case first_difference acc of None \<Rightarrow> Some index | f \<Rightarrow> f),
               last_difference = Some index\<rparr>
        else acc)"
| "scan_differences index _ _ acc = acc"

definition difference_summary :: "bytes \<Rightarrow> bytes \<Rightarrow> difference res" where
  "difference_summary before after =
     (if length before \<noteq> length after
      then Inl (ValueError ''difference_summary requires equal-size buffers'')
      else Inr (scan_differences 0 before after
        \<lparr>different_bytes = 0, first_difference = None, last_difference = None\<rparr>))"

record confirmation =
  cr_filename :: ustring
  cr_size :: nat
  cr_sha256 :: string
  cr_source_format :: string
  cr_evidenced :: int

fun verify_confirmation_reads ::
    "hash_functions \<Rightarrow> host_files \<Rightarrow> bytes \<Rightarrow> ustring list \<Rightarrow> confirmation list res" where
  "verify_confirmation_reads H fs primary [] = Inr []"
| "verify_confirmation_reads H fs primary (path # paths) =
     res_bind (read_image_source H fs path) (\<lambda>(data, src).
     if length data \<noteq> length primary then Inl (ValidationError ''Confirmation read has a different size'')
     else if data \<noteq> primary
     then res_bind (difference_summary primary data) (\<lambda>_.
       Inl (ValidationError ''Confirmation read is not byte-identical to the primary''))
     else res_bind (verify_confirmation_reads H fs primary paths) (\<lambda>results.
       Inr (\<lparr>cr_filename = path, cr_size = length data, cr_sha256 = sha256 H primary,
         cr_source_format = si_format src, cr_evidenced = si_evidenced src\<rparr> # results)))"

section \<open>Properties\<close>

lemma scan_differences_spec:
  assumes "length before = length after"
  shows "scan_differences k before after acc =
    (let D = {i. i < length before \<and> before ! i \<noteq> after ! i}
     in if D = {} then acc
        else \<lparr>different_bytes = different_bytes acc + card D,
          first_difference = (case first_difference acc of None \<Rightarrow> Some (k + Min D) | f \<Rightarrow> f),
          last_difference = Some (k + Max D)\<rparr>)"
  using assms
proof (induction before after arbitrary: k acc rule: list_induct2)
  case Nil
  then show ?case by simp
next
  case (Cons x xs y ys)
  define D where "D = {i. i < length xs \<and> xs ! i \<noteq> ys ! i}"
  have fin: "finite D" by (simp add: D_def)
  have E: "{i. i < length (x # xs) \<and> (x # xs) ! i \<noteq> (y # ys) ! i} = (if x \<noteq> y then insert 0 (Suc ` D) else Suc ` D)"
    (is "?E = ?R")
  proof (rule set_eqI)
    show "i \<in> ?E \<longleftrightarrow> i \<in> ?R" for i
      by (cases i) (auto simp: D_def)
  qed
  have card: "card (Suc ` D) = card D" by (simp add: card_image)
  have mm: "Max (Suc ` D) = Suc (Max D)" "Min (Suc ` D) = Suc (Min D)" if "D \<noteq> {}"
    using that mono_Max_commute [of Suc D] mono_Min_commute [of Suc D] fin by (simp_all add: mono_def)
  show ?case
    unfolding scan_differences.simps Cons.IH E D_def [symmetric]
    by (cases "x = y"; cases "D = {}")
      (simp_all add: Let_def card mm fin card_insert_if min_def max_def split: option.splits)
qed

text \<open>\<open>difference_summary\<close> of two images of one size counts the positions where they differ and names
  the first and the last of them, none when they are equal; images of different sizes raise.\<close>

theorem difference_summary_correct:
  "difference_summary before after =
    (if length before \<noteq> length after then Inl (ValueError ''difference_summary requires equal-size buffers'')
     else let D = {i. i < length before \<and> before ! i \<noteq> after ! i}
       in Inr \<lparr>different_bytes = card D, first_difference = (if D = {} then None else Some (Min D)),
            last_difference = (if D = {} then None else Some (Max D))\<rparr>)"
  by (simp add: difference_summary_def scan_differences_spec Let_def)

text \<open>\<open>verify_confirmation_reads\<close> succeeds exactly when every path reads as an image byte-identical to
  the primary one, and then lists, in order, each path with its source format and its evidence.\<close>

theorem confirmation_reads_accepted_iff:
  "verify_confirmation_reads H fs primary paths = Inr results \<longleftrightarrow>
     list_all2 (\<lambda>path r. \<exists>src. read_image_source H fs path = Inr (primary, src) \<and>
       r = \<lparr>cr_filename = path, cr_size = length primary, cr_sha256 = sha256 H primary,
         cr_source_format = si_format src, cr_evidenced = si_evidenced src\<rparr>) paths results"
proof (induction paths arbitrary: results)
  case (Cons path paths)
  then show ?case
    by (auto simp: list_all2_Cons1 split: if_splits)
qed auto

lemma read_backup_members_Inr:
  "read_backup_members items = Inr (img, manifest_bytes) \<longleftrightarrow>
     length items = 2 \<and> zi_filename ` set items = USB_BACKUP_MEMBERS \<and> (\<forall>i \<in> set items. zi_flag_bits i AND 1 = 0) \<and>
     (\<exists>flash manifest. zip_entry items USB_BACKUP_IMAGE_MEMBER = Some flash \<and>
        zip_entry items USB_BACKUP_MANIFEST_MEMBER = Some manifest \<and> zi_file_size flash = FLASH_SIZE \<and>
        zi_file_size manifest \<le> MAX_USB_MANIFEST_SIZE \<and> zi_data flash = Some img \<and> zi_data manifest = Some manifest_bytes)"
  by (auto simp: read_backup_members_def Let_def split: option.splits)

definition usb_source_info :: "hash_functions \<Rightarrow> bytes \<Rightarrow> int \<Rightarrow> source_info" where
  "usb_source_info H img read_passes =
     \<lparr>si_format = USB_BACKUP_FORMAT, si_image_member = Some USB_BACKUP_IMAGE_MEMBER,
      si_usb = Some \<lparr>ue_read_passes = read_passes, ue_required = 3, ue_consecutive = 3, ue_maximum = 5,
        ue_acceptance = (if known_reference H img then ''known-reference'' else ''explicit-hash'')\<rparr>,
      si_size = length img, si_sha256 = sha256 H img, si_md5 = md5 H img, si_evidenced = 3\<rparr>"

lemma expected_acceptance_str: "\<exists>s. expected_acceptance H img = JStr s"
  by (simp add: expected_acceptance_def)

lemma validate_manifest_Inr:
  "validate_usb_backup_manifest H manifest img = Inr info \<longleftrightarrow>
     (\<exists>m passes. manifest = JObject m \<and> read_evidence H m img \<and> partitions_ok (json_get m ''partitions'') \<and>
        json_get m ''read_passes'' = JInt passes \<and> info = usb_source_info H img passes)"
proof -
  have acc: "json_eq v (expected_acceptance H img) \<longleftrightarrow> v = expected_acceptance H img" for v
    by (simp add: expected_acceptance_def)
  have three: "json_int_within v 3 3 \<longleftrightarrow> v = JInt 3" for v by (cases v) auto
  show ?thesis
  proof (cases manifest)
    case (JObject m)
    show ?thesis
    proof (cases "json_get m ''bootloader''")
      case boot: (JObject b)
      show ?thesis
        unfolding JObject validate_usb_backup_manifest_def read_evidence_def acc usb_source_info_def MIN_IDENTICAL_READS_def
          MAX_USB_READ_ATTEMPTS_def three boot
        by (cases "json_get m ''read_passes''") (auto simp: boot)
    qed (auto simp: JObject validate_usb_backup_manifest_def read_evidence_def)
  qed (simp_all add: validate_usb_backup_manifest_def)
qed

text \<open>A listing that both readers accept, and what it holds.\<close>

definition genuine_archive :: "zip_item list \<Rightarrow> bytes \<Rightarrow> bytes \<Rightarrow> bool" where
  "genuine_archive items img manifest_bytes \<longleftrightarrow>
     length items = 2 \<and> zi_filename ` set items = {us ''flash.bin'', us ''manifest.json''} \<and>
     (\<forall>i \<in> set items. zi_flag_bits i AND 1 = 0) \<and>
     (\<exists>flash manifest. zip_entry items ''flash.bin'' = Some flash \<and> zip_entry items ''manifest.json'' = Some manifest \<and>
        zi_file_size flash = FLASH_SIZE \<and> zi_file_size manifest \<le> 1048576 \<and> zi_data flash = Some img \<and>
        zi_data manifest = Some manifest_bytes)"

lemma read_backup_members_genuine:
  "read_backup_members items = Inr (img, manifest_bytes) \<longleftrightarrow> genuine_archive items img manifest_bytes"
  by (simp add: read_backup_members_Inr genuine_archive_def USB_BACKUP_MEMBERS_def USB_BACKUP_IMAGE_MEMBER_def
      USB_BACKUP_MANIFEST_MEMBER_def MAX_USB_MANIFEST_SIZE_def)

lemma read_zip_source_Inr:
  assumes "casefold (path_suffix path) = us ''.zip''"
  shows "read_image_source H fs path = Inr (img, info) \<longleftrightarrow>
    (\<exists>items manifest_bytes m passes. open_zip fs path = Some items \<and> genuine_archive items img manifest_bytes \<and>
       length img = FLASH_SIZE \<and> json_loads fs manifest_bytes = Some (JObject m) \<and> read_evidence H m img \<and>
       partitions_ok (json_get m ''partitions'') \<and> json_get m ''read_passes'' = JInt passes \<and>
       info = usb_source_info H img passes)"
proof
  assume "read_image_source H fs path = Inr (img, info)"
  then show "\<exists>items manifest_bytes m passes. open_zip fs path = Some items \<and> genuine_archive items img manifest_bytes \<and>
       length img = FLASH_SIZE \<and> json_loads fs manifest_bytes = Some (JObject m) \<and> read_evidence H m img \<and>
       partitions_ok (json_get m ''partitions'') \<and> json_get m ''read_passes'' = JInt passes \<and>
       info = usb_source_info H img passes"
    using assms
    by (auto simp: read_image_source_def read_backup_members_genuine validate_manifest_Inr split: option.splits if_splits)
next
  assume "\<exists>items manifest_bytes m passes. open_zip fs path = Some items \<and> genuine_archive items img manifest_bytes \<and>
       length img = FLASH_SIZE \<and> json_loads fs manifest_bytes = Some (JObject m) \<and> read_evidence H m img \<and>
       partitions_ok (json_get m ''partitions'') \<and> json_get m ''read_passes'' = JInt passes \<and>
       info = usb_source_info H img passes"
  then obtain items manifest_bytes m passes where r: "open_zip fs path = Some items"
    "read_backup_members items = Inr (img, manifest_bytes)" "length img = FLASH_SIZE"
    "json_loads fs manifest_bytes = Some (JObject m)"
    and v: "validate_usb_backup_manifest H (JObject m) img = Inr info"
    unfolding read_backup_members_genuine validate_manifest_Inr by blast
  show "read_image_source H fs path = Inr (img, info)"
    using assms by (simp add: read_image_source_def r v)
qed

text \<open>C36: a path that ends in \<open>.zip\<close> in any case reads as an image exactly when it is an unencrypted
  archive of \<open>flash.bin\<close> and \<open>manifest.json\<close> and nothing else, the image is 8 MiB, and the manifest is a
  JSON object whose hashes, bootloader entry with its acceptance, three consecutive identical reads
  within five and partition map all agree with the image; the evidence returned is what it says.\<close>

theorem usb_backup_accepted_iff:
  assumes "casefold (path_suffix path) = us ''.zip''"
  shows "read_image_source H fs path = Inr (img, info) \<longleftrightarrow>
    (\<exists>items manifest_bytes m passes. open_zip fs path = Some items \<and> genuine_archive items img manifest_bytes \<and>
       length img = FLASH_SIZE \<and> json_loads fs manifest_bytes = Some (JObject m) \<and> read_evidence H m img \<and>
       partitions_ok (json_get m ''partitions'') \<and> json_get m ''read_passes'' = JInt passes \<and>
       info = usb_source_info H img passes)"
  using assms by (rule read_zip_source_Inr)

text \<open>A backup of an all-zero image under hash functions that return fixed strings.\<close>

definition sample_hashes :: hash_functions where
  "sample_hashes = \<lparr>sha256 = (\<lambda>_. ''00''), md5 = (\<lambda>_. ''11'')\<rparr>"

definition sample_partition :: "int \<times> int \<times> string \<Rightarrow> json" where
  "sample_partition p = (case p of (index, sz, name) \<Rightarrow>
     JObject [(us ''index'', JInt index), (us ''size'', JInt sz), (us ''erase_size'', JInt 0x10000), (us ''name'', JStr (us name))])"

definition sample_manifest :: "(ustring \<times> json) list" where
  "sample_manifest =
     [(us ''format'', JStr (us ''cc2flash-backup-v2'')), (us ''size'', JInt 0x800000), (us ''sha256'', JStr (us ''00'')),
      (us ''md5'', JStr (us ''11'')),
      (us ''bootloader'', JObject [(us ''partition'', JStr (us ''boot'')), (us ''size'', JInt 0x040000),
         (us ''sha256'', JStr (us ''00'')), (us ''known_sha256'', JStr (us KNOWN_BOOTLOADER_SHA256)),
         (us ''known_reference'', JBool False), (us ''acceptance'', JStr (us ''explicit-hash''))]),
      (us ''required_identical_reads'', JInt 3), (us ''consecutive_identical_reads'', JInt 3), (us ''read_passes'', JInt 4),
      (us ''maximum_read_attempts'', JInt 5), (us ''partitions'', JList (map sample_partition EXPECTED_USB_PARTITIONS))]"

definition sample_archive :: "zip_item list" where
  "sample_archive =
     [\<lparr>zi_filename = us ''flash.bin'', zi_flag_bits = 0, zi_file_size = 0x800000, zi_data = Some (replicate 0x800000 0)\<rparr>,
      \<lparr>zi_filename = us ''manifest.json'', zi_flag_bits = 0, zi_file_size = 2, zi_data = Some []\<rparr>]"

definition sample_files :: host_files where
  "sample_files = \<lparr>read_bytes = (\<lambda>_. Inl FileNotFoundError), open_zip = (\<lambda>_. Some sample_archive),
     json_loads = (\<lambda>_. Some (JObject sample_manifest))\<rparr>"

lemma sample_evidence: "read_evidence sample_hashes sample_manifest (replicate 0x800000 0)"
  unfolding read_evidence_def sample_manifest_def
  by (simp add: json_get_def us_def json_matches_def image_hashes_def sample_hashes_def expected_bootloader_def
      expected_acceptance_def known_reference_def KNOWN_BOOTLOADER_SHA256_def USB_BACKUP_FORMAT_def
      MIN_IDENTICAL_READS_def MAX_USB_READ_ATTEMPTS_def json_eq_def)

lemma sample_genuine: "genuine_archive sample_archive (replicate 0x800000 0) []"
  unfolding genuine_archive_def sample_archive_def
  by (auto simp: zip_entry_def us_def FLASH_SIZE_def)

lemma sample_partitions: "partitions_ok (json_get sample_manifest ''partitions'')"
  by (simp add: json_get_def sample_manifest_def us_def partitions_ok_def EXPECTED_USB_PARTITIONS_def
      partition_entry_ok_def sample_partition_def casefold_def fold_point_def)

theorem usb_backup_accepted_iff_witness:
  "\<exists>info. read_image_source sample_hashes sample_files (us ''a/b.ZIP'') = Inr (replicate 0x800000 0, info) \<and> si_evidenced info = 3"
proof -
  have path: "casefold (path_suffix (us ''a/b.ZIP'')) = us ''.zip''"
    by (simp add: casefold_def path_suffix_def path_name_def us_def fold_point_def)
  have "json_get sample_manifest ''read_passes'' = JInt 4" by (simp add: json_get_def sample_manifest_def us_def)
  with sample_genuine sample_evidence sample_partitions
  have "read_image_source sample_hashes sample_files (us ''a/b.ZIP'') =
    Inr (replicate 0x800000 0, usb_source_info sample_hashes (replicate 0x800000 0) 4)"
    unfolding usb_backup_accepted_iff [OF path] by (auto simp: sample_files_def FLASH_SIZE_def)
  then show ?thesis by (simp add: usb_source_info_def)
qed

end
