(* ===== verification/Xz_Container.thy ===== *)
theory Xz_Container
  imports Crc Protocol
begin

text \<open>
  \<open>xz_vli\<close> and \<open>build_squashfs_xz_fragment\<close> of \<open>cc2camera/image.py\<close>: the one-block XZ stream that the
  patched SquashFS fragment is stored in. Raw LZMA2 compression is a parameter. A strict reader of
  such streams, written from the XZ file format, is the specification.
\<close>

section \<open>Variable-length integers\<close>

fun vli_bytes :: "nat \<Rightarrow> bytes" where
  "vli_bytes value =
     (let remaining = value div 128
      in word_of_nat (value mod 128 + (if remaining \<noteq> 0 then 128 else 0)) #
         (if remaining = 0 then [] else vli_bytes remaining))"

declare vli_bytes.simps [simp del]

definition xz_vli :: "int \<Rightarrow> bytes res" where
  "xz_vli value =
     (if value < 0 then Inl (ValueError ''XZ VLI values cannot be negative'') else Inr (vli_bytes (nat value)))"

text \<open>The reader: seven bits a byte, least significant first, the top bit set on all but the last.\<close>

fun vli_decode :: "bytes \<Rightarrow> (nat \<times> bytes) option" where
  "vli_decode [] = None"
| "vli_decode (b # bs) =
     (if unat b < 128 then Some (unat b, bs)
      else case vli_decode bs of None \<Rightarrow> None | Some (v, rest) \<Rightarrow> Some (unat b - 128 + 128 * v, rest))"

lemma vli_decode_bytes: "vli_decode (vli_bytes v @ rest) = Some (v, rest)"
proof (induction v rule: vli_bytes.induct)
  case (1 v)
  have m: "v mod 128 < 128" by simp
  then have low: "unat (word_of_nat (v mod 128) :: byte) = v mod 128"
    and high: "unat (word_of_nat (v mod 128 + 128) :: byte) = v mod 128 + 128"
    by (simp_all add: unat_of_nat del: of_nat_add)
  show ?case
  proof (cases "v div 128 = 0")
    case True
    then have "v < 128" by (simp add: div_eq_0_iff)
    with True low show ?thesis by (subst vli_bytes.simps) (simp add: Let_def)
  next
    case False
    have "v mod 128 + 128 * (v div 128) = v" by simp
    with False high 1 [OF refl] show ?thesis
      by (subst vli_bytes.simps) (simp add: Let_def del: of_nat_add)
  qed
qed

lemma vli_length: "v < 128 ^ n \<Longrightarrow> 0 < n \<Longrightarrow> length (vli_bytes v) \<le> n"
proof (induction n arbitrary: v)
  case (Suc n)
  then have "v div 128 < 128 ^ n" by (simp add: less_mult_imp_div_less mult.commute)
  moreover have "v div 128 = 0 \<or> 0 < n" using Suc.prems(1) by (cases n) auto
  ultimately show ?case
    using Suc.IH [of "v div 128"] by (subst vli_bytes.simps) (auto simp: Let_def)
qed simp

lemma xz_vli_nat: "xz_vli (int v) = Inr (vli_bytes v)"
  by (simp add: xz_vli_def)

lemma vli_pos: "0 < length (vli_bytes v)"
  by (subst vli_bytes.simps) (simp add: Let_def)

text \<open>\<open>xz_vli\<close> encodes every nonnegative integer so that the variable-length decoder reads it back and
  stops right after it, in at most nine bytes below 2 to the 63rd (the limit of the format); a
  negative integer raises.\<close>

theorem xz_vli_roundtrip:
  "(case xz_vli value of
      Inl e \<Rightarrow> value < 0
    | Inr encoded \<Rightarrow> 0 \<le> value \<and> vli_decode (encoded @ rest) = Some (nat value, rest) \<and>
        (value \<ge> 2 ^ 63 \<or> length encoded \<le> 9))"
proof (cases "value < 0")
  case False
  then have "value < 2 ^ 63 \<Longrightarrow> length (vli_bytes (nat value)) \<le> 9"
    using vli_length [of "nat value" 9] by (simp add: nat_less_iff)
  then have "value \<ge> 2 ^ 63 \<or> length (vli_bytes (nat value)) \<le> 9" by linarith
  with False show ?thesis by (simp add: xz_vli_def vli_decode_bytes)
qed (simp add: xz_vli_def)

section \<open>The stream\<close>

definition crc32_le :: "bytes \<Rightarrow> bytes" where
  "crc32_le data = le_bytes 4 (unat (zlib_crc32 data 0))"

text \<open>\<open>b"\0" * (-n % 4)\<close>.\<close>

definition pad4 :: "nat \<Rightarrow> bytes" where
  "pad4 n = replicate ((4 - n mod 4) mod 4) 0"

definition stream_flags :: bytes where
  "stream_flags = [0, 1]"

definition stream_header :: bytes where
  "stream_header = [0xFD, 0x37, 0x7A, 0x58, 0x5A, 0] @ stream_flags @ crc32_le stream_flags"

definition block_header :: "nat \<Rightarrow> nat \<Rightarrow> bytes res" where
  "block_header compressed_size data_size =
     res_bind (xz_vli (int compressed_size)) (\<lambda>c.
     res_bind (xz_vli (int data_size)) (\<lambda>d.
     let header = [0, 0xC0] @ c @ d @ [0x21, 1, 0x0A];
         header = header @ pad4 (length header + 4);
         size_byte = (length header + 4) div 4 - 1
     in if size_byte > 255 then Inl (ValueError ''byte must be in range(0, 256)'')
        else
          let header = header[0 := word_of_nat size_byte]
          in Inr (header @ crc32_le header)))"

definition stream_index :: "nat \<Rightarrow> nat \<Rightarrow> bytes res" where
  "stream_index unpadded_size data_size =
     res_bind (xz_vli (int unpadded_size)) (\<lambda>u.
     res_bind (xz_vli (int data_size)) (\<lambda>d.
     let index = [0, 1] @ u @ d;
         index = index @ pad4 (length index)
     in Inr (index @ crc32_le index)))"

definition stream_footer :: "nat \<Rightarrow> bytes res" where
  "stream_footer index_size =
     res_bind (struct_pack 4 (int (index_size div 4) - 1)) (\<lambda>backward.
     let footer_fields = backward @ stream_flags
     in Inr (crc32_le footer_fields @ footer_fields @ [0x59, 0x5A]))"

definition build_squashfs_xz_fragment :: "(bytes \<Rightarrow> bytes) \<Rightarrow> bytes \<Rightarrow> bytes res" where
  "build_squashfs_xz_fragment lzma2 data =
     (let compressed = lzma2 data
      in res_bind (block_header (length compressed) (length data)) (\<lambda>header.
         let block = header @ compressed @ pad4 (length compressed) @ crc32_le data;
             unpadded_size = length header + length compressed + 4
         in res_bind (stream_index unpadded_size (length data)) (\<lambda>index.
            res_bind (stream_footer (length index)) (\<lambda>footer.
            Inr (stream_header @ block @ index @ footer)))))"

section \<open>The reader\<close>

text \<open>Reading a field whose value is known: it must be the next bytes.\<close>

definition expect :: "bytes \<Rightarrow> bytes \<Rightarrow> bytes option" where
  "expect pat s = (if take (length pat) s = pat then Some (drop (length pat) s) else None)"

definition read_block_header :: "bytes \<Rightarrow> (nat \<times> nat \<times> nat \<times> bytes) option" where
  "read_block_header s =
     (let hsize = (unat (hd s) + 1) * 4; body = take (hsize - 4) s; rest = drop (hsize - 4) s
      in if length s < hsize \<or> body ! 1 \<noteq> 0xC0 then None
         else Option.bind (expect (crc32_le body) rest) (\<lambda>rest.
              Option.bind (vli_decode (drop 2 body)) (\<lambda>(c, b).
              Option.bind (vli_decode b) (\<lambda>(d, b).
              Option.bind (expect [0x21, 1, 0x0A] b) (\<lambda>b.
              if list_all (\<lambda>x. x = 0) b then Some (hsize, c, d, rest) else None)))))"

definition xz_read :: "(bytes \<Rightarrow> bytes option) \<Rightarrow> bytes \<Rightarrow> bytes option" where
  "xz_read unlzma2 s =
     Option.bind (expect stream_header s) (\<lambda>s.
     Option.bind (read_block_header s) (\<lambda>(hsize, c, d, s).
     Option.bind (if c \<le> length s then unlzma2 (take c s) else None) (\<lambda>data.
     if length data \<noteq> d then None
     else Option.bind (expect (pad4 c @ crc32_le data @ [0, 1]) (drop c s)) (\<lambda>i.
          Option.bind (vli_decode i) (\<lambda>(u, j).
          Option.bind (vli_decode j) (\<lambda>(d', k).
          if u \<noteq> hsize + c + 4 \<or> d' \<noteq> d then None
          else
            let index = [0, 1] @ take (length i - length k) i;
                index = index @ pad4 (length index)
            in Option.bind (expect (pad4 (2 + (length i - length k)) @ crc32_le index) k) (\<lambda>footer.
               let fields = pslice footer 4 10
               in if length footer = 12 \<and> take 4 footer = crc32_le fields \<and> le_val (take 4 fields) = (length index + 4) div 4 - 1 \<and>
                     drop 4 fields = stream_flags \<and> drop 10 footer = [0x59, 0x5A]
                  then Some data else None)))))))"

lemma expect_append [simp]: "expect p (p @ s) = Some s"
  by (simp add: expect_def)

lemma length_crc32_le [simp]: "length (crc32_le d) = 4"
  by (simp add: crc32_le_def)

lemma length_pad4: "length (pad4 n) = (4 - n mod 4) mod 4" "(n + length (pad4 n)) mod 4 = 0" "length (pad4 n) < 4"
proof -
  show "length (pad4 n) = (4 - n mod 4) mod 4" "length (pad4 n) < 4" by (simp_all add: pad4_def)
  consider "n mod 4 = 0" | "n mod 4 = 1" | "n mod 4 = 2" | "n mod 4 = 3" by linarith
  then have "(n mod 4 + (4 - n mod 4) mod 4) mod 4 = 0" by cases simp_all
  then show "(n + length (pad4 n)) mod 4 = 0" by (simp add: pad4_def mod_add_left_eq)
qed

lemma length_stream_header: "length stream_header = 12"
  by (simp add: stream_header_def stream_flags_def)

lemma read_block_header_ok:
  assumes "c < 2 ^ 63" "d < 2 ^ 63"
  obtains h where "block_header c d = Inr h" "8 \<le> length h" "length h \<le> 32"
    "\<And>s. read_block_header (h @ s) = Some (length h, c, d, s)"
proof -
  define H0 where "H0 = [0, 0xC0] @ vli_bytes c @ vli_bytes d @ [0x21, 1, 0x0A :: byte]"
  define H1 where "H1 = H0 @ pad4 (length H0 + 4)"
  define k where "k = (length H1 + 4) div 4 - 1"
  define B where "B = H1[0 := word_of_nat k]"
  have c: "length (vli_bytes c) \<le> 9" "length (vli_bytes d) \<le> 9"
    using assms vli_length [of c 9] vli_length [of d 9] by simp_all
  have "(length H0 + 4 + length (pad4 (length H0 + 4))) mod 4 = 0" by (rule length_pad4(2))
  then have mod: "(length H1 + 4) mod 4 = 0" by (simp add: H1_def ac_simps)
  have len: "7 \<le> length H1" "length H1 \<le> 26"
  proof -
    have "length H0 = 5 + length (vli_bytes c) + length (vli_bytes d)" "length H1 = length H0 + length (pad4 (length H0 + 4))"
      by (simp_all add: H0_def H1_def)
    with c vli_pos [of c] vli_pos [of d] length_pad4(3) [of "length H0 + 4"]
    show "7 \<le> length H1" "length H1 \<le> 26" by linarith+
  qed
  then have k: "k \<le> 6" "(k + 1) * 4 = length H1 + 4" using mod by (auto simp: k_def)
  then have unat: "unat (word_of_nat k :: byte) = k" by (simp add: unat_of_nat)
  have B: "length B = length H1" "hd B = word_of_nat k" "B ! 1 = 0xC0"
    "drop 2 B = vli_bytes c @ vli_bytes d @ [0x21, 1, 0x0A] @ pad4 (length H0 + 4)"
    by (simp_all add: B_def H1_def H0_def)
  show thesis
  proof (rule that)
    show "block_header c d = Inr (B @ crc32_le B)"
      unfolding block_header_def xz_vli_nat res_bind.simps Let_def H0_def [symmetric] H1_def [symmetric]
        k_def [symmetric] B_def [symmetric]
      using k(1) by simp
    show "8 \<le> length (B @ crc32_le B)" "length (B @ crc32_le B) \<le> 32" using len by (simp_all add: B)
    show "read_block_header ((B @ crc32_le B) @ s) = Some (length (B @ crc32_le B), c, d, s)" for s
    proof -
      have hd: "hd ((B @ crc32_le B) @ s) = word_of_nat k" using B(1,2) len by (cases B) auto
      have z: "list_all (\<lambda>x. x = 0) (pad4 n)" for n by (simp add: pad4_def list_all_iff)
      have "(B @ crc32_le B @ s) ! 1 = 0xC0" using B len by (simp add: nth_append)
      then have one: "(B @ crc32_le B @ s) ! Suc 0 = 0xC0" "B ! Suc 0 = 0xC0" using B(3) by simp_all
      show ?thesis
        unfolding read_block_header_def Let_def hd unat k(2)
        using len by (simp add: B(1,4) one vli_decode_bytes z del: append.simps(2))
    qed
  qed
qed

lemma backward_size: "n mod 4 = 0 \<Longrightarrow> 4 \<le> n \<Longrightarrow> n < 4 * 256 ^ 4 \<Longrightarrow> 
    stream_footer n = Inr (crc32_le (le_bytes 4 (n div 4 - 1) @ stream_flags) @ le_bytes 4 (n div 4 - 1) @ stream_flags @ [0x59, 0x5A])"
proof -
  assume "n mod 4 = 0" "4 \<le> n" "n < 4 * 256 ^ 4"
  then obtain m where "n = 4 * m" "1 \<le> m" "m < 256 ^ 4" by (auto elim: dvdE simp: dvd_eq_mod_eq_0 [symmetric])
  then show ?thesis by (simp add: stream_footer_def struct_pack_def nat_diff_distrib')
qed

lemma squashfs_fragment_reads_back:
  assumes "unlzma2 (lzma2 data) = Some data" "length data < 2 ^ 62" "length (lzma2 data) < 2 ^ 62"
  shows "\<exists>stream. build_squashfs_xz_fragment lzma2 data = Inr stream \<and> xz_read unlzma2 stream = Some data"
proof -
  define z where "z = lzma2 data"
  define c where "c = length z"
  define d where "d = length data"
  obtain h where h: "block_header c d = Inr h" "8 \<le> length h" "length h \<le> 32"
    "\<And>s. read_block_header (h @ s) = Some (length h, c, d, s)"
    by (rule read_block_header_ok [of c d]) (use assms(2,3) in \<open>simp_all add: c_def d_def z_def\<close>)
  define u where "u = length h + c + 4"
  define vs where "vs = vli_bytes u @ vli_bytes d"
  define index where "index = [0, 1] @ vs @ pad4 (2 + length vs)"
  define bw where "bw = le_bytes 4 ((length index + 4) div 4 - 1)"
  define footer where "footer = crc32_le (bw @ stream_flags) @ bw @ stream_flags @ [0x59, 0x5A :: byte]"
  have "length (vli_bytes u) \<le> 9" "length (vli_bytes d) \<le> 9"
    using assms(2,3) h(3) vli_length [of u 9] vli_length [of d 9] by (simp_all add: u_def c_def d_def z_def)
  then have len: "length index < 30" "2 \<le> length index"
    using length_pad4(3) [of "2 + length vs"] by (auto simp: index_def vs_def)
  have "length index mod 4 = 0" using length_pad4(2) [of "2 + length vs"] by (simp add: index_def)
  then have mod: "(length index + 4) mod 4 = 0" by (metis mod_add_self2)
  have si: "stream_index u d = Inr (index @ crc32_le index)"
    by (simp add: stream_index_def xz_vli_def Let_def index_def vs_def)
  have sf: "stream_footer (length (index @ crc32_le index)) = Inr footer"
    using backward_size [of "length index + 4"] len mod by (simp add: footer_def bw_def)
  have built: "build_squashfs_xz_fragment lzma2 data =
      Inr (stream_header @ (h @ z @ pad4 c @ crc32_le data) @ (index @ crc32_le index) @ footer)"
    unfolding build_squashfs_xz_fragment_def Let_def z_def [symmetric] c_def [symmetric] d_def [symmetric]
      h res_bind.simps u_def [symmetric] si sf ..
  have val: "le_val bw = (length index + 4) div 4 - 1" using len by (simp add: bw_def)
  have slices: "length footer = 12" "take 4 footer = crc32_le (bw @ stream_flags)" "pslice footer 4 10 = bw @ stream_flags"
    "drop 10 footer = [0x59, 0x5A]"
    by (simp_all add: footer_def bw_def stream_flags_def slicing) (simp add: pslice_def)
  define R where "R = pad4 (2 + length vs) @ crc32_le index @ footer"
  define I where "I = vs @ R"
  have stream: "stream_header @ (h @ z @ pad4 c @ crc32_le data) @ (index @ crc32_le index) @ footer =
      stream_header @ h @ z @ (pad4 c @ crc32_le data @ [0, 1]) @ I"
    by (simp add: index_def I_def R_def)
  have dec: "vli_decode I = Some (u, vli_bytes d @ R)" "vli_decode (vli_bytes d @ R) = Some (d, R)"
    by (simp_all add: I_def vs_def vli_decode_bytes)
  have vs: "take (length vs) I = vs" "length I - length R = length vs"
    by (simp_all add: I_def)
  have index: "([0, 1] @ vs) @ pad4 (length ([0, 1] @ vs)) = index" by (simp add: index_def)
  have "expect (pad4 (2 + length vs) @ crc32_le index) R = Some footer"
    using expect_append [of "pad4 (2 + length vs) @ crc32_le index" footer] by (simp add: R_def)
  note foot = this
  have z: "c \<le> length (z @ t) \<longleftrightarrow> True" "take c (z @ t) = z" "drop c (z @ t) = t" "unlzma2 z = Some data" for t
    using assms(1) by (simp_all add: c_def z_def)
  have fields: "take 4 (bw @ stream_flags) = bw" "drop 4 (bw @ stream_flags) = stream_flags" by (simp_all add: bw_def)
  define P where "P = pad4 c @ crc32_le data @ [0, 1]"
  have ulen: "u = length h + c + 4" "length data = d" by (simp_all add: u_def d_def)
  have "xz_read unlzma2 (stream_header @ h @ z @ P @ I) = Some data"
    unfolding xz_read_def Let_def
    by (simp only: expect_append Option.bind.bind_lunit h(4) prod.case ulen(1) [symmetric] z if_True simp_thms
        ulen(2) P_def [symmetric] dec if_False vs index foot slices fields val)
  with built stream show ?thesis unfolding P_def by metis
qed

text \<open>C37: the stream that \<open>build_squashfs_xz_fragment\<close> writes is a well-formed one-block XZ stream: the strict
  reader, given a decompressor that undoes the compressor on this input, finds every size, padding
  and checksum right and returns the data. It is written whenever data and compressed data are
  shorter than 2 to the 62nd.\<close>

theorem squashfs_fragment_roundtrip:
  assumes "unlzma2 (lzma2 data) = Some data" "length data < 2 ^ 62" "length (lzma2 data) < 2 ^ 62"
  shows "\<exists>stream. build_squashfs_xz_fragment lzma2 data = Inr stream \<and> xz_read unlzma2 stream = Some data"
  by (rule squashfs_fragment_reads_back) (use assms in simp_all)

theorem squashfs_fragment_roundtrip_witness:
  "\<exists>stream. build_squashfs_xz_fragment (\<lambda>d. 1 # d) [7, 8, 9] = Inr stream \<and> xz_read (\<lambda>z. Some (tl z)) stream = Some [7, 8, 9]"
  by (rule squashfs_fragment_roundtrip) simp_all

end
