(* ===== verification/System_Patch.thy ===== *)
theory System_Patch
  imports Xz_Container Backup_Archive
begin

text \<open>
  The system-partition patch of \<open>cc2camera/image.py\<close>: the readable change of \<open>bashrc.sh\<close>, the rebuilt
  SquashFS fragment and the patched 32 KiB window. liblzma is two parameters: raw compression, and
  decompression of an XZ stream, which is \<open>None\<close> for \<open>lzma.LZMAError\<close>.
\<close>

section \<open>Constants\<close>

definition PATCH_START :: nat where [constants]: "PATCH_START = 0x463000"
definition PATCH_END :: nat where [constants]: "PATCH_END = 0x46B000"
definition PATCH_SIZE :: nat where [constants]: "PATCH_SIZE = PATCH_END - PATCH_START"
definition SQUASHFS_FRAGMENT_START :: nat where [constants]: "SQUASHFS_FRAGMENT_START = 0x463600"
definition SQUASHFS_FRAGMENT_SIZE_FIELD :: nat where [constants]: "SQUASHFS_FRAGMENT_SIZE_FIELD = 0x46A11A"
definition ORIGINAL_FRAGMENT_XZ_SIZE :: nat where [constants]: "ORIGINAL_FRAGMENT_XZ_SIZE = 26268"
definition PATCHED_FRAGMENT_XZ_SIZE :: nat where [constants]: "PATCHED_FRAGMENT_XZ_SIZE = 25564"
definition FRAGMENT_UNCOMPRESSED_SIZE :: nat where [constants]: "FRAGMENT_UNCOMPRESSED_SIZE = 100167"
definition BASHRC_FRAGMENT_OFFSET :: nat where [constants]: "BASHRC_FRAGMENT_OFFSET = 29000"
definition ORIGINAL_PATCH_SHA256 :: string where
  "ORIGINAL_PATCH_SHA256 = ''5591f5350feabb73fd29e21ae72ee9c3c9dab0c6bb78e02178267e5cb2ab4780''"
definition PATCHED_PATCH_SHA256 :: string where
  "PATCHED_PATCH_SHA256 = ''36e9b9b29dffcd775b094ff67a121fbb78b1871a7eda059371cbafc562251b2b''"
definition ORIGINAL_BASHRC_SHA256 :: string where
  "ORIGINAL_BASHRC_SHA256 = ''984e1d34fb69bd83d43335e62911503461b389f96f86c5c837f7aab57a48417d''"
definition PATCHED_BASHRC_SHA256 :: string where
  "PATCHED_BASHRC_SHA256 = ''eab95c4ef39ba900fdd87684feee916f36e2901d3a7abe3fe65d2cde459e0f88''"
definition ORIGINAL_FRAGMENT_XZ_SHA256 :: string where
  "ORIGINAL_FRAGMENT_XZ_SHA256 = ''4c6d2cf7ce219721a8f027056c207d05fb01e1ae2165bf17e5208f37d690869f''"
definition PATCHED_FRAGMENT_XZ_SHA256 :: string where
  "PATCHED_FRAGMENT_XZ_SHA256 = ''ca9162b4b6b7a898901be0503d5c4cb10e94f01c44e79caf4f7c3a5172e768f5''"
definition ORIGINAL_FRAGMENT_SHA256 :: string where
  "ORIGINAL_FRAGMENT_SHA256 = ''322825a20f30d04d5ad6fc2f677cd8fce2b0c43189d802d1fbb05d2049c07329''"
definition PATCHED_FRAGMENT_SHA256 :: string where
  "PATCHED_FRAGMENT_SHA256 = ''a6a65889a5d79a8b8935cbf1602c1a152a52c2d28f66821f0a5adaac9546c905''"

text \<open>Lines of a script, each with its newline.\<close>

definition script :: "string list \<Rightarrow> bytes" where
  "script text_lines = concat (map (\<lambda>l. ascii l @ [10]) text_lines)"

definition ORIGINAL_COPY_BLOCK :: bytes where
  "ORIGINAL_COPY_BLOCK = script
    [''# [ ! -f /etc/conf.d/uvc.attr ] && cp /system/config/uvc.attr /etc/conf.d/uvc.attr'',
     ''# [ ! -f /etc/conf.d/uvc.config ] && cp /system/config/uvc.config /etc/conf.d/uvc.config'',
     ''# [ ! -f /etc/conf.d/dev_config.cfg ] && cp /system/config/dev_config.cfg /etc/conf.d/dev_config.cfg'',
     ''cp /system/config/uvc.attr /etc/conf.d/uvc.attr'',
     ''cp /system/config/uvc2.attr /etc/conf.d/uvc2.attr'',
     ''cp /system/config/uvc_dualstream.config /etc/conf.d/uvc.config'',
     ''cp /system/config/uvc_dualstream.config /etc/conf.d/uvc_dualstream.config'',
     ''cp /system/config/dev_config.cfg /etc/conf.d/dev_config.cfg'',
     '''',
     ''# [ ! -f /etc/conf.d/uvc2.attr ] && cp /system/config/uvc2.attr /etc/conf.d/uvc2.attr'',
     ''# [ ! -f /etc/conf.d/uvc_dualstream.config ] && cp /system/config/uvc_dualstream.config /etc/conf.d/uvc_dualstream.config'',
     '''']"

definition PATCHED_COPY_BLOCK_VISIBLE :: bytes where
  "PATCHED_COPY_BLOCK_VISIBLE = script
    [''# Copy defaults only when absent.  The original unconditional copies'',
     ''# consume JFFS2 space on every boot, while this firmware cannot reclaim it.'',
     ''[ -f /etc/conf.d/uvc.attr ] || cp /system/config/uvc.attr /etc/conf.d/uvc.attr'',
     ''[ -f /etc/conf.d/uvc2.attr ] || cp /system/config/uvc2.attr /etc/conf.d/uvc2.attr'',
     ''[ -f /etc/conf.d/uvc.config ] || cp /system/config/uvc_dualstream.config /etc/conf.d/uvc.config'',
     ''[ -f /etc/conf.d/uvc_dualstream.config ] || cp /system/config/uvc_dualstream.config /etc/conf.d/uvc_dualstream.config'',
     ''[ -f /etc/conf.d/dev_config.cfg ] || cp /system/config/dev_config.cfg /etc/conf.d/dev_config.cfg'',
     '''',
     ''# SquashFS in-place patch padding; keep bashrc.sh length unchanged.'']"

section \<open>\<open>bytes.count\<close> and \<open>bytes.replace\<close>\<close>

text \<open>Non-overlapping occurrences from the left; the counter skips the rest of one that was found.\<close>

fun bytes_count :: "bytes \<Rightarrow> nat \<Rightarrow> bytes \<Rightarrow> nat" where
  "bytes_count sub k [] = 0"
| "bytes_count sub (Suc k) (x # xs) = bytes_count sub k xs"
| "bytes_count sub 0 (x # xs) =
     (if take (length sub) (x # xs) = sub then Suc (bytes_count sub (length sub - 1) xs)
      else bytes_count sub 0 xs)"

fun bytes_replace :: "bytes \<Rightarrow> bytes \<Rightarrow> nat \<Rightarrow> bytes \<Rightarrow> bytes" where
  "bytes_replace sub new k [] = []"
| "bytes_replace sub new (Suc k) (x # xs) = bytes_replace sub new k xs"
| "bytes_replace sub new 0 (x # xs) =
     (if take (length sub) (x # xs) = sub then new @ bytes_replace sub new (length sub - 1) xs
      else x # bytes_replace sub new 0 xs)"

section \<open>The patch\<close>

definition patch_bashrc :: "hash_functions \<Rightarrow> bytes \<Rightarrow> bytes res" where
  "patch_bashrc H original =
     (if sha256 H original \<noteq> ORIGINAL_BASHRC_SHA256
      then Inl (ValidationError ''Extracted bashrc.sh failed its stock SHA-256 check'')
      else if bytes_count ORIGINAL_COPY_BLOCK 0 original \<noteq> 1
      then Inl (ValidationError ''Stock bashrc.sh does not contain one exact copy block'')
      else if length ORIGINAL_COPY_BLOCK < length PATCHED_COPY_BLOCK_VISIBLE
      then Inl (ValidationError ''Internal bashrc replacement is too large'')
      else
        let padding = length ORIGINAL_COPY_BLOCK - length PATCHED_COPY_BLOCK_VISIBLE;
            replacement = butlast PATCHED_COPY_BLOCK_VISIBLE @ replicate padding 0x20 @ [10];
            patched = bytes_replace ORIGINAL_COPY_BLOCK replacement 0 original
        in if length patched \<noteq> length original
           then Inl (ValidationError ''Internal bashrc patch changed the script length'')
           else if sha256 H patched \<noteq> PATCHED_BASHRC_SHA256
           then Inl (ValidationError ''Generated bashrc.sh failed its patched SHA-256 check'')
           else Inr patched)"

definition build_system_patch_window ::
    "hash_functions \<Rightarrow> (bytes \<Rightarrow> bytes option) \<Rightarrow> (bytes \<Rightarrow> bytes) \<Rightarrow> bytes \<Rightarrow> bytes res" where
  "build_system_patch_window H xz_decompress lzma2 img =
     (let stock_window = pslice img PATCH_START PATCH_END;
          original_xz = pslice img SQUASHFS_FRAGMENT_START (SQUASHFS_FRAGMENT_START + ORIGINAL_FRAGMENT_XZ_SIZE)
      in if sha256 H stock_window \<noteq> ORIGINAL_PATCH_SHA256
         then Inl (ValidationError ''Refusing to patch a non-stock system window'')
         else if sha256 H original_xz \<noteq> ORIGINAL_FRAGMENT_XZ_SHA256
         then Inl (ValidationError ''Stock SquashFS fragment failed its SHA-256 check'')
         else case xz_decompress original_xz of
             None \<Rightarrow> Inl (ValidationError ''Stock SquashFS fragment failed to decompress'')
           | Some fragment \<Rightarrow>
               if length fragment \<noteq> FRAGMENT_UNCOMPRESSED_SIZE \<or> sha256 H fragment \<noteq> ORIGINAL_FRAGMENT_SHA256
               then Inl (ValidationError ''Stock SquashFS fragment content is not the audited version'')
               else
                 let bashrc_end = BASHRC_FRAGMENT_OFFSET + 5699
                 in res_bind (patch_bashrc H (pslice fragment BASHRC_FRAGMENT_OFFSET bashrc_end)) (\<lambda>patched_bashrc.
                    let patched_fragment =
                          take BASHRC_FRAGMENT_OFFSET fragment @ patched_bashrc @ drop bashrc_end fragment
                    in if sha256 H patched_fragment \<noteq> PATCHED_FRAGMENT_SHA256
                       then Inl (ValidationError ''Patched SquashFS fragment failed its content hash'')
                       else res_bind (build_squashfs_xz_fragment lzma2 patched_fragment) (\<lambda>patched_xz.
                         if length patched_xz \<noteq> PATCHED_FRAGMENT_XZ_SIZE \<or> sha256 H patched_xz \<noteq> PATCHED_FRAGMENT_XZ_SHA256
                         then Inl (ValidationError ''Deterministic XZ output differs from the audited patched fragment'')
                         else
                           let fragment_relative = SQUASHFS_FRAGMENT_START - PATCH_START;
                               size_relative = SQUASHFS_FRAGMENT_SIZE_FIELD - PATCH_START
                           in if length (put stock_window fragment_relative patched_xz) < size_relative + 4 then Inl StructError
                              else res_bind (struct_pack_into 4 (put stock_window fragment_relative patched_xz) size_relative
                                (int (length patched_xz))) (\<lambda>result.
                              if sha256 H result \<noteq> PATCHED_PATCH_SHA256
                              then Inl (ValidationError ''Generated system window failed its audited SHA-256'')
                              else Inr result))))"

datatype system_state = Stock_unpatched | Known_bashrc_patched | Unknown_state

definition apply_system_patch ::
    "hash_functions \<Rightarrow> (bytes \<Rightarrow> bytes option) \<Rightarrow> (bytes \<Rightarrow> bytes) \<Rightarrow> bytes \<Rightarrow> system_state \<Rightarrow> (bytes \<times> bool) res" where
  "apply_system_patch H xz_decompress lzma2 img state =
     (if state = Known_bashrc_patched then Inr (pslice img PATCH_START PATCH_END, False)
      else if state \<noteq> Stock_unpatched then Inl (ValidationError ''Cannot patch system state'')
      else res_bind (build_system_patch_window H xz_decompress lzma2 img) (\<lambda>window. Inr (window, True)))"

section \<open>The change of the script\<close>

lemma count_skip: "bytes_count sub k s = bytes_count sub 0 (drop k s)"
  by (induction sub k s rule: bytes_count.induct) auto

lemma replace_skip: "bytes_replace sub new k s = bytes_replace sub new 0 (drop k s)"
  by (induction sub new k s rule: bytes_replace.induct) auto

lemma replace_none: "bytes_count sub 0 s = 0 \<Longrightarrow> bytes_replace sub new 0 s = s"
  by (induction s) (auto split: if_splits)

lemma replace_one:
  assumes "bytes_count sub 0 s = 1" "sub \<noteq> []"
  shows "\<exists>pre post. s = pre @ sub @ post \<and> bytes_replace sub new 0 s = pre @ new @ post \<and>
    (\<forall>i < length pre. take (length sub) (drop i s) \<noteq> sub)"
  using assms
proof (induction s)
  case (Cons x xs)
  show ?case
  proof (cases "take (length sub) (x # xs) = sub")
    case True
    let ?post = "drop (length sub) (x # xs)"
    have eq: "drop (length sub - 1) xs = ?post" using Cons.prems(2) by (cases sub) auto
    have "bytes_count sub 0 ?post = 0"
      using Cons.prems True count_skip [of sub "length sub - 1" xs] unfolding eq by simp
    then have "bytes_replace sub new 0 (x # xs) = new @ ?post"
      using True replace_skip [of sub new "length sub - 1" xs] replace_none [of sub ?post new] unfolding eq by simp
    moreover have "x # xs = sub @ ?post" using True by (metis append_take_drop_id)
    ultimately show ?thesis by (intro exI [of _ "[]"] exI [of _ ?post]) simp
  next
    case False
    then obtain pre post where "xs = pre @ sub @ post" "bytes_replace sub new 0 xs = pre @ new @ post"
      "\<forall>i < length pre. take (length sub) (drop i xs) \<noteq> sub"
      using Cons.IH Cons.prems by auto
    with False show ?thesis
      by (intro exI [of _ "x # pre"] exI [of _ post]) (auto simp: less_Suc_eq_0_disj)
  qed
qed simp

lemma copy_blocks:
  "length ORIGINAL_COPY_BLOCK = 778" "length PATCHED_COPY_BLOCK_VISIBLE = 686" "ORIGINAL_COPY_BLOCK ! 0 = 0x23"
  "ORIGINAL_COPY_BLOCK ! 2 = 0x5B" "PATCHED_COPY_BLOCK_VISIBLE ! 2 = 0x43"
  by (simp_all add: ORIGINAL_COPY_BLOCK_def PATCHED_COPY_BLOCK_VISIBLE_def script_def ascii_def)

text \<open>The replacement block, padded with spaces to the length of the original one.\<close>

definition PATCHED_COPY_BLOCK :: bytes where
  "PATCHED_COPY_BLOCK = butlast PATCHED_COPY_BLOCK_VISIBLE @ replicate 92 0x20 @ [10]"

lemma length_PATCHED_COPY_BLOCK: "length PATCHED_COPY_BLOCK = 778"
  by (simp add: PATCHED_COPY_BLOCK_def copy_blocks)

lemma patch_bashrc_length: "patch_bashrc H original = Inr patched \<Longrightarrow> length patched = length original"
  by (auto simp: patch_bashrc_def Let_def split: if_splits)

text \<open>When \<open>patch_bashrc\<close> succeeds, the script it was given has the stock hash and holds the stock copy
  block once; the result is that script with the block replaced by the audited one, padded to the
  same length, and nothing else changed, and it has the audited hash.\<close>

theorem patch_bashrc_changes_one_block:
  assumes "patch_bashrc H original = Inr patched"
  shows "sha256 H original = ORIGINAL_BASHRC_SHA256 \<and> sha256 H patched = PATCHED_BASHRC_SHA256 \<and>
    length patched = length original \<and>
    (\<exists>pre post. original = pre @ ORIGINAL_COPY_BLOCK @ post \<and> patched = pre @ PATCHED_COPY_BLOCK @ post \<and>
       bytes_count ORIGINAL_COPY_BLOCK 0 original = 1)"
proof -
  have ok: "sha256 H original = ORIGINAL_BASHRC_SHA256" "sha256 H patched = PATCHED_BASHRC_SHA256"
    "length patched = length original" "bytes_count ORIGINAL_COPY_BLOCK 0 original = 1"
    "patched = bytes_replace ORIGINAL_COPY_BLOCK PATCHED_COPY_BLOCK 0 original"
    using assms by (auto simp: patch_bashrc_def Let_def copy_blocks PATCHED_COPY_BLOCK_def split: if_splits)
  have "ORIGINAL_COPY_BLOCK \<noteq> []" using copy_blocks(1) by auto
  from replace_one [OF ok(4) this, of PATCHED_COPY_BLOCK] ok show ?thesis by blast
qed

section \<open>The patched window\<close>

lemma fragment_stream_length:
  "build_squashfs_xz_fragment lzma2 data = Inr s \<Longrightarrow> length (lzma2 data) \<le> length s"
  by (auto simp: build_squashfs_xz_fragment_def Let_def)

lemma build_window_Inr:
  assumes "build_system_patch_window H xz_decompress lzma2 img = Inr w"
  shows "\<exists>fragment patched_bashrc stream.
    sha256 H (pslice img PATCH_START PATCH_END) = ORIGINAL_PATCH_SHA256 \<and> sha256 H w = PATCHED_PATCH_SHA256 \<and>
    xz_decompress (pslice img SQUASHFS_FRAGMENT_START (SQUASHFS_FRAGMENT_START + ORIGINAL_FRAGMENT_XZ_SIZE)) = Some fragment \<and>
    length fragment = FRAGMENT_UNCOMPRESSED_SIZE \<and>
    patch_bashrc H (pslice fragment 29000 34699) = Inr patched_bashrc \<and>
    build_squashfs_xz_fragment lzma2 (take 29000 fragment @ patched_bashrc @ drop 34699 fragment) = Inr stream \<and>
    length stream = PATCHED_FRAGMENT_XZ_SIZE \<and>
    w = put (put (pslice img PATCH_START PATCH_END) 0x600 stream) 0x711A (le_bytes 4 25564)"
  using assms
  by (auto simp: build_system_patch_window_def Let_def struct_pack_into_def struct_pack_def constants
      split: if_splits option.splits)

text \<open>C38: a window that \<open>build_system_patch_window\<close> builds for a full image is the audited one, differs
  from the stock window only in the 25,564 bytes of the rebuilt fragment and in its size field, the
  size field holds the new size, and any decompressor that undoes the compressor reads there the
  stock fragment with only \<open>bashrc.sh\<close> replaced by its patched version.\<close>

theorem patch_window_replaces_bashrc:
  assumes "build_system_patch_window H xz_decompress lzma2 img = Inr w" "length img = FLASH_SIZE"
  shows "length w = PATCH_SIZE \<and> sha256 H w = PATCHED_PATCH_SHA256 \<and>
    (\<forall>i < PATCH_SIZE. (i < 0x600 \<or> 0x600 + 25564 \<le> i) \<and> (i < 0x711A \<or> 0x711E \<le> i) \<longrightarrow> w ! i = img ! (PATCH_START + i)) \<and>
    le_at w 0x711A 4 = 25564 \<and>
    (\<exists>fragment patched_bashrc. xz_decompress (pslice img 0x463600 (0x463600 + 26268)) = Some fragment \<and>
       patch_bashrc H (pslice fragment 29000 34699) = Inr patched_bashrc \<and>
       (\<forall>unlzma2. unlzma2 (lzma2 (put fragment 29000 patched_bashrc)) = Some (put fragment 29000 patched_bashrc) \<longrightarrow>
          xz_read unlzma2 (pslice w 0x600 (0x600 + 25564)) = Some (put fragment 29000 patched_bashrc)))"
proof -
  obtain fragment pb stream where r: "sha256 H w = PATCHED_PATCH_SHA256"
    "xz_decompress (pslice img 0x463600 (0x463600 + 26268)) = Some fragment" "length fragment = 100167"
    "patch_bashrc H (pslice fragment 29000 34699) = Inr pb" "length stream = 25564"
    "build_squashfs_xz_fragment lzma2 (take 29000 fragment @ pb @ drop 34699 fragment) = Inr stream"
    and w: "w = put (put (pslice img PATCH_START PATCH_END) 0x600 stream) 0x711A (le_bytes 4 25564)"
    using build_window_Inr [OF assms(1)] by (auto simp: constants)
  let ?stock = "pslice img PATCH_START PATCH_END"
  have stock: "length ?stock = 0x8000" using assms(2) by (simp add: constants FLASH_SIZE_def)
  have pb: "length pb = 5699" using patch_bashrc_length [OF r(4)] r(3) by simp
  have frag: "take 29000 fragment @ pb @ drop 34699 fragment = put fragment 29000 pb" by (simp add: put_def pb)
  have len: "length (put ?stock 0x600 stream) = 0x8000" using stock r(5) by simp
  have bytes: "w ! i = (if 0x711A \<le> i \<and> i < 0x711E then le_bytes 4 25564 ! (i - 0x711A)
      else if 0x600 \<le> i \<and> i < 0x600 + 25564 then stream ! (i - 0x600) else img ! (PATCH_START + i))"
    if "i < 0x8000" for i
    using that stock len r(5) assms(2) by (simp add: w nth_put constants FLASH_SIZE_def)
  have "pslice w 0x600 (0x600 + 25564) = stream"
    using stock r(5) len by (simp add: w pslice_put_before)
  moreover have "xz_read unlzma2 stream = Some (put fragment 29000 pb)"
    if "unlzma2 (lzma2 (put fragment 29000 pb)) = Some (put fragment 29000 pb)" for unlzma2
  proof -
    have "length (lzma2 (put fragment 29000 pb)) < 2 ^ 62" "length (put fragment 29000 pb) < 2 ^ 62"
      using fragment_stream_length [OF r(6)] r(3,5) pb by (simp_all add: frag)
    with squashfs_fragment_reads_back [of unlzma2 lzma2 "put fragment 29000 pb", OF that] r(6) show ?thesis by (auto simp: frag)
  qed
  moreover have "le_at w 0x711A 4 = 25564"
    using len by (simp add: w le_at_def)
  moreover have "length w = PATCH_SIZE" using len by (simp add: w constants)
  ultimately show ?thesis using r(1,2,4) bytes by (auto simp: constants)
qed

end
