(* ===== verification/Image_Analysis.thy ===== *)
theory Image_Analysis
  imports System_Patch Jffs2_Files
begin

text \<open>
  The strict validator of \<open>cc2camera/image.py\<close>: the HWCONFIG record and its unit-specific fields, the
  normalized bytes that must match the reference firmware, and \<open>analyze_image\<close>, which collects every
  error before it raises.
\<close>

section \<open>Constants\<close>

definition HW_RECORD_START :: nat where [constants]: "HW_RECORD_START = 0x7D2000"
definition HW_RECORD_PAYLOAD_START :: nat where [constants]: "HW_RECORD_PAYLOAD_START = HW_RECORD_START + 4"
definition HW_KNOWN_PAYLOAD_END :: nat where [constants]: "HW_KNOWN_PAYLOAD_END = HW_RECORD_PAYLOAD_START + 0x100"
definition HW_SUPPORTED_PAYLOAD_LENGTHS :: "nat list" where "HW_SUPPORTED_PAYLOAD_LENGTHS = [0x100, 0x105]"
definition HW_CHECK_START :: nat where [constants]: "HW_CHECK_START = 0x7D200A"
definition HW_CHECK_END :: nat where [constants]: "HW_CHECK_END = 0x7D200D"
definition HW_UOID_START :: nat where [constants]: "HW_UOID_START = 0x7D2011"
definition HW_UOID_END :: nat where [constants]: "HW_UOID_END = 0x7D206F"
definition HW_DATE_START :: nat where [constants]: "HW_DATE_START = HW_UOID_END"
definition HW_DATE_END :: nat where [constants]: "HW_DATE_END = 0x7D2073"

text \<open>A calendar date: year, month, day.\<close>

type_synonym date = "nat \<times> nat \<times> nat"

definition HW_SUPPORTED_DATES :: "date list" where
  "HW_SUPPORTED_DATES = [(2026, 3, 2), (2026, 4, 1), (2026, 4, 17)]"

definition REFERENCE_SEGMENTS :: "(string \<times> nat \<times> nat \<times> string) list" where
  "REFERENCE_SEGMENTS =
    [(''boot'', 0x000000, 0x040000, ''5602ec961b4410ccceea0d4910e4fa768c6998bd4ba86143ba50855bdd0b7a54''),
     (''kernel'', 0x040000, 0x190000, ''0855c3a93f571c3130f1bdd38469e7c806ce713550a3ce536c81167579341545''),
     (''root'', 0x190000, 0x2E8000, ''6049eaacfaba6a2c3db2ed7a5f31cd02df8d793e166249f6a8a2180e89824cba''),
     (''system_before_patch'', 0x2E8000, 0x463000, ''0e76c9eb0dfb499c7556a6a111608757b6c9e32705c07492f172253255fe8041''),
     (''system_after_patch'', 0x46B000, 0x7D0000, ''07a3b00fe224a8e121f760753998335e7f6d59f1cfe2dc92087c040083f46b3a''),
     (''hwconfig_between_identity_fields'', 0x7D200D, 0x7D2011, ''3c3351dc1dedcd627419e02de4fc8202e2d507d786c26f142b767fd9859d0cb4'')]"

definition HWCONFIG_BEFORE_IDENTITY_SHA256 :: string where
  "HWCONFIG_BEFORE_IDENTITY_SHA256 = ''e9ba6b36ab55dd0284e7cfcaf8c6ece3b4903bf953dcae34026244a5febd701d''"
definition HWCONFIG_AFTER_UNIT_FIELDS_SHA256 :: string where
  "HWCONFIG_AFTER_UNIT_FIELDS_SHA256 = ''f2e10823638187acb4572437debe618bb1c27d0a8796d40445c3132cdd805601''"
definition NORMALIZED_INVARIANT_SHA256 :: string where
  "NORMALIZED_INVARIANT_SHA256 = ''4dee29ee9f996779a8af0f4e4a66ebad3c6c1ca353cf8b4287b4f1f9a8b12823''"

section \<open>Decimal text\<close>

fun dec_text :: "nat \<Rightarrow> string" where
  "dec_text n = (if n < 10 then [char_of (48 + n)] else dec_text (n div 10) @ [char_of (48 + n mod 10)])"

declare dec_text.simps [simp del]

text \<open>\<open>f"{n:0wd}"\<close>.\<close>

definition dec_padded :: "nat \<Rightarrow> nat \<Rightarrow> string" where
  "dec_padded w n = replicate (w - length (dec_text n)) CHR ''0'' @ dec_text n"

section \<open>HWCONFIG\<close>

record hwconfig_record =
  hw_record_type :: nat
  hw_record_length :: nat
  hw_record_end :: nat
  hw_extension_start :: nat
  hw_extension_length :: nat
  hw_extension_sha256 :: string

definition identify_hwconfig_variant :: "hash_functions \<Rightarrow> bytes \<Rightarrow> (string \<times> hwconfig_record) res" where
  "identify_hwconfig_variant H img =
     (let record_type = le_val (pslice img HW_RECORD_START (HW_RECORD_START + 2));
          record_length = le_val (pslice img (HW_RECORD_START + 2) HW_RECORD_PAYLOAD_START);
          record_end = HW_RECORD_PAYLOAD_START + record_length
      in if record_type \<noteq> 12 then Inl (ValidationError ''HWCONFIG record expected type 12'')
         else if record_length < 0x100
         then Inl (ValidationError ''HWCONFIG type-12 payload is shorter than its known 256-byte prefix'')
         else if record_length \<notin> set HW_SUPPORTED_PAYLOAD_LENGTHS
         then Inl (ValidationError ''HWCONFIG type-12 payload length is not one of the physically observed lengths'')
         else if record_end > CONFIG_START
         then Inl (ValidationError ''HWCONFIG type-12 payload extends beyond the HWCONFIG partition'')
         else Inr (''type12-length'' @ dec_text record_length,
           \<lparr>hw_record_type = record_type, hw_record_length = record_length, hw_record_end = record_end,
            hw_extension_start = HW_KNOWN_PAYLOAD_END, hw_extension_length = record_length - 0x100,
            hw_extension_sha256 = sha256 H (pslice img HW_KNOWN_PAYLOAD_END record_end)\<rparr>))"

definition normalized_hwconfig_before_identity :: "bytes \<Rightarrow> bytes" where
  "normalized_hwconfig_before_identity img =
     pslice img 0x7D0000 (HW_RECORD_START + 2) @ le_bytes 2 0x100 @ pslice img HW_RECORD_PAYLOAD_START HW_CHECK_START"

definition normalized_hwconfig_after_unit_fields :: "bytes \<Rightarrow> hwconfig_record \<Rightarrow> bytes" where
  "normalized_hwconfig_after_unit_fields img r =
     pslice img HW_DATE_END HW_KNOWN_PAYLOAD_END @ replicate (hw_extension_length r) 0 @
     pslice img (hw_record_end r) CONFIG_START"

definition invariant_bytes :: "hash_functions \<Rightarrow> bytes \<Rightarrow> hwconfig_record option \<Rightarrow> bytes res" where
  "invariant_bytes H img record_or_none =
     res_bind (case record_or_none of
         None \<Rightarrow> res_bind (identify_hwconfig_variant H img) (\<lambda>(_, r). Inr r)
       | Some r \<Rightarrow> Inr r) (\<lambda>r.
     Inr (take PATCH_START img @ pslice img PATCH_END (HW_RECORD_START + 2) @ le_bytes 2 0x100 @
       pslice img HW_RECORD_PAYLOAD_START HW_CHECK_START @ pslice img HW_CHECK_END HW_UOID_START @
       normalized_hwconfig_after_unit_fields img r))"

definition leap_year :: "nat \<Rightarrow> bool" where
  "leap_year y \<longleftrightarrow> y mod 4 = 0 \<and> (y mod 100 \<noteq> 0 \<or> y mod 400 = 0)"

definition days_in_month :: "nat \<Rightarrow> nat \<Rightarrow> nat" where
  "days_in_month y m = (if m = 2 then (if leap_year y then 29 else 28) else if m \<in> {4, 6, 9, 11} then 30 else 31)"

text \<open>\<open>date(year, month, day)\<close> does not raise \<open>ValueError\<close>.\<close>

definition valid_date :: "date \<Rightarrow> bool" where
  "valid_date dt = (case dt of (y, m, d) \<Rightarrow>
     1 \<le> y \<and> y \<le> 9999 \<and> 1 \<le> m \<and> m \<le> 12 \<and> 1 \<le> d \<and> d \<le> days_in_month y m)"

definition isoformat :: "date \<Rightarrow> string" where
  "isoformat dt = (case dt of (y, m, d) \<Rightarrow> dec_padded 4 y @ ''-'' @ dec_padded 2 m @ ''-'' @ dec_padded 2 d)"

definition decode_hwconfig_date :: "bytes \<Rightarrow> string res" where
  "decode_hwconfig_date img =
     (let year = le_val (pslice img HW_DATE_START (HW_DATE_START + 2))
      in if length img \<le> HW_DATE_START + 3 then Inl IndexError
         else
           let dt = (year, unat (img ! (HW_DATE_START + 2)), unat (img ! (HW_DATE_START + 3)))
           in if \<not> valid_date dt
              then Inl (ValidationError ''The unit-specific HWCONFIG date field is not a valid year/month/day value'')
              else if dt \<notin> set HW_SUPPORTED_DATES
              then Inl (ValidationError ''The unit-specific HWCONFIG date field is not one of the physically observed values'')
              else Inr (isoformat dt))"

text \<open>\<open>UOID_PATTERN.fullmatch\<close>.\<close>

definition base64_byte :: "byte \<Rightarrow> bool" where
  "base64_byte b \<longleftrightarrow> (0x41 \<le> b \<and> b \<le> 0x5A) \<or> (0x61 \<le> b \<and> b \<le> 0x7A) \<or> (0x30 \<le> b \<and> b \<le> 0x39) \<or>
     b \<in> {0x2B, 0x2F, 0x3D}"

definition uoid_is_valid :: "bytes \<Rightarrow> bool" where
  "uoid_is_valid uoid \<longleftrightarrow> length uoid = 94 \<and> take 7 uoid = ascii ''12PSSSS'' \<and> uoid ! 7 \<in> {0x33, 0x34, 0x35} \<and>
     list_all base64_byte (drop 8 uoid)"

section \<open>The analysis\<close>

record segment_result =
  sr_name :: string
  sr_start :: nat
  sr_end :: nat
  sr_expected_sha256 :: string
  sr_actual_sha256 :: string
  sr_normalized :: bool

definition sr_match :: "segment_result \<Rightarrow> bool" where
  "sr_match r \<longleftrightarrow> sr_actual_sha256 r = sr_expected_sha256 r"

definition reference_results :: "hash_functions \<Rightarrow> bytes \<Rightarrow> segment_result list" where
  "reference_results H img = map (\<lambda>(name, start, stop, expected).
     \<lparr>sr_name = name, sr_start = start, sr_end = stop, sr_expected_sha256 = expected,
      sr_actual_sha256 = sha256 H (pslice img start stop), sr_normalized = False\<rparr>) REFERENCE_SEGMENTS"

definition normalized_results :: "hash_functions \<Rightarrow> bytes \<Rightarrow> hwconfig_record \<Rightarrow> segment_result list" where
  "normalized_results H img r =
     [\<lparr>sr_name = ''hwconfig_before_identity_check'', sr_start = 0x7D0000, sr_end = HW_CHECK_START,
       sr_expected_sha256 = HWCONFIG_BEFORE_IDENTITY_SHA256,
       sr_actual_sha256 = sha256 H (normalized_hwconfig_before_identity img), sr_normalized = True\<rparr>,
      \<lparr>sr_name = ''hwconfig_after_unit_fields'', sr_start = HW_DATE_END, sr_end = CONFIG_START,
       sr_expected_sha256 = HWCONFIG_AFTER_UNIT_FIELDS_SHA256,
       sr_actual_sha256 = sha256 H (normalized_hwconfig_after_unit_fields img r), sr_normalized = True\<rparr>]"

definition segment_errors :: "segment_result list \<Rightarrow> string list" where
  "segment_errors results =
     map (\<lambda>r. sr_name r @ '' does not match the supported reference firmware'') (filter (\<lambda>r. \<not> sr_match r) results)"

definition system_state_of :: "string \<Rightarrow> system_state" where
  "system_state_of patch_hash =
     (if patch_hash = ORIGINAL_PATCH_SHA256 then Stock_unpatched
      else if patch_hash = PATCHED_PATCH_SHA256 then Known_bashrc_patched else Unknown_state)"

text \<open>\<open>try: r except ValidationError as exc: errors.append(str(exc))\<close>.\<close>

definition catch_validation :: "'a res \<Rightarrow> (string + 'a) res" where
  "catch_validation r =
     (case r of Inr x \<Rightarrow> Inr (Inr x) | Inl (ValidationError m) \<Rightarrow> Inr (Inl m) | Inl e \<Rightarrow> Inl e)"

definition error_of :: "string + 'a \<Rightarrow> string list" where
  "error_of r = (case r of Inl m \<Rightarrow> [m] | Inr _ \<Rightarrow> [])"

record analysis =
  an_source_name :: ustring
  an_size :: nat
  an_sha256 :: string
  an_invariant_sha256 :: string
  an_hwconfig_variant :: string
  an_hwconfig_extension_length :: nat
  an_hwconfig_extension_sha256 :: string
  an_segment_results :: "segment_result list"
  an_system_state :: system_state
  an_system_patch_sha256 :: string
  an_hwconfig_check_hex :: string
  an_hwconfig_date :: string
  an_uoid :: bytes
  an_uoid_sha256 :: string
  an_serial_sha256 :: string
  an_config :: config_info
  an_config_is_canonical :: bool
  an_canonical_config_sha256 :: string
  an_warnings :: "string list"

text \<open>\<open>kind\<close> of the HWCONFIG outcome: the normalized checks run only when the record was identified.\<close>

definition hwconfig_errors :: "hash_functions \<Rightarrow> bytes \<Rightarrow> string + (string \<times> hwconfig_record) \<Rightarrow> string list res" where
  "hwconfig_errors H img hw =
     (case hw of
        Inl _ \<Rightarrow> Inr []
      | Inr (_, r) \<Rightarrow>
          res_bind (invariant_bytes H img (Some r)) (\<lambda>fingerprint.
          Inr (segment_errors (normalized_results H img r) @
            (if sha256 H fingerprint \<noteq> NORMALIZED_INVARIANT_SHA256
             then [''The combined normalized invariant firmware fingerprint does not match the supported reference firmware'']
             else []))))"

definition window_errors :: "hash_functions \<Rightarrow> bytes \<Rightarrow> string list" where
  "window_errors H img =
     (if system_state_of (sha256 H (pslice img PATCH_START PATCH_END)) = Unknown_state
      then [''The /home/bashrc.sh SquashFS patch window is neither the exact stock version nor the exact audited patched version'']
      else []) @
     (if \<not> uoid_is_valid (pslice img HW_UOID_START HW_UOID_END)
      then [''The unit-specific HWCONFIG UOID field does not have the expected 94-byte ASCII structure''] else [])"

definition unit_warnings :: "bytes \<Rightarrow> config_info \<Rightarrow> string list" where
  "unit_warnings img cfg =
     (if pslice img HW_CHECK_START HW_CHECK_END \<in> {[0, 0, 0], [0xFF, 0xFF, 0xFF]}
      then [''The unit-specific three-byte HWCONFIG check value is all-zero/all-FF''] else []) @
     (if ci_serial_source cfg \<noteq> Live_current
      then [''serial.cfg was recovered from a unique historical JFFS2 node because no valid live serial entry was available'']
      else [])"

text \<open>The end of \<open>analyze_image\<close>: raise when an error was collected, else build the report.\<close>

definition finish_analysis ::
    "hash_functions \<Rightarrow> bytes \<Rightarrow> ustring \<Rightarrow> string list \<Rightarrow> string + (string \<times> hwconfig_record) \<Rightarrow> string + string \<Rightarrow>
     string + config_info \<Rightarrow> analysis res" where
  "finish_analysis H img source_name errors hw hw_date cfg =
     (case (hw, hw_date, cfg) of
        (Inr (variant, r), Inr day, Inr info) \<Rightarrow>
          if errors \<noteq> [] then Inl (ValidationError ''failed strict validation'')
          else
            let patch_hash = sha256 H (pslice img PATCH_START PATCH_END);
                uoid = pslice img HW_UOID_START HW_UOID_END
            in res_bind (invariant_bytes H img (Some r)) (\<lambda>fingerprint.
               res_bind (build_minimal_config (ci_serial_payload info)) (\<lambda>canonical_config.
               Inr \<lparr>an_source_name = source_name, an_size = length img, an_sha256 = sha256 H img,
                 an_invariant_sha256 = sha256 H fingerprint, an_hwconfig_variant = variant,
                 an_hwconfig_extension_length = hw_extension_length r,
                 an_hwconfig_extension_sha256 = hw_extension_sha256 r,
                 an_segment_results = reference_results H img @ normalized_results H img r,
                 an_system_state = system_state_of patch_hash, an_system_patch_sha256 = patch_hash,
                 an_hwconfig_check_hex = hex_bytes (pslice img HW_CHECK_START HW_CHECK_END),
                 an_hwconfig_date = day, an_uoid = uoid, an_uoid_sha256 = sha256 H uoid,
                 an_serial_sha256 = sha256 H (ci_serial_payload info), an_config = info,
                 an_config_is_canonical = (pslice img CONFIG_START CONFIG_END = canonical_config),
                 an_canonical_config_sha256 = sha256 H canonical_config,
                 an_warnings = unit_warnings img info\<rparr>))
      | _ \<Rightarrow> Inl (ValidationError ''failed strict validation''))"

definition analyze_image ::
    "hash_functions \<Rightarrow> (bytes \<Rightarrow> nat \<Rightarrow> (bytes \<times> bool) option) \<Rightarrow> bytes \<Rightarrow> ustring \<Rightarrow> bool \<Rightarrow> bool \<Rightarrow> analysis res" where
  "analyze_image H inflate img source_name allow_unknown_config preserve_config_data =
     (if length img \<noteq> FLASH_SIZE then Inl (ValidationError ''expected exactly 8388608 bytes'')
      else
        res_bind (catch_validation (identify_hwconfig_variant H img)) (\<lambda>hw.
        res_bind (hwconfig_errors H img hw) (\<lambda>normalized_errors.
        res_bind (catch_validation (decode_hwconfig_date img)) (\<lambda>hw_date.
        res_bind (catch_validation (extract_serial_and_config_info inflate (pslice img CONFIG_START CONFIG_END)
            allow_unknown_config preserve_config_data)) (\<lambda>cfg.
        finish_analysis H img source_name
          (error_of hw @ segment_errors (reference_results H img) @ normalized_errors @ window_errors H img @
           error_of hw_date @ error_of cfg) hw hw_date cfg)))))"

section \<open>What the validator accepts\<close>

text \<open>Everything about an image outside its config partition that the validator insists on.\<close>

definition supported_firmware :: "hash_functions \<Rightarrow> bytes \<Rightarrow> bool" where
  "supported_firmware H img \<longleftrightarrow>
     list_all (\<lambda>(name, start, stop, expected). sha256 H (pslice img start stop) = expected) REFERENCE_SEGMENTS \<and>
     (\<exists>variant r fingerprint. identify_hwconfig_variant H img = Inr (variant, r) \<and>
        sha256 H (normalized_hwconfig_before_identity img) = HWCONFIG_BEFORE_IDENTITY_SHA256 \<and>
        sha256 H (normalized_hwconfig_after_unit_fields img r) = HWCONFIG_AFTER_UNIT_FIELDS_SHA256 \<and>
        invariant_bytes H img (Some r) = Inr fingerprint \<and> sha256 H fingerprint = NORMALIZED_INVARIANT_SHA256) \<and>
     sha256 H (pslice img PATCH_START PATCH_END) \<in> {ORIGINAL_PATCH_SHA256, PATCHED_PATCH_SHA256} \<and>
     uoid_is_valid (pslice img HW_UOID_START HW_UOID_END) \<and>
     (\<exists>day. decode_hwconfig_date img = Inr day)"

lemma catch_validation_simps [simp]:
  "catch_validation (Inr x) = Inr (Inr x)" "catch_validation (Inl (ValidationError m)) = Inr (Inl m)"
  "catch_validation r = Inr (Inr x) \<longleftrightarrow> r = Inr x"
  by (auto simp: catch_validation_def split: sum.splits exn.splits)

lemma segment_errors_none: "segment_errors rs = [] \<longleftrightarrow> list_all sr_match rs"
  by (auto simp: segment_errors_def filter_empty_conv list_all_iff)

lemma reference_results_match:
  "list_all sr_match (reference_results H img) \<longleftrightarrow>
     list_all (\<lambda>(name, start, stop, expected). sha256 H (pslice img start stop) = expected) REFERENCE_SEGMENTS"
  by (auto simp: reference_results_def list_all_iff sr_match_def)

lemma normalized_results_match:
  "list_all sr_match (normalized_results H img r) \<longleftrightarrow>
     sha256 H (normalized_hwconfig_before_identity img) = HWCONFIG_BEFORE_IDENTITY_SHA256 \<and>
     sha256 H (normalized_hwconfig_after_unit_fields img r) = HWCONFIG_AFTER_UNIT_FIELDS_SHA256"
  by (simp add: normalized_results_def sr_match_def)

lemma invariant_bytes_Some: "\<exists>fingerprint. invariant_bytes H img (Some r) = Inr fingerprint"
  by (simp add: invariant_bytes_def)

lemma patch_hashes_differ: "ORIGINAL_PATCH_SHA256 \<noteq> PATCHED_PATCH_SHA256"
  by (simp add: ORIGINAL_PATCH_SHA256_def PATCHED_PATCH_SHA256_def)

lemma system_state_of_cases:
  "system_state_of h = Stock_unpatched \<longleftrightarrow> h = ORIGINAL_PATCH_SHA256"
  "system_state_of h = Known_bashrc_patched \<longleftrightarrow> h = PATCHED_PATCH_SHA256"
  "system_state_of h = Unknown_state \<longleftrightarrow> h \<notin> {ORIGINAL_PATCH_SHA256, PATCHED_PATCH_SHA256}"
  using patch_hashes_differ by (auto simp: system_state_of_def)

lemma window_errors_none:
  "window_errors H img = [] \<longleftrightarrow> sha256 H (pslice img PATCH_START PATCH_END) \<in> {ORIGINAL_PATCH_SHA256, PATCHED_PATCH_SHA256} \<and>
     uoid_is_valid (pslice img HW_UOID_START HW_UOID_END)"
  by (simp add: window_errors_def system_state_of_cases)

lemma extracted_serial_valid:
  assumes "extract_serial_and_config_info inflate config au pl = Inr info"
  shows "serial_payload_is_valid (ci_serial_payload info)"
proof -
  obtain dirents where "recover_serial (parse_jffs2 config) (live_root_entries dirents) = Inr (ci_serial_payload info, ci_serial_source info)"
    using extract_Inr(2) [OF assms] by blast
  then have "live_serial (parse_jffs2 config) (live_root_entries dirents) = Inr (Some (ci_serial_payload info)) \<or>
      ci_serial_payload info \<in> set (historical_serials (parse_jffs2 config))"
    using recover_serial_Inr by fastforce
  then show ?thesis
  proof
    assume "live_serial (parse_jffs2 config) (live_root_entries dirents) = Inr (Some (ci_serial_payload info))"
    from live_serial_Some [OF this] show ?thesis by (auto simp: serial_inode_shape_def)
  qed (auto simp: historical_serials_in serial_inode_shape_def)
qed

text \<open>What an analysis reports, given that there is one.\<close>

lemma finish_analysis_Inr:
  assumes "finish_analysis H img source_name errors hw hw_date cfg = Inr a"
  obtains variant r day info where "hw = Inr (variant, r)" "hw_date = Inr day" "cfg = Inr info" "errors = []"
    "an_config a = info" "an_system_state a = system_state_of (sha256 H (pslice img PATCH_START PATCH_END))"
    "an_uoid a = pslice img HW_UOID_START HW_UOID_END" "an_sha256 a = sha256 H img"
    "an_hwconfig_check_hex a = hex_bytes (pslice img HW_CHECK_START HW_CHECK_END)"
    "an_config_is_canonical a \<longleftrightarrow> build_minimal_config (ci_serial_payload info) = Inr (pslice img CONFIG_START CONFIG_END)"
    "an_hwconfig_date a = day" "an_hwconfig_variant a = variant"
proof (cases hw; cases hw_date; cases cfg)
  fix v day info
  assume c: "hw = Inr v" "hw_date = Inr day" "cfg = Inr info"
  obtain variant r where "v = (variant, r)" by (cases v)
  with c assms show thesis
    by (intro that [of variant r day info]) (auto simp: finish_analysis_def Let_def split: if_splits)
qed (use assms in \<open>auto simp: finish_analysis_def\<close>)

lemma analyze_image_Inr:
  assumes "analyze_image H inflate img source_name au pl = Inr a"
  shows "length img = FLASH_SIZE" "supported_firmware H img"
    "extract_serial_and_config_info inflate (pslice img CONFIG_START CONFIG_END) au pl = Inr (an_config a)"
    "an_system_state a = system_state_of (sha256 H (pslice img PATCH_START PATCH_END))"
    "an_uoid a = pslice img HW_UOID_START HW_UOID_END"
    "an_config_is_canonical a \<longleftrightarrow> build_minimal_config (ci_serial_payload (an_config a)) = Inr (pslice img CONFIG_START CONFIG_END)"
    "an_sha256 a = sha256 H img" "an_hwconfig_check_hex a = hex_bytes (pslice img HW_CHECK_START HW_CHECK_END)"
    "decode_hwconfig_date img = Inr (an_hwconfig_date a)"
    "\<exists>r. identify_hwconfig_variant H img = Inr (an_hwconfig_variant a, r)"
proof -
  obtain hw ne hd cfg where s: "length img = FLASH_SIZE" "catch_validation (identify_hwconfig_variant H img) = Inr hw"
    "hwconfig_errors H img hw = Inr ne" "catch_validation (decode_hwconfig_date img) = Inr hd"
    "catch_validation (extract_serial_and_config_info inflate (pslice img CONFIG_START CONFIG_END) au pl) = Inr cfg"
    and f: "finish_analysis H img source_name
      (error_of hw @ segment_errors (reference_results H img) @ ne @ window_errors H img @ error_of hd @ error_of cfg) hw hd cfg = Inr a"
    using assms by (auto simp: analyze_image_def split: if_splits)
  show "length img = FLASH_SIZE" by (rule s(1))
  obtain variant r where hw: "hw = Inr (variant, r)" and day: "hd = Inr (an_hwconfig_date a)" and cfg: "cfg = Inr (an_config a)"
    and no: "segment_errors (reference_results H img) = []" "ne = []" "window_errors H img = []" "an_hwconfig_variant a = variant"
    using f by (rule finish_analysis_Inr) simp
  show "supported_firmware H img"
    using s no unfolding supported_firmware_def
    by (auto simp: hw day hwconfig_errors_def segment_errors_none reference_results_match normalized_results_match
        window_errors_none split: if_splits)
  show "extract_serial_and_config_info inflate (pslice img CONFIG_START CONFIG_END) au pl = Inr (an_config a)"
    "decode_hwconfig_date img = Inr (an_hwconfig_date a)" "\<exists>r. identify_hwconfig_variant H img = Inr (an_hwconfig_variant a, r)"
    using s no by (auto simp: cfg day hw)
  show "an_system_state a = system_state_of (sha256 H (pslice img PATCH_START PATCH_END))"
    "an_uoid a = pslice img HW_UOID_START HW_UOID_END" "an_sha256 a = sha256 H img"
    "an_hwconfig_check_hex a = hex_bytes (pslice img HW_CHECK_START HW_CHECK_END)"
    "an_config_is_canonical a \<longleftrightarrow> build_minimal_config (ci_serial_payload (an_config a)) = Inr (pslice img CONFIG_START CONFIG_END)"
    using f by (rule finish_analysis_Inr, simp)+
qed

lemma analyze_image_ok:
  assumes "length img = FLASH_SIZE" "supported_firmware H img"
    "extract_serial_and_config_info inflate (pslice img CONFIG_START CONFIG_END) au pl = Inr info"
  shows "\<exists>a. analyze_image H inflate img source_name au pl = Inr a \<and> an_config a = info"
proof -
  obtain variant r fingerprint day where s: "identify_hwconfig_variant H img = Inr (variant, r)"
    "invariant_bytes H img (Some r) = Inr fingerprint" "sha256 H fingerprint = NORMALIZED_INVARIANT_SHA256"
    "list_all sr_match (normalized_results H img r)" "list_all sr_match (reference_results H img)"
    "window_errors H img = []" "decode_hwconfig_date img = Inr day"
    using assms(2) by (auto simp: supported_firmware_def reference_results_match normalized_results_match window_errors_none)
  have "build_minimal_config (ci_serial_payload info) = Inr (minimal_image (ci_serial_payload info))"
    by (rule minimal_config_built [OF extracted_serial_valid [OF assms(3)]])
  moreover have "hwconfig_errors H img (Inr (variant, r)) = Inr []"
    using s by (simp add: hwconfig_errors_def segment_errors_none)
  ultimately show ?thesis
    using s assms(1,3) by (simp add: analyze_image_def finish_analysis_def Let_def error_of_def segment_errors_none)
qed

text \<open>C15: the strict validator accepts an image exactly when it is 8 MiB, every reference segment, the
  normalized HWCONFIG bytes and the combined fingerprint have the reference hashes, the patch window
  is the stock or the audited one, the UOID and the date are well formed, and the config partition
  yields a serial; building the canonical config never makes it fail.\<close>

theorem analyze_image_accepts_iff:
  "(\<exists>a. analyze_image H inflate img source_name allow_unknown preserve = Inr a) \<longleftrightarrow>
     length img = FLASH_SIZE \<and> supported_firmware H img \<and>
     (\<exists>info. extract_serial_and_config_info inflate (pslice img CONFIG_START CONFIG_END) allow_unknown preserve = Inr info)"
  using analyze_image_Inr(1-3) analyze_image_ok by metis

section \<open>What the fingerprint covers\<close>

lemma identify_Inr:
  assumes "identify_hwconfig_variant H img = Inr (variant, r)"
  shows "hw_record_length r \<in> {0x100, 0x105}" "hw_record_end r = 0x7D2004 + hw_record_length r"
    "hw_extension_length r = hw_record_length r - 0x100" "hw_record_end r = 0x7D2104 + hw_extension_length r"
    "le_val (pslice img 0x7D2000 0x7D2002) = 12" "le_val (pslice img 0x7D2002 0x7D2004) = hw_record_length r"
  using assms
  by (auto simp: identify_hwconfig_variant_def Let_def constants HW_SUPPORTED_PAYLOAD_LENGTHS_def split: if_splits)

text \<open>The bytes of an image that belong to one unit or that the recovery may rewrite.\<close>

definition unit_specific :: "hwconfig_record \<Rightarrow> nat \<Rightarrow> bool" where
  "unit_specific r i \<longleftrightarrow>
     (PATCH_START \<le> i \<and> i < PATCH_END) \<or>
     (HW_RECORD_START + 2 \<le> i \<and> i < HW_RECORD_PAYLOAD_START) \<or>
     (HW_CHECK_START \<le> i \<and> i < HW_CHECK_END) \<or> (HW_UOID_START \<le> i \<and> i < HW_DATE_END) \<or>
     (HW_KNOWN_PAYLOAD_END \<le> i \<and> i < hw_record_end r) \<or> CONFIG_START \<le> i"

lemma padded_tail_eq:
  assumes "replicate m z @ pslice xs (k + m) e = replicate n z @ pslice ys (k + n) e"
    and "k + m \<le> e" "k + n \<le> e" "e \<le> length xs" "e \<le> length ys" "k + m \<le> i" "k + n \<le> i" "i < e"
  shows "xs ! i = ys ! i"
proof -
  have "(replicate l z @ pslice zs (k + l) e) ! (i - k) = zs ! i" if "k + l \<le> i" "e \<le> length zs" for l zs
  proof -
    have "\<not> i - k < l" "i - k - l < e - (k + l)" "k + l + (i - k - l) = i" using that assms(8) by auto
    then show ?thesis using that assms(8) by (simp add: nth_append)
  qed
  from this [of m xs] this [of n ys] assms
  have "(replicate m z @ pslice xs (k + m) e) ! (i - k) = xs ! i"
    "(replicate n z @ pslice ys (k + n) e) ! (i - k) = ys ! i" by blast+
  with assms(1) show ?thesis by simp
qed

text \<open>Two 8 MiB images with the same invariant bytes agree at every position outside the patch window,
  the config partition and the unit-specific fields of HWCONFIG (record length, check value, UOID, date
  and the declared extension of either): the fingerprint leaves nothing else out.\<close>

theorem invariant_bytes_cover:
  assumes "length a = FLASH_SIZE" "length b = FLASH_SIZE"
    and "identify_hwconfig_variant H a = Inr (va, ra)" "identify_hwconfig_variant H b = Inr (vb, rb)"
    and "invariant_bytes H a (Some ra) = Inr fingerprint" "invariant_bytes H b (Some rb) = Inr fingerprint"
  shows "\<forall>i < FLASH_SIZE. \<not> unit_specific ra i \<and> \<not> unit_specific rb i \<longrightarrow> a ! i = b ! i"
proof -
  note ia = identify_Inr [OF assms(3)] and ib = identify_Inr [OF assms(4)]
  let ?tail = "\<lambda>x r. replicate (hw_extension_length r) 0 @ pslice x (hw_record_end r) CONFIG_START"
  have "take PATCH_START a @ pslice a PATCH_END 0x7D2002 @ le_bytes 2 0x100 @ pslice a 0x7D2004 0x7D200A @
      pslice a 0x7D200D 0x7D2011 @ pslice a 0x7D2073 0x7D2104 @ ?tail a ra =
    take PATCH_START b @ pslice b PATCH_END 0x7D2002 @ le_bytes 2 0x100 @ pslice b 0x7D2004 0x7D200A @
      pslice b 0x7D200D 0x7D2011 @ pslice b 0x7D2073 0x7D2104 @ ?tail b rb"
    using assms(5,6) by (simp add: invariant_bytes_def normalized_hwconfig_after_unit_fields_def constants)
  then have parts: "pslice a 0 PATCH_START = pslice b 0 PATCH_START" "pslice a PATCH_END 0x7D2002 = pslice b PATCH_END 0x7D2002"
    "pslice a 0x7D2004 0x7D200A = pslice b 0x7D2004 0x7D200A" "pslice a 0x7D200D 0x7D2011 = pslice b 0x7D200D 0x7D2011"
    "pslice a 0x7D2073 0x7D2104 = pslice b 0x7D2073 0x7D2104" and tail: "?tail a ra = ?tail b rb"
    using assms(1,2) by (simp_all add: FLASH_SIZE_def constants pslice_def)
  have len: "length a = 0x800000" "length b = 0x800000" using assms(1,2) by (simp_all add: FLASH_SIZE_def)
  have eq: "a ! i = b ! i" if "pslice a s e = pslice b s e" "s \<le> i" "i < e" "e \<le> 0x800000" for s e i
    using that pslice_eq_nth [of e a b s] len by simp
  show ?thesis
  proof (intro allI impI)
    fix i
    assume i: "i < FLASH_SIZE" and not: "\<not> unit_specific ra i \<and> \<not> unit_specific rb i"
    have conf: "i < 0x7E0000" using not by (simp add: unit_specific_def constants)
    have not_specific: "0x463000 \<le> i \<longrightarrow> 0x46B000 \<le> i" "0x7D2002 \<le> i \<longrightarrow> 0x7D2004 \<le> i" "0x7D200A \<le> i \<longrightarrow> 0x7D200D \<le> i"
      "0x7D2011 \<le> i \<longrightarrow> 0x7D2073 \<le> i" "0x7D2104 \<le> i \<longrightarrow> 0x7D2104 + hw_extension_length ra \<le> i"
      "0x7D2104 \<le> i \<longrightarrow> 0x7D2104 + hw_extension_length rb \<le> i"
      using not unfolding unit_specific_def constants ia(4) ib(4) by (simp_all add: not_less)
    have below: "i < k \<or> Q" if "k \<le> i \<longrightarrow> Q" for k Q using that by auto
    note out = not_specific [THEN below]
    note p = parts [unfolded constants]
    have "a ! i = b ! i" if "i < 0x463000" by (rule eq [OF p(1)]) (use that in simp_all)
    moreover have "a ! i = b ! i" if "0x46B000 \<le> i" "i < 0x7D2002" by (rule eq [OF p(2) that]) simp
    moreover have "a ! i = b ! i" if "0x7D2004 \<le> i" "i < 0x7D200A" by (rule eq [OF p(3) that]) simp
    moreover have "a ! i = b ! i" if "0x7D200D \<le> i" "i < 0x7D2011" by (rule eq [OF p(4) that]) simp
    moreover have "a ! i = b ! i" if "0x7D2073 \<le> i" "i < 0x7D2104" by (rule eq [OF p(5) that]) simp
    moreover have "a ! i = b ! i" if "0x7D2104 + hw_extension_length ra \<le> i" "0x7D2104 + hw_extension_length rb \<le> i"
      by (rule padded_tail_eq [of "hw_extension_length ra" 0 a "0x7D2104" "0x7E0000" "hw_extension_length rb" b])
        (use tail [unfolded ia(4) ib(4) constants] that conf len in simp_all)
    ultimately show "a ! i = b ! i" using out by blast
  qed
qed

end
