(* ===== verification/Reports.thy ===== *)
theory Reports
  imports Image_Analysis
begin

text \<open>
  The text of \<open>cc2camera/image.py\<close>: masked identifiers and the analysis report. A text is a list of code
  points.
\<close>

section \<open>Pieces\<close>

definition us_lines :: "ustring list \<Rightarrow> ustring" where
  "us_lines ls = concat (map (\<lambda>l. l @ [10]) ls)"

text \<open>\<open>sep.join(parts)\<close>.\<close>

fun join_with :: "ustring \<Rightarrow> ustring list \<Rightarrow> ustring" where
  "join_with sep [] = []"
| "join_with sep [x] = x"
| "join_with sep (x # xs) = x @ sep @ join_with sep xs"

abbreviation "join_lines \<equiv> join_with [10]"

definition upper_hex_char :: "char \<Rightarrow> char" where
  "upper_hex_char c = (if (of_char c :: nat) \<ge> 97 then char_of ((of_char c :: nat) - 32) else c)"

text \<open>\<open>f"{n:06X}"\<close>.\<close>

definition hex6 :: "nat \<Rightarrow> ustring" where
  "hex6 n = us (map upper_hex_char (hex_padded 6 n))"

text \<open>\<open>f"{name:<34}"\<close>.\<close>

definition left_34 :: "string \<Rightarrow> ustring" where
  "left_34 name = us name @ replicate (34 - length name) 0x20"

definition yes_no :: "bool \<Rightarrow> string" where
  "yes_no b = (if b then ''yes'' else ''no'')"

definition names_text :: "ustring list \<Rightarrow> ustring" where
  "names_text names = (let t = join_with (us '', '') names in if t = [] then us ''(none)'' else t)"

text \<open>\<open>n / d\<close> rounded to the nearest integer, ties to even.\<close>

definition round_half_even :: "nat \<Rightarrow> nat \<Rightarrow> nat" where
  "round_half_even n d =
     (let q = n div d; r = n mod d
      in if 2 * r > d \<or> (2 * r = d \<and> odd q) then q + 1 else q)"

text \<open>\<open>f"{non_ff * 100.0 / CONFIG_SIZE:.3f}"\<close>: the quotient by a power of two is an exact double.\<close>

definition usage_text :: "nat \<Rightarrow> string" where
  "usage_text non_ff =
     (let q = round_half_even (non_ff * 100000) CONFIG_SIZE
      in dec_text (q div 1000) @ ''.'' @ dec_padded 3 (q mod 1000))"

definition state_text :: "system_state \<Rightarrow> string" where
  "state_text st = (case st of Stock_unpatched \<Rightarrow> ''stock-unpatched''
     | Known_bashrc_patched \<Rightarrow> ''known-bashrc-patched'' | Unknown_state \<Rightarrow> ''unknown'')"

definition origin_text :: "serial_origin \<Rightarrow> string" where
  "origin_text origin = (case origin of Live_current \<Rightarrow> ''live-current''
     | Unique_historical_fallback \<Rightarrow> ''unique-historical-fallback'')"

section \<open>Masked identifiers\<close>

text \<open>\<open>mask_value\<close> with its default head and tail.\<close>

definition mask_value :: "bytes \<Rightarrow> ustring" where
  "mask_value value =
     (let text = decode_replace value
      in if length text \<le> 12 + 7 + 1 then text
         else take 12 text @ [0x2026] @ drop (length text - 7) text)"

text \<open>\<open>value.decode("ascii")\<close>.\<close>

definition decode_ascii :: "bytes \<Rightarrow> ustring res" where
  "decode_ascii value = (if list_all (\<lambda>b. b < 0x80) value then Inr (map unat value) else Inl UnicodeError)"

section \<open>The analysis report\<close>

definition segment_line :: "segment_result \<Rightarrow> ustring" where
  "segment_line r = us ''  PASS  '' @ left_34 (sr_name r) @ us '' 0x'' @ hex6 (sr_start r) @ us ''-0x'' @
     hex6 (sr_end r - 1) @ us (if sr_normalized r then '' (normalized)'' else '''')"

definition warning_block :: "string list \<Rightarrow> ustring" where
  "warning_block warnings =
     (if warnings = [] then []
      else us_lines [[], us ''Warnings'', us ''--------''] @ join_lines (map (\<lambda>w. us ''- '' @ us w) warnings) @ [10])"

definition display_identifier :: "bool \<Rightarrow> bytes \<Rightarrow> ustring res" where
  "display_identifier show_serial value = (if show_serial then decode_ascii value else Inr (mask_value value))"

definition report_text :: "analysis \<Rightarrow> ustring \<Rightarrow> ustring \<Rightarrow> ustring" where
  "report_text a serial_display uoid_display =
     us_lines
      [us ''CC2 camera image validation'',
       us ''==========================='',
       [],
       us ''Input'',
       us ''-----'',
       us ''Name:                    '' @ an_source_name a,
       us ''Size:                    '' @ us (dec_text (an_size a)) @ us '' bytes'',
       us ''SHA-256:                 '' @ us (an_sha256 a),
       [],
       us ''Reference match'',
       us ''---------------'',
       us ''Invariant fingerprint:   PASS'',
       us ''Invariant SHA-256:       '' @ us (an_invariant_sha256 a),
       us ''HWCONFIG record:         '' @ us (an_hwconfig_variant a),
       us ''HWCONFIG extension:      '' @ us (dec_text (an_hwconfig_extension_length a)) @ us '' bytes'',
       us ''Extension SHA-256:       '' @ us (an_hwconfig_extension_sha256 a),
       us ''System patch state:      '' @ us (state_text (an_system_state a)),
       us ''System window SHA-256:   '' @ us (an_system_patch_sha256 a),
       [],
       us ''Invariant segments:'',
       join_lines (map segment_line (an_segment_results a)),
       [],
       us ''Unit-specific data'',
       us ''------------------'',
       us ''HWCONFIG check bytes:    '' @ us (an_hwconfig_check_hex a),
       us ''HWCONFIG unit date:      '' @ us (an_hwconfig_date a),
       us ''HWCONFIG UOID:           '' @ uoid_display,
       us ''UOID SHA-256:            '' @ us (an_uoid_sha256 a),
       us ''serial.cfg source:       '' @ us (origin_text (ci_serial_source (an_config a))),
       us ''serial.cfg value:        '' @ serial_display,
       us ''serial.cfg SHA-256:      '' @ us (an_serial_sha256 a),
       [],
       us ''JFFS2 config'',
       us ''------------'',
       us ''Physical use:            '' @ us (usage_text (ci_non_ff_bytes (an_config a))) @ us ''%'',
       us ''Non-0xFF bytes:          '' @ us (dec_text (ci_non_ff_bytes (an_config a))),
       us ''CRC-valid nodes:         '' @ us (dec_text (ci_node_count (an_config a))),
       us ''Current nodes:           '' @ us (dec_text (ci_current_node_count (an_config a))),
       us ''Obsolete nodes:          '' @ us (dec_text (ci_obsolete_node_count (an_config a))),
       us ''Names ever observed:     '' @ names_text (ci_all_names (an_config a)),
       us ''Live names:              '' @ names_text (ci_live_names (an_config a)),
       us ''Names outside clean set: '' @ names_text (ci_unexpected_names (an_config a)),
       us ''Already canonical:       '' @ us (yes_no (an_config_is_canonical a)),
       us ''Canonical config SHA-256:'' @ us (an_canonical_config_sha256 a),
       warning_block (an_warnings a),
       us ''Result: STRICT VALIDATION PASSED'']"

definition format_analysis :: "analysis \<Rightarrow> bool \<Rightarrow> ustring res" where
  "format_analysis a show_serial =
     res_bind (display_identifier show_serial (ci_serial_value (an_config a))) (\<lambda>serial_display.
     res_bind (display_identifier show_serial (an_uoid a)) (\<lambda>uoid_display.
     Inr (report_text a serial_display uoid_display)))"

end
