(* ===== verification/Jffs2_Build.thy ===== *)
theory Jffs2_Build
  imports Jffs2_Files
begin

text \<open>
  What \<open>build_preserved_config\<close> returns, and that it succeeds on every list of files that fits, unless
  their bytes imitate a node.
\<close>

lemma build_preserved_Inr:
  assumes "build_preserved_config inflate files = Inr built"
  shows "length built = 131072 \<and> (\<forall>k. 0x4000 \<le> k \<and> k < 131072 \<longrightarrow> built ! k = 0xFF) \<and>
    distinct (map cf_name files) \<and>
    (\<exists>serial info. [serial] = map cf_data (filter (\<lambda>f. cf_name f = SERIAL_NAME) (sort_key cf_name files)) \<and>
       serial_payload_is_valid serial \<and>
       extract_serial_and_config_info inflate built True True = Inr info \<and>
       ci_live_config_files info = Some (sort_key cf_name files) \<and> ci_obsolete_node_count info = 0)"
proof -
  let ?files = "sort_key cf_name files"
  let ?serials = "map cf_data (filter (\<lambda>f. cf_name f = SERIAL_NAME) ?files)"
  obtain clean info rebuilt where ok: "distinct (map cf_name ?files)" "length ?serials = 1"
    "serial_payload_is_valid (hd ?serials)"
    and clean: "node_header 0x2003 12 = Inr clean"
    and out: "place_files ?files (put (replicate CONFIG_SIZE 0xFF) 0 clean) 12 = Inr built"
    and info: "extract_serial_and_config_info inflate built True True = Inr info"
    and rebuilt: "ci_live_config_files info = Some rebuilt" "same_files rebuilt ?files" "ci_obsolete_node_count info = 0"
    using assms by (auto simp: build_preserved_config_def Let_def split: if_splits option.splits)
  obtain fs where fs: "ci_live_config_files info = Some fs" "sorted (map cf_name fs)" "distinct (map cf_name fs)"
    by (rule preserved_files_sorted [OF info])
  have "rebuilt = ?files"
    by (rule same_files_eq) (use rebuilt fs ok in simp_all)
  moreover have "[hd ?serials] = ?serials" using ok(2) by (cases ?serials) auto
  moreover have "distinct (map cf_name files)" using ok(1) by (simp add: distinct_map_sort_key)
  moreover have "length built = 131072 \<and> (\<forall>k. 0x4000 \<le> k \<and> k < 131072 \<longrightarrow> built ! k = 0xFF)"
  proof -
    have "length clean = 12" using clean minimal_clean_node by (simp add: minimal_lengths)
    then show ?thesis using place_files_frame [OF out] by (simp add: constants nth_put)
  qed
  ultimately show ?thesis using ok(3) info rebuilt by metis
qed

lemma add_serial_file_in:
  assumes "add_serial_file payload files = Inr out"
  shows "\<exists>f \<in> set out. cf_name f = SERIAL_NAME \<and> cf_data f = payload"
proof (cases "find (\<lambda>f. cf_name f = SERIAL_NAME) files")
  case None
  then show ?thesis using assms by (auto simp: add_serial_file_def serial_file_def)
next
  case (Some f)
  then have "f \<in> set files" "cf_name f = SERIAL_NAME" by (auto simp: find_Some_iff)
  with Some show ?thesis using assms by (auto simp: add_serial_file_def split: if_splits)
qed

lemma preserved_serial:
  assumes "extract_serial_and_config_info inflate config au True = Inr info"
  obtains fs f where "ci_live_config_files info = Some fs" "sorted (map cf_name fs)" "distinct (map cf_name fs)"
    "f \<in> set fs" "cf_name f = SERIAL_NAME" "cf_data f = ci_serial_payload info"
proof -
  obtain fs where fs: "ci_live_config_files info = Some fs" "sorted (map cf_name fs)" "distinct (map cf_name fs)"
    by (rule preserved_files_sorted [OF assms])
  obtain files where "add_serial_file (ci_serial_payload info) files = Inr fs"
    using extract_Inr(2) [OF assms] fs(1) by auto
  from add_serial_file_in [OF this] that fs show thesis by blast
qed

end
