(* ===== verification/Recovery.thy ===== *)
theory Recovery
  imports Reports Image_Source Jffs2_Build
begin

text \<open>
  \<open>build_recovery\<close> of \<open>cc2camera/image.py\<close> and \<open>staged_directory\<close> of \<open>cc2camera/bundle.py\<close>: the recovery image
  rebuilt from a validated one, the files of the bundle, and their publication.

  A directory tree is a map from a path to the files of that directory. The private staging
  directory is not part of it: it is removed on every exit. The function \<open>others\<close> is what other
  processes do to the tree between the first check of the destination and the publication.
\<close>

section \<open>Publishing a directory\<close>

type_synonym bundle_files = "(string \<times> bytes) list"
type_synonym tree = "ustring \<rightharpoonup> bundle_files"

datatype platform = Win32 | Linux_renameat2 | Darwin_renamex_np | Other_platform

text \<open>All three system calls fail when the destination exists, even when it is an empty directory.\<close>

definition rename_new :: "platform \<Rightarrow> bundle_files \<Rightarrow> ustring \<Rightarrow> tree \<Rightarrow> unit res \<times> tree" where
  "rename_new platform src destination t =
     (if platform = Other_platform then (Inl OSError, t)
      else if destination \<in> dom t then (Inl FileExistsError, t)
      else (Inr (), t(destination \<mapsto> src)))"

definition staged_directory ::
    "platform \<Rightarrow> (tree \<Rightarrow> tree) \<Rightarrow> ustring \<Rightarrow> (bundle_files \<times> 'a) res \<Rightarrow> tree \<Rightarrow> 'a res \<times> tree" where
  "staged_directory platform others destination body t =
     (if destination \<in> dom t then (Inl FileExistsError, t)
      else case body of
          Inl e \<Rightarrow> (Inl e, others t)
        | Inr (staging, result) \<Rightarrow>
            (case rename_new platform staging destination (others t) of
               (Inl e, t') \<Rightarrow> (Inl e, t')
             | (Inr _, t') \<Rightarrow> (Inr result, t')))"

section \<open>The rebuilt image\<close>

text \<open>The libraries: hashes, zlib, liblzma in both directions, and the JSON printer.\<close>

record libraries =
  lib_hash :: hash_functions
  lib_inflate :: "bytes \<Rightarrow> nat \<Rightarrow> (bytes \<times> bool) option"
  lib_xz_decompress :: "bytes \<Rightarrow> bytes option"
  lib_lzma2 :: "bytes \<Rightarrow> bytes"
  lib_json_dumps :: "json \<Rightarrow> ustring"

record rebuilt =
  rb_image :: bytes
  rb_config :: bytes
  rb_canonical :: bytes
  rb_patch_changed :: bool
  rb_config_changed :: bool
  rb_analysis :: analysis

text \<open>The checks on the generated image.\<close>

definition check_rebuilt :: "libraries \<Rightarrow> bytes \<Rightarrow> string \<Rightarrow> bytes \<Rightarrow> bool \<Rightarrow> bytes \<Rightarrow> bytes \<Rightarrow> rebuilt res" where
  "check_rebuilt L img config_mode canonical_config patch_changed rebuilt_config out =
     (let preserve = (config_mode = ''preserve-files'')
      in if take PATCH_START out \<noteq> take PATCH_START img \<or>
            pslice out PATCH_END CONFIG_START \<noteq> pslice img PATCH_END CONFIG_START \<or>
            drop CONFIG_END out \<noteq> drop CONFIG_END img
         then Inl (ValidationError ''Internal safety check: bytes changed outside allowed regions'')
         else res_bind (analyze_image (lib_hash L) (lib_inflate L) out (us ''generated recovery image'') preserve preserve)
           (\<lambda>output_analysis.
           if an_system_state output_analysis \<noteq> Known_bashrc_patched
           then Inl (ValidationError ''Generated image is not in the known patched system state'')
           else if config_mode = ''serial-only'' \<and> \<not> an_config_is_canonical output_analysis
           then Inl (ValidationError ''Generated config is not canonical'')
           else if pslice out CONFIG_START CONFIG_END \<noteq> rebuilt_config
           then Inl (ValidationError ''Generated config differs from the selected rebuilt partition'')
           else Inr \<lparr>rb_image = out, rb_config = rebuilt_config, rb_canonical = canonical_config,
             rb_patch_changed = patch_changed,
             rb_config_changed = (pslice img CONFIG_START CONFIG_END \<noteq> rebuilt_config),
             rb_analysis = output_analysis\<rparr>))"

definition rebuild_config :: "libraries \<Rightarrow> analysis \<Rightarrow> string \<Rightarrow> bytes \<Rightarrow> bytes res" where
  "rebuild_config L a config_mode canonical_config =
     (if config_mode = ''preserve-files''
      then (case ci_live_config_files (an_config a) of
              None \<Rightarrow> Inl AssertionError
            | Some files \<Rightarrow> build_preserved_config (lib_inflate L) files)
      else Inr canonical_config)"

definition rebuild_image :: "libraries \<Rightarrow> bytes \<Rightarrow> analysis \<Rightarrow> string \<Rightarrow> rebuilt res" where
  "rebuild_image L img a config_mode =
     res_bind (apply_system_patch (lib_hash L) (lib_xz_decompress L) (lib_lzma2 L) img (an_system_state a))
       (\<lambda>(patched_region, patch_changed).
     res_bind (build_minimal_config (ci_serial_payload (an_config a))) (\<lambda>canonical_config.
     res_bind (rebuild_config L a config_mode canonical_config) (\<lambda>rebuilt_config.
     let recovery = take PATCH_START img @ patched_region @ drop PATCH_END img;
         recovery = take CONFIG_START recovery @ rebuilt_config @ drop CONFIG_END recovery
     in check_rebuilt L img config_mode canonical_config patch_changed rebuilt_config recovery)))"

section \<open>The bundle's texts\<close>

definition output_name :: string where "output_name = ''cc2-camera-recovery.bin''"
definition layout_name :: string where "layout_name = ''cc2-camera-layout.txt''"

definition layout_text :: ustring where
  "layout_text =
     us_lines
      [us ''    00000000:00462fff immutable_before_patch'',
       us ''    00463000:0046afff system_bashrc_patch'',
       us ''    0046b000:007dffff immutable_after_patch'',
       us ''    007e0000:007fffff config''] @ us ''    ''"

definition changed_regions :: "rebuilt \<Rightarrow> (string \<times> nat \<times> nat) list" where
  "changed_regions rb =
     (if rb_patch_changed rb then [(''system_bashrc_patch'', PATCH_START, PATCH_SIZE)] else []) @
     (if rb_config_changed rb then [(''config'', CONFIG_START, CONFIG_SIZE)] else [])"

definition write_section :: "(string \<times> nat \<times> nat) list \<Rightarrow> ustring" where
  "write_section regions =
     (if regions \<noteq> [] then
        let selected = join_with [0x20] (map (\<lambda>(name, _). us ''-i '' @ us name) regions);
            write_command = us ''flashrom -p buspirate_spi:dev=COM11,spispeed=1M -l '' @ us layout_name @ us '' '' @
              selected @ us '' -w '' @ us output_name
        in us_lines
      [us ''    WRITE COMMAND TEMPLATE'',
       us ''    ----------------------'',
       us ''    Edit COM11 and speed settings for your programmer, then run from this folder:'',
       [],
       us ''    '' @ write_command,
       [],
       us ''    The command intentionally omits --progress because some flashrom versions'',
       us ''    spam progress-accounting warnings. Flashrom still performs verification.'',
       [],
       us ''    The command intentionally does not enable programmer-supplied power. Verify'',
       us ''    the flash chip'' @ [0x27] @ us ''s required voltage and your wiring first, then power it using'',
       us ''    the hardware method you have independently tested while reading.''] @ us ''    ''
      else us_lines
      [us ''    WRITE COMMAND'',
       us ''    -------------'',
       us ''    No write is necessary: the input already equals the generated recovery image.''] @ us ''    '')"

definition read_warning :: "bool \<Rightarrow> ustring" where
  "read_warning insufficient_reads =
     (if insufficient_reads then
      us_lines
      [us ''    READ-CONFIDENCE WARNING'',
       us ''    -----------------------'',
       us ''    This image was built from fewer than three byte-identical physical reads.'',
       us ''    Re-read the flash and rebuild before writing if at all possible.'',
       []] @ us ''    ''
      else [])"

definition flashing_text :: "hash_functions \<Rightarrow> bytes \<Rightarrow> bytes \<Rightarrow> ustring \<Rightarrow> ustring \<Rightarrow> ustring" where
  "flashing_text H img out warning write_part =
     us_lines
      [us ''    CC2 CAMERA RECOVERY '' @ [0x2014] @ us '' GENERATED INSTRUCTIONS'',
       us ''    ============================================'',
       [],
       us ''    Input SHA-256:'',
       us ''    '' @ us (sha256 H img),
       [],
       us ''    Recovery SHA-256:'',
       us ''    '' @ us (sha256 H out),
       [],
       us ''    '' @ warning,
       us ''    '' @ write_part,
       us ''    FULL READBACK'',
       us ''    -------------'',
       us ''    Keep the same stable programmer connection and make a complete 8 MiB read:'',
       [],
       us ''    flashrom -p buspirate_spi:dev=COM11,spispeed=1M -r cc2-camera-readback.bin'',
       [],
       us ''    Then compare every byte:'',
       [],
       us ''    fc.exe /b '' @ us output_name @ us '' cc2-camera-readback.bin'',
       [],
       us ''On Linux/macOS use: cmp '' @ us output_name @ us '' cc2-camera-readback.bin'',
       [],
       us ''    Never connect normal USB/device power and programmer-supplied target power at'',
       us ''    the same time. Confirm the SPI voltage from the exact flash part marking or'',
       us ''    datasheet before making any powered connection.'',
       [],
       us ''    PRIVACY'',
       us ''    -------'',
       us ''    serial.cfg and the generated recovery image contain this camera'' @ [0x27] @ us ''s unique'',
       us ''    identifier. Do not publish either file unredacted.''] @ us ''    ''"

section \<open>The manifest and the validation report\<close>

abbreviation "jint n \<equiv> JInt (int n)"
abbreviation "jstr t \<equiv> JStr (us t)"

definition confirmation_json :: "confirmation \<Rightarrow> json" where
  "confirmation_json c = JObject
     [(us ''filename'', JStr (cr_filename c)), (us ''size'', jint (cr_size c)), (us ''sha256'', jstr (cr_sha256 c)),
      (us ''byte_identical'', JBool True), (us ''source_format'', jstr (cr_source_format c)),
      (us ''evidenced_identical_reads'', JInt (cr_evidenced c))]"

text \<open>\<open>name.decode("ascii", errors="backslashreplace")\<close>.\<close>

definition decode_backslashreplace :: "bytes \<Rightarrow> ustring" where
  "decode_backslashreplace name =
     concat (map (\<lambda>b. if b < 0x80 then [unat b] else [0x5C, 0x78] @ us (hex_bytes [b])) name)"

definition preserved_file_json :: "hash_functions \<Rightarrow> config_file \<Rightarrow> json" where
  "preserved_file_json H f = JObject
     [(us ''name_hex'', jstr (hex_bytes (cf_name f))), (us ''name_display'', JStr (decode_backslashreplace (cf_name f))),
      (us ''size'', jint (length (cf_data f))), (us ''sha256'', jstr (sha256 H (cf_data f))),
      (us ''inode'', jint (cf_inode f)), (us ''mode'', jint (cf_mode f)), (us ''uid'', jint (cf_uid f)),
      (us ''gid'', jint (cf_gid f)), (us ''atime'', jint (cf_atime f)), (us ''mtime'', jint (cf_mtime f)),
      (us ''ctime'', jint (cf_ctime f)), (us ''flags'', jint (cf_flags f)),
      (us ''dirent_mctime'', jint (cf_dirent_mctime f)), (us ''dirent_type'', jint (cf_dtype f))]"

text \<open>The entries of \<open>input_source\<close> that are not listed elsewhere.\<close>

definition evidence_json :: "source_info \<Rightarrow> json" where
  "evidence_json src =
     (case si_usb src of
        None \<Rightarrow> JObject []
      | Some u \<Rightarrow> JObject
          [(us ''read_passes'', JInt (ue_read_passes u)), (us ''required_identical_reads'', JInt (ue_required u)),
           (us ''consecutive_identical_reads'', JInt (ue_consecutive u)),
           (us ''maximum_read_attempts'', JInt (ue_maximum u)), (us ''bootloader_acceptance'', jstr (ue_acceptance u))])"

definition region_json :: "string \<times> nat \<times> nat \<Rightarrow> json" where
  "region_json region = (case region of (name, start, sz) \<Rightarrow> JObject
     [(us ''name'', jstr name), (us ''start'', jint start), (us ''end_inclusive'', jint (start + sz - 1)),
      (us ''size'', jint sz)])"

definition validation_json :: "analysis \<Rightarrow> analysis \<Rightarrow> json" where
  "validation_json a out = JObject
     [(us ''invariant_sha256'', jstr (an_invariant_sha256 a)), (us ''invariant_match'', JBool True),
      (us ''hwconfig_variant'', jstr (an_hwconfig_variant a)),
      (us ''hwconfig_extension_length'', jint (an_hwconfig_extension_length a)),
      (us ''hwconfig_extension_sha256'', jstr (an_hwconfig_extension_sha256 a)),
      (us ''hwconfig_date'', jstr (an_hwconfig_date a)),
      (us ''system_state_before'', jstr (state_text (an_system_state a))),
      (us ''system_state_after'', jstr (state_text (an_system_state out))),
      (us ''serial_source'', jstr (origin_text (ci_serial_source (an_config a)))),
      (us ''serial_masked'', JStr (mask_value (ci_serial_value (an_config a)))),
      (us ''serial_sha256'', jstr (an_serial_sha256 a)),
      (us ''uoid_masked'', JStr (mask_value (an_uoid a))),
      (us ''config_usage_percent_before'',
        JFloat (of_nat (round_half_even (ci_non_ff_bytes (an_config a) * 100000000) CONFIG_SIZE) / 1000000)),
      (us ''config_obsolete_nodes_before'', jint (ci_obsolete_node_count (an_config a))),
      (us ''config_unexpected_names_before'', JList (map JStr (ci_unexpected_names (an_config a))))]"

record build_args =
  ba_input_path :: ustring
  ba_output_dir :: ustring
  ba_confirmation_paths :: "ustring list"
  ba_config_mode :: string
  ba_wipe_unknown_config :: bool
  ba_show_serial :: bool
  ba_allow_fewer_reads :: bool

definition TOOL_VERSION :: string where "TOOL_VERSION = ''0.9.0''"

definition manifest_json ::
    "hash_functions \<Rightarrow> build_args \<Rightarrow> bytes \<Rightarrow> source_info \<Rightarrow> confirmation list \<Rightarrow> int \<Rightarrow> analysis \<Rightarrow> rebuilt \<Rightarrow> json" where
  "manifest_json H args img src confirmed total_reads a rb = JObject
     [(us ''tool'', JObject [(us ''name'', jstr ''cc2camera''), (us ''version'', jstr TOOL_VERSION)]),
      (us ''input'', JObject
        [(us ''filename'', JStr (path_name (ba_input_path args))), (us ''source_format'', jstr (si_format src)),
         (us ''image_member'', (case si_image_member src of None \<Rightarrow> JNull | Some m \<Rightarrow> jstr m)),
         (us ''size'', jint (length img)), (us ''sha256'', jstr (sha256 H img)),
         (us ''acquisition_evidence'', evidence_json src),
         (us ''confirmed_reads'', JList (map confirmation_json confirmed)),
         (us ''total_identical_reads'', JInt total_reads),
         (us ''fewer_reads_explicitly_allowed'', JBool (total_reads < MIN_IDENTICAL_READS \<and> ba_allow_fewer_reads args))]),
      (us ''validation'', validation_json a (rb_analysis rb)),
      (us ''output'', JObject
        [(us ''filename'', jstr output_name), (us ''size'', jint (length (rb_image rb))),
         (us ''sha256'', jstr (sha256 H (rb_image rb))),
         (us ''canonical_config_sha256'', jstr (sha256 H (rb_canonical rb))),
         (us ''rebuilt_config_sha256'', jstr (sha256 H (rb_config rb))),
         (us ''preserved_files'', JList
           (if ba_config_mode args = ''preserve-files''
            then map (preserved_file_json H) (case ci_live_config_files (an_config a) of None \<Rightarrow> [] | Some fs \<Rightarrow> fs)
            else []))]),
      (us ''changed_regions'', JList (map region_json (changed_regions rb))),
      (us ''config_mode'', jstr (ba_config_mode args)),
      (us ''wipe_unknown_config'', JBool (ba_wipe_unknown_config args))]"

definition validation_text ::
    "hash_functions \<Rightarrow> build_args \<Rightarrow> confirmation list \<Rightarrow> int \<Rightarrow> analysis \<Rightarrow> rebuilt \<Rightarrow> ustring res" where
  "validation_text H args confirmed total_reads a rb =
     res_bind (format_analysis a (ba_show_serial args)) (\<lambda>source_report.
     res_bind (format_analysis (rb_analysis rb) (ba_show_serial args)) (\<lambda>output_report.
     let regions = changed_regions rb
     in Inr (source_report @
        us_lines ([[], us ''Physical-read confirmation'', us ''--------------------------'',
          us ''Byte-identical reads supplied: '' @ us (dec_text (nat total_reads))] @
          map (\<lambda>c. us ''- '' @ cr_filename c @ us ''  '' @ us (cr_sha256 c)) confirmed @
          (if total_reads < MIN_IDENTICAL_READS
           then [us ''WARNING: fewer than three reads were supplied; the higher risk was explicitly accepted.''] else []) @
          [[], us ''Generated image'', us ''==============='', [],
           us ''Output SHA-256:         '' @ us (sha256 H (rb_image rb)),
           us ''System patch changed:   '' @ us (yes_no (rb_patch_changed rb)),
           us ''Config changed:         '' @ us (yes_no (rb_config_changed rb)),
           us ''Config mode:            '' @ us (ba_config_mode args),
           us ''Unknown-name wipe:      '' @ us (yes_no (ba_wipe_unknown_config args)),
           us ''Changed regions:        '' @
             (if regions \<noteq> [] then join_with (us '', '') (map (\<lambda>(name, _). us name) regions)
              else us ''(none; input already equals generated image)''),
           [], us ''Post-build validation'', us ''---------------------'']) @
        output_report)))"

section \<open>Building the bundle\<close>

text \<open>The files in the order they are written; the last one lists the hashes of the others.\<close>

definition bundle_of ::
    "libraries \<Rightarrow> build_args \<Rightarrow> bytes \<Rightarrow> source_info \<Rightarrow> confirmation list \<Rightarrow> int \<Rightarrow> analysis \<Rightarrow> rebuilt \<Rightarrow> bundle_files res" where
  "bundle_of L args img src confirmed total_reads a rb =
     (let H = lib_hash L; regions = changed_regions rb; insufficient = total_reads < MIN_IDENTICAL_READS
      in res_bind (encode_utf8 layout_text) (\<lambda>layout.
         res_bind (encode_utf8 (lib_json_dumps L (manifest_json H args img src confirmed total_reads a rb) @ [10])) (\<lambda>manifest.
         res_bind (validation_text H args confirmed total_reads a rb) (\<lambda>text.
         res_bind (encode_utf8 text) (\<lambda>validation.
         res_bind (encode_utf8 (flashing_text H img (rb_image rb) (read_warning insufficient) (write_section regions))) (\<lambda>flashing.
         let listed = [(output_name, rb_image rb), (''config-restored.bin'', rb_config rb),
               (''serial.cfg'', ci_serial_payload (an_config a)), (layout_name, layout),
               (''MANIFEST.json'', manifest), (''VALIDATION.txt'', validation), (''FLASHING.txt'', flashing)];
             sum_lines = join_lines (map (\<lambda>(name, content). us (sha256 H content) @ us ''  '' @ us name) listed) @ [10]
         in res_bind (encode_utf8 sum_lines) (\<lambda>sum_bytes. Inr (listed @ [(''SHA256SUMS.txt'', sum_bytes)]))))))))"

record recovery_result =
  rr_analysis :: analysis
  rr_output_analysis :: analysis
  rr_manifest :: json
  rr_confirmed_reads :: "confirmation list"
  rr_output_dir :: ustring
  rr_output_path :: ustring

definition total_identical_reads :: "source_info \<Rightarrow> confirmation list \<Rightarrow> int" where
  "total_identical_reads src confirmed =
     Max (set ([si_evidenced src, 1 + int (length confirmed)] @ map cr_evidenced confirmed))"

text \<open>Everything before the staging directory is opened.\<close>

definition validated_input ::
    "libraries \<Rightarrow> host_files \<Rightarrow> (ustring \<Rightarrow> ustring list) \<Rightarrow> build_args \<Rightarrow>
     (bytes \<times> source_info \<times> confirmation list \<times> int \<times> analysis) res" where
  "validated_input L fs resolve args =
     (let H = lib_hash L; mode = ba_config_mode args
      in if mode \<noteq> ''serial-only'' \<and> mode \<noteq> ''preserve-files'' then Inl (ValidationError ''Unknown config mode'')
         else if ba_wipe_unknown_config args \<and> mode \<noteq> ''serial-only''
         then Inl (ValidationError ''--wipe-unknown-config is valid only with --config-mode serial-only'')
         else res_bind (read_image_source H fs (ba_input_path args)) (\<lambda>(img, src).
              res_bind (verify_confirmation_reads H fs img (ba_confirmation_paths args)) (\<lambda>confirmed.
              let source_name = ba_input_path args @
                    (case si_image_member src of None \<Rightarrow> [] | Some m \<Rightarrow> us ''!'' @ us m)
              in res_bind (analyze_image H (lib_inflate L) img source_name
                    (ba_wipe_unknown_config args \<or> mode = ''preserve-files'') (mode = ''preserve-files'')) (\<lambda>a.
                 let total_reads = total_identical_reads src confirmed
                 in if total_reads < MIN_IDENTICAL_READS \<and> \<not> ba_allow_fewer_reads args
                    then Inl (ValidationError ''Too few identical physical reads were supplied'')
                    else if \<exists>p \<in> set (ba_input_path args # ba_confirmation_paths args).
                      take (length (resolve (ba_output_dir args))) (resolve p) = resolve (ba_output_dir args)
                    then Inl (ValidationError ''Refusing an output directory that contains input dump'')
                    else Inr (img, src, confirmed, total_reads, a)))))"

text \<open>The body of the \<open>with staged_directory\<close> block.\<close>

definition build_bundle ::
    "libraries \<Rightarrow> build_args \<Rightarrow> bytes \<times> source_info \<times> confirmation list \<times> int \<times> analysis \<Rightarrow>
     (bundle_files \<times> recovery_result) res" where
  "build_bundle L args input =
     (case input of (img, src, confirmed, total_reads, a) \<Rightarrow>
        res_bind (rebuild_image L img a (ba_config_mode args)) (\<lambda>rb.
        res_bind (bundle_of L args img src confirmed total_reads a rb) (\<lambda>files.
        Inr (files, \<lparr>rr_analysis = a, rr_output_analysis = rb_analysis rb,
          rr_manifest = manifest_json (lib_hash L) args img src confirmed total_reads a rb,
          rr_confirmed_reads = confirmed, rr_output_dir = ba_output_dir args,
          rr_output_path = ba_output_dir args @ us ''/'' @ us output_name\<rparr>))))"

definition build_recovery ::
    "libraries \<Rightarrow> host_files \<Rightarrow> (ustring \<Rightarrow> ustring list) \<Rightarrow> platform \<Rightarrow> (tree \<Rightarrow> tree) \<Rightarrow> build_args \<Rightarrow> tree \<Rightarrow>
     recovery_result res \<times> tree" where
  "build_recovery L fs resolve platform others args t =
     (case validated_input L fs resolve args of
        Inl e \<Rightarrow> (Inl e, t)
      | Inr input \<Rightarrow> staged_directory platform others (ba_output_dir args) (build_bundle L args input) t)"

section \<open>What the recovery changes\<close>

lemma apply_system_patch_Inr:
  assumes "apply_system_patch H xz lzma2 img (system_state_of (sha256 H (pslice img PATCH_START PATCH_END))) = Inr (region, changed)"
    and "length img = FLASH_SIZE"
  shows "length region = PATCH_SIZE" "sha256 H region = PATCHED_PATCH_SHA256"
proof -
  let ?state = "system_state_of (sha256 H (pslice img PATCH_START PATCH_END))"
  have "length region = PATCH_SIZE \<and> sha256 H region = PATCHED_PATCH_SHA256"
  proof (cases "?state = Known_bashrc_patched")
    case True
    then have "region = pslice img PATCH_START PATCH_END" using assms(1) by (simp add: apply_system_patch_def)
    with True assms(2) show ?thesis by (simp add: system_state_of_cases constants FLASH_SIZE_def)
  next
    case False
    then have "build_system_patch_window H xz lzma2 img = Inr region"
      using assms(1) by (auto simp: apply_system_patch_def split: if_splits)
    from build_window_Inr [OF this] assms(2) show ?thesis by (auto simp: constants FLASH_SIZE_def)
  qed
  then show "length region = PATCH_SIZE" "sha256 H region = PATCHED_PATCH_SHA256" by auto
qed

lemma replaced_window:
  assumes "length img = 0x800000" "length region = e - s" "s \<le> e" "e \<le> 0x800000"
  shows "length (take s img @ region @ drop e img) = 0x800000"
    "i < 0x800000 \<Longrightarrow> \<not> (s \<le> i \<and> i < e) \<Longrightarrow> (take s img @ region @ drop e img) ! i = img ! i"
    "pslice (take s img @ region @ drop e img) s e = region"
    "b \<le> s \<or> e \<le> a \<Longrightarrow> b \<le> 0x800000 \<Longrightarrow> pslice (take s img @ region @ drop e img) a b = pslice img a b"
proof -
  show len: "length (take s img @ region @ drop e img) = 0x800000" using assms by simp
  show "pslice (take s img @ region @ drop e img) s e = region" using assms by (intro pslice_exact) simp_all
  show nth: "(take s img @ region @ drop e img) ! i = img ! i" if "i < 0x800000" "\<not> (s \<le> i \<and> i < e)" for i
    using that assms by (auto simp: nth_append)
  show "pslice (take s img @ region @ drop e img) a b = pslice img a b" if "b \<le> s \<or> e \<le> a" "b \<le> 0x800000"
    using that nth len assms(1) by (subst pslice_eq_nth) auto
qed

lemma rebuilt_config_serial:
  assumes a: "extract_serial_and_config_info inflate c au (mode = ''preserve-files'') = Inr info"
    and r: "(if mode = ''preserve-files''
        then (case ci_live_config_files info of None \<Rightarrow> Inl AssertionError | Some fs \<Rightarrow> build_preserved_config inflate fs)
        else build_minimal_config (ci_serial_payload info)) = Inr rebuilt"
    and out: "extract_serial_and_config_info inflate rebuilt (mode = ''preserve-files'') (mode = ''preserve-files'') = Inr info'"
  shows "length rebuilt = 131072" "ci_serial_payload info' = ci_serial_payload info"
    "mode = ''preserve-files'' \<Longrightarrow> ci_live_config_files info' = ci_live_config_files info"
proof -
  have "length rebuilt = 131072 \<and> ci_serial_payload info' = ci_serial_payload info \<and>
      (mode = ''preserve-files'' \<longrightarrow> ci_live_config_files info' = ci_live_config_files info)"
  proof (cases "mode = ''preserve-files''")
    case True
    with a have e: "extract_serial_and_config_info inflate c au True = Inr info" by simp
    obtain fs f where fs: "ci_live_config_files info = Some fs" "sorted (map cf_name fs)" "distinct (map cf_name fs)"
      "f \<in> set fs" "cf_name f = SERIAL_NAME" "cf_data f = ci_serial_payload info"
      by (rule preserved_serial [OF e])
    then have built: "build_preserved_config inflate fs = Inr rebuilt" using r True by simp
    have sort: "sort_key cf_name fs = fs" using fs(2) by (simp add: sort_key_id_if_sorted)
    have len: "length rebuilt = 131072" and live: "ci_live_config_files info' = Some fs"
      using build_preserved_Inr [OF built] out True by (auto simp: sort)
    have e': "extract_serial_and_config_info inflate rebuilt True True = Inr info'" using out True by simp
    obtain fs' f' where fs': "ci_live_config_files info' = Some fs'" "f' \<in> set fs'" "cf_name f' = SERIAL_NAME"
      "cf_data f' = ci_serial_payload info'"
      by (rule preserved_serial [OF e'])
    have "f' \<in> set fs" using fs' live by simp
    moreover have "inj_on cf_name (set fs)" using fs(3) by (simp add: distinct_map)
    ultimately have "f' = f" using fs fs' by (simp add: inj_on_def)
    then have "cf_data f' = cf_data f" by simp
    then have "ci_serial_payload info' = ci_serial_payload info" using fs(6) fs'(4) by simp
    with len live fs(1) show ?thesis by simp
  next
    case False
    note valid = extracted_serial_valid [OF a]
    then have built: "rebuilt = minimal_image (ci_serial_payload info)" using r False minimal_config_built by simp
    have "length rebuilt = 131072"
      using minimal_image_start [of "ci_serial_payload info"] serial_payload_low(1) [OF valid] by (simp add: built constants)
    moreover have "ci_serial_payload info' = ci_serial_payload info"
      using minimal_info [OF valid, of inflate] out False by (auto simp: built)
    ultimately show ?thesis using False by simp
  qed
  then show "length rebuilt = 131072" "ci_serial_payload info' = ci_serial_payload info"
    "mode = ''preserve-files'' \<Longrightarrow> ci_live_config_files info' = ci_live_config_files info" by auto
qed

text \<open>What one successful rebuild did.\<close>

lemma check_rebuilt_Inr:
  assumes "check_rebuilt L img mode canonical changed config out = Inr rb"
  shows "rb_image rb = out" "rb_config rb = config" "rb_canonical rb = canonical" "rb_patch_changed rb = changed"
    "analyze_image (lib_hash L) (lib_inflate L) out (us ''generated recovery image'')
       (mode = ''preserve-files'') (mode = ''preserve-files'') = Inr (rb_analysis rb)"
    "mode = ''serial-only'' \<longrightarrow> an_config_is_canonical (rb_analysis rb)"
    "rb_config_changed rb \<longleftrightarrow> pslice img CONFIG_START CONFIG_END \<noteq> config"
    "an_system_state (rb_analysis rb) = Known_bashrc_patched"
  using assms by (auto simp: check_rebuilt_def Let_def split: if_splits)

lemma check_slice:
  "check_rebuilt L img mode canonical changed config out = Inr rb \<Longrightarrow> pslice out CONFIG_START CONFIG_END = config"
  by (auto simp: check_rebuilt_def Let_def split: if_splits)

lemma rebuild_image_Inr:
  assumes "rebuild_image L img a mode = Inr rb"
  obtains region where
    "apply_system_patch (lib_hash L) (lib_xz_decompress L) (lib_lzma2 L) img (an_system_state a) = Inr (region, rb_patch_changed rb)"
    "rb_image rb = take CONFIG_START (take PATCH_START img @ region @ drop PATCH_END img) @ rb_config rb @
       drop CONFIG_END (take PATCH_START img @ region @ drop PATCH_END img)"
    "build_minimal_config (ci_serial_payload (an_config a)) = Inr (rb_canonical rb)"
    "rebuild_config L a mode (rb_canonical rb) = Inr (rb_config rb)"
    "check_rebuilt L img mode (rb_canonical rb) (rb_patch_changed rb) (rb_config rb) (rb_image rb) = Inr rb"
proof -
  obtain region ch canonical config where r:
    "apply_system_patch (lib_hash L) (lib_xz_decompress L) (lib_lzma2 L) img (an_system_state a) = Inr (region, ch)"
    "build_minimal_config (ci_serial_payload (an_config a)) = Inr canonical"
    "rebuild_config L a mode canonical = Inr config"
    "check_rebuilt L img mode canonical ch config
       (take CONFIG_START (take PATCH_START img @ region @ drop PATCH_END img) @ config @
        drop CONFIG_END (take PATCH_START img @ region @ drop PATCH_END img)) = Inr rb"
    using assms by (auto simp: rebuild_image_def Let_def simp del: append_assoc take_append drop_append)
  note c = check_rebuilt_Inr(1-4) [OF r(4)]
  from r show thesis by (intro that [of region]) (simp_all only: c)
qed

lemma rebuilt_config_of:
  "rebuild_config L a mode canonical = Inr config \<Longrightarrow> build_minimal_config (ci_serial_payload (an_config a)) = Inr canonical \<Longrightarrow>
   (if mode = ''preserve-files''
        then (case ci_live_config_files (an_config a) of None \<Rightarrow> Inl AssertionError | Some fs \<Rightarrow> build_preserved_config (lib_inflate L) fs)
        else build_minimal_config (ci_serial_payload (an_config a))) = Inr config"
  by (auto simp: rebuild_config_def split: if_splits option.splits)

text \<open>C7: the image that a successful rebuild of an analysed image produces is 8 MiB, equals the input at
  every position outside the patch window and the config partition (so all unit data of HWCONFIG
  are kept), has the audited patch window, passes the strict validator again, and still yields the
  same serial; in preserve mode its live files are exactly the ones the input had.\<close>

theorem recovery_image_is_safe:
  assumes "analyze_image (lib_hash L) (lib_inflate L) img source_name allow_unknown (mode = ''preserve-files'') = Inr a"
    and "rebuild_image L img a mode = Inr rb"
  shows "length (rb_image rb) = FLASH_SIZE \<and>
    (\<forall>i < CONFIG_START. \<not> (PATCH_START \<le> i \<and> i < PATCH_END) \<longrightarrow> rb_image rb ! i = img ! i) \<and>
    sha256 (lib_hash L) (pslice (rb_image rb) PATCH_START PATCH_END) = PATCHED_PATCH_SHA256 \<and>
    pslice (rb_image rb) CONFIG_START CONFIG_END = rb_config rb \<and>
    supported_firmware (lib_hash L) (rb_image rb) \<and>
    an_uoid (rb_analysis rb) = an_uoid a \<and> an_hwconfig_check_hex (rb_analysis rb) = an_hwconfig_check_hex a \<and>
    ci_serial_payload (an_config (rb_analysis rb)) = ci_serial_payload (an_config a) \<and>
    (mode = ''serial-only'' \<longrightarrow> an_config_is_canonical (rb_analysis rb)) \<and>
    (mode = ''preserve-files'' \<longrightarrow>
       ci_live_config_files (an_config (rb_analysis rb)) = ci_live_config_files (an_config a))"
proof -
  note an = analyze_image_Inr [OF assms(1)]
  obtain region where r: "apply_system_patch (lib_hash L) (lib_xz_decompress L) (lib_lzma2 L) img (an_system_state a) = Inr (region, rb_patch_changed rb)"
    and img: "rb_image rb = take CONFIG_START (take PATCH_START img @ region @ drop PATCH_END img) @ rb_config rb @
       drop CONFIG_END (take PATCH_START img @ region @ drop PATCH_END img)"
    and canonical: "build_minimal_config (ci_serial_payload (an_config a)) = Inr (rb_canonical rb)"
    and config: "rebuild_config L a mode (rb_canonical rb) = Inr (rb_config rb)"
    and check: "check_rebuilt L img mode (rb_canonical rb) (rb_patch_changed rb) (rb_config rb) (rb_image rb) = Inr rb"
    by (rule rebuild_image_Inr [OF assms(2)])
  note c = check_rebuilt_Inr [OF check]
  note out = analyze_image_Inr [OF c(5)]
  have region: "length region = PATCH_END - PATCH_START" "sha256 (lib_hash L) region = PATCHED_PATCH_SHA256"
    using apply_system_patch_Inr [of "lib_hash L" _ _ img region] r an(1) unfolding an(4) PATCH_SIZE_def by blast+
  have len: "length img = 0x800000" using an(1) by (simp add: FLASH_SIZE_def)
  define mid where "mid = take PATCH_START img @ region @ drop PATCH_END img"
  have b: "PATCH_START \<le> PATCH_END" "PATCH_END \<le> 0x800000" "CONFIG_START \<le> CONFIG_END" "CONFIG_END \<le> 0x800000"
    "PATCH_END \<le> CONFIG_START" "CONFIG_START < 0x800000" by (simp_all add: constants)
  note w1 = replaced_window [OF len region(1) b(1,2), folded mid_def]
  note serial = rebuilt_config_serial [OF an(3) rebuilt_config_of [OF config canonical] out(3) [unfolded check_slice [OF check]]]
  have len2: "length (rb_config rb) = CONFIG_END - CONFIG_START" using serial(1) by (simp add: constants)
  have img2: "rb_image rb = take CONFIG_START mid @ rb_config rb @ drop CONFIG_END mid" using img by (simp only: mid_def)
  note w2 = replaced_window [OF w1(1) len2 b(3,4), folded img2]
  have keep: "rb_image rb ! i = img ! i" if "i < CONFIG_START" "\<not> (PATCH_START \<le> i \<and> i < PATCH_END)" for i
    using that w1(2) [of i] w2(2) [of i] b(6) by simp
  have "pslice (rb_image rb) PATCH_START PATCH_END = region" using w1(3) w2(4) [of PATCH_END PATCH_START] b by simp
  then have patch: "sha256 (lib_hash L) (pslice (rb_image rb) PATCH_START PATCH_END) = PATCHED_PATCH_SHA256"
    using region(2) by simp
  have unit: "pslice (rb_image rb) s e = pslice img s e" if "e \<le> CONFIG_START" "PATCH_END \<le> s" for s e
    using that w1(4) [of e s] w2(4) [of e s] b by simp
  have "an_uoid (rb_analysis rb) = an_uoid a" "an_hwconfig_check_hex (rb_analysis rb) = an_hwconfig_check_hex a"
    unfolding an(5,8) out(5,8) by (simp_all add: unit constants)
  with out(1,2) keep patch w2(3) serial(2,3) c(6) show ?thesis by blast
qed


section \<open>What is published\<close>

lemma bundle_of_Inr:
  assumes "bundle_of L args img src confirmed reads a rb = Inr files"
  shows "map fst files = [''cc2-camera-recovery.bin'', ''config-restored.bin'', ''serial.cfg'', ''cc2-camera-layout.txt'',
      ''MANIFEST.json'', ''VALIDATION.txt'', ''FLASHING.txt'', ''SHA256SUMS.txt'']"
    "map_of files ''cc2-camera-recovery.bin'' = Some (rb_image rb)"
    "map_of files ''config-restored.bin'' = Some (rb_config rb)"
    "map_of files ''serial.cfg'' = Some (ci_serial_payload (an_config a))"
    "\<exists>sum_bytes. map_of files ''SHA256SUMS.txt'' = Some sum_bytes \<and>
      encode_utf8 (join_lines (map (\<lambda>(name, content). us (sha256 (lib_hash L) content) @ us ''  '' @ us name) (butlast files)) @ [10])
        = Inr sum_bytes"
  using assms by (auto simp: bundle_of_def Let_def output_name_def layout_name_def)

lemma validated_input_Inr:
  assumes "validated_input L fs resolve args = Inr (img, src, confirmed, reads, a)"
  shows "read_image_source (lib_hash L) fs (ba_input_path args) = Inr (img, src)"
    "verify_confirmation_reads (lib_hash L) fs img (ba_confirmation_paths args) = Inr confirmed"
    "reads = total_identical_reads src confirmed" "MIN_IDENTICAL_READS \<le> reads \<or> ba_allow_fewer_reads args"
    "\<exists>name unknown. analyze_image (lib_hash L) (lib_inflate L) img name unknown (ba_config_mode args = ''preserve-files'') = Inr a"
    "list_all (\<lambda>p. take (length (resolve (ba_output_dir args))) (resolve p) \<noteq> resolve (ba_output_dir args))
      (ba_input_path args # ba_confirmation_paths args)"
  using assms
  by (auto simp: validated_input_def Let_def list_all_iff not_less split: if_splits)

lemma rename_new_cases:
  "(\<exists>e. rename_new platform src d t = (Inl e, t)) \<or> d \<notin> dom t \<and> rename_new platform src d t = (Inr (), t(d \<mapsto> src))"
  by (auto simp: rename_new_def)

lemma confirmed_same:
  assumes "verify_confirmation_reads H fs img paths = Inr confirmed"
  shows "list_all (\<lambda>p. \<exists>s. read_image_source H fs p = Inr (img, s)) paths"
  using assms
proof (induction paths arbitrary: confirmed)
  case (Cons p paths)
  then show ?case by (auto split: if_splits)
qed simp


end
