(* ===== verification/Recovery_Complete.thy ===== *)
theory Recovery_Complete
  imports Recovery
begin

text \<open>
  The serial-only rebuild of an accepted image fails only if the system patch does: none of the
  later checks can reject what was built.
\<close>

lemma supported_firmware_transfer:
  assumes img: "supported_firmware H img" "length img = 0x800000" and out: "length out = 0x800000"
    and same: "\<And>s e. e \<le> CONFIG_START \<Longrightarrow> e \<le> PATCH_START \<or> PATCH_END \<le> s \<Longrightarrow> pslice out s e = pslice img s e"
    and window: "sha256 H (pslice out PATCH_START PATCH_END) = PATCHED_PATCH_SHA256"
  shows "supported_firmware H out"
proof -
  have low: "take PATCH_START out = take PATCH_START img"
    using same [of PATCH_START 0] by (simp add: pslice_def constants)
  have seg: "list_all (\<lambda>(name, start, stop, expected). sha256 H (pslice out start stop) = expected) REFERENCE_SEGMENTS"
    using img(1) by (simp add: supported_firmware_def REFERENCE_SEGMENTS_def same constants)
  have ident: "identify_hwconfig_variant H out = Inr (variant, r)" if r: "identify_hwconfig_variant H img = Inr (variant, r)" for variant r
  proof -
    have "HW_RECORD_PAYLOAD_START + le_val (pslice img (HW_RECORD_START + 2) HW_RECORD_PAYLOAD_START) \<le> CONFIG_START"
      using r by (auto simp: identify_hwconfig_variant_def Let_def split: if_splits)
    then have "pslice out HW_KNOWN_PAYLOAD_END (HW_RECORD_PAYLOAD_START + le_val (pslice img (HW_RECORD_START + 2) HW_RECORD_PAYLOAD_START)) =
        pslice img HW_KNOWN_PAYLOAD_END (HW_RECORD_PAYLOAD_START + le_val (pslice img (HW_RECORD_START + 2) HW_RECORD_PAYLOAD_START))"
      by (intro same) (simp_all add: constants)
    moreover have "pslice out HW_RECORD_START (HW_RECORD_START + 2) = pslice img HW_RECORD_START (HW_RECORD_START + 2)"
      "pslice out (HW_RECORD_START + 2) HW_RECORD_PAYLOAD_START = pslice img (HW_RECORD_START + 2) HW_RECORD_PAYLOAD_START"
      by (intro same; simp add: constants)+
    ultimately have "identify_hwconfig_variant H out = identify_hwconfig_variant H img"
      unfolding identify_hwconfig_variant_def Let_def by (simp only: )
    with r show ?thesis by simp
  qed
  have norm: "normalized_hwconfig_before_identity out = normalized_hwconfig_before_identity img"
    by (simp add: normalized_hwconfig_before_identity_def same constants)
  have after: "normalized_hwconfig_after_unit_fields out r = normalized_hwconfig_after_unit_fields img r"
    if r: "identify_hwconfig_variant H img = Inr (variant, r)" for variant r
    using identify_Inr(4) [OF r] by (simp add: normalized_hwconfig_after_unit_fields_def same constants)
  have fp: "invariant_bytes H out (Some r) = invariant_bytes H img (Some r)"
    if r: "identify_hwconfig_variant H img = Inr (variant, r)" for variant r
    using after [OF r] by (simp add: invariant_bytes_def same low [unfolded constants] constants)
  have uoid: "pslice out HW_UOID_START HW_UOID_END = pslice img HW_UOID_START HW_UOID_END"
    by (simp add: same constants)
  have "out ! i = img ! i" if "PATCH_END \<le> i" "i < CONFIG_START" for i
    using same [of "i + 1" i] that pslice_eq_nth [of "i + 1" out img i] img(2) out by (simp add: constants)
  then have date: "decode_hwconfig_date out = decode_hwconfig_date img"
    using img(2) out by (simp add: decode_hwconfig_date_def Let_def same constants)
  show ?thesis
    using img(1) seg ident norm after fp uoid date window unfolding supported_firmware_def by fastforce
qed

lemma patched_window_length:
  "apply_system_patch H xz lzma2 img state = Inr (region, changed) \<Longrightarrow> length img = FLASH_SIZE \<Longrightarrow> length region = PATCH_SIZE"
  by (auto simp: apply_system_patch_def constants FLASH_SIZE_def dest!: build_window_Inr split: if_splits)

lemma serial_only_rebuild:
  assumes "analyze_image (lib_hash L) (lib_inflate L) img source_name allow_unknown False = Inr a"
    and "apply_system_patch (lib_hash L) (lib_xz_decompress L) (lib_lzma2 L) img (an_system_state a) = Inr (region, changed)"
  shows "\<exists>rb. rebuild_image L img a ''serial-only'' = Inr rb \<and> rb_patch_changed rb = changed \<and>
    rb_config rb = minimal_image (ci_serial_payload (an_config a))"
proof -
  note an = analyze_image_Inr [OF assms(1)]
  let ?H = "lib_hash L" and ?p = "ci_serial_payload (an_config a)"
  have valid: "serial_payload_is_valid ?p" by (rule extracted_serial_valid [OF an(3)])
  note built = minimal_config_built [OF valid]
  have cfg: "length (minimal_image ?p) = CONFIG_END - CONFIG_START"
    using minimal_image_start [of ?p] serial_payload_low(1) [OF valid] by (simp add: constants)
  have region: "length region = PATCH_END - PATCH_START" "sha256 ?H region = PATCHED_PATCH_SHA256"
    using apply_system_patch_Inr [of ?H _ _ img region] assms(2) an(1) unfolding an(4) PATCH_SIZE_def by blast+
  have len: "length img = 0x800000" using an(1) by (simp add: FLASH_SIZE_def)
  have b: "PATCH_START \<le> PATCH_END" "PATCH_END \<le> 0x800000" "CONFIG_START \<le> CONFIG_END" "CONFIG_END \<le> 0x800000"
    "PATCH_END \<le> CONFIG_START" "CONFIG_START \<le> 0x800000" "CONFIG_END = 0x800000" by (simp_all add: constants)
  define mid where "mid = take PATCH_START img @ region @ drop PATCH_END img"
  define out where "out = take CONFIG_START mid @ minimal_image ?p @ drop CONFIG_END mid"
  note w1 = replaced_window [OF len region(1) b(1,2), folded mid_def]
  note w2 = replaced_window [OF w1(1) cfg b(3,4), folded out_def]
  have same: "pslice out s e = pslice img s e" if "e \<le> CONFIG_START" "e \<le> PATCH_START \<or> PATCH_END \<le> s" for s e
    using that w1(4) [of e s] w2(4) [of e s] b by simp
  have "pslice out PATCH_START PATCH_END = region" using w1(3) w2(4) [of PATCH_END PATCH_START] b by simp
  then have window: "sha256 ?H (pslice out PATCH_START PATCH_END) = PATCHED_PATCH_SHA256" using region(2) by simp
  have sup: "supported_firmware ?H out"
    by (rule supported_firmware_transfer [OF an(2) len w2(1) same window])
  obtain info where info: "extract_serial_and_config_info (lib_inflate L) (pslice out CONFIG_START CONFIG_END) False False = Inr info"
    "ci_serial_payload info = ?p"
    using minimal_info [OF valid, of "lib_inflate L"] unfolding w2(3) by blast
  have "length out = FLASH_SIZE" using w2(1) by (simp add: FLASH_SIZE_def)
  then obtain out_a where oa: "analyze_image ?H (lib_inflate L) out (us ''generated recovery image'') False False = Inr out_a"
    "an_config out_a = info"
    using analyze_image_ok [OF _ sup info(1)] by blast
  note oan = analyze_image_Inr [OF oa(1)]
  have state: "an_system_state out_a = Known_bashrc_patched"
    unfolding oan(4) window by (simp add: system_state_of_cases)
  have canonical: "an_config_is_canonical out_a" by (simp only: oan(6) w2(3) oa(2) info(2) built)
  have "PATCH_START \<le> CONFIG_START" using b(1,5) by (rule order_trans)
  from same [OF this disjI1, of 0] have "take PATCH_START out = take PATCH_START img" by (simp add: pslice_def)
  moreover have "drop CONFIG_END out = drop CONFIG_END img" using w2(1) len by (simp add: b)
  ultimately have no: "\<not> (take PATCH_START out \<noteq> take PATCH_START img \<or>
      pslice out PATCH_END CONFIG_START \<noteq> pslice img PATCH_END CONFIG_START \<or> drop CONFIG_END out \<noteq> drop CONFIG_END img)"
    using same [of CONFIG_START PATCH_END] by blast
  have mode: "(''serial-only'' = ''preserve-files'') = False" by simp
  have check: "check_rebuilt L img ''serial-only'' (minimal_image ?p) changed (minimal_image ?p) out =
      Inr \<lparr>rb_image = out, rb_config = minimal_image ?p, rb_canonical = minimal_image ?p, rb_patch_changed = changed,
        rb_config_changed = (pslice img CONFIG_START CONFIG_END \<noteq> minimal_image ?p), rb_analysis = out_a\<rparr>"
    unfolding check_rebuilt_def Let_def if_not_P [OF no] mode oa(1) res_bind.simps
    by (simp only: state canonical w2(3) simp_thms if_False)
  have "rebuild_config L a ''serial-only'' (minimal_image ?p) = Inr (minimal_image ?p)"
    by (simp add: rebuild_config_def)
  with assms(2) built check show ?thesis
    by (simp add: rebuild_image_def Let_def mid_def [symmetric] out_def [symmetric] del: append_assoc take_append drop_append)
qed

text \<open>C39: for an accepted image, a serial-only rebuild succeeds whenever the system patch does: the safety
  check, the second strict validation, the canonical check and the comparison with the rebuilt config
  never reject the image it generates.\<close>

theorem serial_only_rebuild_succeeds:
  assumes "analyze_image (lib_hash L) (lib_inflate L) img source_name allow_unknown False = Inr a"
    and "apply_system_patch (lib_hash L) (lib_xz_decompress L) (lib_lzma2 L) img (an_system_state a) = Inr (region, changed)"
  shows "\<exists>rb. rebuild_image L img a ''serial-only'' = Inr rb \<and> rb_patch_changed rb = changed \<and>
    rb_config rb = minimal_image (ci_serial_payload (an_config a))"
  using assms by (rule serial_only_rebuild)

end
