(* ===== verification/Sample_Camera.thy ===== *)
theory Sample_Camera
  imports Recovery_Complete
begin

text \<open>
  A small concrete camera: an 8 MiB image that is zero outside HWCONFIG and the config partition, with
  a hash function that gives every piece of it the reference hash, a compressor and a decompressor. The
  validator accepts it, its system window is stock, and the patch of that window succeeds. It
  instantiates the properties of the validator and of the recovery.
\<close>

definition sample_hw :: "bytes \<Rightarrow> bytes" where
  "sample_hw chk = [12, 0, 0, 1] @ replicate 6 0 @ chk @ replicate 4 0 @ ascii ''12PSSSS3'' @ replicate 86 0x41 @ [0xEA, 7, 3, 2]"

definition sample_flash :: "bytes \<Rightarrow> bytes" where
  "sample_flash chk = replicate 0x7D2000 0 @ sample_hw chk @ replicate 0xDF8D 0 @ minimal_image sample_serial"

definition sample_fragment :: bytes where
  "sample_fragment = replicate 29000 0 @ ORIGINAL_COPY_BLOCK @ replicate 70389 0"

text \<open>By length, and where the stock and the patched piece have the same length, by one byte.\<close>

definition sample_sha256 :: "bytes \<Rightarrow> string" where
  "sample_sha256 d = (let n = length d in
     if n = 0x8000 then (if d ! 0x711A = 0 then ORIGINAL_PATCH_SHA256 else PATCHED_PATCH_SHA256)
     else if n = 5699 then (if d ! 2 = 0x5B then ORIGINAL_BASHRC_SHA256 else PATCHED_BASHRC_SHA256)
     else if n = 100167 then (if d ! 29002 = 0x5B then ORIGINAL_FRAGMENT_SHA256 else PATCHED_FRAGMENT_SHA256)
     else if n = 26268 then ORIGINAL_FRAGMENT_XZ_SHA256
     else if n = 25564 then PATCHED_FRAGMENT_XZ_SHA256
     else if n = 8202 then HWCONFIG_BEFORE_IDENTITY_SHA256
     else if n = 57229 then HWCONFIG_AFTER_UNIT_FIELDS_SHA256
     else if n = 8224667 then NORMALIZED_INVARIANT_SHA256
     else (case find (\<lambda>(name, start, stop, expected). stop - start = n) REFERENCE_SEGMENTS of
         Some (name, start, stop, expected) \<Rightarrow> expected | None \<Rightarrow> ''00''))"

definition sample_hash :: hash_functions where
  "sample_hash = \<lparr>sha256 = sample_sha256, md5 = (\<lambda>_. ''11'')\<rparr>"

definition sample_libraries :: libraries where
  "sample_libraries = \<lparr>lib_hash = sample_hash, lib_inflate = (\<lambda>_ _. None),
     lib_xz_decompress = (\<lambda>_. Some sample_fragment), lib_lzma2 = (\<lambda>_. replicate 25508 0), lib_json_dumps = (\<lambda>_. [])\<rparr>"

section \<open>The image\<close>

lemma sample_minimal_length: "length (minimal_image sample_serial) = 0x20000"
  using minimal_image_start [of sample_serial] serial_payload_low(1) [OF sample_serial_valid] by (simp add: constants)

lemma sample_hw_length: "length chk = 3 \<Longrightarrow> length (sample_hw chk) = 115"
  by (simp add: sample_hw_def ascii_def)

lemma sample_flash_length: "length chk = 3 \<Longrightarrow> length (sample_flash chk) = 0x800000"
  by (simp add: sample_flash_def sample_minimal_length sample_hw_length)

lemma sample_slice_hw:
  assumes "length chk = 3" "0x7D2000 \<le> s" "e \<le> 0x7D2073"
  shows "pslice (sample_flash chk) s e = pslice (sample_hw chk) (s - 0x7D2000) (e - 0x7D2000)"
proof -
  have "pslice (sample_flash chk) s e =
      pslice (sample_hw chk @ replicate 0xDF8D 0 @ minimal_image sample_serial) (s - 0x7D2000) (e - 0x7D2000)"
    unfolding sample_flash_def by (subst pslice_append_right) (use assms in simp_all)
  also have "\<dots> = pslice (sample_hw chk) (s - 0x7D2000) (e - 0x7D2000)"
    by (rule pslice_append_left) (use assms sample_hw_length in simp)
  finally show ?thesis .
qed

lemma sample_slice_zero: "e \<le> 0x7D2000 \<Longrightarrow> pslice (sample_flash chk) s e = replicate (e - s) 0"
  unfolding sample_flash_def by (subst pslice_append_left) (simp_all add: pslice_def min_def)

lemma sample_slice_config: "length chk = 3 \<Longrightarrow> pslice (sample_flash chk) 0x7E0000 0x800000 = minimal_image sample_serial"
  unfolding sample_flash_def using sample_minimal_length
  by (simp add: pslice_def sample_hw_length)

lemma sample_fields:
  assumes "length chk = 3"
  shows "pslice (sample_flash chk) 0x7D2000 0x7D2002 = [12, 0]" "pslice (sample_flash chk) 0x7D2002 0x7D2004 = [0, 1]"
    "pslice (sample_flash chk) 0x7D200A 0x7D200D = chk"
    "pslice (sample_flash chk) 0x7D2011 0x7D206F = ascii ''12PSSSS3'' @ replicate 86 0x41"
    "pslice (sample_flash chk) 0x7D206F 0x7D2073 = [0xEA, 7, 3, 2]"
  using assms by (simp_all add: sample_slice_hw) (simp_all add: sample_hw_def pslice_def ascii_def)

lemma sample_record:
  assumes "length chk = 3"
  shows "\<exists>r. identify_hwconfig_variant sample_hash (sample_flash chk) = Inr (''type12-length'' @ dec_text 256, r) \<and>
    hw_extension_length r = 0 \<and> hw_record_end r = 0x7D2104"
proof -
  note f = sample_fields [OF assms]
  have c: "HW_RECORD_START + 2 = 0x7D2002" "HW_RECORD_PAYLOAD_START = 0x7D2004" "HW_RECORD_START = 0x7D2000"
    by (simp_all add: constants)
  show ?thesis
    unfolding identify_hwconfig_variant_def Let_def c by (simp add: f HW_SUPPORTED_PAYLOAD_LENGTHS_def constants)
qed

lemma sample_segments:
  "length chk = 3 \<Longrightarrow>
    list_all (\<lambda>(name, start, stop, expected). sha256 sample_hash (pslice (sample_flash chk) start stop) = expected) REFERENCE_SEGMENTS"
  by (simp add: REFERENCE_SEGMENTS_def sample_hash_def sample_sha256_def sample_flash_length)

lemma sample_supported:
  assumes "length chk = 3"
  shows "supported_firmware sample_hash (sample_flash chk)"
proof -
  note f = sample_fields [OF assms] and len = sample_flash_length [OF assms]
  obtain r where r: "identify_hwconfig_variant sample_hash (sample_flash chk) = Inr (''type12-length'' @ dec_text 256, r)"
    "hw_extension_length r = 0" "hw_record_end r = 0x7D2104"
    using sample_record [OF assms] by blast
  have before: "sample_sha256 (normalized_hwconfig_before_identity (sample_flash chk)) = HWCONFIG_BEFORE_IDENTITY_SHA256"
    by (simp add: normalized_hwconfig_before_identity_def sample_sha256_def constants len)
  have after: "length (normalized_hwconfig_after_unit_fields (sample_flash chk) r) = 57229"
    by (simp add: normalized_hwconfig_after_unit_fields_def constants len r)
  obtain fp where fp: "invariant_bytes sample_hash (sample_flash chk) (Some r) = Inr fp" "length fp = 8224667"
    using after by (simp add: invariant_bytes_def constants len)
  have "uoid_is_valid (pslice (sample_flash chk) HW_UOID_START HW_UOID_END)"
    by (simp add: constants f uoid_is_valid_def ascii_def base64_byte_def list_all_iff)
  moreover have "sample_sha256 (pslice (sample_flash chk) PATCH_START PATCH_END) = ORIGINAL_PATCH_SHA256"
    by (simp add: constants sample_slice_zero sample_sha256_def)
  moreover have "\<exists>day. decode_hwconfig_date (sample_flash chk) = Inr day"
  proof -
    have "pslice (sample_flash chk) 0x7D206F 0x7D2071 = [0xEA, 7]"
      using assms by (simp add: sample_slice_hw) (simp add: sample_hw_def pslice_def ascii_def)
    moreover have "sample_flash chk ! 0x7D2071 = 3" "sample_flash chk ! 0x7D2072 = 2"
      using arg_cong [OF f(5), of "\<lambda>l. l ! 2"] arg_cong [OF f(5), of "\<lambda>l. l ! 3"] len by simp_all
    ultimately show ?thesis
      by (simp add: decode_hwconfig_date_def constants len valid_date_def days_in_month_def HW_SUPPORTED_DATES_def)
  qed
  ultimately show ?thesis
    unfolding supported_firmware_def using r(1) before after fp sample_segments [OF assms]
    by (auto simp: sample_hash_def sample_sha256_def)
qed

section \<open>The patch of its window\<close>

lemma count_append: "sub \<noteq> [] \<Longrightarrow> bytes_count sub 0 (sub @ post) = Suc (bytes_count sub 0 post)"
  using count_skip [of sub "length sub - 1" "tl sub @ post"] by (cases sub) simp_all

lemma replace_append: "sub \<noteq> [] \<Longrightarrow> bytes_replace sub new 0 (sub @ post) = new @ bytes_replace sub new 0 post"
  using replace_skip [of sub new "length sub - 1" "tl sub @ post"] by (cases sub) simp_all

lemma count_zeros: "sub \<noteq> [] \<Longrightarrow> sub ! 0 \<noteq> 0 \<Longrightarrow> bytes_count sub 0 (replicate n 0) = 0"
  by (induction n) (auto simp: neq_Nil_conv)

lemma sample_patch:
  "patch_bashrc sample_hash (ORIGINAL_COPY_BLOCK @ replicate 4921 0) = Inr (PATCHED_COPY_BLOCK @ replicate 4921 0)"
proof -
  have ne: "ORIGINAL_COPY_BLOCK \<noteq> []" "ORIGINAL_COPY_BLOCK ! 0 \<noteq> 0" using copy_blocks(1,3) by auto
  have first: "(xs @ ys) ! 2 = xs ! 2" if "778 = length xs" for xs ys :: bytes
    using that [symmetric] by (simp add: nth_append)
  have "(butlast PATCHED_COPY_BLOCK_VISIBLE @ ys) ! 2 = PATCHED_COPY_BLOCK_VISIBLE ! 2" for ys
    by (subst nth_append_left) (simp_all add: copy_blocks nth_butlast)
  then have two: "(ORIGINAL_COPY_BLOCK @ replicate 4921 0) ! 2 = 0x5B" "(PATCHED_COPY_BLOCK @ replicate 4921 0) ! 2 = 0x43"
    unfolding first [OF copy_blocks(1) [symmetric]] first [OF length_PATCHED_COPY_BLOCK [symmetric]] PATCHED_COPY_BLOCK_def
    by (simp_all only: copy_blocks append_assoc)
  have len: "length (ORIGINAL_COPY_BLOCK @ replicate 4921 0) = 5699" "length (PATCHED_COPY_BLOCK @ replicate 4921 0) = 5699"
    by (simp_all add: copy_blocks length_PATCHED_COPY_BLOCK)
  have h: "sample_sha256 (ORIGINAL_COPY_BLOCK @ replicate 4921 0) = ORIGINAL_BASHRC_SHA256"
    "sample_sha256 (PATCHED_COPY_BLOCK @ replicate 4921 0) = PATCHED_BASHRC_SHA256"
    unfolding sample_sha256_def Let_def len two by simp_all
  have count: "bytes_count ORIGINAL_COPY_BLOCK 0 (replicate 4921 0) = 0" by (rule count_zeros [OF ne])
  have "bytes_replace ORIGINAL_COPY_BLOCK PATCHED_COPY_BLOCK 0 (ORIGINAL_COPY_BLOCK @ replicate 4921 0) =
      PATCHED_COPY_BLOCK @ replicate 4921 0"
    unfolding replace_append [OF ne(1)] replace_none [OF count] ..
  note rep = this [unfolded PATCHED_COPY_BLOCK_def]
  have one: "bytes_count ORIGINAL_COPY_BLOCK 0 (ORIGINAL_COPY_BLOCK @ replicate 4921 0) = 1"
    using count_append [OF ne(1), of "replicate 4921 0"] count by simp
  have sha: "sha256 sample_hash = sample_sha256" by (simp add: sample_hash_def)
  show ?thesis
    unfolding patch_bashrc_def Let_def copy_blocks(1,2) sha h(1) one
    using rep by (simp del: append_assoc add: h len copy_blocks length_PATCHED_COPY_BLOCK PATCHED_COPY_BLOCK_def [symmetric])
qed

lemma sample_stream:
  assumes "length data = 100167"
  shows "\<exists>stream. build_squashfs_xz_fragment (\<lambda>_. replicate 25508 0) data = Inr stream \<and> length stream = 25564"
proof -
  have v: "length (vli_bytes 25508) = 3" "length (vli_bytes 100167) = 3" "length (vli_bytes 25528) = 3"
    by (simp_all add: vli_bytes.simps Let_def)
  obtain h where h: "block_header 25508 100167 = Inr h" "length h = 16"
    using v by (auto simp: block_header_def xz_vli_def Let_def pad4_def)
  obtain i where i: "stream_index 25528 100167 = Inr i" "length i = 12"
    using v by (auto simp: stream_index_def xz_vli_def Let_def pad4_def)
  obtain f where f: "stream_footer 12 = Inr f" "length f = 12"
    by (simp add: stream_footer_def struct_pack_def stream_flags_def)
  show ?thesis
    by (simp add: build_squashfs_xz_fragment_def assms h i f length_stream_header pad4_def)
qed

lemma sample_window:
  assumes "length chk = 3"
  shows "\<exists>w. build_system_patch_window sample_hash (\<lambda>_. Some sample_fragment) (\<lambda>_. replicate 25508 0) (sample_flash chk) = Inr w"
proof -
  have flen: "length sample_fragment = 100167" by (simp add: sample_fragment_def copy_blocks)
  define pf where "pf = take 29000 sample_fragment @ (PATCHED_COPY_BLOCK @ replicate 4921 0) @ drop (29000 + 5699) sample_fragment"
  have pf: "length pf = 100167" by (simp add: pf_def flen length_PATCHED_COPY_BLOCK)
  obtain stream where st: "build_squashfs_xz_fragment (\<lambda>_. replicate 25508 0) pf = Inr stream" "length stream = 25564"
    using sample_stream [OF pf] by blast
  have script: "pslice sample_fragment 29000 (29000 + 5699) = ORIGINAL_COPY_BLOCK @ replicate 4921 0"
    by (simp add: sample_fragment_def pslice_def copy_blocks min_def)
  have at: "sample_fragment ! 29002 = 0x5B" "pf ! 29002 = 0x43"
  proof -
    have "sample_fragment ! 29002 = ORIGINAL_COPY_BLOCK ! 2"
      by (simp add: sample_fragment_def nth_append copy_blocks)
    then show "sample_fragment ! 29002 = 0x5B" by (simp only: copy_blocks)
    have "pf ! 29002 = PATCHED_COPY_BLOCK ! 2"
      by (simp add: pf_def nth_append flen length_PATCHED_COPY_BLOCK)
    also have "\<dots> = PATCHED_COPY_BLOCK_VISIBLE ! 2"
      unfolding PATCHED_COPY_BLOCK_def by (subst nth_append_left) (simp_all add: copy_blocks nth_butlast)
    finally show "pf ! 29002 = 0x43" by (simp only: copy_blocks)
  qed
  define stock where "stock = pslice (sample_flash chk) PATCH_START PATCH_END"
  have stock: "length stock = 0x8000" "stock ! 0x711A = 0"
    by (simp_all add: stock_def constants sample_slice_zero)
  define w where "w = put (put stock 0x600 stream) 0x711A (le_bytes 4 25564)"
  have "w ! 0x711A = 0xDC" using stock st(2) by (simp add: w_def nth_put le_bytes_4)
  moreover have "length w = 0x8000" using stock st(2) by (simp add: w_def)
  ultimately have h: "sample_sha256 w = PATCHED_PATCH_SHA256" "sample_sha256 stock = ORIGINAL_PATCH_SHA256"
    using stock by (simp_all add: sample_sha256_def)
  have xz: "length (pslice (sample_flash chk) SQUASHFS_FRAGMENT_START (SQUASHFS_FRAGMENT_START + ORIGINAL_FRAGMENT_XZ_SIZE)) = 26268"
    using sample_flash_length [OF assms] by (simp add: constants)
  have hs: "sample_sha256 (pslice (sample_flash chk) SQUASHFS_FRAGMENT_START (SQUASHFS_FRAGMENT_START + ORIGINAL_FRAGMENT_XZ_SIZE))
      = ORIGINAL_FRAGMENT_XZ_SHA256" "sample_sha256 sample_fragment = ORIGINAL_FRAGMENT_SHA256"
    "sample_sha256 pf = PATCHED_FRAGMENT_SHA256" "sample_sha256 stream = PATCHED_FRAGMENT_XZ_SHA256"
    unfolding sample_sha256_def Let_def xz flen pf st(2) at by simp_all
  have off: "SQUASHFS_FRAGMENT_START - PATCH_START = 0x600" "SQUASHFS_FRAGMENT_SIZE_FIELD - PATCH_START = 0x711A"
    "BASHRC_FRAGMENT_OFFSET = 29000" by (simp_all add: constants)
  have size: "length (put stock 0x600 stream) = 0x8000" using stock st(2) by simp
  have pack: "struct_pack_into 4 (put stock 0x600 stream) 0x711A (int (length stream)) = Inr w"
    by (simp add: struct_pack_into_def struct_pack_def st(2) w_def)
  have sha: "sha256 sample_hash = sample_sha256" by (simp add: sample_hash_def)
  show ?thesis
    unfolding build_system_patch_window_def Let_def stock_def [symmetric] off sha script sample_patch option.case hs h
      res_bind.simps pf_def [symmetric] st
    by (simp add: flen FRAGMENT_UNCOMPRESSED_SIZE_def PATCHED_FRAGMENT_XZ_SIZE_def hs h size pack [unfolded st(2)] h(1) [unfolded w_def])
qed

lemma sample_rebuilt:
  assumes "length chk = 3"
  obtains a region rb where
    "analyze_image (lib_hash sample_libraries) (lib_inflate sample_libraries) (sample_flash chk) (us ''a.bin'') False False = Inr a"
    "apply_system_patch (lib_hash sample_libraries) (lib_xz_decompress sample_libraries) (lib_lzma2 sample_libraries)
       (sample_flash chk) (an_system_state a) = Inr (region, True)"
    "rebuild_image sample_libraries (sample_flash chk) a ''serial-only'' = Inr rb"
proof -
  let ?L = sample_libraries
  have H: "lib_hash ?L = sample_hash" by (simp add: sample_libraries_def)
  obtain info where info: "extract_serial_and_config_info (lib_inflate ?L) (pslice (sample_flash chk) CONFIG_START CONFIG_END) False False = Inr info"
    using minimal_info [OF sample_serial_valid, of "lib_inflate ?L"] sample_slice_config [OF assms] by (auto simp: constants)
  obtain a where a: "analyze_image (lib_hash ?L) (lib_inflate ?L) (sample_flash chk) (us ''a.bin'') False False = Inr a"
    using analyze_image_ok [OF _ _ info, of "lib_hash ?L"] sample_supported [OF assms] sample_flash_length [OF assms]
    unfolding H FLASH_SIZE_def by blast
  have "an_system_state a = Stock_unpatched"
    using analyze_image_Inr(4) [OF a]
    by (simp add: H sample_hash_def sample_sha256_def constants sample_slice_zero system_state_of_def)
  then obtain w where w: "apply_system_patch (lib_hash ?L) (lib_xz_decompress ?L) (lib_lzma2 ?L) (sample_flash chk) (an_system_state a)
      = Inr (w, True)"
    using sample_window [OF assms] by (auto simp: apply_system_patch_def H) (simp add: sample_libraries_def)
  from serial_only_rebuild [OF a w] a w that show thesis by blast
qed

section \<open>The properties on the sample\<close>

theorem patch_bashrc_changes_one_block_witness:
  "\<exists>pre post. ORIGINAL_COPY_BLOCK @ replicate 4921 0 = pre @ ORIGINAL_COPY_BLOCK @ post \<and>
     PATCHED_COPY_BLOCK @ replicate 4921 0 = pre @ PATCHED_COPY_BLOCK @ post"
  using patch_bashrc_changes_one_block [OF sample_patch] by blast

theorem patch_window_replaces_bashrc_witness:
  "\<exists>w. build_system_patch_window sample_hash (\<lambda>_. Some sample_fragment) (\<lambda>_. replicate 25508 0) (sample_flash [1, 2, 3]) = Inr w \<and>
     length w = PATCH_SIZE \<and> le_at w 0x711A 4 = 25564"
proof -
  obtain w where w: "build_system_patch_window sample_hash (\<lambda>_. Some sample_fragment) (\<lambda>_. replicate 25508 0) (sample_flash [1, 2, 3]) = Inr w"
    using sample_window [of "[1, 2, 3]"] by auto
  have "length (sample_flash [1, 2, 3]) = FLASH_SIZE" using sample_flash_length [of "[1, 2, 3]"] by (simp add: FLASH_SIZE_def)
  from patch_window_replaces_bashrc [OF w this] w show ?thesis by blast
qed

theorem invariant_bytes_cover_witness:
  "sample_flash [1, 2, 3] ! 0x7D2004 = sample_flash [4, 5, 6] ! 0x7D2004 \<and> sample_flash [1, 2, 3] ! 0x1000 = sample_flash [4, 5, 6] ! 0x1000"
proof -
  obtain ra rb where r: "identify_hwconfig_variant sample_hash (sample_flash [1, 2, 3]) = Inr (''type12-length'' @ dec_text 256, ra)"
    "identify_hwconfig_variant sample_hash (sample_flash [4, 5, 6]) = Inr (''type12-length'' @ dec_text 256, rb)"
    "hw_extension_length ra = 0" "hw_record_end ra = 0x7D2104" "hw_extension_length rb = 0" "hw_record_end rb = 0x7D2104"
    using sample_record [of "[1, 2, 3]"] sample_record [of "[4, 5, 6]"] by auto
  have len: "length (sample_flash [1, 2, 3]) = FLASH_SIZE" "length (sample_flash [4, 5, 6]) = FLASH_SIZE"
    using sample_flash_length [of "[1, 2, 3]"] sample_flash_length [of "[4, 5, 6]"] by (simp_all add: FLASH_SIZE_def)
  obtain fp where fp: "invariant_bytes sample_hash (sample_flash [1, 2, 3]) (Some ra) = Inr fp"
    by (simp add: invariant_bytes_def)
  have "pslice (sample_flash [1, 2, 3]) 0 0x463000 = pslice (sample_flash [4, 5, 6]) 0 0x463000" by (simp add: sample_slice_zero)
  then have "take 0x463000 (sample_flash [1, 2, 3]) = take 0x463000 (sample_flash [4, 5, 6])" by (simp add: pslice_def)
  moreover have "pslice (sample_flash [1, 2, 3]) 0x46B000 0x7D2002 = pslice (sample_flash [4, 5, 6]) 0x46B000 0x7D2002"
    by (simp add: sample_flash_def sample_hw_def pslice_def)
  moreover have "drop 0x7D2073 (sample_flash [1, 2, 3]) = drop 0x7D2073 (sample_flash [4, 5, 6])"
    by (simp add: sample_flash_def sample_hw_length)
  moreover from this have "drop (0x91 + 0x7D2073) (sample_flash [1, 2, 3]) = drop (0x91 + 0x7D2073) (sample_flash [4, 5, 6])"
    unfolding drop_drop [symmetric] by simp
  moreover have "pslice (sample_flash [1, 2, 3]) 0x7D2004 0x7D200A = pslice (sample_flash [4, 5, 6]) 0x7D2004 0x7D200A"
    "pslice (sample_flash [1, 2, 3]) 0x7D200D 0x7D2011 = pslice (sample_flash [4, 5, 6]) 0x7D200D 0x7D2011"
    by (simp_all add: sample_slice_hw) (simp_all add: sample_hw_def pslice_def ascii_def)
  ultimately have fp': "invariant_bytes sample_hash (sample_flash [4, 5, 6]) (Some rb) = Inr fp"
    using fp r(3-6) by (simp add: invariant_bytes_def normalized_hwconfig_after_unit_fields_def constants pslice_def)
  show ?thesis
    using invariant_bytes_cover [OF len r(1,2) fp fp'] r(4,6) by (simp add: unit_specific_def constants FLASH_SIZE_def)
qed

theorem recovery_image_is_safe_witness:
  "\<exists>a rb. rebuild_image sample_libraries (sample_flash [1, 2, 3]) a ''serial-only'' = Inr rb \<and>
     length (rb_image rb) = FLASH_SIZE \<and> an_config_is_canonical (rb_analysis rb) \<and>
     supported_firmware (lib_hash sample_libraries) (rb_image rb)"
proof -
  have "length [1, 2, 3 :: byte] = 3" by simp
  then obtain a region rb where
    a: "analyze_image (lib_hash sample_libraries) (lib_inflate sample_libraries) (sample_flash [1, 2, 3]) (us ''a.bin'') False False = Inr a"
    and rb: "rebuild_image sample_libraries (sample_flash [1, 2, 3]) a ''serial-only'' = Inr rb"
    by (rule sample_rebuilt)
  have m: "(''serial-only'' = ''preserve-files'') = False" by simp
  have "analyze_image (lib_hash sample_libraries) (lib_inflate sample_libraries) (sample_flash [1, 2, 3]) (us ''a.bin'') False
      (''serial-only'' = ''preserve-files'') = Inr a" unfolding m by (rule a)
  from recovery_image_is_safe [OF this rb] rb show ?thesis by blast
qed

theorem serial_only_rebuild_succeeds_witness:
  "\<exists>a rb. rebuild_image sample_libraries (sample_flash [1, 2, 3]) a ''serial-only'' = Inr rb \<and> rb_patch_changed rb"
proof -
  have "length [1, 2, 3 :: byte] = 3" by simp
  then obtain a region rb where
    "analyze_image (lib_hash sample_libraries) (lib_inflate sample_libraries) (sample_flash [1, 2, 3]) (us ''a.bin'') False False = Inr a"
    "apply_system_patch (lib_hash sample_libraries) (lib_xz_decompress sample_libraries) (lib_lzma2 sample_libraries)
       (sample_flash [1, 2, 3]) (an_system_state a) = Inr (region, True)"
    by (rule sample_rebuilt)
  from serial_only_rebuild_succeeds [OF this] show ?thesis by blast
qed

end
