(* ===== verification/Python_Text.thy ===== *)
theory Python_Text
  imports Backup_Archive Reports
begin

text \<open>
  The operations of Python's \<open>str\<close> and \<open>bytes\<close> that the readers of ADB output use: decoding with
  replacement, stripping, splitting into lines and words, searching, and numbers in a base. A \<open>str\<close>
  is the list of its code points.
\<close>

section \<open>Decoding\<close>

text \<open>
  \<open>bytes.decode("utf-8", "replace")\<close>: one U+FFFD for each maximal prefix of a character that is cut
  short. A pending character is the number of bytes still to come, the bounds of the next one and
  the value so far.
\<close>

definition utf8_lead :: "byte \<Rightarrow> (nat \<times> byte \<times> byte \<times> nat) option" where
  "utf8_lead b =
     (if 0xC2 \<le> b \<and> b \<le> 0xDF then Some (1, 0x80, 0xBF, unat b - 0xC0)
      else if b = 0xE0 then Some (2, 0xA0, 0xBF, 0)
      else if b = 0xED then Some (2, 0x80, 0x9F, 13)
      else if 0xE1 \<le> b \<and> b \<le> 0xEF then Some (2, 0x80, 0xBF, unat b - 0xE0)
      else if b = 0xF0 then Some (3, 0x90, 0xBF, 0)
      else if 0xF1 \<le> b \<and> b \<le> 0xF3 then Some (3, 0x80, 0xBF, unat b - 0xF0)
      else if b = 0xF4 then Some (3, 0x80, 0x8F, 4)
      else None)"

fun utf8_scan :: "(nat \<times> byte \<times> byte \<times> nat) option \<Rightarrow> bytes \<Rightarrow> ustring" where
  "utf8_scan None [] = []"
| "utf8_scan (Some _) [] = [0xFFFD]"
| "utf8_scan None (b # bs) =
     (if b < 0x80 then unat b # utf8_scan None bs
      else case utf8_lead b of
          None \<Rightarrow> 0xFFFD # utf8_scan None bs
        | pending \<Rightarrow> utf8_scan pending bs)"
| "utf8_scan (Some (n, lo, hi, v)) (b # bs) =
     (if lo \<le> b \<and> b \<le> hi
      then (let v' = v * 64 + unat b mod 64
            in if n = 1 then v' # utf8_scan None bs else utf8_scan (Some (n - 1, 0x80, 0xBF, v')) bs)
      else 0xFFFD #
        (if b < 0x80 then unat b # utf8_scan None bs
         else case utf8_lead b of
             None \<Rightarrow> 0xFFFD # utf8_scan None bs
           | pending \<Rightarrow> utf8_scan pending bs))"

definition decode_utf8_replace :: "bytes \<Rightarrow> ustring" where
  "decode_utf8_replace data = utf8_scan None data"

section \<open>Stripping and splitting\<close>

text \<open>\<open>str.isspace\<close> of one code point.\<close>

definition is_space :: "nat \<Rightarrow> bool" where
  "is_space c \<longleftrightarrow> (9 \<le> c \<and> c \<le> 13) \<or> (0x1C \<le> c \<and> c \<le> 0x20) \<or> c \<in> {0x85, 0xA0, 0x1680} \<or>
     (0x2000 \<le> c \<and> c \<le> 0x200A) \<or> c \<in> {0x2028, 0x2029, 0x202F, 0x205F, 0x3000}"

definition strip_with :: "('a \<Rightarrow> bool) \<Rightarrow> 'a list \<Rightarrow> 'a list" where
  "strip_with space t = rev (dropWhile space (rev (dropWhile space t)))"

abbreviation "strip \<equiv> strip_with is_space"

text \<open>\<open>bytes.strip\<close>.\<close>

abbreviation "strip_bytes \<equiv> strip_with (\<lambda>b :: byte. (9 \<le> b \<and> b \<le> 13) \<or> b = 0x20)"

definition is_line_break :: "nat \<Rightarrow> bool" where
  "is_line_break c \<longleftrightarrow> (10 \<le> c \<and> c \<le> 13) \<or> (0x1C \<le> c \<and> c \<le> 0x1E) \<or> c \<in> {0x85, 0x2028, 0x2029}"

text \<open>\<open>str.splitlines\<close>; the accumulator is the current line, reversed.\<close>

function split_lines :: "ustring \<Rightarrow> ustring \<Rightarrow> ustring list" where
  "split_lines acc [] = (if acc = [] then [] else [rev acc])"
| "split_lines acc (c # cs) =
     (if is_line_break c
      then rev acc # split_lines [] (if c = 13 \<and> cs \<noteq> [] \<and> hd cs = 10 then tl cs else cs)
      else split_lines (c # acc) cs)"
  by pat_completeness auto

termination
  by (relation "measure (\<lambda>(acc, cs). length cs)") auto

abbreviation "splitlines \<equiv> split_lines []"

text \<open>\<open>str.split()\<close>.\<close>

fun split_words :: "ustring \<Rightarrow> ustring \<Rightarrow> ustring list" where
  "split_words acc [] = (if acc = [] then [] else [rev acc])"
| "split_words acc (c # cs) =
     (if is_space c then (if acc = [] then [] else [rev acc]) @ split_words [] cs
      else split_words (c # acc) cs)"

text \<open>\<open>pattern in text\<close>.\<close>

fun contains_text :: "'a list \<Rightarrow> 'a list \<Rightarrow> bool" where
  "contains_text pat [] = (pat = [])"
| "contains_text pat (x # xs) = (take (length pat) (x # xs) = pat \<or> contains_text pat xs)"

section \<open>Numbers\<close>

definition digit_value :: "nat \<Rightarrow> nat option" where
  "digit_value c =
     (if 48 \<le> c \<and> c \<le> 57 then Some (c - 48)
      else if 97 \<le> c \<and> c \<le> 102 then Some (c - 87)
      else if 65 \<le> c \<and> c \<le> 70 then Some (c - 55)
      else None)"

definition is_decimal :: "nat \<Rightarrow> bool" where
  "is_decimal c \<longleftrightarrow> 48 \<le> c \<and> c \<le> 57"

definition is_hex :: "nat \<Rightarrow> bool" where
  "is_hex c \<longleftrightarrow> digit_value c \<noteq> None"

text \<open>\<open>int(digits, base)\<close> of a nonempty string of digits.\<close>

definition number_in :: "nat \<Rightarrow> ustring \<Rightarrow> nat" where
  "number_in base digits = foldl (\<lambda>n c. n * base + the (digit_value c)) 0 digits"

text \<open>\<open>str(i)\<close> and \<open>f"{n:x}"\<close>, \<open>f"{n:08x}"\<close>.\<close>

definition int_text :: "int \<Rightarrow> ustring" where
  "int_text i = (if i < 0 then us ''-'' @ us (dec_text (nat (- i))) else us (dec_text (nat i)))"

definition hex8 :: "nat \<Rightarrow> ustring" where
  "hex8 n = us (hex_padded 8 n)"

end
