(* ===== verification/Adb_Client.thy ===== *)
theory Adb_Client
  imports Python_Text Hid_Transport
begin

text \<open>
  The ADB side of \<open>cc2camera/adb_backup.py\<close>: the partition table, the client and its commands, the wait
  for a camera, one read of the flash and the acquisition of a stable image.

  The host and the camera are one state \<open>'s\<close>, shared with the HID transport: an ADB command, a
  temporary directory, the clock and a USB report all act on it. A \<open>station\<close> is that world with a log
  of the ADB commands and HID events in the order they happened. Times are in milliseconds; a
  timeout that is infinite or NaN is \<open>None\<close>.
\<close>

section \<open>The host\<close>

datatype process =
    No_executable              \<comment> \<open>\<open>FileNotFoundError\<close>\<close>
  | Start_failed               \<comment> \<open>any other \<open>OSError\<close>\<close>
  | Timed_out
  | Exited int bytes bytes     \<comment> \<open>return code, standard output, standard error\<close>

record 's adb_host =
  ah_run :: "'s \<Rightarrow> ustring list \<Rightarrow> int \<Rightarrow> process \<times> 's"
  ah_mkdtemp :: "'s \<Rightarrow> ustring res \<times> 's"
  ah_rmtree :: "'s \<Rightarrow> ustring \<Rightarrow> unit res \<times> 's"
  ah_is_file :: "'s \<Rightarrow> ustring \<Rightarrow> bool"
  ah_read_bytes :: "'s \<Rightarrow> ustring \<Rightarrow> bytes res"
  ah_now :: "'s \<Rightarrow> int"
  ah_sleep :: "'s \<Rightarrow> int \<Rightarrow> 's"
  ah_utc_now :: "'s \<Rightarrow> ustring"

datatype action =
    Ran "ustring list"
  | Usb hid_event

record 's station =
  hid :: "'s world"
  log :: "action list"

abbreviation "outside st \<equiv> device (hid st)"

definition set_outside :: "'s station \<Rightarrow> 's \<Rightarrow> 's station" where
  "set_outside st d = st\<lparr>hid := (hid st)\<lparr>device := d\<rparr>\<rparr>"

text \<open>A HID operation; its events join the log.\<close>

definition on_hid :: "('s world, 'a) io \<Rightarrow> ('s station, 'a) io" where
  "on_hid m st =
     (case m (hid st) of
        (r, w) \<Rightarrow> (r, st\<lparr>hid := w, log := log st @ map Usb (drop (length (trace (hid st))) (trace w))\<rparr>))"

section \<open>The partition table\<close>

record mtd_partition =
  mp_index :: nat
  mp_size :: nat
  mp_erase_size :: nat
  mp_name :: ustring

definition device_path :: "mtd_partition \<Rightarrow> ustring" where
  "device_path part = us ''/dev/mtd'' @ us (dec_text (mp_index part))"

text \<open>
  \<open>MTD_LINE.match\<close> on a stripped line of ASCII text, which is what the callers pass: the character
  classes of neighbouring parts are disjoint, so the greedy match is the only one.
\<close>

definition split_class :: "(nat \<Rightarrow> bool) \<Rightarrow> ustring \<Rightarrow> (ustring \<times> ustring) option" where
  "split_class p t = (if takeWhile p t = [] then None else Some (takeWhile p t, dropWhile p t))"

definition mtd_line :: "ustring \<Rightarrow> mtd_partition option" where
  "mtd_line line =
     (if take 3 line \<noteq> us ''mtd'' then None
      else Option.bind (split_class is_decimal (drop 3 line)) (\<lambda>(index, rest).
      if take 1 rest \<noteq> us '':'' then None
      else Option.bind (split_class is_space (drop 1 rest)) (\<lambda>(_, rest).
      Option.bind (split_class is_hex rest) (\<lambda>(sz, rest).
      Option.bind (split_class is_space rest) (\<lambda>(_, rest).
      Option.bind (split_class is_hex rest) (\<lambda>(erase, rest).
      Option.bind (split_class is_space rest) (\<lambda>(_, rest).
      if take 1 rest \<noteq> [0x22] then None
      else Option.bind (split_class (\<lambda>c. c \<noteq> 0x22) (drop 1 rest)) (\<lambda>(name, rest).
      if rest \<noteq> [0x22] then None
      else Some \<lparr>mp_index = number_in 10 index, mp_size = number_in 16 sz, mp_erase_size = number_in 16 erase,
        mp_name = name\<rparr>))))))))"

definition parse_proc_mtd :: "ustring \<Rightarrow> mtd_partition list res" where
  "parse_proc_mtd text =
     (let parts = List.map_filter (\<lambda>raw. mtd_line (strip raw)) (splitlines (filter (\<lambda>c. c \<noteq> 13) text));
          parts = sort_key mp_index parts
      in if parts = [] then Inl (ProtocolError ''camera returned no parseable MTD partitions'')
         else Inr parts)"

definition EXPECTED_PARTITIONS :: "(string \<times> nat) list" where
  "EXPECTED_PARTITIONS =
     [(''boot'', 0x040000), (''kernel'', 0x150000), (''root'', 0x158000), (''system'', 0x4E8000),
      (''hwconfig'', 0x010000), (''config'', 0x020000)]"

text \<open>An \<open>MtdPartition\<close> as a dataclass holds it: a field is whatever value it was given.\<close>

record recorded_partition =
  rp_index :: json
  rp_size :: json
  rp_erase_size :: json
  rp_name :: json

definition recorded :: "mtd_partition \<Rightarrow> recorded_partition" where
  "recorded part = \<lparr>rp_index = JInt (int (mp_index part)), rp_size = JInt (int (mp_size part)),
     rp_erase_size = JInt (int (mp_erase_size part)), rp_name = JStr (mp_name part)\<rparr>"

text \<open>What \<open>f"{value:x}"\<close> raises, if anything.\<close>

fun hex_format_error :: "json \<Rightarrow> exn option" where
  "hex_format_error (JInt _) = None"
| "hex_format_error (JBool _) = None"
| "hex_format_error (JStr _) = Some (ValueError ''Unknown format code'')"
| "hex_format_error (JFloat _) = Some (ValueError ''Unknown format code'')"
| "hex_format_error JNonfinite = Some (ValueError ''Unknown format code'')"
| "hex_format_error _ = Some TypeError"

text \<open>The loop over the names.\<close>

fun check_partition_names :: "(recorded_partition \<times> string) list \<Rightarrow> unit res" where
  "check_partition_names [] = Inr ()"
| "check_partition_names ((part, expected_name) # rest) =
     (case rp_name part of
        JStr name \<Rightarrow>
          if casefold name \<noteq> us expected_name then Inl (ProtocolError ''unexpected mtd name'')
          else check_partition_names rest
      | _ \<Rightarrow> Inl AttributeError)"

definition validate_partition_map :: "recorded_partition list \<Rightarrow> unit res" where
  "validate_partition_map parts =
     (if \<not> list_all2 (\<lambda>part i. json_eq (rp_index part) (JInt (int i))) parts [0..<length parts]
      then Inl (ProtocolError ''MTD indices are not contiguous from mtd0'')
      else if \<not> list_all2 (\<lambda>part (_, sz). json_eq (rp_size part) (JInt (int sz))) parts EXPECTED_PARTITIONS
      then (case List.map_filter (hex_format_error \<circ> rp_size) parts of
          e # _ \<Rightarrow> Inl e
        | [] \<Rightarrow> Inl (ProtocolError ''unexpected CC2 partition sizes''))
      else res_bind (check_partition_names (zip parts (map fst EXPECTED_PARTITIONS))) (\<lambda>_.
        if sum_list (map (the \<circ> json_number \<circ> rp_size) parts) \<noteq> of_nat FLASH_SIZE
        then Inl (ProtocolError ''MTD partitions do not cover exactly 8 MiB'')
        else Inr ()))"

section \<open>The client\<close>

record adb_client =
  executable :: ustring
  serial :: "ustring option"

text \<open>\<open>_base\<close>; an empty serial selects no device.\<close>

definition base_command :: "adb_client \<Rightarrow> ustring list" where
  "base_command cl =
     executable cl # (case serial cl of None \<Rightarrow> [] | Some s \<Rightarrow> if s = [] then [] else [us ''-s'', s])"

definition run_process :: "'s adb_host \<Rightarrow> ustring list \<Rightarrow> int \<Rightarrow> 's station \<Rightarrow> process \<times> 's station" where
  "run_process host command timeout st =
     (case ah_run host (outside st) command timeout of
        (p, d) \<Rightarrow> (p, (set_outside st d)\<lparr>log := log st @ [Ran command]\<rparr>))"

definition executable_not_found :: "adb_client \<Rightarrow> exn" where
  "executable_not_found cl = ProtocolErrorText (us ''ADB executable not found: '' @ executable cl @
     us ''. Install Google SDK Platform Tools, then pass --adb with the path to adb. '' @
     us ''Setup: https://github.com/phryneas/cc2_camera_fix/blob/main/docs/INSTALLATION.md'')"

definition adb_run :: "'s adb_host \<Rightarrow> adb_client \<Rightarrow> ustring list \<Rightarrow> int \<Rightarrow> ('s station, bytes) io" where
  "adb_run host cl args timeout st =
     (let command = base_command cl @ args
      in case run_process host command timeout st of
           (No_executable, st') \<Rightarrow> (Inl (executable_not_found cl), st')
         | (Start_failed, st') \<Rightarrow> (Inl OSError, st')
         | (Timed_out, st') \<Rightarrow>
             (Inl (ProtocolErrorText (us ''ADB command timed out: '' @ join_with [0x20] command)), st')
         | (Exited code out err, st') \<Rightarrow>
             if code \<noteq> 0
             then (Inl (ProtocolErrorText (us ''ADB command failed ('' @ int_text code @ us ''): '' @
                    strip (decode_utf8_replace err))), st')
             else (Inr out, st'))"

text \<open>With the default timeout of 30 seconds.\<close>

definition adb_exec_out :: "'s adb_host \<Rightarrow> adb_client \<Rightarrow> ustring list \<Rightarrow> ('s station, bytes) io" where
  "adb_exec_out host cl remote_args = adb_run host cl (us ''exec-out'' # remote_args) 30000"

definition adb_shell :: "'s adb_host \<Rightarrow> adb_client \<Rightarrow> ustring list \<Rightarrow> ('s station, bytes) io" where
  "adb_shell host cl remote_args = adb_run host cl (us ''shell'' # remote_args) 30000"

definition adb_pull :: "'s adb_host \<Rightarrow> adb_client \<Rightarrow> ustring \<Rightarrow> ustring \<Rightarrow> int \<Rightarrow> ('s station, unit) io" where
  "adb_pull host cl remote_path local_path timeout =
     io_bind (adb_run host cl [us ''pull'', remote_path, local_path] timeout) (\<lambda>_ st.
     if ah_is_file host (outside st) local_path then (Inr (), st)
     else (Inl (ProtocolErrorText (us ''ADB pull reported success but created no file for '' @ remote_path)), st))"

text \<open>What \<open>get-state\<close> said, once it has been stripped.\<close>

definition state_detail :: "ustring \<Rightarrow> ustring \<Rightarrow> ustring" where
  "state_detail stderr state = (if stderr \<noteq> [] then stderr else if state \<noteq> [] then state else us ''no device'')"

definition startup_eligible :: "adb_client \<Rightarrow> ustring \<Rightarrow> bool" where
  "startup_eligible cl detail \<longleftrightarrow>
     (let lowered = casefold detail
      in contains_text (us ''no devices'') lowered \<or>
         (contains_text (us ''device'') lowered \<and> contains_text (us ''not found'') lowered) \<or>
         (serial cl = None \<and> detail = us ''no device'') \<or>
         contains_text (us ''device offline'') lowered \<or> detail = us ''offline'')"

definition ensure_available :: "'s adb_host \<Rightarrow> adb_client \<Rightarrow> int option \<Rightarrow> ('s station, unit) io" where
  "ensure_available host cl timeout st =
     (case timeout of
        None \<Rightarrow> (Inl (ProtocolError ''ADB availability timeout must be a finite positive number''), st)
      | Some t \<Rightarrow>
          if t \<le> 0 then (Inl (ProtocolError ''ADB availability timeout must be a finite positive number''), st)
          else
            let command = base_command cl @ [us ''get-state'']
            in case run_process host command t st of
                 (No_executable, st') \<Rightarrow> (Inl (executable_not_found cl), st')
               | (Start_failed, st') \<Rightarrow> (Inl OSError, st')
               | (Timed_out, st') \<Rightarrow>
                   (Inl (ProtocolErrorText (us ''ADB availability check timed out: '' @ join_with [0x20] command)), st')
               | (Exited code out err, st') \<Rightarrow>
                   let state = strip (decode_utf8_replace out);
                       detail = state_detail (strip (decode_utf8_replace err)) state
                   in if code = 0 \<and> state = us ''device'' then (Inr (), st')
                      else if startup_eligible cl detail then (Inl (AdbUnavailable ''ADB camera is not online''), st')
                      else (Inl (ProtocolErrorText (us ''ADB device is not usable ('' @ detail @ us '')'')), st'))"

section \<open>Waiting for the camera\<close>

text \<open>\<open>str(exc)\<close> of a protocol error.\<close>

fun message_of :: "exn \<Rightarrow> ustring" where
  "message_of (ProtocolError m) = us m"
| "message_of (AdbUnavailable m) = us m"
| "message_of (ProtocolErrorText t) = t"
| "message_of _ = []"

text \<open>The exceptions of \<open>ensure_available\<close> that \<open>wait_for_device\<close> polls through.\<close>

definition is_transitional :: "exn \<Rightarrow> bool" where
  "is_transitional e \<longleftrightarrow>
     (case e of
        AdbUnavailable _ \<Rightarrow> True
      | _ \<Rightarrow> is_protocol_error e \<and>
          contains_text (us ''adb device is not usable (error: closed)'') (casefold (message_of e)))"

definition adb_wait_expired :: exn where
  "adb_wait_expired = ProtocolError ''timed out waiting for ADB to become online''"

text \<open>The polling loop on \<open>fuel\<close> iterations; \<open>None\<close> means that the fuel ran out.\<close>

fun wait_device_loop ::
    "nat \<Rightarrow> 's adb_host \<Rightarrow> adb_client \<Rightarrow> int \<Rightarrow> 's station \<Rightarrow> (unit res \<times> 's station) option" where
  "wait_device_loop 0 host cl deadline st = None"
| "wait_device_loop (Suc fuel) host cl deadline st =
     (let remaining = deadline - ah_now host (outside st)
      in if remaining \<le> 0 then Some (Inl adb_wait_expired, st)
         else (case ensure_available host cl (Some (min 10000 remaining)) st of
             (Inr _, st') \<Rightarrow> Some (Inr (), st')
           | (Inl e, st') \<Rightarrow>
               if \<not> is_transitional e then Some (Inl e, st')
               else
                 let remaining = deadline - ah_now host (outside st')
                 in if remaining \<le> 0 then Some (Inl adb_wait_expired, st')
                    else wait_device_loop fuel host cl deadline
                      (set_outside st' (ah_sleep host (outside st') (min 500 remaining)))))"

definition wait_for_device ::
    "nat \<Rightarrow> 's adb_host \<Rightarrow> adb_client \<Rightarrow> int option \<Rightarrow> 's station \<Rightarrow> (unit res \<times> 's station) option" where
  "wait_for_device fuel host cl timeout st =
     (case timeout of
        None \<Rightarrow> Some (Inl (ProtocolError ''ADB wait timeout must be a finite positive number''), st)
      | Some t \<Rightarrow>
          if t \<le> 0 then Some (Inl (ProtocolError ''ADB wait timeout must be a finite positive number''), st)
          else wait_device_loop fuel host cl (ah_now host (outside st) + t) st)"

section \<open>Reading the flash\<close>

definition identity_and_partitions :: "'s adb_host \<Rightarrow> adb_client \<Rightarrow> ('s station, ustring \<times> mtd_partition list) io" where
  "identity_and_partitions host cl =
     io_bind (ensure_available host cl (Some 10000)) (\<lambda>_.
     io_bind (adb_shell host cl [us ''id'']) (\<lambda>out.
     let identity = strip (decode_utf8_replace out)
     in if \<not> contains_text (us ''uid=0'') identity
        then io_raise (ProtocolError ''ADB shell is not root; refusing raw MTD access'')
        else io_bind (adb_shell host cl [us ''cat'', us ''/proc/mtd'']) (\<lambda>table.
             io_bind (io_lift (decode_ascii table)) (\<lambda>text.
             io_bind (io_lift (parse_proc_mtd text)) (\<lambda>parts.
             io_bind (io_lift (validate_partition_map (map recorded parts))) (\<lambda>_.
             io_return (identity, parts)))))))"

text \<open>\<open>with tempfile.TemporaryDirectory() as directory: body\<close>.\<close>

definition with_tempdir :: "'s adb_host \<Rightarrow> (ustring \<Rightarrow> ('s station, 'a) io) \<Rightarrow> ('s station, 'a) io" where
  "with_tempdir host body st =
     (case ah_mkdtemp host (outside st) of
        (Inl e, d) \<Rightarrow> (Inl e, set_outside st d)
      | (Inr directory, d) \<Rightarrow>
          (case body directory (set_outside st d) of
             (r, st') \<Rightarrow>
               (case ah_rmtree host (outside st') directory of
                  (Inl e, d') \<Rightarrow> (Inl e, set_outside st' d')
                | (Inr _, d') \<Rightarrow> (r, set_outside st' d'))))"

fun read_partitions ::
    "'s adb_host \<Rightarrow> adb_client \<Rightarrow> ustring \<Rightarrow> mtd_partition list \<Rightarrow> bytes \<Rightarrow> ('s station, bytes) io" where
  "read_partitions host cl directory [] img = io_return img"
| "read_partitions host cl directory (part # parts) img =
     (let local_path = directory @ us ''/mtd'' @ us (dec_text (mp_index part)) @ us ''.bin''
      in io_bind (adb_pull host cl (device_path part) local_path 120000) (\<lambda>_.
         io_bind (\<lambda>st. (ah_read_bytes host (outside st) local_path, st)) (\<lambda>data.
         if length data \<noteq> mp_size part
         then io_raise (ProtocolErrorText (us ''short read from '' @ device_path part))
         else read_partitions host cl directory parts (img @ data))))"

definition read_flash_once :: "'s adb_host \<Rightarrow> adb_client \<Rightarrow> mtd_partition list \<Rightarrow> ('s station, bytes) io" where
  "read_flash_once host cl parts =
     io_bind (with_tempdir host (\<lambda>directory. read_partitions host cl directory parts [])) (\<lambda>img.
     if length img \<noteq> FLASH_SIZE then io_raise (ProtocolError ''assembled flash image is not exactly 8 MiB'')
     else io_return img)"

section \<open>Waiting ends\<close>

text \<open>The clock never runs backwards, also while a command runs, and a sleep lasts at least its time.\<close>

definition steady_clock :: "'s adb_host \<Rightarrow> bool" where
  "steady_clock host \<longleftrightarrow>
     (\<forall>d command t. ah_now host d \<le> ah_now host (snd (ah_run host d command t))) \<and>
     (\<forall>d t. 0 \<le> t \<longrightarrow> ah_now host d + t \<le> ah_now host (ah_sleep host d t))"

text \<open>The answer of a camera whose daemon is up.\<close>

definition says_online :: "process \<Rightarrow> bool" where
  "says_online p \<longleftrightarrow> (\<exists>out err. p = Exited 0 out err \<and> strip (decode_utf8_replace out) = us ''device'')"

lemma set_outside_simps [simp]:
  "outside (set_outside st d) = d" "log (set_outside st d) = log st" "trace (hid (set_outside st d)) = trace (hid st)"
  by (simp_all add: set_outside_def)

lemma run_process_simps:
  assumes "run_process host command timeout st = (p, st')"
  shows "log st' = log st @ [Ran command]" "trace (hid st') = trace (hid st)"
    "ah_run host (outside st) command timeout = (p, outside st')"
  using assms by (auto simp: run_process_def set_outside_def split: prod.splits)

lemma ensure_available_polls:
  assumes "ensure_available host cl (Some t) st = (r, st')" "0 < t"
  obtains p where "ah_run host (outside st) (base_command cl @ [us ''get-state'']) t = (p, outside st')"
    "log st' = log st @ [Ran (base_command cl @ [us ''get-state''])]" "trace (hid st') = trace (hid st)"
    "r = Inr () \<longleftrightarrow> says_online p" "r \<noteq> Inl adb_wait_expired"
proof -
  obtain p st1 where run: "run_process host (base_command cl @ [us ''get-state'']) t st = (p, st1)" by fastforce
  note p = run_process_simps [OF run]
  have "st' = st1 \<and> (r = Inr () \<longleftrightarrow> says_online p) \<and> r \<noteq> Inl adb_wait_expired"
    using assms run
    by (auto simp: ensure_available_def says_online_def adb_wait_expired_def executable_not_found_def Let_def split: process.splits if_splits)
  with p that [of p] show thesis by simp
qed

lemma wait_device_loop_ends:
  assumes "steady_clock host" "deadline - ah_now host (outside st) \<le> 500 * int fuel"
  shows "\<exists>r st' n. wait_device_loop (Suc fuel) host cl deadline st = Some (r, st') \<and>
    log st' = log st @ replicate n (Ran (base_command cl @ [us ''get-state''])) \<and> trace (hid st') = trace (hid st) \<and>
    (case r of
       Inr _ \<Rightarrow> \<exists>d t p. ah_run host d (base_command cl @ [us ''get-state'']) t = (p, outside st') \<and> says_online p
     | Inl e \<Rightarrow> \<not> is_transitional e \<and> (e \<noteq> adb_wait_expired \<or> deadline \<le> ah_now host (outside st')))"
  using assms(2)
proof (induction fuel arbitrary: st)
  case 0
  have expired: "\<not> is_transitional adb_wait_expired"
    by (simp add: adb_wait_expired_def is_transitional_def us_def casefold_def fold_point_def)
  from 0 show ?case by (intro exI [of _ "Inl adb_wait_expired"] exI [of _ st] exI [of _ 0]) (simp add: expired)
next
  case (Suc fuel)
  let ?poll = "Ran (base_command cl @ [us ''get-state''])"
  have expired: "\<not> is_transitional adb_wait_expired"
    by (simp add: adb_wait_expired_def is_transitional_def us_def casefold_def fold_point_def)
  define remaining where "remaining = deadline - ah_now host (outside st)"
  show ?case
  proof (cases "remaining \<le> 0")
    case True
    then show ?thesis
      by (intro exI [of _ "Inl adb_wait_expired"] exI [of _ st] exI [of _ 0]) (simp add: expired remaining_def)
  next
    case False
    obtain q st1 where poll: "ensure_available host cl (Some (min 10000 remaining)) st = (q, st1)" by fastforce
    obtain p where p: "ah_run host (outside st) (base_command cl @ [us ''get-state'']) (min 10000 remaining) = (p, outside st1)"
      "log st1 = log st @ [?poll]" "trace (hid st1) = trace (hid st)" "q = Inr () \<longleftrightarrow> says_online p" "q \<noteq> Inl adb_wait_expired"
      using ensure_available_polls [OF poll] False by auto
    show ?thesis
    proof (cases q)
      case (Inr u)
      then have "wait_device_loop (Suc (Suc fuel)) host cl deadline st = Some (Inr (), st1)"
        using False poll by (simp add: remaining_def [symmetric])
      with p Inr show ?thesis by (intro exI [of _ "Inr ()"] exI [of _ st1] exI [of _ 1]) auto
    next
      case (Inl e)
      define left where "left = deadline - ah_now host (outside st1)"
      have now1: "ah_now host (outside st) \<le> ah_now host (outside st1)"
        using assms(1) p(1) unfolding steady_clock_def by (metis snd_conv)
      consider "\<not> is_transitional e" | "is_transitional e" "left \<le> 0" | "is_transitional e" "0 < left" by linarith
      then show ?thesis
      proof cases
        case 1
        then have "wait_device_loop (Suc (Suc fuel)) host cl deadline st = Some (Inl e, st1)"
          using False poll Inl by (simp add: remaining_def [symmetric])
        with p Inl 1 show ?thesis by (intro exI [of _ "Inl e"] exI [of _ st1] exI [of _ 1]) auto
      next
        case 2
        then have "deadline \<le> ah_now host (outside st1)" by (simp add: left_def)
        with 2 have "wait_device_loop (Suc (Suc fuel)) host cl deadline st = Some (Inl adb_wait_expired, st1)"
          using False poll Inl by (simp add: remaining_def [symmetric] left_def [symmetric])
        with p 2 show ?thesis
          by (intro exI [of _ "Inl adb_wait_expired"] exI [of _ st1] exI [of _ 1]) (auto simp: expired left_def)
      next
        case 3
        let ?st = "set_outside st1 (ah_sleep host (outside st1) (min 500 left))"
        have "\<not> deadline \<le> ah_now host (outside st1)" using 3(2) by (simp add: left_def)
        have slept: "ah_now host (outside st1) + min 500 left \<le> ah_now host (outside ?st)"
          using assms(1) 3 by (simp add: steady_clock_def)
        have step: "wait_device_loop (Suc (Suc fuel)) host cl deadline st = wait_device_loop (Suc fuel) host cl deadline ?st"
          by (subst wait_device_loop.simps(2))
            (use False poll Inl 3 \<open>\<not> deadline \<le> ah_now host (outside st1)\<close> in \<open>simp add: remaining_def [symmetric] left_def [symmetric] del: wait_device_loop.simps\<close>)
        have "deadline - ah_now host (outside ?st) \<le> 500 * int fuel"
          using slept now1 Suc.prems 3 by (auto simp: left_def min_def split: if_splits)
        from Suc.IH [OF this] obtain r st' n where
          "wait_device_loop (Suc fuel) host cl deadline ?st = Some (r, st')"
          "log st' = log ?st @ replicate n ?poll" "trace (hid st') = trace (hid ?st)"
          "case r of
             Inr _ \<Rightarrow> \<exists>d t p. ah_run host d (base_command cl @ [us ''get-state'']) t = (p, outside st') \<and> says_online p
           | Inl e \<Rightarrow> \<not> is_transitional e \<and> (e \<noteq> adb_wait_expired \<or> deadline \<le> ah_now host (outside st'))"
          by blast
        with p step show ?thesis by (intro exI [of _ r] exI [of _ st'] exI [of _ "Suc n"]) simp
      qed
    qed
  qed
qed

text \<open>With a steady clock, waiting for ADB ends: \<open>timeout / 500 ms + 2\<close> polls are enough fuel. Only
  \<open>get-state\<close> is run and no HID report is sent. It succeeds only when the last poll answered
  \<open>device\<close>; it reports a timeout only once the deadline has passed; any other error is one that is not
  part of the transition.\<close>

theorem wait_for_device_ends:
  assumes "steady_clock host" "timeout \<le> 500 * int fuel" "0 < timeout"
  shows "\<exists>r st' n. wait_for_device (Suc fuel) host cl (Some timeout) st = Some (r, st') \<and>
    log st' = log st @ replicate n (Ran (base_command cl @ [us ''get-state''])) \<and> trace (hid st') = trace (hid st) \<and>
    (case r of
       Inr _ \<Rightarrow> \<exists>d t p. ah_run host d (base_command cl @ [us ''get-state'']) t = (p, outside st') \<and> says_online p
     | Inl e \<Rightarrow> \<not> is_transitional e \<and>
         (e \<noteq> adb_wait_expired \<or> ah_now host (outside st) + timeout \<le> ah_now host (outside st')))"
proof -
  have "ah_now host (outside st) + timeout - ah_now host (outside st) \<le> 500 * int fuel" using assms(2) by simp
  from wait_device_loop_ends [OF assms(1) this] assms(3) show ?thesis by (simp add: wait_for_device_def)
qed

text \<open>A host whose camera stays offline until its clock has reached two seconds.\<close>

definition late_host :: "int adb_host" where
  "late_host = \<lparr>ah_run = (\<lambda>d _ _. (Exited 0 (ascii (if d < 2000 then ''offline'' else ''device'')) [], d + 10)),
     ah_mkdtemp = (\<lambda>d. (Inl OSError, d)), ah_rmtree = (\<lambda>d _. (Inr (), d)), ah_is_file = (\<lambda>_ _. False),
     ah_read_bytes = (\<lambda>_ _. Inl OSError), ah_now = id, ah_sleep = (+), ah_utc_now = (\<lambda>_. [])\<rparr>"

theorem wait_for_device_ends_witness:
  "\<exists>r st'. wait_for_device 11 late_host \<lparr>executable = us ''adb'', serial = None\<rparr> (Some 5000)
     \<lparr>hid = \<lparr>device = 7, trace = [], reported = []\<rparr>, log = []\<rparr> = Some (r, st') \<and> trace (hid st') = []"
proof -
  have "steady_clock late_host" by (simp add: steady_clock_def late_host_def)
  from wait_for_device_ends [OF this, where fuel = 10 and timeout = 5000 and cl = "\<lparr>executable = us ''adb'', serial = None\<rparr>"
      and st = "\<lparr>hid = \<lparr>device = 7, trace = [], reported = []\<rparr>, log = []\<rparr>"]
  show ?thesis by auto
qed

end
