(* ===== verification/Adb_Acquire.thy ===== *)
theory Adb_Acquire
  imports Adb_Client
begin

text \<open>
  \<open>acquire_stable\<close> of \<open>cc2camera/adb_backup.py\<close>: full reads of the flash until three in a row agree, five
  at most, and the manifest that records how they were obtained.
\<close>

definition REQUIRED_IDENTICAL_READS :: nat where "REQUIRED_IDENTICAL_READS = 3"
definition MAX_READ_ATTEMPTS :: nat where "MAX_READ_ATTEMPTS = 5"

definition hashes :: "hash_functions \<Rightarrow> bytes \<Rightarrow> (string \<times> json) list" where
  "hashes H data =
     [(''size'', JInt (int (length data))), (''sha256'', JStr (us (sha256 H data))), (''md5'', JStr (us (md5 H data)))]"

definition bootloader_reference :: "hash_functions \<Rightarrow> bytes \<Rightarrow> (string \<times> json) list res" where
  "bootloader_reference H img =
     (let boot_size = snd (EXPECTED_PARTITIONS ! 0)
      in if length img \<noteq> FLASH_SIZE then Inl (ProtocolError ''cannot fingerprint a non-8-MiB flash image'')
         else
           let observed = sha256 H (take boot_size img)
           in Inr [(''partition'', JStr (us ''boot'')), (''size'', JInt (int boot_size)), (''sha256'', JStr (us observed)),
                (''known_sha256'', JStr (us KNOWN_BOOTLOADER_SHA256)),
                (''known_reference'', JBool (observed = KNOWN_BOOTLOADER_SHA256))])"

text \<open>The keys of a Python literal.\<close>

definition keyed :: "(string \<times> json) list \<Rightarrow> (ustring \<times> json) list" where
  "keyed entries = map (\<lambda>(k, v). (us k, v)) entries"

text \<open>The optional \<open>progress\<close> callback: attempt, maximum, consecutive, required.\<close>

type_synonym 's progress = "(nat \<Rightarrow> nat \<Rightarrow> nat \<Rightarrow> nat \<Rightarrow> ('s station, unit) io) option"

definition report_read :: "'s progress \<Rightarrow> nat \<Rightarrow> nat \<Rightarrow> ('s station, unit) io" where
  "report_read progress attempts consecutive =
     (case progress of None \<Rightarrow> io_return ()
      | Some f \<Rightarrow> f attempts MAX_READ_ATTEMPTS consecutive REQUIRED_IDENTICAL_READS)"

text \<open>The loop: \<open>left\<close> attempts remain after \<open>attempts\<close>; it returns the accepted image, if any, and the two counters.\<close>

fun acquire_loop ::
    "('s station, bytes) io \<Rightarrow> 's progress \<Rightarrow> nat \<Rightarrow> nat \<Rightarrow> bytes option \<Rightarrow> nat \<Rightarrow>
     ('s station, bytes option \<times> nat \<times> nat) io" where
  "acquire_loop read_once progress 0 attempts previous consecutive = io_return (None, attempts, consecutive)"
| "acquire_loop read_once progress (Suc left) attempts previous consecutive =
     (let attempts = attempts + 1
      in io_bind read_once (\<lambda>current.
         let consecutive = (if previous = Some current then consecutive + 1 else 1)
         in io_bind (report_read progress attempts consecutive) (\<lambda>_.
            if consecutive \<ge> REQUIRED_IDENTICAL_READS then io_return (Some current, attempts, consecutive)
            else acquire_loop read_once progress left attempts (Some current) consecutive)))"

definition partition_json :: "mtd_partition \<Rightarrow> json" where
  "partition_json part = JObject (keyed
     [(''index'', JInt (int (mp_index part))), (''size'', JInt (int (mp_size part))),
      (''erase_size'', JInt (int (mp_erase_size part))), (''name'', JStr (mp_name part))])"

definition backup_manifest ::
    "hash_functions \<Rightarrow> adb_client \<Rightarrow> ustring \<Rightarrow> mtd_partition list \<Rightarrow> ustring \<Rightarrow> bytes \<Rightarrow> nat \<Rightarrow> nat \<Rightarrow>
     (string \<times> json) list \<Rightarrow> (ustring \<times> json) list" where
  "backup_manifest H cl identity parts created_utc img attempts consecutive boot = keyed
     ([(''format'', JStr (us ''cc2flash-backup-v2'')), (''created_utc'', JStr created_utc),
       (''adb_serial'', (case serial cl of None \<Rightarrow> JNull | Some s \<Rightarrow> JStr s)),
       (''device_identity'', JStr identity), (''read_passes'', JInt (int attempts)),
       (''required_identical_reads'', JInt (int REQUIRED_IDENTICAL_READS)),
       (''consecutive_identical_reads'', JInt (int consecutive)),
       (''maximum_read_attempts'', JInt (int MAX_READ_ATTEMPTS)), (''bootloader'', JObject (keyed boot))] @
      hashes H img @ [(''partitions'', JList (map partition_json parts))])"

definition acquire_stable ::
    "hash_functions \<Rightarrow> 's adb_host \<Rightarrow> adb_client \<Rightarrow> 's progress \<Rightarrow> ('s station, bytes \<times> (ustring \<times> json) list) io" where
  "acquire_stable H host cl progress =
     io_bind (identity_and_partitions host cl) (\<lambda>(identity, parts).
     io_bind (acquire_loop (read_flash_once host cl parts) progress MAX_READ_ATTEMPTS 0 None 0)
       (\<lambda>(accepted, attempts, consecutive).
     case accepted of
       None \<Rightarrow> io_raise (ProtocolError ''five complete flash reads did not produce three consecutive identical images'')
     | Some img \<Rightarrow>
         (\<lambda>st. case bootloader_reference H img of
            Inl e \<Rightarrow> (Inl e, st)
          | Inr boot \<Rightarrow>
              (Inr (img, backup_manifest H cl identity parts (ah_utc_now host (outside st)) img attempts consecutive boot), st))))"

definition acquire_twice ::
    "hash_functions \<Rightarrow> 's adb_host \<Rightarrow> adb_client \<Rightarrow> ('s station, bytes \<times> (ustring \<times> json) list) io" where
  "acquire_twice H host cl = acquire_stable H host cl None"

section \<open>The specification\<close>

text \<open>
  \<open>performs r p hist reads st st'\<close>: after the reads \<open>hist\<close> (newest first), reading again gives the images
  \<open>reads\<close> one after another, each reported to the callback with its number and the length of the run
  of equal images it ends.
\<close>

fun run_length :: "bytes list \<Rightarrow> nat" where
  "run_length [] = 0"
| "run_length (x # xs) = 1 + length (takeWhile (\<lambda>y. y = x) xs)"

fun performs ::
    "('s station, bytes) io \<Rightarrow> 's progress \<Rightarrow> bytes list \<Rightarrow> bytes list \<Rightarrow> 's station \<Rightarrow> 's station \<Rightarrow> bool" where
  "performs r progress hist [] st st' = (st' = st)"
| "performs r progress hist (x # xs) st st' =
     (\<exists>st1 st2. r st = (Inr x, st1) \<and>
        report_read progress (length hist + 1) (run_length (x # hist)) st1 = (Inr (), st2) \<and>
        performs r progress (x # hist) xs st2 st')"

text \<open>The last three reads are the same image.\<close>

definition settled :: "bytes list \<Rightarrow> bool" where
  "settled reads \<longleftrightarrow> (case rev reads of x # y # z # _ \<Rightarrow> x = y \<and> y = z | _ \<Rightarrow> False)"

definition first_settled :: "bytes list \<Rightarrow> bool" where
  "first_settled reads \<longleftrightarrow> settled reads \<and> list_all (\<lambda>k. \<not> settled (take k reads)) [0..<length reads]"

lemma settled_run: "settled reads \<longleftrightarrow> 3 \<le> run_length (rev reads)"
  by (auto simp: settled_def split: list.splits)

lemma run_length_Cons: "run_length (x # hist) = (if hist \<noteq> [] \<and> hd hist = x then run_length hist + 1 else 1)"
  by (cases hist) auto

lemma io_bind_Inr: "io_bind m f st = (Inr y, st') \<longleftrightarrow> (\<exists>x st1. m st = (Inr x, st1) \<and> f x st1 = (Inr y, st'))"
  by (auto simp: io_bind_def split: prod.splits sum.splits)

lemma io_return_Inr [simp]: "io_return x st = (Inr y, st') \<longleftrightarrow> y = x \<and> st' = st"
  by (auto simp: io_return_def io_lift_def)

lemma io_raise_Inr [simp]: "io_raise e st \<noteq> (Inr y, st')"
  by (simp add: io_raise_def io_lift_def)

lemma io_lift_Inr [simp]: "io_lift r st = (Inr y, st') \<longleftrightarrow> r = Inr y \<and> st' = st"
  by (auto simp: io_lift_def)

lemma acquire_step:
  "acquire_loop r progress (Suc left) (length hist) (case hist of [] \<Rightarrow> None | x # _ \<Rightarrow> Some x) (run_length hist) st = (Inr z, st') \<longleftrightarrow>
    (\<exists>x st1 st2. r st = (Inr x, st1) \<and> report_read progress (length hist + 1) (run_length (x # hist)) st1 = (Inr (), st2) \<and>
       (if 3 \<le> run_length (x # hist) then z = (Some x, length hist + 1, run_length (x # hist)) \<and> st' = st2
        else acquire_loop r progress left (length (x # hist)) (Some x) (run_length (x # hist)) st2 = (Inr z, st')))"
proof -
  have new: "(if (case hist of [] \<Rightarrow> None | y # _ \<Rightarrow> Some y) = Some x then run_length hist + 1 else 1) = run_length (x # hist)" for x
    by (cases hist) auto
  have app: "(if c then f else g) st = (if c then f st else g st)" for c :: bool and f g :: "('b, 'c) io" and st by simp
  show ?thesis
    unfolding acquire_loop.simps Let_def io_bind_Inr new REQUIRED_IDENTICAL_READS_def app
    by (auto simp del: run_length.simps split: if_splits)
qed

text \<open>The reads of one run of the loop, in general position.\<close>

definition loop_reads :: "bytes list \<Rightarrow> nat \<Rightarrow> bytes list \<Rightarrow> bytes option \<times> nat \<times> nat \<Rightarrow> bool" where
  "loop_reads hist left xs z \<longleftrightarrow>
     (\<forall>k < length xs. run_length (rev (take k xs) @ hist) < 3) \<and>
     fst (snd z) = length hist + length xs \<and> snd (snd z) = run_length (rev xs @ hist) \<and>
     (if 3 \<le> snd (snd z) then xs \<noteq> [] \<and> fst z = Some (last xs) \<and> length xs \<le> left
      else fst z = None \<and> length xs = left)"

lemma loop_reads_Cons:
  assumes "run_length hist < 3"
  shows "loop_reads hist (Suc left) (x # xs) z \<longleftrightarrow>
    (if 3 \<le> run_length (x # hist) then xs = [] \<and> z = (Some x, length hist + 1, run_length (x # hist))
     else loop_reads (x # hist) left xs z)"
proof -
  have all: "(\<forall>k < length (x # xs). run_length (rev (take k (x # xs)) @ hist) < 3) \<longleftrightarrow>
      (\<forall>k < length xs. run_length (rev (take k xs) @ x # hist) < 3)"
    using assms by (auto simp: less_Suc_eq_0_disj simp del: run_length.simps)
  show ?thesis
  proof (cases "3 \<le> run_length (x # hist)")
    case True
    have "xs = []" if "\<forall>k < length xs. run_length (rev (take k xs) @ x # hist) < 3"
      using spec [OF that, of 0] True by (cases xs) (simp_all del: run_length.simps)
    then show ?thesis
      unfolding loop_reads_def all using True by (cases z) (auto simp del: run_length.simps)
  next
    case False
    then show ?thesis
      unfolding loop_reads_def all by (cases xs) (auto simp del: run_length.simps)
  qed
qed

lemma acquire_loop_Inr:
  assumes "run_length hist < 3"
  shows "acquire_loop r progress left (length hist) (case hist of [] \<Rightarrow> None | x # _ \<Rightarrow> Some x) (run_length hist) st = (Inr z, st') \<longleftrightarrow>
    (\<exists>xs. performs r progress hist xs st st' \<and> loop_reads hist left xs z)"
  using assms
proof (induction left arbitrary: hist st)
  case 0
  then show ?case by (cases z) (auto simp: loop_reads_def simp del: run_length.simps)
next
  case (Suc left)
  have nil: "\<not> loop_reads hist (Suc left) [] z" using Suc.prems by (auto simp: loop_reads_def)
  have IH: "acquire_loop r progress left (length (x # hist)) (Some x) (run_length (x # hist)) st2 = (Inr z, st') \<longleftrightarrow>
      (\<exists>xs. performs r progress (x # hist) xs st2 st' \<and> loop_reads (x # hist) left xs z)"
    if "\<not> 3 \<le> run_length (x # hist)" for x st2
    using Suc.IH [of "x # hist" st2] that by (simp del: run_length.simps)
  have "(\<exists>xs. performs r progress hist xs st st' \<and> loop_reads hist (Suc left) xs z) \<longleftrightarrow>
      (\<exists>x xs. performs r progress hist (x # xs) st st' \<and> loop_reads hist (Suc left) (x # xs) z)"
    using nil by (metis neq_Nil_conv)
  also have "\<dots> \<longleftrightarrow> (\<exists>x st1 st2. r st = (Inr x, st1) \<and> report_read progress (length hist + 1) (run_length (x # hist)) st1 = (Inr (), st2) \<and>
       (if 3 \<le> run_length (x # hist) then z = (Some x, length hist + 1, run_length (x # hist)) \<and> st' = st2
        else \<exists>xs. performs r progress (x # hist) xs st2 st' \<and> loop_reads (x # hist) left xs z))"
  proof (intro ex_cong1)
    fix x
    show "(\<exists>xs. performs r progress hist (x # xs) st st' \<and> loop_reads hist (Suc left) (x # xs) z) \<longleftrightarrow>
      (\<exists>st1 st2. r st = (Inr x, st1) \<and> report_read progress (length hist + 1) (run_length (x # hist)) st1 = (Inr (), st2) \<and>
       (if 3 \<le> run_length (x # hist) then z = (Some x, length hist + 1, run_length (x # hist)) \<and> st' = st2
        else \<exists>xs. performs r progress (x # hist) xs st2 st' \<and> loop_reads (x # hist) left xs z))"
      unfolding loop_reads_Cons [OF Suc.prems] performs.simps(2)
      by (cases "3 \<le> run_length (x # hist)") (auto simp del: run_length.simps)
  qed
  also have "\<dots> \<longleftrightarrow> acquire_loop r progress (Suc left) (length hist) (case hist of [] \<Rightarrow> None | x # _ \<Rightarrow> Some x) (run_length hist) st = (Inr z, st')"
    unfolding acquire_step using IH by (auto simp del: run_length.simps split: if_splits)
  finally show ?case by simp
qed

lemma loop_reads_start:
  "loop_reads [] 5 xs (Some img, attempts, consecutive) \<longleftrightarrow>
     first_settled xs \<and> length xs \<le> 5 \<and> img = last xs \<and> attempts = length xs \<and> consecutive = run_length (rev xs)"
  "loop_reads [] 5 xs (None, attempts, consecutive) \<longleftrightarrow>
     length xs = 5 \<and> \<not> settled xs \<and> list_all (\<lambda>k. \<not> settled (take k xs)) [0..<length xs] \<and> attempts = 5 \<and>
     consecutive = run_length (rev xs)"
  by (auto simp: loop_reads_def first_settled_def settled_run list_all_iff not_le simp del: run_length.simps) auto

lemma first_settled_run:
  assumes "first_settled xs"
  shows "run_length (rev xs) = 3" "xs \<noteq> []"
proof -
  have s: "settled xs" and no: "k < length xs \<Longrightarrow> \<not> settled (take k xs)" for k
    using assms by (simp_all add: first_settled_def list_all_iff)
  show "xs \<noteq> []" using s by (auto simp: settled_def)
  then obtain ys x where xs: "xs = ys @ [x]" by (metis rev_exhaust)
  have "\<not> settled ys" using no [of "length ys"] by (simp add: xs)
  then have "run_length (rev ys) < 3" by (simp add: settled_run)
  moreover have "3 \<le> run_length (x # rev ys)" using s by (simp add: settled_run xs del: run_length.simps)
  ultimately show "run_length (rev xs) = 3" by (simp only: xs rev_append rev.simps append.simps run_length_Cons) (simp split: if_splits)
qed

lemma read_flash_once_length:
  "read_flash_once host cl parts st = (Inr img, st') \<Longrightarrow> length img = FLASH_SIZE"
  by (auto simp: read_flash_once_def io_bind_Inr split: if_splits)

lemma bootloader_reference_length: "bootloader_reference H img = Inr boot \<Longrightarrow> length img = FLASH_SIZE"
  by (auto simp: bootloader_reference_def Let_def split: if_splits)

lemma acquire_stable_Inr:
  "acquire_stable H host cl progress st = (Inr (img, manifest), st') \<longleftrightarrow>
     (\<exists>identity parts st0 reads boot.
        identity_and_partitions host cl st = (Inr (identity, parts), st0) \<and>
        performs (read_flash_once host cl parts) progress [] reads st0 st' \<and>
        first_settled reads \<and> length reads \<le> 5 \<and> img = last reads \<and> length img = FLASH_SIZE \<and>
        bootloader_reference H img = Inr boot \<and>
        manifest = backup_manifest H cl identity parts (ah_utc_now host (outside st')) img (length reads) 3 boot)"
  (is "?L \<longleftrightarrow> ?R")
proof -
  let ?finish = "\<lambda>identity parts attempts consecutive img' st. \<exists>boot. bootloader_reference H img' = Inr boot \<and> img = img' \<and>
      manifest = backup_manifest H cl identity parts (ah_utc_now host (outside st)) img' attempts consecutive boot \<and> st' = st"
  have loop: "acquire_loop r progress MAX_READ_ATTEMPTS 0 None 0 st0 = (Inr (Some x, n, c), st1) \<longleftrightarrow>
      (\<exists>xs. performs r progress [] xs st0 st1 \<and> first_settled xs \<and> length xs \<le> 5 \<and> x = last xs \<and> n = length xs \<and> c = 3)"
    for r x n c st0 st1
    using acquire_loop_Inr [of "[]" r progress 5 st0 "(Some x, n, c)" st1]
    by (auto simp: MAX_READ_ATTEMPTS_def loop_reads_start first_settled_run)
  have last: "accepted = None \<and> False \<or> (\<exists>x. accepted = Some x \<and> ?finish identity parts n c x st1) \<longleftrightarrow>
      (case accepted of
         None \<Rightarrow> io_raise (ProtocolError ''five complete flash reads did not produce three consecutive identical images'')
       | Some img \<Rightarrow>
         (\<lambda>st. case bootloader_reference H img of
            Inl e \<Rightarrow> (Inl e, st)
          | Inr boot \<Rightarrow>
              (Inr (img, backup_manifest H cl identity parts (ah_utc_now host (outside st)) img n c boot), st))) st1
        = (Inr (img, manifest), st')" for accepted identity parts n c st1
    by (cases accepted) (auto split: sum.splits)
  have "?L \<longleftrightarrow> (\<exists>identity parts st0 x n c st1. identity_and_partitions host cl st = (Inr (identity, parts), st0) \<and>
      acquire_loop (read_flash_once host cl parts) progress MAX_READ_ATTEMPTS 0 None 0 st0 = (Inr (Some x, n, c), st1) \<and>
      ?finish identity parts n c x st1)"
    unfolding acquire_stable_def io_bind_Inr split_paired_Ex prod.case last [symmetric] by blast
  also have "\<dots> \<longleftrightarrow> ?R"
    unfolding loop using bootloader_reference_length [of H] by blast
  finally show ?thesis .
qed

text \<open>C8: \<open>acquire_stable\<close> is equivalent to this specification. It succeeds exactly when, on a validated root
  camera, at most five full reads are made one after another, the last three are the same image, and
  no earlier three in a row were; it returns that image, which is 8 MiB, with the manifest that
  records the number of reads, three identical ones, and the image's hashes.\<close>

theorem acquire_stable_equivalence:
  "acquire_stable H host cl progress st = (Inr (img, manifest), st') \<longleftrightarrow>
     (\<exists>identity parts st0 reads boot.
        identity_and_partitions host cl st = (Inr (identity, parts), st0) \<and>
        performs (read_flash_once host cl parts) progress [] reads st0 st' \<and>
        first_settled reads \<and> length reads \<le> 5 \<and> img = last reads \<and> length img = FLASH_SIZE \<and>
        bootloader_reference H img = Inr boot \<and>
        manifest = backup_manifest H cl identity parts (ah_utc_now host (outside st')) img (length reads) 3 boot)"
  by (rule acquire_stable_Inr)

end
