(* ===== verification/Adb_Backup.thy ===== *)
theory Adb_Backup
  imports Adb_Acquire Image_Source
begin

text \<open>
  Backups as files, from \<open>cc2camera/adb_backup.py\<close>: publishing an acquired image with its evidence, loading
  a preserved backup, and the comparisons that let a replacement image be written and a readback pass.

  A \<open>shelf\<close> maps the paths that exist to what \<open>zipfile\<close> reads there. The temporary archive is not on
  it: its name is private and it is removed on every exit. \<open>others\<close> is what other processes do between
  the first check of the destination and the link.
\<close>

type_synonym shelf = "ustring \<rightharpoonup> zip_item list"

definition BACKUP_IMAGE_MEMBER :: string where "BACKUP_IMAGE_MEMBER = ''flash.bin''"
definition BACKUP_MANIFEST_MEMBER :: string where "BACKUP_MANIFEST_MEMBER = ''manifest.json''"
definition BACKUP_ARCHIVE_MEMBERS :: "ustring set" where
  "BACKUP_ARCHIVE_MEMBERS = {us BACKUP_IMAGE_MEMBER, us BACKUP_MANIFEST_MEMBER}"
definition MAX_MANIFEST_SIZE :: nat where "MAX_MANIFEST_SIZE = 1024 * 1024"
definition HARDWARE_RECOVERY_PATCH_START :: nat where [constants]: "HARDWARE_RECOVERY_PATCH_START = 0x463000"
definition HARDWARE_RECOVERY_PATCH_END :: nat where [constants]: "HARDWARE_RECOVERY_PATCH_END = 0x46B000"
definition HARDWARE_RECOVERY_CONFIG_START :: nat where [constants]: "HARDWARE_RECOVERY_CONFIG_START = 0x7E0000"

section \<open>Saving\<close>

definition validate_backup_archive_path :: "ustring \<Rightarrow> unit res" where
  "validate_backup_archive_path path =
     (if casefold (path_suffix path) \<noteq> us ''.zip''
      then Inl (ProtocolError ''backup output must be a .zip archive containing flash.bin and manifest.json'')
      else Inr ())"

text \<open>
  What saving needs of the system: \<open>json.dumps\<close>, the parent directory, the temporary file, \<open>zipfile\<close>
  writing members (its result is what a reader then finds), and an error \<open>os.link\<close> may raise for a
  reason other than an existing name.
\<close>

record saver =
  sv_json_dumps :: "json \<Rightarrow> ustring"
  sv_mkdir :: "unit res"
  sv_mktemp :: "unit res"
  sv_zip_write :: "(string \<times> bytes) list \<Rightarrow> zip_item list res"
  sv_link_error :: "exn option"

text \<open>The reopened archive is checked: its members, and the data of each.\<close>

definition check_written_archive :: "zip_item list \<Rightarrow> unit res" where
  "check_written_archive items =
     (let names = map zi_filename items
      in if length names \<noteq> 2 \<or> set names \<noteq> BACKUP_ARCHIVE_MEMBERS
         then Inl (ProtocolError ''temporary backup ZIP has unexpected members'')
         else if \<exists>i \<in> set items. zi_data i = None
         then Inl (ProtocolError ''temporary backup ZIP failed CRC verification'')
         else Inr ())"

definition refuse_overwrite :: "ustring \<Rightarrow> exn" where
  "refuse_overwrite path = ProtocolErrorText (us ''refusing to overwrite existing backup: '' @ path)"

definition save_backup ::
    "saver \<Rightarrow> (shelf \<Rightarrow> shelf) \<Rightarrow> ustring \<Rightarrow> bytes \<Rightarrow> (ustring \<times> json) list \<Rightarrow> shelf \<Rightarrow> ustring res \<times> shelf" where
  "save_backup sv others path img manifest shelf =
     (case validate_backup_archive_path path of
        Inl e \<Rightarrow> (Inl e, shelf)
      | Inr _ \<Rightarrow>
          if length img \<noteq> FLASH_SIZE
          then (Inl (ProtocolError ''cannot save a backup image that is not exactly 8 MiB''), shelf)
          else if path \<in> dom shelf then (Inl (refuse_overwrite path), shelf)
          else
            (case res_bind (sv_mkdir sv) (\<lambda>_.
                  res_bind (encode_utf8 (sv_json_dumps sv (JObject manifest) @ [10])) (\<lambda>manifest_bytes.
                  res_bind (sv_mktemp sv) (\<lambda>_.
                  res_bind (sv_zip_write sv [(BACKUP_IMAGE_MEMBER, img), (BACKUP_MANIFEST_MEMBER, manifest_bytes)]) (\<lambda>items.
                  res_bind (check_written_archive items) (\<lambda>_. Inr items))))) of
               Inl e \<Rightarrow> (Inl e, others shelf)
             | Inr items \<Rightarrow>
                 (case sv_link_error sv of
                    Some e \<Rightarrow> (Inl e, others shelf)
                  | None \<Rightarrow>
                      if path \<in> dom (others shelf) then (Inl (refuse_overwrite path), others shelf)
                      else (Inr path, (others shelf)(path \<mapsto> items)))))"

section \<open>Loading\<close>

definition read_preserved_members :: "zip_item list \<Rightarrow> (bytes \<times> bytes) res" where
  "read_preserved_members items =
     (let names = map zi_filename items
      in if length names \<noteq> 2 \<or> set names \<noteq> BACKUP_ARCHIVE_MEMBERS
         then Inl (ProtocolError ''preserved backup ZIP must contain exactly flash.bin and manifest.json'')
         else if \<exists>i \<in> set items. zi_flag_bits i AND 1 \<noteq> 0
         then Inl (ProtocolError ''preserved backup ZIP must not be encrypted'')
         else (case (zip_entry items BACKUP_IMAGE_MEMBER, zip_entry items BACKUP_MANIFEST_MEMBER) of
             (Some flash, Some manifest) \<Rightarrow>
               if zi_file_size flash \<noteq> FLASH_SIZE
               then Inl (ProtocolError ''preserved backup image is not exactly 8 MiB'')
               else if zi_file_size manifest > MAX_MANIFEST_SIZE
               then Inl (ProtocolError ''preserved backup manifest is unexpectedly large'')
               else (case (zi_data flash, zi_data manifest) of
                   (Some data, Some manifest_bytes) \<Rightarrow> Inr (data, manifest_bytes)
                 | _ \<Rightarrow> Inl (ProtocolError ''preserved backup ZIP is unreadable or corrupt''))
           | _ \<Rightarrow> Inl KeyError))"

text \<open>\<open>MtdPartition(**item)\<close>: the keyword arguments must be exactly the four fields.\<close>

definition recorded_of :: "json \<Rightarrow> recorded_partition res" where
  "recorded_of item =
     (case item of
        JObject obj \<Rightarrow>
          if fst ` set obj = {us ''index'', us ''size'', us ''erase_size'', us ''name''}
          then Inr \<lparr>rp_index = json_get obj ''index'', rp_size = json_get obj ''size'',
                 rp_erase_size = json_get obj ''erase_size'', rp_name = json_get obj ''name''\<rparr>
          else Inl (ProtocolError ''preserved backup manifest partition map is invalid'')
      | _ \<Rightarrow> Inl (ProtocolError ''preserved backup manifest partition map is invalid''))"

definition validate_preserved_manifest :: "hash_functions \<Rightarrow> bytes \<Rightarrow> json \<Rightarrow> unit res" where
  "validate_preserved_manifest H data manifest =
     (case manifest of
        JObject m \<Rightarrow>
          if \<not> json_eq (json_get m ''format'') (JStr (us ''cc2flash-backup-v2''))
          then Inl (ProtocolError ''preserved backup requires a v2 manifest with three identical reads'')
          else if \<not> json_matches m (hashes H data)
          then Inl (ProtocolError ''preserved backup manifest does not match the file'')
          else res_bind (bootloader_reference H data) (\<lambda>expected.
            case json_get m ''bootloader'' of
              JObject boot \<Rightarrow>
                if \<not> json_matches boot expected
                then Inl (ProtocolError ''preserved backup manifest bootloader does not match the file'')
                else if map_of expected ''known_reference'' = Some (JBool True) \<and>
                  \<not> json_eq (json_get boot ''acceptance'') (JStr (us ''known-reference''))
                then Inl (ProtocolError ''known bootloader lacks known-reference acceptance'')
                else if map_of expected ''known_reference'' \<noteq> Some (JBool True) \<and>
                  \<not> json_eq (json_get boot ''acceptance'') (JStr (us ''explicit-hash''))
                then Inl (ProtocolError ''unknown bootloader lacks explicit exact-hash acceptance'')
                else if \<not> json_eq (json_get m ''required_identical_reads'') (JInt (int REQUIRED_IDENTICAL_READS))
                then Inl (ProtocolError ''preserved backup does not require three identical reads'')
                else if \<not> json_int_within (json_get m ''consecutive_identical_reads'')
                  (int REQUIRED_IDENTICAL_READS) (int REQUIRED_IDENTICAL_READS)
                then Inl (ProtocolError ''preserved backup lacks three consecutive identical physical reads'')
                else if \<not> json_int_within (json_get m ''read_passes'') (int REQUIRED_IDENTICAL_READS) (int MAX_READ_ATTEMPTS)
                then Inl (ProtocolError ''preserved backup has an invalid physical-read count'')
                else if \<not> json_eq (json_get m ''maximum_read_attempts'') (JInt (int MAX_READ_ATTEMPTS))
                then Inl (ProtocolError ''preserved backup has an unexpected read-attempt policy'')
                else (case json_get m ''partitions'' of
                    JList items \<Rightarrow> res_bind (res_map recorded_of items) validate_partition_map
                  | _ \<Rightarrow> Inl (ProtocolError ''preserved backup manifest has no partition map''))
            | _ \<Rightarrow> Inl (ProtocolError ''preserved backup manifest has no bootloader fingerprint''))
      | _ \<Rightarrow> Inl (ProtocolError ''preserved backup manifest must be a JSON object''))"

definition load_preserved_backup ::
    "hash_functions \<Rightarrow> host_files \<Rightarrow> (ustring \<Rightarrow> bool) \<Rightarrow> ustring \<Rightarrow> (bytes \<times> (string \<times> json) list) res" where
  "load_preserved_backup H fs is_file path =
     (if \<not> is_file path then Inl (ProtocolErrorText (us ''preserved backup does not exist: '' @ path))
      else res_bind (validate_backup_archive_path path) (\<lambda>_.
        case open_zip fs path of
          None \<Rightarrow> Inl (ProtocolError ''preserved backup ZIP is unreadable or corrupt'')
        | Some items \<Rightarrow>
            res_bind (read_preserved_members items) (\<lambda>(data, manifest_bytes).
            if length data \<noteq> FLASH_SIZE then Inl (ProtocolError ''preserved backup image is not exactly 8 MiB'')
            else (case json_loads fs manifest_bytes of
                None \<Rightarrow> Inl (ProtocolError ''preserved backup manifest is unreadable'')
              | Some manifest \<Rightarrow>
                  res_bind (validate_preserved_manifest H data manifest) (\<lambda>_. Inr (data, hashes H data))))))"

definition validate_preserved_backup ::
    "hash_functions \<Rightarrow> host_files \<Rightarrow> (ustring \<Rightarrow> bool) \<Rightarrow> ustring \<Rightarrow> (string \<times> json) list res" where
  "validate_preserved_backup H fs is_file path =
     res_bind (load_preserved_backup H fs is_file path) (\<lambda>(_, result). Inr result)"

section \<open>Comparing images\<close>

text \<open>\<open>next(index for index, (a, b) in enumerate(zip(xs, ys)) if a != b)\<close>.\<close>

definition first_unequal :: "bytes \<Rightarrow> bytes \<Rightarrow> nat" where
  "first_unequal xs ys = length (takeWhile (\<lambda>(x, y). x = y) (zip xs ys))"

fun check_ranges :: "bytes \<Rightarrow> bytes \<Rightarrow> (nat \<times> nat) list \<Rightarrow> unit res" where
  "check_ranges replacement preserved [] = Inr ()"
| "check_ranges replacement preserved ((start, stop) # ranges) =
     (let candidate = pslice replacement start stop; original = pslice preserved start stop
      in if candidate = original then check_ranges replacement preserved ranges
         else Inl (ProtocolErrorText (us ''replacement image differs from the preserved backup outside '' @
           us ''hardware-recovery'' @ [0x27] @ us ''s audited patch/config regions at 0x'' @
           us (hex_padded 6 (start + first_unequal candidate original)) @
           us ''; refusing a possible wrong-unit or unsupported image'')))"

definition validate_replacement_against_backup :: "bytes \<Rightarrow> bytes \<Rightarrow> unit res" where
  "validate_replacement_against_backup replacement preserved =
     (if length replacement \<noteq> FLASH_SIZE \<or> length preserved \<noteq> FLASH_SIZE
      then Inl (ProtocolError ''replacement and preserved backup must both be exactly 8 MiB'')
      else check_ranges replacement preserved
        [(0, HARDWARE_RECOVERY_PATCH_START), (HARDWARE_RECOVERY_PATCH_END, HARDWARE_RECOVERY_CONFIG_START)])"

definition validate_post_restore_readback :: "bytes \<Rightarrow> bytes \<Rightarrow> bool res" where
  "validate_post_restore_readback expected actual =
     (if length expected \<noteq> FLASH_SIZE \<or> length actual \<noteq> FLASH_SIZE
      then Inl (ProtocolError ''expected image and post-write readback must both be exactly 8 MiB'')
      else
        let wanted = take HARDWARE_RECOVERY_CONFIG_START expected; observed = take HARDWARE_RECOVERY_CONFIG_START actual
        in if wanted \<noteq> observed
           then Inl (ProtocolErrorText (us ''post-write flash readback differs from the replacement image in '' @
             us ''a boot-stable region at 0x'' @ us (hex_padded 6 (first_unequal wanted observed))))
           else Inr (drop HARDWARE_RECOVERY_CONFIG_START expected = drop HARDWARE_RECOVERY_CONFIG_START actual))"

end
