(* ===== verification/Adb_Props.thy ===== *)
theory Adb_Props
  imports Adb_Backup
begin

text \<open>
  What the backup functions promise: a partition map is accepted only when it is the expected one, the
  restore side accepts only archives that the image builder accepts as well, a saved acquisition can
  be loaded, publication is atomic, and the comparisons reject exactly a difference outside the
  regions that may change.
\<close>

section \<open>Partition maps\<close>

lemma json_eq_int: "json_eq v (JInt i) \<longleftrightarrow> json_number v = Some (of_int i)"
  by (auto simp: json_eq_def split: option.splits)

definition partition_as_expected :: "recorded_partition \<Rightarrow> int \<times> int \<times> string \<Rightarrow> bool" where
  "partition_as_expected part expected \<longleftrightarrow>
     (case expected of (index, sz, name) \<Rightarrow> json_eq (rp_index part) (JInt index) \<and> json_eq (rp_size part) (JInt sz) \<and>
        (\<exists>s. rp_name part = JStr s \<and> casefold s = us name))"

lemma check_names_Inr:
  "check_partition_names parts = Inr () \<longleftrightarrow> list_all (\<lambda>(part, name). \<exists>s. rp_name part = JStr s \<and> casefold s = us name) parts"
  by (induction parts rule: check_partition_names.induct) (auto split: json.splits)

lemma validate_partition_map_Inr:
  "validate_partition_map parts = Inr () \<longleftrightarrow> list_all2 partition_as_expected parts EXPECTED_USB_PARTITIONS"
proof (cases "length parts = 6")
  case True
  then obtain a b c d e f where parts: "parts = [a, b, c, d, e, f]"
    by (auto simp: numeral_eq_Suc length_Suc_conv)
  have upt: "[0..<6] = [0, 1, 2, 3, 4, 5 :: nat]" by (simp add: upt_rec)
  have "validate_partition_map parts = Inr () \<longleftrightarrow>
      list_all2 (\<lambda>part i. json_eq (rp_index part) (JInt (int i))) parts [0..<length parts] \<and>
      list_all2 (\<lambda>part (_, sz). json_eq (rp_size part) (JInt (int sz))) parts EXPECTED_PARTITIONS \<and>
      check_partition_names (zip parts (map fst EXPECTED_PARTITIONS)) = Inr () \<and>
      sum_list (map (the \<circ> json_number \<circ> rp_size) parts) = of_nat FLASH_SIZE"
    by (auto simp: validate_partition_map_def split: list.splits)
  then show ?thesis
    unfolding parts check_names_Inr
    by (auto simp: EXPECTED_PARTITIONS_def EXPECTED_USB_PARTITIONS_def upt partition_as_expected_def json_eq_int FLASH_SIZE_def)
next
  case False
  have "\<not> list_all2 P parts EXPECTED_PARTITIONS" for P :: "recorded_partition \<Rightarrow> _ \<Rightarrow> bool"
    using False by (auto dest: list_all2_lengthD simp: EXPECTED_PARTITIONS_def)
  moreover have "\<not> list_all2 P parts EXPECTED_USB_PARTITIONS" for P :: "recorded_partition \<Rightarrow> _ \<Rightarrow> bool"
    using False by (auto dest: list_all2_lengthD simp: EXPECTED_USB_PARTITIONS_def)
  ultimately show ?thesis by (auto simp: validate_partition_map_def split: list.splits)
qed

section \<open>Loading\<close>

lemma read_preserved_members_genuine:
  "read_preserved_members items = Inr (img, manifest_bytes) \<longleftrightarrow> genuine_archive items img manifest_bytes"
  by (auto simp: read_preserved_members_def Let_def genuine_archive_def BACKUP_ARCHIVE_MEMBERS_def BACKUP_IMAGE_MEMBER_def
      BACKUP_MANIFEST_MEMBER_def MAX_MANIFEST_SIZE_def split: option.splits)

lemma bootloader_reference_Inr:
  "bootloader_reference H img = Inr boot \<longleftrightarrow> length img = FLASH_SIZE \<and> boot = expected_bootloader H img"
  by (auto simp: bootloader_reference_def expected_bootloader_def EXPECTED_PARTITIONS_def Let_def pslice_def)

lemma known_entry: "map_of (expected_bootloader H img) ''known_reference'' = Some (JBool (known_reference H img))"
  by (simp add: expected_bootloader_def known_reference_def Let_def)

lemma hashes_image_hashes: "hashes = image_hashes"
  by (simp add: fun_eq_iff hashes_def image_hashes_def)

lemma validate_preserved_Inr:
  "validate_preserved_manifest H img manifest = Inr () \<longleftrightarrow>
     (\<exists>m items parts. manifest = JObject m \<and> length img = FLASH_SIZE \<and> read_evidence H m img \<and>
        json_get m ''partitions'' = JList items \<and> res_map recorded_of items = Inr parts \<and> validate_partition_map parts = Inr ())"
proof -
  have three: "json_int_within v 3 3 \<longleftrightarrow> v = JInt 3" for v by (cases v) auto
  have acceptance: "json_get boot ''acceptance'' = expected_acceptance H img \<longleftrightarrow>
      (known_reference H img \<longrightarrow> json_get boot ''acceptance'' = JStr (us ''known-reference'')) \<and>
      (\<not> known_reference H img \<longrightarrow> json_get boot ''acceptance'' = JStr (us ''explicit-hash''))" for boot
    by (simp add: expected_acceptance_def)
  show ?thesis
  proof (cases manifest)
    case (JObject m)
    show ?thesis
    proof (cases "json_get m ''bootloader''")
      case boot: (JObject b)
      show ?thesis
        unfolding JObject validate_preserved_manifest_def read_evidence_def acceptance hashes_image_hashes boot
        by (cases "json_get m ''partitions''")
          (auto simp: boot bootloader_reference_Inr known_entry three REQUIRED_IDENTICAL_READS_def MAX_READ_ATTEMPTS_def
            MIN_IDENTICAL_READS_def MAX_USB_READ_ATTEMPTS_def USB_BACKUP_FORMAT_def)
    qed (auto simp: JObject validate_preserved_manifest_def read_evidence_def bootloader_reference_Inr)
  qed (simp_all add: validate_preserved_manifest_def)
qed

lemma recorded_entry:
  assumes "recorded_of item = Inr part"
  shows "partition_entry_ok item e \<longleftrightarrow> partition_as_expected part e"
proof -
  obtain obj where "item = JObject obj" "part = \<lparr>rp_index = json_get obj ''index'', rp_size = json_get obj ''size'',
      rp_erase_size = json_get obj ''erase_size'', rp_name = json_get obj ''name''\<rparr>"
    using assms by (auto simp: recorded_of_def split: json.splits if_splits)
  then show ?thesis
    by (cases e; cases "json_get obj ''name''") (auto simp: partition_as_expected_def partition_entry_ok_def)
qed

lemma recorded_partitions:
  assumes "res_map recorded_of items = Inr parts"
  shows "validate_partition_map parts = Inr () \<longleftrightarrow> partitions_ok (JList items)"
proof -
  have rel: "list_all2 (\<lambda>item part. recorded_of item = Inr part) items parts" using assms by (simp add: res_map_Inr)
  have "list_all2 partition_entry_ok items es \<longleftrightarrow> list_all2 partition_as_expected parts es" for es
    using rel by (induction items parts arbitrary: es rule: list_all2_induct) (auto simp: list_all2_Cons1 recorded_entry)
  moreover have "list_all2 P items EXPECTED_USB_PARTITIONS \<Longrightarrow> length items = length EXPECTED_USB_PARTITIONS" for P
    by (rule list_all2_lengthD)
  ultimately show ?thesis by (auto simp: partitions_ok_def validate_partition_map_Inr)
qed

lemma load_Inr:
  "load_preserved_backup H fs is_file path = Inr (img, result) \<longleftrightarrow>
     is_file path \<and> casefold (path_suffix path) = us ''.zip'' \<and> result = hashes H img \<and> length img = FLASH_SIZE \<and>
     (\<exists>archive manifest_bytes m entries parts.
        open_zip fs path = Some archive \<and> genuine_archive archive img manifest_bytes \<and>
        json_loads fs manifest_bytes = Some (JObject m) \<and> read_evidence H m img \<and>
        json_get m ''partitions'' = JList entries \<and> partitions_ok (JList entries) \<and> res_map recorded_of entries = Inr parts)"
  (is "?L \<longleftrightarrow> ?R")
proof
  assume ?L
  then obtain archive manifest_bytes manifest where r: "is_file path" "casefold (path_suffix path) = us ''.zip''"
    "open_zip fs path = Some archive" "genuine_archive archive img manifest_bytes" "length img = FLASH_SIZE"
    "json_loads fs manifest_bytes = Some manifest" "validate_preserved_manifest H img manifest = Inr ()" "result = hashes H img"
    by (auto simp: load_preserved_backup_def validate_backup_archive_path_def read_preserved_members_genuine
        split: if_splits option.splits)
  from r(7) obtain m items parts where "manifest = JObject m" "read_evidence H m img" "json_get m ''partitions'' = JList items"
    "res_map recorded_of items = Inr parts" "validate_partition_map parts = Inr ()"
    unfolding validate_preserved_Inr by blast
  with r recorded_partitions show ?R by blast
next
  assume ?R
  then obtain archive manifest_bytes m entries parts where r: "is_file path" "casefold (path_suffix path) = us ''.zip''"
    "result = hashes H img" "length img = FLASH_SIZE" "open_zip fs path = Some archive"
    "read_preserved_members archive = Inr (img, manifest_bytes)" "json_loads fs manifest_bytes = Some (JObject m)"
    and "read_evidence H m img" "json_get m ''partitions'' = JList entries" "partitions_ok (JList entries)"
      "res_map recorded_of entries = Inr parts"
    unfolding read_preserved_members_genuine by blast
  then have "validate_preserved_manifest H img (JObject m) = Inr ()"
    unfolding validate_preserved_Inr using recorded_partitions by blast
  then show ?L using r by (simp add: load_preserved_backup_def validate_backup_archive_path_def)
qed

text \<open>C13: the restore side and the image builder agree on what a backup is. A file loads as a preserved
  backup exactly when it is a \<open>.zip\<close> that the image builder reads as the same 8 MiB image with the evidence
  of three identical reads, and every entry of its partition map has exactly the four fields of a
  partition; the hashes returned are those of the image.\<close>

theorem preserved_backup_is_an_image_source:
  "load_preserved_backup H fs is_file path = Inr (img, result) \<longleftrightarrow>
     is_file path \<and> casefold (path_suffix path) = us ''.zip'' \<and> result = hashes H img \<and>
     (\<exists>archive manifest_bytes m entries parts info.
        read_image_source H fs path = Inr (img, info) \<and> si_evidenced info = 3 \<and>
        open_zip fs path = Some archive \<and> genuine_archive archive img manifest_bytes \<and>
        json_loads fs manifest_bytes = Some (JObject m) \<and>
        json_get m ''partitions'' = JList entries \<and> res_map recorded_of entries = Inr parts)"
  (is "?L \<longleftrightarrow> ?R")
proof
  assume ?L
  then obtain archive manifest_bytes m entries parts where r: "is_file path" "casefold (path_suffix path) = us ''.zip''"
    "result = hashes H img" "length img = FLASH_SIZE" "open_zip fs path = Some archive"
    "genuine_archive archive img manifest_bytes" "json_loads fs manifest_bytes = Some (JObject m)" "read_evidence H m img"
    "json_get m ''partitions'' = JList entries" "partitions_ok (JList entries)" "res_map recorded_of entries = Inr parts"
    unfolding load_Inr by blast
  obtain passes where passes: "json_get m ''read_passes'' = JInt passes"
    using r(8) by (auto simp: read_evidence_def json_int_within_Ex)
  then have "read_image_source H fs path = Inr (img, usb_source_info H img passes)"
    unfolding read_zip_source_Inr [OF r(2)] using r by fastforce
  moreover have "si_evidenced (usb_source_info H img passes) = 3" by (simp add: usb_source_info_def)
  ultimately show ?R using r by blast
next
  assume ?R
  then obtain archive manifest_bytes m entries parts info where r: "is_file path" "casefold (path_suffix path) = us ''.zip''"
    "result = hashes H img" "open_zip fs path = Some archive"
    "genuine_archive archive img manifest_bytes" "json_loads fs manifest_bytes = Some (JObject m)"
    "json_get m ''partitions'' = JList entries" "res_map recorded_of entries = Inr parts"
    and src: "read_image_source H fs path = Inr (img, info)"
    by blast
  from src obtain items manifest_bytes' m' where s: "open_zip fs path = Some items" "genuine_archive items img manifest_bytes'"
    "length img = FLASH_SIZE" "json_loads fs manifest_bytes' = Some (JObject m')" "read_evidence H m' img"
    "partitions_ok (json_get m' ''partitions'')"
    unfolding read_zip_source_Inr [OF r(2)] by blast
  have "manifest_bytes' = manifest_bytes" using r(4,5) s(1,2) by (auto simp: genuine_archive_def)
  then have "m' = m" using r(6) s(4) by simp
  with r s show ?L unfolding load_Inr by auto
qed

section \<open>Publishing\<close>

lemma save_backup_cases:
  "case save_backup sv others path img manifest shelf of
     (Inl e, shelf') \<Rightarrow> shelf' = shelf \<or> shelf' = others shelf
   | (Inr published, shelf') \<Rightarrow>
       \<exists>items manifest_bytes. published = path \<and> casefold (path_suffix path) = us ''.zip'' \<and> length img = FLASH_SIZE \<and>
         path \<notin> dom shelf \<and> path \<notin> dom (others shelf) \<and> shelf' = (others shelf)(path \<mapsto> items) \<and>
         encode_utf8 (sv_json_dumps sv (JObject manifest) @ [10]) = Inr manifest_bytes \<and>
         sv_zip_write sv [(''flash.bin'', img), (''manifest.json'', manifest_bytes)] = Inr items \<and>
         length items = 2 \<and> zi_filename ` set items = {us ''flash.bin'', us ''manifest.json''} \<and>
         list_all (\<lambda>i. zi_data i \<noteq> None) items"
proof (cases "res_bind (sv_mkdir sv) (\<lambda>_.
      res_bind (encode_utf8 (sv_json_dumps sv (JObject manifest) @ [10])) (\<lambda>manifest_bytes.
      res_bind (sv_mktemp sv) (\<lambda>_.
      res_bind (sv_zip_write sv [(BACKUP_IMAGE_MEMBER, img), (BACKUP_MANIFEST_MEMBER, manifest_bytes)]) (\<lambda>items.
      res_bind (check_written_archive items) (\<lambda>_. Inr items)))))")
  case (Inl e)
  then show ?thesis by (simp add: save_backup_def split: sum.split)
next
  case (Inr items)
  then obtain manifest_bytes where r: "encode_utf8 (sv_json_dumps sv (JObject manifest) @ [10]) = Inr manifest_bytes"
    "sv_zip_write sv [(''flash.bin'', img), (''manifest.json'', manifest_bytes)] = Inr items"
    "length items = 2" "zi_filename ` set items = {us ''flash.bin'', us ''manifest.json''}" "list_all (\<lambda>i. zi_data i \<noteq> None) items"
    by (auto simp: BACKUP_IMAGE_MEMBER_def BACKUP_MANIFEST_MEMBER_def BACKUP_ARCHIVE_MEMBERS_def check_written_archive_def
        Let_def list_all_iff split: if_splits)
  show ?thesis
    unfolding save_backup_def Inr validate_backup_archive_path_def using r by (auto split: option.split)
qed

lemma save_backup_Inr:
  assumes "save_backup sv others path img manifest shelf = (Inr published, shelf')"
  shows "\<exists>items manifest_bytes. casefold (path_suffix path) = us ''.zip'' \<and> length img = FLASH_SIZE \<and>
    shelf' = (others shelf)(path \<mapsto> items) \<and> encode_utf8 (sv_json_dumps sv (JObject manifest) @ [10]) = Inr manifest_bytes \<and>
    sv_zip_write sv [(''flash.bin'', img), (''manifest.json'', manifest_bytes)] = Inr items"
  using save_backup_cases [where sv = sv and others = others and path = path and img = img and manifest = manifest and shelf = shelf] unfolding assms prod.case sum.case by blast

text \<open>C12: \<open>save_backup\<close> is all or nothing. When it fails, no archive is published: the shelf is what it was,
  apart from what other processes did. When it succeeds, the path ends in \<open>.zip\<close>, the image is 8 MiB,
  the path was free both at the first check and at the link, and now names a complete archive of the
  two members whose data has been read back; nothing else changed.\<close>

theorem save_backup_all_or_nothing:
  "case save_backup sv others path img manifest shelf of
     (Inl e, shelf') \<Rightarrow> shelf' = shelf \<or> shelf' = others shelf
   | (Inr published, shelf') \<Rightarrow>
       \<exists>items manifest_bytes. published = path \<and> casefold (path_suffix path) = us ''.zip'' \<and> length img = FLASH_SIZE \<and>
         path \<notin> dom shelf \<and> path \<notin> dom (others shelf) \<and> shelf' = (others shelf)(path \<mapsto> items) \<and>
         encode_utf8 (sv_json_dumps sv (JObject manifest) @ [10]) = Inr manifest_bytes \<and>
         sv_zip_write sv [(''flash.bin'', img), (''manifest.json'', manifest_bytes)] = Inr items \<and>
         length items = 2 \<and> zi_filename ` set items = {us ''flash.bin'', us ''manifest.json''} \<and>
         list_all (\<lambda>i. zi_data i \<noteq> None) items"
  by (rule save_backup_cases)

section \<open>Comparing images\<close>

lemma first_unequal_spec:
  assumes "length xs = length ys" "xs \<noteq> ys"
  shows "first_unequal xs ys < length xs" "xs ! first_unequal xs ys \<noteq> ys ! first_unequal xs ys"
    "i < first_unequal xs ys \<Longrightarrow> xs ! i = ys ! i"
proof -
  let ?p = "\<lambda>(x, y). x = y" and ?z = "zip xs ys"
  have ne: "takeWhile ?p ?z \<noteq> ?z"
  proof
    assume "takeWhile ?p ?z = ?z"
    then have "list_all ?p ?z" by (metis list_all_iff set_takeWhileD)
    with assms show False by (auto simp: list_all_length list_eq_iff_nth_eq)
  qed
  then have lt: "first_unequal xs ys < length ?z"
    unfolding first_unequal_def by (metis length_takeWhile_le le_neq_implies_less takeWhile_eq_take take_all_iff order_refl)
  then show "first_unequal xs ys < length xs" by simp
  have "\<not> ?p (?z ! first_unequal xs ys)"
    using nth_length_takeWhile [of ?p ?z] lt by (simp add: first_unequal_def)
  then show "xs ! first_unequal xs ys \<noteq> ys ! first_unequal xs ys" using lt by simp
  show "xs ! i = ys ! i" if "i < first_unequal xs ys"
  proof -
    have "takeWhile ?p ?z ! i \<in> set (takeWhile ?p ?z)" using that by (simp add: first_unequal_def)
    then have "?p (takeWhile ?p ?z ! i)" by (rule set_takeWhileD [THEN conjunct2])
    then show ?thesis using that lt by (simp add: first_unequal_def takeWhile_nth)
  qed
qed

text \<open>The text that names an offset.\<close>

definition wrong_unit_error :: "nat \<Rightarrow> exn" where
  "wrong_unit_error offset = ProtocolErrorText (us ''replacement image differs from the preserved backup outside '' @
     us ''hardware-recovery'' @ [0x27] @ us ''s audited patch/config regions at 0x'' @ us (hex_padded 6 offset) @
     us ''; refusing a possible wrong-unit or unsupported image'')"

definition may_be_replaced :: "nat \<Rightarrow> bool" where
  "may_be_replaced i \<longleftrightarrow> (0x463000 \<le> i \<and> i < 0x46B000) \<or> 0x7E0000 \<le> i"

lemma unequal_slice:
  assumes "length xs = length ys" "e \<le> length xs" "pslice xs s e \<noteq> pslice ys s e"
  shows "\<exists>off. s + first_unequal (pslice xs s e) (pslice ys s e) = off \<and> s \<le> off \<and> off < e \<and> xs ! off \<noteq> ys ! off \<and>
    (\<forall>i. s \<le> i \<and> i < off \<longrightarrow> xs ! i = ys ! i)"
proof -
  let ?k = "first_unequal (pslice xs s e) (pslice ys s e)"
  have len: "length (pslice xs s e) = length (pslice ys s e)" using assms(1) by simp
  note f = first_unequal_spec [OF len assms(3)]
  have k: "?k < e - s" using f(1) by simp
  have at: "pslice xs s e ! i = xs ! (s + i)" "pslice ys s e ! i = ys ! (s + i)" if "i < e - s" for i
    using that assms by (simp_all add: nth_pslice)
  have "xs ! i = ys ! i" if "s \<le> i" "i < s + ?k" for i
    using f(3) [of "i - s"] at [of "i - s"] that k by simp
  with f(2) at [OF k] k show ?thesis by auto
qed

text \<open>C14: \<open>validate_replacement_against_backup\<close> accepts two 8 MiB images exactly when they agree at every
  position outside the patch window and the config partition; otherwise the error names the first
  position where they differ there.\<close>

theorem replacement_accepted_iff:
  "case validate_replacement_against_backup replacement preserved of
     Inr _ \<Rightarrow> length replacement = FLASH_SIZE \<and> length preserved = FLASH_SIZE \<and>
       (\<forall>i. i < FLASH_SIZE \<and> \<not> may_be_replaced i \<longrightarrow> replacement ! i = preserved ! i)
   | Inl e \<Rightarrow> length replacement \<noteq> FLASH_SIZE \<or> length preserved \<noteq> FLASH_SIZE \<or>
       (\<exists>offset < FLASH_SIZE. e = wrong_unit_error offset \<and> \<not> may_be_replaced offset \<and>
          replacement ! offset \<noteq> preserved ! offset \<and>
          (\<forall>i < offset. \<not> may_be_replaced i \<longrightarrow> replacement ! i = preserved ! i))"
proof (cases "length replacement = FLASH_SIZE \<and> length preserved = FLASH_SIZE")
  case False
  then show ?thesis by (auto simp: validate_replacement_against_backup_def)
next
  case True
  then have len: "length replacement = 0x800000" "length preserved = 0x800000" by (simp_all add: FLASH_SIZE_def)
  let ?r = "pslice replacement" and ?p = "pslice preserved"
  have out: "validate_replacement_against_backup replacement preserved =
      (if ?r 0 0x463000 \<noteq> ?p 0 0x463000 then Inl (wrong_unit_error (0 + first_unequal (?r 0 0x463000) (?p 0 0x463000)))
       else if ?r 0x46B000 0x7E0000 \<noteq> ?p 0x46B000 0x7E0000
       then Inl (wrong_unit_error (0x46B000 + first_unequal (?r 0x46B000 0x7E0000) (?p 0x46B000 0x7E0000)))
       else Inr ())"
    using True by (simp add: validate_replacement_against_backup_def wrong_unit_error_def constants Let_def)
  have eq: "?r s e = ?p s e \<longleftrightarrow> (\<forall>i. s \<le> i \<and> i < e \<longrightarrow> replacement ! i = preserved ! i)" if "e \<le> 0x800000" for s e
    using that len by (simp add: pslice_eq_nth)
  have same: "length replacement = length preserved" using len by simp
  show ?thesis
  proof (cases "?r 0 0x463000 = ?p 0 0x463000")
    case False
    obtain off where "0 + first_unequal (?r 0 0x463000) (?p 0 0x463000) = off" "off < 0x463000"
      "replacement ! off \<noteq> preserved ! off" "\<forall>i. 0 \<le> i \<and> i < off \<longrightarrow> replacement ! i = preserved ! i"
      using unequal_slice [OF same _ False] len by auto
    with False True show ?thesis
      unfolding out by (auto simp: may_be_replaced_def FLASH_SIZE_def intro!: exI [of _ off])
  next
    case first: True
    show ?thesis
    proof (cases "?r 0x46B000 0x7E0000 = ?p 0x46B000 0x7E0000")
      case False
      obtain off where off: "0x46B000 + first_unequal (?r 0x46B000 0x7E0000) (?p 0x46B000 0x7E0000) = off" "0x46B000 \<le> off" "off < 0x7E0000"
        "replacement ! off \<noteq> preserved ! off" "\<forall>i. 0x46B000 \<le> i \<and> i < off \<longrightarrow> replacement ! i = preserved ! i"
        using unequal_slice [OF same _ False] len by auto
      have "replacement ! i = preserved ! i" if "i < off" "\<not> may_be_replaced i" for i
      proof (cases "i < 0x463000")
        case True
        then show ?thesis using first eq [of "0x463000" 0] by simp
      next
        case False
        then show ?thesis using off(5) that by (simp add: may_be_replaced_def)
      qed
      with off first False True show ?thesis
        unfolding out by (auto simp: may_be_replaced_def FLASH_SIZE_def intro!: exI [of _ off])
    next
      case second: True
      have "replacement ! i = preserved ! i" if "\<not> may_be_replaced i" for i
        using that first second eq [of "0x463000" 0] eq [of "0x7E0000" "0x46B000"] by (auto simp: may_be_replaced_def not_less not_le)
      with first second True show ?thesis unfolding out by simp
    qed
  qed
qed

theorem replacement_accepted_iff_witness:
  "\<exists>offset. validate_replacement_against_backup ((replicate 0x800000 0)[5 := 1]) (replicate 0x800000 0) =
     Inl (wrong_unit_error offset) \<and> offset \<le> 5"
proof -
  let ?r = "(replicate 0x800000 0)[5 := 1 :: byte]" and ?p = "replicate 0x800000 (0 :: byte)"
  have five: "?r ! 5 \<noteq> ?p ! 5" "\<not> may_be_replaced 5" "length ?r = FLASH_SIZE" "length ?p = FLASH_SIZE"
    by (simp_all add: may_be_replaced_def FLASH_SIZE_def)
  note c = replacement_accepted_iff [of ?r ?p]
  show ?thesis
  proof (cases "validate_replacement_against_backup ?r ?p")
    case (Inr u)
    then have "\<forall>i. i < FLASH_SIZE \<and> \<not> may_be_replaced i \<longrightarrow> ?r ! i = ?p ! i" using c unfolding Inr sum.case by blast
    moreover have "5 < FLASH_SIZE" by (simp add: FLASH_SIZE_def)
    ultimately show ?thesis using five(1,2) by blast
  next
    case (Inl e)
    obtain offset where off: "e = wrong_unit_error offset" "\<forall>i < offset. \<not> may_be_replaced i \<longrightarrow> ?r ! i = ?p ! i"
      using c five(3,4) unfolding Inl sum.case by blast
    have "\<not> 5 < offset" using off(2) five(1,2) by blast
    with Inl off(1) show ?thesis by auto
  qed
qed

text \<open>\<open>validate_post_restore_readback\<close> accepts a readback exactly when both images are 8 MiB and agree below
  the config partition, and then says whether config is exact too.\<close>

lemma post_restore_readback_Inr:
  "validate_post_restore_readback expected actual = Inr config_exact \<longleftrightarrow>
     length expected = FLASH_SIZE \<and> length actual = FLASH_SIZE \<and>
     take 0x7E0000 expected = take 0x7E0000 actual \<and> (config_exact \<longleftrightarrow> expected = actual)"
proof -
  have "expected = actual \<longleftrightarrow> take 0x7E0000 expected = take 0x7E0000 actual \<and> drop 0x7E0000 expected = drop 0x7E0000 actual"
    by (metis append_take_drop_id)
  then show ?thesis by (auto simp: validate_post_restore_readback_def constants Let_def)
qed

section \<open>From the camera to the restore\<close>

text \<open>What \<open>json.loads\<close> returns for the text of \<open>json.dumps(value, sort_keys=True)\<close>.\<close>

fun sorted_json :: "json \<Rightarrow> json" where
  "sorted_json (JList vs) = JList (map sorted_json vs)"
| "sorted_json (JObject kvs) = JObject (sort_key fst (map (\<lambda>(k, v). (k, sorted_json v)) kvs))"
| "sorted_json v = v"

text \<open>The manifest with the acceptance that \<open>backup\<close> adds to its bootloader entry.\<close>

definition accepted_manifest :: "(ustring \<times> json) list \<Rightarrow> string \<Rightarrow> (ustring \<times> json) list" where
  "accepted_manifest manifest acceptance =
     map (\<lambda>(k, v). (k, case v of JObject boot \<Rightarrow> if k = us ''bootloader'' then JObject (boot @ [(us ''acceptance'', JStr (us acceptance))]) else v
       | _ \<Rightarrow> v)) manifest"

lemma map_of_sort_key:
  assumes "distinct (map fst xs)"
  shows "map_of (sort_key fst xs) = map_of xs"
proof -
  have "distinct (map fst (sort_key fst xs))" using assms by (simp add: distinct_map_sort_key)
  with assms show ?thesis by (subst map_of_inject_set) simp_all
qed

lemma map_of_map_snd: "map_of (map (\<lambda>(k, v). (k, f v)) xs) k = map_option f (map_of xs k)"
  by (induction xs) auto

lemma sorted_json_get:
  assumes "distinct (map fst kvs)" "sorted_json (JObject kvs) = JObject kvs'"
  shows "json_get kvs' key = sorted_json (json_get kvs key)"
proof -
  have "map fst (map (\<lambda>(k, v). (k, sorted_json v)) kvs) = map fst kvs" by auto
  then have "distinct (map fst (map (\<lambda>(k, v). (k, sorted_json v)) kvs))" using assms(1) by (simp only:)
  from map_of_sort_key [OF this] assms(2) show ?thesis
    by (auto simp: json_get_def map_of_map_snd split: option.split)
qed

lemma us_eq_iff [simp]: "us a = us b \<longleftrightarrow> a = b"
proof -
  have "inj (of_char :: char \<Rightarrow> nat)" by (rule inj_of_char)
  then show ?thesis by (simp add: us_def inj_map_eq_map)
qed

lemma json_get_keyed: "json_get (keyed entries) key = (case map_of entries key of None \<Rightarrow> JNull | Some v \<Rightarrow> v)"
proof -
  have "map_of (keyed entries) (us key) = map_of entries key"
    unfolding keyed_def by (induction entries) auto
  then show ?thesis by (simp add: json_get_def)
qed

lemma keyed_distinct: "distinct (map fst entries) \<Longrightarrow> distinct (map fst (keyed entries))"
proof -
  have "map fst (keyed entries) = map us (map fst entries)" by (auto simp: keyed_def)
  moreover have "inj us" by (simp add: inj_def)
  ultimately show "distinct (map fst entries) \<Longrightarrow> distinct (map fst (keyed entries))"
    by (simp only: distinct_map) (meson inj_on_subset subset_UNIV)
qed

text \<open>Reading a key of a sorted object.\<close>

lemma sorted_get:
  assumes "distinct (map fst entries)" "sorted_json (JObject (keyed entries)) = JObject m"
  shows "json_get m key = sorted_json (case map_of entries key of None \<Rightarrow> JNull | Some v \<Rightarrow> v)"
  using sorted_json_get [OF keyed_distinct [OF assms(1)] assms(2)] by (simp add: json_get_keyed)

definition manifest_entries ::
    "hash_functions \<Rightarrow> adb_client \<Rightarrow> ustring \<Rightarrow> mtd_partition list \<Rightarrow> ustring \<Rightarrow> bytes \<Rightarrow> nat \<Rightarrow> (string \<times> json) list \<Rightarrow> (string \<times> json) list" where
  "manifest_entries H cl identity parts created_utc img attempts boot =
     [(''format'', JStr (us ''cc2flash-backup-v2'')), (''created_utc'', JStr created_utc),
       (''adb_serial'', (case serial cl of None \<Rightarrow> JNull | Some s \<Rightarrow> JStr s)),
       (''device_identity'', JStr identity), (''read_passes'', JInt (int attempts)),
       (''required_identical_reads'', JInt 3), (''consecutive_identical_reads'', JInt 3),
       (''maximum_read_attempts'', JInt 5), (''bootloader'', JObject (keyed boot))] @
      hashes H img @ [(''partitions'', JList (map partition_json parts))]"

lemma accepted_manifest_entries:
  "accepted_manifest (backup_manifest H cl identity parts created_utc img attempts 3 boot) acceptance =
     keyed (manifest_entries H cl identity parts created_utc img attempts (boot @ [(''acceptance'', JStr (us acceptance))]))"
  by (simp add: backup_manifest_def accepted_manifest_def manifest_entries_def keyed_def hashes_def
      REQUIRED_IDENTICAL_READS_def MAX_READ_ATTEMPTS_def split: option.split)

lemma recorded_partition_json: "recorded_of (sorted_json (partition_json part)) = Inr (recorded part)"
proof -
  define entries where "entries = [(''index'', JInt (int (mp_index part))), (''size'', JInt (int (mp_size part))),
      (''erase_size'', JInt (int (mp_erase_size part))), (''name'', JStr (mp_name part))]"
  obtain m where m: "sorted_json (JObject (keyed entries)) = JObject m" by simp
  have d: "distinct (map fst entries)" by (simp add: entries_def)
  have "fst ` set m = fst ` set (keyed entries)"
    using m by (force simp: image_iff)
  then have keys: "fst ` set m = {us ''index'', us ''size'', us ''erase_size'', us ''name''}"
    by (auto simp: keyed_def entries_def)
  show ?thesis
    using m unfolding partition_json_def entries_def [symmetric]
    by (simp only: recorded_of_def json.case keys simp_thms if_True sorted_get [OF d m])
      (simp add: entries_def recorded_def)
qed

lemma saved_evidence:
  assumes "length img = FLASH_SIZE" "3 \<le> attempts" "attempts \<le> 5"
    and "bootloader_reference H img = Inr boot"
    and "sorted_json (JObject (keyed (manifest_entries H cl identity parts created_utc img attempts
      (boot @ [(''acceptance'', JStr (us (if known_reference H img then ''known-reference'' else ''explicit-hash'')))])))) = JObject m"
  shows "read_evidence H m img" "json_get m ''partitions'' = JList (map (sorted_json \<circ> partition_json) parts)"
proof -
  define acc where "acc = (if known_reference H img then ''known-reference'' else ''explicit-hash'')"
  define bl where "bl = boot @ [(''acceptance'', JStr (us acc))]"
  define entries where "entries = manifest_entries H cl identity parts created_utc img attempts bl"
  have m: "sorted_json (JObject (keyed entries)) = JObject m" using assms(5) by (simp only: entries_def bl_def acc_def)
  have d: "distinct (map fst entries)" by (simp add: entries_def manifest_entries_def hashes_def)
  note get = sorted_get [OF d m]
  have boot: "boot = expected_bootloader H img" using assms(4) by (simp add: bootloader_reference_Inr)
  have dbl: "distinct (map fst bl)" by (simp add: bl_def boot expected_bootloader_def Let_def)
  obtain b where b: "sorted_json (JObject (keyed bl)) = JObject b" by simp
  note bget = sorted_get [OF dbl b]
  have bentry: "json_get m ''bootloader'' = JObject b"
    using b by (simp add: get entries_def manifest_entries_def)
  have "json_matches b (expected_bootloader H img)"
    by (simp add: json_matches_def bget bl_def boot expected_bootloader_def Let_def json_eq_def)
  moreover have "json_get b ''acceptance'' = expected_acceptance H img"
    by (simp add: bget bl_def boot expected_bootloader_def Let_def expected_acceptance_def acc_def)
  moreover have "json_matches m (image_hashes H img)"
    by (simp add: json_matches_def get entries_def manifest_entries_def hashes_def image_hashes_def json_eq_def)
  ultimately show "read_evidence H m img"
    unfolding read_evidence_def using bentry assms(2,3)
    by (simp add: get entries_def manifest_entries_def hashes_def USB_BACKUP_FORMAT_def MIN_IDENTICAL_READS_def
        MAX_USB_READ_ATTEMPTS_def)
  show "json_get m ''partitions'' = JList (map (sorted_json \<circ> partition_json) parts)"
    by (simp add: get entries_def manifest_entries_def hashes_def)
qed

lemma identity_and_partitions_Inr:
  "identity_and_partitions host cl st = (Inr (identity, parts), st') \<Longrightarrow> validate_partition_map (map recorded parts) = Inr ()"
  by (auto simp: identity_and_partitions_def io_bind_Inr Let_def split: if_splits)

lemma first_settled_length: "first_settled reads \<Longrightarrow> 3 \<le> length reads"
proof -
  assume "first_settled reads"
  then obtain x y z w where "rev reads = x # y # z # w" by (auto simp: first_settled_def settled_def split: list.splits)
  then have "length (rev reads) = length (x # y # z # w)" by (rule arg_cong)
  then show ?thesis by simp
qed

text \<open>From the camera to the restore. An image that \<open>acquire_stable\<close> returns, saved by \<open>save_backup\<close> with
  the acceptance that \<open>backup\<close> adds, loads as a preserved backup with the same bytes and hashes, and the
  image builder reads it with the evidence of three identical reads. This relies on a ZIP writer that
  stores what it is given, and on \<open>json\<close> reading back what it printed, in at most one MiB.\<close>

lemma acquired_backup_loads:
  assumes "acquire_stable H host cl progress st = (Inr (img, manifest), st')"
    and "m = accepted_manifest manifest (if known_reference H img then ''known-reference'' else ''explicit-hash'')"
    and "save_backup sv others path img m shelf = (Inr published, shelf')"
    and "open_zip fs path = shelf' path" "is_file path"
    and "\<And>members items. sv_zip_write sv members = Inr items \<Longrightarrow>
      items = map (\<lambda>(n, d). \<lparr>zi_filename = us n, zi_flag_bits = 0, zi_file_size = length d, zi_data = Some d\<rparr>) members"
    and "\<And>mb. encode_utf8 (sv_json_dumps sv (JObject m) @ [10]) = Inr mb \<Longrightarrow>
      length mb \<le> 1048576 \<and> json_loads fs mb = Some (sorted_json (JObject m))"
  shows "load_preserved_backup H fs is_file path = Inr (img, hashes H img) \<and>
    (\<exists>info. read_image_source H fs path = Inr (img, info) \<and> si_evidenced info = 3)"
proof -
  obtain identity parts st0 reads boot where a: "identity_and_partitions host cl st = (Inr (identity, parts), st0)"
    "first_settled reads" "length reads \<le> 5" "length img = FLASH_SIZE" "bootloader_reference H img = Inr boot"
    "manifest = backup_manifest H cl identity parts (ah_utc_now host (outside st')) img (length reads) 3 boot"
    using assms(1) unfolding acquire_stable_Inr by blast
  let ?acc = "if known_reference H img then ''known-reference'' else ''explicit-hash''"
  let ?entries = "manifest_entries H cl identity parts (ah_utc_now host (outside st')) img (length reads)
    (boot @ [(''acceptance'', JStr (us ?acc))])"
  have m: "m = keyed ?entries" unfolding assms(2) a(6) by (rule accepted_manifest_entries)
  obtain mb where t: "casefold (path_suffix path) = us ''.zip''"
    "encode_utf8 (sv_json_dumps sv (JObject m) @ [10]) = Inr mb"
    "shelf' path = Some [\<lparr>zi_filename = us ''flash.bin'', zi_flag_bits = 0, zi_file_size = length img, zi_data = Some img\<rparr>,
       \<lparr>zi_filename = us ''manifest.json'', zi_flag_bits = 0, zi_file_size = length mb, zi_data = Some mb\<rparr>]"
    using save_backup_Inr [OF assms(3)] assms(6) by fastforce
  obtain m' where m': "sorted_json (JObject m) = JObject m'" by simp
  note ev = saved_evidence [OF a(4) first_settled_length [OF a(2)] a(3,5) m' [unfolded m]]
  define archive where "archive = [\<lparr>zi_filename = us ''flash.bin'', zi_flag_bits = 0, zi_file_size = length img, zi_data = Some img\<rparr>,
       \<lparr>zi_filename = us ''manifest.json'', zi_flag_bits = 0, zi_file_size = length mb, zi_data = Some mb\<rparr>]"
  have opened: "open_zip fs path = Some archive" using assms(4) t(3) by (simp add: archive_def)
  have loads: "length mb \<le> 1048576" "json_loads fs mb = Some (JObject m')" using assms(7) [OF t(2)] m' by simp_all
  have gen: "genuine_archive archive img mb"
    using loads(1) a(4) by (auto simp: genuine_archive_def archive_def zip_entry_def)
  have rec: "res_map recorded_of (map (sorted_json \<circ> partition_json) parts) = Inr (map recorded parts)"
    by (simp add: res_map_Inr list_all2_map1 list_all2_map2 recorded_partition_json list_all2_same)
  have "partitions_ok (JList (map (sorted_json \<circ> partition_json) parts))"
    using identity_and_partitions_Inr [OF a(1)] recorded_partitions [OF rec] by simp
  note ok = opened gen loads(2) ev this rec
  have "load_preserved_backup H fs is_file path = Inr (img, hashes H img)"
    unfolding load_Inr using ok assms(5) t(1) a(4) by blast
  moreover obtain passes where "json_get m' ''read_passes'' = JInt passes"
    using ev(1) by (auto simp: read_evidence_def json_int_within_Ex)
  then have "read_image_source H fs path = Inr (img, usb_source_info H img passes)"
    unfolding read_zip_source_Inr [OF t(1)] using ok a(4) by fastforce
  ultimately show ?thesis by (auto simp: usb_source_info_def)
qed

end
