(* ===== verification/Console.thy ===== *)
theory Console
  imports Adb_Props
begin

text \<open>
  The user's terminal, and the commands the tool shows for copying (\<open>cc2camera/display.py\<close>). Printing,
  the check for a terminal and the reading of a line act on the host's state, and the first and the
  last of them may raise.
\<close>

record 's console =
  co_print :: "'s \<Rightarrow> ustring \<Rightarrow> unit res \<times> 's"
  co_isatty :: "'s \<Rightarrow> bool"
  co_input :: "'s \<Rightarrow> ustring \<Rightarrow> ustring res \<times> 's"

definition say :: "'s console \<Rightarrow> ustring \<Rightarrow> ('s station, unit) io" where
  "say console line st = (case co_print console (outside st) line of (r, d) \<Rightarrow> (r, set_outside st d))"

definition say_lines :: "'s console \<Rightarrow> ustring list \<Rightarrow> ('s station, unit) io" where
  "say_lines console lines = io_each (say console) lines"

definition isatty :: "'s console \<Rightarrow> ('s station, bool) io" where
  "isatty console st = (Inr (co_isatty console (outside st)), st)"

definition ask :: "'s console \<Rightarrow> ustring \<Rightarrow> ('s station, ustring) io" where
  "ask console prompt st = (case co_input console (outside st) prompt of (r, d) \<Rightarrow> (r, set_outside st d))"

section \<open>Quoting\<close>

text \<open>\<open>shlex.quote\<close> and \<open>shlex.join\<close>; \<open>0x27\<close> is a single, \<open>0x22\<close> a double quote.\<close>

definition shell_safe :: "nat \<Rightarrow> bool" where
  "shell_safe c \<longleftrightarrow> (48 \<le> c \<and> c \<le> 57) \<or> (65 \<le> c \<and> c \<le> 90) \<or> (97 \<le> c \<and> c \<le> 122) \<or> c \<in> set (us ''_@%+=:,./-'')"

definition shlex_quote :: "ustring \<Rightarrow> ustring" where
  "shlex_quote s =
     (if s \<noteq> [] \<and> list_all shell_safe s then s
      else [0x27] @ concat (map (\<lambda>c. if c = 0x27 then [0x27, 0x22, 0x27, 0x22, 0x27] else [c]) s) @ [0x27])"

definition shlex_join :: "ustring list \<Rightarrow> ustring" where
  "shlex_join argv = join_with [0x20] (map shlex_quote argv)"

text \<open>\<open>subprocess.list2cmdline\<close>: backslashes are doubled where a double quote follows.\<close>

fun windows_quoted :: "nat \<Rightarrow> ustring \<Rightarrow> ustring" where
  "windows_quoted n [] = replicate n 0x5C"
| "windows_quoted n (c # cs) =
     (if c = 0x5C then windows_quoted (n + 1) cs
      else if c = 0x22 then replicate (2 * n) 0x5C @ [0x5C, 0x22] @ windows_quoted 0 cs
      else replicate n 0x5C @ [c] @ windows_quoted 0 cs)"

definition windows_argument :: "ustring \<Rightarrow> ustring" where
  "windows_argument arg =
     (if arg = [] \<or> 0x20 \<in> set arg \<or> 9 \<in> set arg
      then [0x22] @ windows_quoted 0 arg @ replicate (length (takeWhile (\<lambda>c. c = 0x5C) (rev arg))) 0x5C @ [0x22]
      else windows_quoted 0 arg)"

definition list2cmdline :: "ustring list \<Rightarrow> ustring" where
  "list2cmdline argv = join_with [0x20] (map windows_argument argv)"

section \<open>\<open>invocation\<close>\<close>

text \<open>\<open>sys.executable\<close>, whether the program is frozen, and whether the system is Windows.\<close>

record runtime =
  rt_executable :: ustring
  rt_frozen :: bool
  rt_windows :: bool

definition invocation :: "runtime \<Rightarrow> ustring list \<Rightarrow> ustring" where
  "invocation rt arguments =
     (let prefix = (if rt_frozen rt then [rt_executable rt] else [rt_executable rt, us ''-m'', us ''cc2camera'']);
          argv = prefix @ arguments
      in if rt_windows rt then list2cmdline argv else shlex_join argv)"

text \<open>The shell reads back what was quoted: \<open>sh_words\<close> splits a command line the way a POSIX shell does, as far as
  quoting is concerned; \<open>None\<close> is an unclosed quote.\<close>

fun sh_word :: "nat option \<Rightarrow> ustring \<Rightarrow> ustring \<Rightarrow> (ustring \<times> ustring) option" where
  "sh_word None acc [] = Some (rev acc, [])"
| "sh_word (Some q) acc [] = None"
| "sh_word None acc (c # cs) =
     (if c = 0x20 then Some (rev acc, cs)
      else if c = 0x27 \<or> c = 0x22 then sh_word (Some c) acc cs
      else sh_word None (c # acc) cs)"
| "sh_word (Some q) acc (c # cs) = (if c = q then sh_word None acc cs else sh_word (Some q) (c # acc) cs)"

lemma sh_word_plain: "list_all shell_safe s \<Longrightarrow> sh_word None acc (s @ rest) = sh_word None (rev s @ acc) rest"
  by (induction s arbitrary: acc) (auto simp: shell_safe_def us_def)

lemma sh_word_quoted:
  "sh_word (Some 0x27) acc
     (concat (map (\<lambda>c. if c = 0x27 then [0x27, 0x22, 0x27, 0x22, 0x27] else [c]) s) @ [0x27] @ rest) =
   sh_word None (rev s @ acc) rest"
  by (induction s arbitrary: acc) auto

lemma sh_word_quote: "sh_word None acc (shlex_quote s @ rest) = sh_word None (rev s @ acc) rest"
  using sh_word_plain sh_word_quoted [where s = s and acc = acc and rest = rest] by (simp add: shlex_quote_def)

lemma shlex_quote_read: "sh_word None [] (shlex_quote s @ 0x20 # rest) = Some (s, rest)" "sh_word None [] (shlex_quote s) = Some (s, [])"
  using sh_word_quote [where acc = "[]" and s = s and rest = "0x20 # rest"] sh_word_quote [where acc = "[]" and s = s and rest = "[]"]
  by simp_all

fun sh_words :: "nat \<Rightarrow> ustring \<Rightarrow> ustring list option" where
  "sh_words 0 line = Some []"
| "sh_words (Suc n) line =
     (case sh_word None [] line of
        None \<Rightarrow> None
      | Some (w, rest) \<Rightarrow> map_option ((#) w) (sh_words n rest))"

lemma shlex_join_read: "sh_words (length argv) (shlex_join argv) = Some argv"
proof (induction argv)
  case (Cons a argv)
  then show ?case
    by (cases argv) (simp_all add: shlex_join_def shlex_quote_read)
qed simp

end
