(* ===== verification/Restore_Prepare.thy ===== *)
theory Restore_Prepare
  imports Console
begin

text \<open>
  \<open>cc2camera/restore_prepare.py\<close>: the checks on the live camera before a restore, and the one guarded write
  to its RAM. A \<open>rig\<close> is the host of the ADB client together with the HID package, which also lists
  every device.
\<close>

section \<open>Constants\<close>

definition KERNEL_SHA256 :: string where
  "KERNEL_SHA256 = ''0855c3a93f571c3130f1bdd38469e7c806ce713550a3ce536c81167579341545''"
definition POINTER_PHYSICAL :: nat where [constants]: "POINTER_PHYSICAL = 0x0043B190"
definition ERASE_OFFSET :: nat where [constants]: "ERASE_OFFSET = 0x10"
definition SYMBOLS :: "(string \<times> nat) list" where
  "SYMBOLS = [(''recovery_norflash_erase'', 0x801F06CC), (''jz_spi_norflash_erase_sector'', 0x801EFC74),
     (''direct_erase_norflash'', 0x801F080C)]"
definition INSTRUCTIONS :: "(nat \<times> nat) list" where
  "INSTRUCTIONS = [(0x001F06D4, 0x3C138044), (0x001F06E0, 0x8E64B190), (0x001F0764, 0x8C420010), (0x001EFCA4, 0x8E220010)]"

section \<open>The devices\<close>

record hid_item =
  hi_ids :: "nat \<times> nat"          \<comment> \<open>vendor and product\<close>
  hi_product :: "ustring option"
  hi_serial :: "ustring option"

record 's rig =
  rg_host :: "'s adb_host"
  rg_package :: "'s hid_api option"
  rg_list :: "'s \<Rightarrow> hid_item list res \<times> 's"

definition enumerate_hid :: "'s rig \<Rightarrow> ('s station, hid_item list) io" where
  "enumerate_hid rig =
     io_bind (io_lift (hid_module (rg_package rig))) (\<lambda>_ st.
     case rg_list rig (outside st) of (r, d) \<Rightarrow> (r, set_outside st d))"

definition expected_items :: "'s rig \<Rightarrow> ('s station, hid_item list) io" where
  "expected_items rig =
     io_bind (enumerate_hid rig) (\<lambda>items.
     io_return (filter (\<lambda>i. hi_ids i = (NORMAL_VID, NORMAL_PID) \<or> hi_ids i = (BOOT_VID, BOOT_HID_PID)) items))"

section \<open>The checks\<close>

definition validate_preparation_image :: "hash_functions \<Rightarrow> bytes \<Rightarrow> unit res" where
  "validate_preparation_image H img =
     (if length img \<noteq> FLASH_SIZE \<or> sha256 H (pslice img 0x40000 0x190000) \<noteq> KERNEL_SHA256
      then Inl (ProtocolError ''restore preparation requires the exact known stock kernel'')
      else Inr ())"

text \<open>\<open>_word\<close>: one word of memory through \<open>devmem\<close>.\<close>

definition byte_points :: "bytes \<Rightarrow> ustring" where
  "byte_points output = map unat output"

definition devmem_word :: "bytes \<Rightarrow> nat res" where
  "devmem_word output =
     (let digits = byte_points (strip_bytes output)
      in if take 2 digits = us ''0x'' \<and> length digits = 10 \<and> list_all is_hex (drop 2 digits)
         then Inr (number_in 16 (drop 2 digits))
         else Inl (ProtocolError ''invalid devmem readback; no HID trigger was sent''))"

definition read_word :: "'s adb_host \<Rightarrow> adb_client \<Rightarrow> nat \<Rightarrow> ('s station, nat) io" where
  "read_word host cl address =
     io_bind (adb_shell host cl [us ''busybox'', us ''devmem'', us ''0x'' @ hex8 address, us ''32'']) (\<lambda>output.
     io_lift (devmem_word output))"

definition field_address :: "nat \<Rightarrow> nat res" where
  "field_address pointer =
     (if pointer mod 4 \<noteq> 0 \<or> \<not> (0x80450000 \<le> pointer \<and> pointer \<le> 0x84000000 - 0x264)
      then Inl (ProtocolError ''SFC object pointer is outside the supported RAM range'')
      else Inr (pointer - 0x80000000 + ERASE_OFFSET))"

definition single_camera :: "'s rig \<Rightarrow> adb_client \<Rightarrow> ('s station, unit) io" where
  "single_camera rig cl =
     io_bind (adb_run (rg_host rig) cl [us ''devices''] 30000) (\<lambda>out.
     let lines = filter (\<lambda>l. l \<noteq> []) (map strip (splitlines (filter (\<lambda>c. c \<noteq> 13) (decode_replace out))))
     in if lines = [] \<or> hd lines \<noteq> us ''List of devices attached''
        then io_raise (ProtocolError ''unexpected ADB device list'')
        else (case map (split_words []) (tl lines) of
            [[found, state]] \<Rightarrow>
              if state \<noteq> us ''device''
              then io_raise (ProtocolError ''restore preparation requires exactly one online ADB device'')
              else if serial cl \<noteq> None \<and> serial cl \<noteq> Some found
              then io_raise (ProtocolError ''selected ADB serial does not match the only online device'')
              else io_bind (expected_items rig) (\<lambda>items.
                   if map hi_ids items = [(NORMAL_VID, NORMAL_PID)] \<and> map hi_serial items = [Some found]
                   then io_return ()
                   else io_raise (ProtocolError ''normal HID and ADB must identify the same single camera''))
          | _ \<Rightarrow> io_raise (ProtocolError ''restore preparation requires exactly one online ADB device'')))"

text \<open>The lines of \<open>/proc/kallsyms\<close>, and the addresses of one function.\<close>

fun split_lf :: "ustring \<Rightarrow> ustring \<Rightarrow> ustring list" where
  "split_lf acc [] = [rev acc]"
| "split_lf acc (c # cs) = (if c = 10 then rev acc # split_lf [] cs else split_lf (c # acc) cs)"

definition symbol_matches :: "ustring \<Rightarrow> string \<Rightarrow> ustring list" where
  "symbol_matches symbols name =
     map (take 8) (filter (\<lambda>l. 8 \<le> length l \<and> list_all is_hex (take 8 l) \<and>
       (drop 8 l = us '' t '' @ us name \<or> drop 8 l = us '' T '' @ us name)) (split_lf [] (filter (\<lambda>c. c \<noteq> 13) symbols)))"

definition check_symbols :: "ustring \<Rightarrow> unit res" where
  "check_symbols symbols =
     (if list_all (\<lambda>(name, address). symbol_matches symbols name = [hex8 address]) SYMBOLS then Inr ()
      else Inl (ProtocolError ''missing, ambiguous or unexpected kernel symbol''))"

definition check_instruction :: "'s adb_host \<Rightarrow> adb_client \<Rightarrow> nat \<times> nat \<Rightarrow> ('s station, unit) io" where
  "check_instruction host cl instruction =
     (case instruction of (address, expected) \<Rightarrow>
       io_bind (read_word host cl address) (\<lambda>found.
       if found \<noteq> expected then io_raise (ProtocolError ''live SFC instructions do not match the known kernel'')
       else io_return ()))"

definition HEX8 :: "nat \<Rightarrow> ustring" where
  "HEX8 n = us (map upper_hex_char (hex_padded 8 n))"

text \<open>The guarded write; \<open>[0x22]\<close> is a double quote.\<close>

definition guard_text :: "nat \<Rightarrow> nat \<Rightarrow> ustring" where
  "guard_text address expected =
     us ''[ '' @ [0x22] @ us ''$(busybox devmem 0x'' @ hex8 address @ us '' 32)'' @ [0x22] @ us '' = '' @ [0x22] @ us ''0x'' @
     HEX8 expected @ [0x22] @ us '' ] && ''"

definition guarded_write :: "nat \<Rightarrow> nat \<Rightarrow> nat \<Rightarrow> ustring" where
  "guarded_write pointer field old =
     guard_text POINTER_PHYSICAL pointer @ guard_text field old @
     (if old \<noteq> 0x1000 then us ''busybox devmem 0x'' @ hex8 field @ us '' 32 0x00001000 && '' else []) @
     us ''busybox devmem 0x'' @ hex8 field @ us '' 32 && echo CC2_ERASE_READY''"

section \<open>\<open>prepare_restore\<close>\<close>

text \<open>The callback of the command line prints a line.\<close>

definition read_progress :: "'s console \<Rightarrow> 's progress" where
  "read_progress console = Some (\<lambda>attempt maximum consecutive required.
     say console (us ''Flash read '' @ us (dec_text attempt) @ us ''/'' @ us (dec_text maximum) @
       us '' complete; consecutive identical: '' @ us (dec_text consecutive) @ us ''/'' @ us (dec_text required)))"

definition offline_for_restore :: exn where
  "offline_for_restore = ProtocolError ''restore requires online root ADB before its flag write; run the explicit start-adb command with the same --adb/--serial selection and retry. No HID trigger was sent''"

text \<open>Everything before the write; it returns the pointer, the field's address and its old value.\<close>

definition prepare_checks ::
    "hash_functions \<Rightarrow> 's rig \<Rightarrow> adb_client \<Rightarrow> bytes \<Rightarrow> 's progress \<Rightarrow> ('s station, nat \<times> nat \<times> nat) io" where
  "prepare_checks H rig cl preserved progress =
     (let host = rg_host rig
      in io_bind (io_lift (validate_preparation_image H preserved)) (\<lambda>_.
         io_bind (io_catch (ensure_available host cl (Some 10000))
           (\<lambda>e. case e of AdbUnavailable _ \<Rightarrow> io_raise offline_for_restore | _ \<Rightarrow> io_raise e)) (\<lambda>_.
         io_bind (single_camera rig cl) (\<lambda>_.
         io_bind (acquire_stable H host cl progress) (\<lambda>(live, _).
         io_bind (io_lift (validate_preparation_image H live)) (\<lambda>_.
         io_bind (io_lift (validate_replacement_against_backup live preserved)) (\<lambda>_.
         io_bind (identity_and_partitions host cl) (\<lambda>(_, parts).
         if \<exists>part \<in> set parts. mp_erase_size part \<noteq> 0x4000
         then io_raise (ProtocolError ''unexpected MTD erase geometry; refusing RAM modification'')
         else io_bind (adb_shell host cl [us ''cat'', us ''/proc/kallsyms'']) (\<lambda>symbols.
              io_bind (io_lift (check_symbols (decode_replace symbols))) (\<lambda>_.
              io_bind (io_each (check_instruction host cl) INSTRUCTIONS) (\<lambda>_.
              io_bind (read_word host cl POINTER_PHYSICAL) (\<lambda>pointer.
              io_bind (io_lift (field_address pointer)) (\<lambda>field.
              io_bind (read_word host cl field) (\<lambda>old.
              if old \<noteq> 0x4000 \<and> old \<noteq> 0x1000
              then io_raise (ProtocolError ''unexpected live SFC erase size; refusing RAM modification'')
              else io_bind (adb_shell host cl [us ''sync && echo CC2_SYNC_OK'']) (\<lambda>synced.
                   if strip_bytes synced \<noteq> ascii ''CC2_SYNC_OK''
                   then io_raise (ProtocolError ''sync failed; no RAM write or HID trigger was sent'')
                   else io_bind (single_camera rig cl) (\<lambda>_. io_return (pointer, field, old)))))))))))))))))"

definition after_write_text :: ustring where
  "after_write_text = us ''; no HID trigger was sent. RAM may already be patched; no automatic retry or rollback was attempted''"

definition prepare_write :: "'s adb_host \<Rightarrow> adb_client \<Rightarrow> nat \<Rightarrow> nat \<Rightarrow> nat \<Rightarrow> ('s station, unit) io" where
  "prepare_write host cl pointer field old =
     io_catch
       (io_bind (adb_shell host cl [guarded_write pointer field old]) (\<lambda>output.
        if strip_bytes (filter (\<lambda>b. b \<noteq> 13) output) \<noteq> ascii ''0x00001000'' @ [10] @ ascii ''CC2_ERASE_READY''
        then io_raise (ProtocolError ''guarded SFC write/readback did not confirm 0x1000'')
        else io_bind (read_word host cl POINTER_PHYSICAL) (\<lambda>p.
             if p \<noteq> pointer then io_raise (ProtocolError ''SFC pointer or erase-size readback changed'')
             else io_bind (read_word host cl field) (\<lambda>v.
                  if v \<noteq> 0x1000 then io_raise (ProtocolError ''SFC pointer or erase-size readback changed'')
                  else io_return ()))))
       (\<lambda>e. if is_protocol_error e then io_raise (ProtocolErrorText (message_of e @ after_write_text)) else io_raise e)"

definition prepare_restore ::
    "hash_functions \<Rightarrow> 's rig \<Rightarrow> adb_client \<Rightarrow> bytes \<Rightarrow> 's progress \<Rightarrow> ('s station, unit) io" where
  "prepare_restore H rig cl preserved progress =
     io_bind (prepare_checks H rig cl preserved progress) (\<lambda>(pointer, field, old).
     prepare_write (rg_host rig) cl pointer field old)"

section \<open>What the operations run\<close>

text \<open>
  \<open>only_runs cl P m\<close>: whatever \<open>m\<close> does, it runs ADB commands of the client whose arguments satisfy \<open>P\<close>,
  and no HID operation.
\<close>

definition only_runs :: "adb_client \<Rightarrow> (ustring list \<Rightarrow> bool) \<Rightarrow> ('s station, 'a) io \<Rightarrow> bool" where
  "only_runs cl P m \<longleftrightarrow>
     (\<forall>st. \<exists>r st' cmds. m st = (r, st') \<and> log st' = log st @ map (\<lambda>c. Ran (base_command cl @ c)) cmds \<and>
        list_all P cmds \<and> trace (hid st') = trace (hid st))"

lemma only_runsD:
  assumes "only_runs cl P m" "m st = (r, st')"
  obtains cmds where "log st' = log st @ map (\<lambda>c. Ran (base_command cl @ c)) cmds" "list_all P cmds"
    "trace (hid st') = trace (hid st)"
  using assms unfolding only_runs_def by (metis prod.inject)

lemma only_runs_pure:
  assumes "\<And>st. \<exists>r st'. m st = (r, st') \<and> log st' = log st \<and> trace (hid st') = trace (hid st)"
  shows "only_runs cl P m"
  unfolding only_runs_def
proof
  fix st
  obtain r st' where "m st = (r, st')" "log st' = log st" "trace (hid st') = trace (hid st)" using assms by blast
  then show "\<exists>r st' cmds. m st = (r, st') \<and> log st' = log st @ map (\<lambda>c. Ran (base_command cl @ c)) cmds \<and>
      list_all P cmds \<and> trace (hid st') = trace (hid st)"
    by (intro exI [of _ r] exI [of _ st'] exI [of _ "[]"]) simp
qed

lemma only_runs_lift [simp]: "only_runs cl P (io_lift r)" "only_runs cl P (io_return x)" "only_runs cl P (io_raise e)"
  by (rule only_runs_pure; simp add: io_lift_def io_return_def io_raise_def)+

lemma only_runs_bind:
  assumes "only_runs cl P m" "\<And>x. only_runs cl P (f x)"
  shows "only_runs cl P (io_bind m f)"
  unfolding only_runs_def
proof
  fix st
  obtain r st1 where m: "m st = (r, st1)" by fastforce
  obtain cs where c: "log st1 = log st @ map (\<lambda>c. Ran (base_command cl @ c)) cs" "list_all P cs" "trace (hid st1) = trace (hid st)"
    using assms(1) m by (rule only_runsD)
  show "\<exists>r st' cmds. io_bind m f st = (r, st') \<and> log st' = log st @ map (\<lambda>c. Ran (base_command cl @ c)) cmds \<and>
      list_all P cmds \<and> trace (hid st') = trace (hid st)"
  proof (cases r)
    case (Inl e)
    with m c show ?thesis by (intro exI [of _ "Inl e"] exI [of _ st1] exI [of _ cs]) (simp add: io_bind_def)
  next
    case (Inr x)
    obtain q st2 where f: "f x st1 = (q, st2)" by fastforce
    obtain ds where d: "log st2 = log st1 @ map (\<lambda>c. Ran (base_command cl @ c)) ds" "list_all P ds" "trace (hid st2) = trace (hid st1)"
      using assms(2) f by (rule only_runsD)
    with m c Inr f show ?thesis by (intro exI [of _ q] exI [of _ st2] exI [of _ "cs @ ds"]) (simp add: io_bind_def)
  qed
qed

lemma only_runs_if: "(b \<Longrightarrow> only_runs cl P f) \<Longrightarrow> (\<not> b \<Longrightarrow> only_runs cl P g) \<Longrightarrow> only_runs cl P (if b then f else g)"
  by simp

lemma only_runs_catch:
  assumes "only_runs cl P m" "\<And>e. only_runs cl P (h e)"
  shows "only_runs cl P (io_catch m h)"
  unfolding only_runs_def
proof
  fix st
  obtain r st1 where m: "m st = (r, st1)" by fastforce
  obtain cs where c: "log st1 = log st @ map (\<lambda>c. Ran (base_command cl @ c)) cs" "list_all P cs" "trace (hid st1) = trace (hid st)"
    using assms(1) m by (rule only_runsD)
  show "\<exists>r st' cmds. io_catch m h st = (r, st') \<and> log st' = log st @ map (\<lambda>c. Ran (base_command cl @ c)) cmds \<and>
      list_all P cmds \<and> trace (hid st') = trace (hid st)"
  proof (cases r)
    case (Inr x)
    with m c show ?thesis by (intro exI [of _ "Inr x"] exI [of _ st1] exI [of _ cs]) (simp add: io_catch_def)
  next
    case (Inl e)
    obtain q st2 where f: "h e st1 = (q, st2)" by fastforce
    obtain ds where d: "log st2 = log st1 @ map (\<lambda>c. Ran (base_command cl @ c)) ds" "list_all P ds" "trace (hid st2) = trace (hid st1)"
      using assms(2) f by (rule only_runsD)
    with m c Inl f show ?thesis by (intro exI [of _ q] exI [of _ st2] exI [of _ "cs @ ds"]) (simp add: io_catch_def)
  qed
qed

lemma only_runs_run:
  assumes "P args"
  shows "only_runs cl P (adb_run host cl args timeout)"
  unfolding only_runs_def
proof
  fix st
  obtain p st1 where run: "run_process host (base_command cl @ args) timeout st = (p, st1)" by fastforce
  note r = run_process_simps [OF run]
  have "\<exists>q. adb_run host cl args timeout st = (q, st1)"
    using run by (cases p) (auto simp: adb_run_def Let_def)
  then obtain q where "adb_run host cl args timeout st = (q, st1)" ..
  with r assms show "\<exists>r st' cmds. adb_run host cl args timeout st = (r, st') \<and>
      log st' = log st @ map (\<lambda>c. Ran (base_command cl @ c)) cmds \<and> list_all P cmds \<and> trace (hid st') = trace (hid st)"
    by (intro exI [of _ q] exI [of _ st1] exI [of _ "[args]"]) simp
qed

lemma only_runs_available:
  assumes "P [us ''get-state'']"
  shows "only_runs cl P (ensure_available host cl (Some 10000))"
  unfolding only_runs_def
proof
  fix st
  obtain r st1 where e: "ensure_available host cl (Some 10000) st = (r, st1)" by fastforce
  obtain p where "log st1 = log st @ [Ran (base_command cl @ [us ''get-state''])]" "trace (hid st1) = trace (hid st)"
    using ensure_available_polls [OF e] by auto
  with e assms show "\<exists>r st' cmds. ensure_available host cl (Some 10000) st = (r, st') \<and>
      log st' = log st @ map (\<lambda>c. Ran (base_command cl @ c)) cmds \<and> list_all P cmds \<and> trace (hid st') = trace (hid st)"
    by (intro exI [of _ r] exI [of _ st1] exI [of _ "[[us ''get-state'']]"]) simp
qed

lemma only_runs_tempdir:
  fixes body :: "ustring \<Rightarrow> ('s station, 'a) io"
  assumes "\<And>d. only_runs cl P (body d)"
  shows "only_runs cl P (with_tempdir host body)"
  unfolding only_runs_def
proof
  fix st :: "'s station"
  obtain q d where t: "ah_mkdtemp host (outside st) = (q, d)" by fastforce
  show "\<exists>r st' cmds. with_tempdir host body st = (r, st') \<and>
      log st' = log st @ map (\<lambda>c. Ran (base_command cl @ c)) cmds \<and> list_all P cmds \<and> trace (hid st') = trace (hid st)"
  proof (cases q)
    case (Inl e)
    with t show ?thesis
      by (intro exI [of _ "Inl e"] exI [of _ "set_outside st d"] exI [of _ "[]"]) (simp add: with_tempdir_def)
  next
    case (Inr dir)
    obtain r st1 where b: "body dir (set_outside st d) = (r, st1)" by fastforce
    obtain cs where c: "log st1 = log (set_outside st d) @ map (\<lambda>c. Ran (base_command cl @ c)) cs" "list_all P cs"
      "trace (hid st1) = trace (hid (set_outside st d))"
      using assms b by (rule only_runsD)
    obtain z d' where z: "ah_rmtree host (outside st1) dir = (z, d')" by fastforce
    have "\<exists>r'. with_tempdir host body st = (r', set_outside st1 d')"
      using t Inr b z by (cases z) (simp_all add: with_tempdir_def)
    then obtain r' where "with_tempdir host body st = (r', set_outside st1 d')" ..
    with c show ?thesis by (intro exI [of _ r'] exI [of _ "set_outside st1 d'"] exI [of _ cs]) simp
  qed
qed

lemma only_runs_each: "(\<And>x. only_runs cl P (f x)) \<Longrightarrow> only_runs cl P (io_each f xs)"
  by (induction xs) (auto intro: only_runs_bind)

section \<open>Before the write\<close>

text \<open>The commands that cannot change the camera.\<close>

definition reads_only :: "ustring list \<Rightarrow> bool" where
  "reads_only args \<longleftrightarrow>
     (case args of
        [a] \<Rightarrow> a = us ''get-state'' \<or> a = us ''devices''
      | [a, b] \<Rightarrow> a = us ''shell'' \<and> (b = us ''id'' \<or> b = us ''sync && echo CC2_SYNC_OK'')
      | [a, b, c] \<Rightarrow> a = us ''pull'' \<or> a = us ''shell'' \<and> b = us ''cat''
      | [a, b, c, address, width] \<Rightarrow> a = us ''shell'' \<and> b = us ''busybox'' \<and> c = us ''devmem'' \<and> width = us ''32''
      | _ \<Rightarrow> False)"

named_theorems runs

lemmas [runs] = only_runs_lift only_runs_bind only_runs_if only_runs_catch only_runs_tempdir only_runs_each

lemma reads_only_shell [runs]:
  "only_runs cl reads_only (adb_shell host cl [us ''id''])"
  "only_runs cl reads_only (adb_shell host cl [us ''sync && echo CC2_SYNC_OK''])"
  "only_runs cl reads_only (adb_shell host cl [us ''cat'', f])"
  "only_runs cl reads_only (adb_shell host cl [us ''busybox'', us ''devmem'', a, us ''32''])"
  "only_runs cl reads_only (adb_run host cl [us ''devices''] timeout)"
  unfolding adb_shell_def by (rule only_runs_run; simp add: reads_only_def)+

lemma reads_only_available [runs]: "only_runs cl reads_only (ensure_available host cl (Some 10000))"
  by (rule only_runs_available) (simp add: reads_only_def)

lemma reads_only_pull [runs]: "only_runs cl reads_only (adb_pull host cl remote local timeout)"
  unfolding adb_pull_def
  by (intro only_runs_bind only_runs_run only_runs_pure) (auto simp: reads_only_def)

lemma reads_only_word [runs]: "only_runs cl reads_only (read_word host cl address)"
  unfolding read_word_def by (intro runs)

lemma reads_only_instruction [runs]: "only_runs cl reads_only (check_instruction host cl i)"
  unfolding check_instruction_def by (auto split: prod.split intro!: runs)

lemma reads_only_items [runs]: "only_runs cl P (expected_items rig)"
  unfolding expected_items_def enumerate_hid_def
  by (intro only_runs_bind only_runs_lift only_runs_pure) (auto simp: set_outside_def split: prod.splits)

lemma only_runs_single_pair:
  assumes "\<And>x y. only_runs cl P (f x y)" "only_runs cl P g"
  shows "only_runs cl P (case devices of [[x, y]] \<Rightarrow> f x y | _ \<Rightarrow> g)"
  using assms by (auto split: list.split)

lemma reads_only_single [runs]: "only_runs cl reads_only (single_camera rig cl)"
  unfolding single_camera_def Let_def
  by (intro only_runs_bind only_runs_if only_runs_single_pair runs)

lemma reads_only_identity [runs]: "only_runs cl reads_only (identity_and_partitions host cl)"
  unfolding identity_and_partitions_def Let_def by (intro runs)

lemma only_runs_query: "only_runs cl P (\<lambda>st. (f st, st))"
  by (rule only_runs_pure) simp

lemma reads_only_partitions [runs]: "only_runs cl reads_only (read_partitions host cl directory parts img)"
  by (induction host cl directory parts img rule: read_partitions.induct)
    (auto simp: Let_def intro!: only_runs_bind only_runs_query reads_only_pull runs)

lemma reads_only_flash [runs]: "only_runs cl reads_only (read_flash_once host cl parts)"
  unfolding read_flash_once_def by (intro runs)

lemma reads_only_say [runs]: "only_runs cl P (say console line)"
  by (rule only_runs_pure) (simp add: say_def set_outside_def split: prod.split)

lemma reads_only_report [runs]: "only_runs cl P (report_read (read_progress console) attempts consecutive)"
  by (simp add: report_read_def read_progress_def reads_only_say)

lemma reads_only_loop [runs]:
  "only_runs cl reads_only (acquire_loop (read_flash_once host cl parts) (read_progress console) left attempts previous consecutive)"
  by (induction left arbitrary: attempts previous consecutive) (auto simp: Let_def intro!: runs)

lemma reads_only_acquire [runs]: "only_runs cl reads_only (acquire_stable H host cl (read_progress console))"
  unfolding acquire_stable_def
  by (intro only_runs_bind reads_only_identity; clarsimp)
    (intro only_runs_bind reads_only_loop; clarsimp split: option.split; intro conjI allI impI runs only_runs_pure;
      simp split: sum.split)

lemma reads_only_checks [runs]: "only_runs cl reads_only (prepare_checks H rig cl preserved (read_progress console))"
proof -
  have offline: "only_runs cl reads_only (case e of AdbUnavailable _ \<Rightarrow> io_raise offline_for_restore | _ \<Rightarrow> io_raise e)" for e
    by (cases e) (simp_all add: runs)
  show ?thesis
    unfolding prepare_checks_def Let_def
    by (intro only_runs_bind only_runs_if only_runs_catch offline runs; clarsimp;
      intro only_runs_bind only_runs_if runs; clarsimp; intro only_runs_bind only_runs_if runs)
qed

text \<open>What holds when the checks have passed.\<close>

definition same_known_camera :: "hash_functions \<Rightarrow> bytes \<Rightarrow> bytes \<Rightarrow> bool" where
  "same_known_camera H live preserved \<longleftrightarrow>
     length live = FLASH_SIZE \<and> length preserved = FLASH_SIZE \<and>
     sha256 H (pslice live 0x40000 0x190000) = KERNEL_SHA256 \<and> sha256 H (pslice preserved 0x40000 0x190000) = KERNEL_SHA256 \<and>
     validate_replacement_against_backup live preserved = Inr ()"

lemma validate_preparation_image_Inr [simp]:
  "validate_preparation_image H img = Inr () \<longleftrightarrow> length img = FLASH_SIZE \<and> sha256 H (pslice img 0x40000 0x190000) = KERNEL_SHA256"
  by (simp add: validate_preparation_image_def)

definition write_target :: "nat \<Rightarrow> nat \<Rightarrow> nat \<Rightarrow> bool" where
  "write_target pointer field old \<longleftrightarrow>
     pointer mod 4 = 0 \<and> 0x80450000 \<le> pointer \<and> pointer \<le> 0x83FFFD9C \<and> field = pointer - 0x80000000 + 0x10 \<and>
     (old = 0x4000 \<or> old = 0x1000)"

lemma field_address_facts:
  "field_address pointer = Inr field \<longleftrightarrow>
     pointer mod 4 = 0 \<and> 0x80450000 \<le> pointer \<and> pointer \<le> 0x83FFFD9C \<and> field = pointer - 0x80000000 + 0x10"
  by (auto simp: field_address_def ERASE_OFFSET_def)

lemma io_bind_InrE:
  assumes "io_bind m f st = (Inr y, st')"
  obtains x st1 where "m st = (Inr x, st1)" "f x st1 = (Inr y, st')"
  using assms unfolding io_bind_Inr by blast

lemma prepare_checks_Inr:
  assumes "prepare_checks H rig cl preserved progress st = (Inr (pointer, field, old), st')"
  shows "write_target pointer field old"
    and "\<exists>live manifest st1 st2. acquire_stable H (rg_host rig) cl progress st1 = (Inr (live, manifest), st2) \<and>
      same_known_camera H live preserved"
proof -
  have "write_target pointer field old \<and>
      (\<exists>live manifest st1 st2. acquire_stable H (rg_host rig) cl progress st1 = (Inr (live, manifest), st2) \<and>
        same_known_camera H live preserved)"
    using assms unfolding prepare_checks_def Let_def
    by (clarsimp elim!: io_bind_InrE split: if_splits simp: field_address_facts same_known_camera_def)
      (auto simp: write_target_def)
  then show "write_target pointer field old"
    and "\<exists>live manifest st1 st2. acquire_stable H (rg_host rig) cl progress st1 = (Inr (live, manifest), st2) \<and>
      same_known_camera H live preserved" by simp_all
qed

section \<open>The write\<close>

text \<open>The write is confirmed by reading both words back.\<close>

definition confirmed :: "'s adb_host \<Rightarrow> adb_client \<Rightarrow> nat \<Rightarrow> nat \<Rightarrow> 's station \<Rightarrow> bool" where
  "confirmed host cl pointer field st' \<longleftrightarrow>
     (\<exists>st st1. read_word host cl POINTER_PHYSICAL st = (Inr pointer, st1) \<and> read_word host cl field st1 = (Inr 0x1000, st'))"

lemma adb_run_log:
  assumes "adb_run host cl args timeout st = (r, st')"
  shows "log st' = log st @ [Ran (base_command cl @ args)]" "trace (hid st') = trace (hid st)"
proof -
  obtain p st1 where run: "run_process host (base_command cl @ args) timeout st = (p, st1)" by fastforce
  note f = run_process_simps [OF run]
  have "st' = st1" using assms run by (auto simp: adb_run_def Let_def split: process.splits if_splits)
  with f show "log st' = log st @ [Ran (base_command cl @ args)]" "trace (hid st') = trace (hid st)" by simp_all
qed

text \<open>An error after the write command says that no HID trigger was sent, unless the ADB process could not be started.\<close>

definition write_error :: "exn \<Rightarrow> bool" where
  "write_error e \<longleftrightarrow> (\<exists>message. e = ProtocolErrorText (message @ after_write_text)) \<or> e = OSError"

lemma adb_run_error:
  "adb_run host cl args timeout st = (Inl e, st') \<Longrightarrow> is_protocol_error e \<or> e = OSError"
  by (auto simp: adb_run_def Let_def executable_not_found_def split: prod.splits process.splits if_splits)

lemma read_word_log:
  assumes "read_word host cl address st = (r, st')"
  shows "log st' = log st @ [Ran (base_command cl @ [us ''shell'', us ''busybox'', us ''devmem'', us ''0x'' @ hex8 address, us ''32''])]"
    "trace (hid st') = trace (hid st)"
proof -
  obtain q st1 where run: "adb_run host cl [us ''shell'', us ''busybox'', us ''devmem'', us ''0x'' @ hex8 address, us ''32''] 30000 st = (q, st1)"
    by fastforce
  have "st' = st1" using assms run by (cases q) (auto simp: read_word_def io_bind_def adb_shell_def io_lift_def)
  with adb_run_log [OF run] show
    "log st' = log st @ [Ran (base_command cl @ [us ''shell'', us ''busybox'', us ''devmem'', us ''0x'' @ hex8 address, us ''32''])]"
    "trace (hid st') = trace (hid st)" by simp_all
qed

lemma reads_only_devmem: "reads_only [us ''shell'', us ''busybox'', us ''devmem'', address, us ''32'']"
  by (simp add: reads_only_def)

lemma read_word_protocol:
  assumes "read_word host cl address st = (Inl e, st')"
  shows "is_protocol_error e \<or> e = OSError"
  using assms
  by (auto simp: read_word_def io_bind_def adb_shell_def adb_run_def io_lift_def devmem_word_def Let_def executable_not_found_def
      split: prod.splits sum.splits process.splits if_splits)

lemma prepare_write_outcome:
  assumes "prepare_write host cl pointer field old st = (r, st')"
  shows "\<exists>after. log st' = log st @ map (\<lambda>c. Ran (base_command cl @ c)) ([us ''shell'', guarded_write pointer field old] # after) \<and>
    list_all reads_only after \<and> length after \<le> 2 \<and> trace (hid st') = trace (hid st) \<and>
    (case r of Inr _ \<Rightarrow> confirmed host cl pointer field st' | Inl e \<Rightarrow> write_error e)"
proof -
  let ?body = "io_bind (adb_shell host cl [guarded_write pointer field old]) (\<lambda>output.
        if strip_bytes (filter (\<lambda>b. b \<noteq> 13) output) \<noteq> ascii ''0x00001000'' @ [10] @ ascii ''CC2_ERASE_READY''
        then io_raise (ProtocolError ''guarded SFC write/readback did not confirm 0x1000'')
        else io_bind (read_word host cl POINTER_PHYSICAL) (\<lambda>p.
             if p \<noteq> pointer then io_raise (ProtocolError ''SFC pointer or erase-size readback changed'')
             else io_bind (read_word host cl field) (\<lambda>v.
                  if v \<noteq> 0x1000 then io_raise (ProtocolError ''SFC pointer or erase-size readback changed'')
                  else io_return ())))"
  obtain w st1 where run: "adb_run host cl [us ''shell'', guarded_write pointer field old] 30000 st = (w, st1)" by fastforce
  obtain q2 st2 where r2: "read_word host cl POINTER_PHYSICAL st1 = (q2, st2)" by fastforce
  obtain q3 st3 where r3: "read_word host cl field st2 = (q3, st3)" by fastforce
  obtain b stb where body: "?body st = (b, stb)" by fastforce
  have "(stb = st1 \<or> stb = st2 \<or> stb = st3) \<and>
      (case b of Inr _ \<Rightarrow> confirmed host cl pointer field stb | Inl e \<Rightarrow> is_protocol_error e \<or> e = OSError)"
    using body run r2 r3 adb_run_error [of host cl _ _ st] read_word_protocol [where host = host and cl = cl and address = POINTER_PHYSICAL and st = st1]
      read_word_protocol [where host = host and cl = cl and address = field and st = st2]
    unfolding confirmed_def
    by (auto simp: io_bind_def adb_shell_def io_raise_def io_return_def io_lift_def split: sum.splits if_splits)
  moreover have "\<exists>after. log stb = log st1 @ map (\<lambda>c. Ran (base_command cl @ c)) after \<and> list_all reads_only after \<and>
      length after \<le> 2 \<and> trace (hid stb) = trace (hid st1)" if "stb = st1 \<or> stb = st2 \<or> stb = st3"
  proof -
    note only = reads_only_devmem [of "us ''0x'' @ hex8 POINTER_PHYSICAL"] reads_only_devmem [of "us ''0x'' @ hex8 field"]
    from that read_word_log [OF r2] read_word_log [OF r3] only show ?thesis
      by (elim disjE) (intro exI [of _ "[]"], simp,
        intro exI [of _ "[[us ''shell'', us ''busybox'', us ''devmem'', us ''0x'' @ hex8 POINTER_PHYSICAL, us ''32'']]"], simp,
        intro exI [of _ "[[us ''shell'', us ''busybox'', us ''devmem'', us ''0x'' @ hex8 POINTER_PHYSICAL, us ''32''],
          [us ''shell'', us ''busybox'', us ''devmem'', us ''0x'' @ hex8 field, us ''32'']]"], simp)
  qed
  moreover have "st' = stb \<and> (case b of Inr _ \<Rightarrow> r = Inr () | Inl e \<Rightarrow>
      r = Inl (if is_protocol_error e then ProtocolErrorText (message_of e @ after_write_text) else e))"
    using assms body unfolding prepare_write_def io_catch_def
    by (auto simp: io_raise_def io_lift_def split: sum.splits if_splits)
  ultimately show ?thesis
    using adb_run_log [OF run] by (fastforce simp: write_error_def split: sum.splits)
qed


end
