(* ===== verification/Cli.thy ===== *)
theory Cli
  imports Restore_Prepare Recovery
begin

text \<open>
  The commands of \<open>cc2camera/cli.py\<close> that do not write to the camera, with \<open>cmd_analyze\<close> and \<open>cmd_build\<close>
  of \<open>cc2camera/image.py\<close>, and \<open>main\<close>'s treatment of exceptions. \<open>argparse\<close> is not modelled: a command
  takes its parsed arguments. Timeouts are in milliseconds.
\<close>

section \<open>The environment\<close>

record 's env =
  ev_hash :: hash_functions
  ev_rig :: "'s rig"
  ev_console :: "'s console"
  ev_files :: host_files
  ev_is_file :: "ustring \<Rightarrow> bool"
  ev_path :: "ustring \<Rightarrow> ustring"          \<comment> \<open>\<open>str(Path(text))\<close>\<close>
  ev_runtime :: runtime
  ev_json_dumps :: "json \<Rightarrow> ustring"       \<comment> \<open>\<open>json.dumps(value, indent=2)\<close>\<close>

record common_args =
  ca_adb :: ustring
  ca_serial :: "ustring option"

definition adb_of :: "common_args \<Rightarrow> adb_client" where
  "adb_of args = \<lparr>executable = ca_adb args, serial = ca_serial args\<rparr>"

definition common_command :: "common_args \<Rightarrow> string \<Rightarrow> ustring list" where
  "common_command args command =
     [us ''cc2camera'', us command] @ (if ca_adb args \<noteq> us ''adb'' then [us ''--adb'', ca_adb args] else []) @
     (case ca_serial args of None \<Rightarrow> [] | Some s \<Rightarrow> if s = [] then [] else [us ''--serial'', s])"

text \<open>A step whose \<open>ProtocolError\<close> becomes a value.\<close>

definition attempt :: "('w, 'a) io \<Rightarrow> ('w, ustring + 'a) io" where
  "attempt m = io_catch (io_bind m (\<lambda>x. io_return (Inr x)))
     (\<lambda>e. if is_protocol_error e then io_return (Inl (message_of e)) else io_raise e)"

definition say_json :: "'s env \<Rightarrow> json \<Rightarrow> ('s station, unit) io" where
  "say_json env value = say (ev_console env) (ev_json_dumps env value)"

definition text_json :: "ustring option \<Rightarrow> json" where
  "text_json t = (case t of None \<Rightarrow> JNull | Some s \<Rightarrow> JStr s)"

section \<open>\<open>devices\<close> and \<open>device-info\<close>\<close>

definition hid_item_json :: "hid_item \<Rightarrow> json" where
  "hid_item_json item = JObject
     [(us ''vid'', JStr (us (hex_padded 4 (fst (hi_ids item))))), (us ''pid'', JStr (us (hex_padded 4 (snd (hi_ids item))))),
      (us ''product'', text_json (hi_product item)), (us ''serial'', text_json (hi_serial item))]"

definition command_list :: "'s env \<Rightarrow> common_args \<Rightarrow> ('s station, unit) io" where
  "command_list env args =
     io_bind (attempt (expected_items (ev_rig env))) (\<lambda>items.
     io_bind (attempt (adb_run (rg_host (ev_rig env)) (adb_of args) [us ''devices'', us ''-l''] 30000)) (\<lambda>output.
     say_json env (JObject (
       [(us ''hid'', JList (case items of Inl _ \<Rightarrow> [] | Inr found \<Rightarrow> map hid_item_json found)),
        (us ''adb'', JList (case output of Inl _ \<Rightarrow> []
           | Inr out \<Rightarrow> map JStr (filter (\<lambda>line. strip line \<noteq> []) (tl (splitlines (decode_utf8_replace out))))))] @
       (case items of Inl m \<Rightarrow> [(us ''hid_error'', JStr m)] | Inr _ \<Rightarrow> []) @
       (case output of Inl m \<Rightarrow> [(us ''adb_error'', JStr m)] | Inr _ \<Rightarrow> [])))))"

fun partition_lines :: "nat \<Rightarrow> mtd_partition list \<Rightarrow> ustring list" where
  "partition_lines offset [] = []"
| "partition_lines offset (part # parts) =
     (us ''mtd'' @ us (dec_text (mp_index part)) @ us '': 0x'' @ us (hex_padded 6 offset) @ us ''-0x'' @
      us (hex_padded 6 (offset + mp_size part - 1)) @ us '' 0x'' @ us (hex_text (mp_size part)) @ us '' '' @ mp_name part) #
     partition_lines (offset + mp_size part) parts"

definition command_info :: "'s env \<Rightarrow> common_args \<Rightarrow> ('s station, unit) io" where
  "command_info env args =
     io_bind (identity_and_partitions (rg_host (ev_rig env)) (adb_of args)) (\<lambda>(identity, parts).
     say_lines (ev_console env)
       ([us ''ADB identity: '' @ identity, us ''Validated flash: 8 MiB ZB25VQ64-compatible layout''] @ partition_lines 0 parts))"

section \<open>\<open>backup\<close>\<close>

text \<open>The operations of \<open>backup\<close> act on the station and on the shelf of archives.\<close>

definition on_station :: "('w, 'a) io \<Rightarrow> ('w \<times> 't, 'a) io" where
  "on_station m w = (case m (fst w) of (r, st) \<Rightarrow> (r, (st, snd w)))"

definition on_shelf :: "('t, 'a) io \<Rightarrow> ('w \<times> 't, 'a) io" where
  "on_shelf m w = (case m (snd w) of (r, sh) \<Rightarrow> (r, (fst w, sh)))"

definition offline_for_backup :: "common_args \<Rightarrow> exn \<Rightarrow> exn" where
  "offline_for_backup args e = ProtocolErrorText (message_of e @ [10] @
     us ''backup is strictly read-only and did not modify the camera.'' @ [10] @
     us ''Start ADB explicitly for this boot, then rerun backup:'' @ [10] @
     us ''  '' @ join_with [0x20] (common_command args ''start-adb''))"

definition unknown_bootloader :: "common_args \<Rightarrow> ustring \<Rightarrow> ustring \<Rightarrow> exn" where
  "unknown_bootloader args output observed = ProtocolErrorText (
     us ''unknown bootloader SHA-256; no backup was published:'' @ [10] @ us ''  '' @ observed @ [10] @
     us ''After independently reviewing that exact hash, accept it with:'' @ [10] @
     us ''  '' @ join_with [0x20] (common_command args ''backup'' @ [us ''--accept-bootloader-sha256'', observed, output]))"

text \<open>\<open>str(value)\<close> of the manifest's scalars.\<close>

fun scalar_text :: "json \<Rightarrow> ustring" where
  "scalar_text (JStr t) = t"
| "scalar_text (JInt i) = int_text i"
| "scalar_text _ = []"

text \<open>Which acceptance the manifest gets, if any.\<close>

definition bootloader_acceptance ::
    "common_args \<Rightarrow> ustring \<Rightarrow> ustring option \<Rightarrow> (ustring \<times> json) list \<Rightarrow> string res" where
  "bootloader_acceptance args output accepted manifest =
     (case json_get manifest ''bootloader'' of
        JObject boot \<Rightarrow>
          let observed = scalar_text (json_get boot ''sha256'')
          in if accepted \<noteq> None \<and> accepted \<noteq> Some observed
             then Inl (ProtocolErrorText (us ''--accept-bootloader-sha256 does not match the observed boot partition: observed '' @ observed))
             else if json_get boot ''known_reference'' = JBool True then Inr ''known-reference''
             else if accepted = Some observed then Inr ''explicit-hash''
             else Inl (unknown_bootloader args output observed)
      | _ \<Rightarrow> Inl TypeError)"

definition backup_lines :: "runtime \<Rightarrow> (ustring \<times> json) list \<Rightarrow> ustring \<Rightarrow> string \<Rightarrow> ustring list" where
  "backup_lines rt manifest archive_path acceptance =
     [us ''Backup complete (three consecutive identical full reads; '' @ scalar_text (json_get manifest ''read_passes'') @
        us '' total attempt(s))'',
      us ''Size:   '' @ scalar_text (json_get manifest ''size''),
      us ''SHA256: '' @ scalar_text (json_get manifest ''sha256''),
      us ''MD5:    '' @ scalar_text (json_get manifest ''md5''),
      us ''Boot:   '' @ (case json_get manifest ''bootloader'' of JObject boot \<Rightarrow> scalar_text (json_get boot ''sha256'') | _ \<Rightarrow> []),
      us ''Known bootloader: '' @ us (if acceptance = ''known-reference'' then ''yes'' else ''no (explicitly accepted)''),
      us ''Saved archive: '' @ archive_path,
      us ''Archive members: flash.bin, manifest.json'',
      us ''Next, build this camera'' @ [0x27] @ us ''s recovery image:'',
      invocation rt [us ''build-image'', archive_path]]"

definition command_backup ::
    "'s env \<Rightarrow> saver \<Rightarrow> (shelf \<Rightarrow> shelf) \<Rightarrow> common_args \<Rightarrow> ustring \<Rightarrow> ustring option \<Rightarrow> ('s station \<times> shelf, unit) io" where
  "command_backup env sv others args output accepted =
     (let output = ev_path env output
      in io_bind (io_lift (validate_backup_archive_path output)) (\<lambda>_.
         io_bind (on_station (io_catch
             (acquire_stable (ev_hash env) (rg_host (ev_rig env)) (adb_of args) (read_progress (ev_console env)))
             (\<lambda>e. case e of AdbUnavailable _ \<Rightarrow> io_raise (offline_for_backup args e) | _ \<Rightarrow> io_raise e))) (\<lambda>(img, manifest).
         io_bind (io_lift (bootloader_acceptance args output accepted manifest)) (\<lambda>acceptance.
         let manifest = accepted_manifest manifest acceptance
         in io_bind (on_shelf (save_backup sv others output img manifest)) (\<lambda>archive_path.
            on_station (say_lines (ev_console env) (backup_lines (ev_runtime env) manifest archive_path acceptance)))))))"

section \<open>\<open>inspect-image\<close> and \<open>build-image\<close>\<close>

definition cmd_analyze :: "'s env \<Rightarrow> libraries \<Rightarrow> ustring \<Rightarrow> ustring list \<Rightarrow> bool \<Rightarrow> ('s station, unit) io" where
  "cmd_analyze env L input confirm_read show_identifiers =
     (let path = ev_path env input
      in io_bind (io_lift (
           res_bind (read_image_source (lib_hash L) (ev_files env) path) (\<lambda>(img, src).
           res_bind (verify_confirmation_reads (lib_hash L) (ev_files env) img (map (ev_path env) confirm_read)) (\<lambda>confirmations.
           let source_name = path @ (case si_image_member src of None \<Rightarrow> [] | Some m \<Rightarrow> us ''!'' @ us m)
           in res_bind (analyze_image (lib_hash L) (lib_inflate L) img source_name False False) (\<lambda>a.
              res_bind (format_analysis a show_identifiers) (\<lambda>report.
              Inr ([report, us ''Byte-identical physical reads evidenced: '' @ int_text (total_identical_reads src confirmations)] @
                (case si_usb src of None \<Rightarrow> [] | Some usb \<Rightarrow>
                  [us ''  USB backup: '' @ int_text (ue_consecutive usb) @ us '' consecutive identical reads in '' @
                   int_text (ue_read_passes usb) @ us '' attempt(s)'']) @
                map (\<lambda>c. us ''  '' @ cr_filename c @ us ''  '' @ us (cr_sha256 c)) confirmations))))))) (\<lambda>lines.
         say_lines (ev_console env) lines))"

text \<open>\<open>input_path.with_name(f"{input_path.stem}-cc2-recovery")\<close>.\<close>

definition path_stem :: "ustring \<Rightarrow> ustring" where
  "path_stem path = take (length (path_name path) - length (path_suffix path)) (path_name path)"

definition default_output :: "ustring \<Rightarrow> ustring" where
  "default_output path = take (length path - length (path_name path)) path @ path_stem path @ us ''-cc2-recovery''"

text \<open>The entries of the recovery manifest that are printed.\<close>

definition json_at :: "json \<Rightarrow> string \<Rightarrow> json" where
  "json_at v key = (case v of JObject obj \<Rightarrow> json_get obj key | _ \<Rightarrow> JNull)"

definition build_lines :: "runtime \<Rightarrow> ustring \<Rightarrow> recovery_result \<Rightarrow> ustring list" where
  "build_lines rt input_path result =
     (let manifest = rr_manifest result;
          regions = (case json_at manifest ''changed_regions'' of JList rs \<Rightarrow> map (\<lambda>r. scalar_text (json_at r ''name'')) rs | _ \<Rightarrow> [])
      in [us ''RECOVERY BUILD PASSED'', us ''Output directory: '' @ rr_output_dir result,
          us ''Recovery image:   '' @ rr_output_path result,
          us ''SHA-256:          '' @ scalar_text (json_at (json_at manifest ''output'') ''sha256''),
          us ''Identical reads:  '' @ scalar_text (json_at (json_at manifest ''input'') ''total_identical_reads''),
          us ''Config mode:      '' @ scalar_text (json_at manifest ''config_mode''),
          us ''Regions to write: '' @ (if regions \<noteq> [] then join_with (us '', '') regions else us ''none'')] @
         (if json_at (json_at manifest ''input'') ''source_format'' = JStr (us USB_BACKUP_FORMAT)
          then [us ''Next, restore the recovery image:'',
            invocation rt [us ''restore'', rr_output_path result, us ''--backup'', input_path]]
          else [us ''Next, program the generated full image with your external programmer and require full-chip verification.'']))"

record build_options =
  bo_image :: ustring
  bo_confirm_read :: "ustring list"
  bo_show_identifiers :: bool
  bo_output :: "ustring option"
  bo_config_mode :: string
  bo_wipe_unknown_config :: bool
  bo_allow_fewer_reads :: bool

definition cmd_build ::
    "'s env \<Rightarrow> libraries \<Rightarrow> (ustring \<Rightarrow> ustring list) \<Rightarrow> platform \<Rightarrow> (tree \<Rightarrow> tree) \<Rightarrow> build_options \<Rightarrow> ('s station \<times> tree, unit) io" where
  "cmd_build env L resolve platform others args =
     (let input_path = ev_path env (bo_image args);
          output_dir = (case bo_output args of
             None \<Rightarrow> default_output input_path
           | Some out \<Rightarrow> if out = [] then default_output input_path else ev_path env out)
      in io_bind (on_shelf (build_recovery L (ev_files env) resolve platform others
           \<lparr>ba_input_path = input_path, ba_output_dir = output_dir, ba_confirmation_paths = map (ev_path env) (bo_confirm_read args),
            ba_config_mode = bo_config_mode args, ba_wipe_unknown_config = bo_wipe_unknown_config args,
            ba_show_serial = bo_show_identifiers args, ba_allow_fewer_reads = bo_allow_fewer_reads args\<rparr>)) (\<lambda>result.
         on_station (say_lines (ev_console env) (build_lines (ev_runtime env) input_path result))))"

section \<open>\<open>main\<close>\<close>

text \<open>The exceptions \<open>main\<close> reports with exit code 2; any other one escapes. The text of a
  system error is not modelled.\<close>

fun error_text :: "exn \<Rightarrow> ustring" where
  "error_text (ValidationError m) = us m"
| "error_text e = message_of e"

definition is_reported :: "exn \<Rightarrow> bool" where
  "is_reported e \<longleftrightarrow> is_protocol_error e \<or> is_os_error e \<or> e = EOFError \<or> (\<exists>m. e = ValidationError m)"

definition main :: "'s console \<Rightarrow> ('s station, unit) io \<Rightarrow> ('s station, nat) io" where
  "main stderr command =
     io_catch (io_bind command (\<lambda>_. io_return 0))
       (\<lambda>e. if is_reported e then io_bind (say stderr (us ''cc2camera: error: '' @ error_text e)) (\<lambda>_. io_return 2)
            else io_raise e)"

end
