(* ===== verification/Cli_Backup.thy ===== *)
theory Cli_Backup
  imports Cli
begin

text \<open>
  What the \<open>backup\<close> command promises: it only reads from the camera, it publishes nothing without three
  identical reads and an accepted bootloader, and what it publishes loads as a preserved backup.
\<close>

lemma on_station_Inr: "on_station m (st, sh) = (r, (st', sh')) \<longleftrightarrow> m st = (r, st') \<and> sh' = sh"
  by (auto simp: on_station_def split: prod.splits)

lemma on_shelf_Inr: "on_shelf m (st, sh) = (r, (st', sh')) \<longleftrightarrow> m sh = (r, sh') \<and> st' = st"
  by (auto simp: on_shelf_def split: prod.splits)

lemma reads_only_lines [runs]: "only_runs cl P (say_lines console lines)"
  unfolding say_lines_def by (intro runs reads_only_say)

lemma acceptance_Inr:
  assumes "bootloader_reference H img = Inr boot"
    and "bootloader_acceptance args output accepted
      (backup_manifest H cl identity parts created_utc img attempts consecutive boot) = Inr acceptance"
  shows "acceptance = (if known_reference H img then ''known-reference'' else ''explicit-hash'') \<and>
    (known_reference H img \<or> accepted = Some (us (sha256 H (pslice img 0 0x040000))))"
proof -
  have boot: "boot = expected_bootloader H img" using assms(1) by (simp add: bootloader_reference_Inr)
  have b: "json_get (backup_manifest H cl identity parts created_utc img attempts consecutive boot) ''bootloader'' = JObject (keyed boot)"
    unfolding backup_manifest_def json_get_keyed by simp
  show ?thesis
    using assms(2) unfolding bootloader_acceptance_def b json.case json_get_keyed
    by (auto simp: boot expected_bootloader_def known_reference_def Let_def split: if_splits)
qed

lemma acquired_facts:
  assumes "io_catch (acquire_stable H host cl progress)
    (\<lambda>e. case e of AdbUnavailable _ \<Rightarrow> io_raise (f e) | _ \<Rightarrow> io_raise e) st = (Inr x, st')"
  shows "acquire_stable H host cl progress st = (Inr x, st')"
  using assms by (auto simp: io_catch_def split: prod.splits sum.splits exn.splits)

text \<open>C4: the \<open>backup\<close> command sends no HID report and runs only commands that read. Either it fails and publishes
  nothing, or the image was acquired from this camera with three identical reads, its bootloader is the
  known one or the hash the user gave is that of its boot partition, the path was free, and the archive
  now holds the image and the manifest with that acceptance; the shelf is otherwise unchanged.\<close>

theorem backup_publishes_only_evidence:
  "case command_backup env sv others args output accepted (st, sh) of
     (r, (st', sh')) \<Rightarrow> trace (hid st') = trace (hid st) \<and>
       (\<exists>cmds. log st' = log st @ map (\<lambda>c. Ran (base_command (adb_of args) @ c)) cmds \<and> list_all reads_only cmds) \<and>
       ((sh' = sh \<or> sh' = others sh) \<and> (\<exists>e. r = Inl e) \<or>
        (\<exists>img manifest acceptance s2 items manifest_bytes.
           acquire_stable (ev_hash env) (rg_host (ev_rig env)) (adb_of args) (read_progress (ev_console env)) st =
             (Inr (img, manifest), s2) \<and>
           acceptance = (if known_reference (ev_hash env) img then ''known-reference'' else ''explicit-hash'') \<and>
           (known_reference (ev_hash env) img \<or> accepted = Some (us (sha256 (ev_hash env) (pslice img 0 0x040000)))) \<and>
           ev_path env output \<notin> dom sh \<and> ev_path env output \<notin> dom (others sh) \<and>
           sh' = (others sh)(ev_path env output \<mapsto> items) \<and>
           encode_utf8 (sv_json_dumps sv (JObject (accepted_manifest manifest acceptance)) @ [10]) = Inr manifest_bytes \<and>
           sv_zip_write sv [(''flash.bin'', img), (''manifest.json'', manifest_bytes)] = Inr items))"
proof -
  let ?cl = "adb_of args" and ?path = "ev_path env output"
  let ?acquire = "acquire_stable (ev_hash env) (rg_host (ev_rig env)) ?cl (read_progress (ev_console env))"
  let ?offline = "\<lambda>e. case e of AdbUnavailable _ \<Rightarrow> io_raise (offline_for_backup args e) | _ \<Rightarrow> io_raise e"
  have offline: "only_runs ?cl reads_only (?offline e)" for e by (cases e) (simp_all add: runs)
  obtain q s2 where a: "io_catch ?acquire ?offline st = (q, s2)" by fastforce
  have "only_runs ?cl reads_only (io_catch ?acquire ?offline)" by (intro runs offline)
  from this a obtain cmds where l: "log s2 = log st @ map (\<lambda>c. Ran (base_command ?cl @ c)) cmds" "list_all reads_only cmds"
    "trace (hid s2) = trace (hid st)" by (rule only_runsD)
  show ?thesis
  proof (cases "validate_backup_archive_path ?path")
    case (Inl e)
    then show ?thesis by (simp add: command_backup_def io_raise_def io_lift_def exI [of _ "[]"])
  next
    case path: (Inr u)
    note start = command_backup_def Let_def path io_bind_lift
    show ?thesis
    proof (cases q)
      case (Inl e)
      with a l show ?thesis unfolding start by (simp add: io_bind_def on_station_def exI [of _ cmds])
    next
      case (Inr x)
      obtain img manifest where x: "x = (img, manifest)" by (cases x)
      note acq = acquired_facts [OF a [unfolded Inr x]]
      have run: "io_bind (on_station (io_catch ?acquire ?offline)) f (st, sh) = f (img, manifest) (s2, sh)" for f
        using a by (simp add: Inr x io_bind_def on_station_def)
      show ?thesis
      proof (cases "bootloader_acceptance args ?path accepted manifest")
        case (Inl e)
        with l show ?thesis unfolding start run by (simp add: io_raise_def io_lift_def exI [of _ cmds])
      next
        case acceptance: (Inr acc)
        obtain identity parts created n boot where m: "bootloader_reference (ev_hash env) img = Inr boot"
          "manifest = backup_manifest (ev_hash env) ?cl identity parts created img n 3 boot"
          using acq unfolding acquire_stable_Inr by blast
        note acc = acceptance_Inr [OF m(1) acceptance [unfolded m(2)]]
        let ?manifest = "accepted_manifest manifest acc"
        obtain z sh2 where s: "save_backup sv others ?path img ?manifest sh = (z, sh2)" by fastforce
        note cases = save_backup_cases [where sv = sv and others = others and path = ?path and img = img and manifest = ?manifest
            and shelf = sh, unfolded s prod.case]
        show ?thesis
        proof (cases z)
          case (Inl e)
          have result: "command_backup env sv others args output accepted (st, sh) = (Inl e, (s2, sh2))"
            unfolding start run prod.case acceptance using s by (simp add: Inl io_bind_def on_shelf_def)
          have "sh2 = sh \<or> sh2 = others sh" using cases by (simp add: Inl)
          with l show ?thesis unfolding result prod.case by blast
        next
          case (Inr published)
          obtain y st' where y: "say_lines (ev_console env) (backup_lines (ev_runtime env) ?manifest published acc) s2 = (y, st')" by fastforce
          obtain more where more: "log st' = log s2 @ map (\<lambda>c. Ran (base_command ?cl @ c)) more" "list_all reads_only more"
            "trace (hid st') = trace (hid s2)" using reads_only_lines y by (rule only_runsD)
          have result: "command_backup env sv others args output accepted (st, sh) = (y, (st', sh2))"
            unfolding start run prod.case acceptance using s y by (simp add: Inr io_bind_def on_shelf_def on_station_def)
          have "log st' = log st @ map (\<lambda>c. Ran (base_command ?cl @ c)) (cmds @ more)" "list_all reads_only (cmds @ more)"
            using l more by simp_all
          then have commands: "\<exists>cmds. log st' = log st @ map (\<lambda>c. Ran (base_command ?cl @ c)) cmds \<and> list_all reads_only cmds"
            by blast
          obtain items mb where "?path \<notin> dom sh" "?path \<notin> dom (others sh)" "sh2 = (others sh)(?path \<mapsto> items)"
            "encode_utf8 (sv_json_dumps sv (JObject ?manifest) @ [10]) = Inr mb"
            "sv_zip_write sv [(''flash.bin'', img), (''manifest.json'', mb)] = Inr items"
            using cases unfolding Inr sum.case by blast
          note published = acq acc [THEN conjunct1] acc [THEN conjunct2] this
          show ?thesis unfolding result prod.case
            by (rule conjI, use more(3) l(3) in simp, rule conjI, rule commands, rule disjI2, (rule exI)+, intro conjI,
              rule published(1), rule published(2), rule published(3), rule published(4), rule published(5), rule published(6), rule published(7), rule published(8))
        qed
      qed
    qed
  qed
qed

text \<open>C9: a backup that the command has published can be restored from. Once \<open>backup\<close> has succeeded, its archive
  loads as a preserved backup with the image that was read three times from this camera and the hashes
  of that image, and the image builder reads it with the evidence of three identical reads. This
  relies on a ZIP writer that stores what it is given, and on \<open>json\<close> reading back what it printed, in at
  most one MiB.\<close>

theorem backup_can_be_restored:
  assumes "command_backup env sv others args output accepted (st, sh) = (Inr (), (st', sh'))"
    and "open_zip fs (ev_path env output) = sh' (ev_path env output)" "is_file (ev_path env output)"
    and "\<And>members items. sv_zip_write sv members = Inr items \<Longrightarrow>
      items = map (\<lambda>(n, d). \<lparr>zi_filename = us n, zi_flag_bits = 0, zi_file_size = length d, zi_data = Some d\<rparr>) members"
    and "\<And>img manifest s2 m mb.
      acquire_stable (ev_hash env) (rg_host (ev_rig env)) (adb_of args) (read_progress (ev_console env)) st = (Inr (img, manifest), s2) \<Longrightarrow>
      m = accepted_manifest manifest (if known_reference (ev_hash env) img then ''known-reference'' else ''explicit-hash'') \<Longrightarrow>
      encode_utf8 (sv_json_dumps sv (JObject m) @ [10]) = Inr mb \<Longrightarrow>
      length mb \<le> 1048576 \<and> json_loads fs mb = Some (sorted_json (JObject m))"
  shows "\<exists>img manifest s2 info.
    acquire_stable (ev_hash env) (rg_host (ev_rig env)) (adb_of args) (read_progress (ev_console env)) st = (Inr (img, manifest), s2) \<and>
    load_preserved_backup (ev_hash env) fs is_file (ev_path env output) = Inr (img, hashes (ev_hash env) img) \<and>
    read_image_source (ev_hash env) fs (ev_path env output) = Inr (img, info) \<and> si_evidenced info = 3"
proof -
  let ?cl = "adb_of args" and ?path = "ev_path env output"
  let ?acquire = "acquire_stable (ev_hash env) (rg_host (ev_rig env)) ?cl (read_progress (ev_console env))"
  from assms(1) obtain img manifest acceptance s2 published s3 where
    acq: "?acquire st = (Inr (img, manifest), s2)" and
    acc: "bootloader_acceptance args ?path accepted manifest = Inr acceptance" and
    saved: "save_backup sv others ?path img (accepted_manifest manifest acceptance) sh = (Inr published, sh')"
    unfolding command_backup_def Let_def
    by (elim io_bind_InrE) (auto simp: on_station_Inr on_shelf_Inr elim!: io_bind_InrE dest!: acquired_facts)
  obtain identity parts created n boot where m: "bootloader_reference (ev_hash env) img = Inr boot"
    "manifest = backup_manifest (ev_hash env) ?cl identity parts created img n 3 boot"
    using acq unfolding acquire_stable_Inr by blast
  note acceptance = acceptance_Inr [OF m(1) acc [unfolded m(2)], THEN conjunct1]
  define m where m': "m = accepted_manifest manifest acceptance"
  have "load_preserved_backup (ev_hash env) fs is_file ?path = Inr (img, hashes (ev_hash env) img) \<and>
      (\<exists>info. read_image_source (ev_hash env) fs ?path = Inr (img, info) \<and> si_evidenced info = 3)"
  proof (rule acquired_backup_loads [where m = m, OF acq])
    show "m = accepted_manifest manifest (if known_reference (ev_hash env) img then ''known-reference'' else ''explicit-hash'')"
      unfolding m' acceptance ..
    show "save_backup sv others ?path img m sh = (Inr published, sh')" using saved by (simp add: m')
    show "length mb \<le> 1048576 \<and> json_loads fs mb = Some (sorted_json (JObject m))"
      if "encode_utf8 (sv_json_dumps sv (JObject m) @ [10]) = Inr mb" for mb
      using assms(5) [OF acq m' [unfolded acceptance] that] .
  qed (use assms(2,3,4) in blast)+
  with acq show ?thesis by blast
qed

end
