(* ===== verification/Proc_Mtd.thy ===== *)
theory Proc_Mtd
  imports Adb_Client
begin

text \<open>
  The text of \<open>/proc/mtd\<close>, and that \<open>parse_proc_mtd\<close> of \<open>cc2camera/adb_backup.py\<close> reads every table the
  kernel prints, whatever carriage returns the transport adds to its lines.
\<close>

section \<open>Printed numbers\<close>

lemma us_append [simp]: "us (a @ b) = us a @ us b"
  by (simp add: us_def)

lemma us_single: "us [c] = [of_char c]"
  by (simp add: us_def)

lemma number_in_append: "number_in base (xs @ [c]) = number_in base xs * base + the (digit_value c)"
  by (simp add: number_in_def)

lemma digit_value_decimal: "d < 10 \<Longrightarrow> digit_value (48 + d) = Some d \<and> is_decimal (48 + d)"
  by (auto simp: digit_value_def is_decimal_def)

lemma dec_text_number: "number_in 10 (us (dec_text n)) = n \<and> list_all is_decimal (us (dec_text n)) \<and> dec_text n \<noteq> []"
proof (induction n rule: dec_text.induct)
  case (1 n)
  have digit: "us [char_of (48 + d)] = [48 + d]" if "d < 10" for d :: nat
    using that by (simp add: us_single)
  show ?case
  proof (cases "n < 10")
    case True
    then have "dec_text n = [char_of (48 + n)]" by (simp add: dec_text.simps)
    with True show ?thesis using digit_value_decimal [of n] by (simp only: digit) (simp add: number_in_def)
  next
    case False
    then have t: "dec_text n = dec_text (n div 10) @ [char_of (48 + n mod 10)]" by (subst dec_text.simps) simp
    have d: "n mod 10 < 10" by simp
    have u: "us (dec_text n) = us (dec_text (n div 10)) @ [48 + n mod 10]" unfolding t us_append digit [OF d] ..
    from 1 [OF False] digit_value_decimal [OF d] show ?thesis
      unfolding u by (simp add: number_in_append t)
  qed
qed

lemma hex_digit_value:
  assumes "d < 16"
  shows "digit_value (of_char (hex_digit d)) = Some d"
proof -
  have "list_all (\<lambda>d. digit_value (of_char (hex_digit d)) = Some d) [0..<16]"
    by (simp add: upt_rec hex_digit_def digit_value_def)
  with assms show ?thesis by (simp add: list_all_iff)
qed

lemma hex_text_number: "number_in 16 (us (hex_text n)) = n \<and> list_all is_hex (us (hex_text n)) \<and> hex_text n \<noteq> []"
proof (induction n rule: hex_text.induct)
  case (1 n)
  show ?case
  proof (cases "n < 16")
    case True
    then show ?thesis using hex_digit_value [OF True] by (simp add: hex_text.simps us_single number_in_def is_hex_def)
  next
    case False
    then have t: "hex_text n = hex_text (n div 16) @ [hex_digit (n mod 16)]" by (subst hex_text.simps) simp
    have d: "n mod 16 < 16" by simp
    from 1 [OF False] hex_digit_value [OF d] show ?thesis
      unfolding t us_append us_single by (simp add: number_in_append is_hex_def)
  qed
qed

lemma hex8_number: "number_in 16 (hex8 n) = n" "list_all is_hex (hex8 n)" "hex8 n \<noteq> []"
proof -
  define k where "k = 8 - length (hex_text n)"
  have h: "hex8 n = replicate k 48 @ us (hex_text n)"
    by (simp add: hex8_def hex_padded_def k_def) (simp add: us_def)
  have z: "foldl (\<lambda>n c. n * 16 + the (digit_value c)) 0 (replicate k 48) = 0"
    by (induction k) (simp_all add: digit_value_def)
  show "number_in 16 (hex8 n) = n"
    using hex_text_number [of n] by (simp add: h number_in_def z)
  have "is_hex 48" by (simp add: is_hex_def digit_value_def)
  then show "list_all is_hex (hex8 n)" "hex8 n \<noteq> []"
    using hex_text_number [of n] unfolding h by (auto simp: list_all_iff us_def)
qed

section \<open>A line\<close>

definition proc_mtd_line :: "mtd_partition \<Rightarrow> ustring" where
  "proc_mtd_line part = us ''mtd'' @ us (dec_text (mp_index part)) @ us '': '' @ hex8 (mp_size part) @ us '' '' @
     hex8 (mp_erase_size part) @ us '' '' @ [0x22] @ mp_name part @ [0x22]"

lemma split_class_append:
  assumes "list_all p xs" "xs \<noteq> []" "ys = [] \<or> \<not> p (hd ys)"
  shows "split_class p (xs @ ys) = Some (xs, ys)"
proof -
  have "takeWhile p (xs @ ys) = xs \<and> dropWhile p (xs @ ys) = ys"
    using assms by (cases ys) (auto simp: list_all_iff takeWhile_append dropWhile_append)
  then show ?thesis using assms(2) by (simp add: split_class_def)
qed

definition plain_name :: "ustring \<Rightarrow> bool" where
  "plain_name name \<longleftrightarrow> name \<noteq> [] \<and> list_all (\<lambda>c. c \<noteq> 0x22 \<and> \<not> is_line_break c) name"

lemma mtd_line_read:
  assumes "plain_name (mp_name part)"
  shows "mtd_line (proc_mtd_line part) = Some part"
proof -
  have us: "us '': '' = [58, 32]" "us '' '' = [32]" "us ''mtd'' = [109, 116, 100]" "us '':'' = [58]" by (simp_all add: us_def)
  note d = dec_text_number [of "mp_index part"] and s = hex8_number [of "mp_size part"] and e = hex8_number [of "mp_erase_size part"]
  have space: "split_class is_space (32 # hex8 n @ rest) = Some ([32], hex8 n @ rest)" for n rest
  proof -
    obtain c cs where "hex8 n = c # cs" using hex8_number(3) [of n] by (cases "hex8 n") auto
    with hex8_number(2) [of n] have "\<not> is_space (hd (hex8 n @ rest))"
      by (auto simp: is_space_def is_hex_def digit_value_def split: if_splits)
    then show ?thesis using split_class_append [of is_space "[32]" "hex8 n @ rest"] by (simp add: is_space_def)
  qed
  have quote: "split_class is_space (32 # 34 # rest) = Some ([32], 34 # rest)" for rest
    using split_class_append [of is_space "[32]" "34 # rest"] by (simp add: is_space_def)
  have hex: "split_class is_hex (hex8 n @ 32 # rest) = Some (hex8 n, 32 # rest)" for n rest
    by (rule split_class_append) (simp_all add: hex8_number is_hex_def digit_value_def)
  have index: "split_class is_decimal (us (dec_text (mp_index part)) @ 58 # rest) = Some (us (dec_text (mp_index part)), 58 # rest)" for rest
    by (rule split_class_append) (use d in \<open>auto simp: is_decimal_def us_def\<close>)
  have name: "split_class (\<lambda>c. c \<noteq> 0x22) (mp_name part @ [34]) = Some (mp_name part, [34])"
    by (rule split_class_append) (use assms in \<open>auto simp: plain_name_def list_all_iff\<close>)
  show ?thesis
    by (simp add: mtd_line_def proc_mtd_line_def us index space quote hex name d s e)
qed

lemma strip_self:
  assumes "t \<noteq> []" "\<not> space (hd t)" "\<not> space (last t)"
  shows "strip_with space t = t"
proof -
  have "dropWhile space t = t" using assms(1,2) by (cases t) simp_all
  moreover have "dropWhile space (rev t) = rev t" using assms(1,3) by (cases t rule: rev_cases) simp_all
  ultimately show ?thesis by (simp add: strip_with_def)
qed

lemma strip_line [simp]: "strip (proc_mtd_line part) = proc_mtd_line part"
  by (rule strip_self) (simp_all add: proc_mtd_line_def us_def is_space_def)

section \<open>A table\<close>

text \<open>The lines, each ended by any number of carriage returns and a line feed.\<close>

definition table_text :: "(ustring \<times> nat) list \<Rightarrow> ustring" where
  "table_text lines = concat (map (\<lambda>(l, n). l @ replicate n 13 @ [10]) lines)"

lemma split_lines_line:
  assumes "list_all (\<lambda>c. \<not> is_line_break c) l"
  shows "split_lines acc (l @ 10 # rest) = (rev acc @ l) # split_lines [] rest"
  using assms by (induction l arbitrary: acc) (simp_all add: is_line_break_def)

lemma splitlines_table:
  assumes "list_all (\<lambda>(l, n). list_all (\<lambda>c. \<not> is_line_break c) l) lines"
  shows "splitlines (filter (\<lambda>c. c \<noteq> 13) (table_text lines)) = map fst lines"
  using assms
proof (induction lines)
  case (Cons line lines)
  obtain l n where line: "line = (l, n)" by fastforce
  have "filter (\<lambda>c. c \<noteq> 13) l = l"
    using Cons.prems by (intro filter_True) (auto simp: line list_all_iff is_line_break_def)
  then have "filter (\<lambda>c. c \<noteq> 13) (table_text (line # lines)) = l @ 10 # filter (\<lambda>c. c \<noteq> 13) (table_text lines)"
    by (simp add: table_text_def line)
  with Cons show ?case by (simp add: line split_lines_line)
qed (simp add: table_text_def)

lemma proc_mtd_line_plain:
  assumes "plain_name (mp_name part)"
  shows "list_all (\<lambda>c. \<not> is_line_break c) (proc_mtd_line part)"
proof -
  have "\<not> is_line_break c" if "is_hex c" for c
    using that by (auto simp: is_line_break_def is_hex_def digit_value_def split: if_splits)
  moreover have "\<not> is_line_break c" if "is_decimal c" for c
    using that by (auto simp: is_line_break_def is_decimal_def)
  ultimately show ?thesis
    using assms dec_text_number [of "mp_index part"] hex8_number(2)
    by (auto simp: proc_mtd_line_def plain_name_def list_all_iff us_def is_line_break_def)
qed

text \<open>The header line of the table is not a partition.\<close>

definition mtd_header :: ustring where
  "mtd_header = us ''dev:    size   erasesize  name''"

lemma header_is_no_partition: "mtd_line (strip mtd_header) = None" "list_all (\<lambda>c. \<not> is_line_break c) mtd_header"
proof -
  have "strip mtd_header = mtd_header" by (rule strip_self) (simp_all add: mtd_header_def us_def is_space_def)
  then show "mtd_line (strip mtd_header) = None" by (simp add: mtd_line_def mtd_header_def us_def)
qed (simp add: mtd_header_def us_def is_line_break_def)

lemma parse_table:
  assumes "parts \<noteq> []" "list_all (\<lambda>part. plain_name (mp_name part)) parts"
  shows "parse_proc_mtd (table_text ((mtd_header, k) # map (\<lambda>part. (proc_mtd_line part, extra part)) parts)) =
    Inr (sort_key mp_index parts)"
proof -
  let ?lines = "(mtd_header, k) # map (\<lambda>part. (proc_mtd_line part, extra part)) parts"
  have "splitlines (filter (\<lambda>c. c \<noteq> 13) (table_text ?lines)) = mtd_header # map proc_mtd_line parts"
    using assms(2) header_is_no_partition(2) proc_mtd_line_plain
    by (subst splitlines_table) (auto simp: list_all_iff)
  moreover have "List.map_filter (\<lambda>raw. mtd_line (strip raw)) (map proc_mtd_line parts) = parts"
    using assms(2) by (induction parts) (simp_all add: map_filter_simps mtd_line_read)
  ultimately have "List.map_filter (\<lambda>raw. mtd_line (strip raw)) (splitlines (filter (\<lambda>c. c \<noteq> 13) (table_text ?lines))) = parts"
    by (simp add: map_filter_simps header_is_no_partition(1))
  then show ?thesis
    using assms(1) by (simp add: parse_proc_mtd_def Let_def del: table_text_def) (metis length_0_conv length_sort)
qed

text \<open>Every table the kernel prints is read back. For any partitions with nonempty names, free of quotes and
  line breaks, the text of their lines under the header, with any number of carriage returns in front of
  each line feed, parses to exactly these partitions, in the order of their indices.\<close>

theorem proc_mtd_round_trip:
  assumes "parts \<noteq> []" "list_all (\<lambda>part. plain_name (mp_name part)) parts"
  shows "parse_proc_mtd (table_text ((mtd_header, k) # map (\<lambda>part. (proc_mtd_line part, extra part)) parts)) =
    Inr (sort_key mp_index parts)"
  using assms by (rule parse_table)

end
