(* ===== verification/Sample_Host.thy ===== *)
theory Sample_Host
  imports Cli_Backup Proc_Mtd
begin

text \<open>
  A small concrete host: one root camera that is always online, whose partitions read as zeros, a terminal
  that takes every line, and a ZIP writer that keeps what it is given. It instantiates the properties of
  the commands.
\<close>

definition zero_hash :: hash_functions where
  "zero_hash = \<lparr>sha256 = (\<lambda>_. KNOWN_BOOTLOADER_SHA256), md5 = (\<lambda>_. ''11'')\<rparr>"

definition zero_partitions :: "mtd_partition list" where
  "zero_partitions = map (\<lambda>(i, sz, n). \<lparr>mp_index = i, mp_size = sz, mp_erase_size = 0x4000, mp_name = us n\<rparr>)
     [(0, 0x40000, ''boot''), (1, 0x150000, ''kernel''), (2, 0x158000, ''root''), (3, 0x4E8000, ''system''),
      (4, 0x10000, ''hwconfig''), (5, 0x20000, ''config'')]"

definition zero_text :: ustring where
  "zero_text = table_text ((mtd_header, 1) # map (\<lambda>part. (proc_mtd_line part, 1)) zero_partitions)"

definition zero_run :: "unit \<Rightarrow> ustring list \<Rightarrow> int \<Rightarrow> process \<times> unit" where
  "zero_run d command timeout =
     (Exited 0 (if last command = us ''get-state'' then ascii ''device''
        else if last command = us ''id'' then ascii ''uid=0''
        else if last command = us ''/proc/mtd'' then map of_nat zero_text else []) [], ())"

definition zero_size :: "ustring \<Rightarrow> nat" where
  "zero_size path = (case List.find (\<lambda>(n, sz). path = us ''/mtd'' @ us n @ us ''.bin'')
       [(''0'', 0x40000), (''1'', 0x150000), (''2'', 0x158000), (''3'', 0x4E8000), (''4'', 0x10000), (''5'', 0x20000)] of
     None \<Rightarrow> 0 | Some (_, sz) \<Rightarrow> sz)"

definition zero_host :: "unit adb_host" where
  "zero_host = \<lparr>ah_run = zero_run, ah_mkdtemp = (\<lambda>d. (Inr [], d)), ah_rmtree = (\<lambda>d _. (Inr (), d)), ah_is_file = (\<lambda>_ _. True),
     ah_read_bytes = (\<lambda>_ path. Inr (replicate (zero_size path) 0)), ah_now = (\<lambda>_. 0), ah_sleep = (\<lambda>d _. d), ah_utc_now = (\<lambda>_. [])\<rparr>"

definition zero_env :: "unit env" where
  "zero_env = \<lparr>ev_hash = zero_hash, 
     ev_rig = \<lparr>rg_host = zero_host, rg_package = None, rg_list = (\<lambda>d. (Inr [], d))\<rparr>,
     ev_console = \<lparr>co_print = (\<lambda>d _. (Inr (), d)), co_isatty = (\<lambda>_. True), co_input = (\<lambda>d _. (Inr [], d))\<rparr>,
     ev_files = \<lparr>read_bytes = (\<lambda>_. Inl OSError), open_zip = (\<lambda>_. None), json_loads = (\<lambda>_. None)\<rparr>,
     ev_is_file = (\<lambda>_. True), ev_path = id, ev_runtime = \<lparr>rt_executable = [], rt_frozen = False, rt_windows = False\<rparr>,
     ev_json_dumps = (\<lambda>_. [])\<rparr>"

definition zero_saver :: saver where
  "zero_saver = \<lparr>sv_json_dumps = (\<lambda>_. []), sv_mkdir = Inr (), sv_mktemp = Inr (),
     sv_zip_write = (\<lambda>members. Inr (map (\<lambda>(n, d). \<lparr>zi_filename = us n, zi_flag_bits = 0, zi_file_size = length d, zi_data = Some d\<rparr>) members)),
     sv_link_error = None\<rparr>"

abbreviation "zero_args \<equiv> \<lparr>ca_adb = us ''adb'', ca_serial = None\<rparr>"
abbreviation "zero_client \<equiv> \<lparr>executable = us ''adb'', serial = None\<rparr>"

section \<open>Its partition table\<close>

lemma zero_names: "list_all (\<lambda>part. plain_name (mp_name part)) zero_partitions"
  by (simp add: zero_partitions_def plain_name_def us_def is_line_break_def)

theorem proc_mtd_round_trip_witness: "parse_proc_mtd zero_text = Inr (sort_key mp_index zero_partitions)"
  unfolding zero_text_def by (rule proc_mtd_round_trip [OF _ zero_names]) (simp add: zero_partitions_def)

lemma zero_parse: "parse_proc_mtd zero_text = Inr zero_partitions"
proof -
  have "sort_key mp_index zero_partitions = zero_partitions" by (simp add: zero_partitions_def)
  moreover have "parse_proc_mtd zero_text = Inr (sort_key mp_index zero_partitions)"
    unfolding zero_text_def using zero_names by (intro parse_table) (simp_all add: zero_partitions_def)
  ultimately show ?thesis by simp
qed

lemma zero_ascii: "decode_ascii (map of_nat zero_text) = Inr zero_text"
proof -
  have "c < 128" if "is_hex c \<or> is_decimal c" for c
    using that by (auto simp: is_hex_def is_decimal_def digit_value_def split: if_splits)
  then have low: "list_all (\<lambda>c. c < 128) (hex8 n)" "list_all (\<lambda>c. c < 128) (us (dec_text n))" for n
    using hex8_number(2) [of n] dec_text_number [of n] by (auto simp: list_all_iff)
  have "list_all (\<lambda>c. c < 128) zero_text"
    using low by (simp add: zero_text_def table_text_def zero_partitions_def proc_mtd_line_def mtd_header_def us_def)
  then have "list_all (\<lambda>b. b < 0x80) (map of_nat zero_text :: bytes)" "map unat (map of_nat zero_text :: bytes) = zero_text"
    by (auto simp: list_all_iff word_less_nat_alt unat_of_nat intro!: map_idI)
  then show ?thesis unfolding decode_ascii_def by (simp only: if_True)
qed

lemma zero_map: "validate_partition_map (map recorded zero_partitions) = Inr ()"
  by (simp add: validate_partition_map_def zero_partitions_def recorded_def EXPECTED_PARTITIONS_def upt_rec FLASH_SIZE_def
      us_def casefold_def fold_point_def)

section \<open>Its commands\<close>

lemma same_outside [simp]: "set_outside st () = st"
  by (cases st; cases "hid st") (simp add: set_outside_def)

lemma zero_ran: "run_process zero_host command timeout st = (fst (zero_run () command timeout), st\<lparr>log := log st @ [Ran command]\<rparr>)"
  by (simp add: run_process_def zero_run_def zero_host_def)

definition zero_reply :: "ustring list \<Rightarrow> bytes" where
  "zero_reply command =
     (if last command = us ''get-state'' then ascii ''device''
        else if last command = us ''id'' then ascii ''uid=0''
        else if last command = us ''/proc/mtd'' then map of_nat zero_text else [])"

lemma zero_adb:
  "adb_run zero_host zero_client args timeout st =
    (Inr (zero_reply (us ''adb'' # args)), st\<lparr>log := log st @ [Ran (us ''adb'' # args)]\<rparr>)"
  by (simp add: adb_run_def zero_ran zero_run_def zero_reply_def base_command_def)

lemma zero_available:
  "ensure_available zero_host zero_client (Some 10000) st = (Inr (), st\<lparr>log := log st @ [Ran [us ''adb'', us ''get-state'']]\<rparr>)"
  by (simp add: ensure_available_def zero_ran zero_run_def base_command_def ascii_def decode_utf8_replace_def strip_with_def
      is_space_def us_def)

lemma zero_identity:
  "\<exists>st'. identity_and_partitions zero_host zero_client st = (Inr (us ''uid=0'', zero_partitions), st')"
proof -
  have id: "strip (decode_utf8_replace (ascii ''uid=0'')) = us ''uid=0''"
    by (simp add: ascii_def decode_utf8_replace_def strip_with_def is_space_def us_def)
  have "contains_text (us ''uid=0'') (us ''uid=0'')" by (simp add: us_def)
  then show ?thesis
    by (simp add: identity_and_partitions_def io_bind_def zero_available adb_shell_def zero_adb zero_reply_def id zero_ascii
        io_lift_def zero_parse zero_map io_return_def us_eq_iff)
qed

lemma zero_fields:
  "ah_is_file zero_host d path" "ah_read_bytes zero_host d path = Inr (replicate (zero_size path) 0)"
  "ah_mkdtemp zero_host d = (Inr [], d)" "ah_rmtree zero_host d path = (Inr (), d)"
  by (simp_all add: zero_host_def)

lemma zero_pull:
  "adb_pull zero_host zero_client remote local timeout st =
    (Inr (), st\<lparr>log := log st @ [Ran [us ''adb'', us ''pull'', remote, local]]\<rparr>)"
  by (simp add: adb_pull_def io_bind_def zero_adb zero_fields)

lemma zero_sizes:
  "zero_size (us ''/mtd'' @ us (dec_text 0) @ us ''.bin'') = 0x40000"
  "zero_size (us ''/mtd'' @ us (dec_text 1) @ us ''.bin'') = 0x150000"
  "zero_size (us ''/mtd'' @ us (dec_text 2) @ us ''.bin'') = 0x158000"
  "zero_size (us ''/mtd'' @ us (dec_text 3) @ us ''.bin'') = 0x4E8000"
  "zero_size (us ''/mtd'' @ us (dec_text 4) @ us ''.bin'') = 0x10000"
  "zero_size (us ''/mtd'' @ us (dec_text 5) @ us ''.bin'') = 0x20000"
  by (simp_all add: zero_size_def dec_text.simps us_def)

lemma zero_read: "\<exists>st'. read_flash_once zero_host zero_client zero_partitions st = (Inr (replicate 0x800000 0), st')"
  by (simp add: read_flash_once_def with_tempdir_def zero_partitions_def zero_pull io_bind_def Let_def zero_fields zero_sizes zero_sizes(2) [unfolded One_nat_def]
      replicate_add [symmetric] FLASH_SIZE_def io_return_def io_lift_def)

section \<open>A backup of it\<close>

lemma zero_say: "say (ev_console zero_env) line st = (Inr (), st)"
  by (simp add: say_def zero_env_def)

lemma zero_lines: "say_lines (ev_console zero_env) lines st = (Inr (), st)"
  by (induction lines) (simp_all add: say_lines_def io_return_def io_lift_def io_bind_def zero_say)

lemma zero_progress: "report_read (read_progress (ev_console zero_env)) attempts consecutive st = (Inr (), st)"
  by (simp add: report_read_def read_progress_def zero_say)

abbreviation "zero_image \<equiv> replicate 0x800000 0 :: bytes"

lemma zero_acquire:
  "\<exists>boot manifest st'. acquire_stable zero_hash zero_host zero_client (read_progress (ev_console zero_env)) st = (Inr (zero_image, manifest), st') \<and>
     bootloader_reference zero_hash zero_image = Inr boot \<and> 
     manifest = backup_manifest zero_hash zero_client (us ''uid=0'') zero_partitions [] zero_image 3 3 boot"
proof -
  let ?read = "read_flash_once zero_host zero_client zero_partitions"
  obtain s0 where s0: "identity_and_partitions zero_host zero_client st = (Inr (us ''uid=0'', zero_partitions), s0)"
    using zero_identity by blast
  define img where "img = zero_image"
  have read: "\<exists>st'. ?read st = (Inr img, st')" for st unfolding img_def by (rule zero_read)
  obtain s1 where s1: "?read s0 = (Inr img, s1)" using read by blast
  obtain s2 where s2: "?read s1 = (Inr img, s2)" using read by blast
  obtain s3 where s3: "?read s2 = (Inr img, s3)" using read by blast
  have "acquire_loop ?read (read_progress (ev_console zero_env)) (Suc (Suc (Suc k))) 0 None 0 s0 = (Inr (Some img, 3, 3), s3)" for k
    by (simp add: io_bind_def s1 s2 s3 zero_progress REQUIRED_IDENTICAL_READS_def io_return_def io_lift_def)
  from this [of 2] have loop: "acquire_loop ?read (read_progress (ev_console zero_env)) 5 0 None 0 s0 = (Inr (Some zero_image, 3, 3), s3)"
    by (simp add: img_def)
  obtain boot where boot: "bootloader_reference zero_hash zero_image = Inr boot"
    by (simp add: bootloader_reference_Inr FLASH_SIZE_def)
  have "acquire_stable zero_hash zero_host zero_client (read_progress (ev_console zero_env)) st =
    (Inr (zero_image, backup_manifest zero_hash zero_client (us ''uid=0'') zero_partitions [] zero_image 3 3 boot), s3)"
    by (simp add: acquire_stable_def MAX_READ_ATTEMPTS_def io_bind_def s0 loop boot) (simp add: zero_host_def)
  with boot show ?thesis by blast
qed

abbreviation "zero_station \<equiv> \<lparr>hid = \<lparr>device = (), trace = [], reported = []\<rparr>, log = []\<rparr>"

lemma zero_saved:
  "\<exists>items. save_backup zero_saver id (us ''b.zip'') zero_image manifest Map.empty = (Inr (us ''b.zip''), [us ''b.zip'' \<mapsto> items])"
proof -
  have zip: "validate_backup_archive_path (us ''b.zip'') = Inr ()"
    by (simp add: validate_backup_archive_path_def path_suffix_def path_name_def us_def casefold_def fold_point_def Let_def)
  have nl: "encode_utf8 [10] = Inr [10]" by (simp add: encode_utf8_def utf8_char_def)
  have "check_written_archive [\<lparr>zi_filename = us BACKUP_IMAGE_MEMBER, zi_flag_bits = 0, zi_file_size = n, zi_data = Some d\<rparr>,
      \<lparr>zi_filename = us BACKUP_MANIFEST_MEMBER, zi_flag_bits = 0, zi_file_size = k, zi_data = Some d'\<rparr>] = Inr ()" for n d k d'
    by (simp add: check_written_archive_def BACKUP_ARCHIVE_MEMBERS_def)
  with zip nl show ?thesis by (simp add: save_backup_def zero_saver_def FLASH_SIZE_def) blast
qed

lemma zero_backup:
  "\<exists>st' sh'. command_backup zero_env zero_saver id zero_args (us ''b.zip'') None (zero_station, Map.empty) = (Inr (), (st', sh'))"
proof -
  obtain boot manifest st' where a: "acquire_stable zero_hash zero_host zero_client (read_progress (ev_console zero_env)) zero_station =
      (Inr (zero_image, manifest), st')" "bootloader_reference zero_hash zero_image = Inr boot"
    "manifest = backup_manifest zero_hash zero_client (us ''uid=0'') zero_partitions [] zero_image 3 3 boot"
    using zero_acquire [of zero_station] by blast
  have "boot = expected_bootloader zero_hash zero_image" using a(2) by (simp add: bootloader_reference_Inr)
  then have acc: "bootloader_acceptance zero_args (us ''b.zip'') None manifest = Inr ''known-reference''"
    by (simp add: bootloader_acceptance_def a(3) backup_manifest_def json_get_keyed expected_bootloader_def Let_def zero_hash_def)
  obtain items where s: "save_backup zero_saver id (us ''b.zip'') zero_image (accepted_manifest manifest ''known-reference'') Map.empty =
      (Inr (us ''b.zip''), [us ''b.zip'' \<mapsto> items])" using zero_saved by blast
  have f: "ev_path zero_env = id" "ev_hash zero_env = zero_hash" "rg_host (ev_rig zero_env) = zero_host" "adb_of zero_args = zero_client"
    by (simp_all add: zero_env_def adb_of_def)
  have zip: "validate_backup_archive_path (us ''b.zip'') = Inr ()"
    by (simp add: validate_backup_archive_path_def path_suffix_def path_name_def us_def casefold_def fold_point_def Let_def)
  show ?thesis
    by (simp add: command_backup_def Let_def f zip on_station_def on_shelf_def io_catch_def io_bind_def a(1) acc s zero_lines io_lift_def
        del: replicate.simps)
qed

theorem backup_can_be_restored_witness:
  "\<exists>fs. load_preserved_backup zero_hash fs (\<lambda>_. True) (us ''b.zip'') = Inr (zero_image, hashes zero_hash zero_image)"
proof -
  obtain st' sh' where run: "command_backup zero_env zero_saver id zero_args (us ''b.zip'') None (zero_station, Map.empty) = (Inr (), (st', sh'))"
    using zero_backup by blast
  obtain boot manifest s1 where a: "acquire_stable zero_hash zero_host zero_client (read_progress (ev_console zero_env)) zero_station =
      (Inr (zero_image, manifest), s1)" using zero_acquire [of zero_station] by blast
  define m where "m = accepted_manifest manifest (if known_reference zero_hash zero_image then ''known-reference'' else ''explicit-hash'')"
  define fs where "fs = \<lparr>read_bytes = (\<lambda>_. Inl OSError), open_zip = sh', json_loads = (\<lambda>_. Some (sorted_json (JObject m)))\<rparr>"
  have f: "ev_path zero_env = id" "ev_hash zero_env = zero_hash" "rg_host (ev_rig zero_env) = zero_host" "adb_of zero_args = zero_client"
    by (simp_all add: zero_env_def adb_of_def)
  have nl: "encode_utf8 [10] = Inr [10]" by (simp add: encode_utf8_def utf8_char_def)
  have "\<exists>img manifest s2 info.
      acquire_stable zero_hash zero_host zero_client (read_progress (ev_console zero_env)) zero_station = (Inr (img, manifest), s2) \<and>
      load_preserved_backup zero_hash fs (\<lambda>_. True) (us ''b.zip'') = Inr (img, hashes zero_hash img) \<and>
      read_image_source zero_hash fs (us ''b.zip'') = Inr (img, info) \<and> si_evidenced info = 3"
    by (rule backup_can_be_restored [OF run, where fs = fs and is_file = "\<lambda>_. True", unfolded f id_apply])
      (auto simp: fs_def zero_saver_def a nl m_def)
  with a show ?thesis by auto
qed

end
