(* ===== verification/Cli_Restore.thy ===== *)
theory Cli_Restore
  imports Cli
begin

text \<open>
  The commands of \<open>cc2camera/cli.py\<close> that act on the camera: \<open>start-adb\<close> and \<open>restore\<close>, with the dry run. Their
  waits have fuel, so an operation may also run out of it (\<open>None\<close>). The progress lines of the transfer
  are the \<open>reported\<close> pairs of the HID world, and are not printed.
\<close>

section \<open>Operations that wait\<close>

type_synonym ('w, 'a) waiting = "'w \<Rightarrow> ('a res \<times> 'w) option"

definition at_once :: "('w, 'a) io \<Rightarrow> ('w, 'a) waiting" where
  "at_once m w = Some (m w)"

definition and_then :: "('w, 'a) waiting \<Rightarrow> ('a \<Rightarrow> ('w, 'b) waiting) \<Rightarrow> ('w, 'b) waiting" where
  "and_then m f w =
     (case m w of None \<Rightarrow> None | Some (Inl e, w') \<Rightarrow> Some (Inl e, w') | Some (Inr x, w') \<Rightarrow> f x w')"

definition rescue :: "('w, 'a) waiting \<Rightarrow> (exn \<Rightarrow> ('w, 'a) waiting) \<Rightarrow> ('w, 'a) waiting" where
  "rescue m handler w =
     (case m w of None \<Rightarrow> None | Some (Inl e, w') \<Rightarrow> handler e w' | Some (Inr x, w') \<Rightarrow> Some (Inr x, w'))"

text \<open>\<open>except ProtocolError as exc: raise ProtocolError(...) from exc\<close>.\<close>

definition as_protocol_error :: "(exn \<Rightarrow> exn) \<Rightarrow> exn \<Rightarrow> ('w, 'a) waiting" where
  "as_protocol_error f e = at_once (io_raise (if is_protocol_error e then f e else e))"

definition clock :: "'s adb_host \<Rightarrow> ('s station, int) io" where
  "clock host st = (Inr (ah_now host (outside st)), st)"

text \<open>The wait of the HID transport, on the station.\<close>

definition wait_hid :: "nat \<Rightarrow> 's env \<Rightarrow> nat \<Rightarrow> nat \<Rightarrow> int \<Rightarrow> ('s station, unit) waiting" where
  "wait_hid fuel env vid pid timeout st =
     (let rig = ev_rig env
      in case wait_for_hid fuel (rg_package rig) (ah_now (rg_host rig)) (ah_sleep (rg_host rig)) vid pid timeout (hid st) of
           None \<Rightarrow> None
         | Some (r, w) \<Rightarrow> Some (on_hid (\<lambda>_. (r, w)) st))"

definition wait_adb :: "nat \<Rightarrow> 's env \<Rightarrow> adb_client \<Rightarrow> int \<Rightarrow> ('s station, unit) waiting" where
  "wait_adb fuel env cl timeout = wait_for_device fuel (rg_host (ev_rig env)) cl (Some timeout)"

section \<open>\<open>start-adb\<close>\<close>

definition command_start_adb :: "nat \<Rightarrow> 's env \<Rightarrow> common_args \<Rightarrow> int \<Rightarrow> ('s station, unit) waiting" where
  "command_start_adb fuel env args timeout =
     (let host = rg_host (ev_rig env); cl = adb_of args; tell = say_lines (ev_console env)
      in and_then (at_once (io_catch (io_bind (ensure_available host cl (Some 10000)) (\<lambda>_. io_return None))
           (\<lambda>e. case e of AdbUnavailable _ \<Rightarrow> io_return (Some e) | _ \<Rightarrow> io_raise e))) (\<lambda>unavailable.
         case unavailable of
           None \<Rightarrow> at_once
             (io_bind (identity_and_partitions host cl) (\<lambda>(identity, _).
              tell [us ''ADB is already online; no HID command was sent. Identity: '' @ identity,
                us ''You can now run cc2camera backup <output.zip>.'']))
         | Some e \<Rightarrow>
             and_then (at_once
               (io_bind (tell [us ''ADB is unavailable: '' @ message_of e,
                  us ''Starting /bin/adbd once through the normal-HID upload command. No persistent startup file will be installed.'',
                  us ''The final upload commit is expected to report failure or disconnect; ADB availability is the success signal.'']) (\<lambda>_.
                on_hid (start_adb_through_upload_command (rg_package (ev_rig env)))))) (\<lambda>_.
             and_then (wait_adb fuel env cl timeout) (\<lambda>_. at_once
               (io_bind (identity_and_partitions host cl) (\<lambda>(identity, _).
                tell [us ''ADB started for this boot. Root identity: '' @ identity,
                  us ''No flash backup was read and no persistent startup file was installed.'',
                  us ''Next:'',
                  invocation (ev_runtime env) (tl (common_command args ''backup'') @ [us ''backup.zip''])]))))))"

section \<open>The dry run\<close>

definition plan_json :: "'s env \<Rightarrow> ustring \<Rightarrow> ustring option \<Rightarrow> bytes \<Rightarrow> (string \<times> json) list option \<Rightarrow> bytes \<Rightarrow> update_plan \<Rightarrow> json" where
  "plan_json env image_path backup_path img backup_hashes blob plan = JObject
     [(us ''image'', JStr image_path), (us ''image_size'', jint (length img)),
      (us ''image_sha256'', jstr (sha256 (ev_hash env) img)), (us ''image_md5'', jstr (md5 (ev_hash env) img)),
      (us ''preserved_backup'', text_json backup_path),
      (us ''preserved_backup_sha256'', (case backup_hashes of None \<Rightarrow> JNull | Some h \<Rightarrow> json_get (keyed h) ''sha256'')),
      (us ''preserved_backup_compatible'', JBool (backup_path \<noteq> None)),
      (us ''flash_offset'', JInt (flash_offset plan)), (us ''transfer_size'', JInt (transfer_size plan)),
      (us ''packets'', JInt (packet_count plan)), (us ''packet_payload'', JInt (packet_payload_size plan)),
      (us ''metadata_and_image_header_built'', JBool (blob \<noteq> [])), (us ''writes_performed'', JBool False)]"

definition command_plan :: "'s env \<Rightarrow> ustring \<Rightarrow> ustring \<Rightarrow> ('s station, unit) io" where
  "command_plan env image_arg backup_arg =
     (let image_path = ev_path env image_arg;
          backup_path = (if backup_arg = [] then None else Some (ev_path env backup_arg))
      in io_bind (io_lift (
           res_bind (read_bytes (ev_files env) image_path) (\<lambda>img.
           res_bind (validate_full_restore_image img) (\<lambda>_.
           res_bind (case backup_path of None \<Rightarrow> Inr None | Some path \<Rightarrow>
             res_bind (load_preserved_backup (ev_hash env) (ev_files env) (ev_is_file env) path) (\<lambda>(backup_image, backup_hashes).
             res_bind (validate_replacement_against_backup img backup_image) (\<lambda>_.
             res_bind (validate_preparation_image (ev_hash env) backup_image) (\<lambda>_. Inr (Some backup_hashes))))) (\<lambda>backup_hashes.
           res_bind (build_update_blob md5_digest img 0) (\<lambda>(blob, plan).
           Inr (plan_json env image_path backup_path img backup_hashes blob plan))))))) (say_json env))"

section \<open>\<open>restore\<close>\<close>

record restore_options =
  ro_common :: common_args
  ro_image :: ustring
  ro_backup :: ustring
  ro_dry_run :: bool
  ro_bootloader_timeout :: int
  ro_reboot_timeout :: int
  ro_adb_timeout :: int

definition confirm :: "'s env \<Rightarrow> ustring \<Rightarrow> bytes \<Rightarrow> ustring \<Rightarrow> ('s station, unit) io" where
  "confirm env image_path img backup_path =
     io_bind (isatty (ev_console env)) (\<lambda>tty.
     if \<not> tty then io_raise (ProtocolError ''restore requires an interactive RESTORE-CC2 confirmation; nothing was written'')
     else io_bind (say_lines (ev_console env)
         [us ''WRITE OPERATION'', us ''Input:  '' @ image_path, us ''Range:  0x000000-0x7fffff'',
          us ''SHA256: '' @ us (sha256 (ev_hash env) img), us ''Backup: '' @ backup_path,
          us ''Requires online root ADB; temporarily sets the driver erase size to 4 KiB.'']) (\<lambda>_.
       io_bind (ask (ev_console env) (us ''Type RESTORE-CC2 to continue: '')) (\<lambda>phrase.
       if phrase \<noteq> us ''RESTORE-CC2'' then io_raise (ProtocolError ''confirmation did not match; nothing was written'')
       else io_return ())))"

definition confirm_temporary_adb_for_readback :: "'s env \<Rightarrow> ('s station, unit) io" where
  "confirm_temporary_adb_for_readback env =
     io_bind (isatty (ev_console env)) (\<lambda>tty.
     if \<not> tty then io_raise (ProtocolError ''ADB is offline after restore; temporary ADB startup requires an interactive confirmation. No HID ADB-start command was sent, and the restore is not post-verified'')
     else io_bind (ask (ev_console env) (us ''ADB is offline after restore. Start /bin/adbd temporarily through normal HID for post-write readback? [y/N] '')) (\<lambda>answer.
       if casefold (strip answer) \<noteq> us ''y'' \<and> casefold (strip answer) \<noteq> us ''yes''
       then io_raise (ProtocolError ''temporary ADB startup was declined. No HID ADB-start command was sent, and the restore is not post-verified'')
       else io_return ()))"

text \<open>The checks on this host and the confirmation; it returns the image, the preserved image, the blob and its plan.\<close>

definition restore_confirmed :: "'s env \<Rightarrow> restore_options \<Rightarrow> ('s station, bytes \<times> bytes \<times> bytes \<times> update_plan) io" where
  "restore_confirmed env args =
     io_bind (io_lift (
       res_bind (load_preserved_backup (ev_hash env) (ev_files env) (ev_is_file env) (ev_path env (ro_backup args))) (\<lambda>(backup_image, backup_hashes).
       res_bind (read_bytes (ev_files env) (ev_path env (ro_image args))) (\<lambda>img.
       res_bind (validate_full_restore_image img) (\<lambda>_.
       res_bind (validate_replacement_against_backup img backup_image) (\<lambda>_.
       Inr (img, backup_image, map_of (hashes (ev_hash env) img) ''sha256'' = map_of backup_hashes ''sha256''))))))) (\<lambda>(img, backup_image, same).
     io_bind (if same then say (ev_console env) (us ''Note: replacement image is byte-identical to the preserved backup.'') else io_return ()) (\<lambda>_.
     io_bind (io_lift (build_update_blob md5_digest img 0)) (\<lambda>(blob, plan).
     io_bind (io_lift (validate_preparation_image (ev_hash env) backup_image)) (\<lambda>_.
     io_bind (confirm env (ev_path env (ro_image args)) img (ev_path env (ro_backup args))) (\<lambda>_.
     io_return (img, backup_image, blob, plan))))))"

text \<open>The write itself: preparing the camera, entering the bootloader, the transfer and the return to normal mode.\<close>

definition restore_write :: "nat \<Rightarrow> 's env \<Rightarrow> restore_options \<Rightarrow> bytes \<Rightarrow> bytes \<Rightarrow> update_plan \<Rightarrow> ('s station, unit) waiting" where
  "restore_write fuel env args backup_image blob plan =
     (let rig = ev_rig env; tell = say_lines (ev_console env)
      in and_then (at_once
           (io_bind (tell [us ''Validating the live camera and preparing its temporary SFC erase size.'']) (\<lambda>_.
            io_bind (prepare_restore (ev_hash env) rig (adb_of (ro_common args)) backup_image (read_progress (ev_console env))) (\<lambda>_.
            io_bind (tell [us ''Entering bootloader HID mode; the 8-byte flag write begins now.'']) (\<lambda>_.
            on_hid (enter_bootloader (rg_package rig))))))) (\<lambda>_.
         and_then (wait_hid fuel env BOOT_VID BOOT_HID_PID (ro_bootloader_timeout args)) (\<lambda>_.
         and_then (at_once
           (io_bind (on_hid (restore_blob (rg_package rig) blob plan True)) (\<lambda>_.
            tell [us ''Bootloader accepted the image MD5 and has started erase/write.'',
              us ''Do not disconnect power; waiting for normal-mode USB to return.'']))) (\<lambda>_.
         wait_hid fuel env NORMAL_VID NORMAL_PID (ro_reboot_timeout args)))))"

definition not_post_verified :: exn where
  "not_post_verified = ProtocolError ''normal HID returned, but ADB readback did not become available; write is not post-verified''"

text \<open>ADB for the readback: online already, or started once more after a separate consent.\<close>

definition start_for_readback :: "nat \<Rightarrow> 's env \<Rightarrow> adb_client \<Rightarrow> int \<Rightarrow> ('s station, unit) waiting" where
  "start_for_readback fuel env cl adb_deadline =
     and_then (at_once (confirm_temporary_adb_for_readback env)) (\<lambda>_.
     and_then (at_once (clock (rg_host (ev_rig env)))) (\<lambda>now.
     if adb_deadline - now \<le> 0
     then at_once (io_raise (ProtocolError ''post-restore ADB availability timeout expired before the temporary start. No HID ADB-start command was sent, and the restore is not post-verified''))
     else and_then (rescue (at_once (on_hid (start_adb_through_upload_command (rg_package (ev_rig env)))))
         (as_protocol_error (\<lambda>_. ProtocolError ''normal HID returned, but the explicitly confirmed temporary ADB start failed; write is not post-verified''))) (\<lambda>_.
       and_then (at_once (clock (rg_host (ev_rig env)))) (\<lambda>now.
       if adb_deadline - now \<le> 0
       then at_once (io_raise (ProtocolError ''post-restore ADB availability timeout expired after the confirmed temporary start; write is not post-verified''))
       else rescue (wait_adb fuel env cl (adb_deadline - now)) (as_protocol_error (\<lambda>_. not_post_verified))))))"

definition adb_for_readback :: "nat \<Rightarrow> 's env \<Rightarrow> adb_client \<Rightarrow> int \<Rightarrow> ('s station, unit) waiting" where
  "adb_for_readback fuel env cl adb_timeout =
     and_then (at_once (clock (rg_host (ev_rig env)))) (\<lambda>now.
     let adb_deadline = now + adb_timeout
     in rescue (at_once (io_bind (clock (rg_host (ev_rig env))) (\<lambda>now.
          let remaining = adb_deadline - now
          in if remaining \<le> 0 then io_raise (ProtocolError ''post-restore ADB availability timeout expired; write is not post-verified'')
             else ensure_available (rg_host (ev_rig env)) cl (Some (min 10000 remaining)))))
        (\<lambda>e. case e of AdbUnavailable _ \<Rightarrow> start_for_readback fuel env cl adb_deadline
           | _ \<Rightarrow> as_protocol_error (\<lambda>_. not_post_verified) e))"

text \<open>The stable readback and its comparison with the image.\<close>

definition readback :: "'s env \<Rightarrow> adb_client \<Rightarrow> bytes \<Rightarrow> ('s station, unit) io" where
  "readback env cl img =
     io_bind (io_catch (acquire_stable (ev_hash env) (rg_host (ev_rig env)) cl (read_progress (ev_console env)))
       (\<lambda>e. if is_protocol_error e
            then io_raise (ProtocolErrorText (us ''ADB became available, but stable post-write readback failed; write is not post-verified: '' @ message_of e))
            else io_raise e)) (\<lambda>(verified, _).
     io_bind (io_lift (validate_post_restore_readback img verified)) (\<lambda>config_exact.
     say_lines (ev_console env)
       [if config_exact then us ''Restore complete: three consecutive post-write reads exactly match the input image.''
        else us ''Restore complete: three consecutive post-write reads match every boot-stable byte through HWCONFIG. Config changed during the required verification boot and was not claimed byte-exact.'',
        us ''SHA256: '' @ us (sha256 (ev_hash env) img)]))"

definition command_restore :: "nat \<Rightarrow> 's env \<Rightarrow> restore_options \<Rightarrow> ('s station, unit) waiting" where
  "command_restore fuel env args =
     (if ro_dry_run args then at_once (command_plan env (ro_image args) (ro_backup args))
      else
        let cl = adb_of (ro_common args)
        in and_then (at_once (restore_confirmed env args)) (\<lambda>(img, backup_image, blob, plan).
           and_then (restore_write fuel env args backup_image blob plan) (\<lambda>_.
           and_then (at_once (say_lines (ev_console env)
             [us ''Normal mode returned; requiring three consecutive identical flash reads for post-write verification.''])) (\<lambda>_.
           and_then (adb_for_readback fuel env cl (ro_adb_timeout args)) (\<lambda>_.
           at_once (readback env cl img))))))"

end
