(* ===== verification/Restore_Props.thy ===== *)
theory Restore_Props
  imports Cli_Restore
begin

text \<open>
  What \<open>restore\<close> promises: no HID report is sent before everything has been checked and confirmed, the
  bootloader receives the very image that was checked, and success means that a stable readback
  agrees with it.
\<close>

section \<open>Operations and their traces\<close>

text \<open>
  \<open>extends m\<close>: an operation only appends to the log. \<open>offline m\<close>: it appends nothing to the trace of
  HID events either.
\<close>

definition extends :: "('s station, 'a) waiting \<Rightarrow> bool" where
  "extends m \<longleftrightarrow> (\<forall>st r st'. m st = Some (r, st') \<longrightarrow> prefix (log st) (log st'))"

definition offline :: "('s station, 'a) waiting \<Rightarrow> bool" where
  "offline m \<longleftrightarrow> (\<forall>st r st'. m st = Some (r, st') \<longrightarrow> trace (hid st') = trace (hid st))"

lemma at_once_Some [simp]: "at_once m st = Some (r, st') \<longleftrightarrow> m st = (r, st')"
  by (auto simp: at_once_def)

lemma and_then_Some:
  "and_then m f st = Some (r, st') \<longleftrightarrow>
     (\<exists>e. m st = Some (Inl e, st') \<and> r = Inl e) \<or> (\<exists>x st1. m st = Some (Inr x, st1) \<and> f x st1 = Some (r, st'))"
  by (auto simp: and_then_def split: option.splits sum.splits)

lemma rescue_Some:
  "rescue m h st = Some (r, st') \<longleftrightarrow>
     (\<exists>x. m st = Some (Inr x, st') \<and> r = Inr x) \<or> (\<exists>e st1. m st = Some (Inl e, st1) \<and> h e st1 = Some (r, st'))"
  by (auto simp: rescue_def split: option.splits sum.splits)

lemma extends_and_then: "extends m \<Longrightarrow> (\<And>x. extends (f x)) \<Longrightarrow> extends (and_then m f)"
  unfolding extends_def and_then_Some by (metis prefix_order.trans)

lemma extends_rescue: "extends m \<Longrightarrow> (\<And>e. extends (h e)) \<Longrightarrow> extends (rescue m h)"
  unfolding extends_def rescue_Some by (metis prefix_order.trans)

lemma offline_and_then: "offline m \<Longrightarrow> (\<And>x. offline (f x)) \<Longrightarrow> offline (and_then m f)"
  unfolding offline_def and_then_Some by metis

lemma offline_rescue: "offline m \<Longrightarrow> (\<And>e. offline (h e)) \<Longrightarrow> offline (rescue m h)"
  unfolding offline_def rescue_Some by metis

lemma only_runs_extends: "only_runs cl P m \<Longrightarrow> extends (at_once m)"
  unfolding extends_def at_once_Some by (auto elim!: only_runsD)

lemma only_runs_offline: "only_runs cl P m \<Longrightarrow> offline (at_once m)"
  unfolding offline_def at_once_Some by (auto elim!: only_runsD)

lemma extends_hid: "extends (at_once (on_hid m))"
  by (auto simp: extends_def on_hid_def split: prod.splits)

lemma extends_bind: "extends (at_once m) \<Longrightarrow> (\<And>x. extends (at_once (f x))) \<Longrightarrow> extends (at_once (io_bind m f))"
  unfolding extends_def at_once_Some io_bind_def
  by (auto split: prod.splits sum.splits) (meson prefix_order.trans)+

lemma wait_loop_trace:
  "wait_loop fuel package now sleep vid pid deadline w = Some (r, w') \<Longrightarrow> trace w' = trace w"
proof (induction fuel arbitrary: w)
  case (Suc fuel)
  then show ?case
    by (auto simp: io_bind_def io_lift_def enumerate_ids_def hid_module_def
        split: if_splits option.splits sum.splits prod.splits dest!: Suc.IH)
qed simp

lemma wait_hid_extends: "extends (wait_hid fuel env vid pid timeout)"
  by (auto simp: extends_def wait_hid_def on_hid_def Let_def split: option.splits prod.splits)

lemma wait_hid_offline: "offline (wait_hid fuel env vid pid timeout)"
  by (auto simp: offline_def wait_hid_def on_hid_def Let_def wait_for_hid_def split: option.splits prod.splits
      dest!: wait_loop_trace)

lemma ensure_available_quiet:
  assumes "ensure_available host cl (Some t) st = (r, st')"
  shows "prefix (log st) (log st') \<and> trace (hid st') = trace (hid st)"
proof (cases "t \<le> 0")
  case True
  with assms show ?thesis by (auto simp: ensure_available_def)
next
  case False
  then show ?thesis using ensure_available_polls [OF assms] by (metis not_less prefixI)
qed

lemma wait_adb_quiet:
  "wait_device_loop fuel host cl deadline st = Some (r, st') \<Longrightarrow> prefix (log st) (log st') \<and> trace (hid st') = trace (hid st)"
proof (induction fuel arbitrary: st)
  case (Suc fuel)
  show ?case
  proof (cases "deadline - ah_now host (outside st) \<le> 0")
    case True
    with Suc.prems show ?thesis by simp
  next
    case False
    obtain q st1 where poll: "ensure_available host cl (Some (min 10000 (deadline - ah_now host (outside st)))) st = (q, st1)" by fastforce
    note quiet = ensure_available_quiet [OF poll]
    let ?st2 = "set_outside st1 (ah_sleep host (outside st1) (min 500 (deadline - ah_now host (outside st1))))"
    have "st' = st1 \<or> wait_device_loop fuel host cl deadline ?st2 = Some (r, st')"
      using Suc.prems False poll by (auto simp: Let_def split: sum.splits if_splits)
    then show ?thesis
    proof
      assume "wait_device_loop fuel host cl deadline ?st2 = Some (r, st')"
      from Suc.IH [OF this] quiet show ?thesis by (auto intro: prefix_order.trans)
    qed (use quiet in simp)
  qed
qed simp

lemma wait_adb_extends: "extends (wait_adb fuel env cl timeout)" and wait_adb_offline: "offline (wait_adb fuel env cl timeout)"
  unfolding extends_def offline_def wait_adb_def wait_for_device_def
  by (auto dest!: wait_adb_quiet split: if_splits)

section \<open>Sessions\<close>

text \<open>What one session with a device leaves in the trace: nothing, or the device is opened, follows the plan as far
  as it answers as planned, and is closed. The session is done when the plan is completed.\<close>

definition session :: "nat \<Rightarrow> nat \<Rightarrow> exchange list \<Rightarrow> hid_event list \<Rightarrow> bool \<Rightarrow> bool" where
  "session vid pid xs tr finished \<longleftrightarrow>
     tr = [] \<and> \<not> finished \<or>
     (\<exists>t. tr = [Opened vid pid] @ t @ [Closed] \<and> follows xs t \<and> (finished \<longleftrightarrow> completes xs t))"

lemma conducts_session:
  assumes "conducts m vid pid xs" "on_hid m st = (r, st')"
  shows "\<exists>tr. trace (hid st') = trace (hid st) @ tr \<and> session vid pid xs tr (\<not> isl r)"
proof -
  obtain w where m: "m (hid st) = (r, w)" "hid st' = w" using assms(2) by (auto simp: on_hid_def split: prod.splits)
  then have "(isl r \<and> trace w = trace (hid st)) \<or> (\<exists>t. trace w = trace (hid st) @ [Opened vid pid] @ t @ [Closed] \<and>
      follows xs t \<and> (\<not> isl r \<longleftrightarrow> completes xs t))"
    using assms(1) unfolding conducts_def by blast
  then show ?thesis unfolding m(2) session_def by auto
qed

text \<open>The one frame that enters the bootloader: the upgrade magic with the HID transport flag.\<close>

definition enter_frame :: normal_frame where
  "enter_frame = \<lparr>nf_command = 0x4000, nf_frame_type = 1, nf_status = 0,
     nf_payload = [0x54, 0x44, 0x50, 0x55] @ [word_of_int (UPGRADE_MODE_HID mod 256), 3, 2, 1]\<rparr>"

lemma enter_bootloader_runs: "conducts (enter_bootloader package) 0xA108 0x2240 [planned enter_frame]"
proof -
  let ?report = "frame_report enter_frame"
  have request: "build_upgrade_request UPGRADE_MODE_HID 0x4000 = Inr ?report"
    by (simp add: upgrade_request_flags frame_report_def enter_frame_def constants)
  have "parse_normal_report ?report = Inr enter_frame"
    by (simp add: frame_report_def enter_frame_def parse_normal_layout_frame)
  from carries_out_exchange [OF this] have "carries_out (exchange handle ?report) [planned enter_frame]" for handle :: "'s hid_api"
    by (simp add: planned_def)
  then have "conducts (with_handle package NORMAL_VID NORMAL_PID (\<lambda>handle. exchange handle ?report)) NORMAL_VID NORMAL_PID [planned enter_frame]"
    by (rule conducts_with_handle)
  then show ?thesis
    unfolding enter_bootloader_def request io_bind_lift by (simp add: NORMAL_VID_def NORMAL_PID_def)
qed

text \<open>A session of the ADB start: it sends the start of its four fixed reports.\<close>

definition adb_session :: "hid_event list \<Rightarrow> bool" where
  "adb_session tr \<longleftrightarrow> tr = [] \<or>
     (\<exists>t. tr = [Opened 0xA108 0x2240] @ t @ [Closed] \<and> prefix (writes t) (map frame_report (adb_frames @ [commit_frame])))"

lemma adb_start_session:
  assumes "on_hid (start_adb_through_upload_command package) st = (r, st')"
  shows "\<exists>tr. trace (hid st') = trace (hid st) @ tr \<and> adb_session tr"
proof -
  obtain w where m: "start_adb_through_upload_command package (hid st) = (r, w)" "hid st' = w"
    using assms by (auto simp: on_hid_def split: prod.splits)
  have plan: "map fst (map planned adb_frames) = map frame_report adb_frames"
    by (simp add: planned_def normal_plan_def)
  have strict: "prefix (writes t) (map frame_report (adb_frames @ [commit_frame]))" if "follows (map planned adb_frames) t" for t
  proof -
    have "prefix (writes t) (map frame_report adb_frames)" using follows_writes [OF that] unfolding plan .
    then show ?thesis by (auto simp: prefix_def)
  qed
  have last: "prefix (writes (t1 @ Wrote (frame_report commit_frame) # t2)) (map frame_report (adb_frames @ [commit_frame]))"
    if "completes (map planned adb_frames) t1" "follows [planned commit_frame] (Wrote (frame_report commit_frame) # t2)" for t1 t2
    using completes_writes [OF that(1)] follows_writes [OF that(2)] plan by (simp add: planned_def normal_plan_def)
  have "trace w = trace (hid st) \<or> (\<exists>t. trace w = trace (hid st) @ [Opened 0xA108 0x2240] @ t @ [Closed] \<and>
      prefix (writes t) (map frame_report (adb_frames @ [commit_frame])))"
    using adb_start_runs [OF m(1)] strict last by blast
  then show ?thesis unfolding m(2) adb_session_def by auto
qed

section \<open>The stages of \<open>restore\<close>\<close>

lemma only_runs_pair: "(\<And>x y. only_runs cl P (f x y)) \<Longrightarrow> only_runs cl P (case p of (x, y) \<Rightarrow> f x y)"
  by (cases p) simp

lemma only_runs_ask [runs]: "only_runs cl P (ask console prompt)" "only_runs cl P (isatty console)"
  by (rule only_runs_pure; auto simp: ask_def isatty_def set_outside_def split: prod.split option.split)+

lemma only_runs_say_lines [runs]: "only_runs cl P (say_lines console lines)"
  unfolding say_lines_def by (intro only_runs_each runs)

lemma confirm_runs [runs]: "only_runs cl P (confirm env image_path img backup_path)"
  unfolding confirm_def by (intro only_runs_bind only_runs_if runs only_runs_lift)

lemma restore_confirmed_runs: "only_runs cl P (restore_confirmed env args)"
  unfolding restore_confirmed_def by (intro only_runs_bind only_runs_pair only_runs_if only_runs_lift runs)

lemma command_plan_runs: "only_runs cl P (command_plan env image_arg backup_arg)"
  unfolding command_plan_def Let_def say_json_def by (intro only_runs_bind only_runs_lift runs)

text \<open>The consent: at a terminal, the phrase was read last, after the description of the operation was printed.\<close>

definition consented :: "'s console \<Rightarrow> 's station \<Rightarrow> bool" where
  "consented console st' \<longleftrightarrow>
     (\<exists>st st1 lines st2. isatty console st = (Inr True, st1) \<and> say_lines console lines st1 = (Inr (), st2) \<and>
        ask console (us ''Type RESTORE-CC2 to continue: '') st2 = (Inr (us ''RESTORE-CC2''), st'))"

lemma confirm_consented: "confirm env image_path img backup_path st = (Inr (), st') \<Longrightarrow> consented (ev_console env) st'"
  unfolding confirm_def consented_def by (clarsimp elim!: io_bind_InrE split: if_splits) blast

text \<open>What has been checked before the camera is touched.\<close>

definition restore_input :: "'s env \<Rightarrow> restore_options \<Rightarrow> bytes \<Rightarrow> bytes \<Rightarrow> bytes \<Rightarrow> update_plan \<Rightarrow> bool" where
  "restore_input env args img backup blob plan \<longleftrightarrow>
     read_bytes (ev_files env) (ev_path env (ro_image args)) = Inr img \<and>
     (\<exists>hashes. load_preserved_backup (ev_hash env) (ev_files env) (ev_is_file env) (ev_path env (ro_backup args)) = Inr (backup, hashes)) \<and>
     validate_full_restore_image img = Inr () \<and> validate_replacement_against_backup img backup = Inr () \<and>
     validate_preparation_image (ev_hash env) backup = Inr () \<and> build_update_blob md5_digest img 0 = Inr (blob, plan)"

lemma restore_confirmed_Inr:
  assumes "restore_confirmed env args st = (Inr (img, backup, blob, plan), st')"
  shows "restore_input env args img backup blob plan" "consented (ev_console env) st'"
  using assms unfolding restore_confirmed_def restore_input_def
  by (auto elim!: io_bind_InrE dest: confirm_consented)

text \<open>The write: an enter session when the camera has been prepared, and the blob when the bootloader has been entered.\<close>

definition prepared :: "'s env \<Rightarrow> restore_options \<Rightarrow> bytes \<Rightarrow> 's station \<Rightarrow> 's station \<Rightarrow> bool" where
  "prepared env args backup st st' \<longleftrightarrow>
     (\<exists>st1. log st1 = log st \<and>
        prepare_restore (ev_hash env) (ev_rig env) (adb_of (ro_common args)) backup (read_progress (ev_console env)) st1 = (Inr (), st'))"

lemma prepare_restore_log:
  assumes "prepare_restore H rig cl backup (read_progress console) st = (r, st')"
  shows "prefix (log st) (log st')" "trace (hid st') = trace (hid st)"
proof -
  obtain q st1 where c: "prepare_checks H rig cl backup (read_progress console) st = (q, st1)" by fastforce
  obtain cmds where l: "log st1 = log st @ cmds" "trace (hid st1) = trace (hid st)"
    using reads_only_checks c by (rule only_runsD) blast
  have "prefix (log st) (log st') \<and> trace (hid st') = trace (hid st)"
  proof (cases q)
    case (Inr x)
    obtain pointer field old where "x = (pointer, field, old)" by (cases x)
    then have "prepare_write (rg_host rig) cl pointer field old st1 = (r, st')"
      using assms c Inr by (simp add: prepare_restore_def io_bind_def)
    from prepare_write_outcome [OF this] l show ?thesis by auto
  qed (use assms c l in \<open>auto simp: prepare_restore_def io_bind_def\<close>)
  then show "prefix (log st) (log st')" "trace (hid st') = trace (hid st)" by simp_all
qed

text \<open>\<open>tells\<close>: an operation that leaves the log and the trace alone.\<close>

lemma say_lines_quiet:
  assumes "say_lines console lines st = (r, st')"
  shows "log st' = log st \<and> trace (hid st') = trace (hid st)"
proof -
  obtain cmds where "log st' = log st @ map (\<lambda>c. Ran (base_command undefined @ c)) cmds" "list_all (\<lambda>_. False) cmds"
    "trace (hid st') = trace (hid st)"
    using only_runs_say_lines assms by (rule only_runsD)
  then show ?thesis by (cases cmds) auto
qed

lemma on_hid_log: "on_hid m st = (r, st') \<Longrightarrow> prefix (log st) (log st')"
  by (auto simp: on_hid_def split: prod.splits)

lemma enter_stage:
  assumes "io_bind (say_lines console lines) (\<lambda>_.
      io_bind (prepare_restore (ev_hash env) (ev_rig env) (adb_of (ro_common args)) backup (read_progress (ev_console env))) (\<lambda>_.
      io_bind (say_lines console lines') (\<lambda>_. on_hid (enter_bootloader (rg_package (ev_rig env)))))) st = (r, st')"
  shows "(isl r \<and> trace (hid st') = trace (hid st)) \<or>
    (\<exists>sa t1. prepared env args backup st sa \<and> prefix (log sa) (log st') \<and> trace (hid st') = trace (hid st) @ t1 \<and>
       session 0xA108 0x2240 [planned enter_frame] t1 (\<not> isl r))"
proof -
  obtain q st1 where s1: "say_lines console lines st = (q, st1)" by fastforce
  note f1 = say_lines_quiet [OF s1]
  obtain p st2 where p: "prepare_restore (ev_hash env) (ev_rig env) (adb_of (ro_common args)) backup (read_progress (ev_console env)) st1 = (p, st2)"
    by fastforce
  note f2 = prepare_restore_log [OF p]
  obtain q' st3 where s2: "say_lines console lines' st2 = (q', st3)" by fastforce
  note f3 = say_lines_quiet [OF s2]
  obtain e st4 where e: "on_hid (enter_bootloader (rg_package (ev_rig env))) st3 = (e, st4)" by fastforce
  obtain t where t: "trace (hid st4) = trace (hid st3) @ t" "session 0xA108 0x2240 [planned enter_frame] t (\<not> isl e)"
    using conducts_session [OF enter_bootloader_runs e] by blast
  show ?thesis
  proof (cases "\<exists>x y z. q = Inr x \<and> p = Inr y \<and> q' = Inr z")
    case True
    with assms s1 p s2 e have "r = e" "st' = st4" by (auto simp: io_bind_def)
    moreover have "prepared env args backup st st2" using True p f1 by (auto simp: prepared_def)
    ultimately show ?thesis using t f1 f2 f3 on_hid_log [OF e] by auto
  next
    case False
    with assms s1 p s2 e f1 f2 f3 show ?thesis by (auto simp: io_bind_def split: sum.splits)
  qed
qed

lemma and_then_Inl: "m st = Some (Inl e, st1) \<Longrightarrow> and_then m f st = Some (Inl e, st1)"
  and and_then_Inr: "m st = Some (Inr x, st1) \<Longrightarrow> and_then m f st = f x st1"
  and and_then_out_of_fuel: "m st = None \<Longrightarrow> and_then m f st = None"
  by (simp_all add: and_then_def)

lemma transfer_stage:
  assumes "and_then (at_once (io_bind (on_hid m) (\<lambda>_. say_lines console lines))) (\<lambda>_. wait_hid fuel env vid pid timeout) st = Some (r, st')"
    and "on_hid m st = (b, st1)"
  shows "prefix (log st1) (log st')" "trace (hid st') = trace (hid st1)" "isl r \<or> \<not> isl b"
proof -
  obtain q st2 where s: "say_lines console lines st1 = (q, st2)" by fastforce
  note f = say_lines_quiet [OF s]
  have quiet: "prefix (log st2) (log st')" "trace (hid st') = trace (hid st2)" if "wait_hid fuel env vid pid timeout st2 = Some (r, st')"
    using wait_hid_extends wait_hid_offline that unfolding extends_def offline_def by blast+
  have "st' = st1 \<and> isl r \<or> (\<exists>x. b = Inr x) \<and> (st' = st2 \<and> isl r \<or> wait_hid fuel env vid pid timeout st2 = Some (r, st'))"
    using assms s unfolding and_then_Some at_once_Some io_bind_def by (auto split: sum.splits)
  then show "prefix (log st1) (log st')" "trace (hid st') = trace (hid st1)" "isl r \<or> \<not> isl b"
    using f quiet by auto
qed

lemma restore_write_outcome:
  assumes "restore_write fuel env args backup blob plan st = Some (r, st')" "build_update_blob md5_digest img 0 = Inr (blob, plan)"
  shows "(isl r \<and> trace (hid st') = trace (hid st)) \<or>
    (\<exists>sa t1 t2 d1 d2. prepared env args backup st sa \<and> prefix (log sa) (log st') \<and> trace (hid st') = trace (hid st) @ t1 @ t2 \<and>
       session 0xA108 0x2240 [planned enter_frame] t1 d1 \<and> session 0xA108 0xFF08 (restore_exchanges blob) t2 d2 \<and>
       (d1 \<or> t2 = []) \<and> (isl r \<or> d1 \<and> d2))"
proof -
  let ?tell = "say_lines (ev_console env)"
  let ?enter = "io_bind (?tell [us ''Validating the live camera and preparing its temporary SFC erase size.'']) (\<lambda>_.
      io_bind (prepare_restore (ev_hash env) (ev_rig env) (adb_of (ro_common args)) backup (read_progress (ev_console env))) (\<lambda>_.
      io_bind (?tell [us ''Entering bootloader HID mode; the 8-byte flag write begins now.'']) (\<lambda>_.
      on_hid (enter_bootloader (rg_package (ev_rig env))))))"
  let ?wait = "wait_hid fuel env BOOT_VID BOOT_HID_PID (ro_bootloader_timeout args)"
  let ?restore = "restore_blob (rg_package (ev_rig env)) blob plan True"
  let ?tail = "and_then (at_once (io_bind (on_hid ?restore) (\<lambda>_.
      ?tell [us ''Bootloader accepted the image MD5 and has started erase/write.'',
        us ''Do not disconnect power; waiting for normal-mode USB to return.'']))) (\<lambda>_.
      wait_hid fuel env NORMAL_VID NORMAL_PID (ro_reboot_timeout args))"
  have run: "and_then (at_once ?enter) (\<lambda>_. and_then ?wait (\<lambda>_. ?tail)) st = Some (r, st')"
    using assms(1) unfolding restore_write_def Let_def .
  obtain p st1 where e: "?enter st = (p, st1)" by fastforce
  then have e': "at_once ?enter st = Some (p, st1)" by simp
  note stage = enter_stage [OF e]
  show ?thesis
  proof (cases p)
    case (Inl x)
    have "Some (Inl x, st1) = Some (r, st')"
      using run by (subst (asm) and_then_Inl [where m = "at_once ?enter" and st = st, OF e' [unfolded Inl]])
    then have "r = Inl x" "st' = st1" by simp_all
    from stage show ?thesis
    proof (elim disjE exE conjE)
      fix sa t1
      assume "prepared env args backup st sa" "prefix (log sa) (log st1)" "trace (hid st1) = trace (hid st) @ t1"
        "session 0xA108 0x2240 [planned enter_frame] t1 (\<not> isl p)"
      with \<open>r = Inl x\<close> \<open>st' = st1\<close> Inl show ?thesis
        by (intro disjI2 exI [of _ sa] exI [of _ t1] exI [of _ "[]"] exI [of _ False] exI [of _ False])
          (simp add: session_def [of "0xA108" "0xFF08"])
    qed (use \<open>r = Inl x\<close> \<open>st' = st1\<close> in simp)
  next
    case (Inr x)
    then obtain sa t1 where t1: "prepared env args backup st sa" "prefix (log sa) (log st1)" "trace (hid st1) = trace (hid st) @ t1"
      "session 0xA108 0x2240 [planned enter_frame] t1 True"
      using stage by auto
    have run1: "and_then ?wait (\<lambda>_. ?tail) st1 = Some (r, st')" using run by (subst (asm) and_then_Inr [where m = "at_once ?enter" and st = st, OF e' [unfolded Inr]])
    then obtain q st2 where w: "?wait st1 = Some (q, st2)" by (cases "?wait st1") (auto simp: and_then_out_of_fuel)
    have q: "prefix (log st1) (log st2)" "trace (hid st2) = trace (hid st1)"
      using wait_hid_extends wait_hid_offline w unfolding extends_def offline_def by blast+
    show ?thesis
    proof (cases q)
      case (Inl y)
      have "Some (Inl y, st2) = Some (r, st')" using run1 by (subst (asm) and_then_Inl [where m = ?wait and st = st1, OF w [unfolded Inl]])
      then have "isl r" "st' = st2" by auto
      with t1 q show ?thesis
        by (intro disjI2 exI [of _ sa] exI [of _ t1] exI [of _ "[]"] exI [of _ True] exI [of _ False]) (auto simp: session_def)
    next
      case (Inr y)
      have tail: "?tail st2 = Some (r, st')" using run1 by (subst (asm) and_then_Inr [where m = ?wait and st = st1, OF w [unfolded Inr]])
      obtain b st3 where b: "on_hid ?restore st2 = (b, st3)" by fastforce
      obtain t2 where t2: "trace (hid st3) = trace (hid st2) @ t2" "session 0xA108 0xFF08 (restore_exchanges blob) t2 (\<not> isl b)"
        using conducts_session [OF restore_blob_runs [OF assms(2)] b] by blast
      note transfer_stage [OF tail b]
      with t1 q t2 on_hid_log [OF b] show ?thesis
        by (intro disjI2 exI [of _ sa] exI [of _ t1] exI [of _ t2] exI [of _ True] exI [of _ "\<not> isl b"]) auto
    qed
  qed
qed

section \<open>The readback\<close>

text \<open>\<open>quiet m\<close>: no HID event. \<open>one_start m\<close>: at most one session of the ADB start.\<close>

definition quiet :: "('s station, 'a) waiting \<Rightarrow> bool" where
  "quiet m \<longleftrightarrow> extends m \<and> offline m"

definition one_start :: "('s station, 'a) waiting \<Rightarrow> bool" where
  "one_start m \<longleftrightarrow> extends m \<and>
     (\<forall>st r st'. m st = Some (r, st') \<longrightarrow> (\<exists>t. trace (hid st') = trace (hid st) @ t \<and> adb_session t))"

lemma quiet_runs: "only_runs cl P m \<Longrightarrow> quiet (at_once m)"
  by (simp add: quiet_def only_runs_extends only_runs_offline)

lemma quiet_intros:
  "quiet m \<Longrightarrow> (\<And>x. quiet (f x)) \<Longrightarrow> quiet (and_then m f)"
  "quiet m \<Longrightarrow> (\<And>e. quiet (h e)) \<Longrightarrow> quiet (rescue m h)"
  "quiet (at_once (io_raise e))" "quiet (at_once (clock host))" "quiet (wait_adb fuel env cl timeout)"
  by (auto simp: quiet_def wait_adb_extends wait_adb_offline
      intro: extends_and_then offline_and_then extends_rescue offline_rescue)
    (auto simp: extends_def offline_def clock_def io_raise_def io_lift_def)

lemma one_start_quiet: "quiet m \<Longrightarrow> one_start m"
  by (auto simp: quiet_def one_start_def offline_def adb_session_def)

lemma one_start_after:
  assumes "quiet m"
  shows "(\<And>x. one_start (f x)) \<Longrightarrow> one_start (and_then m f)"
    and "(\<And>e. one_start (h e)) \<Longrightarrow> one_start (rescue m h)"
proof -
  have m: "extends m" "offline m" using assms by (simp_all add: quiet_def)
  have none: "adb_session []" by (simp add: adb_session_def)
  show "one_start (and_then m f)" if "\<And>x. one_start (f x)"
    using that m none extends_and_then [of m f] unfolding one_start_def offline_def and_then_Some by (metis append_Nil2)
  show "one_start (rescue m h)" if "\<And>e. one_start (h e)"
    using that m none extends_rescue [of m h] unfolding one_start_def offline_def rescue_Some by (metis append_Nil2)
qed

lemma one_start_then:
  assumes "one_start m"
  shows "(\<And>x. quiet (f x)) \<Longrightarrow> one_start (and_then m f)"
    and "(\<And>e. quiet (h e)) \<Longrightarrow> one_start (rescue m h)"
proof -
  have m: "extends m" using assms by (simp add: one_start_def)
  show "one_start (and_then m f)" if "\<And>x. quiet (f x)"
    using that assms extends_and_then [of m f] m unfolding one_start_def quiet_def offline_def and_then_Some by metis
  show "one_start (rescue m h)" if "\<And>e. quiet (h e)"
    using that assms extends_rescue [of m h] m unfolding one_start_def quiet_def offline_def rescue_Some by metis
qed

lemma extends_on_hid: "extends (at_once (on_hid m))"
  using on_hid_log by (auto simp: extends_def)

lemma one_start_adb: "one_start (at_once (on_hid (start_adb_through_upload_command package)))"
  using adb_start_session extends_on_hid unfolding one_start_def at_once_Some by blast

lemma quiet_as_protocol_error: "quiet (as_protocol_error f e)"
  unfolding as_protocol_error_def by (rule quiet_intros)

lemma quiet_consent: "quiet (at_once (confirm_temporary_adb_for_readback env))"
proof (rule quiet_runs)
  show "only_runs undefined (\<lambda>_. True) (confirm_temporary_adb_for_readback env)"
    unfolding confirm_temporary_adb_for_readback_def by (intro only_runs_bind only_runs_if only_runs_lift runs)
qed

lemma one_start_for_readback: "one_start (start_for_readback fuel env cl deadline)"
  unfolding start_for_readback_def
  by (intro one_start_after quiet_consent quiet_intros; simp add: one_start_quiet quiet_intros;
    intro impI one_start_then one_start_adb quiet_intros quiet_as_protocol_error; simp add: quiet_intros quiet_as_protocol_error)

lemma quiet_available: "quiet (at_once (ensure_available host cl (Some t)))"
  using ensure_available_quiet unfolding quiet_def extends_def offline_def at_once_Some by blast

lemma quiet_bind: "quiet (at_once m) \<Longrightarrow> (\<And>x. quiet (at_once (f x))) \<Longrightarrow> quiet (at_once (io_bind m f))"
  unfolding quiet_def extends_def offline_def at_once_Some io_bind_def
  by (auto split: prod.splits sum.splits) (meson prefix_order.trans | metis)+

lemma one_start_adb_for_readback: "one_start (adb_for_readback fuel env cl timeout)"
proof -
  have "quiet (at_once (io_bind (clock host) (\<lambda>now. let remaining = d - now
      in if remaining \<le> 0 then io_raise e else ensure_available host cl (Some (min 10000 remaining)))))" for host d e
    unfolding Let_def
    by (rule quiet_bind) (auto simp: quiet_intros quiet_available)
  moreover have "one_start (case e of AdbUnavailable m \<Rightarrow> start_for_readback fuel env cl d | _ \<Rightarrow> as_protocol_error f e)" for e d f
    by (cases e) (simp_all add: one_start_for_readback one_start_quiet quiet_as_protocol_error)
  ultimately show ?thesis
    unfolding adb_for_readback_def Let_def by (intro one_start_after(1) quiet_intros one_start_after(2)) simp_all
qed

text \<open>What a completed readback has established.\<close>

definition read_back :: "'s env \<Rightarrow> restore_options \<Rightarrow> bytes \<Rightarrow> 's station \<Rightarrow> bool" where
  "read_back env args img st' \<longleftrightarrow>
     (\<exists>st verified manifest st1 exact. acquire_stable (ev_hash env) (rg_host (ev_rig env)) (adb_of (ro_common args))
          (read_progress (ev_console env)) st = (Inr (verified, manifest), st1) \<and>
        validate_post_restore_readback img verified = Inr exact \<and>
        trace (hid st) = trace (hid st') \<and> log st1 = log st')"

lemma readback_outcome:
  assumes "readback env (adb_of (ro_common args)) img st = (r, st')"
  shows "prefix (log st) (log st')" "trace (hid st') = trace (hid st)" "isl r \<or> read_back env args img st'"
proof -
  let ?stable = "acquire_stable (ev_hash env) (rg_host (ev_rig env)) (adb_of (ro_common args)) (read_progress (ev_console env))"
  obtain q st1 where a: "?stable st = (q, st1)" by fastforce
  obtain cmds where l: "log st1 = log st @ cmds" "trace (hid st1) = trace (hid st)"
    using reads_only_acquire a by (rule only_runsD) blast
  have "(st' = st1 \<and> isl r) \<or> (\<exists>verified manifest exact lines. q = Inr (verified, manifest) \<and>
      validate_post_restore_readback img verified = Inr exact \<and> say_lines (ev_console env) lines st1 = (r, st'))"
    using assms a unfolding readback_def
    by (auto simp: io_bind_def io_catch_def io_lift_def io_raise_def split: sum.splits if_splits)
  then have "prefix (log st) (log st') \<and> trace (hid st') = trace (hid st) \<and> (isl r \<or> read_back env args img st')"
  proof (elim disjE exE conjE)
    fix verified manifest exact lines
    assume q: "q = Inr (verified, manifest)" "validate_post_restore_readback img verified = Inr exact"
      and s: "say_lines (ev_console env) lines st1 = (r, st')"
    note f = say_lines_quiet [OF s]
    have "read_back env args img st'"
      unfolding read_back_def by (intro exI conjI) (use a q f l in auto)
    with f l show ?thesis by auto
  qed (use l in auto)
  then show "prefix (log st) (log st')" "trace (hid st') = trace (hid st)" "isl r \<or> read_back env args img st'" by simp_all
qed

section \<open>The whole operation\<close>

text \<open>A run of \<open>restore\<close> that has sent something: the checks and the consent have ended in the state \<open>sc\<close>, the
  camera has been prepared in \<open>sa\<close>, and the three sessions follow one another.\<close>

definition restored :: "'s env \<Rightarrow> restore_options \<Rightarrow> 's station \<Rightarrow> unit res \<Rightarrow> 's station \<Rightarrow> bool" where
  "restored env args st r st' \<longleftrightarrow>
     (\<exists>img backup blob plan sc sa t1 t2 t3 entered sent.
        restore_input env args img backup blob plan \<and> consented (ev_console env) sc \<and> log sc = log st \<and>
        prepared env args backup sc sa \<and> prefix (log sa) (log st') \<and>
        trace (hid st') = trace (hid st) @ t1 @ t2 @ t3 \<and>
        session 0xA108 0x2240 [planned enter_frame] t1 entered \<and> (entered \<or> t2 = []) \<and>
        session 0xA108 0xFF08 (restore_exchanges blob) t2 sent \<and> (sent \<or> t3 = []) \<and>
        adb_session t3 \<and> (isl r \<or> sent \<and> read_back env args img st'))"

lemma session_finished: "session vid pid xs [] d \<Longrightarrow> \<not> d"
  by (simp add: session_def)

lemma finish_outcome:
  assumes "and_then (at_once (say_lines (ev_console env) lines)) (\<lambda>_.
      and_then (adb_for_readback fuel env (adb_of (ro_common args)) timeout) (\<lambda>_.
      at_once (readback env (adb_of (ro_common args)) img))) st = Some (r, st')"
  shows "prefix (log st) (log st') \<and> (isl r \<or> read_back env args img st') \<and>
    (\<exists>t. trace (hid st') = trace (hid st) @ t \<and> adb_session t)"
proof -
  let ?adb = "adb_for_readback fuel env (adb_of (ro_common args)) timeout"
  have none: "adb_session []" by (simp add: adb_session_def)
  obtain q st1 where s: "say_lines (ev_console env) lines st = (q, st1)" by fastforce
  note f = say_lines_quiet [OF s]
  from assms s consider "isl r" "st' = st1"
    | e where "r = Inl e" "?adb st1 = Some (Inl e, st')"
    | x st2 where "?adb st1 = Some (Inr x, st2)" "readback env (adb_of (ro_common args)) img st2 = (r, st')"
    unfolding and_then_Some at_once_Some by auto
  then show ?thesis
  proof cases
    case 1
    with f none show ?thesis by auto
  next
    case 2
    with f one_start_adb_for_readback show ?thesis unfolding one_start_def extends_def by fastforce
  next
    case 3
    have "prefix (log st1) (log st2)" "\<exists>t. trace (hid st2) = trace (hid st1) @ t \<and> adb_session t"
      using 3(1) one_start_adb_for_readback unfolding one_start_def extends_def by blast+
    with f readback_outcome [OF 3(2)] show ?thesis by (auto intro: prefix_order.trans)
  qed
qed

lemma restore_outcome:
  assumes "command_restore fuel env args st = Some (r, st')" "\<not> ro_dry_run args"
  shows "isl r \<and> trace (hid st') = trace (hid st) \<or> restored env args st r st'"
proof -
  let ?lines = "[us ''Normal mode returned; requiring three consecutive identical flash reads for post-write verification.'']"
  let ?finish = "\<lambda>img. and_then (at_once (say_lines (ev_console env) ?lines)) (\<lambda>_.
      and_then (adb_for_readback fuel env (adb_of (ro_common args)) (ro_adb_timeout args)) (\<lambda>_.
      at_once (readback env (adb_of (ro_common args)) img)))"
  obtain q sc where c: "restore_confirmed env args st = (q, sc)" by fastforce
  obtain cmds where l: "log sc = log st @ map (\<lambda>c. Ran (base_command undefined @ c)) cmds" "list_all (\<lambda>_. False) cmds"
    "trace (hid sc) = trace (hid st)"
    using restore_confirmed_runs c by (rule only_runsD)
  then have same: "log sc = log st" by (cases cmds) auto
  have run: "and_then (at_once (restore_confirmed env args)) (\<lambda>(img, backup, blob, plan).
      and_then (restore_write fuel env args backup blob plan) (\<lambda>_. ?finish img)) st = Some (r, st')"
    using assms unfolding command_restore_def Let_def by simp
  show ?thesis
  proof (cases q)
    case (Inl e)
    with run c l show ?thesis by (auto simp: and_then_Some)
  next
    case (Inr x)
    obtain img backup blob plan where x: "x = (img, backup, blob, plan)" by (cases x)
    note ok = restore_confirmed_Inr [OF c [unfolded Inr x]]
    have input: "build_update_blob md5_digest img 0 = Inr (blob, plan)" using ok(1) by (simp add: restore_input_def)
    have run1: "and_then (restore_write fuel env args backup blob plan) (\<lambda>_. ?finish img) sc = Some (r, st')"
      using run c Inr x unfolding and_then_Some [where m = "at_once _"] at_once_Some by auto
    then consider e where "r = Inl e" "restore_write fuel env args backup blob plan sc = Some (r, st')"
      | y st1 where "restore_write fuel env args backup blob plan sc = Some (Inr y, st1)" "?finish img st1 = Some (r, st')"
      unfolding and_then_Some [where m = "restore_write _ _ _ _ _ _"] by auto
    then show ?thesis
    proof cases
      case 1
      from restore_write_outcome [OF 1(2) input] consider "isl r" "trace (hid st') = trace (hid sc)"
        | sa t1 t2 d1 d2 where "prepared env args backup sc sa" "prefix (log sa) (log st')" "trace (hid st') = trace (hid sc) @ t1 @ t2"
          "session 0xA108 0x2240 [planned enter_frame] t1 d1" "session 0xA108 0xFF08 (restore_exchanges blob) t2 d2" "d1 \<or> t2 = []"
        by blast
      then show ?thesis
      proof cases
        case a: 2
        have "restored env args st r st'"
          unfolding restored_def
          by (rule exI [of _ img], rule exI [of _ backup], rule exI [of _ blob], rule exI [of _ plan], rule exI [of _ sc],
              rule exI [of _ sa], rule exI [of _ t1], rule exI [of _ t2], rule exI [of _ "[]"], rule exI [of _ d1], rule exI [of _ d2])
            (use a l ok same 1 in \<open>simp add: adb_session_def\<close>)
        then show ?thesis ..
      qed (use l in simp_all)
    next
      case 2
      note f = finish_outcome [OF 2(2)]
      from restore_write_outcome [OF 2(1) input] obtain sa t1 t2 d1 d2 where
        a: "prepared env args backup sc sa" "prefix (log sa) (log st1)" "trace (hid st1) = trace (hid sc) @ t1 @ t2"
          "session 0xA108 0x2240 [planned enter_frame] t1 d1" "session 0xA108 0xFF08 (restore_exchanges blob) t2 d2" "d1" "d2"
        using sum.disc(2) [of y] by blast
      from f obtain t3 where t3: "trace (hid st') = trace (hid st1) @ t3" "adb_session t3" by blast
      have "restored env args st r st'"
        unfolding restored_def
        by (rule exI [of _ img], rule exI [of _ backup], rule exI [of _ blob], rule exI [of _ plan], rule exI [of _ sc],
            rule exI [of _ sa], rule exI [of _ t1], rule exI [of _ t2], rule exI [of _ t3], rule exI [of _ d1], rule exI [of _ d2])
          (use a l ok same f t3 in \<open>auto intro: prefix_order.trans\<close>)
      then show ?thesis ..
    qed
  qed
qed

text \<open>C1: \<open>restore\<close> never sends a HID report before everything has been checked and confirmed, and it reports
  success only after a verified readback. Whatever the camera and the host do, a run that ends either fails
  with no HID event at all, or the input was accepted in full (a loadable backup, a valid image that is a
  compatible replacement for it, the known kernel, a blob built from this very image), the phrase was
  typed at a terminal, the camera was prepared, and what was sent is: one session in normal mode with the single
  enter frame; only if that was answered, one session with the bootloader that sends the planned blob and nothing
  else; only if that was completed, at most one session of the ADB start. Success also means that the blob was
  sent in full and acknowledged, and that a stable readback agrees with the image. A dry run sends and
  runs nothing.\<close>

theorem restore_sends_only_what_was_checked:
  "case command_restore fuel env args st of
     None \<Rightarrow> True
   | Some (r, st') \<Rightarrow>
       if ro_dry_run args then log st' = log st \<and> trace (hid st') = trace (hid st)
       else isl r \<and> trace (hid st') = trace (hid st) \<or> restored env args st r st'"
proof (cases "command_restore fuel env args st")
  case (Some p)
  obtain r st' where p: "p = (r, st')" by (cases p)
  show ?thesis
  proof (cases "ro_dry_run args")
    case True
    with Some p have run: "command_plan env (ro_image args) (ro_backup args) st = (r, st')" by (simp add: command_restore_def)
    obtain cmds where "log st' = log st @ map (\<lambda>c. Ran (base_command undefined @ c)) cmds" "list_all (\<lambda>_. False) cmds"
      "trace (hid st') = trace (hid st)"
      using command_plan_runs run by (rule only_runsD)
    with Some p True show ?thesis by (cases cmds) auto
  next
    case False
    with Some p restore_outcome [of fuel env args st r st'] show ?thesis by simp
  qed
qed simp

end
