(* ===== verification/Restore_Ends.thy ===== *)
theory Restore_Ends
  imports Restore_Props
begin

text \<open>
  The commands that wait end: with clocks that advance there is an amount of fuel from which on the
  result no longer depends on it.
\<close>

section \<open>Operations that end\<close>

definition ends :: "(nat \<Rightarrow> ('w, 'a) waiting) \<Rightarrow> bool" where
  "ends m \<longleftrightarrow> (\<forall>w. \<exists>n p. \<forall>fuel\<ge>n. m fuel w = Some p)"

named_theorems ending

lemma endsI:
  assumes "\<And>w. \<exists>n p. m n w = Some p" "\<And>n w p. m n w = Some p \<Longrightarrow> m (Suc n) w = Some p"
  shows "ends m"
  unfolding ends_def
proof
  fix w
  obtain n p where m: "m n w = Some p" using assms(1) by blast
  have "m fuel w = Some p" if "n \<le> fuel" for fuel
    using that by (induction fuel rule: dec_induct) (simp_all add: m assms(2))
  then show "\<exists>n p. \<forall>fuel\<ge>n. m fuel w = Some p" by blast
qed

lemma ends_at_once [ending]: "ends (\<lambda>_. at_once m)"
  by (auto simp: ends_def at_once_def)

lemma ends_and_then [ending]:
  assumes "ends m" "\<And>x. ends (\<lambda>fuel. f fuel x)"
  shows "ends (\<lambda>fuel. and_then (m fuel) (f fuel))"
  unfolding ends_def
proof
  fix w
  obtain n r w1 where m: "\<forall>fuel\<ge>n. m fuel w = Some (r, w1)" using assms(1) unfolding ends_def by fastforce
  show "\<exists>n p. \<forall>fuel\<ge>n. and_then (m fuel) (f fuel) w = Some p"
  proof (cases r)
    case (Inl e)
    with m show ?thesis by (intro exI [of _ n] exI [of _ "(Inl e, w1)"]) (simp add: and_then_def)
  next
    case (Inr x)
    obtain n' p where f: "\<forall>fuel\<ge>n'. f fuel x w1 = Some p" using assms(2) unfolding ends_def by blast
    with m Inr show ?thesis by (intro exI [of _ "max n n'"] exI [of _ p]) (simp add: and_then_def)
  qed
qed

lemma ends_rescue [ending]:
  assumes "ends m" "\<And>e. ends (\<lambda>fuel. h fuel e)"
  shows "ends (\<lambda>fuel. rescue (m fuel) (h fuel))"
  unfolding ends_def
proof
  fix w
  obtain n r w1 where m: "\<forall>fuel\<ge>n. m fuel w = Some (r, w1)" using assms(1) unfolding ends_def by fastforce
  show "\<exists>n p. \<forall>fuel\<ge>n. rescue (m fuel) (h fuel) w = Some p"
  proof (cases r)
    case (Inl e)
    obtain n' p where h: "\<forall>fuel\<ge>n'. h fuel e w1 = Some p" using assms(2) unfolding ends_def by blast
    with m Inl show ?thesis by (intro exI [of _ "max n n'"] exI [of _ p]) (simp add: rescue_def)
  next
    case (Inr x)
    with m show ?thesis by (intro exI [of _ n] exI [of _ "(Inr x, w1)"]) (simp add: rescue_def)
  qed
qed

lemma ends_if [ending]: "ends f \<Longrightarrow> ends g \<Longrightarrow> ends (\<lambda>fuel. if b then f fuel else g fuel)"
  by (cases b) simp_all

section \<open>The two waits\<close>

lemma wait_loop_Suc: "wait_loop n package now sleep vid pid deadline w = Some p \<Longrightarrow>
    wait_loop (Suc n) package now sleep vid pid deadline w = Some p"
proof (induction n arbitrary: w)
  case (Suc n)
  show ?case
    using Suc.prems Suc.IH
    by (subst wait_loop.simps(2), subst (asm) wait_loop.simps(2)) (auto split: option.splits if_splits sum.splits prod.splits simp del: wait_loop.simps)
qed simp

lemma wait_device_loop_Suc: "wait_device_loop n host cl deadline st = Some p \<Longrightarrow>
    wait_device_loop (Suc n) host cl deadline st = Some p"
proof (induction n arbitrary: st)
  case (Suc n)
  show ?case
    using Suc.prems Suc.IH
    by (subst wait_device_loop.simps(2), subst (asm) wait_device_loop.simps(2))
      (auto simp: Let_def split: option.splits if_splits sum.splits prod.splits simp del: wait_device_loop.simps)
qed simp

definition good_clocks :: "'s env \<Rightarrow> bool" where
  "good_clocks env \<longleftrightarrow>
     (let rig = ev_rig env; host = rg_host rig
      in steady_clock host \<and> sane_clock (rg_package rig) (ah_now host) (ah_sleep host))"

lemma ends_wait_hid [ending]:
  assumes "good_clocks env"
  shows "ends (\<lambda>fuel. wait_hid fuel env vid pid timeout)"
proof (rule endsI)
  let ?rig = "ev_rig env"
  have clock: "sane_clock (rg_package ?rig) (ah_now (rg_host ?rig)) (ah_sleep (rg_host ?rig))"
    using assms by (simp add: good_clocks_def Let_def)
  fix st :: "'a station"
  have "ah_now (rg_host ?rig) (device (hid st)) + timeout - ah_now (rg_host ?rig) (device (hid st)) \<le> 500 * int (nat timeout)" by simp
  from wait_loop_returns [OF clock this, of vid pid] obtain r w' where
    "wait_loop (Suc (nat timeout)) (rg_package ?rig) (ah_now (rg_host ?rig)) (ah_sleep (rg_host ?rig)) vid pid
      (ah_now (rg_host ?rig) (device (hid st)) + timeout) (hid st) = Some (r, w')" by blast
  then have "wait_hid (Suc (nat timeout)) env vid pid timeout st = Some (on_hid (\<lambda>_. (r, w')) st)"
    unfolding wait_hid_def wait_for_hid_def Let_def by simp
  then show "\<exists>n p. wait_hid n env vid pid timeout st = Some p" by blast
next
  fix n and st :: "'a station" and p
  assume "wait_hid n env vid pid timeout st = Some p"
  then show "wait_hid (Suc n) env vid pid timeout st = Some p"
    unfolding wait_hid_def wait_for_hid_def Let_def
    by (auto dest: wait_loop_Suc simp del: wait_loop.simps split: option.splits)
qed

lemma ends_wait_adb [ending]:
  assumes "good_clocks env"
  shows "ends (\<lambda>fuel. wait_adb fuel env cl timeout)"
proof (rule endsI)
  have clock: "steady_clock (rg_host (ev_rig env))" using assms by (simp add: good_clocks_def Let_def)
  fix st :: "'a station"
  let ?now = "ah_now (rg_host (ev_rig env)) (outside st)"
  have "?now + timeout - ?now \<le> 500 * int (nat timeout)" by simp
  from wait_device_loop_ends [OF clock this, of cl] show "\<exists>n p. wait_adb n env cl timeout st = Some p"
    unfolding wait_adb_def wait_for_device_def by (cases "timeout \<le> 0") (auto simp del: wait_device_loop.simps)
next
  fix n and st :: "'a station" and p
  assume "wait_adb n env cl timeout st = Some p"
  then show "wait_adb (Suc n) env cl timeout st = Some p"
    unfolding wait_adb_def wait_for_device_def by (auto dest: wait_device_loop_Suc simp del: wait_device_loop.simps split: if_splits)
qed

section \<open>The commands\<close>

lemma ends_as_protocol_error [ending]: "ends (\<lambda>_. as_protocol_error f e)"
  unfolding as_protocol_error_def by (rule ending)

lemma ends_start_for_readback [ending]: "good_clocks env \<Longrightarrow> ends (\<lambda>fuel. start_for_readback fuel env cl deadline)"
  unfolding start_for_readback_def by (intro ending)

lemma ends_adb_for_readback [ending]:
  assumes "good_clocks env"
  shows "ends (\<lambda>fuel. adb_for_readback fuel env cl timeout)"
proof -
  have "ends (\<lambda>fuel. case e of AdbUnavailable m \<Rightarrow> start_for_readback fuel env cl d | _ \<Rightarrow> as_protocol_error f e)" for e d f
    by (cases e) (simp_all add: ending assms)
  then show ?thesis unfolding adb_for_readback_def Let_def by (intro ending)
qed

lemma ends_restore_write [ending]: "good_clocks env \<Longrightarrow> ends (\<lambda>fuel. restore_write fuel env args backup blob plan)"
  unfolding restore_write_def Let_def by (intro ending)

lemma ends_command_restore:
  assumes "good_clocks env"
  shows "ends (\<lambda>fuel. command_restore fuel env args)"
proof -
  let ?rest = "\<lambda>fuel img. and_then (at_once (say_lines (ev_console env)
      [us ''Normal mode returned; requiring three consecutive identical flash reads for post-write verification.''])) (\<lambda>_.
      and_then (adb_for_readback fuel env (adb_of (ro_common args)) (ro_adb_timeout args)) (\<lambda>_.
      at_once (readback env (adb_of (ro_common args)) img)))"
  have "ends (\<lambda>fuel. case x of (img, backup, blob, plan) \<Rightarrow>
      and_then (restore_write fuel env args backup blob plan) (\<lambda>_. ?rest fuel img))" for x
    by (cases x; simp only: prod.case; intro ending assms)
  then show ?thesis unfolding command_restore_def Let_def by (intro ending)
qed

lemma ends_command_start_adb:
  assumes "good_clocks env"
  shows "ends (\<lambda>fuel. command_start_adb fuel env args timeout)"
proof -
  have "ends (\<lambda>fuel. case u of None \<Rightarrow> at_once m
      | Some e \<Rightarrow> and_then (at_once (a e)) (\<lambda>_. and_then (wait_adb fuel env cl timeout) (\<lambda>_. at_once b)))"
    for u :: "exn option" and m b :: "('a station, unit) io" and a :: "exn \<Rightarrow> ('a station, unit) io" and cl
    by (cases u; simp only: option.case; intro ending assms)
  then show ?thesis unfolding command_start_adb_def Let_def by (intro ending)
qed

text \<open>C21: \<open>restore\<close> and \<open>start-adb\<close> always come to an end. When the clocks never run backwards and a sleep
  lasts its time, there is for every state an amount of fuel from which on they return one and the same result:
  none of their waits can go on forever, whatever the camera, the host and the user answer.\<close>

theorem restore_ends:
  assumes "good_clocks env"
  shows "\<exists>n p q. \<forall>fuel\<ge>n. command_restore fuel env args st = Some p \<and> command_start_adb fuel env common timeout st = Some q"
proof -
  obtain n p where "\<forall>fuel\<ge>n. command_restore fuel env args st = Some p"
    using ends_command_restore [OF assms] unfolding ends_def by blast
  moreover obtain m q where "\<forall>fuel\<ge>m. command_start_adb fuel env common timeout st = Some q"
    using ends_command_start_adb [OF assms] unfolding ends_def by blast
  ultimately show ?thesis by (intro exI [of _ "max n m"] exI [of _ p] exI [of _ q]) simp
qed

text \<open>A host whose camera comes up after two seconds, and a terminal.\<close>

definition late_env :: "int env" where
  "late_env = \<lparr>ev_hash = hashlib, ev_rig = \<lparr>rg_host = late_host, rg_package = None, rg_list = (\<lambda>d. (Inr [], d))\<rparr>,
     ev_console = \<lparr>co_print = (\<lambda>d _. (Inr (), d)), co_isatty = (\<lambda>_. True), co_input = (\<lambda>d _. (Inr (us ''RESTORE-CC2''), d + 5000))\<rparr>,
     ev_files = \<lparr>read_bytes = (\<lambda>_. Inr []), open_zip = (\<lambda>_. None), json_loads = (\<lambda>_. None)\<rparr>,
     ev_is_file = (\<lambda>_. True), ev_path = id, ev_runtime = \<lparr>rt_executable = [], rt_frozen = False, rt_windows = False\<rparr>,
     ev_json_dumps = (\<lambda>_. [])\<rparr>"

definition late_options :: restore_options where
  "late_options = \<lparr>ro_common = \<lparr>ca_adb = us ''adb'', ca_serial = None\<rparr>, ro_image = us ''image.bin'', ro_backup = us ''backup.zip'',
     ro_dry_run = False, ro_bootloader_timeout = 30000, ro_reboot_timeout = 180000, ro_adb_timeout = 60000\<rparr>"

theorem restore_ends_witness:
  "\<exists>fuel p q. command_restore fuel late_env late_options \<lparr>hid = \<lparr>device = 7, trace = [], reported = []\<rparr>, log = []\<rparr> = Some p \<and>
     command_start_adb fuel late_env (ro_common late_options) 60000 \<lparr>hid = \<lparr>device = 7, trace = [], reported = []\<rparr>, log = []\<rparr> = Some q"
proof -
  have "good_clocks late_env"
    by (simp add: good_clocks_def late_env_def late_host_def steady_clock_def sane_clock_def)
  from restore_ends [OF this] show ?thesis by blast
qed

section \<open>\<open>start-adb\<close>\<close>

definition identified :: "'s env \<Rightarrow> adb_client \<Rightarrow> 's station \<Rightarrow> bool" where
  "identified env cl st' \<longleftrightarrow>
     (\<exists>st known st1. identity_and_partitions (rg_host (ev_rig env)) cl st = (Inr known, st1) \<and>
        trace (hid st) = trace (hid st') \<and> log st1 = log st')"

lemma identity_stage:
  assumes "io_bind (identity_and_partitions (rg_host (ev_rig env)) cl) (\<lambda>(identity, _). say_lines console (lines identity)) st = (r, st')"
  shows "trace (hid st') = trace (hid st)" "isl r \<or> identified env cl st'"
proof -
  obtain q st1 where i: "identity_and_partitions (rg_host (ev_rig env)) cl st = (q, st1)" by fastforce
  obtain cmds where l: "log st1 = log st @ cmds" "trace (hid st1) = trace (hid st)"
    using reads_only_identity i by (rule only_runsD) blast
  have "trace (hid st') = trace (hid st) \<and> (isl r \<or> identified env cl st')"
  proof (cases q)
    case (Inl e)
    with assms i l show ?thesis by (auto simp: io_bind_def)
  next
    case (Inr known)
    obtain identity parts where known: "known = (identity, parts)" by (cases known)
    have "say_lines console (lines identity) st1 = (r, st')" using assms i Inr known by (simp add: io_bind_def)
    note f = say_lines_quiet [OF this]
    have "identified env cl st'"
      unfolding identified_def by (intro exI conjI) (use f l i Inr in auto)
    with f l show ?thesis by simp
  qed
  then show "trace (hid st') = trace (hid st)" "isl r \<or> identified env cl st'" by simp_all
qed

lemma start_stage:
  assumes "and_then (at_once (io_bind (say_lines console lines) (\<lambda>_. on_hid (start_adb_through_upload_command package)))) (\<lambda>_.
      and_then (wait_adb fuel env cl timeout) (\<lambda>_. at_once
        (io_bind (identity_and_partitions (rg_host (ev_rig env)) cl) (\<lambda>(identity, _). say_lines console (told identity))))) st = Some (r, st')"
  shows "(\<exists>t. trace (hid st') = trace (hid st) @ t \<and> adb_session t) \<and> (isl r \<or> identified env cl st')"
proof -
  have start: "one_start (at_once (io_bind (say_lines console lines) (\<lambda>_. on_hid (start_adb_through_upload_command package))))"
  proof -
    have "at_once (io_bind (say_lines console lines) (\<lambda>_. on_hid (start_adb_through_upload_command package))) =
        and_then (at_once (say_lines console lines)) (\<lambda>_. at_once (on_hid (start_adb_through_upload_command package)))"
      by (rule ext) (simp add: at_once_def and_then_def io_bind_def split: prod.split sum.split)
    then show ?thesis
      using one_start_after(1) [OF quiet_runs [OF only_runs_say_lines]] one_start_adb by metis
  qed
  have none: "adb_session []" by (simp add: adb_session_def)
  have waited: "trace (hid y) = trace (hid x)" if "wait_adb fuel env cl timeout x = Some (p, y)" for p x y
    using wait_adb_offline that unfolding offline_def by blast
  from assms consider e where "r = Inl e"
      "at_once (io_bind (say_lines console lines) (\<lambda>_. on_hid (start_adb_through_upload_command package))) st = Some (Inl e, st')"
    | x st1 e where "at_once (io_bind (say_lines console lines) (\<lambda>_. on_hid (start_adb_through_upload_command package))) st = Some (Inr x, st1)"
      "wait_adb fuel env cl timeout st1 = Some (Inl e, st')" "r = Inl e"
    | x st1 y st2 where "at_once (io_bind (say_lines console lines) (\<lambda>_. on_hid (start_adb_through_upload_command package))) st = Some (Inr x, st1)"
      "wait_adb fuel env cl timeout st1 = Some (Inr y, st2)"
      "io_bind (identity_and_partitions (rg_host (ev_rig env)) cl) (\<lambda>(identity, _). say_lines console (told identity)) st2 = (r, st')"
    unfolding and_then_Some by auto
  then show ?thesis
  proof cases
    case 1
    with start show ?thesis unfolding one_start_def by auto
  next
    case 2
    with start waited [OF 2(2)] show ?thesis unfolding one_start_def by (metis sum.disc(1))
  next
    case 3
    with start waited [OF 3(2)] identity_stage [OF 3(3)] show ?thesis unfolding one_start_def by metis
  qed
qed

text \<open>C10: \<open>start-adb\<close> touches the HID device only when ADB is not available, and then at most once. Whatever the
  outcome, the HID events are at most one session in normal mode that sends a start of the four fixed
  reports of the ADB start, and there are none unless the first \<open>get-state\<close> found the camera unavailable; it succeeds
  only when the camera has told its identity and its partitions over ADB, after any such session.\<close>

theorem start_adb_only_when_offline:
  "case command_start_adb fuel env args timeout st of
     None \<Rightarrow> True
   | Some (r, st') \<Rightarrow> \<exists>t. trace (hid st') = trace (hid st) @ t \<and> adb_session t \<and>
       (t = [] \<or> (\<exists>m st1. ensure_available (rg_host (ev_rig env)) (adb_of args) (Some 10000) st = (Inl (AdbUnavailable m), st1))) \<and>
       (isl r \<or> identified env (adb_of args) st')"
proof (cases "command_start_adb fuel env args timeout st")
  case (Some p)
  obtain r st' where p: "p = (r, st')" by (cases p)
  obtain q st1 where e: "ensure_available (rg_host (ev_rig env)) (adb_of args) (Some 10000) st = (q, st1)" by fastforce
  have quiet: "trace (hid st1) = trace (hid st)" using ensure_available_quiet [OF e] by simp
  have none: "adb_session []" by (simp add: adb_session_def)
  let ?probe = "io_catch (io_bind (ensure_available (rg_host (ev_rig env)) (adb_of args) (Some 10000)) (\<lambda>_. io_return None))
           (\<lambda>e. case e of AdbUnavailable _ \<Rightarrow> io_return (Some e) | _ \<Rightarrow> io_raise e)"
  note run = Some [unfolded p command_start_adb_def Let_def]
  consider u where "q = Inr u" | m where "q = Inl (AdbUnavailable m)" | f where "q = Inl f" "\<nexists>m. f = AdbUnavailable m"
    by (cases q) auto
  then show ?thesis
  proof cases
    case 1
    then have probe: "at_once ?probe st = Some (Inr None, st1)"
      using e by (simp add: io_catch_def io_bind_def io_return_def io_lift_def)
    have "at_once (io_bind (identity_and_partitions (rg_host (ev_rig env)) (adb_of args)) (\<lambda>(identity, _).
        say_lines (ev_console env) [us ''ADB is already online; no HID command was sent. Identity: '' @ identity,
          us ''You can now run cc2camera backup <output.zip>.''])) st1 = Some (r, st')"
      using run unfolding and_then_Inr [where m = "at_once ?probe" and st = st, OF probe] option.case .
    then have "io_bind (identity_and_partitions (rg_host (ev_rig env)) (adb_of args)) (\<lambda>(identity, _).
        say_lines (ev_console env) [us ''ADB is already online; no HID command was sent. Identity: '' @ identity,
          us ''You can now run cc2camera backup <output.zip>.'']) st1 = (r, st')" by simp
    from identity_stage [OF this] quiet Some p none show ?thesis by auto
  next
    case 2
    let ?e = "AdbUnavailable m"
    have probe: "at_once ?probe st = Some (Inr (Some ?e), st1)"
      using e 2 by (simp add: io_catch_def io_bind_def io_return_def io_lift_def)
    have "and_then (at_once (io_bind (say_lines (ev_console env) [us ''ADB is unavailable: '' @ message_of ?e,
          us ''Starting /bin/adbd once through the normal-HID upload command. No persistent startup file will be installed.'',
          us ''The final upload commit is expected to report failure or disconnect; ADB availability is the success signal.'']) (\<lambda>_.
        on_hid (start_adb_through_upload_command (rg_package (ev_rig env)))))) (\<lambda>_.
      and_then (wait_adb fuel env (adb_of args) timeout) (\<lambda>_. at_once
        (io_bind (identity_and_partitions (rg_host (ev_rig env)) (adb_of args)) (\<lambda>(identity, _).
          say_lines (ev_console env) [us ''ADB started for this boot. Root identity: '' @ identity,
            us ''No flash backup was read and no persistent startup file was installed.'', us ''Next:'',
            invocation (ev_runtime env) (tl (common_command args ''backup'') @ [us ''backup.zip''])])))) st1 = Some (r, st')"
      using run unfolding and_then_Inr [where m = "at_once ?probe" and st = st, OF probe] option.case .
    from start_stage [OF this] quiet Some p e 2 show ?thesis by auto
  next
    case 3
    then have probe: "at_once ?probe st = Some (Inl f, st1)"
      using e by (cases f) (simp_all add: io_catch_def io_bind_def io_raise_def io_lift_def)
    have "Some (Inl f, st1) = Some (r, st')"
      using run unfolding and_then_Inl [where m = "at_once ?probe" and st = st, OF probe] .
    then have "st' = st1 \<and> isl r" by auto
    with quiet Some p none show ?thesis by auto
  qed
qed simp

end
