(* ===== verification/Startup.thy ===== *)
theory Startup
  imports Startup_Payloads Console Cli_Backup
begin

text \<open>
  \<open>install-startup\<close>: the boot hooks of \<open>cc2camera/startup.py\<close>, installed over ADB into the config partition. Scripts are the texts
  the camera's shell gets; what the shell does with them is the host's \<open>ah_run\<close>.
\<close>

section \<open>The space plan\<close>

definition CONFIG :: ustring where "CONFIG = us ''/etc/conf.d''"
definition ERASE :: nat where [constants]: "ERASE = 0x4000"
definition RESERVE_BLOCKS :: nat where [constants]: "RESERVE_BLOCKS = 5"
definition MAX_HOOK_BYTES :: nat where [constants]: "MAX_HOOK_BYTES = 16384"

record space_plan =
  clean_blocks :: nat
  write_budget :: nat
  filesystem_available :: int

text \<open>The clean marker \<open>struct.pack('<HHI', 0x1985, 0x2003, 12)\<close> and its CRC.\<close>

definition clean_header :: bytes where
  "clean_header = le_bytes 2 0x1985 @ le_bytes 2 0x2003 @ le_bytes 4 12"

definition clean_marker :: bytes where
  "clean_marker = clean_header @ le_bytes 4 (unat (jffs2_crc clean_header))"

definition is_clean :: "bytes \<Rightarrow> nat \<Rightarrow> bool" where
  "is_clean config start \<longleftrightarrow>
     pslice config start (start + 12) = clean_marker \<and> pslice config (start + 12) (start + ERASE) = replicate (ERASE - 12) 0xFF"

definition write_bytes_bound :: "(ustring \<times> bytes) list \<Rightarrow> nat" where
  "write_bytes_bound payloads =
     (let budget = 4096 + sum_list (map (\<lambda>(_, data). length data + (length data + 4095) div 4096 * 128 + 1024) payloads)
      in (budget + ERASE - 1) div ERASE * ERASE)"

definition insufficient_space :: "nat \<Rightarrow> int \<Rightarrow> nat \<Rightarrow> exn" where
  "insufficient_space clean available budget = ProtocolErrorText (
     us ''insufficient safe config space: '' @ us (dec_text clean) @ us '' clean 16-KiB blocks, '' @ int_text available @
     us '' filesystem bytes available; need '' @ us (dec_text budget) @ us '' write bytes plus '' @ us (dec_text RESERVE_BLOCKS) @
     us '' clean reserve blocks. No persistent write performed'')"

definition space_plan :: "bytes \<Rightarrow> (ustring \<times> bytes) list \<Rightarrow> int \<Rightarrow> space_plan res" where
  "space_plan config payloads available =
     (if length config \<noteq> 0x20000 \<or> payloads = [] \<or> available < 0
      then Inl (ProtocolError ''invalid config space evidence'')
      else
        let clean = length (filter (is_clean config) (range_step (length config) ERASE));
            budget = write_bytes_bound payloads
        in if clean * ERASE < budget + RESERVE_BLOCKS * ERASE \<or> available < int (budget + ERASE)
           then Inl (insufficient_space clean available budget)
           else Inr \<lparr>clean_blocks = clean, write_budget = budget, filesystem_available = available\<rparr>)"

section \<open>Confirmed scripts\<close>

definition CC2_OK :: bytes where "CC2_OK = ascii ''CC2_OK''"

definition checked :: "'s adb_host \<Rightarrow> adb_client \<Rightarrow> ustring \<Rightarrow> int \<Rightarrow> ('s station, bytes) io" where
  "checked host cl commands timeout =
     io_bind (adb_run host cl [us ''shell'', commands @ [10]] timeout) (\<lambda>output.
     let output = strip_bytes (filter (\<lambda>b. b \<noteq> 13) output)
     in if drop (length output - 6) output \<noteq> CC2_OK
        then io_raise (ProtocolErrorText (us ''camera preflight/write did not confirm success: '' @
          decode_replace (drop (length output - 500) output)))
        else io_return (strip_bytes (take (length output - 6) output)))"

definition statfs_script :: ustring where \<open>
  statfs_script = us ''busybox stat -f -c '%a %S' /etc/conf.d && echo CC2_OK''\<close>

text \<open>\<open>[0-9]+ [0-9]+\<close> in full; the classes are disjoint, so the match is unique.\<close>

definition two_numbers :: "bytes \<Rightarrow> (nat \<times> nat) option" where
  "two_numbers output =
     (let text = byte_points output; first = takeWhile is_decimal text; rest = dropWhile is_decimal text
      in if first \<noteq> [] \<and> take 1 rest = [0x20] \<and> drop 1 rest \<noteq> [] \<and> list_all is_decimal (drop 1 rest)
         then Some (number_in 10 first, number_in 10 (drop 1 rest)) else None)"

definition available :: "'s adb_host \<Rightarrow> adb_client \<Rightarrow> ('s station, int) io" where
  "available host cl =
     io_bind (checked host cl statfs_script 30000) (\<lambda>output.
     case two_numbers output of
       None \<Rightarrow> io_raise (ProtocolError ''invalid filesystem free-space report'')
     | Some (blocks, block_size) \<Rightarrow>
         if block_size \<noteq> 4096 \<or> 32 < blocks then io_raise (ProtocolError ''unexpected config statfs geometry'')
         else io_return (int (blocks * block_size)))"

definition kind_script :: "ustring \<Rightarrow> ustring" where
  "kind_script quoted =
     us ''if [ -L '' @ quoted @ us '' ]; then echo link; elif [ -f '' @ quoted @ us '' ]; then echo file; elif [ -e '' @ quoted @
     us '' ]; then echo other; else echo absent; fi; echo CC2_OK''"

definition size_script :: "ustring \<Rightarrow> ustring" where
  "size_script quoted = us ''busybox stat -c %s '' @ quoted @ us '' && echo CC2_OK''"

definition mode_script :: "ustring \<Rightarrow> ustring" where
  "mode_script quoted = us ''busybox stat -c %a '' @ quoted @ us '' && echo CC2_OK''"

text \<open>\<open>int(size)\<close> where \<open>size.isdigit()\<close>.\<close>

definition digits :: "bytes \<Rightarrow> nat option" where
  "digits text = (if text \<noteq> [] \<and> list_all is_decimal (byte_points text) then Some (number_in 10 (byte_points text)) else None)"

definition read_local :: "'s adb_host \<Rightarrow> ustring \<Rightarrow> ('s station, bytes) io" where
  "read_local host path st = (ah_read_bytes host (outside st) path, st)"

definition read_optional :: "'s adb_host \<Rightarrow> adb_client \<Rightarrow> ustring \<Rightarrow> ustring \<Rightarrow> ('s station, bytes option) io" where
  "read_optional host cl remote local =
     (let quoted = shlex_quote remote
      in io_bind (checked host cl (kind_script quoted) 30000) (\<lambda>kind.
         if kind = ascii ''absent'' then io_return None
         else if kind \<noteq> ascii ''file''
         then io_raise (ProtocolErrorText (us ''refusing non-regular managed path: '' @ remote))
         else io_bind (checked host cl (size_script quoted) 30000) (\<lambda>length_text.
           case digits length_text of
             None \<Rightarrow> io_raise (ProtocolErrorText (us ''oversized managed hook: '' @ remote))
           | Some n \<Rightarrow>
               if MAX_HOOK_BYTES < n then io_raise (ProtocolErrorText (us ''oversized managed hook: '' @ remote))
               else io_bind (checked host cl (mode_script quoted) 30000) (\<lambda>mode.
                 if mode \<noteq> ascii ''755''
                 then io_raise (ProtocolErrorText (us ''unexpected hook permissions: '' @ remote @ us ''; expected 755''))
                 else io_bind (adb_pull host cl remote local 120000) (\<lambda>_.
                   io_bind (read_local host local) (\<lambda>data.
                   if length data \<noteq> n then io_raise (ProtocolError ''hook changed during preflight'')
                   else io_return (Some data)))))))"

section \<open>The installation\<close>

text \<open>The host also writes files: \<open>Path.write_bytes\<close>.\<close>

record 's installer =
  in_rig :: "'s rig"
  in_write :: "'s \<Rightarrow> ustring \<Rightarrow> bytes \<Rightarrow> unit res \<times> 's"

definition write_local :: "'s installer \<Rightarrow> ustring \<Rightarrow> bytes \<Rightarrow> ('s station, unit) io" where
  "write_local inst path data st = (case in_write inst (outside st) path data of (r, d) \<Rightarrow> (r, set_outside st d))"

definition push :: "'s installer \<Rightarrow> adb_client \<Rightarrow> ustring \<Rightarrow> ustring \<Rightarrow> ('s station, bytes) io" where
  "push inst cl local remote = adb_run (rg_host (in_rig inst)) cl [us ''push'', local, remote] 30000"

text \<open>\<open>try: m finally: cleanup\<close>; an exception of the cleanup replaces the outcome.\<close>

definition finally_do :: "('w, 'a) io \<Rightarrow> ('w, 'b) io \<Rightarrow> ('w, 'a) io" where
  "finally_do m cleanup w =
     (case m w of (r, w1) \<Rightarrow> case cleanup w1 of (Inl e, w2) \<Rightarrow> (Inl e, w2) | (Inr _, w2) \<Rightarrow> (r, w2))"

definition numbered :: "ustring \<Rightarrow> string \<Rightarrow> nat \<Rightarrow> ustring" where
  "numbered directory name i = directory @ us ''/'' @ us name @ us (dec_text i)"

definition managed :: "ustring \<Rightarrow> ustring" where
  "managed relative = CONFIG @ us ''/'' @ relative"

definition requested_files :: "string \<Rightarrow> (ustring \<times> bytes) list" where
  "requested_files functionality =
     [if functionality = ''adb'' then (us ''enabled/90-adb.sh'', ADB_HOOK) else (us ''enabled/10-erase-fix.sh'', erase_hook),
      (us ''system.sh'', RUNNER)]"

definition preflight_script :: ustring where \<open>
  preflight_script = join_with [10]
    [us ''[ "$(id -u)" = 0 ] &&'',
     us ''busybox awk '$2=="/etc/conf.d" && $1=="/dev/mtdblock5" && $3=="jffs2" && $4 ~ /(^|,)rw(,|$)/ {n++} END {exit(n!=1)}' /proc/mounts &&'',
     us ''busybox awk '$2=="/tmp" && $3=="tmpfs" {n++} END {exit(n!=1)}' /proc/mounts &&'',
     us ''[ ! -L /etc/conf.d ] && [ ! -L /etc/conf.d/enabled ] &&'',
     us ''{ [ ! -e /etc/conf.d/enabled ] || [ -d /etc/conf.d/enabled ]; } && echo CC2_OK'']\<close>

definition install_checks ::
    "hash_functions \<Rightarrow> host_files \<Rightarrow> (ustring \<Rightarrow> bool) \<Rightarrow> 's rig \<Rightarrow> adb_client \<Rightarrow> ustring \<Rightarrow> string \<Rightarrow> 's progress \<Rightarrow> ('s station, bytes) io" where
  "install_checks H files is_file rig cl backup functionality progress =
     (let host = rg_host rig
      in if functionality \<noteq> ''adb'' \<and> functionality \<noteq> ''erase-fix''
         then io_raise (ProtocolError ''unknown startup functionality'')
         else io_bind (io_lift (load_preserved_backup H files is_file backup)) (\<lambda>(preserved, _).
              io_bind (io_lift (validate_preparation_image H preserved)) (\<lambda>_.
              io_bind (ensure_available host cl (Some 10000)) (\<lambda>_.
              io_bind (single_camera rig cl) (\<lambda>_.
              io_bind (acquire_stable H host cl progress) (\<lambda>(live, _).
              io_bind (io_lift (validate_preparation_image H live)) (\<lambda>_.
              io_bind (io_lift (validate_replacement_against_backup live preserved)) (\<lambda>_.
              io_bind (identity_and_partitions host cl) (\<lambda>(_, parts).
              if \<exists>part \<in> set parts. mp_erase_size part \<noteq> ERASE
              then io_raise (ProtocolError ''unexpected partition erase geometry'')
              else io_bind (checked host cl preflight_script 30000) (\<lambda>_. io_return live))))))))))"

text \<open>Which of the requested files are absent; one with other contents stops the installation.\<close>

fun read_managed :: "'s adb_host \<Rightarrow> adb_client \<Rightarrow> ustring \<Rightarrow> nat \<Rightarrow> (ustring \<times> bytes) list \<Rightarrow> ('s station, (ustring \<times> bytes) list) io" where
  "read_managed host cl base i [] = io_return []"
| "read_managed host cl base i ((relative, content) # rest) =
     io_bind (read_optional host cl (managed relative) (numbered base ''old-'' i)) (\<lambda>current.
     case current of
       None \<Rightarrow> io_bind (read_managed host cl base (i + 1) rest) (\<lambda>payloads. io_return ((relative, content) # payloads))
     | Some data \<Rightarrow>
         if data \<noteq> content
         then io_raise (ProtocolErrorText (us ''unknown existing '' @ managed relative @
           us ''; preserve and resolve it explicitly; no migration or overwrite''))
         else read_managed host cl base (i + 1) rest)"

text \<open>Staging in RAM, each file read back.\<close>

fun stage_files :: "'s installer \<Rightarrow> adb_client \<Rightarrow> ustring \<Rightarrow> ustring \<Rightarrow> nat \<Rightarrow> (ustring \<times> bytes) list \<Rightarrow> ('s station, unit) io" where
  "stage_files inst cl base stage i [] = io_return ()"
| "stage_files inst cl base stage i ((relative, content) # rest) =
     (let host = rg_host (in_rig inst)
      in io_bind (write_local inst (numbered base ''new-'' i) content) (\<lambda>_.
         io_bind (push inst cl (numbered base ''new-'' i) (numbered stage [] i)) (\<lambda>_.
         io_bind (adb_pull host cl (numbered stage [] i) (base @ us ''/readback'') 120000) (\<lambda>_.
         io_bind (read_local host (base @ us ''/readback'')) (\<lambda>found.
         if found \<noteq> content then io_raise (ProtocolError ''RAM staging readback mismatch; config untouched'')
         else stage_files inst cl base stage (i + 1) rest)))))"

text \<open>The conditions the camera's shell checks again just before the write.\<close>

definition absent_guards :: "ustring \<Rightarrow> ustring list" where
  "absent_guards path = [us ''[ ! -e '' @ path @ us '' ]'', us ''[ ! -L '' @ path @ us '' ]'']"

fun file_guards :: "'s installer \<Rightarrow> adb_client \<Rightarrow> ustring \<Rightarrow> ustring \<Rightarrow> ustring list \<Rightarrow> nat \<Rightarrow> (ustring \<times> bytes) list \<Rightarrow> ('s station, ustring list) io" where
  "file_guards inst cl base stage new i [] = io_return []"
| "file_guards inst cl base stage new i ((relative, content) # rest) =
     (if relative \<in> set new
      then io_bind (file_guards inst cl base stage new (i + 1) rest) (\<lambda>guards.
           io_return (absent_guards (managed relative) @ guards))
      else io_bind (write_local inst (numbered base ''existing-'' i) content) (\<lambda>_.
           io_bind (push inst cl (numbered base ''existing-'' i) (numbered stage ''existing-'' i)) (\<lambda>_.
           io_bind (file_guards inst cl base stage new (i + 1) rest) (\<lambda>guards.
           io_return ([us ''[ ! -L '' @ managed relative @ us '' ]'',
             us ''busybox cmp -s '' @ managed relative @ us '' '' @ numbered stage ''existing-'' i] @ guards)))))"

definition fresh_name :: "nat \<Rightarrow> ustring" where
  "fresh_name i = numbered CONFIG ''.cc2-new-'' i"

definition all_guards :: "ustring list \<Rightarrow> nat \<Rightarrow> nat \<Rightarrow> ustring list" where \<open>
  all_guards guards n budget =
     [us ''[ ! -L '' @ CONFIG @ us ''/enabled ]'',
      us ''{ [ ! -e '' @ CONFIG @ us ''/enabled ] || [ -d '' @ CONFIG @ us ''/enabled ]; }''] @ guards @
     map (\<lambda>i. us ''[ ! -e '' @ fresh_name i @ us '' ] && [ ! -L '' @ fresh_name i @ us '' ]'') [0..<n] @
     [us ''[ "$(busybox stat -f -c %a '' @ CONFIG @ us '')" -ge '' @ us (dec_text ((budget + ERASE) div 4096)) @ us '' ]'']\<close>

definition joined_guards :: "ustring list \<Rightarrow> ustring" where
  "joined_guards guards = join_with (us '' &&'' @ [10]) guards"

text \<open>The one script that writes to the config partition.\<close>

definition install_step :: "ustring \<Rightarrow> nat \<Rightarrow> ustring \<Rightarrow> ustring" where
  "install_step stage i relative =
     us_lines
      [us ''[ ! -e '' @ fresh_name i @ us '' ] && [ ! -L '' @ fresh_name i @ us '' ] || exit 1'',
       us ''cp '' @ numbered stage [] i @ us '' '' @ fresh_name i, us ''chmod 755 '' @ fresh_name i,
       us ''busybox cmp -s '' @ numbered stage [] i @ us '' '' @ fresh_name i, us ''sync'',
       us ''mv '' @ fresh_name i @ us '' '' @ managed relative, us ''sync'']"

definition install_script :: "ustring list \<Rightarrow> ustring \<Rightarrow> ustring list \<Rightarrow> ustring" where
  "install_script guards stage new =
     us_lines [us ''set -e'', us ''umask 022'', joined_guards guards @ us '' || exit 1'', us ''mkdir -p '' @ CONFIG @ us ''/enabled''] @
     concat (map (\<lambda>(i, relative). install_step stage i relative) (enumerate 0 new)) @ us ''echo CC2_OK''"

definition final_script :: "ustring \<Rightarrow> ustring" where \<open>
  final_script path = us ''[ ! -L '' @ path @ us '' ] && [ "$(busybox stat -c %a '' @ path @ us '')" = 755 ] && echo CC2_OK''\<close>

fun verify_files :: "'s adb_host \<Rightarrow> adb_client \<Rightarrow> ustring \<Rightarrow> nat \<Rightarrow> (ustring \<times> bytes) list \<Rightarrow> ('s station, unit) io" where
  "verify_files host cl base i [] = io_return ()"
| "verify_files host cl base i ((relative, content) # rest) =
     io_bind (checked host cl (final_script (managed relative)) 30000) (\<lambda>_.
     io_bind (adb_pull host cl (managed relative) (numbered base ''final-'' i) 120000) (\<lambda>_.
     io_bind (read_local host (numbered base ''final-'' i)) (\<lambda>found.
     if found \<noteq> content
     then io_raise (ProtocolError ''persistent hook readback mismatch; stop, preserve diagnostics; do not retry blindly'')
     else verify_files host cl base (i + 1) rest)))"

text \<open>The RAM staging directory that \<open>mktemp\<close> has made.\<close>

definition stage_name :: "bytes \<Rightarrow> ustring res" where
  "stage_name output =
     (let prefix = ascii ''/tmp/cc2-install.''
      in if length output = length prefix + 6 \<and> take (length prefix) output = prefix \<and>
           list_all (\<lambda>c. is_decimal c \<or> 65 \<le> c \<and> c \<le> 90 \<or> 97 \<le> c \<and> c \<le> 122) (byte_points (drop (length prefix) output))
         then Inr (byte_points output)
         else Inl (ProtocolError ''invalid RAM staging directory''))"

definition mktemp_script :: ustring where
  "mktemp_script = us ''umask 077; busybox mktemp -d /tmp/cc2-install.XXXXXX && echo CC2_OK''"

definition sync_script :: ustring where
  "sync_script = us ''sync && echo CC2_OK''"

text \<open>Between the staging and the write: nothing may have changed.\<close>

definition recheck ::
    "'s installer \<Rightarrow> adb_client \<Rightarrow> ustring \<Rightarrow> bytes \<Rightarrow> (ustring \<times> bytes) list \<Rightarrow> ('s station, space_plan) io" where
  "recheck inst cl base live payloads =
     (let rig = in_rig inst; host = rg_host rig
      in io_bind (single_camera rig cl) (\<lambda>_.
         io_bind (checked host cl sync_script 30000) (\<lambda>_.
         io_bind (adb_pull host cl (us ''/dev/mtd5'') (base @ us ''/config-now'') 120000) (\<lambda>_.
         io_bind (read_local host (base @ us ''/config-now'')) (\<lambda>now.
         if now \<noteq> drop 0x7E0000 live
         then io_raise (ProtocolError ''config changed during installation preflight; config untouched'')
         else io_bind (available host cl) (\<lambda>avail.
              io_lift (space_plan now payloads avail)))))))"

definition prepare_install ::
    "'s installer \<Rightarrow> adb_client \<Rightarrow> ustring \<Rightarrow> ustring \<Rightarrow> bytes \<Rightarrow> (ustring \<times> bytes) list \<Rightarrow> (ustring \<times> bytes) list \<Rightarrow>
      ('s station, space_plan \<times> ustring list) io" where
  "prepare_install inst cl base stage live requested payloads =
     (let host = rg_host (in_rig inst)
      in io_bind (stage_files inst cl base stage 0 payloads) (\<lambda>_.
         io_bind (recheck inst cl base live payloads) (\<lambda>plan.
         io_bind (file_guards inst cl base stage (map fst payloads) 0 requested) (\<lambda>guards.
         let guards = all_guards guards (length payloads) (write_budget plan)
         in io_bind (checked host cl (joined_guards guards @ us '' && echo CC2_OK'') 30000) (\<lambda>_.
            io_return (plan, guards))))))"

definition write_hooks ::
    "'s installer \<Rightarrow> adb_client \<Rightarrow> ustring \<Rightarrow> ustring \<Rightarrow> bytes \<Rightarrow> (ustring \<times> bytes) list \<Rightarrow> (ustring \<times> bytes) list \<Rightarrow>
      ('s station, space_plan) io" where
  "write_hooks inst cl base stage live requested payloads =
     (let host = rg_host (in_rig inst)
      in io_bind (prepare_install inst cl base stage live requested payloads) (\<lambda>(plan, guards).
         io_bind (checked host cl (install_script guards stage (map fst payloads)) 120000) (\<lambda>_.
         io_bind (verify_files host cl base 0 requested) (\<lambda>_. io_return plan))))"

definition remove_stage :: "'s adb_host \<Rightarrow> adb_client \<Rightarrow> ustring \<Rightarrow> ('s station, bytes) io" where
  "remove_stage host cl stage = adb_shell host cl [us ''rm -rf '' @ stage]"

definition install_startup ::
    "hash_functions \<Rightarrow> host_files \<Rightarrow> (ustring \<Rightarrow> bool) \<Rightarrow> 's installer \<Rightarrow> adb_client \<Rightarrow> ustring \<Rightarrow> string \<Rightarrow> 's progress \<Rightarrow>
      ('s station, space_plan option) io" where
  "install_startup H files is_file inst cl backup functionality progress =
     (let host = rg_host (in_rig inst)
      in io_bind (install_checks H files is_file (in_rig inst) cl backup functionality progress) (\<lambda>live.
         let requested = requested_files functionality
         in with_tempdir host (\<lambda>base.
            io_bind (read_managed host cl base 0 requested) (\<lambda>payloads.
            if payloads = [] then io_return None
            else io_bind (available host cl) (\<lambda>avail.
                 io_bind (io_lift (space_plan (drop 0x7E0000 live) payloads avail)) (\<lambda>_.
                 io_bind (checked host cl mktemp_script 30000) (\<lambda>output.
                 io_bind (io_lift (stage_name output)) (\<lambda>stage.
                 finally_do (io_bind (write_hooks inst cl base stage live requested payloads) (\<lambda>plan. io_return (Some plan)))
                   (remove_stage host cl stage)))))))))"

end
