(* ===== verification/Startup_Props.thy ===== *)
theory Startup_Props
  imports Startup
begin

text \<open>
  What \<open>install-startup\<close> promises: one guarded script is the only write to the config partition, and it is sent only when
  everything has been checked.
\<close>

section \<open>The commands\<close>

definition stage_ok :: "ustring \<Rightarrow> bool" where
  "stage_ok stage \<longleftrightarrow> (\<exists>output. stage_name output = Inr stage)"

text \<open>The guards, as a function of what is new.\<close>

fun guard_texts :: "ustring \<Rightarrow> ustring list \<Rightarrow> nat \<Rightarrow> (ustring \<times> bytes) list \<Rightarrow> ustring list" where
  "guard_texts stage new i [] = []"
| "guard_texts stage new i ((relative, content) # rest) =
     (if relative \<in> set new then absent_guards (managed relative)
      else [us ''[ ! -L '' @ managed relative @ us '' ]'',
        us ''busybox cmp -s '' @ managed relative @ us '' '' @ numbered stage ''existing-'' i]) @
     guard_texts stage new (i + 1) rest"

definition guards_for :: "ustring \<Rightarrow> (ustring \<times> bytes) list \<Rightarrow> (ustring \<times> bytes) list \<Rightarrow> nat \<Rightarrow> ustring list" where
  "guards_for stage requested payloads budget =
     all_guards (guard_texts stage (map fst payloads) 0 requested) (length payloads) budget"

text \<open>Scripts that only look at the camera, or make the RAM directory.\<close>

definition inspects :: "ustring \<Rightarrow> bool" where
  "inspects s \<longleftrightarrow>
     s \<in> {statfs_script, preflight_script, mktemp_script, sync_script} \<or>
     (\<exists>path. s = kind_script path \<or> s = size_script path \<or> s = mode_script path \<or> s = final_script path) \<or>
     (\<exists>stage requested payloads budget. s = joined_guards (guards_for stage requested payloads budget) @ us '' && echo CC2_OK'')"

definition harmless :: "ustring list \<Rightarrow> bool" where
  "harmless args \<longleftrightarrow>
     reads_only args \<or>
     (\<exists>s. args = [us ''shell'', s @ [10]] \<and> inspects s) \<or>
     (\<exists>local stage name i. args = [us ''push'', local, numbered stage name i] \<and> stage_ok stage) \<or>
     (\<exists>stage. args = [us ''shell'', us ''rm -rf '' @ stage] \<and> stage_ok stage)"

lemma only_runs_mono: "only_runs cl P m \<Longrightarrow> (\<And>args. P args \<Longrightarrow> Q args) \<Longrightarrow> only_runs cl Q m"
  unfolding only_runs_def list_all_iff by metis

lemma harmless_reads: "only_runs cl reads_only m \<Longrightarrow> only_runs cl harmless m"
  by (erule only_runs_mono) (simp add: harmless_def)

lemma only_runs_local [runs]: "only_runs cl P (read_local host path)" "only_runs cl P (write_local inst path data)"
  by (rule only_runs_pure; auto simp: read_local_def write_local_def set_outside_def split: prod.split)+

lemma only_runs_option [runs]:
  "only_runs cl P f \<Longrightarrow> (\<And>x. only_runs cl P (g x)) \<Longrightarrow> only_runs cl P (case u of None \<Rightarrow> f | Some x \<Rightarrow> g x)"
  by (cases u) simp_all

lemma only_runs_product [runs]: "(\<And>x y. only_runs cl P (f x y)) \<Longrightarrow> only_runs cl P (case p of (x, y) \<Rightarrow> f x y)"
  by (cases p) simp

lemma checked_harmless: "inspects s \<Longrightarrow> only_runs cl harmless (checked host cl s timeout)"
  unfolding checked_def Let_def
  by (intro only_runs_bind only_runs_if only_runs_lift only_runs_run) (auto simp: harmless_def)

lemma inspects_intros [runs]:
  "inspects statfs_script" "inspects preflight_script" "inspects mktemp_script" "inspects sync_script"
  "inspects (kind_script path)" "inspects (size_script path)" "inspects (mode_script path)" "inspects (final_script path)"
  "inspects (joined_guards (guards_for stage requested payloads budget) @ us '' && echo CC2_OK'')"
  unfolding inspects_def by blast+

lemma push_harmless: "stage_ok stage \<Longrightarrow> only_runs cl harmless (push inst cl local (numbered stage name i))"
  unfolding push_def by (rule only_runs_run) (auto simp: harmless_def)

lemmas hook_runs = runs checked_harmless push_harmless harmless_reads [OF reads_only_pull] harmless_reads [OF reads_only_single]
  harmless_reads [OF reads_only_available]

lemma available_harmless: "only_runs cl harmless (available host cl)"
  unfolding available_def by (intro hook_runs)

lemma read_optional_harmless: "only_runs cl harmless (read_optional host cl remote local)"
  unfolding read_optional_def Let_def by (intro hook_runs)

lemma read_managed_harmless: "only_runs cl harmless (read_managed host cl base i requested)"
  by (induction host cl base i requested rule: read_managed.induct)
    (auto intro!: only_runs_bind only_runs_option only_runs_if only_runs_lift read_optional_harmless)

lemma stage_files_harmless: "stage_ok stage \<Longrightarrow> only_runs cl harmless (stage_files inst cl base stage i payloads)"
  by (induction inst cl base stage i payloads rule: stage_files.induct)
    (auto simp: Let_def intro!: only_runs_bind only_runs_if only_runs_lift only_runs_local push_harmless harmless_reads [OF reads_only_pull])

lemma file_guards_harmless: "stage_ok stage \<Longrightarrow> only_runs cl harmless (file_guards inst cl base stage new i requested)"
  by (induction inst cl base stage new i requested rule: file_guards.induct)
    (auto intro!: only_runs_bind only_runs_lift only_runs_local push_harmless)

lemma verify_files_harmless: "only_runs cl harmless (verify_files host cl base i requested)"
  by (induction host cl base i requested rule: verify_files.induct)
    (auto intro!: only_runs_bind only_runs_if only_runs_lift only_runs_local checked_harmless inspects_intros harmless_reads [OF reads_only_pull])

lemma remove_stage_harmless: "stage_ok stage \<Longrightarrow> only_runs cl harmless (remove_stage host cl stage)"
  unfolding remove_stage_def adb_shell_def by (rule only_runs_run) (auto simp: harmless_def)

lemma recheck_harmless: "only_runs cl harmless (recheck inst cl base live payloads)"
  unfolding recheck_def Let_def by (intro hook_runs available_harmless)

lemma install_checks_harmless:
  "only_runs cl harmless (install_checks H files is_file rig cl backup functionality (read_progress console))"
  unfolding install_checks_def Let_def
  by (intro hook_runs harmless_reads [OF reads_only_acquire] harmless_reads [OF reads_only_identity])

lemma file_guards_Inr:
  "file_guards inst cl base stage new i requested st = (Inr guards, st') \<Longrightarrow> guards = guard_texts stage new i requested"
  by (induction inst cl base stage new i requested arbitrary: guards st st' rule: file_guards.induct)
    (auto elim!: io_bind_InrE split: if_splits)

text \<open>Here the second part only has to run such commands on what the first can return.\<close>

lemma only_runs_bind_Inr:
  assumes "only_runs cl P m" "\<And>x st st'. m st = (Inr x, st') \<Longrightarrow> only_runs cl P (f x)"
  shows "only_runs cl P (io_bind m f)"
proof -
  let ?f = "\<lambda>x. if \<exists>st st'. m st = (Inr x, st') then f x else io_raise KeyError"
  have "io_bind m f = io_bind m ?f"
    by (rule ext) (auto simp: io_bind_def split: prod.split sum.split)
  moreover have "only_runs cl P (io_bind m ?f)"
    using assms by (intro only_runs_bind) (auto simp: only_runs_lift)
  ultimately show ?thesis by simp
qed

lemma prepare_install_harmless:
  assumes "stage_ok stage"
  shows "only_runs cl harmless (prepare_install inst cl base stage live requested payloads)"
  unfolding prepare_install_def Let_def
proof (rule only_runs_bind [OF stage_files_harmless [OF assms]], rule only_runs_bind [OF recheck_harmless])
  fix u plan
  show "only_runs cl harmless (io_bind (file_guards inst cl base stage (map fst payloads) 0 requested) (\<lambda>guards.
      io_bind (checked (rg_host (in_rig inst)) cl
        (joined_guards (all_guards guards (length payloads) (write_budget plan)) @ us '' && echo CC2_OK'') 30000)
        (\<lambda>_. io_return (plan, all_guards guards (length payloads) (write_budget plan)))))"
    by (rule only_runs_bind_Inr [OF file_guards_harmless [OF assms]], drule file_guards_Inr)
      (auto simp: guards_for_def [symmetric] intro!: only_runs_bind only_runs_lift checked_harmless inspects_intros)
qed

section \<open>What has been established\<close>

text \<open>Of the requested files, the payloads were absent and the others have their contents.\<close>

definition managed_as_found :: "'s adb_host \<Rightarrow> adb_client \<Rightarrow> (ustring \<times> bytes) list \<Rightarrow> (ustring \<times> bytes) list \<Rightarrow> bool" where
  "managed_as_found host cl requested payloads \<longleftrightarrow>
     subseq payloads requested \<and>
     (\<forall>(relative, content) \<in> set requested. \<exists>local st st'.
        read_optional host cl (managed relative) local st =
          (Inr (if (relative, content) \<in> set payloads then None else Some content), st'))"

lemma read_managed_Inr:
  assumes "read_managed host cl base i requested st = (Inr payloads, st')" "distinct requested"
  shows "managed_as_found host cl requested payloads"
  using assms
proof (induction host cl base i requested arbitrary: payloads st st' rule: read_managed.induct)
  case (2 host cl base i relative content rest)
  from "2.prems"(1) obtain current st1 where c: "read_optional host cl (managed relative) (numbered base ''old-'' i) st = (Inr current, st1)"
    and k: "(case current of
       None \<Rightarrow> io_bind (read_managed host cl base (i + 1) rest) (\<lambda>payloads. io_return ((relative, content) # payloads))
     | Some data \<Rightarrow>
         if data \<noteq> content
         then io_raise (ProtocolErrorText (us ''unknown existing '' @ managed relative @
           us ''; preserve and resolve it explicitly; no migration or overwrite''))
         else read_managed host cl base (i + 1) rest) st1 = (Inr payloads, st')"
    unfolding read_managed.simps by (erule io_bind_InrE)
  have d: "distinct rest" "(relative, content) \<notin> set rest" using "2.prems"(2) by simp_all
  have IH: "managed_as_found host cl rest ps" if "read_managed host cl base (i + 1) rest x = (Inr ps, y)" for ps x y
    using "2.IH"(1) that d(1) by simp
  show ?case
  proof (cases current)
    case None
    with k obtain ps st2 where r: "read_managed host cl base (i + 1) rest st1 = (Inr ps, st2)" "payloads = (relative, content) # ps"
      unfolding None option.case by (elim io_bind_InrE) simp
    from IH [OF r(1)] c None d(2) show ?thesis unfolding managed_as_found_def r(2) by fastforce
  next
    case (Some data)
    with k have "data = content" and r: "read_managed host cl base (i + 1) rest st1 = (Inr payloads, st')"
      by (auto split: if_splits)
    moreover have m: "managed_as_found host cl rest payloads" using IH [OF r] .
    then have "(relative, content) \<notin> set payloads" using d(2) unfolding managed_as_found_def by (auto elim: list_emb_set)
    ultimately show ?thesis using c Some m unfolding managed_as_found_def by (auto intro: list_emb_Cons)
  qed
qed (simp add: managed_as_found_def)

text \<open>Each of the files was read with its contents.\<close>

definition all_read_back :: "'s adb_host \<Rightarrow> (ustring \<times> bytes) list \<Rightarrow> bool" where
  "all_read_back host payloads \<longleftrightarrow> (\<forall>(relative, content) \<in> set payloads. \<exists>path st st'. read_local host path st = (Inr content, st'))"

lemma stage_files_Inr: "stage_files inst cl base stage i payloads st = (Inr u, st') \<Longrightarrow> all_read_back (rg_host (in_rig inst)) payloads"
proof (induction inst cl base stage i payloads arbitrary: st st' rule: stage_files.induct)
  case (2 inst cl base stage i relative content rest)
  from "2.prems" obtain st1 st2 where "read_local (rg_host (in_rig inst)) (base @ us ''/readback'') st1 = (Inr content, st2)"
    "stage_files inst cl base stage (i + 1) rest st2 = (Inr u, st')"
    by (auto simp: Let_def elim!: io_bind_InrE split: if_splits)
  with "2.IH" show ?case unfolding all_read_back_def by fastforce
qed (simp add: all_read_back_def)

lemma recheck_Inr:
  assumes "recheck inst cl base live payloads st = (Inr plan, st')"
  shows "\<exists>avail st1 st2. available (rg_host (in_rig inst)) cl st1 = (Inr avail, st2) \<and>
      space_plan (drop 0x7E0000 live) payloads avail = Inr plan"
    and "\<exists>path st1 st2. read_local (rg_host (in_rig inst)) path st1 = (Inr (drop 0x7E0000 live), st2)"
proof -
  have "(\<exists>avail st1 st2. available (rg_host (in_rig inst)) cl st1 = (Inr avail, st2) \<and>
      space_plan (drop 0x7E0000 live) payloads avail = Inr plan) \<and>
    (\<exists>path st1 st2. read_local (rg_host (in_rig inst)) path st1 = (Inr (drop 0x7E0000 live), st2))"
    using assms unfolding recheck_def Let_def by (clarsimp elim!: io_bind_InrE split: if_splits) blast
  then show "\<exists>avail st1 st2. available (rg_host (in_rig inst)) cl st1 = (Inr avail, st2) \<and>
      space_plan (drop 0x7E0000 live) payloads avail = Inr plan"
    and "\<exists>path st1 st2. read_local (rg_host (in_rig inst)) path st1 = (Inr (drop 0x7E0000 live), st2)" by simp_all
qed

lemma verify_files_Inr: "verify_files host cl base i requested st = (Inr u, st') \<Longrightarrow> all_read_back host requested"
proof (induction host cl base i requested arbitrary: st st' rule: verify_files.induct)
  case (2 host cl base i relative content rest)
  from "2.prems" obtain st1 st2 where "read_local host (numbered base ''final-'' i) st1 = (Inr content, st2)"
    "verify_files host cl base (i + 1) rest st2 = (Inr u, st')"
    by (auto simp: Let_def elim!: io_bind_InrE split: if_splits)
  with "2.IH" show ?case unfolding all_read_back_def by fastforce
qed (simp add: all_read_back_def)

section \<open>One write\<close>

text \<open>Harmless commands only, and \<open>n\<close>; or among them one other, of which \<open>W\<close> holds, and \<open>q\<close>.\<close>

definition outcome :: "(ustring list \<Rightarrow> bool) \<Rightarrow> bool \<Rightarrow> bool \<Rightarrow> ustring list list \<Rightarrow> bool" where
  "outcome W q n cmds \<longleftrightarrow> list_all harmless cmds \<and> n \<or>
     (\<exists>before w after. cmds = before @ w # after \<and> list_all harmless before \<and> list_all harmless after \<and> W w \<and> q)"

lemma outcome_around:
  assumes "outcome W q n cmds" "list_all harmless xs" "list_all harmless ys"
  shows "outcome W q n (xs @ cmds @ ys)"
  using assms unfolding outcome_def
proof (elim disjE exE conjE)
  fix before w after
  assume "cmds = before @ w # after" "list_all harmless before" "list_all harmless after" "W w" q
  with assms(2,3) have "xs @ cmds @ ys = (xs @ before) @ w # (after @ ys)" "list_all harmless (xs @ before)"
    "list_all harmless (after @ ys)" by simp_all
  with \<open>W w\<close> \<open>q\<close> show "list_all harmless (xs @ cmds @ ys) \<and> n \<or>
      (\<exists>before w after. xs @ cmds @ ys = before @ w # after \<and> list_all harmless before \<and> list_all harmless after \<and> W w \<and> q)"
    by blast
qed simp

lemma outcome_mono: "outcome W q n cmds \<Longrightarrow> (q \<Longrightarrow> q') \<Longrightarrow> (n \<Longrightarrow> n') \<Longrightarrow> outcome W q' n' cmds"
  unfolding outcome_def by blast

text \<open>
  \<open>one_write cl W Q N m\<close>: \<open>m\<close> runs harmless commands only and returns with \<open>N\<close>, or it runs exactly one other command,
  of which \<open>W\<close> holds, and returns with \<open>Q\<close>; or it raises.
\<close>

definition one_write :: "adb_client \<Rightarrow> (ustring list \<Rightarrow> bool) \<Rightarrow> ('a \<Rightarrow> bool) \<Rightarrow> ('a \<Rightarrow> bool) \<Rightarrow> ('s station, 'a) io \<Rightarrow> bool" where
  "one_write cl W Q N m \<longleftrightarrow>
     (\<forall>st r st'. m st = (r, st') \<longrightarrow> trace (hid st') = trace (hid st) \<and>
        (\<exists>cmds. log st' = log st @ map (\<lambda>c. Ran (base_command cl @ c)) cmds \<and>
           outcome W (case r of Inl _ \<Rightarrow> True | Inr x \<Rightarrow> Q x) (case r of Inl _ \<Rightarrow> True | Inr x \<Rightarrow> N x) cmds))"

lemma one_write_harmless:
  assumes "only_runs cl harmless m" "\<And>st x st'. m st = (Inr x, st') \<Longrightarrow> N x"
  shows "one_write cl W Q N m"
  unfolding one_write_def
proof (intro allI impI)
  fix st r st' assume m: "m st = (r, st')"
  obtain cmds where "log st' = log st @ map (\<lambda>c. Ran (base_command cl @ c)) cmds" "list_all harmless cmds" "trace (hid st') = trace (hid st)"
    using assms(1) m by (rule only_runsD)
  moreover have "case r of Inl _ \<Rightarrow> True | Inr x \<Rightarrow> N x" using assms(2) m by (auto split: sum.split)
  ultimately show "trace (hid st') = trace (hid st) \<and> (\<exists>cmds. log st' = log st @ map (\<lambda>c. Ran (base_command cl @ c)) cmds \<and>
      outcome W (case r of Inl _ \<Rightarrow> True | Inr x \<Rightarrow> Q x) (case r of Inl _ \<Rightarrow> True | Inr x \<Rightarrow> N x) cmds)"
    by (auto simp: outcome_def)
qed

lemma one_writeD:
  assumes "one_write cl W Q N m" "m st = (r, st')"
  obtains cmds where "log st' = log st @ map (\<lambda>c. Ran (base_command cl @ c)) cmds" "trace (hid st') = trace (hid st)"
    "outcome W (case r of Inl _ \<Rightarrow> True | Inr x \<Rightarrow> Q x) (case r of Inl _ \<Rightarrow> True | Inr x \<Rightarrow> N x) cmds"
  using assms unfolding one_write_def by blast

lemma one_write_after:
  assumes "only_runs cl harmless m" "\<And>st x st'. m st = (Inr x, st') \<Longrightarrow> one_write cl W Q N (f x)"
  shows "one_write cl W Q N (io_bind m f)"
  unfolding one_write_def
proof (intro allI impI)
  fix st r st' assume run: "io_bind m f st = (r, st')"
  obtain q st1 where m: "m st = (q, st1)" by fastforce
  obtain xs where xs: "log st1 = log st @ map (\<lambda>c. Ran (base_command cl @ c)) xs" "list_all harmless xs" "trace (hid st1) = trace (hid st)"
    using assms(1) m by (rule only_runsD)
  show "trace (hid st') = trace (hid st) \<and> (\<exists>cmds. log st' = log st @ map (\<lambda>c. Ran (base_command cl @ c)) cmds \<and>
      outcome W (case r of Inl _ \<Rightarrow> True | Inr x \<Rightarrow> Q x) (case r of Inl _ \<Rightarrow> True | Inr x \<Rightarrow> N x) cmds)"
  proof (cases q)
    case (Inl e)
    with run m have "r = Inl e" "st' = st1" by (simp_all add: io_bind_def)
    with xs show ?thesis by (auto simp: outcome_def)
  next
    case (Inr x)
    with run m have "f x st1 = (r, st')" by (simp add: io_bind_def)
    then obtain cmds where "log st' = log st1 @ map (\<lambda>c. Ran (base_command cl @ c)) cmds" "trace (hid st') = trace (hid st1)"
      "outcome W (case r of Inl _ \<Rightarrow> True | Inr x \<Rightarrow> Q x) (case r of Inl _ \<Rightarrow> True | Inr x \<Rightarrow> N x) cmds"
      using assms(2) [OF m [unfolded Inr]] by (auto elim: one_writeD)
    with xs outcome_around [of W _ _ cmds xs "[]"] show ?thesis
      by (intro conjI exI [of _ "xs @ cmds"]) simp_all
  qed
qed

lemma one_write_finally:
  assumes "one_write cl W Q N m" "only_runs cl harmless cleanup"
  shows "one_write cl W Q N (finally_do m cleanup)"
  unfolding one_write_def
proof (intro allI impI)
  fix st r st' assume run: "finally_do m cleanup st = (r, st')"
  obtain q st1 where m: "m st = (q, st1)" by fastforce
  obtain z st2 where c: "cleanup st1 = (z, st2)" by fastforce
  obtain cmds where cmds: "log st1 = log st @ map (\<lambda>c. Ran (base_command cl @ c)) cmds" "trace (hid st1) = trace (hid st)"
    "outcome W (case q of Inl _ \<Rightarrow> True | Inr x \<Rightarrow> Q x) (case q of Inl _ \<Rightarrow> True | Inr x \<Rightarrow> N x) cmds"
    using assms(1) m by (rule one_writeD)
  obtain ys where ys: "log st2 = log st1 @ map (\<lambda>c. Ran (base_command cl @ c)) ys" "list_all harmless ys" "trace (hid st2) = trace (hid st1)"
    using assms(2) c by (rule only_runsD)
  have r: "st' = st2" "(\<exists>e. r = Inl e) \<or> r = q" using run m c by (auto simp: finally_do_def split: sum.splits)
  have "outcome W (case r of Inl _ \<Rightarrow> True | Inr x \<Rightarrow> Q x) (case r of Inl _ \<Rightarrow> True | Inr x \<Rightarrow> N x) cmds"
    using r(2) by (elim disjE exE) (auto intro: outcome_mono [OF cmds(3)])
  from outcome_around [OF this _ ys(2), of "[]"] cmds ys r(1)
  show "trace (hid st') = trace (hid st) \<and> (\<exists>cmds. log st' = log st @ map (\<lambda>c. Ran (base_command cl @ c)) cmds \<and>
      outcome W (case r of Inl _ \<Rightarrow> True | Inr x \<Rightarrow> Q x) (case r of Inl _ \<Rightarrow> True | Inr x \<Rightarrow> N x) cmds)"
    by (intro conjI exI [of _ "cmds @ ys"]) simp_all
qed

lemma one_write_tempdir:
  assumes "\<And>d. one_write cl W Q N (body d)"
  shows "one_write cl W Q N (with_tempdir host body)"
  unfolding one_write_def
proof (intro allI impI)
  fix st r st' assume run: "with_tempdir host body st = (r, st')"
  obtain q d where t: "ah_mkdtemp host (outside st) = (q, d)" by fastforce
  show "trace (hid st') = trace (hid st) \<and> (\<exists>cmds. log st' = log st @ map (\<lambda>c. Ran (base_command cl @ c)) cmds \<and>
      outcome W (case r of Inl _ \<Rightarrow> True | Inr x \<Rightarrow> Q x) (case r of Inl _ \<Rightarrow> True | Inr x \<Rightarrow> N x) cmds)"
  proof (cases q)
    case (Inl e)
    with run t have "r = Inl e" "st' = set_outside st d" by (simp_all add: with_tempdir_def)
    then show ?thesis by (auto simp: outcome_def intro!: exI [of _ "[]"])
  next
    case (Inr directory)
    obtain p st1 where b: "body directory (set_outside st d) = (p, st1)" by fastforce
    obtain z d' where z: "ah_rmtree host (outside st1) directory = (z, d')" by fastforce
    obtain cmds where cmds: "log st1 = log (set_outside st d) @ map (\<lambda>c. Ran (base_command cl @ c)) cmds"
      "trace (hid st1) = trace (hid (set_outside st d))"
      "outcome W (case p of Inl _ \<Rightarrow> True | Inr x \<Rightarrow> Q x) (case p of Inl _ \<Rightarrow> True | Inr x \<Rightarrow> N x) cmds"
      using assms b by (rule one_writeD)
    have r: "st' = set_outside st1 d'" "(\<exists>e. r = Inl e) \<or> r = p"
      using run t Inr b z by (auto simp: with_tempdir_def split: sum.splits)
    have "outcome W (case r of Inl _ \<Rightarrow> True | Inr x \<Rightarrow> Q x) (case r of Inl _ \<Rightarrow> True | Inr x \<Rightarrow> N x) cmds"
      using r(2) by (elim disjE exE) (auto intro: outcome_mono [OF cmds(3)])
    with cmds r(1) show ?thesis by auto
  qed
qed

lemma one_write_here:
  assumes "\<And>st r st'. m st = (r, st') \<Longrightarrow> log st' = log st @ [Ran (base_command cl @ w)] \<and> trace (hid st') = trace (hid st)"
    and "W w" "\<And>x. only_runs cl harmless (f x)" "\<And>x st y st'. f x st = (Inr y, st') \<Longrightarrow> Q y"
  shows "one_write cl W Q N (io_bind m f)"
  unfolding one_write_def
proof (intro allI impI)
  fix st r st' assume run: "io_bind m f st = (r, st')"
  obtain q st1 where m: "m st = (q, st1)" by fastforce
  note w = assms(1) [OF m]
  show "trace (hid st') = trace (hid st) \<and> (\<exists>cmds. log st' = log st @ map (\<lambda>c. Ran (base_command cl @ c)) cmds \<and>
      outcome W (case r of Inl _ \<Rightarrow> True | Inr x \<Rightarrow> Q x) (case r of Inl _ \<Rightarrow> True | Inr x \<Rightarrow> N x) cmds)"
  proof (cases q)
    case (Inl e)
    with run m have "r = Inl e" "st' = st1" by (simp_all add: io_bind_def)
    moreover have "outcome W True True [w]"
      unfolding outcome_def using assms(2) by (intro disjI2 exI [of _ "[]"] exI [of _ w]) simp
    ultimately show ?thesis using w by (auto intro!: exI [of _ "[w]"])
  next
    case (Inr x)
    with run m have f: "f x st1 = (r, st')" by (simp add: io_bind_def)
    obtain ys where ys: "log st' = log st1 @ map (\<lambda>c. Ran (base_command cl @ c)) ys" "list_all harmless ys" "trace (hid st') = trace (hid st1)"
      using assms(3) f by (rule only_runsD)
    have "case r of Inl _ \<Rightarrow> True | Inr x \<Rightarrow> Q x" using assms(4) f by (auto split: sum.split)
    with ys assms(2) have "outcome W (case r of Inl _ \<Rightarrow> True | Inr x \<Rightarrow> Q x) (case r of Inl _ \<Rightarrow> True | Inr x \<Rightarrow> N x) (w # ys)"
      unfolding outcome_def by (intro disjI2 exI [of _ "[]"] exI [of _ w] exI [of _ ys]) simp
    with w ys show ?thesis by (intro conjI exI [of _ "w # ys"]) simp_all
  qed
qed

lemma checked_log:
  assumes "checked host cl s timeout st = (r, st')"
  shows "log st' = log st @ [Ran (base_command cl @ [us ''shell'', s @ [10]])] \<and> trace (hid st') = trace (hid st)"
proof -
  obtain q st1 where run: "adb_run host cl [us ''shell'', s @ [10]] timeout st = (q, st1)" by fastforce
  have "st' = st1" using assms run
    by (auto simp: checked_def io_bind_def io_lift_def io_raise_def io_return_def Let_def split: sum.splits if_splits)
  with adb_run_log [OF run] show ?thesis by simp
qed

section \<open>The installation\<close>

text \<open>Everything that holds when the script is sent.\<close>

definition hook_write ::
    "hash_functions \<Rightarrow> host_files \<Rightarrow> (ustring \<Rightarrow> bool) \<Rightarrow> 's installer \<Rightarrow> adb_client \<Rightarrow> ustring \<Rightarrow> string \<Rightarrow> 's progress \<Rightarrow>
      ustring list \<Rightarrow> bool" where
  "hook_write H files is_file inst cl backup functionality progress w \<longleftrightarrow>
     (functionality = ''adb'' \<or> functionality = ''erase-fix'') \<and>
     (\<exists>preserved hashes live manifest sa sb payloads stage plan.
        load_preserved_backup H files is_file backup = Inr (preserved, hashes) \<and>
        acquire_stable H (rg_host (in_rig inst)) cl progress sa = (Inr (live, manifest), sb) \<and>
        same_known_camera H live preserved \<and>
        payloads \<noteq> [] \<and> managed_as_found (rg_host (in_rig inst)) cl (requested_files functionality) payloads \<and>
        stage_ok stage \<and> all_read_back (rg_host (in_rig inst)) payloads \<and>
        (\<exists>path st1 st2. read_local (rg_host (in_rig inst)) path st1 = (Inr (drop 0x7E0000 live), st2)) \<and>
        (\<exists>avail st1 st2. available (rg_host (in_rig inst)) cl st1 = (Inr avail, st2) \<and>
           space_plan (drop 0x7E0000 live) payloads avail = Inr plan) \<and>
        w = [us ''shell'', install_script (guards_for stage (requested_files functionality) payloads (write_budget plan)) stage
               (map fst payloads) @ [10]])"

lemma install_checks_Inr:
  assumes "install_checks H files is_file rig cl backup functionality progress st = (Inr live, st')"
  shows "(functionality = ''adb'' \<or> functionality = ''erase-fix'') \<and>
    (\<exists>preserved hashes manifest sa sb. load_preserved_backup H files is_file backup = Inr (preserved, hashes) \<and>
        acquire_stable H (rg_host rig) cl progress sa = (Inr (live, manifest), sb) \<and> same_known_camera H live preserved)"
  using assms unfolding install_checks_def Let_def same_known_camera_def
  by (clarsimp elim!: io_bind_InrE split: if_splits) blast

lemma prepare_install_Inr:
  assumes "prepare_install inst cl base stage live requested payloads st = (Inr (plan, guards), st')"
  shows "guards = guards_for stage requested payloads (write_budget plan)" "all_read_back (rg_host (in_rig inst)) payloads"
    and "\<exists>st1 st2. recheck inst cl base live payloads st1 = (Inr plan, st2)"
proof -
  have "guards = guards_for stage requested payloads (write_budget plan) \<and> all_read_back (rg_host (in_rig inst)) payloads \<and>
      (\<exists>st1 st2. recheck inst cl base live payloads st1 = (Inr plan, st2))"
    using assms unfolding prepare_install_def Let_def guards_for_def
    by (clarsimp elim!: io_bind_InrE dest!: file_guards_Inr stage_files_Inr) blast
  then show "guards = guards_for stage requested payloads (write_budget plan)" "all_read_back (rg_host (in_rig inst)) payloads"
    and "\<exists>st1 st2. recheck inst cl base live payloads st1 = (Inr plan, st2)" by simp_all
qed

lemma distinct_requested: "distinct (requested_files functionality)"
  by (simp add: requested_files_def us_def)

lemma install_startup_one_write:
  fixes H files is_file inst cl backup functionality console
  defines "host \<equiv> rg_host (in_rig inst)"
  defines "W \<equiv> hook_write H files is_file inst cl backup functionality (read_progress console)"
  shows "one_write cl W (\<lambda>x. (\<exists>plan. x = Some plan) \<and> all_read_back host (requested_files functionality))
      (\<lambda>x. x = None \<and> managed_as_found host cl (requested_files functionality) [])
      (install_startup H files is_file inst cl backup functionality (read_progress console))"
  unfolding install_startup_def Let_def host_def [symmetric]
proof (rule one_write_after [OF install_checks_harmless], rule one_write_tempdir, rule one_write_after [OF read_managed_harmless])
  fix sa live sb base sc payloads sd
  let ?requested = "requested_files functionality"
  assume c: "install_checks H files is_file (in_rig inst) cl backup functionality (read_progress console) sa = (Inr live, sb)"
    and p: "read_managed host cl base 0 ?requested sc = (Inr payloads, sd)"
  note found = read_managed_Inr [OF p distinct_requested]
  note checks = install_checks_Inr [OF c]
  let ?Q = "\<lambda>x. (\<exists>plan. x = Some plan) \<and> all_read_back host ?requested"
  let ?N = "\<lambda>x. x = None \<and> managed_as_found host cl ?requested []"
  show "one_write cl W ?Q ?N (if payloads = [] then io_return None
      else io_bind (available host cl) (\<lambda>avail.
           io_bind (io_lift (space_plan (drop 0x7E0000 live) payloads avail)) (\<lambda>_.
           io_bind (checked host cl mktemp_script 30000) (\<lambda>output.
           io_bind (io_lift (stage_name output)) (\<lambda>stage.
           finally_do (io_bind (write_hooks inst cl base stage live ?requested payloads) (\<lambda>plan. io_return (Some plan)))
             (remove_stage host cl stage))))))"
  proof (cases "payloads = []")
    case True
    with found show ?thesis by (auto intro: one_write_harmless)
  next
    case False
    have hooks: "one_write cl W ?Q ?N (io_bind (write_hooks inst cl base stage live ?requested payloads) (\<lambda>plan. io_return (Some plan)))"
      if stage: "stage_ok stage" for stage
    proof -
      have "one_write cl W ?Q ?N (io_bind (prepare_install inst cl base stage live ?requested payloads) (\<lambda>x.
          io_bind (checked host cl (install_script (snd x) stage (map fst payloads)) 120000) (\<lambda>_.
          io_bind (io_bind (verify_files host cl base 0 ?requested) (\<lambda>_. io_return (fst x))) (\<lambda>plan. io_return (Some plan)))))"
      proof (rule one_write_after [OF prepare_install_harmless [OF stage]], rule one_write_here [OF checked_log])
        fix st1 x st2
        assume "prepare_install inst cl base stage live ?requested payloads st1 = (Inr x, st2)"
        then have x: "prepare_install inst cl base stage live ?requested payloads st1 = (Inr (fst x, snd x), st2)" by simp
        note i = prepare_install_Inr [OF x]
        from i(3) obtain st3 st4 where r: "recheck inst cl base live payloads st3 = (Inr (fst x), st4)" by blast
        show "W [us ''shell'', install_script (snd x) stage (map fst payloads) @ [10]]"
          unfolding W_def hook_write_def i(1)
          using checks False found stage i(2) recheck_Inr [OF r] unfolding host_def by blast
        show "\<And>u :: bytes. only_runs cl harmless (io_bind (io_bind (verify_files host cl base 0 ?requested) (\<lambda>_. io_return (fst x))) (\<lambda>plan. io_return (Some plan)))"
          by (intro only_runs_bind verify_files_harmless only_runs_lift)
        show "\<And>(u :: bytes) s y s'. io_bind (io_bind (verify_files host cl base 0 ?requested) (\<lambda>_. io_return (fst x))) (\<lambda>plan. io_return (Some plan)) s = (Inr y, s') \<Longrightarrow> ?Q y"
          by (auto elim!: io_bind_InrE dest: verify_files_Inr)
      qed
      then show ?thesis by (simp add: write_hooks_def Let_def io_bind_assoc split_def host_def)
    qed
    have stage: "stage_ok stage" if "io_lift (stage_name out) s = (Inr stage, s')" for out stage s s'
      using that by (auto simp: stage_ok_def)
    show ?thesis
      unfolding if_not_P [OF False]
      by (rule one_write_after [OF available_harmless], rule one_write_after [OF only_runs_lift(1)],
          rule one_write_after [OF checked_harmless [OF inspects_intros(3)]], rule one_write_after [OF only_runs_lift(1)],
          rule one_write_finally [OF hooks remove_stage_harmless]; erule stage)
  qed
qed

end
