(* ===== verification/Startup_Space.thy ===== *)
theory Startup_Space
  imports Startup_Props
begin

text \<open>The sizes of the boot hooks, and the room an installation asks for.\<close>

lemma length_script: "length (script ls) = sum_list (map (\<lambda>l. Suc (length l)) ls)"
  by (simp add: script_def ascii_def length_concat comp_def)

lemma length_RUNNER: "length RUNNER = 1458"
  unfolding RUNNER_def length_script by simp

lemma length_ADB_HOOK: "length ADB_HOOK = 78"
  unfolding ADB_HOOK_def length_script by simp

lemma length_hex_text: "n < 16 ^ Suc k \<Longrightarrow> length (hex_text n) \<le> Suc k"
proof (induction k arbitrary: n)
  case 0
  then show ?case by (simp add: hex_text.simps)
next
  case (Suc k)
  have "n div 16 < 16 ^ Suc k" using Suc.prems by (simp add: less_mult_imp_div_less)
  from Suc.IH [OF this] show ?case by (subst hex_text.simps) simp
qed

lemma length_hex8: "n < 0x100000000 \<Longrightarrow> length (hex_padded 8 n) = 8"
proof -
  assume "n < 0x100000000"
  moreover have "(16 :: nat) ^ Suc 7 = 0x100000000" "Suc 7 = 8" by simp_all
  ultimately have "length (hex_text n) \<le> 8" using length_hex_text [of n 7] by metis
  then show ?thesis by (simp add: hex_padded_def)
qed

lemma lengths_Suc: "sum_list (map (\<lambda>l. Suc (length l)) ls) = sum_list (map Suc (map length ls))"
  by (simp add: comp_def)

lemma instruction_check_lengths: "map length instruction_checks = [58, 58, 58, 58]"
  unfolding instruction_checks_def INSTRUCTIONS_def list.map prod.case length_append
  by (simp add: length_hex8 hex_text.simps)

lemma symbol_check_lengths: "map length symbol_checks = [107, 112, 105]"
  unfolding symbol_checks_def SYMBOLS_def list.map prod.case length_append by (simp add: length_hex8)

lemma length_digit: "n < 10 \<Longrightarrow> length (dec_text n) = 1"
  by (subst dec_text.simps) simp

lemma length_partition_lines: "length partition_lines_text = 195"
  unfolding partition_lines_text_def EXPECTED_PARTITIONS_def enumerate_simps list.map prod.case
  by (simp add: length_hex8 length_digit)

lemma length_erase_hook: "length erase_hook = 3632"
  unfolding erase_hook_def length_script map_append sum_list_append list.map lengths_Suc [of instruction_checks]
    lengths_Suc [of symbol_checks] instruction_check_lengths symbol_check_lengths
  by (simp add: length_partition_lines KERNEL_MD5_def)

text \<open>Whichever of a feature's files are missing, the installation is budgeted one erase block.\<close>

lemma write_bytes_bound_hooks:
  assumes "subseq payloads (requested_files functionality)" "payloads \<noteq> []"
  shows "write_bytes_bound payloads = 0x4000"
proof -
  obtain x y where xy: "requested_files functionality = [x, y]" "length (snd x) \<le> 3632" "length (snd y) \<le> 1458"
    by (simp add: requested_files_def length_RUNNER length_ADB_HOOK length_erase_hook)
  from assms xy(1) have "payloads = [x] \<or> payloads = [y] \<or> payloads = [x, y]"
    by (auto simp: subseq_Cons2_iff elim: list_emb.cases split: if_splits)
  moreover have pages: "n \<le> 3632 \<Longrightarrow> (n + 4095) div 4096 \<le> 1" for n :: nat by simp
  moreover have block: "0 < b \<Longrightarrow> b \<le> 0x4000 \<Longrightarrow> (b + 0x4000 - 1) div 0x4000 * 0x4000 = (0x4000 :: nat)" for b
  proof -
    assume "0 < b" "b \<le> 0x4000"
    then have "(b + 0x4000 - 1) div 0x4000 = 1" by (intro div_nat_eqI) simp_all
    then show ?thesis by simp
  qed
  ultimately show ?thesis
    using xy(2,3) pages [of "length (snd x)"] pages [of "length (snd y)"]
    unfolding write_bytes_bound_def Let_def ERASE_def
    by (elim disjE; simp add: split_def; intro block [simplified]; simp)
qed

text \<open>C40: what an installation of either feature asks for, on every input. Whichever of its files are missing, the
  write budget is one erase block of 16 KiB, so the plan is accepted exactly when the partition has 128 KiB, at
  least six of its eight blocks are clean (marker and all \<open>0xFF\<close>) and 32 KiB are free, and five clean blocks remain
  when the budget has been spent.\<close>

theorem hook_space_plan:
  assumes "subseq payloads (requested_files functionality)" "payloads \<noteq> []"
  shows "space_plan config payloads avail = Inr plan \<longleftrightarrow>
     length config = 0x20000 \<and> 6 \<le> length (filter (is_clean config) [0, 0x4000, 0x8000, 0xC000, 0x10000, 0x14000, 0x18000, 0x1C000]) \<and>
     0x8000 \<le> avail \<and>
     plan = \<lparr>clean_blocks = length (filter (is_clean config) [0, 0x4000, 0x8000, 0xC000, 0x10000, 0x14000, 0x18000, 0x1C000]),
       write_budget = 0x4000, filesystem_available = avail\<rparr>"
proof -
  have starts: "range_step 0x20000 ERASE = [0, 0x4000, 0x8000, 0xC000, 0x10000, 0x14000, 0x18000, 0x1C000]"
    by (simp add: range_step_def constants upt_rec)
  define n where "n = length (filter (is_clean config) [0, 0x4000, 0x8000, 0xC000, 0x10000, 0x14000, 0x18000, 0x1C000])"
  show ?thesis
  proof (cases "length config = 0x20000 \<and> 0 \<le> avail")
    case True
    have "space_plan config payloads avail =
        (if n * 0x4000 < 0x4000 + 5 * 0x4000 \<or> avail < int (0x4000 + 0x4000) then Inl (insufficient_space n avail 0x4000)
         else Inr \<lparr>clean_blocks = n, write_budget = 0x4000, filesystem_available = avail\<rparr>)"
      using True assms(2) unfolding space_plan_def Let_def write_bytes_bound_hooks [OF assms]
      by (simp only: starts n_def RESERVE_BLOCKS_def) (simp add: ERASE_def)
    then show ?thesis using True unfolding n_def [symmetric] by auto
  qed (use assms(2) in \<open>auto simp: space_plan_def\<close>)
qed

text \<open>A partition of clean blocks.\<close>

definition clean_partition :: bytes where
  "clean_partition = concat (replicate 8 (clean_marker @ replicate (0x4000 - 12) 0xFF))"

lemma length_clean_marker: "length clean_marker = 12"
  by (simp add: clean_marker_def clean_header_def length_le_bytes)

theorem hook_space_plan_witness:
  "space_plan clean_partition [(us ''system.sh'', RUNNER)] 0x8000 =
     Inr \<lparr>clean_blocks = 8, write_budget = 0x4000, filesystem_available = 0x8000\<rparr>"
proof -
  have sub: "subseq [(us ''system.sh'', RUNNER)] (requested_files ''adb'')" by (simp add: requested_files_def us_def)
  let ?block = "clean_marker @ replicate (0x4000 - 12) (0xFF :: byte)"
  have len: "length ?block = 0x4000" by (simp add: length_clean_marker)
  have clean: "is_clean (concat (replicate m ?block) @ ?block @ rest) (m * 0x4000)" for m rest
  proof -
    have start: "length (concat (replicate m ?block)) = m * 0x4000" using len by (simp add: length_concat sum_list_replicate)
    have "drop (m * 0x4000) (concat (replicate m ?block) @ ?block @ rest) = ?block @ rest" using start by simp
    moreover have "drop (m * 0x4000 + 12) (concat (replicate m ?block) @ ?block @ rest) = replicate (0x4000 - 12) 0xFF @ rest"
      using start length_clean_marker by simp
    ultimately show ?thesis by (simp add: is_clean_def pslice_def ERASE_def length_clean_marker)
  qed
  have all: "is_clean clean_partition (m * 0x4000)" if "m < 8" for m
  proof -
    have "replicate 8 ?block = replicate m ?block @ ?block # replicate (7 - m) ?block"
    proof -
      have "replicate 8 ?block = replicate m ?block @ replicate (8 - m) ?block"
        using that by (metis le_add_diff_inverse less_imp_le replicate_add)
      moreover have "8 - m = Suc (7 - m)" using that by simp
      ultimately show ?thesis by (metis replicate_Suc)
    qed
    then have "clean_partition = concat (replicate m ?block) @ ?block @ concat (replicate (7 - m) ?block)"
      by (simp add: clean_partition_def)
    with clean [of m "concat (replicate (7 - m) ?block)"] show ?thesis by simp
  qed
  have "filter (is_clean clean_partition) [0, 0x4000, 0x8000, 0xC000, 0x10000, 0x14000, 0x18000, 0x1C000] =
      [0, 0x4000, 0x8000, 0xC000, 0x10000, 0x14000, 0x18000, 0x1C000]"
    using all [of 0] all [of 1] all [of 2] all [of 3] all [of 4] all [of 5] all [of 6] all [of 7] by simp
  moreover have "length clean_partition = 0x20000" using len by (simp add: clean_partition_def length_concat sum_list_replicate)
  ultimately show ?thesis using hook_space_plan [OF sub, of clean_partition "0x8000"] by simp
qed

end
