(* ===== verification/Cli_Startup.thy ===== *)
theory Cli_Startup
  imports Startup_Space Restore_Props
begin

text \<open>The command \<open>install-startup\<close> of \<open>cc2camera/cli.py\<close>, and what it promises.\<close>

record startup_options =
  so_common :: common_args
  so_backup :: ustring
  so_functionality :: string
  so_yes :: bool

definition hook_phrase :: "string \<Rightarrow> ustring" where
  "hook_phrase feature = (if feature = ''adb'' then us ''ENABLE-ADB'' else us ''INSTALL-ERASE-FIX'')"

definition confirm_startup :: "'s env \<Rightarrow> startup_options \<Rightarrow> ('s station, unit) io" where
  "confirm_startup env args =
     (if so_yes args then io_return ()
      else io_bind (isatty (ev_console env)) (\<lambda>tty.
        if \<not> tty then io_raise (ProtocolError ''hook installation requires interactive confirmation or explicit --yes'')
        else io_bind (ask (ev_console env) (us ''Type '' @ hook_phrase (so_functionality args) @ us '' to install: '')) (\<lambda>answer.
          if answer \<noteq> hook_phrase (so_functionality args)
          then io_raise (ProtocolError ''confirmation did not match; camera was not modified'')
          else io_return ())))"

definition command_install_startup ::
    "'s env \<Rightarrow> 's console \<Rightarrow> ('s \<Rightarrow> ustring \<Rightarrow> bytes \<Rightarrow> unit res \<times> 's) \<Rightarrow> startup_options \<Rightarrow> ('s station, unit) io" where
  "command_install_startup env stderr save args =
     (let feature = so_functionality args; inst = \<lparr>in_rig = ev_rig env, in_write = save\<rparr>
      in io_bind (say_lines stderr
           [us ''Install '' @ us feature @ us '' in /etc/conf.d/enabled and the shared system.sh runner.'',
            us ''This writes config files. A same-camera backup and safe free space are required.'',
            us ''The erase fix has physical validation on one supported camera; installation does not remount config.'']) (\<lambda>_.
         io_bind (confirm_startup env args) (\<lambda>_.
         io_bind (install_startup (ev_hash env) (ev_files env) (ev_is_file env) inst (adb_of (so_common args))
             (ev_path env (so_backup args)) feature (read_progress (ev_console env))) (\<lambda>result.
         say_lines (ev_console env)
           [case result of
              None \<Rightarrow> us ''Exact hook and runner already present; no persistent write needed.''
            | Some plan \<Rightarrow> us ''Installed and read back hook files; reserved write budget: '' @ us (dec_text (write_budget plan)) @ us '' bytes.'',
            us ''Restart manually to verify the boot hook; inspect /tmp/cc2-hooks.log afterward.'',
            us ''No firmware image was flashed. See docs/STARTUP-HOOKS.md for verification and stop conditions.'']))))"

text \<open>The user has consented on the command line or by typing the phrase at a terminal.\<close>

definition startup_consented :: "'s env \<Rightarrow> startup_options \<Rightarrow> bool" where
  "startup_consented env args \<longleftrightarrow>
     so_yes args \<or>
     (\<exists>st st1 st2. isatty (ev_console env) st = (Inr True, st1) \<and>
        ask (ev_console env) (us ''Type '' @ hook_phrase (so_functionality args) @ us '' to install: '') st1 =
          (Inr (hook_phrase (so_functionality args)), st2))"

lemma confirm_startup_Inr: "confirm_startup env args st = (Inr u, st') \<Longrightarrow> startup_consented env args"
  unfolding confirm_startup_def startup_consented_def
  by (cases "so_yes args") (simp_all, clarsimp elim!: io_bind_InrE split: if_splits, blast)

lemma confirm_startup_runs: "only_runs cl P (confirm_startup env args)"
  unfolding confirm_startup_def by (intro only_runs_bind only_runs_if runs only_runs_lift)

lemma one_write_then:
  assumes "one_write cl W Q N m" "\<And>x. only_runs cl harmless (f x)"
    "\<And>x. Q x \<Longrightarrow> Q'" "\<And>x. N x \<Longrightarrow> N'"
  shows "one_write cl W (\<lambda>_. Q') (\<lambda>_. N') (io_bind m f)"
  unfolding one_write_def
proof (intro allI impI)
  fix st r st' assume run: "io_bind m f st = (r, st')"
  obtain q st1 where m: "m st = (q, st1)" by fastforce
  obtain cmds where cmds: "log st1 = log st @ map (\<lambda>c. Ran (base_command cl @ c)) cmds" "trace (hid st1) = trace (hid st)"
    "outcome W (case q of Inl _ \<Rightarrow> True | Inr x \<Rightarrow> Q x) (case q of Inl _ \<Rightarrow> True | Inr x \<Rightarrow> N x) cmds"
    using assms(1) m by (rule one_writeD)
  show "trace (hid st') = trace (hid st) \<and> (\<exists>cmds. log st' = log st @ map (\<lambda>c. Ran (base_command cl @ c)) cmds \<and>
      outcome W (case r of Inl _ \<Rightarrow> True | Inr x \<Rightarrow> Q') (case r of Inl _ \<Rightarrow> True | Inr x \<Rightarrow> N') cmds)"
  proof (cases q)
    case (Inl e)
    with run m cmds show ?thesis by (auto simp: io_bind_def)
  next
    case (Inr x)
    with run m have f: "f x st1 = (r, st')" by (simp add: io_bind_def)
    obtain ys where ys: "log st' = log st1 @ map (\<lambda>c. Ran (base_command cl @ c)) ys" "list_all harmless ys" "trace (hid st') = trace (hid st1)"
      using assms(2) f by (rule only_runsD)
    have "outcome W (case r of Inl _ \<Rightarrow> True | Inr x \<Rightarrow> Q') (case r of Inl _ \<Rightarrow> True | Inr x \<Rightarrow> N') cmds"
      using cmds(3) Inr assms(3,4) by (auto intro: outcome_mono split: sum.split)
    from outcome_around [OF this _ ys(2), of "[]"] cmds ys show ?thesis
      by (intro conjI exI [of _ "cmds @ ys"]) simp_all
  qed
qed


end
