(* ===== verification/Stream_Identify.thy ===== *)
theory Stream_Identify
  imports Python_Text Reports Hid_Transport
begin

text \<open>
  The identification of a camera family from its MJPEG stream, \<open>cc2camera/stream_identify.py\<close>.
\<close>

definition DEFAULT_STREAM_PORT :: nat where [constants]: "DEFAULT_STREAM_PORT = 8080"
definition IDENTIFICATION_FRAMES :: nat where [constants]: "IDENTIFICATION_FRAMES = 3"
definition MAX_FRAME_BYTES :: nat where [constants]: "MAX_FRAME_BYTES = 2 * 1024 * 1024"
definition MAX_MULTIPART_LINE :: nat where [constants]: "MAX_MULTIPART_LINE = 8192"
definition MAX_MULTIPART_HEADERS :: nat where [constants]: "MAX_MULTIPART_HEADERS = 32 * 1024"
definition MAX_PREAMBLE_BYTES :: nat where [constants]: "MAX_PREAMBLE_BYTES = 32 * 1024"
definition DQT_30B_SHA256 :: string where
  "DQT_30B_SHA256 = ''13660d69eacf5a054bdf3d88d8aead55e5857f704b6f3d9fa098ca93ecf9c44b''"
definition DQT_30D_SHA256 :: string where
  "DQT_30D_SHA256 = ''2d13c72678b9293bb85e06153666f0b383896859603f8dc6f0cee57e816efec1''"
definition MARKERS_30B :: "string list" where
  "MARKERS_30B = [''DQT'', ''DQT'', ''SOF0'', ''DHT'', ''DHT'', ''DHT'', ''DHT'', ''SOS'']"
definition MARKERS_30D :: "string list" where
  "MARKERS_30D = [''APP0'', ''DQT'', ''DQT'', ''SOF0'', ''DRI'', ''DHT'', ''DHT'', ''DHT'', ''DHT'', ''SOS'']"

section \<open>JPEG frames\<close>

record jpeg_fingerprint =
  width :: nat
  height :: nat
  sampling :: "(nat \<times> nat \<times> nat) list"
  marker_sequence :: "string list"
  dqt_sha256 :: string
  jfif :: "(nat \<times> nat \<times> nat \<times> nat \<times> nat) option"
  restart_interval :: "nat option"
  restart_markers :: nat

record camera_identification =
  family :: "string option"
  fingerprint :: jpeg_fingerprint
  frames_checked :: nat

definition marker_name :: "nat \<Rightarrow> string" where
  "marker_name marker =
     (if 0xE1 \<le> marker \<and> marker \<le> 0xEF then ''APP'' @ dec_text (marker - 0xE0)
      else case map_of [(0xC0, ''SOF0''), (0xC2, ''SOF2''), (0xC4, ''DHT''), (0xD8, ''SOI''), (0xD9, ''EOI''), (0xDA, ''SOS''),
          (0xDB, ''DQT''), (0xDD, ''DRI''), (0xE0, ''APP0'')] marker of
        Some name \<Rightarrow> name
      | None \<Rightarrow> ''0xFF'' @ map upper_hex_char (hex_padded 2 marker))"

text \<open>The local variables of the loop.\<close>

record jpeg_state =
  js_markers :: "string list"
  js_dqt :: "bytes list"
  js_width :: nat
  js_height :: nat
  js_sampling :: "(nat \<times> nat \<times> nat) list"
  js_jfif :: "(nat \<times> nat \<times> nat \<times> nat \<times> nat) option"
  js_restart :: "nat option"

definition jpeg_start :: jpeg_state where
  "jpeg_start = \<lparr>js_markers = [], js_dqt = [], js_width = 0, js_height = 0, js_sampling = [], js_jfif = None, js_restart = None\<rparr>"

text \<open>\<open>int.from_bytes(data, "big")\<close>.\<close>

definition from_big :: "bytes \<Rightarrow> nat" where
  "from_big data = foldl (\<lambda>n b. n * 256 + unat b) 0 data"

definition byte_at :: "bytes \<Rightarrow> nat \<Rightarrow> nat" where
  "byte_at data i = unat (data ! i)"

definition frame_header :: "bytes \<Rightarrow> jpeg_state \<Rightarrow> jpeg_state res" where
  "frame_header payload js =
     (if length payload < 6 then Inl (StreamError ''truncated baseline JPEG frame header'')
      else
        let components = byte_at payload 5
        in if length payload \<noteq> 6 + components * 3
           then Inl (StreamError ''invalid baseline JPEG component table'')
           else Inr (js\<lparr>js_height := from_big (pslice payload 1 3), js_width := from_big (pslice payload 3 5),
             js_sampling := map (\<lambda>i. (byte_at payload (6 + i * 3), byte_at payload (7 + i * 3) div 16, byte_at payload (7 + i * 3) mod 16))
               [0..<components]\<rparr>))"

text \<open>What one segment before the scan does.\<close>

definition segment_step :: "nat \<Rightarrow> bytes \<Rightarrow> jpeg_state \<Rightarrow> jpeg_state res" where
  "segment_step marker payload js =
     (let js = js\<lparr>js_markers := js_markers js @ [marker_name marker]\<rparr>
      in if marker = 0xDB then Inr (js\<lparr>js_dqt := js_dqt js @ [payload]\<rparr>)
         else if marker = 0xC0 then frame_header payload js
         else if marker = 0xE0 \<and> take 5 payload = ascii ''JFIF'' @ [0] \<and> 12 \<le> length payload
         then Inr (js\<lparr>js_jfif := Some (byte_at payload 5, byte_at payload 6, byte_at payload 7, from_big (pslice payload 8 10), from_big (pslice payload 10 12))\<rparr>)
         else if marker = 0xDD
         then (if length payload \<noteq> 2 then Inl (StreamError ''invalid JPEG restart interval'')
               else Inr (js\<lparr>js_restart := Some (from_big payload)\<rparr>))
         else Inr js)"

text \<open>The number of bytes \<open>0xFF\<close> from a position on.\<close>

definition fill_end :: "bytes \<Rightarrow> nat \<Rightarrow> nat" where
  "fill_end frame pos = pos + length (takeWhile (\<lambda>b. b = 0xFF) (drop pos frame))"

lemma fill_end_le: "pos \<le> fill_end frame pos"
  by (simp add: fill_end_def)

text \<open>The loop; the result is the state with the start of the scan, if there was one.\<close>

function scan_segments :: "bytes \<Rightarrow> nat \<Rightarrow> jpeg_state \<Rightarrow> (jpeg_state \<times> nat option) res" where
  "scan_segments frame pos js =
     (if \<not> pos < length frame - 2 then Inr (js, None)
      else if frame ! pos \<noteq> 0xFF
      then Inl (StreamError ''invalid JPEG marker structure before scan data'')
      else
        let pos = fill_end frame pos
        in if length frame \<le> pos then Inl (StreamError ''truncated JPEG marker'')
           else
             let marker = byte_at frame pos; pos = pos + 1
             in if 0xD0 \<le> marker \<and> marker < 0xD8 \<or> marker = 1
                then scan_segments frame pos (js\<lparr>js_markers := js_markers js @ [marker_name marker]\<rparr>)
                else if marker = 0xD9 then Inl (StreamError ''JPEG ended before a scan'')
                else if length frame < pos + 2 then Inl (StreamError ''truncated JPEG segment length'')
                else
                  let len = from_big (pslice frame pos (pos + 2))
                  in if len < 2 \<or> length frame < pos + len
                     then Inl (StreamError ''invalid JPEG segment length'')
                     else
                       (case segment_step marker (pslice frame (pos + 2) (pos + len)) js of
                          Inl e \<Rightarrow> Inl e
                        | Inr js \<Rightarrow> if marker = 0xDA then Inr (js, Some (pos + len)) else scan_segments frame (pos + len) js))"
  by pat_completeness auto
termination
  by (relation "measure (\<lambda>(frame, pos, js). length frame - pos)")
    (auto dest: le_less_trans [OF fill_end_le] simp: not_le intro!: diff_less_mono2 le_imp_less_Suc trans_le_add1 fill_end_le)

declare scan_segments.simps [simp del]

text \<open>\<open>scan.count(bytes((0xFF, marker)))\<close>; two such occurrences cannot overlap.\<close>

fun count_pair :: "byte \<Rightarrow> byte \<Rightarrow> bytes \<Rightarrow> nat" where
  "count_pair a b (x # y # rest) = (if x = a \<and> y = b then Suc (count_pair a b rest) else count_pair a b (y # rest))"
| "count_pair a b _ = 0"

definition fingerprint_jpeg :: "hash_functions \<Rightarrow> bytes \<Rightarrow> jpeg_fingerprint res" where
  "fingerprint_jpeg H frame =
     (if length frame < 4 \<or> take 2 frame \<noteq> [0xFF, 0xD8] \<or> drop (length frame - 2) frame \<noteq> [0xFF, 0xD9]
      then Inl (StreamError ''stream frame is not a complete JPEG'')
      else res_bind (scan_segments frame 2 jpeg_start) (\<lambda>(js, scan_start).
        case scan_start of
          None \<Rightarrow> Inl (StreamError ''JPEG lacks required baseline encoder metadata'')
        | Some start \<Rightarrow>
            if js_width js = 0 \<or> js_height js = 0 \<or> js_dqt js = []
            then Inl (StreamError ''JPEG lacks required baseline encoder metadata'')
            else
              let scan = pslice frame start (length frame - 2)
              in Inr \<lparr>width = js_width js, height = js_height js, sampling = js_sampling js, marker_sequence = js_markers js,
                   dqt_sha256 = sha256 H (concat (js_dqt js)), jfif = js_jfif js, restart_interval = js_restart js,
                   restart_markers = sum_list (map (\<lambda>marker. count_pair 0xFF marker scan) [0xD0, 0xD1, 0xD2, 0xD3, 0xD4, 0xD5, 0xD6, 0xD7])\<rparr>))"

definition classify_fingerprint :: "jpeg_fingerprint \<Rightarrow> string option" where
  "classify_fingerprint f =
     (if \<not> (width f = 640 \<and> height f = 360 \<and> sampling f = [(1, 2, 2), (2, 1, 1), (3, 1, 1)]) then None
      else if marker_sequence f = MARKERS_30B \<and> dqt_sha256 f = DQT_30B_SHA256 \<and> jfif f = None \<and> restart_interval f = None \<and>
        restart_markers f = 0 then Some ''EF-S7-V1.0.30B''
      else if marker_sequence f = MARKERS_30D \<and> dqt_sha256 f = DQT_30D_SHA256 \<and> jfif f = Some (1, 2, 1, 72, 72) \<and>
        restart_interval f = Some 40 \<and> restart_markers f = 22 then Some ''EF-S7-V1.0.30D''
      else None)"

fun each_res :: "('a \<Rightarrow> 'b res) \<Rightarrow> 'a list \<Rightarrow> 'b list res" where
  "each_res f [] = Inr []"
| "each_res f (x # xs) = res_bind (f x) (\<lambda>y. res_bind (each_res f xs) (\<lambda>ys. Inr (y # ys)))"

definition identify_frames :: "hash_functions \<Rightarrow> bytes list \<Rightarrow> camera_identification res" where
  "identify_frames H frames =
     (if frames = [] then Inl (StreamError ''camera stream contained no JPEG frames'')
      else res_bind (each_res (fingerprint_jpeg H) frames) (\<lambda>fingerprints.
        let first = hd fingerprints
        in Inr \<lparr>family = (if \<exists>item \<in> set (tl fingerprints). item \<noteq> first then None else classify_fingerprint first),
             fingerprint = first, frames_checked = length fingerprints\<rparr>))"

section \<open>The stream\<close>

text \<open>
  A binary stream: the bytes to come, and for each of the next operations how many bytes a \<open>read\<close> delivers at most,
  or \<open>None\<close> when the operation fails with an \<open>OSError\<close>. A \<open>readline\<close> delivers a whole line, or as much as it may.
\<close>

record stream =
  st_data :: bytes
  st_events :: "nat option list"

definition next_event :: "stream \<Rightarrow> nat option \<times> stream" where
  "next_event s = (case st_events s of [] \<Rightarrow> (Some (length (st_data s)), s) | e # es \<Rightarrow> (e, s\<lparr>st_events := es\<rparr>))"

definition stream_read :: "nat \<Rightarrow> (stream, bytes) io" where
  "stream_read n s =
     (case next_event s of
        (None, s') \<Rightarrow> (Inl OSError, s')
      | (Some k, s') \<Rightarrow> (Inr (take (min n (max 1 k)) (st_data s')), s'\<lparr>st_data := drop (min n (max 1 k)) (st_data s')\<rparr>))"

definition line_of :: "bytes \<Rightarrow> bytes" where
  "line_of data = take (Suc (length (takeWhile (\<lambda>b. b \<noteq> 10) data))) data"

definition stream_readline :: "nat \<Rightarrow> (stream, bytes) io" where
  "stream_readline limit s =
     (case next_event s of
        (None, s') \<Rightarrow> (Inl OSError, s')
      | (Some _, s') \<Rightarrow>
          let line = take limit (line_of (st_data s')) in (Inr line, s'\<lparr>st_data := drop (length line) (st_data s')\<rparr>))"

definition read_line :: "(stream, bytes) io" where
  "read_line =
     io_bind (stream_readline (MAX_MULTIPART_LINE + 1)) (\<lambda>line.
     if MAX_MULTIPART_LINE < length line then io_raise (StreamError ''MJPEG multipart line is too long'')
     else io_return line)"

function read_exact :: "nat \<Rightarrow> (stream, bytes) io" where
  "read_exact remaining s =
     (if remaining = 0 then (Inr [], s)
      else case stream_read remaining s of
          (Inl e, s1) \<Rightarrow> (Inl e, s1)
        | (Inr chunk, s1) \<Rightarrow>
            if chunk = [] then (Inl (StreamError ''MJPEG stream ended inside a JPEG frame''), s1)
            else case read_exact (remaining - length chunk) s1 of
                (Inl e, s2) \<Rightarrow> (Inl e, s2)
              | (Inr rest, s2) \<Rightarrow> (Inr (chunk @ rest), s2))"
  by pat_completeness auto
termination by (relation "measure fst") auto

declare read_exact.simps [simp del]

definition is_end_byte :: "byte \<Rightarrow> bool" where
  "is_end_byte b \<longleftrightarrow> b = 13 \<or> b = 10"

definition rstrip_end :: "bytes \<Rightarrow> bytes" where
  "rstrip_end line = rev (dropWhile is_end_byte (rev line))"

definition lower_bytes :: "bytes \<Rightarrow> bytes" where
  "lower_bytes data = map (\<lambda>b. if 65 \<le> b \<and> b \<le> 90 then b + 32 else b) data"

text \<open>\<open>line.split(sep, 1)\<close> when the separator occurs; \<open>split(sep, 1)[0]\<close> in any case.\<close>

definition before_byte :: "byte \<Rightarrow> bytes \<Rightarrow> bytes" where
  "before_byte sep line = takeWhile (\<lambda>b. b \<noteq> sep) line"

definition after_byte :: "byte \<Rightarrow> bytes \<Rightarrow> bytes" where
  "after_byte sep line = drop 1 (dropWhile (\<lambda>b. b \<noteq> sep) line)"

text \<open>The headers of one part; a later header replaces an earlier one of the same name.\<close>

lemma progress: "b \<noteq> [] \<Longrightarrow> \<not> m < n + length b \<Longrightarrow> m - (n + length b) < m - n"
  by (cases b) auto

function read_headers :: "nat \<Rightarrow> (bytes \<rightharpoonup> bytes) \<Rightarrow> (stream, bytes \<rightharpoonup> bytes) io" where
  "read_headers header_bytes headers s =
     (case read_line s of
        (Inl e, s1) \<Rightarrow> (Inl e, s1)
      | (Inr line, s1) \<Rightarrow>
          if line = [] then (Inl (StreamError ''MJPEG stream ended inside multipart headers''), s1)
          else if MAX_MULTIPART_HEADERS < header_bytes + length line
          then (Inl (StreamError ''MJPEG multipart headers are too large''), s1)
          else if line = [13, 10] \<or> line = [10] then (Inr headers, s1)
          else if 0x3A \<notin> set line then (Inl (StreamError ''invalid MJPEG multipart header''), s1)
          else read_headers (header_bytes + length line)
                 (headers(lower_bytes (strip_bytes (before_byte 0x3A line)) \<mapsto> strip_bytes (after_byte 0x3A line))) s1)"
  by pat_completeness auto
termination by (relation "measure (\<lambda>(n, _). MAX_MULTIPART_HEADERS - n)") (auto intro: progress)

declare read_headers.simps [simp del]

text \<open>
  \<open>int(value)\<close> of bytes: white space around an optional sign and decimal digits, with single underscores between
  digits; more than 4300 digits are refused.
\<close>

definition digits_value :: "ustring \<Rightarrow> nat option" where
  "digits_value t =
     (if t \<noteq> [] \<and> list_all (\<lambda>c. is_decimal c \<or> c = 0x5F) t \<and> hd t \<noteq> 0x5F \<and> last t \<noteq> 0x5F \<and>
        \<not> sublist [0x5F, 0x5F] t \<and> length (filter is_decimal t) \<le> 4300
      then Some (number_in 10 (filter is_decimal t)) else None)"

definition int_of_bytes :: "bytes \<Rightarrow> int option" where
  "int_of_bytes value =
     (let t = map unat (strip_bytes value)
      in if take 1 t = [0x2D] then map_option (\<lambda>n. - int n) (digits_value (drop 1 t))
         else if take 1 t = [0x2B] then map_option int (digits_value (drop 1 t))
         else map_option int (digits_value t))"

definition part_length :: "(bytes \<rightharpoonup> bytes) \<Rightarrow> nat res" where
  "part_length headers =
     (let content_type = (case headers (ascii ''content-type'') of None \<Rightarrow> [] | Some v \<Rightarrow> v)
      in if lower_bytes (strip_bytes (before_byte 0x3B content_type)) \<noteq> ascii ''image/jpeg''
         then Inl (StreamError ''MJPEG part is not image/jpeg'')
         else case headers (ascii ''content-length'') of
             None \<Rightarrow> Inl (StreamError ''MJPEG part has no Content-Length'')
           | Some raw \<Rightarrow>
               (case int_of_bytes raw of
                  None \<Rightarrow> Inl (StreamError ''invalid MJPEG Content-Length'')
                | Some n \<Rightarrow>
                    if \<not> (0 < n \<and> n \<le> int MAX_FRAME_BYTES)
                    then Inl (StreamError ''MJPEG frame length is outside the accepted bound'')
                    else Inr (nat n)))"

definition read_part :: "(stream, bytes) io" where
  "read_part =
     io_bind (read_headers 0 Map.empty) (\<lambda>headers.
     io_bind (io_lift (part_length headers)) (\<lambda>n. read_exact n))"

text \<open>The outer loop, until \<open>left\<close> frames have been read or the stream or the multipart body has ended.\<close>

function read_parts :: "bytes \<Rightarrow> nat \<Rightarrow> nat \<Rightarrow> (stream, bytes list) io" where
  "read_parts delimiter left preamble s =
     (if left = 0 then (Inr [], s)
      else case read_line s of
          (Inl e, s1) \<Rightarrow> (Inl e, s1)
        | (Inr line, s1) \<Rightarrow>
            if line = [] \<or> rstrip_end line = delimiter @ ascii ''--'' then (Inr [], s1)
            else if rstrip_end line \<noteq> delimiter
            then if MAX_PREAMBLE_BYTES < preamble + length line
                 then (Inl (StreamError ''MJPEG multipart boundary was not found''), s1)
                 else read_parts delimiter left (preamble + length line) s1
            else case read_part s1 of
                (Inl e, s2) \<Rightarrow> (Inl e, s2)
              | (Inr frame, s2) \<Rightarrow>
                  (case read_parts delimiter (left - 1) preamble s2 of
                     (Inl e, s3) \<Rightarrow> (Inl e, s3)
                   | (Inr frames, s3) \<Rightarrow> (Inr (frame # frames), s3)))"
  by pat_completeness auto
termination
  by (relation "measures [\<lambda>(_, left, _, _). left, \<lambda>(_, _, preamble, _). MAX_PREAMBLE_BYTES - preamble]") (auto intro: progress)

declare read_parts.simps [simp del]

definition read_mjpeg_frames :: "bytes \<Rightarrow> nat \<Rightarrow> (stream, bytes list) io" where
  "read_mjpeg_frames boundary count =
     io_bind (read_parts (ascii ''--'' @ boundary) count 0) (\<lambda>frames.
     if length frames < count
     then io_raise (StreamError (''MJPEG stream ended after '' @ dec_text (length frames) @ '' frame(s); '' @ dec_text count @ '' are required''))
     else io_return frames)"

section \<open>The camera's address\<close>

text \<open>\<open>ipaddress.IPv6Address\<close> is the parameter \<open>is_ipv6\<close>.\<close>

definition stream_url :: "(ustring \<Rightarrow> bool) \<Rightarrow> ustring \<Rightarrow> ustring res" where
  "stream_url is_ipv6 host =
     (let value = strip host
      in if value = [] \<or> (\<exists>ch \<in> set value. is_space ch) \<or> (\<exists>ch \<in> set value. ch \<in> set (us ''/?#@''))
         then Inl (StreamError ''printer address must be a hostname or IP address, without a URL path'')
         else if 0x3A \<in> set value \<and> \<not> is_ipv6 value
         then Inl (StreamError ''printer address must not include a port; port 8080 is used'')
         else
           let value = (if 0x3A \<in> set value then us ''['' @ value @ us '']'' else value)
           in Inr (us ''http://'' @ value @ us '':'' @ us (dec_text DEFAULT_STREAM_PORT) @ us ''/''))"

text \<open>A parameter of the \<open>Content-Type\<close> header: none, a text, or a triple (RFC 2231).\<close>

datatype header_param = No_param | Plain ustring | Encoded "ustring \<times> ustring \<times> ustring"

record response =
  re_content_type :: ustring
  re_boundary :: header_param
  re_stream :: stream

definition boundary_bytes :: "header_param \<Rightarrow> bytes res" where
  "boundary_bytes p =
     (case p of
        Plain t \<Rightarrow> if list_all (\<lambda>c. c < 0x80) t then Inr (map of_nat t) else Inl UnicodeError
      | _ \<Rightarrow> Inl TypeError)"

definition has_boundary :: "header_param \<Rightarrow> bool" where
  "has_boundary p \<longleftrightarrow> (case p of No_param \<Rightarrow> False | Plain t \<Rightarrow> t \<noteq> [] | Encoded _ \<Rightarrow> True)"

text \<open>\<open>urlopen\<close> is the parameter \<open>opener\<close>; an \<open>OSError\<close> of it is reported with the URL.\<close>

definition identify_camera_stream ::
    "hash_functions \<Rightarrow> (ustring \<Rightarrow> bool) \<Rightarrow> (ustring \<Rightarrow> response res) \<Rightarrow> ustring \<Rightarrow> camera_identification res" where
  "identify_camera_stream H is_ipv6 opener host =
     res_bind (stream_url is_ipv6 host) (\<lambda>url.
     case opener url of
       Inl e \<Rightarrow> Inl (if is_os_error e then StreamError ''could not open camera stream'' else e)
     | Inr response \<Rightarrow>
         if re_content_type response \<noteq> us ''multipart/x-mixed-replace'' \<or> \<not> has_boundary (re_boundary response)
         then Inl (StreamError ''camera endpoint is not an MJPEG multipart stream'')
         else res_bind (boundary_bytes (re_boundary response)) (\<lambda>boundary.
              res_bind (fst (read_mjpeg_frames boundary IDENTIFICATION_FRAMES (re_stream response))) (\<lambda>frames.
              identify_frames H frames)))"

end
