(* ===== verification/Stream_Props.thy ===== *)
theory Stream_Props
  imports Stream_Identify Proc_Mtd
begin

text \<open>
  What the MJPEG reader of \<open>stream_identify.py\<close> promises: it reads what a camera sends, however the bytes arrive, and whatever
  arrives it reads only so much of it.
\<close>

section \<open>How much is read\<close>

text \<open>\<open>consumed b s s'\<close>: from \<open>s\<close> to \<open>s'\<close> at most \<open>b\<close> bytes have been taken from the front of the stream.\<close>

definition consumed :: "nat \<Rightarrow> stream \<Rightarrow> stream \<Rightarrow> bool" where
  "consumed b s s' \<longleftrightarrow> (\<exists>c. st_data s = c @ st_data s' \<and> length c \<le> b)"

lemma consumed_refl [simp]: "consumed b s s"
  by (simp add: consumed_def)

lemma consumed_trans:
  assumes "consumed a s s1" "consumed b s1 s2" "a + b \<le> c"
  shows "consumed c s s2"
proof -
  obtain x y where "st_data s = x @ st_data s1" "length x \<le> a" "st_data s1 = y @ st_data s2" "length y \<le> b"
    using assms(1,2) unfolding consumed_def by blast
  with assms(3) have "st_data s = (x @ y) @ st_data s2 \<and> length (x @ y) \<le> c" by simp
  then show ?thesis unfolding consumed_def by blast
qed

lemma consumed_mono: "consumed a s s' \<Longrightarrow> a \<le> b \<Longrightarrow> consumed b s s'"
  by (auto simp: consumed_def)

lemma consumed_drop: "st_data s' = drop n (st_data s) \<Longrightarrow> n \<le> b \<Longrightarrow> consumed b s s'"
  unfolding consumed_def by (rule exI [of _ "take n (st_data s)"]) simp

lemma next_event_data: "next_event s = (e, s') \<Longrightarrow> st_data s' = st_data s"
  by (auto simp: next_event_def split: list.splits)

lemma stream_read_consumed:
  assumes "stream_read n s = (r, s')"
  shows "consumed n s s'" and "r = Inr x \<Longrightarrow> consumed (length x) s s' \<and> length x \<le> n"
proof -
  obtain e s1 where e: "next_event s = (e, s1)" by fastforce
  note d = next_event_data [OF e]
  have "consumed n s s' \<and> (r = Inr x \<longrightarrow> consumed (length x) s s' \<and> length x \<le> n)"
  proof (cases e)
    case None
    with assms e d show ?thesis by (auto simp: stream_read_def intro: consumed_drop [where n = 0])
  next
    case (Some k)
    with assms e have s': "s' = s1\<lparr>st_data := drop (min n (max 1 k)) (st_data s1)\<rparr>"
      and r: "r = Inr (take (min n (max 1 k)) (st_data s1))" by (auto simp: stream_read_def)
    have "st_data s' = drop (length (take (min n (max 1 k)) (st_data s1))) (st_data s)"
      using d by (simp add: s' drop_eq_Nil min_def)
    with r show ?thesis by (auto intro: consumed_drop)
  qed
  then show "consumed n s s'" and "r = Inr x \<Longrightarrow> consumed (length x) s s' \<and> length x \<le> n" by simp_all
qed

lemma read_line_consumed:
  assumes "read_line s = (r, s')"
  shows "consumed 8193 s s'" and "r = Inr x \<Longrightarrow> consumed (length x) s s' \<and> length x \<le> 8192"
proof -
  obtain e s1 where e: "next_event s = (e, s1)" by fastforce
  note d = next_event_data [OF e]
  have "consumed 8193 s s' \<and> (r = Inr x \<longrightarrow> consumed (length x) s s' \<and> length x \<le> 8192)"
  proof (cases e)
    case None
    with assms e d show ?thesis
      by (auto simp: read_line_def stream_readline_def io_bind_def intro: consumed_drop [where n = 0])
  next
    case (Some k)
    define line where "line = take 8193 (line_of (st_data s1))"
    have "s' = s1\<lparr>st_data := drop (length line) (st_data s1)\<rparr> \<and> (r = Inr x \<longrightarrow> x = line \<and> length line \<le> 8192)"
      using assms e Some unfolding line_def
      by (auto simp: read_line_def stream_readline_def io_bind_def Let_def MAX_MULTIPART_LINE_def io_raise_def io_return_def io_lift_def
          split: if_splits)
    moreover have "length line \<le> 8193" by (simp add: line_def)
    ultimately show ?thesis using d by (auto intro: consumed_drop)
  qed
  then show "consumed 8193 s s'" and "r = Inr x \<Longrightarrow> consumed (length x) s s' \<and> length x \<le> 8192" by simp_all
qed

lemma read_exact_consumed:
  "read_exact n s = (r, s') \<Longrightarrow> consumed n s s' \<and> (\<forall>x. r = Inr x \<longrightarrow> length x = n)"
proof (induction n s arbitrary: r s' rule: read_exact.induct)
  case (1 remaining s)
  obtain q s1 where read: "stream_read remaining s = (q, s1)" by fastforce
  show ?case
  proof (cases "remaining = 0")
    case True
    with "1.prems" have "r = Inr []" "s' = s" by (simp_all add: read_exact.simps)
    with True show ?thesis by simp
  next
    case False
    show ?thesis
    proof (cases q)
      case (Inl e)
      with "1.prems" False read stream_read_consumed(1) [OF read] show ?thesis by (subst (asm) read_exact.simps) auto
    next
      case (Inr chunk)
      note c = stream_read_consumed(2) [OF read Inr]
      show ?thesis
      proof (cases "chunk = []")
        case True
        with "1.prems" False read Inr stream_read_consumed(1) [OF read] show ?thesis by (subst (asm) read_exact.simps) auto
      next
        case nonempty: False
        obtain p s2 where rec: "read_exact (remaining - length chunk) s1 = (p, s2)" by fastforce
        have IH: "consumed (remaining - length chunk) s1 s2 \<and> (\<forall>x. p = Inr x \<longrightarrow> length x = remaining - length chunk)"
          using "1.IH" [OF False _ _ nonempty rec] read Inr by simp
        have "s' = s2 \<and> (\<forall>x. r = Inr x \<longrightarrow> (\<exists>y. p = Inr y \<and> x = chunk @ y))"
          using "1.prems" False read Inr nonempty rec by (subst (asm) read_exact.simps) (auto split: sum.splits)
        with IH c consumed_trans [of "length chunk" s s1 "remaining - length chunk" s2 remaining] show ?thesis by auto
      qed
    qed
  qed
qed

lemma read_headers_consumed:
  "read_headers n headers s = (r, s') \<Longrightarrow> n \<le> 32768 \<Longrightarrow>
     consumed (32768 - n + 8193) s s' \<and> (\<forall>x. r = Inr x \<longrightarrow> consumed (32768 - n) s s')"
proof (induction n headers s arbitrary: r s' rule: read_headers.induct)
  case (1 n headers s)
  obtain q s1 where line: "read_line s = (q, s1)" by fastforce
  note c = read_line_consumed [OF line]
  show ?case
  proof (cases q)
    case (Inl e)
    with "1.prems" line c(1) show ?thesis by (subst (asm) read_headers.simps) (auto intro: consumed_mono)
  next
    case (Inr l)
    note cl = c(2) [OF Inr]
    show ?thesis
    proof (cases "l = [] \<or> 32768 < n + length l")
      case True
      with "1.prems"(1) line Inr have "s' = s1" "\<not> (\<exists>x. r = Inr x)"
        by (subst (asm) read_headers.simps, auto simp: MAX_MULTIPART_HEADERS_def split: if_splits)+
      with c(1) show ?thesis by (auto intro: consumed_mono)
    next
      case False
      then have ok: "l \<noteq> []" "\<not> MAX_MULTIPART_HEADERS < n + length l" by (simp_all add: MAX_MULTIPART_HEADERS_def)
      have fits: "n + length l \<le> 32768" using False by simp
      show ?thesis
      proof (cases "l = [13, 10] \<or> l = [10] \<or> 0x3A \<notin> set l")
        case True
        with "1.prems" line Inr ok have "s' = s1" by (subst (asm) read_headers.simps) (auto split: if_splits)
        moreover have "consumed (32768 - n) s s1" using cl fits by (auto intro: consumed_mono)
        ultimately show ?thesis by (auto intro: consumed_mono)
      next
        case more: False
        let ?headers = "headers(lower_bytes (strip_bytes (before_byte 0x3A l)) \<mapsto> strip_bytes (after_byte 0x3A l))"
        have rec: "read_headers (n + length l) ?headers s1 = (r, s')"
          using "1.prems"(1) line Inr ok more by (subst (asm) read_headers.simps) auto
        have IH: "consumed (32768 - (n + length l) + 8193) s1 s' \<and> (\<forall>x. r = Inr x \<longrightarrow> consumed (32768 - (n + length l)) s1 s')"
          using "1.IH" [OF _ _ _ _ _ _ rec] line Inr ok more fits by simp
        have "consumed (32768 - n + 8193) s s'"
          by (rule consumed_trans [of "length l" s s1 "32768 - (n + length l) + 8193"]) (use IH cl fits in auto)
        moreover have "consumed (32768 - n) s s'" if "r = Inr x" for x
          by (rule consumed_trans [of "length l" s s1 "32768 - (n + length l)"]) (use IH cl fits that in auto)
        ultimately show ?thesis by blast
      qed
    qed
  qed
qed

lemma read_part_consumed:
  assumes "read_part s = (r, s')"
  shows "consumed (32768 + 2097152 + 8193) s s' \<and>
    (\<forall>x. r = Inr x \<longrightarrow> consumed (32768 + 2097152) s s' \<and> 0 < length x \<and> length x \<le> 2097152)"
proof -
  obtain q s1 where headers: "read_headers 0 Map.empty s = (q, s1)" by fastforce
  note c = read_headers_consumed [OF headers, simplified]
  show ?thesis
  proof (cases q)
    case (Inl e)
    with assms headers c show ?thesis by (auto simp: read_part_def io_bind_def intro: consumed_mono)
  next
    case (Inr h)
    show ?thesis
    proof (cases "part_length h")
      case (Inl e)
      with assms headers Inr c show ?thesis by (auto simp: read_part_def io_bind_def io_lift_def io_raise_def intro: consumed_mono)
    next
      case n: (Inr n)
      have range: "0 < n" "n \<le> 2097152"
        using n by (auto simp: part_length_def Let_def MAX_FRAME_BYTES_def split: if_splits option.splits)
      have rd: "read_exact n s1 = (r, s')" using assms headers Inr n by (simp add: read_part_def io_bind_def io_lift_def)
      note x = read_exact_consumed [OF rd]
      have "consumed (32768 + 2097152) s s'"
        by (rule consumed_trans [of 32768 s s1 n]) (use c Inr x range in auto)
      with x range show ?thesis by (auto intro: consumed_mono)
    qed
  qed
qed

abbreviation good_frame :: "bytes \<Rightarrow> bool" where
  "good_frame f \<equiv> 0 < length f \<and> length f \<le> 2097152"

lemma read_parts_consumed:
  "read_parts d left pre s = (r, s') \<Longrightarrow> pre \<le> 32768 \<Longrightarrow>
     consumed (32768 - pre + left * 2138112 + 8193) s s' \<and>
     (\<forall>x. r = Inr x \<longrightarrow> length x \<le> left \<and> list_all good_frame x)"
proof (induction d left pre s arbitrary: r s' rule: read_parts.induct)
  case (1 d left pre s)
  obtain q s1 where line: "read_line s = (q, s1)" by fastforce
  note c = read_line_consumed [OF line]
  consider (none) "left = 0" | (fail) e where "left \<noteq> 0" "q = Inl e" | (line) l where "left \<noteq> 0" "q = Inr l" by (cases q) auto
  then show ?case
  proof cases
    case none
    with "1.prems"(1) have "r = Inr []" "s' = s" by (simp_all add: read_parts.simps)
    then show ?thesis by simp
  next
    case fail
    with "1.prems" line c(1) show ?thesis by (subst (asm) read_parts.simps) (auto intro: consumed_mono)
  next
    case (line l)
    note cl = c(2) [OF line(2)] and rl = \<open>read_line s = (q, s1)\<close>
    consider (stop) "l = [] \<or> rstrip_end l = d @ ascii ''--''" | (pre) "l \<noteq> []" "rstrip_end l \<noteq> d @ ascii ''--''" "rstrip_end l \<noteq> d"
      | (part) "l \<noteq> []" "rstrip_end l \<noteq> d @ ascii ''--''" "rstrip_end l = d" by blast
    then show ?thesis
    proof cases
      case stop
      with "1.prems"(1) line rl have "r = Inr []" "s' = s1" by (subst (asm) read_parts.simps, simp)+
      with cl show ?thesis by (auto intro: consumed_mono)
    next
      case pre
      show ?thesis
      proof (cases "32768 < pre + length l")
        case True
        with "1.prems"(1) line rl pre have "isl r" "s' = s1"
          by (subst (asm) read_parts.simps, auto simp: MAX_PREAMBLE_BYTES_def)+
        with cl show ?thesis by (auto intro: consumed_mono)
      next
        case False
        then have ok: "\<not> MAX_PREAMBLE_BYTES < pre + length l" by (simp add: MAX_PREAMBLE_BYTES_def)
        have rec: "read_parts d left (pre + length l) s1 = (r, s')"
          using "1.prems"(1) line rl pre ok by (subst (asm) read_parts.simps) auto
        have IH: "consumed (32768 - (pre + length l) + left * 2138112 + 8193) s1 s' \<and>
            (\<forall>x. r = Inr x \<longrightarrow> length x \<le> left \<and> list_all good_frame x)"
          using "1.IH"(1) [OF _ _ _ _ _ _ rec] line rl pre ok False by simp
        have "consumed (32768 - pre + left * 2138112 + 8193) s s'"
          by (rule consumed_trans [of "length l" s s1 "32768 - (pre + length l) + left * 2138112 + 8193"])
            (use IH cl False in auto)
        with IH show ?thesis by blast
      qed
    next
      case part
      obtain p s2 where rp: "read_part s1 = (p, s2)" by fastforce
      note cp = read_part_consumed [OF rp]
      obtain k where left: "left = Suc k" using line(1) by (cases left) auto
      show ?thesis
      proof (cases p)
        case (Inl e)
        with "1.prems"(1) line rl part rp have "r = Inl e" "s' = s2" by (subst (asm) read_parts.simps, simp)+
        moreover have "consumed (32768 - pre + left * 2138112 + 8193) s s2"
          by (rule consumed_trans [of 8192 s s1 "32768 + 2097152 + 8193"]) (use cl cp left in \<open>auto intro: consumed_mono\<close>)
        ultimately show ?thesis by simp
      next
        case (Inr f)
        obtain t s3 where rest: "read_parts d k pre s2 = (t, s3)" by fastforce
        have IH: "consumed (32768 - pre + k * 2138112 + 8193) s2 s3 \<and> (\<forall>x. t = Inr x \<longrightarrow> length x \<le> k \<and> list_all good_frame x)"
          using "1.IH"(2) [OF _ _ _ _ _ _ _ _ _] line rl part rp Inr left rest "1.prems"(2) by simp
        have "consumed (8192 + (32768 + 2097152)) s s2"
          by (rule consumed_trans [of 8192 s s1 "32768 + 2097152"]) (use cl cp Inr in \<open>auto intro: consumed_mono\<close>)
        then have "consumed (32768 - pre + left * 2138112 + 8193) s s3"
          by (rule consumed_trans [of _ s s2 "32768 - pre + k * 2138112 + 8193"]) (use IH left in auto)
        moreover have "s' = s3 \<and> (\<forall>x. r = Inr x \<longrightarrow> (\<exists>y. t = Inr y \<and> x = f # y))"
          using "1.prems"(1) line rl part rp Inr left rest by (subst (asm) read_parts.simps) (auto split: sum.splits)
        ultimately show ?thesis using IH cp Inr left by auto
      qed
    qed
  qed
qed

text \<open>C27: Reading frames from a camera ends and is bounded, whatever the camera sends and however its reads fail: no more
  than the preamble of 32 KiB, one boundary line, the headers and two MiB for each frame asked for, and one line, are
  ever taken from the connection; and when it succeeds there are exactly as many frames as were asked for, none of
  them empty or longer than two MiB.
\<close>

theorem mjpeg_reading_bounded:
  "case read_mjpeg_frames boundary count s of (r, s') \<Rightarrow>
     consumed (32768 + count * (8192 + 32768 + 2097152) + 8193) s s' \<and>
     (case r of Inl _ \<Rightarrow> True | Inr frames \<Rightarrow> length frames = count \<and> list_all (\<lambda>f. 0 < length f \<and> length f \<le> 2097152) frames)"
proof -
  obtain q s1 where parts: "read_parts (ascii ''--'' @ boundary) count 0 s = (q, s1)" by fastforce
  note c = read_parts_consumed [OF parts, simplified]
  show ?thesis
  proof (cases q)
    case (Inl e)
    with parts c show ?thesis by (simp add: read_mjpeg_frames_def io_bind_def)
  next
    case (Inr frames)
    with parts c show ?thesis by (auto simp: read_mjpeg_frames_def io_bind_def io_raise_def io_return_def io_lift_def)
  qed
qed

section \<open>What a camera sends\<close>

text \<open>
  One part as a camera writes it, and a connection that fails at none of its reads (each may still deliver as little as one byte).
\<close>

definition header_lines :: "nat \<Rightarrow> bytes" where
  "header_lines n = ascii ''Content-Type: image/jpeg'' @ [13, 10] @ ascii ''Content-Length: '' @ ascii (dec_text n) @ [13, 10] @ [13, 10]"

definition part_text :: "bytes \<Rightarrow> bytes \<Rightarrow> bytes" where
  "part_text boundary frame =
     (ascii ''--'' @ boundary @ [13, 10]) @ header_lines (length frame) @ frame @ [13, 10]"

definition reliable :: "stream \<Rightarrow> bool" where
  "reliable s \<longleftrightarrow> None \<notin> set (st_events s)"

text \<open>\<open>delivers m s x rest\<close>: \<open>m\<close> succeeds on \<open>s\<close> with \<open>x\<close> and leaves \<open>rest\<close> to be read.\<close>

definition delivers :: "(stream, 'a) io \<Rightarrow> stream \<Rightarrow> 'a \<Rightarrow> bytes \<Rightarrow> bool" where
  "delivers m s x rest \<longleftrightarrow> (case m s of (r, s') \<Rightarrow> r = Inr x \<and> st_data s' = rest \<and> reliable s')"

lemma deliversE: "delivers m s x rest \<Longrightarrow> \<exists>s'. m s = (Inr x, s') \<and> st_data s' = rest \<and> reliable s'"
  by (auto simp: delivers_def)

lemma deliversI: "m s = (Inr x, s') \<Longrightarrow> st_data s' = rest \<Longrightarrow> reliable s' \<Longrightarrow> delivers m s x rest"
  by (simp add: delivers_def)

lemma next_event_reliable:
  assumes "reliable s"
  shows "\<exists>k s1. next_event s = (Some k, s1) \<and> st_data s1 = st_data s \<and> reliable s1"
proof (cases "st_events s")
  case Nil
  with assms show ?thesis by (simp add: next_event_def)
next
  case (Cons e es)
  with assms show ?thesis by (cases e) (auto simp: next_event_def reliable_def)
qed

lemma read_line_delivers:
  assumes "reliable s" "st_data s = l @ [10] @ rest" "10 \<notin> set l" "length l < 8192"
  shows "delivers read_line s (l @ [10]) rest"
proof -
  obtain k s1 where e: "next_event s = (Some k, s1)" "st_data s1 = st_data s" "reliable s1"
    using next_event_reliable [OF assms(1)] by blast
  have l: "line_of (st_data s1) = l @ [10]"
    using assms(2,3) e(2) by (simp add: line_of_def takeWhile_append)
  have "read_line s = (Inr (l @ [10]), s1\<lparr>st_data := rest\<rparr>)"
    using assms(2,4) e(1,2) l
    by (simp add: read_line_def io_bind_def stream_readline_def Let_def MAX_MULTIPART_LINE_def io_return_def io_lift_def)
  then show ?thesis by (rule deliversI) (use e in \<open>simp_all add: reliable_def\<close>)
qed

lemma read_exact_delivers:
  "n = length x \<Longrightarrow> reliable s \<Longrightarrow> st_data s = x @ rest \<Longrightarrow> delivers (read_exact n) s x rest"
proof (induction n arbitrary: x s rule: less_induct)
  case (less n)
  show ?case
  proof (cases "n = 0")
    case True
    with less.prems show ?thesis by (simp add: read_exact.simps delivers_def)
  next
    case False
    obtain k s1 where e: "next_event s = (Some k, s1)" "st_data s1 = st_data s" "reliable s1"
      using next_event_reliable [OF less.prems(2)] by blast
    define m where "m = min n (max 1 k)"
    have m: "0 < m" "m \<le> length x" using False less.prems(1) by (auto simp: m_def)
    define s2 where "s2 = s1\<lparr>st_data := drop m (st_data s1)\<rparr>"
    have "stream_read n s = (Inr (take m (st_data s1)), s2)"
      unfolding stream_read_def s2_def m_def using e(1) by simp
    then have read: "stream_read n s = (Inr (take m x), s2)" using e(2) less.prems(3) m by simp
    have "delivers (read_exact (n - m)) s2 (drop m x) rest"
      by (rule less.IH) (use less.prems e m False in \<open>simp_all add: s2_def reliable_def\<close>)
    from deliversE [OF this]
    obtain s3 where s3: "read_exact (n - m) s2 = (Inr (drop m x), s3)" "st_data s3 = rest" "reliable s3" by blast
    have len: "length (take m x) = m" "take m x \<noteq> []" using m by auto
    have "read_exact n s = (Inr x, s3)"
      using False m by (subst read_exact.simps) (simp only: read prod.case sum.case len if_False s3(1) append_take_drop_id)
    then show ?thesis by (rule deliversI) (rule s3)+
  qed
qed

section \<open>Printed lengths\<close>

lemma dec_text_length: "n < 10 ^ Suc k \<Longrightarrow> length (dec_text n) \<le> Suc k"
proof (induction k arbitrary: n)
  case 0
  then show ?case by (subst dec_text.simps) simp
next
  case (Suc k)
  show ?case
  proof (cases "n < 10")
    case True
    then show ?thesis by (subst dec_text.simps) simp
  next
    case False
    have "n div 10 < 10 ^ Suc k" using Suc.prems by (simp add: less_mult_imp_div_less mult.commute)
    from Suc.IH [OF this] False show ?thesis by (subst dec_text.simps) simp
  qed
qed

lemma map_unat_ascii: "map unat (ascii t) = us t"
proof -
  have "unat (of_char c :: byte) = of_char c" for c :: char
    unfolding of_nat_of_char [symmetric, where 'a = byte] by (simp add: unat_of_nat)
  then show ?thesis by (simp add: ascii_def us_def)
qed

lemma ascii_digit:
  assumes "b \<in> set (ascii (dec_text n))"
  shows "48 \<le> unat b \<and> unat b \<le> 57"
proof -
  have "unat b \<in> set (us (dec_text n))" using assms unfolding map_unat_ascii [symmetric] by simp
  with dec_text_number [of n] show ?thesis by (auto simp: list_all_iff is_decimal_def)
qed

lemma digits_value_dec:
  assumes "n \<le> 2097152"
  shows "digits_value (us (dec_text n)) = Some n"
proof -
  let ?t = "us (dec_text n)"
  note d = dec_text_number [of n]
  have f: "filter is_decimal ?t = ?t" using d by (simp add: list_all_iff filter_id_conv)
  have no: "c \<noteq> 0x5F" if "c \<in> set ?t" for c using d that by (auto simp: list_all_iff is_decimal_def)
  have ne: "?t \<noteq> []" using d by (simp add: us_def)
  have "0x5F \<notin> set ?t" using no by blast
  then have "\<not> sublist [0x5F, 0x5F] ?t" by (auto simp: sublist_def)
  moreover have "length ?t \<le> 7" using dec_text_length [of n 6] assms by (simp add: us_def)
  ultimately show ?thesis
    using f no [OF hd_in_set [OF ne]] no [OF last_in_set [OF ne]] ne d by (auto simp: digits_value_def list_all_iff)
qed

section \<open>The headers of a part\<close>

lemma header_names:
  "ascii ''Content-Type: image/jpeg'' = [67, 111, 110, 116, 101, 110, 116, 45, 84, 121, 112, 101, 58, 32, 105, 109, 97, 103, 101, 47, 106, 112, 101, 103]"
  "ascii ''Content-Length: '' = [67, 111, 110, 116, 101, 110, 116, 45, 76, 101, 110, 103, 116, 104, 58, 32]"
  "ascii ''content-type'' = [99, 111, 110, 116, 101, 110, 116, 45, 116, 121, 112, 101]"
  "ascii ''content-length'' = [99, 111, 110, 116, 101, 110, 116, 45, 108, 101, 110, 103, 116, 104]"
  "ascii ''image/jpeg'' = [105, 109, 97, 103, 101, 47, 106, 112, 101, 103]"
  by code_simp+

abbreviation type_line :: bytes where
  "type_line \<equiv> ascii ''Content-Type: image/jpeg'' @ [13, 10]"

abbreviation length_line :: "nat \<Rightarrow> bytes" where
  "length_line n \<equiv> ascii ''Content-Length: '' @ ascii (dec_text n) @ [13, 10]"

lemma type_line_read:
  "lower_bytes (strip_bytes (before_byte 0x3A type_line)) = ascii ''content-type''"
  "strip_bytes (after_byte 0x3A type_line) = ascii ''image/jpeg''"
  by code_simp+

lemma digits_ends:
  "ascii (dec_text n) \<noteq> []"
  "b \<in> set (ascii (dec_text n)) \<Longrightarrow> \<not> ((9 \<le> b \<and> b \<le> 13) \<or> b = 0x20) \<and> b \<noteq> 10"
  using dec_text_number [of n] ascii_digit [of b n] by (auto simp: ascii_def word_le_nat_alt)

lemma strip_with_middle:
  assumes "x \<noteq> []" "list_all (\<lambda>b. \<not> p b) x" "list_all p a" "list_all p b"
  shows "strip_with p (a @ x @ b) = x"
proof -
  have hd: "dropWhile p (x @ y) = x @ y" "dropWhile p (rev x @ y) = rev x @ y" for y
    using assms(1,2) by (cases x, auto) (cases "rev x"; auto simp: list_all_iff)+
  have "dropWhile p (a @ x @ b) = x @ b" using assms(3) hd by (simp add: dropWhile_append2 list_all_iff)
  moreover have "dropWhile p (rev b @ rev x) = rev x" using assms(4) hd(2) [of "[]"] by (subst dropWhile_append2) (auto simp: list_all_iff)
  ultimately show ?thesis by (simp add: strip_with_def)
qed

lemma length_line_read:
  "lower_bytes (strip_bytes (before_byte 0x3A (length_line n))) = ascii ''content-length''"
  "strip_bytes (after_byte 0x3A (length_line n)) = ascii (dec_text n)"
proof -
  have "before_byte 0x3A (length_line n) = butlast (butlast (ascii ''Content-Length: ''))"
    unfolding header_names(2) by (simp add: before_byte_def)
  moreover have "lower_bytes (strip_bytes (butlast (butlast (ascii ''Content-Length: '')))) = ascii ''content-length''" by code_simp
  ultimately show "lower_bytes (strip_bytes (before_byte 0x3A (length_line n))) = ascii ''content-length''" by simp
  have "after_byte 0x3A (length_line n) = [0x20] @ ascii (dec_text n) @ [13, 10]"
    unfolding header_names(2) by (simp add: after_byte_def)
  also have "strip_bytes \<dots> = ascii (dec_text n)"
    by (rule strip_with_middle) (use digits_ends in \<open>auto simp: list_all_iff\<close>)
  finally show "strip_bytes (after_byte 0x3A (length_line n)) = ascii (dec_text n)" .
qed

lemma read_headers_more:
  assumes "delivers read_line s line rest" "line \<noteq> []" "line \<noteq> [13, 10]" "line \<noteq> [10]" "0x3A \<in> set line" "n + length line \<le> 32768"
    and "\<And>s1. st_data s1 = rest \<Longrightarrow> reliable s1 \<Longrightarrow>
      delivers (read_headers (n + length line)
        (headers(lower_bytes (strip_bytes (before_byte 0x3A line)) \<mapsto> strip_bytes (after_byte 0x3A line)))) s1 x rest'"
  shows "delivers (read_headers n headers) s x rest'"
proof -
  from deliversE [OF assms(1)] obtain s1 where s1: "read_line s = (Inr line, s1)" "st_data s1 = rest" "reliable s1" by blast
  show ?thesis
    using assms(7) [OF s1(2,3)] s1(1) assms(2-6) unfolding delivers_def
    by (subst read_headers.simps) (simp add: MAX_MULTIPART_HEADERS_def)
qed

lemma read_headers_last:
  assumes "delivers read_line s [13, 10] rest" "n + 2 \<le> 32768"
  shows "delivers (read_headers n headers) s headers rest"
proof -
  from deliversE [OF assms(1)] obtain s1 where s1: "read_line s = (Inr [13, 10], s1)" "st_data s1 = rest" "reliable s1" by blast
  with assms(2) show ?thesis unfolding delivers_def by (subst read_headers.simps) (simp add: MAX_MULTIPART_HEADERS_def)
qed

lemma read_part_delivers:
  assumes "reliable s" "good_frame f" "st_data s = header_lines (length f) @ f @ rest"
  shows "delivers read_part s f rest"
proof -
  define headers where
    "headers = Map.empty(ascii ''content-type'' \<mapsto> ascii ''image/jpeg'', ascii ''content-length'' \<mapsto> ascii (dec_text (length f)))"
  have short: "length (ascii (dec_text (length f))) \<le> 7" using dec_text_length [of "length f" 6] assms(2) by (simp add: ascii_def)
  have ne: "ascii ''content-type'' \<noteq> ascii ''content-length''" by code_simp
  have "delivers (read_headers 0 Map.empty) s headers (f @ rest)"
  proof (rule read_headers_more)
    show "delivers read_line s type_line (length_line (length f) @ [13, 10] @ f @ rest)"
      using read_line_delivers [OF assms(1), of "ascii ''Content-Type: image/jpeg'' @ [13]"] assms(3)
      by (simp add: header_lines_def header_names)
    fix s1
    assume s1: "st_data s1 = length_line (length f) @ [13, 10] @ f @ rest" "reliable s1"
    show "delivers (read_headers (0 + length type_line)
        (Map.empty(lower_bytes (strip_bytes (before_byte 0x3A type_line)) \<mapsto> strip_bytes (after_byte 0x3A type_line)))) s1 headers (f @ rest)"
      unfolding type_line_read
    proof (rule read_headers_more)
      show "delivers read_line s1 (length_line (length f)) ([13, 10] @ f @ rest)"
        using read_line_delivers [OF s1(2), of "ascii ''Content-Length: '' @ ascii (dec_text (length f)) @ [13]"] s1(1) short
          digits_ends(2) by (auto simp: header_names)
      fix s2
      assume "st_data s2 = [13, 10] @ f @ rest" "reliable s2"
      then show "delivers (read_headers (0 + length type_line + length (length_line (length f)))
          (Map.empty(ascii ''content-type'' \<mapsto> ascii ''image/jpeg'',
            lower_bytes (strip_bytes (before_byte 0x3A (length_line (length f)))) \<mapsto>
              strip_bytes (after_byte 0x3A (length_line (length f)))))) s2 headers (f @ rest)"
        unfolding length_line_read headers_def
        using read_line_delivers [of s2 "[13]" "f @ rest"] short by (intro read_headers_last) (simp_all add: header_names)
    qed (use short in \<open>simp_all add: header_names\<close>)
  qed (simp_all add: header_names)
  from deliversE [OF this] obtain s1 where s1: "read_headers 0 Map.empty s = (Inr headers, s1)" "st_data s1 = f @ rest" "reliable s1" by blast
  have type: "lower_bytes (strip_bytes (before_byte 0x3B (ascii ''image/jpeg''))) = ascii ''image/jpeg''" by code_simp
  have strip: "strip_bytes (ascii (dec_text (length f))) = ascii (dec_text (length f))"
    using strip_with_middle [of "ascii (dec_text (length f))" _ "[]" "[]"] digits_ends by (simp add: list_all_iff)
  have sign: "take 1 (us (dec_text (length f))) \<noteq> [0x2D]" "take 1 (us (dec_text (length f))) \<noteq> [0x2B]"
    using dec_text_number [of "length f"] by (cases "us (dec_text (length f))"; auto simp: is_decimal_def)+
  have "int_of_bytes (ascii (dec_text (length f))) = Some (int (length f))"
    using assms(2) sign by (simp add: int_of_bytes_def strip map_unat_ascii digits_value_dec)
  with type ne have "part_length headers = Inr (length f)"
    using assms(2) by (simp add: part_length_def headers_def MAX_FRAME_BYTES_def)
  with s1(1) have "read_part s = read_exact (length f) s1" by (simp add: read_part_def io_bind_def io_lift_def)
  with read_exact_delivers [OF refl s1(3,2)] show ?thesis by (simp add: delivers_def)
qed

section \<open>The parts\<close>

lemma rstrip_end_line: "x = [] \<or> \<not> is_end_byte (last x) \<Longrightarrow> rstrip_end (x @ [13, 10]) = x"
  by (cases x rule: rev_cases) (auto simp: rstrip_end_def is_end_byte_def)

lemma read_parts_delivers:
  assumes "10 \<notin> set b" "13 \<notin> set b" "length b \<le> 8000"
  shows "reliable s \<Longrightarrow> pre + 2 * length frames \<le> 32768 \<Longrightarrow> list_all good_frame frames \<Longrightarrow>
    st_data s = concat (map (part_text b) frames) @ rest \<Longrightarrow>
    \<exists>s'. read_parts (ascii ''--'' @ b) (length frames) pre s = (Inr frames, s')"
proof (induction frames arbitrary: s pre)
  case Nil
  then show ?case by (simp add: read_parts.simps)
next
  case (Cons f frames)
  let ?d = "ascii ''--'' @ b"
  have dashes: "ascii ''--'' = [45, 45]" by code_simp
  let ?rest = "concat (map (part_text b) frames) @ rest"
  have good: "good_frame f" "list_all good_frame frames" using Cons.prems(3) by simp_all
  have d: "?d \<noteq> []" by (simp add: dashes)
  have "last ?d \<in> set ?d" by (rule last_in_set) (rule d)
  moreover have "10 \<notin> set ?d" "13 \<notin> set ?d" using assms(1,2) by (simp_all add: dashes)
  ultimately have d_end: "\<not> is_end_byte (last ?d)" unfolding is_end_byte_def by metis
  have first: "delivers read_line s (?d @ [13, 10]) (header_lines (length f) @ f @ [13, 10] @ ?rest)"
    using read_line_delivers [OF Cons.prems(1), of "?d @ [13]"] Cons.prems(4) assms by (simp add: part_text_def [of b f] dashes)
  from deliversE [OF first] obtain s1 where s1: "read_line s = (Inr (?d @ [13, 10]), s1)"
    "st_data s1 = header_lines (length f) @ f @ [13, 10] @ ?rest" "reliable s1" by blast
  from deliversE [OF read_part_delivers [OF s1(3) good(1) s1(2)]] obtain s2 where
    s2: "read_part s1 = (Inr f, s2)" "st_data s2 = [13, 10] @ ?rest" "reliable s2" by blast
  have strip: "rstrip_end (?d @ [13, 10]) = ?d" using rstrip_end_line d_end by blast
  have "\<exists>s3. read_parts ?d (length frames) pre s2 = (Inr frames, s3)"
  proof (cases frames)
    case Nil
    then show ?thesis by (simp add: read_parts.simps)
  next
    case (Cons g gs)
    have "delivers read_line s2 [13, 10] ?rest" using read_line_delivers [OF s2(3), of "[13]"] s2(2) by simp
    from deliversE [OF this] obtain s3 where s3: "read_line s2 = (Inr [13, 10], s3)" "st_data s3 = ?rest" "reliable s3" by blast
    have blank: "rstrip_end [13, 10] = []" using rstrip_end_line [of "[]"] by simp
    have "read_parts ?d (length frames) pre s2 = read_parts ?d (length frames) (pre + 2) s3"
      using s3(1) blank Cons.prems(2) d \<open>frames = g # gs\<close>
      by (subst read_parts.simps) (simp add: MAX_PREAMBLE_BYTES_def dashes)
    with Cons.IH [OF s3(3) _ good(2) s3(2), of "pre + 2"] Cons.prems(2) show ?thesis by simp
  qed
  then obtain s3 where s3: "read_parts ?d (length frames) pre s2 = (Inr frames, s3)" by blast
  have "read_parts ?d (length (f # frames)) pre s = (Inr (f # frames), s3)"
    using s1(1) s2(1) s3 strip by (subst read_parts.simps) (simp add: dashes)
  then show ?case by blast
qed

text \<open>C26: The frames a camera sends are the frames that are read: when the stream holds the parts of a multipart body, each
  with its boundary line, its type and length headers and its frame, \<open>read_mjpeg_frames\<close> returns exactly the frames, in
  order, however few bytes each read of the connection delivers and whatever follows.
\<close>

theorem mjpeg_round_trip:
  assumes "10 \<notin> set b" "13 \<notin> set b" "length b \<le> 8000"
    and "2 * length frames \<le> 32768" "list_all (\<lambda>f. 0 < length f \<and> length f \<le> 2097152) frames"
    and "None \<notin> set events"
  shows "fst (read_mjpeg_frames b (length frames) \<lparr>st_data = concat (map (part_text b) frames) @ rest, st_events = events\<rparr>) = Inr frames"
proof -
  let ?s = "\<lparr>st_data = concat (map (part_text b) frames) @ rest, st_events = events\<rparr>"
  have "reliable ?s" using assms(6) by (simp add: reliable_def)
  from read_parts_delivers [OF assms(1-3) this, of 0 frames rest] assms(4,5)
  obtain s' where "read_parts (ascii ''--'' @ b) (length frames) 0 ?s = (Inr frames, s')" by auto
  then show ?thesis by (simp add: read_mjpeg_frames_def io_bind_def io_return_def io_lift_def)
qed

lemma mjpeg_round_trip_witness:
  "fst (read_mjpeg_frames [0x66] 2 \<lparr>st_data = concat (map (part_text [0x66]) [[1, 10, 13], [2]]) @ [], st_events = replicate 9 (Some 1)\<rparr>) =
    Inr [[1, 10, 13], [2]]"
proof -
  have "10 \<notin> set [0x66 :: byte]" "13 \<notin> set [0x66 :: byte]" by code_simp+
  from mjpeg_round_trip [OF this, of "[[1, 10, 13], [2]]" "replicate 9 (Some 1)" "[]"] show ?thesis
    unfolding numeral_2_eq_2 by simp
qed

end
