(* ===== verification/Cli_Identify.thy ===== *)
theory Cli_Identify
  imports Stream_Props Cli
begin

text \<open>The command \<open>identify-camera\<close> of \<open>cc2camera/cli.py\<close>, and what its answer rests on.\<close>

definition as_reported :: "exn \<Rightarrow> exn" where
  "as_reported e = (case e of StreamError m \<Rightarrow> ProtocolError m | _ \<Rightarrow> e)"

definition identification_lines :: "camera_identification \<Rightarrow> string \<Rightarrow> ustring list" where
  "identification_lines ident name =
     [us ''Camera stream matches: '' @ us name,
      us ''Frames checked: '' @ us (dec_text (frames_checked ident)) @ us '' consistent JPEG frames''] @
     (if name = ''EF-S7-V1.0.30B''
      then [us ''Evidence: this encoder signature has been observed on two independent known 30B cameras.'',
            us ''30B includes more than one flash-layout variant. The affected 8 MiB '' @
            us ''variant has been observed with PCB date codes 0226, 0526, 1526 and '' @
            us ''2526; an earlier 4025 unit uses a different, unsupported 16 MiB layout.'',
            us ''The stream cannot distinguish those variants. Date codes are supporting '' @
            us ''evidence only; do not bypass the tool'' @ [0x27] @ us ''s firmware and flash-layout checks.'']
      else [us ''Evidence: this encoder signature has been observed on one known 30D camera.'',
            us ''The known 30B camera failure has not been observed on the 30D family.'']) @
     [us ''Stream fingerprinting is a read-only family-identification aid; hardware '' @
      us ''markings and the validated firmware layout determine whether the fix applies.'']"

definition command_identify_camera ::
    "'s env \<Rightarrow> (ustring \<Rightarrow> bool) \<Rightarrow> (ustring \<Rightarrow> response res) \<Rightarrow> ustring \<Rightarrow> ('s station, unit) io" where
  "command_identify_camera env is_ipv6 opener printer =
     (case identify_camera_stream (ev_hash env) is_ipv6 opener printer of
        Inl e \<Rightarrow> io_raise (as_reported e)
      | Inr ident \<Rightarrow>
          (case family ident of
             None \<Rightarrow> io_raise (ProtocolError ''camera stream signature is not recognized; camera revision remains unknown'')
           | Some name \<Rightarrow> say_lines (ev_console env) (identification_lines ident name)))"

section \<open>What an identification rests on\<close>

lemma each_res_Inr: "each_res f xs = Inr ys \<Longrightarrow> list_all2 (\<lambda>x y. f x = Inr y) xs ys"
  by (induction xs arbitrary: ys) (auto simp: list_all2_Cons1)

text \<open>The signature of a family, as \<open>classify_fingerprint\<close> compares it.\<close>

definition has_signature :: "jpeg_fingerprint \<Rightarrow> string \<Rightarrow> bool" where
  "has_signature f name \<longleftrightarrow>
     width f = 640 \<and> height f = 360 \<and> sampling f = [(1, 2, 2), (2, 1, 1), (3, 1, 1)] \<and>
     (name = ''EF-S7-V1.0.30B'' \<and> marker_sequence f = MARKERS_30B \<and> dqt_sha256 f = DQT_30B_SHA256 \<and> restart_markers f = 0 \<or>
      name = ''EF-S7-V1.0.30D'' \<and> marker_sequence f = MARKERS_30D \<and> dqt_sha256 f = DQT_30D_SHA256 \<and> restart_markers f = 22)"

lemma classify_Some: "classify_fingerprint f = Some name \<Longrightarrow> has_signature f name"
  by (auto simp: classify_fingerprint_def has_signature_def split: if_splits)

lemma identify_frames_family:
  assumes "identify_frames H frames = Inr ident" "family ident = Some name"
  shows "\<exists>f. has_signature f name \<and> (\<forall>frame \<in> set frames. fingerprint_jpeg H frame = Inr f)"
proof -
  obtain fs where fs: "frames \<noteq> []" "each_res (fingerprint_jpeg H) frames = Inr fs"
    "\<not> (\<exists>item \<in> set (tl fs). item \<noteq> hd fs)" "classify_fingerprint (hd fs) = Some name"
    using assms by (auto simp: identify_frames_def Let_def split: if_splits)
  note each = each_res_Inr [OF fs(2)]
  have same: "f = hd fs" if "f \<in> set fs" for f using that fs(3) by (cases fs) auto
  have "fingerprint_jpeg H frame = Inr (hd fs)" if "frame \<in> set frames" for frame
  proof -
    obtain i where i: "i < length frames" "frame = frames ! i" using \<open>frame \<in> set frames\<close> by (metis in_set_conv_nth)
    with each have "i < length fs" "fingerprint_jpeg H frame = Inr (fs ! i)" by (simp_all add: list_all2_conv_all_nth)
    with same [of "fs ! i"] show ?thesis by simp
  qed
  with classify_Some [OF fs(4)] show ?thesis by blast
qed

lemma read_mjpeg_frames_length: "fst (read_mjpeg_frames b n s) = Inr frames \<Longrightarrow> length frames = n"
proof -
  obtain q s1 where parts: "read_parts (ascii ''--'' @ b) n 0 s = (q, s1)" by fastforce
  assume "fst (read_mjpeg_frames b n s) = Inr frames"
  with parts read_parts_consumed [OF parts, simplified] show ?thesis
    by (cases q) (auto simp: read_mjpeg_frames_def io_bind_def io_raise_def io_return_def io_lift_def split: if_splits)
qed

lemma identify_stream_family:
  assumes "identify_camera_stream H is_ipv6 opener host = Inr ident" "family ident = Some name"
  shows "\<exists>url response boundary frames f. stream_url is_ipv6 host = Inr url \<and> opener url = Inr response \<and>
    fst (read_mjpeg_frames boundary 3 (re_stream response)) = Inr frames \<and> map (fingerprint_jpeg H) frames = replicate 3 (Inr f) \<and> has_signature f name"
proof -
  from assms(1) obtain url where url: "stream_url is_ipv6 host = Inr url" and
    rest: "(case opener url of
       Inl e \<Rightarrow> Inl (if is_os_error e then StreamError ''could not open camera stream'' else e)
     | Inr response \<Rightarrow>
         if re_content_type response \<noteq> us ''multipart/x-mixed-replace'' \<or> \<not> has_boundary (re_boundary response)
         then Inl (StreamError ''camera endpoint is not an MJPEG multipart stream'')
         else res_bind (boundary_bytes (re_boundary response)) (\<lambda>boundary.
              res_bind (fst (read_mjpeg_frames boundary IDENTIFICATION_FRAMES (re_stream response))) (\<lambda>frames.
              identify_frames H frames))) = Inr ident"
    unfolding identify_camera_stream_def res_bind_eq_Inr by blast
  obtain response where response: "opener url = Inr response" using rest by (cases "opener url") auto
  from rest obtain boundary frames where
    "fst (read_mjpeg_frames boundary 3 (re_stream response)) = Inr frames" "identify_frames H frames = Inr ident"
    by (auto simp: response IDENTIFICATION_FRAMES_def split: if_splits)
  with url response have *: "stream_url is_ipv6 host = Inr url" "opener url = Inr response"
    "fst (read_mjpeg_frames boundary 3 (re_stream response)) = Inr frames" "identify_frames H frames = Inr ident" by blast+
  from identify_frames_family [OF *(4) assms(2)] obtain f where
    f: "has_signature f name" "\<forall>frame \<in> set frames. fingerprint_jpeg H frame = Inr f" by blast
  have "map (fingerprint_jpeg H) frames = replicate (length frames) (Inr f)" using f(2) by (simp add: map_replicate_const cong: map_cong)
  with f(1) * read_mjpeg_frames_length [OF *(3)] show ?thesis by metis
qed


end
