(* ===== verification/Mips_Disasm.thy ===== *)
theory Mips_Disasm
  imports Python_Text
begin

text \<open>
  The MIPS32 disassembler \<open>usb-maintenance/tools/mips32_disasm.py\<close>: the decoding of an instruction word and the
  tracking of register values that annotates the listing. The words of the binary are \<open>32 word\<close>s; addresses and
  tracked values are Python's integers.
\<close>

unbundle bit_operations_syntax

section \<open>Fields\<close>

definition REG :: "string list" where
  "REG =
    [''zero'', ''at'', ''v0'', ''v1'', ''a0'', ''a1'', ''a2'', ''a3'',
     ''t0'', ''t1'', ''t2'', ''t3'', ''t4'', ''t5'', ''t6'', ''t7'',
     ''s0'', ''s1'', ''s2'', ''s3'', ''s4'', ''s5'', ''s6'', ''s7'',
     ''t8'', ''t9'', ''k0'', ''k1'', ''gp'', ''sp'', ''fp'', ''ra'']"

definition sx :: "int \<Rightarrow> nat \<Rightarrow> int" where
  "sx v bits = (let sign = push_bit (bits - 1) 1 in (v AND (sign - 1)) - (v AND sign))"

definition target26 :: "int \<Rightarrow> word32 \<Rightarrow> int" where
  "target26 pc w = ((pc + 4) AND 0xF0000000) OR push_bit 2 (uint w AND 0x03FFFFFF)"

definition branch_target :: "int \<Rightarrow> int \<Rightarrow> int" where
  "branch_target pc imm = (pc + 4 + push_bit 2 (sx imm 16)) AND 0xFFFFFFFF"

definition bits_at :: "nat \<Rightarrow> word32 \<Rightarrow> word32 \<Rightarrow> nat" where
  "bits_at n m w = unat (drop_bit n w AND m)"

abbreviation "op_of w \<equiv> unat (drop_bit 26 (w :: word32))"
abbreviation "rs_of \<equiv> bits_at 21 31"
abbreviation "rt_of \<equiv> bits_at 16 31"
abbreviation "rd_of \<equiv> bits_at 11 31"
abbreviation "sa_of \<equiv> bits_at 6 31"
abbreviation "fn_of \<equiv> bits_at 0 63"
abbreviation "imm_of w \<equiv> uint ((w :: word32) AND 0xFFFF)"
abbreviation "code_of w \<equiv> uint (drop_bit 6 (w :: word32) AND 0xFFFFF)"

section \<open>Operands\<close>

definition reg :: "nat \<Rightarrow> string" where
  "reg r = ''$'' @ REG ! r"

definition signed_text :: "int \<Rightarrow> string" where
  "signed_text i = (if i < 0 then ''-'' @ dec_text (nat (- i)) else dec_text (nat i))"

definition hex_of :: "int \<Rightarrow> string" where
  "hex_of i = ''0x'' @ hex_text (nat i)"

definition address_text :: "int \<Rightarrow> string" where
  "address_text i = ''0x'' @ hex_padded 8 (nat i)"

fun operands :: "string list \<Rightarrow> string" where
  "operands [] = []"
| "operands [x] = x"
| "operands (x # y # ys) = x @ '', '' @ operands (y # ys)"

section \<open>Mnemonics\<close>

type_synonym names = "(nat \<times> string) list"

definition SHIFTS :: names where
  "SHIFTS = [(0, ''sll''), (2, ''srl''), (3, ''sra'')]"

definition VSHIFTS :: names where
  "VSHIFTS = [(4, ''sllv''), (6, ''srlv''), (7, ''srav'')]"

definition RR :: names where
  "RR = [(10, ''movz''), (11, ''movn''), (32, ''add''), (33, ''addu''), (34, ''sub''), (35, ''subu''), (36, ''and''),
    (37, ''or''), (38, ''xor''), (39, ''nor''), (42, ''slt''), (43, ''sltu''), (48, ''tge''), (49, ''tgeu''), (50,
    ''tlt''), (51, ''tltu''), (52, ''teq''), (54, ''tne'')]"

definition REGIMM :: names where
  "REGIMM = [(0, ''bltz''), (1, ''bgez''), (2, ''bltzl''), (3, ''bgezl''), (8, ''tgei''), (9, ''tgeiu''), (10,
    ''tlti''), (11, ''tltiu''), (12, ''teqi''), (14, ''tnei''), (16, ''bltzal''), (17, ''bgezal''), (18, ''bltzall''),
    (19, ''bgezall'')]"

definition LOADS :: names where
  "LOADS = [(32, ''lb''), (33, ''lh''), (34, ''lwl''), (35, ''lw''), (36, ''lbu''), (37, ''lhu''), (38, ''lwr''), (48,
    ''ll''), (49, ''lwc1''), (53, ''ldc1'')]"

definition STORES :: names where
  "STORES = [(40, ''sb''), (41, ''sh''), (42, ''swl''), (43, ''sw''), (46, ''swr''), (56, ''sc''), (57, ''swc1''),
    (61, ''sdc1'')]"

definition MULDIV :: names where
  "MULDIV = [(24, ''mult''), (25, ''multu''), (26, ''div''), (27, ''divu'')]"

definition BRANCH2 :: names where
  "BRANCH2 = [(4, ''beq''), (5, ''bne''), (20, ''beql''), (21, ''bnel'')]"

definition BRANCH1 :: names where
  "BRANCH1 = [(6, ''blez''), (7, ''bgtz''), (22, ''blezl''), (23, ''bgtzl'')]"

definition ARITH :: names where
  "ARITH = [(8, ''addi''), (9, ''addiu''), (10, ''slti''), (11, ''sltiu'')]"

definition LOGIC :: names where
  "LOGIC = [(12, ''andi''), (13, ''ori''), (14, ''xori'')]"

definition COP1MOVE :: names where
  "COP1MOVE = [(0, ''mfc1''), (2, ''cfc1''), (4, ''mtc1''), (6, ''ctc1'')]"

definition FPOPS :: names where
  "FPOPS = [(0, ''add''), (1, ''sub''), (2, ''mul''), (3, ''div''), (4, ''sqrt''), (5, ''abs''), (6, ''mov''), (7,
    ''neg'')]"

definition MADD :: names where
  "MADD = [(0, ''madd''), (1, ''maddu''), (4, ''msub''), (5, ''msubu'')]"

definition BSHFL :: names where
  "BSHFL = [(2, ''wsbh''), (16, ''seb''), (24, ''seh'')]"

section \<open>Decoding\<close>

type_synonym decoded = "string \<times> string \<times> int list"

definition decode_special :: "word32 \<Rightarrow> decoded option" where
  "decode_special w =
     (let rs = rs_of w; rt = rt_of w; rd = rd_of w; sa = sa_of w; fn = fn_of w
      in case map_of SHIFTS fn of Some name \<Rightarrow> Some (name, operands [reg rd, reg rt, dec_text sa], map int [rd, rt, sa])
       | None \<Rightarrow>
         (case map_of VSHIFTS fn of Some name \<Rightarrow> Some (name, operands [reg rd, reg rt, reg rs], map int [rd, rt, rs])
       | None \<Rightarrow>
         if fn = 8 then Some (''jr'', reg rs, [int rs])
         else if fn = 9 then Some (''jalr'', operands [reg rd, reg rs], map int [rd, rs])
         else if fn = 12 then Some (''syscall'', hex_of (code_of w), [])
         else if fn = 13 then Some (''break'', hex_of (code_of w), [])
         else if fn = 16 \<or> fn = 18 then Some (if fn = 16 then ''mfhi'' else ''mflo'', reg rd, [int rd])
         else if fn = 17 \<or> fn = 19 then Some (if fn = 17 then ''mthi'' else ''mtlo'', reg rs, [int rs])
         else (case map_of MULDIV fn of Some name \<Rightarrow> Some (name, operands [reg rs, reg rt], map int [rs, rt])
       | None \<Rightarrow>
         map_option (\<lambda>name. (name, operands [reg rd, reg rs, reg rt], map int [rd, rs, rt])) (map_of RR fn))))"

definition decode_regimm :: "int \<Rightarrow> word32 \<Rightarrow> decoded option" where
  "decode_regimm pc w =
     (let rs = rs_of w; t = branch_target pc (imm_of w); v = sx (imm_of w) 16
      in map_option (\<lambda>name.
           if take 1 name = ''b'' then (name, operands [reg rs, address_text t], [int rs, t])
           else (name, operands [reg rs, signed_text v], [int rs, v])) (map_of REGIMM (rt_of w)))"

definition decode_cop0 :: "word32 \<Rightarrow> decoded option" where
  "decode_cop0 w =
     (let rs = rs_of w; rt = rt_of w; rd = rd_of w; sel = bits_at 0 7 w
      in if rs = 0 \<or> rs = 4
         then Some (if rs = 0 then ''mfc0'' else ''mtc0'', operands [reg rt, ''$'' @ dec_text rd, dec_text sel], map int [rt, rd, sel])
         else if w = 0x42000018 then Some (''eret'', [], [])
         else if w = 0x42000020 then Some (''wait'', [], [])
         else None)"

definition fp_reg :: "nat \<Rightarrow> string" where
  "fp_reg r = ''$f'' @ dec_text r"

definition decode_cop1 :: "int \<Rightarrow> word32 \<Rightarrow> decoded option" where
  "decode_cop1 pc w =
     (let fmt = rs_of w; ft = rt_of w; fs = rd_of w; fd = sa_of w; fn = fn_of w; t = branch_target pc (imm_of w)
      in case map_of COP1MOVE fmt of Some name \<Rightarrow> Some (name, operands [reg ft, fp_reg fs], map int [ft, fs])
       | None \<Rightarrow>
         (case (if fmt = 16 \<or> fmt = 17 then map_of FPOPS fn else None) of
            Some name \<Rightarrow>
              Some (name @ (if fmt = 16 then ''.s'' else ''.d''), operands [fp_reg fd, fp_reg fs, fp_reg ft], map int [fd, fs, ft])
          | None \<Rightarrow>
              if fmt = 8 then Some (if odd ft then ''bc1t'' else ''bc1f'', address_text t, [t]) else None))"

definition decode_special2 :: "word32 \<Rightarrow> decoded option" where
  "decode_special2 w =
     (let rs = rs_of w; rt = rt_of w; rd = rd_of w; fn = fn_of w
      in case map_of MADD fn of Some name \<Rightarrow> Some (name, operands [reg rs, reg rt], map int [rs, rt])
       | None \<Rightarrow>
         if fn = 2 then Some (''mul'', operands [reg rd, reg rs, reg rt], map int [rd, rs, rt])
         else if fn = 32 \<or> fn = 33 then Some (if fn = 32 then ''clz'' else ''clo'', operands [reg rd, reg rs], map int [rd, rs])
         else None)"

definition decode_special3 :: "word32 \<Rightarrow> decoded option" where
  "decode_special3 w =
     (let rs = rs_of w; rt = rt_of w; rd = rd_of w; sa = sa_of w; fn = fn_of w
      in if fn = 0 \<or> fn = 4
         then (let pos = sa; count = (if fn = 0 then int rd + 1 else int rd - int sa + 1)
               in Some (if fn = 0 then ''ext'' else ''ins'', operands [reg rt, reg rs, dec_text pos, signed_text count],
                    [int rt, int rs, int pos, count]))
         else case (if fn = 32 then map_of BSHFL sa else None) of
             Some name \<Rightarrow> Some (name, operands [reg rd, reg rt], map int [rd, rt])
           | None \<Rightarrow> if fn = 59 then Some (''rdhwr'', operands [reg rt, ''$'' @ dec_text rd], map int [rt, rd]) else None)"

definition memory_operands :: "string \<Rightarrow> word32 \<Rightarrow> string" where
  "memory_operands first w = operands [first, signed_text (sx (imm_of w) 16) @ ''('' @ reg (rs_of w) @ '')'']"

definition decode_memory :: "word32 \<Rightarrow> decoded" where
  "decode_memory w =
     (let rs = rs_of w; rt = rt_of w; op = op_of w; fields = [int rt, int rs, sx (imm_of w) 16]
      in case map_of LOADS op of Some name \<Rightarrow> (name, memory_operands (reg rt) w, fields)
       | None \<Rightarrow>
         (case map_of STORES op of Some name \<Rightarrow> (name, memory_operands (reg rt) w, fields)
       | None \<Rightarrow>
         if op = 47 then (''cache'', memory_operands (hex_of (int rt)) w, fields)
         else (''.word'', address_text (uint w), [uint w])))"

definition decode_immediate :: "int \<Rightarrow> word32 \<Rightarrow> decoded option" where
  "decode_immediate pc w =
     (let rs = rs_of w; rt = rt_of w; op = op_of w; imm = imm_of w; t = branch_target pc imm; v = sx imm 16
      in if op = 2 \<or> op = 3
         then Some (if op = 2 then ''j'' else ''jal'', address_text (target26 pc w), [target26 pc w])
         else case map_of BRANCH2 op of Some name \<Rightarrow> Some (name, operands [reg rs, reg rt, address_text t], [int rs, int rt, t])
       | None \<Rightarrow>
         (case map_of BRANCH1 op of Some name \<Rightarrow> Some (name, operands [reg rs, address_text t], [int rs, t])
       | None \<Rightarrow>
         (case map_of ARITH op of Some name \<Rightarrow> Some (name, operands [reg rt, reg rs, signed_text v], [int rt, int rs, v])
       | None \<Rightarrow>
         (case map_of LOGIC op of Some name \<Rightarrow> Some (name, operands [reg rt, reg rs, hex_of imm], [int rt, int rs, imm])
       | None \<Rightarrow>
         if op = 15 then Some (''lui'', operands [reg rt, hex_of imm], [int rt, imm]) else None))))"

text \<open>The cases fall through to the next ones when an opcode's table has no entry.\<close>

definition decode :: "int \<Rightarrow> word32 \<Rightarrow> decoded" where
  "decode pc w =
     (let op = op_of w
      in if w = 0 then (''nop'', [], [])
         else case
           (if op = 0 then decode_special w
            else if op = 1 then decode_regimm pc w
            else if op = 16 then decode_cop0 w
            else if op = 17 then decode_cop1 pc w
            else if op = 28 then decode_special2 w
            else if op = 31 then decode_special3 w
            else decode_immediate pc w) of
             Some d \<Rightarrow> d
           | None \<Rightarrow> decode_memory w)"

end
