(* ===== verification/Mips_Listing.thy ===== *)
theory Mips_Listing
  imports Mips_Disasm
begin

text \<open>
  The listing of \<open>usb-maintenance/tools/mips32_disasm.py\<close>: the register values it tracks from one instruction to the next and
  the annotations it derives from them. The arguments are those after parsing; \<open>la_labels\<close> holds the \<open>--label\<close>
  options in their order.
\<close>

unbundle bit_operations_syntax

record listing_args =
  la_start :: int
  la_end :: int
  la_base :: int
  la_file_offset :: int
  la_gp :: "int option"
  la_labels :: "(int \<times> ustring) list"

definition label_at :: "listing_args \<Rightarrow> int \<Rightarrow> ustring option" where
  "label_at args address = map_of (rev (la_labels args)) address"

section \<open>Text\<close>

text \<open>\<open>f"{i:08x}"\<close> of any integer, \<open>f"{text:<width}"\<close>, and \<open>list(dict.fromkeys(xs))\<close>.\<close>

definition hex08 :: "int \<Rightarrow> ustring" where
  "hex08 i = (if i < 0 then us ''-'' @ us (hex_padded 7 (nat (- i))) else us (hex_padded 8 (nat i)))"

definition left_aligned :: "nat \<Rightarrow> ustring \<Rightarrow> ustring" where
  "left_aligned width t = t @ replicate (width - length t) 0x20"

fun distinct_items :: "'a list \<Rightarrow> 'a list" where
  "distinct_items [] = []"
| "distinct_items (x # xs) = x # filter (\<lambda>y. y \<noteq> x) (distinct_items xs)"

text \<open>
  \<open>repr\<close> of a text of ASCII characters: in double quotes when it holds a single quote and no double quote, in single quotes
  otherwise; backslashes and the quote are escaped, and the tab and the line ends.
\<close>

definition repr_char :: "nat \<Rightarrow> nat \<Rightarrow> ustring" where
  "repr_char quote c =
     (if c = 0x5C \<or> c = quote then [0x5C, c]
      else if c = 9 then [0x5C, 0x74] else if c = 10 then [0x5C, 0x6E] else if c = 13 then [0x5C, 0x72]
      else [c])"

definition repr_text :: "ustring \<Rightarrow> ustring" where
  "repr_text t =
     (let quote = (if 0x27 \<in> set t \<and> 0x22 \<notin> set t then 0x22 else 0x27)
      in [quote] @ concat (map (repr_char quote) t) @ [quote])"

text \<open>\<open>data.find(byte, start, stop)\<close> of a zero byte, with \<open>start \<le> stop \<le> len(data)\<close>: where it is, if it is found.\<close>

definition find_zero :: "bytes \<Rightarrow> nat \<Rightarrow> nat \<Rightarrow> nat option" where
  "find_zero data start stop =
     (let skipped = takeWhile (\<lambda>b. b \<noteq> 0) (pslice data start stop)
      in if start + length skipped < stop then Some (start + length skipped) else None)"

definition cstring :: "bytes \<Rightarrow> int \<Rightarrow> int \<Rightarrow> int \<Rightarrow> ustring option" where
  "cstring data address base file_offset =
     (let offset = file_offset + address - base
      in if \<not> (0 \<le> offset \<and> offset < int (length data)) then None
         else let offset = nat offset
         in case find_zero data offset (min (length data) (offset + 400)) of
             None \<Rightarrow> None
           | Some stop \<Rightarrow>
               if stop = offset then None
               else let raw = pslice data offset stop
               in if \<exists>b \<in> set raw. b < 0x20 \<or> 0x7E < b then None else Some (map unat raw))"

section \<open>Tracked registers\<close>

type_synonym regs = "int option list"

abbreviation u32 :: "int \<Rightarrow> int" where
  "u32 v \<equiv> v AND 0xFFFFFFFF"

text \<open>The registers before the first instruction.\<close>

definition initial_regs :: "int option \<Rightarrow> regs" where
  "initial_regs gp =
     (let regs = (replicate 32 None)[0 := Some 0] in case gp of None \<Rightarrow> regs | Some g \<Rightarrow> regs[28 := Some g])"

definition call_text :: "listing_args \<Rightarrow> int \<Rightarrow> ustring" where
  "call_text args target = (case label_at args target of Some label \<Rightarrow> label | None \<Rightarrow> us ''call 0x'' @ hex08 target)"

text \<open>
  What one instruction does to the tracked values: the register it gives a result and that result, the annotations it makes
  on the way, and the registers (a call records its return address at once).
\<close>

record tracked =
  tr_reg :: "nat option"
  tr_result :: "int option"
  tr_notes :: "ustring list"
  tr_regs :: regs

definition untracked :: "regs \<Rightarrow> tracked" where
  "untracked regs = \<lparr>tr_reg = None, tr_result = None, tr_notes = [], tr_regs = regs\<rparr>"

definition gives :: "regs \<Rightarrow> nat \<Rightarrow> int \<Rightarrow> tracked" where
  "gives regs r v = \<lparr>tr_reg = Some r, tr_result = Some v, tr_notes = [], tr_regs = regs\<rparr>"

definition forgets :: "regs \<Rightarrow> nat \<Rightarrow> tracked" where
  "forgets regs r = \<lparr>tr_reg = Some r, tr_result = None, tr_notes = [], tr_regs = regs\<rparr>"

definition word_at :: "bytes \<Rightarrow> nat \<Rightarrow> word32" where
  "word_at data offset = word_of_nat (le_at data offset 4)"

definition track_load :: "listing_args \<Rightarrow> bytes \<Rightarrow> regs \<Rightarrow> word32 \<Rightarrow> int \<Rightarrow> tracked" where
  "track_load args data regs w base_value =
     (let address = u32 (base_value + sx (imm_of w) 16);
          memoff = la_file_offset args + address - la_base args
      in if 0 \<le> memoff \<and> memoff \<le> int (length data) - 4
         then (let result = uint (word_at data (nat memoff))
               in (gives regs (rt_of w) result)\<lparr>tr_notes := [us ''[0x'' @ hex08 address @ us ''] = 0x'' @ hex08 result]\<rparr>)
         else untracked regs)"

definition track_call :: "listing_args \<Rightarrow> regs \<Rightarrow> int \<Rightarrow> word32 \<Rightarrow> string \<Rightarrow> int list \<Rightarrow> tracked" where
  "track_call args regs pc w name values =
     (let regs = regs[31 := Some (u32 (pc + 8))]
      in (untracked regs)\<lparr>tr_notes :=
           if name = ''jal'' then [call_text args (values ! 0)]
           else case regs ! rs_of w of Some target \<Rightarrow> [call_text args target] | None \<Rightarrow> []\<rparr>)"

definition logic_result :: "string \<Rightarrow> int \<Rightarrow> int \<Rightarrow> int" where
  "logic_result name a b = (if name = ''ori'' then a OR b else if name = ''xori'' then a XOR b else a AND b)"

definition track :: "listing_args \<Rightarrow> bytes \<Rightarrow> regs \<Rightarrow> int \<Rightarrow> word32 \<Rightarrow> string \<Rightarrow> int list \<Rightarrow> tracked" where
  "track args data regs pc w name values =
     (let rs = rs_of w; rt = rt_of w; rd = rd_of w; imm = imm_of w; op = op_of w
      in if name = ''lui'' then gives regs rt (u32 (push_bit 16 imm))
         else if name \<in> {''addiu'', ''addi''} \<and> regs ! rs \<noteq> None then gives regs rt (u32 (the (regs ! rs) + sx imm 16))
         else if name \<in> {''ori'', ''xori'', ''andi''} \<and> regs ! rs \<noteq> None
         then gives regs rt (u32 (logic_result name (the (regs ! rs)) imm))
         else if name \<in> {''addu'', ''add'', ''or''}
         then (if regs ! rs \<noteq> None \<and> regs ! rt \<noteq> None
               then gives regs rd (u32 (if name \<noteq> ''or'' then the (regs ! rs) + the (regs ! rt) else the (regs ! rs) OR the (regs ! rt)))
               else untracked regs)
         else if name \<in> {''subu'', ''sub''} \<and> regs ! rs \<noteq> None \<and> regs ! rt \<noteq> None
         then gives regs rd (u32 (the (regs ! rs) - the (regs ! rt)))
         else if name = ''sll'' \<and> regs ! rt \<noteq> None then gives regs rd (u32 (push_bit (sa_of w) (the (regs ! rt))))
         else if name = ''srl'' \<and> regs ! rt \<noteq> None then gives regs rd (drop_bit (sa_of w) (the (regs ! rt)))
         else if name = ''lw'' \<and> regs ! rs \<noteq> None then track_load args data regs w (the (regs ! rs))
         else if name \<in> {''lb'', ''lbu'', ''lh'', ''lhu''} \<and> regs ! rs \<noteq> None then forgets regs rt
         else if name = ''jal'' \<or> name = ''jalr'' then track_call args regs pc w name values
         else if op \<in> {32, 33, 34, 35, 36, 37, 38, 48, 49, 53} then forgets regs rt
         else untracked regs)"

text \<open>What a tracked result refers to: a string of the binary, a label.\<close>

definition result_notes :: "listing_args \<Rightarrow> bytes \<Rightarrow> int option \<Rightarrow> ustring list" where
  "result_notes args data result =
     (case result of
        None \<Rightarrow> []
      | Some v \<Rightarrow>
          (case cstring data v (la_base args) (la_file_offset args) of None \<Rightarrow> [] | Some s \<Rightarrow> [repr_text s]) @
          (case label_at args v of None \<Rightarrow> [] | Some label \<Rightarrow> [label]))"

text \<open>The registers an instruction without a tracked result invalidates.\<close>

definition invalidated :: "word32 \<Rightarrow> string \<Rightarrow> nat option" where
  "invalidated w name =
     (if name \<in> {''slti'', ''sltiu'', ''mfc0'', ''mfc1'', ''cfc1'', ''mfhi'', ''mflo'', ''rdhwr''}
      then Some (if name \<notin> {''mfhi'', ''mflo''} then rt_of w else rd_of w)
      else if name \<in> {''slt'', ''sltu'', ''xor'', ''nor'', ''and'', ''movz'', ''movn'', ''mul'', ''clz'', ''clo'', ''ext'', ''ins'', ''wsbh'',
        ''seb'', ''seh''}
      then Some (if name \<notin> {''ext'', ''ins''} then rd_of w else rt_of w)
      else None)"

definition after_instruction :: "word32 \<Rightarrow> string \<Rightarrow> tracked \<Rightarrow> regs" where
  "after_instruction w name t =
     (case tr_reg t of
        Some r \<Rightarrow> if r \<noteq> 0 then (tr_regs t)[r := tr_result t] else tr_regs t
      | None \<Rightarrow> (case invalidated w name of Some r \<Rightarrow> (tr_regs t)[r := None] | None \<Rightarrow> tr_regs t))"

definition instruction_notes :: "listing_args \<Rightarrow> bytes \<Rightarrow> tracked \<Rightarrow> ustring list" where
  "instruction_notes args data t =
     tr_notes t @ (if tr_reg t \<noteq> None \<and> tr_reg t \<noteq> Some 0 then result_notes args data (tr_result t) else [])"

definition listing_line :: "int \<Rightarrow> word32 \<Rightarrow> string \<Rightarrow> string \<Rightarrow> ustring list \<Rightarrow> ustring" where
  "listing_line pc w name ops notes =
     hex08 pc @ us '': '' @ hex08 (uint w) @ us ''  '' @ left_aligned 8 (us name) @ us '' '' @ left_aligned 38 (us ops) @
       (if notes \<noteq> [] then us '' ; '' @ join_with (us '', '') (distinct_items notes) else [])"

definition list_instruction :: "listing_args \<Rightarrow> bytes \<Rightarrow> regs \<Rightarrow> int \<Rightarrow> word32 \<Rightarrow> ustring list \<times> regs" where
  "list_instruction args data regs pc w =
     (case decode pc w of
        (name, ops, values) \<Rightarrow>
          let t = track args data regs pc w name values
          in ((case label_at args pc of Some label \<Rightarrow> [[10] @ label @ us '':''] | None \<Rightarrow> []) @
                [listing_line pc w name ops (instruction_notes args data t)],
              after_instruction w name t))"

function list_from :: "listing_args \<Rightarrow> bytes \<Rightarrow> regs \<Rightarrow> int \<Rightarrow> ustring list" where
  "list_from args data regs pc =
     (let offset = la_file_offset args + pc - la_base args
      in if la_end args \<le> pc \<or> offset < 0 \<or> int (length data) < offset + 4 then []
         else case list_instruction args data regs pc (word_at data (nat offset)) of
             (lines, regs') \<Rightarrow> lines @ list_from args data regs' (pc + 4))"
  by pat_completeness auto
termination by (relation "measure (\<lambda>(args, _, _, pc). nat (la_end args - pc))") auto

declare list_from.simps [simp del]

text \<open>What \<open>main\<close> prints.\<close>

definition disassemble :: "listing_args \<Rightarrow> bytes \<Rightarrow> ustring list" where
  "disassemble args data = list_from args data (initial_regs (la_gp args)) (la_start args)"

end
