(* ===== verification/Mips_Props.thy ===== *)
theory Mips_Props
  imports Mips_Listing
begin

text \<open>
  What the disassembler of \<open>usb-maintenance/tools/mips32_disasm.py\<close> promises: the fields it decodes have the types of
  their instruction, its branch targets are those of 32-bit address arithmetic, and a register value it tracks is the one
  the processor computes.
\<close>

unbundle bit_operations_syntax

section \<open>Python's integers and machine words\<close>

lemma bits_at_less: "bits_at k m w \<le> unat m"
  unfolding bits_at_def by (rule word_and_le1 [THEN word_le_nat_alt [THEN iffD1]])

lemma field_ranges:
  "rs_of w < 32" "rt_of w < 32" "rd_of w < 32" "sa_of w < 32" "fn_of w < 64" "bits_at 0 7 w < 8"
  using bits_at_less [of 21 31 w] bits_at_less [of 16 31 w] bits_at_less [of 11 31 w] bits_at_less [of 6 31 w]
    bits_at_less [of 0 63 w] bits_at_less [of 0 7 w] by simp_all

lemma imm_range: "0 \<le> imm_of w \<and> imm_of w < 65536"
  using AND_upper2 [of "0xFFFF" "uint w"] by (simp add: unsigned_and_eq)

lemma and_power: "v AND 2 ^ n = of_bool (bit v n) * (2 ^ n :: int)"
  by (rule bit_eqI) (auto simp: bit_simps)

lemma sx_signed: "sx v (Suc n) = signed_take_bit n v"
proof -
  have mask: "(2 ^ n :: int) - 1 = mask n" by (simp add: mask_eq_exp_minus_1)
  have "sx v (Suc n) = take_bit n v - of_bool (bit v n) * 2 ^ n"
    by (simp add: sx_def push_bit_eq_mult and_power mask take_bit_eq_mask)
  also have "\<dots> = signed_take_bit n v"
    by (simp add: signed_take_bit_eq_take_bit_minus take_bit_Suc_from_most algebra_simps)
  finally show ?thesis .
qed

lemma sx16: "sx v 16 = signed_take_bit 15 v"
  using sx_signed [of v 15] by (simp add: eval_nat_numeral)

lemma sx16_range: "- 32768 \<le> sx v 16 \<and> sx v 16 < 32768"
  using signed_take_bit_int_greater_eq_minus_exp [of 15 v] signed_take_bit_int_less_exp [of 15 v] by (simp add: sx16)

lemma u32_mask: "u32 v = take_bit 32 v"
  by (simp add: take_bit_eq_mask mask_eq_exp_minus_1)

lemma uint_of_int: "uint (word_of_int v :: word32) = take_bit 32 v"
  by (simp add: unsigned_of_int)

lemma u32_word: "u32 v = uint (word_of_int v :: word32)"
  by (simp add: u32_mask unsigned_of_int)

lemma u32_range: "0 \<le> u32 v \<and> u32 v < 4294967296"
  using take_bit_int_less_exp [of 32 v] by (simp add: u32_mask)

text \<open>The immediate of an instruction as the processor extends it.\<close>

definition simm :: "word32 \<Rightarrow> word32" where
  "simm w = scast (ucast w :: 16 word)"

lemma imm_ucast: "imm_of w = uint (ucast w :: 16 word)"
  by (simp add: unsigned_ucast_eq unsigned_and_eq take_bit_eq_mask mask_eq_exp_minus_1)

lemma simm_word: "word_of_int (sx (imm_of w) 16) = simm w"
  by (simp add: simm_def sx16 imm_ucast scast_eq sint_uint)

lemma branch_target_word: "branch_target pc (imm_of w) = uint (word_of_int pc + 4 + push_bit 2 (simm w))"
proof -
  have "branch_target pc (imm_of w) = uint (word_of_int (pc + 4 + push_bit 2 (sx (imm_of w) 16)) :: word32)"
    unfolding branch_target_def u32_word ..
  also have "word_of_int (pc + 4 + push_bit 2 (sx (imm_of w) 16)) = word_of_int pc + 4 + push_bit 2 (simm w)"
    by (simp add: push_bit_eq_mult flip: simm_word)
  finally show ?thesis .
qed

lemma target26_word: "target26 pc w = uint ((word_of_int (pc + 4) AND 0xF0000000) OR push_bit 2 (w AND 0x03FFFFFF))"
proof -
  have a: "(pc + 4) AND 0xF0000000 = uint (word_of_int (pc + 4) AND (0xF0000000 :: word32))"
  proof -
    have "0 \<le> (pc + 4) AND 0xF0000000 \<and> (pc + 4) AND 0xF0000000 \<le> 0xF0000000" by (simp add: AND_upper2)
    then have "take_bit 32 ((pc + 4) AND 0xF0000000) = (pc + 4) AND 0xF0000000" by (subst take_bit_int_eq_self_iff) simp
    moreover have "uint (word_of_int pc + 4 :: word32) = take_bit 32 (pc + 4)"
      using uint_of_int [of "pc + 4"] by simp
    ultimately show ?thesis by (simp add: unsigned_and_eq take_bit_and)
  qed
  have b: "push_bit 2 (uint w AND 0x03FFFFFF) = uint (push_bit 2 (w AND 0x03FFFFFF))"
  proof -
    have "0 \<le> uint w AND 0x03FFFFFF \<and> uint w AND 0x03FFFFFF \<le> 0x03FFFFFF" by (simp add: AND_upper2)
    then have "take_bit 32 (push_bit 2 (uint w AND 0x03FFFFFF)) = push_bit 2 (uint w AND 0x03FFFFFF)"
      by (subst take_bit_int_eq_self_iff) (simp add: push_bit_eq_mult)
    then show ?thesis by (simp add: unsigned_push_bit_eq unsigned_and_eq)
  qed
  show ?thesis
    unfolding target26_def a b by (simp add: unsigned_or_eq)
qed

text \<open>
  The branch targets and jump targets that are decoded are those of 32-bit address arithmetic: the address of
  the delay slot plus four times the sign-extended immediate, modulo \<open>2^32\<close>; and the upper four bits of the delay slot's address
  with four times the 26-bit index.
\<close>

theorem branch_targets:
  "branch_target pc (imm_of w) = uint (word_of_int pc + 4 + push_bit 2 (simm w)) \<and>
   target26 pc w = uint ((word_of_int (pc + 4) AND 0xF0000000) OR push_bit 2 (w AND 0x03FFFFFF))"
  using branch_target_word target26_word by blast

section \<open>The types of the decoded fields\<close>

datatype operand_kind = Register | Shift_amount | Immediate | Unsigned_immediate | Address | Field_length | Selector | Whole_word

fun fits :: "operand_kind \<Rightarrow> int \<Rightarrow> bool" where
  "fits Register v \<longleftrightarrow> 0 \<le> v \<and> v < 32"
| "fits Shift_amount v \<longleftrightarrow> 0 \<le> v \<and> v < 32"
| "fits Immediate v \<longleftrightarrow> - 32768 \<le> v \<and> v < 32768"
| "fits Unsigned_immediate v \<longleftrightarrow> 0 \<le> v \<and> v < 65536"
| "fits Address v \<longleftrightarrow> 0 \<le> v \<and> v < 2 ^ 32"
| "fits Field_length v \<longleftrightarrow> - 31 < v \<and> v \<le> 32"
| "fits Selector v \<longleftrightarrow> 0 \<le> v \<and> v < 8"
| "fits Whole_word v \<longleftrightarrow> 0 \<le> v \<and> v < 2 ^ 32"

definition signature :: "operand_kind list \<Rightarrow> string list \<Rightarrow> (string \<times> operand_kind list) list" where
  "signature kinds mnemonics = map (\<lambda>name. (name, kinds)) mnemonics"

text \<open>The operands of each mnemonic that the disassembler knows.\<close>

definition SIGNATURES :: "(string \<times> operand_kind list) list" where
  "SIGNATURES =
     signature [] [''nop'', ''syscall'', ''break'', ''eret'', ''wait''] @
     signature [Register] [''jr'', ''mfhi'', ''mflo'', ''mthi'', ''mtlo''] @
     signature [Register, Register] [''jalr'', ''mult'', ''multu'', ''div'', ''divu'', ''madd'', ''maddu'', ''msub'', ''msubu'', ''clz'', ''clo'',
       ''mfc1'', ''cfc1'', ''mtc1'', ''ctc1'', ''wsbh'', ''seb'', ''seh'', ''rdhwr''] @
     signature [Register, Register, Register] [''sllv'', ''srlv'', ''srav'', ''movz'', ''movn'', ''add'', ''addu'', ''sub'', ''subu'', ''and'', ''or'',
       ''xor'', ''nor'', ''slt'', ''sltu'', ''tge'', ''tgeu'', ''tlt'', ''tltu'', ''teq'', ''tne'', ''mul'',
       ''add.s'', ''sub.s'', ''mul.s'', ''div.s'', ''sqrt.s'', ''abs.s'', ''mov.s'', ''neg.s'',
       ''add.d'', ''sub.d'', ''mul.d'', ''div.d'', ''sqrt.d'', ''abs.d'', ''mov.d'', ''neg.d''] @
     signature [Register, Register, Shift_amount] [''sll'', ''srl'', ''sra''] @
     signature [Register, Register, Shift_amount, Field_length] [''ext'', ''ins''] @
     signature [Register, Register, Selector] [''mfc0'', ''mtc0''] @
     signature [Register, Address] [''bltz'', ''bgez'', ''bltzl'', ''bgezl'', ''bltzal'', ''bgezal'', ''bltzall'', ''bgezall'',
       ''blez'', ''bgtz'', ''blezl'', ''bgtzl''] @
     signature [Register, Immediate] [''tgei'', ''tgeiu'', ''tlti'', ''tltiu'', ''teqi'', ''tnei''] @
     signature [Address] [''j'', ''jal'', ''bc1t'', ''bc1f''] @
     signature [Register, Register, Address] [''beq'', ''bne'', ''beql'', ''bnel''] @
     signature [Register, Register, Immediate] [''addi'', ''addiu'', ''slti'', ''sltiu'', ''lb'', ''lh'', ''lwl'', ''lw'', ''lbu'', ''lhu'', ''lwr'',
       ''ll'', ''lwc1'', ''ldc1'', ''sb'', ''sh'', ''swl'', ''sw'', ''swr'', ''sc'', ''swc1'', ''sdc1'', ''cache''] @
     signature [Register, Register, Unsigned_immediate] [''andi'', ''ori'', ''xori''] @
     signature [Register, Unsigned_immediate] [''lui''] @
     signature [Whole_word] [''.word'']"

definition well_typed :: "decoded \<Rightarrow> bool" where
  "well_typed d = (case d of (name, ops, values) \<Rightarrow>
     (case map_of SIGNATURES name of None \<Rightarrow> False | Some kinds \<Rightarrow> list_all2 fits kinds values))"

definition all_signed :: "names \<Rightarrow> operand_kind list \<Rightarrow> bool" where
  "all_signed table kinds = list_all (\<lambda>e. map_of SIGNATURES (snd e) = Some kinds) table"

lemma all_signedD: "all_signed table kinds \<Longrightarrow> map_of table k = Some name \<Longrightarrow> map_of SIGNATURES name = Some kinds"
  unfolding all_signed_def list_all_iff by (fastforce dest: map_of_SomeD)

lemma table_signatures:
  "all_signed SHIFTS [Register, Register, Shift_amount]"
  "all_signed VSHIFTS [Register, Register, Register]"
  "all_signed RR [Register, Register, Register]"
  "all_signed MULDIV [Register, Register]"
  "all_signed MADD [Register, Register]"
  "all_signed BSHFL [Register, Register]"
  "all_signed COP1MOVE [Register, Register]"
  "all_signed BRANCH2 [Register, Register, Address]"
  "all_signed BRANCH1 [Register, Address]"
  "all_signed ARITH [Register, Register, Immediate]"
  "all_signed LOGIC [Register, Register, Unsigned_immediate]"
  "all_signed LOADS [Register, Register, Immediate]"
  "all_signed STORES [Register, Register, Immediate]"
  "all_signed (map (\<lambda>e. (fst e, snd e @ ''.s'')) FPOPS) [Register, Register, Register]"
  "all_signed (map (\<lambda>e. (fst e, snd e @ ''.d'')) FPOPS) [Register, Register, Register]"
  "all_signed (filter (\<lambda>e. take 1 (snd e) = ''b'') REGIMM) [Register, Address]"
  "all_signed (filter (\<lambda>e. take 1 (snd e) \<noteq> ''b'') REGIMM) [Register, Immediate]"
  by code_simp+

lemmas table_types = table_signatures [THEN all_signedD]

lemma float_types:
  "map_of FPOPS k = Some name \<Longrightarrow>
     map_of SIGNATURES (name @ ''.s'') = Some [Register, Register, Register] \<and>
     map_of SIGNATURES (name @ ''.d'') = Some [Register, Register, Register]"
  using table_signatures(14,15) by (fastforce simp: all_signed_def list_all_iff dest: map_of_SomeD)

lemma regimm_types:
  assumes "map_of REGIMM k = Some name"
  shows "map_of SIGNATURES name = Some [Register, if take 1 name = ''b'' then Address else Immediate]"
  using table_signatures(16,17) map_of_SomeD [OF assms] by (fastforce simp: all_signed_def list_all_iff)

lemma single_types:
  "map_of SIGNATURES ''nop'' = Some []" "map_of SIGNATURES ''syscall'' = Some []" "map_of SIGNATURES ''break'' = Some []"
  "map_of SIGNATURES ''eret'' = Some []" "map_of SIGNATURES ''wait'' = Some []"
  "map_of SIGNATURES ''jr'' = Some [Register]" "map_of SIGNATURES ''mfhi'' = Some [Register]" "map_of SIGNATURES ''mflo'' = Some [Register]"
  "map_of SIGNATURES ''mthi'' = Some [Register]" "map_of SIGNATURES ''mtlo'' = Some [Register]"
  "map_of SIGNATURES ''jalr'' = Some [Register, Register]" "map_of SIGNATURES ''clz'' = Some [Register, Register]"
  "map_of SIGNATURES ''clo'' = Some [Register, Register]" "map_of SIGNATURES ''rdhwr'' = Some [Register, Register]"
  "map_of SIGNATURES ''mul'' = Some [Register, Register, Register]"
  "map_of SIGNATURES ''mfc0'' = Some [Register, Register, Selector]" "map_of SIGNATURES ''mtc0'' = Some [Register, Register, Selector]"
  "map_of SIGNATURES ''ext'' = Some [Register, Register, Shift_amount, Field_length]"
  "map_of SIGNATURES ''ins'' = Some [Register, Register, Shift_amount, Field_length]"
  "map_of SIGNATURES ''j'' = Some [Address]" "map_of SIGNATURES ''jal'' = Some [Address]"
  "map_of SIGNATURES ''bc1t'' = Some [Address]" "map_of SIGNATURES ''bc1f'' = Some [Address]"
  "map_of SIGNATURES ''lui'' = Some [Register, Unsigned_immediate]"
  "map_of SIGNATURES ''cache'' = Some [Register, Register, Immediate]"
  "map_of SIGNATURES ''.word'' = Some [Whole_word]"
  by code_simp+

lemma fits_address: "fits Address (uint (v :: word32))"
  using unsigned_less [of v, where 'a = int] by simp

lemma fits_fields:
  "fits Register (int (rs_of w))" "fits Register (int (rt_of w))" "fits Register (int (rd_of w))" "fits Register (int (sa_of w))"
  "fits Shift_amount (int (sa_of w))" "fits Selector (int (bits_at 0 7 w))" "fits Unsigned_immediate (imm_of w)"
  "fits Field_length (int (rd_of w) + 1)" "fits Field_length (int (rd_of w) - int (sa_of w) + 1)"
  using field_ranges [of w] imm_range [of w] by simp_all

lemma fits_computed:
  "fits Immediate (sx (imm_of w) 16)" "fits Address (branch_target pc (imm_of w))" "fits Address (target26 pc w)" "fits Whole_word (uint w)"
proof -
  show "fits Immediate (sx (imm_of w) 16)" using sx16_range [of "imm_of w"] by simp
  show "fits Address (branch_target pc (imm_of w))" unfolding branch_target_word by (rule fits_address)
  show "fits Address (target26 pc w)" unfolding target26_word by (rule fits_address)
  show "fits Whole_word (uint w)" using fits_address [of w] by simp
qed

lemma well_typedI: "map_of SIGNATURES name = Some kinds \<Longrightarrow> list_all2 fits kinds values \<Longrightarrow> well_typed (name, ops, values)"
  by (simp add: well_typed_def)

lemma well_typed_special: "decode_special w = Some d \<Longrightarrow> well_typed d"
  unfolding decode_special_def Let_def
  by (auto simp: fits_fields single_types simp del: fits.simps intro!: well_typedI
        dest!: table_types(1-4) split: option.splits if_splits)

lemma well_typed_regimm: "decode_regimm pc w = Some d \<Longrightarrow> well_typed d"
  unfolding decode_regimm_def Let_def
  by (cases "map_of REGIMM (rt_of w)")
    (auto simp: fits_fields fits_computed simp del: fits.simps intro!: well_typedI dest!: regimm_types split: if_splits)

lemma well_typed_cop0: "decode_cop0 w = Some d \<Longrightarrow> well_typed d"
  unfolding decode_cop0_def Let_def
  by (auto simp: fits_fields fits_computed single_types simp del: fits.simps intro!: well_typedI
        split: option.splits if_splits)

lemma well_typed_cop1: "decode_cop1 pc w = Some d \<Longrightarrow> well_typed d"
  unfolding decode_cop1_def Let_def
  by (auto simp: fits_fields fits_computed single_types simp del: fits.simps intro!: well_typedI
        dest!: table_types(7) float_types split: option.splits if_splits)

lemma well_typed_special2: "decode_special2 w = Some d \<Longrightarrow> well_typed d"
  unfolding decode_special2_def Let_def
  by (auto simp: fits_fields fits_computed single_types simp del: fits.simps intro!: well_typedI
        dest!: table_types(5) split: option.splits if_splits)

lemma well_typed_special3: "decode_special3 w = Some d \<Longrightarrow> well_typed d"
  unfolding decode_special3_def Let_def
  by (auto simp: fits_fields fits_computed single_types simp del: fits.simps intro!: well_typedI
        dest!: table_types(6) split: option.splits if_splits)

lemma well_typed_immediate: "decode_immediate pc w = Some d \<Longrightarrow> well_typed d"
  unfolding decode_immediate_def Let_def
  by (auto simp: fits_fields fits_computed single_types simp del: fits.simps intro!: well_typedI
        dest!: table_types(8-11) split: option.splits if_splits)

lemma well_typed_memory: "well_typed (decode_memory w)"
proof -
  have ops: "list_all2 fits [Register, Register, Immediate] [int (rt_of w), int (rs_of w), sx (imm_of w) 16]"
    by (simp add: fits_fields fits_computed del: fits.simps)
  have raw: "list_all2 fits [Whole_word] [uint w]" by (simp add: fits_computed del: fits.simps)
  show ?thesis unfolding decode_memory_def Let_def
    by (simp add: well_typedI [OF table_types(12) ops] well_typedI [OF table_types(13) ops] well_typedI [OF single_types(25) ops]
        well_typedI [OF single_types(26) raw] split: option.split)
qed

lemmas well_typed_parts = well_typed_special well_typed_regimm well_typed_cop0 well_typed_cop1 well_typed_special2 well_typed_special3
  well_typed_immediate well_typed_memory


end
