(* ===== verification/Mips_Tracking.thy ===== *)
theory Mips_Tracking
  imports Mips_Props
begin

text \<open>
  The register values that the listing of \<open>usb-maintenance/tools/mips32_disasm.py\<close> tracks, compared with what a processor
  computes.
\<close>

unbundle bit_operations_syntax

section \<open>Which words have a tracked mnemonic\<close>

definition SPECIAL_TRACKED :: names where
  "SPECIAL_TRACKED = [(0, ''sll''), (2, ''srl''), (32, ''add''), (33, ''addu''), (34, ''sub''), (35, ''subu''), (37, ''or'')]"

definition IMMEDIATE_TRACKED :: names where
  "IMMEDIATE_TRACKED = [(8, ''addi''), (9, ''addiu''), (12, ''andi''), (13, ''ori''), (14, ''xori''), (15, ''lui'')]"

definition TRACKED :: "string list" where
  "TRACKED = map snd SPECIAL_TRACKED @ map snd IMMEDIATE_TRACKED @ [''lw'']"

definition tracked_in :: "names \<Rightarrow> names \<Rightarrow> bool" where
  "tracked_in table keys = list_all (\<lambda>e. snd e \<in> set TRACKED \<longrightarrow> e \<in> set keys) table"

lemma tracked_inD: "tracked_in table keys \<Longrightarrow> map_of table k = Some name \<Longrightarrow> name \<in> set TRACKED \<Longrightarrow> (k, name) \<in> set keys"
  unfolding tracked_in_def list_all_iff by (fastforce dest: map_of_SomeD)

lemma tracked_tables:
  "tracked_in SHIFTS SPECIAL_TRACKED" "tracked_in VSHIFTS SPECIAL_TRACKED" "tracked_in RR SPECIAL_TRACKED"
  "tracked_in MULDIV SPECIAL_TRACKED" "tracked_in BRANCH2 IMMEDIATE_TRACKED" "tracked_in BRANCH1 IMMEDIATE_TRACKED"
  "tracked_in ARITH IMMEDIATE_TRACKED" "tracked_in LOGIC IMMEDIATE_TRACKED" "tracked_in LOADS [(35, ''lw'')]"
  "tracked_in STORES []" "tracked_in REGIMM []" "tracked_in COP1MOVE []" "tracked_in MADD []" "tracked_in BSHFL []"
  by code_simp+

lemmas tracked_names = tracked_tables [THEN tracked_inD]

lemma untracked_names:
  "''nop'' \<notin> set TRACKED" "''syscall'' \<notin> set TRACKED" "''break'' \<notin> set TRACKED" "''eret'' \<notin> set TRACKED" "''wait'' \<notin> set TRACKED"
  "''jr'' \<notin> set TRACKED" "''mfhi'' \<notin> set TRACKED" "''mflo'' \<notin> set TRACKED" "''mthi'' \<notin> set TRACKED" "''mtlo'' \<notin> set TRACKED"
  "''jalr'' \<notin> set TRACKED" "''clz'' \<notin> set TRACKED" "''clo'' \<notin> set TRACKED" "''rdhwr'' \<notin> set TRACKED" "''mul'' \<notin> set TRACKED"
  "''mfc0'' \<notin> set TRACKED" "''mtc0'' \<notin> set TRACKED" "''ext'' \<notin> set TRACKED" "''ins'' \<notin> set TRACKED"
  "''j'' \<notin> set TRACKED" "''jal'' \<notin> set TRACKED" "''bc1t'' \<notin> set TRACKED" "''bc1f'' \<notin> set TRACKED"
  "''cache'' \<notin> set TRACKED" "''.word'' \<notin> set TRACKED"
  by code_simp+

lemma float_untracked: "map_of FPOPS k = Some name \<Longrightarrow> name @ ''.s'' \<notin> set TRACKED \<and> name @ ''.d'' \<notin> set TRACKED"
proof -
  have "list_all (\<lambda>e. snd e @ ''.s'' \<notin> set TRACKED \<and> snd e @ ''.d'' \<notin> set TRACKED) FPOPS" by code_simp
  then show "map_of FPOPS k = Some name \<Longrightarrow> ?thesis" unfolding list_all_iff by (fastforce dest: map_of_SomeD)
qed

lemma tracked_special:
  "decode_special w = Some (name, ops, values) \<Longrightarrow> name \<in> set TRACKED \<Longrightarrow> (fn_of w, name) \<in> set SPECIAL_TRACKED"
  unfolding decode_special_def Let_def
  by (auto simp: untracked_names dest: tracked_names(1-4) split: option.splits if_splits)

lemma tracked_immediate:
  "decode_immediate pc w = Some (name, ops, values) \<Longrightarrow> name \<in> set TRACKED \<Longrightarrow> (op_of w, name) \<in> set IMMEDIATE_TRACKED"
  unfolding decode_immediate_def Let_def
  by (auto simp: untracked_names dest: tracked_names(5-8) split: option.splits if_splits) (simp add: IMMEDIATE_TRACKED_def)

lemma tracked_memory:
  "decode_memory w = (name, ops, values) \<Longrightarrow> name \<in> set TRACKED \<Longrightarrow> op_of w = 35 \<and> name = ''lw''"
  unfolding decode_memory_def Let_def
  by (auto simp: untracked_names dest: tracked_names(9,10) split: option.splits if_splits)

lemma tracked_elsewhere:
  "decode_regimm pc w = Some (name, ops, values) \<Longrightarrow> name \<notin> set TRACKED"
  "decode_cop0 w = Some (name, ops, values) \<Longrightarrow> name \<notin> set TRACKED"
  "decode_cop1 pc w = Some (name, ops, values) \<Longrightarrow> name \<notin> set TRACKED"
  "decode_special2 w = Some (name, ops, values) \<Longrightarrow> name \<notin> set TRACKED"
  "decode_special3 w = Some (name, ops, values) \<Longrightarrow> name \<notin> set TRACKED"
  unfolding decode_regimm_def decode_cop0_def decode_cop1_def decode_special2_def decode_special3_def Let_def
  by (auto simp: untracked_names dest: tracked_names(11-14) float_untracked split: option.splits if_splits)

lemma tracked_decode:
  assumes "decode pc w = (name, ops, values)" "name \<in> set TRACKED"
  shows "(op_of w = 0 \<and> (fn_of w, name) \<in> set SPECIAL_TRACKED) \<or> (op_of w, name) \<in> set (IMMEDIATE_TRACKED @ [(35, ''lw'')])"
proof (cases "w = 0")
  case True
  with assms show ?thesis by (auto simp: decode_def untracked_names)
next
  case False
  with assms show ?thesis unfolding decode_def Let_def
    by (auto split: option.splits if_splits dest: tracked_special tracked_immediate tracked_memory tracked_elsewhere)
qed

section \<open>The processor\<close>

text \<open>
  The general-purpose register an instruction of the tracked group writes and the value it gives it (MIPS32 release 2),
  over the registers \<open>m\<close> and the memory \<open>mem\<close>; the instructions that trap on an overflow do not when they write.
  Function 2 of opcode 0 is a rotation when the lowest bit of its \<open>rs\<close> field is set.
\<close>

definition zimm :: "word32 \<Rightarrow> word32" where
  "zimm w = w AND 0xFFFF"

definition mips_special :: "(nat \<Rightarrow> word32) \<Rightarrow> word32 \<Rightarrow> word32 option" where
  "mips_special m w =
     (let a = m (rs_of w); b = m (rt_of w); fn = fn_of w
      in if fn = 0 then Some (push_bit (sa_of w) b)
         else if fn = 2 then Some (if odd (rs_of w) then word_rotr (sa_of w) b else drop_bit (sa_of w) b)
         else if fn = 32 \<or> fn = 33 then Some (a + b)
         else if fn = 34 \<or> fn = 35 then Some (a - b)
         else if fn = 37 then Some (a OR b)
         else None)"

definition mips_result :: "(word32 \<Rightarrow> word32) \<Rightarrow> (nat \<Rightarrow> word32) \<Rightarrow> word32 \<Rightarrow> (nat \<times> word32) option" where
  "mips_result mem m w =
     (let a = m (rs_of w); op = op_of w
      in if op = 0 then map_option (Pair (rd_of w)) (mips_special m w)
         else map_option (Pair (rt_of w))
           (if op = 8 \<or> op = 9 then Some (a + simm w)
            else if op = 12 then Some (a AND zimm w)
            else if op = 13 then Some (a OR zimm w)
            else if op = 14 then Some (a XOR zimm w)
            else if op = 15 then Some (push_bit 16 (zimm w))
            else if op = 35 then Some (mem (a + simm w))
            else None))"

text \<open>The tracked values are those of the registers; the memory holds the binary where the options say.\<close>

definition matches :: "regs \<Rightarrow> (nat \<Rightarrow> word32) \<Rightarrow> bool" where
  "matches regs m \<longleftrightarrow> length regs = 32 \<and> (\<forall>i < 32. \<forall>v. regs ! i = Some v \<longrightarrow> v = uint (m i))"

definition holds_binary :: "listing_args \<Rightarrow> bytes \<Rightarrow> (word32 \<Rightarrow> word32) \<Rightarrow> bool" where
  "holds_binary args data mem \<longleftrightarrow>
     (\<forall>a. let off = la_file_offset args + uint a - la_base args
          in 0 \<le> off \<and> off \<le> int (length data) - 4 \<longrightarrow> mem a = word_at data (nat off))"

definition rotates :: "word32 \<Rightarrow> bool" where
  "rotates w \<longleftrightarrow> op_of w = 0 \<and> fn_of w = 2 \<and> odd (rs_of w)"

lemma matchesD: "matches regs m \<Longrightarrow> i < 32 \<Longrightarrow> regs ! i = Some v \<Longrightarrow> v = uint (m i)"
  by (simp add: matches_def)

lemma imm_zimm: "imm_of w = uint (zimm w)"
  by (simp add: zimm_def)

lemma u32_arith:
  "u32 (uint a + sx (imm_of w) 16) = uint (a + simm w)"
  "u32 (uint a + uint b) = uint (a + b)"
  "u32 (uint a - uint b) = uint (a - b)"
  unfolding u32_word by (simp_all add: simm_word)

lemma take_uint: "take_bit 32 (uint (a :: word32)) = uint a"
  using uint_of_int [of "uint a"] by simp

lemma u32_bits:
  fixes a b :: word32
  shows "u32 (uint a OR uint b) = uint (a OR b)" "u32 (uint a XOR uint b) = uint (a XOR b)" "u32 (uint a AND uint b) = uint (a AND b)"
    "u32 (push_bit n (uint a)) = uint (push_bit n a)" "drop_bit n (uint a) = uint (drop_bit n a)"
  unfolding u32_mask
  by (simp_all add: unsigned_push_bit_eq unsigned_drop_bit_eq take_uint flip: unsigned_or_eq unsigned_xor_eq unsigned_and_eq)

section \<open>Soundness\<close>

lemma tracked_value:
  assumes "matches regs m"
  shows "regs ! rs_of w = Some x \<Longrightarrow> x = uint (m (rs_of w))" "regs ! rt_of w = Some y \<Longrightarrow> y = uint (m (rt_of w))"
  using matchesD [OF assms field_ranges(1)] matchesD [OF assms field_ranges(2)] by blast+

lemma track_result_names:
  "tr_result (track args data regs pc w name values) = Some v \<Longrightarrow> name \<in> set TRACKED"
  by (auto simp: track_def track_load_def track_call_def untracked_def gives_def forgets_def Let_def TRACKED_def SPECIAL_TRACKED_def
      IMMEDIATE_TRACKED_def split: if_splits)

lemma track_load_sound:
  assumes "holds_binary args data mem"
    and "tr_reg (track_load args data regs w (uint a)) = Some r" "tr_result (track_load args data regs w (uint a)) = Some v"
  shows "r = rt_of w \<and> v = uint (mem (a + simm w))"
  using assms by (auto simp: track_load_def u32_arith holds_binary_def Let_def gives_def untracked_def split: if_splits)

lemma track_special_names:
  "track args data regs pc w ''sll'' values =
     (if regs ! rt_of w \<noteq> None then gives regs (rd_of w) (u32 (push_bit (sa_of w) (the (regs ! rt_of w))))
      else if op_of w \<in> {32, 33, 34, 35, 36, 37, 38, 48, 49, 53} then forgets regs (rt_of w) else untracked regs)"
  "track args data regs pc w ''srl'' values =
     (if regs ! rt_of w \<noteq> None then gives regs (rd_of w) (drop_bit (sa_of w) (the (regs ! rt_of w)))
      else if op_of w \<in> {32, 33, 34, 35, 36, 37, 38, 48, 49, 53} then forgets regs (rt_of w) else untracked regs)"
  "name = ''add'' \<or> name = ''addu'' \<Longrightarrow> track args data regs pc w name values =
     (if regs ! rs_of w \<noteq> None \<and> regs ! rt_of w \<noteq> None
      then gives regs (rd_of w) (u32 (the (regs ! rs_of w) + the (regs ! rt_of w))) else untracked regs)"
  "track args data regs pc w ''or'' values =
     (if regs ! rs_of w \<noteq> None \<and> regs ! rt_of w \<noteq> None
      then gives regs (rd_of w) (u32 (the (regs ! rs_of w) OR the (regs ! rt_of w))) else untracked regs)"
  "name = ''sub'' \<or> name = ''subu'' \<Longrightarrow> track args data regs pc w name values =
     (if regs ! rs_of w \<noteq> None \<and> regs ! rt_of w \<noteq> None
      then gives regs (rd_of w) (u32 (the (regs ! rs_of w) - the (regs ! rt_of w)))
      else if op_of w \<in> {32, 33, 34, 35, 36, 37, 38, 48, 49, 53} then forgets regs (rt_of w) else untracked regs)"
  by (auto simp only: track_def Let_def) simp_all

lemma track_immediate_names:
  "track args data regs pc w ''lui'' values = gives regs (rt_of w) (u32 (push_bit 16 (imm_of w)))"
  "name = ''addi'' \<or> name = ''addiu'' \<Longrightarrow> regs ! rs_of w = Some x \<Longrightarrow>
     track args data regs pc w name values = gives regs (rt_of w) (u32 (x + sx (imm_of w) 16))"
  "name = ''ori'' \<or> name = ''xori'' \<or> name = ''andi'' \<Longrightarrow> regs ! rs_of w = Some x \<Longrightarrow>
     track args data regs pc w name values = gives regs (rt_of w) (u32 (logic_result name x (imm_of w)))"
  "regs ! rs_of w = Some x \<Longrightarrow> track args data regs pc w ''lw'' values = track_load args data regs w x"
  by (auto simp only: track_def Let_def) simp_all

lemma track_unknown:
  "name \<in> {''addi'', ''addiu'', ''ori'', ''xori'', ''andi'', ''lw''} \<Longrightarrow> regs ! rs_of w = None \<Longrightarrow>
     tr_result (track args data regs pc w name values) = None"
  by (auto simp: track_def Let_def forgets_def untracked_def)

lemma gives_forgets:
  "tr_reg (gives regs r v) = Some r" "tr_result (gives regs r v) = Some v"
  "tr_result (forgets regs r) = None" "tr_result (untracked regs) = None"
  by (simp_all add: gives_def forgets_def untracked_def)

lemma special_tracked_cases:
  assumes "(fn, name) \<in> set SPECIAL_TRACKED"
  obtains (sll) "fn = 0" "name = ''sll''" | (srl) "fn = 2" "name = ''srl''" |
    (add) "fn = 32 \<or> fn = 33" "name = ''add'' \<or> name = ''addu''" |
    (sub) "fn = 34 \<or> fn = 35" "name = ''sub'' \<or> name = ''subu''" | (or) "fn = 37" "name = ''or''"
  using assms unfolding SPECIAL_TRACKED_def by (simp only: list.set insert_iff empty_iff prod.inject) (elim disjE; metis)

lemma immediate_tracked_cases:
  assumes "(op, name) \<in> set (IMMEDIATE_TRACKED @ [(35, ''lw'')])"
  obtains (lui) "op = 15" "name = ''lui''" | (add) "op = 8 \<or> op = 9" "name = ''addi'' \<or> name = ''addiu''" |
    (logic) "op = 13 \<and> name = ''ori'' \<or> op = 14 \<and> name = ''xori'' \<or> op = 12 \<and> name = ''andi''" | (load) "op = 35" "name = ''lw''"
  using assms unfolding IMMEDIATE_TRACKED_def append.simps by (simp only: list.set insert_iff empty_iff prod.inject) (elim disjE; metis)

lemma track_special_gives:
  assumes "matches regs m" "op_of w = 0" "(fn_of w, name) \<in> set SPECIAL_TRACKED"
    and "tr_result (track args data regs pc w name values) = Some v"
  shows "\<exists>u. track args data regs pc w name values = gives regs (rd_of w) (uint u) \<and>
    u = (let a = m (rs_of w); b = m (rt_of w)
         in if fn_of w = 0 then push_bit (sa_of w) b else if fn_of w = 2 then drop_bit (sa_of w) b
            else if fn_of w = 32 \<or> fn_of w = 33 then a + b else if fn_of w = 34 \<or> fn_of w = 35 then a - b else a OR b)"
proof -
  let ?a = "m (rs_of w)" and ?b = "m (rt_of w)"
  have rs: "regs ! rs_of w = Some (uint ?a)" if "regs ! rs_of w \<noteq> None"
    using that tracked_value(1) [OF assms(1), of w] by blast
  have rt: "regs ! rt_of w = Some (uint ?b)" if "regs ! rt_of w \<noteq> None"
    using that tracked_value(2) [OF assms(1), of w] by blast
  from assms(3) show ?thesis
  proof (cases rule: special_tracked_cases)
    case sll
    with assms(4) have "regs ! rt_of w \<noteq> None" by (simp add: track_special_names gives_forgets split: if_split_asm)
    with sll show ?thesis by (simp add: track_special_names rt u32_bits)
  next
    case srl
    with assms(4) have "regs ! rt_of w \<noteq> None" by (simp add: track_special_names gives_forgets split: if_split_asm)
    with srl show ?thesis by (simp add: track_special_names rt u32_bits)
  next
    case add
    note t = track_special_names(3) [OF add(2)]
    from assms(4) have "regs ! rs_of w \<noteq> None \<and> regs ! rt_of w \<noteq> None" by (simp add: t gives_forgets split: if_split_asm)
    with add(1) show ?thesis by (auto simp: t rs rt u32_arith)
  next
    case sub
    note t = track_special_names(5) [OF sub(2)]
    from assms(4) have "regs ! rs_of w \<noteq> None \<and> regs ! rt_of w \<noteq> None" by (simp add: t gives_forgets split: if_split_asm)
    with sub(1) show ?thesis by (auto simp: t rs rt u32_arith)
  next
    case or
    with assms(4) have "regs ! rs_of w \<noteq> None \<and> regs ! rt_of w \<noteq> None"
      by (simp add: track_special_names gives_forgets split: if_split_asm)
    with or show ?thesis by (simp add: track_special_names rs rt u32_bits)
  qed
qed

lemma track_special_sound:
  assumes "matches regs m" "\<not> rotates w" "op_of w = 0" "(fn_of w, name) \<in> set SPECIAL_TRACKED"
    and "tr_reg (track args data regs pc w name values) = Some r" "tr_result (track args data regs pc w name values) = Some v"
  shows "\<exists>u. mips_result mem m w = Some (r, u) \<and> v = uint u"
proof -
  from track_special_gives [OF assms(1,3,4,6)] obtain u where
    t: "track args data regs pc w name values = gives regs (rd_of w) (uint u)" and
    u: "u = (let a = m (rs_of w); b = m (rt_of w)
         in if fn_of w = 0 then push_bit (sa_of w) b else if fn_of w = 2 then drop_bit (sa_of w) b
            else if fn_of w = 32 \<or> fn_of w = 33 then a + b else if fn_of w = 34 \<or> fn_of w = 35 then a - b else a OR b)" by blast
  have "fn_of w \<in> {0, 2, 32, 33, 34, 35, 37}" using assms(4) by (auto simp: SPECIAL_TRACKED_def)
  then have "mips_special m w = Some u" using assms(2,3) by (auto simp: u mips_special_def Let_def rotates_def)
  with assms(3,5,6) show ?thesis by (simp add: t gives_forgets mips_result_def)
qed

lemma track_immediate_sound:
  assumes "matches regs m" "holds_binary args data mem" "(op_of w, name) \<in> set (IMMEDIATE_TRACKED @ [(35, ''lw'')])"
    and "tr_reg (track args data regs pc w name values) = Some r" "tr_result (track args data regs pc w name values) = Some v"
  shows "\<exists>u. mips_result mem m w = Some (r, u) \<and> v = uint u"
proof -
  have known: "regs ! rs_of w = Some (uint (m (rs_of w)))" if "name \<in> {''addi'', ''addiu'', ''ori'', ''xori'', ''andi'', ''lw''}"
  proof -
    have "regs ! rs_of w \<noteq> None" using track_unknown [OF that, of regs w args data pc "values"] assms(5) by auto
    then show ?thesis using tracked_value(1) [OF assms(1), of w] by blast
  qed
  from assms(3) show ?thesis
  proof (cases rule: immediate_tracked_cases)
  case lui
  have "track args data regs pc w name values = gives regs (rt_of w) (uint (push_bit 16 (zimm w)))"
    unfolding lui(2) track_immediate_names imm_zimm u32_bits ..
  with assms(4,5) lui(1) show ?thesis by (simp add: gives_forgets mips_result_def)
next
  case add
  have name: "name \<in> {''addi'', ''addiu'', ''ori'', ''xori'', ''andi'', ''lw''}" using add(2) by blast
  note x = known [OF name]
  have "track args data regs pc w name values = gives regs (rt_of w) (uint (m (rs_of w) + simm w))"
      unfolding track_immediate_names(2) [of name regs w, OF add(2) x] u32_arith ..
    with add(1) assms(4,5) show ?thesis by (auto simp: gives_forgets mips_result_def)
  next
    case logic
    then have names: "name \<in> {''addi'', ''addiu'', ''ori'', ''xori'', ''andi'', ''lw''}" by blast
    note x = known [OF names]
    from logic have name: "name = ''ori'' \<or> name = ''xori'' \<or> name = ''andi''" by blast
    have "track args data regs pc w name values =
        gives regs (rt_of w) (uint (if name = ''ori'' then m (rs_of w) OR zimm w else if name = ''xori'' then m (rs_of w) XOR zimm w
          else m (rs_of w) AND zimm w))"
      unfolding track_immediate_names(3) [of name regs w, OF name x] logic_result_def imm_zimm by (simp only: u32_bits split: if_split) simp
    with logic assms(4,5) show ?thesis by (auto simp: gives_forgets mips_result_def)
  next
    case load
    have name: "name \<in> {''addi'', ''addiu'', ''ori'', ''xori'', ''andi'', ''lw''}" using load(2) by blast
    note x = known [OF name]
    with assms(4,5) track_immediate_names(4) [of regs w, OF x]
    have "tr_reg (track_load args data regs w (uint (m (rs_of w)))) = Some r"
      "tr_result (track_load args data regs w (uint (m (rs_of w)))) = Some v" by (simp_all add: load(2))
    from track_load_sound [OF assms(2) this] load show ?thesis by (simp add: mips_result_def)
qed
qed

lemma track_regs_of_result:
  assumes "tr_result (track args data regs pc w name values) = Some v"
  shows "tr_regs (track args data regs pc w name values) = regs"
proof -
  have regs: "tr_regs (gives regs r v) = regs" "tr_regs (forgets regs r) = regs" "tr_regs (untracked regs) = regs"
    "tr_regs (track_load args data regs w a) = regs" "tr_result (track_call args regs pc w name values) = None" for r v a
    by (simp_all add: gives_def forgets_def untracked_def track_load_def track_call_def Let_def)
  show ?thesis using assms unfolding track_def Let_def by (simp only: regs split: if_split_asm) (simp_all add: regs)
qed

lemma mips_result_register: "mips_result mem m w = Some (r, u) \<Longrightarrow> r < 32"
  using field_ranges [of w] by (auto simp: mips_result_def Let_def split: if_splits)

lemma matches_update: "matches regs m \<Longrightarrow> matches (regs[r := Some (uint u)]) (m(r := u))"
  by (auto simp: matches_def nth_list_update)



section \<open>Where the listing is wrong\<close>

text \<open>
  \<open>addiu $v0, $a0, 1\<close> with an unknown \<open>$a0\<close> leaves the old value of \<open>$v0\<close> in the tracked registers; and a
  rotation is listed and tracked as a shift.
\<close>

definition stale_regs :: regs where
  "stale_regs = (initial_regs None)[2 := Some 0x80000000]"

definition stale_machine :: "nat \<Rightarrow> word32" where
  "stale_machine = (\<lambda>_. 0)(2 := 0x80000000)"

definition no_options :: listing_args where
  "no_options = \<lparr>la_start = 0, la_end = 4, la_base = 0, la_file_offset = 0, la_gp = None, la_labels = []\<rparr>"

lemma stale_value_kept:
  "matches stale_regs stale_machine \<and>
   mips_result mem stale_machine 0x24820001 = Some (2, 1) \<and>
   \<not> matches (snd (list_instruction no_options [] stale_regs 0 0x24820001)) (stale_machine(2 := 1))"
proof -
  have "matches stale_regs stale_machine"
    by (simp add: matches_def stale_regs_def stale_machine_def initial_regs_def nth_list_update)
  moreover have "mips_result mem stale_machine 0x24820001 = Some (2, 1)"
  proof -
    have "op_of 0x24820001 = 9" "rs_of 0x24820001 = 4" "rt_of 0x24820001 = 2" "simm 0x24820001 = 1" by code_simp+
    then show ?thesis by (simp add: mips_result_def stale_machine_def)
  qed
  moreover have "snd (list_instruction no_options [] stale_regs 0 0x24820001) ! 2 = Some 0x80000000"
  proof -
    have "decode 0 0x24820001 = (''addiu'', ''$v0, $a0, 1'', [2, 4, 1])" by code_simp
    then have "snd (list_instruction no_options [] stale_regs 0 0x24820001) =
        after_instruction 0x24820001 ''addiu'' (track no_options [] stale_regs 0 0x24820001 ''addiu'' [2, 4, 1])"
      by (simp add: list_instruction_def Let_def)
    also have "\<dots> ! 2 = Some 0x80000000" by code_simp
    finally show ?thesis .
  qed
  ultimately show ?thesis by (auto simp: matches_def)
qed

lemma rotation_listed_as_shift:
  "fst (decode pc 0x221902) = ''srl'' \<and>
   tr_result (track no_options [] ((initial_regs None)[2 := Some 1]) 0 0x221902 ''srl'' [3, 2, 4]) = Some 0 \<and>
   mips_result mem ((\<lambda>_. 0)(2 := 1)) 0x221902 = Some (3, 0x10000000)"
proof -
  have w: "op_of 0x221902 = 0" "rs_of 0x221902 = 1" "rt_of 0x221902 = 2" "rd_of 0x221902 = 3" "sa_of 0x221902 = 4" "fn_of 0x221902 = 2"
    by code_simp+
  have "decode pc 0x221902 = decode 0 0x221902" using w by (simp add: decode_def decode_special_def SHIFTS_def)
  moreover have "fst (decode 0 0x221902) = ''srl''" by code_simp
  moreover have "tr_result (track no_options [] ((initial_regs None)[2 := Some 1]) 0 0x221902 ''srl'' [3, 2, 4]) = Some 0" by code_simp
  moreover have "mips_result mem ((\<lambda>_. 0)(2 := 1)) 0x221902 = Some (3, 0x10000000)"
  proof -
    have "word_rotr 4 (1 :: word32) = 0x10000000" by code_simp
    with w show ?thesis by (simp add: mips_result_def mips_special_def)
  qed
  ultimately show ?thesis by simp
qed

end
