(* ===== verification/Mips_Xrefs.thy ===== *)
theory Mips_Xrefs
  imports Mips_Tracking
begin

text \<open>
  The finder of GP-relative references, \<open>usb-maintenance/tools/mips_pic_xrefs.py\<close>, over the binary's bytes. The regular
  expression of the \<open>--match\<close> option is the parameter \<open>search\<close>.
\<close>

unbundle bit_operations_syntax

record xref_args =
  xa_base :: int
  xa_start :: int
  xa_end :: "int option"

definition sx16 :: "int \<Rightarrow> int" where
  "sx16 v = (if v AND 0x8000 \<noteq> 0 then v - 0x10000 else v)"

definition read_word :: "bytes \<Rightarrow> int \<Rightarrow> word32 option" where
  "read_word data offset = (if offset < 0 \<or> int (length data) < offset + 4 then None else Some (word_at data (nat offset)))"

definition ascii_at :: "bytes \<Rightarrow> int \<Rightarrow> ustring option" where
  "ascii_at data offset =
     (if \<not> (0 \<le> offset \<and> offset < int (length data)) then None
      else case find_zero data (nat offset) (min (length data) (nat offset + 500)) of
          None \<Rightarrow> None
        | Some stop \<Rightarrow>
            let raw = pslice data (nat offset) stop
            in if stop \<le> nat offset \<or> length raw < 3 \<or> (\<exists>b \<in> set raw. b \<notin> {9, 13, 10} \<and> \<not> (0x20 \<le> b \<and> b \<le> 0x7E)) then None
               else Some (map unat raw))"

text \<open>\<open>range(start, stop, 4)\<close>.\<close>

definition words_between :: "int \<Rightarrow> int \<Rightarrow> int list" where
  "words_between start stop = map (\<lambda>i. start + 4 * int i) [0 ..< nat ((stop - start + 3) div 4)]"

section \<open>The functions\<close>

text \<open>The prologue \<open>lui $gp, a; addiu $gp, $gp, b; addu $gp, $gp, $t9\<close>, and the \<open>$gp\<close> it leaves.\<close>

definition is_prologue :: "word32 \<Rightarrow> word32 \<Rightarrow> word32 \<Rightarrow> bool" where
  "is_prologue a b c \<longleftrightarrow> a AND 0xFFFF0000 = 0x3C1C0000 \<and> b AND 0xFFFF0000 = 0x279C0000 \<and> c = 0x0399E021"

definition prologue_gp :: "int \<Rightarrow> word32 \<Rightarrow> word32 \<Rightarrow> int" where
  "prologue_gp va a b = u32 (va + (push_bit 16 (imm_of a) + sx16 (imm_of b)))"

definition function_at :: "xref_args \<Rightarrow> bytes \<Rightarrow> int \<Rightarrow> (int \<times> int) option" where
  "function_at args data off =
     (case (read_word data off, read_word data (off + 4), read_word data (off + 8)) of
        (Some a, Some b, Some c) \<Rightarrow> if is_prologue a b c then Some (off, prologue_gp (xa_base args + off) a b) else None
      | _ \<Rightarrow> None)"

definition end_of :: "xref_args \<Rightarrow> bytes \<Rightarrow> int" where
  "end_of args data = (case xa_end args of None \<Rightarrow> int (length data) | Some e \<Rightarrow> min e (int (length data)))"

definition find_functions :: "xref_args \<Rightarrow> bytes \<Rightarrow> (int \<times> int) list" where
  "find_functions args data = List.map_filter (function_at args data) (words_between (xa_start args) (end_of args data - 12))"

section \<open>The references of one function\<close>

text \<open>The register one instruction gives a value, and the value if it is known.\<close>

definition reference_step :: "xref_args \<Rightarrow> bytes \<Rightarrow> regs \<Rightarrow> word32 \<Rightarrow> (nat \<times> int option) option" where
  "reference_step args data regs w =
     (let op = op_of w; rs = rs_of w; rt = rt_of w; rd = rd_of w; imm = imm_of w; fn = fn_of w;
          known = regs ! rs \<noteq> None; both = known \<and> regs ! rt \<noteq> None; a = the (regs ! rs); b = the (regs ! rt)
      in if op = 15 then Some (rt, Some (push_bit 16 imm))
         else if (op = 8 \<or> op = 9) \<and> known then Some (rt, Some (u32 (a + sx16 imm)))
         else if op = 13 \<and> known then Some (rt, Some (u32 (a OR imm)))
         else if op = 35 \<and> known
         then Some (rt, map_option uint (read_word data (u32 (a + sx16 imm) - xa_base args)))
         else if op = 0
         then (if (fn = 32 \<or> fn = 33) \<and> both then Some (rd, Some (u32 (a + b)))
               else if (fn = 34 \<or> fn = 35) \<and> both then Some (rd, Some (u32 (a - b)))
               else if fn = 37 \<and> both then Some (rd, Some (a OR b))
               else None)
         else None)"

type_synonym reference = "int \<times> ustring \<times> int"

definition add_reference :: "reference \<Rightarrow> reference list \<Rightarrow> reference list" where
  "add_reference item found = (if item \<in> set found then found else found @ [item])"

definition reference_of :: "(ustring \<Rightarrow> bool) \<Rightarrow> xref_args \<Rightarrow> bytes \<Rightarrow> int \<Rightarrow> int option \<Rightarrow> reference option" where
  "reference_of search args data pc v =
     (case v of
        None \<Rightarrow> None
      | Some address \<Rightarrow>
          (case ascii_at data (address - xa_base args) of
             Some t \<Rightarrow> if search t then Some (pc, t, address) else None
           | None \<Rightarrow> None))"

fun references ::
    "(ustring \<Rightarrow> bool) \<Rightarrow> xref_args \<Rightarrow> bytes \<Rightarrow> int list \<Rightarrow> regs \<Rightarrow> reference list \<Rightarrow> reference list" where
  "references search args data [] regs found = found"
| "references search args data (off # offs) regs found =
     (case read_word data off of
        None \<Rightarrow> found
      | Some w \<Rightarrow>
          (case reference_step args data regs w of
             Some (Suc r, v) \<Rightarrow>
               references search args data offs (regs[Suc r := v])
                 (case reference_of search args data (xa_base args + off) v of Some item \<Rightarrow> add_reference item found | None \<Rightarrow> found)
           | _ \<Rightarrow> references search args data offs regs found))"

definition entry_regs :: "int \<Rightarrow> int \<Rightarrow> regs" where
  "entry_regs gp address = (replicate 32 None)[0 := Some 0, 28 := Some gp, 25 := Some address]"

definition reference_lines :: "xref_args \<Rightarrow> int \<Rightarrow> int \<Rightarrow> reference list \<Rightarrow> ustring list" where
  "reference_lines args start gp found =
     (if found = [] then []
      else (us ''function 0x'' @ hex08 (xa_base args + start) @ us '', gp=0x'' @ hex08 gp @ us '', file+0x'' @ us (hex_text (nat start))) #
        map (\<lambda>(pc, t, address). us ''  0x'' @ hex08 pc @ us '' -> 0x'' @ hex08 address @ us '': '' @ repr_text t) found)"

text \<open>Every function's references, up to the next function and for at most \<open>0x6000\<close> bytes.\<close>

fun function_lines :: "(ustring \<Rightarrow> bool) \<Rightarrow> xref_args \<Rightarrow> bytes \<Rightarrow> (int \<times> int) list \<Rightarrow> ustring list" where
  "function_lines search args data [] = []"
| "function_lines search args data ((start, gp) # rest) =
     (let stop = min (case rest of [] \<Rightarrow> end_of args data | (next_start, _) # _ \<Rightarrow> next_start) (start + 0x6000);
          found = references search args data (words_between start stop) (entry_regs gp (xa_base args + start)) []
      in reference_lines args start gp found @ function_lines search args data rest)"

definition find_references :: "(ustring \<Rightarrow> bool) \<Rightarrow> xref_args \<Rightarrow> bytes \<Rightarrow> ustring list" where
  "find_references search args data = function_lines search args data (find_functions args data)"

section \<open>What is found\<close>

lemma sx16_sx: "0 \<le> v \<Longrightarrow> v < 65536 \<Longrightarrow> sx16 v = sx v 16"
proof -
  assume v: "0 \<le> v" "v < 65536"
  have "v AND 0x8000 = of_bool (bit v 15) * 2 ^ 15" using and_power [of v 15] by simp
  moreover have "take_bit 16 v = v" using v by (simp add: take_bit_int_eq_self_iff)
  moreover have "sx v 16 = take_bit 16 v - 65536 * of_bool (bit v 15)"
    using signed_take_bit_eq_take_bit_minus [of 15 v] by (simp add: sx16)
  ultimately show ?thesis by (simp add: sx16_def)
qed

lemma upper_fields:
  "op_of w = op_of (w AND 0xFFFF0000)" "rs_of w = rs_of (w AND 0xFFFF0000)" "rt_of w = rt_of (w AND 0xFFFF0000)"
proof -
  have upper: "(0xFFFF0000 :: word32) = push_bit 16 (mask 16)" by code_simp
  have five: "(31 :: word32) = mask 5" by code_simp
  have "drop_bit 26 w = drop_bit 26 (w AND push_bit 16 (mask 16))" by (rule bit_word_eqI) (auto simp: bit_simps dest: bit_imp_le_length)
  moreover have "drop_bit 21 w AND mask 5 = drop_bit 21 (w AND push_bit 16 (mask 16)) AND mask 5" by (rule bit_word_eqI) (auto simp: bit_simps dest: bit_imp_le_length)
  moreover have "drop_bit 16 w AND mask 5 = drop_bit 16 (w AND push_bit 16 (mask 16)) AND mask 5" by (rule bit_word_eqI) (auto simp: bit_simps dest: bit_imp_le_length)
  ultimately show "op_of w = op_of (w AND 0xFFFF0000)" "rs_of w = rs_of (w AND 0xFFFF0000)" "rt_of w = rt_of (w AND 0xFFFF0000)"
    unfolding bits_at_def upper five by (simp_all only:)
qed

lemma prologue_fields:
  assumes "is_prologue a b c"
  shows "op_of a = 15" "rt_of a = 28" "op_of b = 9" "rs_of b = 28" "rt_of b = 28"
    "op_of c = 0" "fn_of c = 33" "rs_of c = 28" "rt_of c = 25" "rd_of c = 28"
proof -
  have *: "a AND 0xFFFF0000 = 0x3C1C0000" "b AND 0xFFFF0000 = 0x279C0000" "c = 0x0399E021" using assms by (simp_all add: is_prologue_def)
  show "op_of a = 15" "rt_of a = 28" unfolding upper_fields [of a] * by code_simp+
  show "op_of b = 9" "rs_of b = 28" "rt_of b = 28" unfolding upper_fields [of b] * by code_simp+
  show "op_of c = 0" "fn_of c = 33" "rs_of c = 28" "rt_of c = 25" "rd_of c = 28" unfolding * by code_simp+
qed

text \<open>
  The \<open>$gp\<close> attributed to a function is the one its prologue leaves: when \<open>$t9\<close> holds the function's address, as the
  calling convention has it, the three instructions run one after the other give \<open>$gp\<close> the value of \<open>prologue_gp\<close>.
\<close>

theorem prologue_gp_is_computed:
  assumes "is_prologue a b c" "m 25 = word_of_int va"
  shows "\<exists>x y z. mips_result mem m a = Some (28, x) \<and> mips_result mem (m(28 := x)) b = Some (28, y) \<and>
           mips_result mem (m(28 := y)) c = Some (28, z) \<and> prologue_gp va a b = uint z"
proof -
  note f = prologue_fields [OF assms(1)]
  let ?x = "push_bit 16 (zimm a)"
  let ?y = "?x + simm b"
  have "mips_result mem m a = Some (28, ?x)" by (simp add: mips_result_def f)
  moreover have "mips_result mem (m(28 := ?x)) b = Some (28, ?y)" by (simp add: mips_result_def f)
  moreover have "mips_result mem (m(28 := ?y)) c = Some (28, ?y + word_of_int va)"
    by (simp add: mips_result_def mips_special_def f assms(2))
  moreover have "prologue_gp va a b = uint (?y + word_of_int va)"
  proof -
    have "(word_of_int (va + (push_bit 16 (imm_of a) + sx (imm_of b) 16)) :: word32) = word_of_int va + (?x + simm b)"
      unfolding imm_zimm [of a] by (simp add: simm_word push_bit_eq_mult)
    then show ?thesis using imm_range [of b] by (simp only: prologue_gp_def sx16_sx u32_word) (simp add: ac_simps)
  qed
  ultimately show ?thesis by blast
qed

lemma prologue_gp_is_computed_witness:
  "\<exists>x y z. mips_result (\<lambda>_. 0) ((\<lambda>_. 0)(25 := 0x80001000)) 0x3C1C0002 = Some (28, x) \<and>
     mips_result (\<lambda>_. 0) ((\<lambda>_. 0)(25 := 0x80001000, 28 := x)) 0x279CFFF0 = Some (28, y) \<and>
     mips_result (\<lambda>_. 0) ((\<lambda>_. 0)(25 := 0x80001000, 28 := y)) 0x0399E021 = Some (28, z) \<and>
     prologue_gp 0x80001000 0x3C1C0002 0x279CFFF0 = uint z"
proof (rule prologue_gp_is_computed)
  show "is_prologue 0x3C1C0002 0x279CFFF0 0x0399E021" by code_simp
qed simp

end
