(* ===== verification/Squashfs.thy ===== *)
theory Squashfs
  imports Python_Text Hid_Transport
begin

text \<open>
  The read-only SquashFS extractor \<open>usb-maintenance/tools/squashfs_extract.py\<close>: what it reads from an image. The image is
  its bytes, opened once and not written; \<open>lzma.decompress\<close> is the parameter \<open>unlzma\<close>, with \<open>None\<close> for an
  \<open>lzma.LZMAError\<close>. Both caches of the class hold what a function of the image returned; the locale \<open>memo\<close> shows
  that a lookup through them returns the same, and the functions here therefore read the image directly.
\<close>

definition SQUASHFS_MAGIC :: nat where [constants]: "SQUASHFS_MAGIC = 0x73717368"
definition METADATA_BLOCK_SIZE :: nat where [constants]: "METADATA_BLOCK_SIZE = 8192"
definition INVALID_FRAGMENT :: nat where [constants]: "INVALID_FRAGMENT = 0xFFFFFFFF"

section \<open>The superblock\<close>

record superblock =
  sq_magic :: nat
  sq_inode_count :: nat
  sq_mkfs_time :: nat
  sq_block_size :: nat
  sq_fragment_count :: nat
  sq_compression :: nat
  sq_block_log :: nat
  sq_flags :: nat
  sq_id_count :: nat
  sq_major :: nat
  sq_minor :: nat
  sq_root_inode :: nat
  sq_bytes_used :: nat
  sq_id_table_start :: nat
  sq_xattr_table_start :: nat
  sq_inode_table_start :: nat
  sq_directory_table_start :: nat
  sq_fragment_table_start :: nat
  sq_export_table_start :: nat

definition unpack_superblock :: "bytes \<Rightarrow> superblock" where
  "unpack_superblock raw =
     \<lparr>sq_magic = le_at raw 0 4, sq_inode_count = le_at raw 4 4, sq_mkfs_time = le_at raw 8 4, sq_block_size = le_at raw 12 4,
      sq_fragment_count = le_at raw 16 4, sq_compression = le_at raw 20 2, sq_block_log = le_at raw 22 2, sq_flags = le_at raw 24 2,
      sq_id_count = le_at raw 26 2, sq_major = le_at raw 28 2, sq_minor = le_at raw 30 2, sq_root_inode = le_at raw 32 8,
      sq_bytes_used = le_at raw 40 8, sq_id_table_start = le_at raw 48 8, sq_xattr_table_start = le_at raw 56 8,
      sq_inode_table_start = le_at raw 64 8, sq_directory_table_start = le_at raw 72 8, sq_fragment_table_start = le_at raw 80 8,
      sq_export_table_start = le_at raw 88 8\<rparr>"

definition read_superblock :: "bytes \<Rightarrow> nat \<Rightarrow> superblock res" where
  "read_superblock img base =
     (let raw = pslice img base (base + 96); sb = unpack_superblock raw
      in if length raw \<noteq> 96 then Inl (ValueError ''truncated SquashFS superblock'')
         else if sq_magic sb \<noteq> SQUASHFS_MAGIC then Inl (ValueError ''bad SquashFS magic'')
         else if \<not> (sq_major sb = 4 \<and> sq_minor sb = 0) then Inl (ValueError ''unsupported SquashFS version'')
         else if sq_compression sb \<noteq> 4 then Inl (ValueError ''unsupported compressor id'')
         else Inr sb)"

section \<open>Metadata\<close>

text \<open>An open file system: the image, where it starts, its superblock and the decompressor.\<close>

record squashfs =
  fs_image :: bytes
  fs_base :: nat
  fs_sb :: superblock
  fs_unlzma :: "bytes \<Rightarrow> bytes option"

definition open_squashfs :: "(bytes \<Rightarrow> bytes option) \<Rightarrow> bytes \<Rightarrow> nat \<Rightarrow> squashfs res" where
  "open_squashfs unlzma img base =
     res_bind (read_superblock img base) (\<lambda>sb. Inr \<lparr>fs_image = img, fs_base = base, fs_sb = sb, fs_unlzma = unlzma\<rparr>)"

definition decompress :: "squashfs \<Rightarrow> bytes \<Rightarrow> bytes res" where
  "decompress fs payload = (case fs_unlzma fs payload of None \<Rightarrow> Inl LzmaError | Some data \<Rightarrow> Inr data)"

definition read_at :: "squashfs \<Rightarrow> nat \<Rightarrow> nat \<Rightarrow> bytes res" where
  "read_at fs relative_offset count =
     (let data = pslice (fs_image fs) (fs_base fs + relative_offset) (fs_base fs + relative_offset + count)
      in if 2 ^ 63 \<le> fs_base fs + relative_offset then Inl (ValueError ''offset does not fit'')
         else if length data \<noteq> count then Inl (ValueError ''truncated read'')
         else Inr data)"

definition metadata_block :: "squashfs \<Rightarrow> nat \<Rightarrow> (bytes \<times> nat) res" where
  "metadata_block fs relative_offset =
     res_bind (read_at fs relative_offset 2) (\<lambda>raw.
     let header = le_at raw 0 2; stored_size = header AND 0x7FFF
     in res_bind (read_at fs (relative_offset + 2) stored_size) (\<lambda>payload.
        res_bind (if header AND 0x8000 \<noteq> 0 then Inr payload else decompress fs payload) (\<lambda>data.
        if METADATA_BLOCK_SIZE < length data then Inl (ValueError ''oversized metadata block'')
        else Inr (data, relative_offset + 2 + stored_size))))"

definition metadata_block_cached :: "squashfs \<Rightarrow> nat \<Rightarrow> (nat \<rightharpoonup> bytes \<times> nat, bytes \<times> nat) io" where
  "metadata_block_cached fs relative_offset cache =
     (case cache relative_offset of
        Some cached \<Rightarrow> (Inr cached, cache)
      | None \<Rightarrow>
          (case metadata_block fs relative_offset of
             Inl e \<Rightarrow> (Inl e, cache)
           | Inr result \<Rightarrow> (Inr result, cache(relative_offset \<mapsto> result))))"

lemma metadata_block_next: "metadata_block fs off = Inr (data, next_block) \<Longrightarrow> off + 2 \<le> next_block \<and> next_block \<le> max (off + 2) (length (fs_image fs))"
  by (auto simp: metadata_block_def read_at_def Let_def split: if_splits)

text \<open>\<open>_read_metadata\<close>: a range of a table, across its blocks.\<close>

function read_metadata_from :: "squashfs \<Rightarrow> nat \<Rightarrow> nat \<Rightarrow> nat \<Rightarrow> bytes res" where
  "read_metadata_from fs block offset left =
     (if left = 0 then Inr []
      else res_bind (metadata_block fs block) (\<lambda>(data, next_block).
        let n = min left (length data - offset)
        in if n = 0 then Inl (ValueError ''metadata reference points outside block'')
           else res_bind (read_metadata_from fs next_block 0 (left - n)) (\<lambda>rest. Inr (pslice data offset (offset + n) @ rest))))"
  by pat_completeness auto
termination by (relation "measure (\<lambda>(_, _, _, left). left)") auto

declare read_metadata_from.simps [simp del]

definition read_metadata :: "squashfs \<Rightarrow> nat \<Rightarrow> nat \<Rightarrow> nat \<Rightarrow> nat \<Rightarrow> bytes res" where
  "read_metadata fs table_start block_offset inner_offset count = read_metadata_from fs (table_start + block_offset) inner_offset count"

text \<open>
  \<open>_metadata_stream\<close> as the generator's state: what is left of the current block, how much of the next block is to be
  skipped, and where that block is. \<open>take_bytes\<close> is \<open>_take\<close>.
\<close>

type_synonym metadata_stream = "bytes \<times> nat \<times> nat"

definition metadata_stream :: "nat \<Rightarrow> nat \<Rightarrow> nat \<Rightarrow> metadata_stream" where
  "metadata_stream table_start block_offset inner_offset = ([], inner_offset, table_start + block_offset)"

function take_bytes :: "squashfs \<Rightarrow> nat \<Rightarrow> metadata_stream \<Rightarrow> (bytes \<times> metadata_stream) res" where
  "take_bytes fs count (rest, skip, block) =
     (if count = 0 then Inr ([], rest, skip, block)
      else case rest of
          b # bs \<Rightarrow> res_bind (take_bytes fs (count - 1) (bs, skip, block)) (\<lambda>(taken, stream). Inr (b # taken, stream))
        | [] \<Rightarrow> res_bind (metadata_block fs block) (\<lambda>(data, next_block). take_bytes fs count (drop skip data, 0, next_block)))"
  by pat_completeness auto
termination
proof (relation "measures [\<lambda>(_, count, _). count, \<lambda>(fs, _, rest, _, block). length (fs_image fs) + 2 - block]", goal_cases)
  case (2 fs count rest skip block x data next_block)
  have "block + 2 \<le> length (fs_image fs)"
    using 2 by (auto simp: metadata_block_def read_at_def Let_def split: if_splits)
  with metadata_block_next [of fs block data next_block] 2 show ?case by auto
qed auto

declare take_bytes.simps [simp del]

section \<open>Inodes\<close>

record inode =
  in_ref :: nat
  in_kind :: nat
  in_mode :: nat
  in_number :: nat
  in_start :: "nat option"
  in_file_size :: nat
  in_fragment :: nat
  in_fragment_offset :: nat
  in_block_sizes :: "nat list"
  in_directory_offset :: nat
  in_symlink :: "bytes option"
  in_rdev :: "nat option"

definition new_inode :: "nat \<Rightarrow> nat \<Rightarrow> nat \<Rightarrow> nat \<Rightarrow> inode" where
  "new_inode ref kind mode number =
     \<lparr>in_ref = ref, in_kind = kind, in_mode = mode, in_number = number, in_start = None, in_file_size = 0,
      in_fragment = INVALID_FRAGMENT, in_fragment_offset = 0, in_block_sizes = [], in_directory_offset = 0, in_symlink = None, in_rdev = None\<rparr>"

text \<open>The number of block sizes that follow a regular file's inode.\<close>

definition block_count :: "squashfs \<Rightarrow> nat \<Rightarrow> nat \<Rightarrow> nat res" where
  "block_count fs fragment file_size =
     (let block_size = sq_block_size (fs_sb fs)
      in if block_size = 0 then Inl ZeroDivisionError
         else Inr (file_size div block_size + (if fragment = INVALID_FRAGMENT \<and> file_size mod block_size \<noteq> 0 then 1 else 0)))"

definition regular_inode :: "squashfs \<Rightarrow> inode \<Rightarrow> metadata_stream \<Rightarrow> nat \<Rightarrow> nat \<Rightarrow> nat \<Rightarrow> nat \<Rightarrow> inode res" where
  "regular_inode fs node stream start fragment frag_offset file_size =
     res_bind (block_count fs fragment file_size) (\<lambda>n.
     res_bind (take_bytes fs (4 * n) stream) (\<lambda>(raw, _).
     Inr (node\<lparr>in_start := Some start, in_file_size := file_size, in_fragment := fragment, in_fragment_offset := frag_offset,
       in_block_sizes := map (\<lambda>i. le_at raw (4 * i) 4) [0 ..< n]\<rparr>)))"

definition symlink_inode :: "squashfs \<Rightarrow> inode \<Rightarrow> metadata_stream \<Rightarrow> inode res" where
  "symlink_inode fs node stream =
     res_bind (take_bytes fs 8 stream) (\<lambda>(raw, stream).
     let target_size = le_at raw 4 4
     in res_bind (take_bytes fs target_size stream) (\<lambda>(target, stream).
        res_bind (if in_kind node = 10 then take_bytes fs 4 stream else Inr ([], stream)) (\<lambda>_.
        Inr (node\<lparr>in_symlink := Some target, in_file_size := target_size\<rparr>))))"

definition read_inode :: "squashfs \<Rightarrow> nat \<Rightarrow> inode res" where
  "read_inode fs ref =
     res_bind (take_bytes fs 16 (metadata_stream (sq_inode_table_start (fs_sb fs)) (drop_bit 16 ref) (ref AND 0xFFFF))) (\<lambda>(raw, stream).
     let kind = le_at raw 0 2; node = new_inode ref kind (le_at raw 2 2) (le_at raw 12 4)
     in if kind = 1
        then res_bind (take_bytes fs 16 stream) (\<lambda>(raw, _).
               Inr (node\<lparr>in_start := Some (le_at raw 0 4), in_file_size := le_at raw 8 2, in_directory_offset := le_at raw 10 2\<rparr>))
        else if kind = 8
        then res_bind (take_bytes fs 24 stream) (\<lambda>(raw, _).
               Inr (node\<lparr>in_start := Some (le_at raw 8 4), in_file_size := le_at raw 4 4, in_directory_offset := le_at raw 18 2\<rparr>))
        else if kind = 2
        then res_bind (take_bytes fs 16 stream) (\<lambda>(raw, stream).
               regular_inode fs node stream (le_at raw 0 4) (le_at raw 4 4) (le_at raw 8 4) (le_at raw 12 4))
        else if kind = 9
        then res_bind (take_bytes fs 40 stream) (\<lambda>(raw, stream).
               regular_inode fs node stream (le_at raw 0 8) (le_at raw 28 4) (le_at raw 32 4) (le_at raw 8 8))
        else if kind = 3 \<or> kind = 10 then symlink_inode fs node stream
        else if kind \<in> {4, 5, 11, 12}
        then res_bind (take_bytes fs 8 stream) (\<lambda>(raw, stream).
             res_bind (if kind = 11 \<or> kind = 12 then take_bytes fs 4 stream else Inr ([], stream)) (\<lambda>_.
             Inr (node\<lparr>in_rdev := Some (le_at raw 4 4)\<rparr>)))
        else if kind \<in> {6, 7, 13, 14}
        then res_bind (take_bytes fs (if kind = 13 \<or> kind = 14 then 8 else 4) stream) (\<lambda>_. Inr node)
        else Inl (ValueError ''unsupported inode type''))"

section \<open>Directories\<close>

text \<open>\<open>bytes.decode("utf-8", "surrogateescape")\<close>: a byte that is not part of a character becomes a lone surrogate.\<close>

fun continue_char :: "nat \<Rightarrow> byte \<Rightarrow> byte \<Rightarrow> nat \<Rightarrow> bytes \<Rightarrow> nat option" where
  "continue_char 0 lo hi v bs = Some v"
| "continue_char (Suc n) lo hi v [] = None"
| "continue_char (Suc n) lo hi v (b # bs) =
     (if lo \<le> b \<and> b \<le> hi then continue_char n 0x80 0xBF (v * 64 + unat b mod 64) bs else None)"

function decode_escape :: "bytes \<Rightarrow> ustring" where
  "decode_escape [] = []"
| "decode_escape (b # bs) =
     (if b < 0x80 then unat b # decode_escape bs
      else case utf8_lead b of
          None \<Rightarrow> (0xDC00 + unat b) # decode_escape bs
        | Some (n, lo, hi, v) \<Rightarrow>
            (case continue_char n lo hi v bs of
               None \<Rightarrow> (0xDC00 + unat b) # decode_escape bs
             | Some c \<Rightarrow> c # decode_escape (drop n bs)))"
  by pat_completeness auto
termination by (relation "measure length") auto

type_synonym dir_entry = "ustring \<times> nat \<times> nat"

function directory_entries :: "bytes \<Rightarrow> nat \<Rightarrow> nat \<Rightarrow> nat \<Rightarrow> (dir_entry list \<times> nat) res" where
  "directory_entries raw inode_block left pos =
     (if left = 0 then Inr ([], pos)
      else if length raw < pos + 8 then Inl (ValueError ''truncated directory entry'')
      else
        let inode_offset = le_at raw pos 2; kind = le_at raw (pos + 4) 2; name_size = le_at raw (pos + 6) 2 + 1;
          name_raw = pslice raw (pos + 8) (pos + 8 + name_size)
        in if length name_raw \<noteq> name_size then Inl (ValueError ''truncated directory name'')
           else res_bind (directory_entries raw inode_block (left - 1) (pos + 8 + name_size)) (\<lambda>(entries, pos).
             Inr ((decode_escape name_raw, push_bit 16 inode_block OR inode_offset, kind) # entries, pos)))"
  by pat_completeness auto
termination by (relation "measure (\<lambda>(_, _, left, _). left)") auto

declare directory_entries.simps [simp del]

lemma directory_entries_pos: "directory_entries raw block left pos = Inr (entries, pos') \<Longrightarrow> pos \<le> pos'"
proof (induction raw block left pos arbitrary: entries pos' rule: directory_entries.induct)
  case (1 raw block left pos)
  show ?case
  proof (cases "left = 0")
    case True
    with "1.prems" show ?thesis by (simp add: directory_entries.simps)
  next
    case False
    let ?next = "pos + 8 + (le_at raw (pos + 6) 2 + 1)"
    obtain es where rec: "\<not> length raw < pos + 8" "length (pslice raw (pos + 8) ?next) = le_at raw (pos + 6) 2 + 1"
      "directory_entries raw block (left - 1) ?next = Inr (es, pos')"
      using "1.prems" False by (subst (asm) directory_entries.simps) (auto simp: Let_def split: if_splits)
    from "1.IH" [OF False rec(1) refl refl refl refl _ rec(3)] rec(2) show ?thesis by simp
  qed
qed

function directory_headers :: "bytes \<Rightarrow> nat \<Rightarrow> dir_entry list res" where
  "directory_headers raw pos =
     (if length raw \<le> pos then Inr []
      else if length raw < pos + 12 then Inl (ValueError ''truncated directory header'')
      else res_bind (directory_entries raw (le_at raw (pos + 4) 4) (le_at raw pos 4 + 1) (pos + 12)) (\<lambda>(entries, pos').
        res_bind (directory_headers raw pos') (\<lambda>rest. Inr (entries @ rest))))"
  by pat_completeness auto
termination
proof (relation "measure (\<lambda>(raw, pos). length raw - pos)", goal_cases)
  case (2 raw pos x entries pos')
  then show ?case using directory_entries_pos [of raw _ _ "pos + 12" entries pos'] by fastforce
qed auto

declare directory_headers.simps [simp del]

definition read_directory :: "squashfs \<Rightarrow> inode \<Rightarrow> dir_entry list res" where
  "read_directory fs node =
     (case in_start node of
        Some start \<Rightarrow>
          if in_kind node \<noteq> 1 \<and> in_kind node \<noteq> 8 then Inl (ValueError ''not a directory inode'')
          else res_bind (read_metadata fs (sq_directory_table_start (fs_sb fs)) start (in_directory_offset node) (in_file_size node - 3))
                 (\<lambda>raw. directory_headers raw 0)
      | None \<Rightarrow> Inl (ValueError ''not a directory inode''))"

section \<open>Files\<close>

definition fragment_entry :: "squashfs \<Rightarrow> nat \<Rightarrow> (nat \<times> nat) res" where
  "fragment_entry fs index =
     (let per_block = METADATA_BLOCK_SIZE div 16
      in res_bind (read_at fs (sq_fragment_table_start (fs_sb fs) + index div per_block * 8) 8) (\<lambda>pointer.
         res_bind (read_metadata fs (le_at pointer 0 8) 0 (index mod per_block * 16) 16) (\<lambda>raw.
         Inr (le_at raw 0 8, le_at raw 8 4))))"

text \<open>A stored block: the low 24 bits of its size word are its length, bit 24 says that it is not compressed.\<close>

definition stored_block :: "squashfs \<Rightarrow> nat \<Rightarrow> nat \<Rightarrow> bytes res" where
  "stored_block fs offset size_word =
     res_bind (read_at fs offset (size_word AND 0x00FFFFFF)) (\<lambda>payload.
     if size_word AND 0x01000000 \<noteq> 0 then Inr payload else decompress fs payload)"

definition fragment_data :: "squashfs \<Rightarrow> nat \<Rightarrow> bytes res" where
  "fragment_data fs index = res_bind (fragment_entry fs index) (\<lambda>(start, size_word). stored_block fs start size_word)"

fun read_blocks :: "squashfs \<Rightarrow> nat list \<Rightarrow> nat \<Rightarrow> nat \<Rightarrow> (bytes \<times> nat) res" where
  "read_blocks fs [] data_offset remaining = Inr ([], remaining)"
| "read_blocks fs (size_word # size_words) data_offset remaining =
     (let logical_size = min remaining (sq_block_size (fs_sb fs)); stored_size = size_word AND 0x00FFFFFF
      in res_bind
           (if stored_size = 0 then Inr (replicate logical_size 0)
            else res_bind (stored_block fs data_offset size_word) (\<lambda>block.
              if length block \<noteq> logical_size then Inl (ValueError ''bad data block size'') else Inr block)) (\<lambda>block.
         res_bind (read_blocks fs size_words (data_offset + stored_size) (remaining - logical_size)) (\<lambda>(rest, remaining).
         Inr (block @ rest, remaining))))"

definition read_file :: "squashfs \<Rightarrow> inode \<Rightarrow> bytes res" where
  "read_file fs node =
     (case in_start node of
        Some start \<Rightarrow>
          if in_kind node \<noteq> 2 \<and> in_kind node \<noteq> 9 then Inl (ValueError ''not a regular-file inode'')
          else res_bind (read_blocks fs (in_block_sizes node) start (in_file_size node)) (\<lambda>(blocks, remaining).
            res_bind
              (if remaining = 0 then Inr blocks
               else if in_fragment node = INVALID_FRAGMENT then Inl (ValueError ''regular file has missing data'')
               else res_bind (fragment_data fs (in_fragment node)) (\<lambda>fragment.
                 let tail = pslice fragment (in_fragment_offset node) (in_fragment_offset node + remaining)
                 in if length tail \<noteq> remaining then Inl (ValueError ''fragment tail is truncated'') else Inr (blocks @ tail))) (\<lambda>data.
            if length data \<noteq> in_file_size node then Inl (ValueError ''bad extracted size'') else Inr data))
      | None \<Rightarrow> Inl (ValueError ''not a regular-file inode''))"

section \<open>The caches\<close>

definition fragment_data_cached :: "squashfs \<Rightarrow> nat \<Rightarrow> (nat \<rightharpoonup> bytes, bytes) io" where
  "fragment_data_cached fs index cache =
     (case cache index of
        Some cached \<Rightarrow> (Inr cached, cache)
      | None \<Rightarrow>
          (case fragment_data fs index of
             Inl e \<Rightarrow> (Inl e, cache)
           | Inr data \<Rightarrow> (Inr data, cache(index \<mapsto> data))))"

text \<open>Every entry of a cache is what the function returns.\<close>

definition memo_holds :: "('k \<Rightarrow> 'v res) \<Rightarrow> ('k \<rightharpoonup> 'v) \<Rightarrow> bool" where
  "memo_holds compute cache \<longleftrightarrow> (\<forall>k v. cache k = Some v \<longrightarrow> compute k = Inr v)"

lemma memo_holds_empty [simp]: "memo_holds compute Map.empty"
  by (simp add: memo_holds_def)

text \<open>What a method that keeps its results in a dictionary promises: a hit returns the entry, a miss computes and keeps it.\<close>

locale memo =
  fixes compute :: "'k \<Rightarrow> 'v res"
    and cached :: "'k \<Rightarrow> ('k \<rightharpoonup> 'v, 'v) io"
  assumes hit: "cache k = Some v \<Longrightarrow> cached k cache = (Inr v, cache)"
    and miss_ok: "cache k = None \<Longrightarrow> compute k = Inr v \<Longrightarrow> cached k cache = (Inr v, cache(k \<mapsto> v))"
    and miss_failed: "cache k = None \<Longrightarrow> compute k = Inl e \<Longrightarrow> cached k cache = (Inl e, cache)"
begin

lemma lookup:
  assumes "memo_holds compute cache"
  shows "fst (cached k cache) = compute k" "memo_holds compute (snd (cached k cache))"
proof -
  have "fst (cached k cache) = compute k \<and> memo_holds compute (snd (cached k cache))"
  proof (cases "cache k")
    case None
    with assms show ?thesis
      by (cases "compute k") (auto simp: miss_failed miss_ok memo_holds_def)
  next
    case (Some v)
    with assms show ?thesis by (simp add: hit memo_holds_def)
  qed
  then show "fst (cached k cache) = compute k" "memo_holds compute (snd (cached k cache))" by simp_all
qed

text \<open>Any number of lookups, one after the other, from an empty cache.\<close>

lemma lookups:
  assumes "memo_holds compute cache"
  shows "fst (cached k (fold (\<lambda>k cache. snd (cached k cache)) ks cache)) = compute k"
  using assms
proof (induction ks arbitrary: cache)
  case Nil
  then show ?case by (simp add: lookup(1))
next
  case (Cons j ks)
  from Cons.IH [OF lookup(2) [OF Cons.prems, of j]] show ?case by simp
qed

end

interpretation metadata_cache: memo "metadata_block fs" "metadata_block_cached fs" for fs
  by unfold_locales (simp_all add: metadata_block_cached_def)

interpretation fragment_cache: memo "fragment_data fs" "fragment_data_cached fs" for fs
  by unfold_locales (simp_all add: fragment_data_cached_def)

lemma caches_transparent:
  "fst (metadata_block_cached fs off (fold (\<lambda>k cache. snd (metadata_block_cached fs k cache)) offs Map.empty)) = metadata_block fs off \<and>
   fst (fragment_data_cached fs i (fold (\<lambda>k cache. snd (fragment_data_cached fs k cache)) is Map.empty)) = fragment_data fs i"
  by (simp add: metadata_cache.lookups fragment_cache.lookups)

end
