(* ===== verification/Squashfs_Extract.thy ===== *)
theory Squashfs_Extract
  imports Squashfs
begin

text \<open>
  The extraction of \<open>usb-maintenance/tools/squashfs_extract.py\<close> into a directory, and what the extractor promises. A path is
  the list of its components below the parent of the destination, so that the destination itself is a path of one component.
\<close>

datatype action =
    Make_dir "ustring list"
  | Set_mode "ustring list" nat
  | Write_bytes "ustring list" bytes
  | Write_text "ustring list" ustring
  | Make_link "ustring list" ustring

fun path_of :: "action \<Rightarrow> ustring list" where
  "path_of (Make_dir path) = path"
| "path_of (Set_mode path _) = path"
| "path_of (Write_bytes path _) = path"
| "path_of (Write_text path _) = path"
| "path_of (Make_link path _) = path"

text \<open>The host's file system, which does what it will with an action, and the actions so far.\<close>

record 's disk =
  dk_state :: 's
  dk_log :: "action list"

type_synonym 's performer = "'s \<Rightarrow> action \<Rightarrow> unit res \<times> 's"

definition perform :: "'s performer \<Rightarrow> action \<Rightarrow> ('s disk, unit) io" where
  "perform act a d = (case act (dk_state d) a of (r, s) \<Rightarrow> (r, d\<lparr>dk_state := s, dk_log := dk_log d @ [a]\<rparr>))"

definition safe_name :: "ustring \<Rightarrow> bool" where
  "safe_name name \<longleftrightarrow> name \<noteq> [] \<and> name \<noteq> us ''.'' \<and> name \<noteq> us ''..'' \<and> 0x2F \<notin> set name \<and> 0 \<notin> set name"

definition safe_component :: "ustring \<Rightarrow> ustring res" where
  "safe_component name = (if \<not> safe_name name then Inl (ValueError ''unsafe directory entry'') else Inr name)"

fun oct_text :: "nat \<Rightarrow> string" where
  "oct_text n = (if n < 8 then [char_of (48 + n)] else oct_text (n div 8) @ [char_of (48 + n mod 8)])"

declare oct_text.simps [simp del]

definition special_text :: "inode \<Rightarrow> ustring" where
  "special_text node =
     us ''SquashFS special inode type='' @ us (dec_text (in_kind node)) @ us '' mode=0'' @ us (oct_text (in_mode node)) @ us '' rdev='' @
       (case in_rdev node of None \<Rightarrow> us ''None'' | Some r \<Rightarrow> us (dec_text r)) @ [10]"

definition with_suffix :: "ustring list \<Rightarrow> ustring list" where
  "with_suffix target = butlast target @ [last target @ us ''.special'']"

text \<open>
  \<open>_extract_inode\<close>. The interpreter's recursion limit is \<open>depth\<close>: a directory that contains itself ends in a
  \<open>RecursionError\<close>.
\<close>

fun extract_inode :: "squashfs \<Rightarrow> 's performer \<Rightarrow> nat \<Rightarrow> inode \<Rightarrow> ustring list \<Rightarrow> ('s disk, unit) io" where
  "extract_inode fs act 0 node target = io_raise RecursionError"
| "extract_inode fs act (Suc depth) node target =
     (if in_kind node = 1 \<or> in_kind node = 8
      then io_bind (perform act (Make_dir target)) (\<lambda>_.
           io_bind (io_lift (read_directory fs node)) (\<lambda>entries.
           io_bind (io_each (\<lambda>(name, ref, _).
               io_bind (io_lift (safe_component name)) (\<lambda>safe.
               io_bind (io_lift (read_inode fs ref)) (\<lambda>child. extract_inode fs act depth child (target @ [safe])))) entries) (\<lambda>_.
           perform act (Set_mode target (in_mode node AND 0xFFF)))))
      else if in_kind node = 2 \<or> in_kind node = 9
      then io_bind (perform act (Make_dir (butlast target))) (\<lambda>_.
           io_bind (io_lift (read_file fs node)) (\<lambda>data.
           io_bind (perform act (Write_bytes target data)) (\<lambda>_.
           perform act (Set_mode target (in_mode node AND 0xFFF)))))
      else if in_kind node = 3 \<or> in_kind node = 10
      then (case in_symlink node of
              None \<Rightarrow> io_raise AssertionError
            | Some link \<Rightarrow>
                io_bind (perform act (Make_dir (butlast target))) (\<lambda>_. perform act (Make_link target (decode_escape link))))
      else io_bind (perform act (Make_dir (butlast target))) (\<lambda>_. perform act (Write_text (with_suffix target) (special_text node))))"

definition extract_all :: "squashfs \<Rightarrow> 's performer \<Rightarrow> nat \<Rightarrow> ustring \<Rightarrow> ('s disk, unit) io" where
  "extract_all fs act depth destination =
     io_bind (perform act (Make_dir [destination])) (\<lambda>_.
     io_bind (io_lift (read_inode fs (sq_root_inode (fs_sb fs)))) (\<lambda>root_node. extract_inode fs act depth root_node [destination]))"

section \<open>Where the extractor writes\<close>

text \<open>\<open>acts P m\<close>: whatever happens, \<open>m\<close> only performs actions that satisfy \<open>P\<close>.\<close>

definition acts :: "(action \<Rightarrow> bool) \<Rightarrow> ('s disk, 'a) io \<Rightarrow> bool" where
  "acts P m \<longleftrightarrow> (\<forall>d. \<exists>xs. dk_log (snd (m d)) = dk_log d @ xs \<and> list_all P xs)"

lemma acts_perform: "P a \<Longrightarrow> acts P (perform act a)"
  unfolding acts_def perform_def by (auto split: prod.split)

lemma acts_lift: "acts P (io_lift r)" "acts P (io_raise e)" "acts P (io_return x)"
  unfolding acts_def io_lift_def io_raise_def io_return_def by (auto intro: exI [of _ "[]"])

lemma acts_bind:
  assumes "acts P m" "\<And>x. acts P (f x)"
  shows "acts P (io_bind m f)"
  unfolding acts_def
proof
  fix d
  obtain r d1 where m: "m d = (r, d1)" by fastforce
  obtain xs where xs: "dk_log d1 = dk_log d @ xs" "list_all P xs" using assms(1) m unfolding acts_def by (metis snd_conv)
  show "\<exists>xs. dk_log (snd (io_bind m f d)) = dk_log d @ xs \<and> list_all P xs"
  proof (cases r)
    case (Inl e)
    with m xs show ?thesis by (auto simp: io_bind_def)
  next
    case (Inr x)
    obtain bs where "dk_log (snd (f x d1)) = dk_log d1 @ bs" "list_all P bs" using assms(2) [of x] unfolding acts_def by blast
    with m xs Inr show ?thesis by (intro exI [of _ "xs @ bs"]) (simp add: io_bind_def)
  qed
qed

lemma acts_bind_lift:
  assumes "\<And>x. r = Inr x \<Longrightarrow> acts P (f x)"
  shows "acts P (io_bind (io_lift r) f)"
  using assms by (cases r) (simp_all add: acts_lift)

lemma acts_each: "(\<And>x. x \<in> set xs \<Longrightarrow> acts P (f x)) \<Longrightarrow> acts P (io_each f xs)"
  by (induction xs) (auto intro: acts_bind acts_lift)

text \<open>The path of an action is the destination or below it, through components that name a single entry.\<close>

definition below :: "ustring \<Rightarrow> ustring list \<Rightarrow> bool" where
  "below destination path \<longleftrightarrow> (\<exists>names. path = destination # names \<and> list_all safe_name names)"

lemma below_child: "below d path \<Longrightarrow> safe_name name \<Longrightarrow> below d (path @ [name])"
  by (auto simp: below_def)

lemma below_parent:
  assumes "below d path" "length path > 1"
  shows "below d (butlast path)"
proof -
  obtain names where n: "path = d # names" "list_all safe_name names" using assms(1) unfolding below_def by blast
  with assms(2) have "butlast path = d # butlast names" by (cases names) auto
  moreover have "list_all safe_name (butlast names)" using n(2) in_set_butlastD unfolding list_all_iff by fast
  ultimately show ?thesis unfolding below_def by blast
qed

lemma safe_suffix: "safe_name name \<Longrightarrow> safe_name (name @ us ''.special'')"
  by (auto simp: safe_name_def us_def)

lemma below_suffix:
  assumes "below d path" "length path > 1"
  shows "below d (with_suffix path)"
proof -
  obtain names where n: "path = d # names" "list_all safe_name names" using assms(1) unfolding below_def by blast
  with assms(2) have "names \<noteq> []" by auto
  with n have "safe_name (last names)" "last path = last names" by (simp_all add: list_all_iff)
  then show ?thesis using below_child [OF below_parent [OF assms] safe_suffix, of "last names"] by (simp add: with_suffix_def)
qed

lemma extract_inode_acts:
  assumes "below d target" "length target > 1 \<or> in_kind node \<in> {1, 8}"
  shows "acts (\<lambda>a. below d (path_of a)) (extract_inode fs act depth node target)"
  using assms
proof (induction depth arbitrary: node target)
  case 0
  then show ?case by (simp add: acts_lift)
next
  case (Suc depth)
  have child: "acts (\<lambda>a. below d (path_of a)) (extract_inode fs act depth child (target @ [name]))" if "safe_name name" for child name
    using Suc.IH [of "target @ [name]" child] below_child [OF Suc.prems(1) that] Suc.prems(1) by (auto simp: below_def)
  show ?case
  proof (cases "in_kind node = 1 \<or> in_kind node = 8")
    case True
    with Suc.prems(1) show ?thesis
      by (auto intro!: acts_bind acts_bind_lift acts_perform acts_each child simp: safe_component_def split: if_splits)
  next
    case False
    with Suc.prems have long: "length target > 1" by auto
    note inside = below_parent [OF Suc.prems(1) long] below_suffix [OF Suc.prems(1) long] Suc.prems(1)
    from False show ?thesis
      by (auto intro!: acts_bind acts_bind_lift acts_perform acts_lift simp: inside split: option.split)
  qed
qed

lemma acts_mono: "acts P m \<Longrightarrow> (\<And>a. P a \<Longrightarrow> Q a) \<Longrightarrow> acts Q m"
  unfolding acts_def list_all_iff by meson

text \<open>What the extraction may touch: the destination and what is below it, or, when the image's root is no directory, its
  parent directory (which is only created) and the note beside it.\<close>

definition stays_in :: "ustring \<Rightarrow> action \<Rightarrow> bool" where
  "stays_in destination a \<longleftrightarrow>
     below destination (path_of a) \<or> a = Make_dir [] \<or> (\<exists>t. a = Write_text [destination @ us ''.special''] t)"

lemma extract_root_acts: "acts (stays_in d) (extract_inode fs act depth root_node [d])"
proof (cases "in_kind root_node \<in> {1, 8}")
  case True
  have "below d [d]" by (simp add: below_def)
  with True extract_inode_acts [of d "[d]" root_node fs act depth] show ?thesis by (auto simp: stays_in_def intro: acts_mono)
next
  case False
  have w: "stays_in d (Make_dir [])" "stays_in d (Write_bytes [d] data)" "stays_in d (Set_mode [d] mode)" "stays_in d (Make_link [d] link)"
    "stays_in d (Write_text (with_suffix [d]) t)" for data mode link t
    by (simp_all add: stays_in_def below_def with_suffix_def)
  show ?thesis
  proof (cases depth)
    case 0
    then show ?thesis by (simp add: acts_lift)
  next
    case (Suc n)
    with False show ?thesis by (auto intro!: acts_bind acts_bind_lift acts_perform acts_lift simp: w split: option.split)
  qed
qed


section \<open>Reading a file back\<close>

text \<open>
  How \<open>mksquashfs\<close> splits a file into blocks \<open>cs\<close> and a tail of \<open>t\<close> bytes in a fragment: whole blocks, and a
  shorter last one only when there is no tail.
\<close>

fun split_into :: "nat \<Rightarrow> bytes list \<Rightarrow> nat \<Rightarrow> bool" where
  "split_into block_size [] t \<longleftrightarrow> True"
| "split_into block_size (c # cs) t \<longleftrightarrow>
     0 < length c \<and> (length c = block_size \<or> length c \<le> block_size \<and> cs = [] \<and> t = 0) \<and> split_into block_size cs t"

text \<open>The size word of an uncompressed block.\<close>

definition raw_word :: "nat \<Rightarrow> nat" where
  "raw_word n = 0x01000000 + n"

lemma raw_word_bits:
  assumes "n < 0x01000000"
  shows "raw_word n AND 0x00FFFFFF = n" "raw_word n AND 0x01000000 \<noteq> 0"
proof -
  have "raw_word n AND mask 24 = n" using assms by (simp add: raw_word_def flip: take_bit_eq_mask) (simp add: take_bit_eq_mod)
  then show "raw_word n AND 0x00FFFFFF = n" by (simp add: mask_eq_exp_minus_1)
  have "(0x01000000 + n) div 0x01000000 = 1" using assms by simp
  then have "bit (raw_word n) 24" by (simp add: bit_iff_odd raw_word_def)
  moreover have "(2 :: nat) ^ 24 = 0x01000000" by simp
  ultimately show "raw_word n AND 0x01000000 \<noteq> 0" using and_exp_eq_0_iff_not_bit [of "raw_word n" 24] by metis
qed

lemma pslice_append_split:
  assumes "pslice xs off (off + length (a @ b)) = a @ b"
  shows "pslice xs off (off + length a) = a" "pslice xs (off + length a) (off + length a + length b) = b"
proof -
  have t: "take (length a + length b) (drop off xs) = a @ b" using assms by (simp add: pslice_def)
  have "take (length a) (drop off xs) = take (length a) (take (length a + length b) (drop off xs))" by simp
  then show "pslice xs off (off + length a) = a" unfolding t by (simp add: pslice_def)
  have "take (length b) (drop (length a) (drop off xs)) = drop (length a) (take (length a + length b) (drop off xs))"
    by (simp add: drop_take)
  then show "pslice xs (off + length a) (off + length a + length b) = b" unfolding t by (simp add: pslice_def add.commute)
qed

lemma read_blocks_raw:
  assumes "sq_block_size (fs_sb fs) = block_size" "block_size < 0x01000000"
  shows "split_into block_size cs t \<Longrightarrow> off = fs_base fs + start \<Longrightarrow> off + length (concat cs) < 2 ^ 63 \<Longrightarrow>
    pslice (fs_image fs) off (off + length (concat cs)) = concat cs \<Longrightarrow>
    read_blocks fs (map (\<lambda>c. raw_word (length c)) cs) start (length (concat cs) + t) = Inr (concat cs, t)"
proof (induction cs arbitrary: off start)
  case Nil
  then show ?case by simp
next
  case (Cons c cs)
  have c: "0 < length c" "length c \<le> block_size" "length c = block_size \<or> cs = [] \<and> t = 0" "split_into block_size cs t"
    using Cons.prems(1) by auto
  note bits = raw_word_bits [of "length c", OF order_le_less_trans [OF c(2) assms(2)]]
  have logical: "min (length (concat (c # cs)) + t) block_size = length c" using c(2,3) by auto
  have "pslice (fs_image fs) off (off + length (c @ concat cs)) = c @ concat cs" using Cons.prems(4) by simp
  note img = pslice_append_split [OF this]
  have "read_at fs start (length c) = Inr c"
    using img(1) Cons.prems(2,3) by (simp add: read_at_def)
  then have block: "stored_block fs start (raw_word (length c)) = Inr c" by (simp add: stored_block_def bits)
  have "read_blocks fs (map (\<lambda>c. raw_word (length c)) cs) (start + length c) (length (concat cs) + t) = Inr (concat cs, t)"
    by (rule Cons.IH [of "off + length c"]) (use c(4) Cons.prems(2,3) img(2) in auto)
  with block bits c(1) logical assms(1) show ?case by simp
qed

text \<open>C28: A file that \<open>mksquashfs\<close> stored uncompressed is read back exactly. When the inode names the raw blocks \<open>cs\<close>, which
  stand one after the other at its start block, and the rest of the file is in a fragment (or there is none), \<open>read_file\<close> returns the
  blocks followed by that rest.
\<close>

theorem stored_file_round_trip:
  assumes "in_kind node = 2 \<or> in_kind node = 9" "in_start node = Some start"
    and "in_block_sizes node = map (\<lambda>c. raw_word (length c)) cs" "in_file_size node = length (concat cs) + length tail"
    and "split_into (sq_block_size (fs_sb fs)) cs (length tail)" "sq_block_size (fs_sb fs) < 2 ^ 24"
    and "pslice (fs_image fs) (fs_base fs + start) (fs_base fs + start + length (concat cs)) = concat cs"
    and "fs_base fs + start + length (concat cs) < 2 ^ 63"
    and "tail \<noteq> [] \<Longrightarrow> in_fragment node \<noteq> INVALID_FRAGMENT"
    and "tail \<noteq> [] \<Longrightarrow> fragment_data fs (in_fragment node) = Inr fragment"
    and "tail \<noteq> [] \<Longrightarrow> pslice fragment (in_fragment_offset node) (in_fragment_offset node + length tail) = tail"
  shows "read_file fs node = Inr (concat cs @ tail)"
proof -
  have "read_blocks fs (in_block_sizes node) start (in_file_size node) = Inr (concat cs, length tail)"
    unfolding assms(3,4) by (rule read_blocks_raw [OF refl _ assms(5) refl]) (use assms(6-8) in simp_all)
  then show ?thesis
    using assms(1,2,4) assms(9-11) by (cases "tail = []") (auto simp: read_file_def simp del: length_pslice)
qed

definition sample_fs :: squashfs where
  "sample_fs = \<lparr>fs_image = [9, 1, 2, 3, 4, 5], fs_base = 1, fs_sb = (unpack_superblock [])\<lparr>sq_block_size := 4\<rparr>, fs_unlzma = (\<lambda>_. None)\<rparr>"

definition sample_file :: inode where
  "sample_file = (new_inode 0 2 0 1)\<lparr>in_start := Some 0, in_file_size := 5, in_block_sizes := [0x01000004, 0x01000001]\<rparr>"

lemma stored_file_round_trip_witness: "read_file sample_fs sample_file = Inr (concat [[1, 2, 3, 4], [5]] @ [])"
proof (rule stored_file_round_trip [where start = 0])
  show "in_block_sizes sample_file = map (\<lambda>c. raw_word (length c)) [[1, 2, 3, 4 :: byte], [5]]"
    by (simp add: sample_file_def raw_word_def)
  show "pslice (fs_image sample_fs) (fs_base sample_fs + 0) (fs_base sample_fs + 0 + length (concat [[1, 2, 3, 4], [5 :: byte]])) =
      concat [[1, 2, 3, 4], [5]]"
    by (simp add: sample_fs_def pslice_def)
qed (simp_all add: sample_fs_def sample_file_def new_inode_def)

end
