(* ===== verification/Spec2Isabelle.thy ===== *)
theory Spec2Isabelle
  imports Prelude Crc Hashes Protocol Commands Hid_Transport Device_Models Daemon_Config Jffs2 Jffs2_Props Jffs2_Files Backup_Archive
    Image_Source Xz_Container System_Patch Image_Analysis Reports Jffs2_Build Recovery Recovery_Complete Sample_Camera
    Python_Text Adb_Client Adb_Acquire Adb_Backup Adb_Props Console Restore_Prepare Cli Cli_Backup Proc_Mtd Sample_Host
    Cli_Restore Restore_Props Restore_Ends Startup_Payloads Startup Startup_Props Startup_Space Cli_Startup Stream_Identify
    Stream_Props Cli_Identify Mips_Disasm Mips_Listing Mips_Props Mips_Tracking Mips_Xrefs Squashfs Squashfs_Extract
begin

text \<open>
  \<^bold>\<open>What the program does.\<close> \<open>cc2camera\<close> inspects, backs up, repairs and restores the 8 MiB flash of the Elegoo CC2
  camera. It talks to the camera in three ways: HID reports to the running camera (the normal stage), HID reports
  to its bootloader, and commands over ADB. An image that was read from a camera is analysed, its serial is
  recovered from the JFFS2 config partition, the start script in a SquashFS fragment is patched, and a recovery image
  is built; \<open>restore\<close> writes such an image back through the bootloader.

  \<^bold>\<open>The parts and their theories.\<close> The order is that of the imports.

  \<^item> \<open>Prelude\<close>: bytes, Python slices, \<open>struct\<close>, the \<open>exn\<close> type with the result type \<open>'a res = exn + 'a\<close>, list lemmas.
    \<open>Crc\<close>, \<open>Hashes\<close>: the checksums of \<open>protocol.py\<close> and the standard library's CRC-32, MD5 and SHA-256, computed.
    \<open>Python_Text\<close>: UTF-8 decoding with replacement, \<open>splitlines\<close>, \<open>split\<close>, \<open>strip\<close>, \<open>int\<close> on text as code points.
  \<^item> \<open>Protocol\<close> (\<open>cc2camera/protocol.py\<close>): frames of both stages, the update blob and its packets, full-image check.
    \<open>Commands\<close> (\<open>commands.py\<close>): the catalog of normal commands, builders and decoders of every request and reply.
  \<^item> \<open>Hid_Transport\<close> (\<open>hid_transport.py\<close>): a \<open>world\<close> is the device's state, the trace of HID events and the progress that was
    reported; an operation is a function of type \<open>io\<close> on it. \<open>HidHandle\<close>, uploads, the ADB start, the bootloader
    transfer, the waits. \<open>Device_Models\<close>: the reconstructed C of the bootloader's updater and the update daemon
    (\<open>usb-maintenance/source-reconstruction\<close>) as HID devices, and host and device run against each other.
    \<open>Daemon_Config\<close>: the daemon's configuration file, version and upgrade words, and the host's configuration requests against it.
  \<^item> \<open>Jffs2\<close>, \<open>Jffs2_Props\<close>, \<open>Jffs2_Files\<close>, \<open>Jffs2_Build\<close> (\<open>image.py\<close>): the node scan, reconstruction of files, serial recovery, both
    partition builders. \<open>Backup_Archive\<close>, \<open>Image_Source\<close>: raw dumps and backup archives. \<open>Xz_Container\<close>, \<open>System_Patch\<close>: the XZ
    stream and the rebuilt window. \<open>Image_Analysis\<close>, \<open>Reports\<close>: the strict validator and its text. \<open>Recovery\<close>,
    \<open>Recovery_Complete\<close> (\<open>image.py\<close>, \<open>bundle.py\<close>): the rebuilt image, the bundle of files, its atomic publication.
    \<open>Sample_Camera\<close>: a concrete image for witnesses.
  \<^item> \<open>Adb_Client\<close>, \<open>Adb_Acquire\<close>, \<open>Adb_Backup\<close>, \<open>Adb_Props\<close>, \<open>Proc_Mtd\<close> (\<open>adb_backup.py\<close>): a \<open>station\<close> is a HID world with a log in which ADB
    processes and HID events are interleaved. Availability, the partition table, full reads, three identical reads,
    saving, loading and comparing backups.
  \<^item> \<open>Console\<close> (\<open>display.py\<close>), \<open>Restore_Prepare\<close> (\<open>restore_prepare.py\<close>), \<open>Cli\<close>, \<open>Cli_Backup\<close>, \<open>Cli_Restore\<close>, \<open>Restore_Props\<close>,
    \<open>Restore_Ends\<close> (\<open>cli.py\<close>): the terminal, the checks and the guarded write before a restore, the commands, and what they
    promise as a whole. \<open>Sample_Host\<close>: a concrete host for witnesses.
  \<^item> \<open>Startup_Payloads\<close>, \<open>Startup\<close> (\<open>startup_payloads.py\<close>, \<open>startup.py\<close>): the boot hooks byte for byte, the space plan, the scripts and the
    steps of an installation. \<open>Startup_Props\<close>, \<open>Startup_Space\<close>, \<open>Cli_Startup\<close>: that there is one guarded write, and the command.
  \<^item> \<open>Stream_Identify\<close> (\<open>stream_identify.py\<close>): JPEG fingerprints and the MJPEG reader over a \<open>stream\<close> that may deliver few bytes or fail;
    \<open>Stream_Props\<close>: how much it reads and that it reads what was sent; \<open>Cli_Identify\<close>: the command \<open>identify-camera\<close>.
  \<^item> \<open>Mips_Disasm\<close>, \<open>Mips_Listing\<close> (\<open>usb-maintenance/tools/mips32_disasm.py\<close>): the decoder over 32-bit words, the tracked registers and the
    listing. \<open>Mips_Props\<close>, \<open>Mips_Tracking\<close>: the types of decoded fields, and the tracked values against the processor's results;
    \<open>Mips_Xrefs\<close> (\<open>mips_pic_xrefs.py\<close>): prologues and references.
  \<^item> \<open>Squashfs\<close>, \<open>Squashfs_Extract\<close> (\<open>usb-maintenance/tools/squashfs_extract.py\<close>): reading an image, its two caches, and the
    extraction as a list of actions on the host.

  \<^bold>\<open>How the lemmas are grouped.\<close> Codecs: round trips, exact acceptance conditions, detection of one damaged byte. Conversations:
  a session is specified by the list of its exchanges (\<open>carries_out\<close>, \<open>conducts\<close>), so what was sent is a prefix of
  the plan, and success means that all of it was acknowledged; the refinement theorems run the same plan against the
  device models. Images: what a rebuilt image may change and that the validator accepts it again. Files: publication is all
  or nothing under interference. Commands: what precedes what in the log and the trace (\<open>only_runs\<close>, \<open>quiet\<close>, \<open>one_start\<close>).
  Readers: how much of the input is consumed (\<open>consumed\<close>), and that what was written is delivered (\<open>delivers\<close>). Tracking: an
  abstract state that \<open>matches\<close> the processor's registers stays so.
  Interfaces are locales: \<open>digest16\<close> for the hash the blob carries, \<open>memo\<close> for the extractor's caches, and the others at their providers.

  \<^bold>\<open>Bounds and fuel.\<close> The waits poll until a deadline on a clock that is a parameter, on fuel: \<open>None\<close> is running out of it. A
  poll sleeps half a second, so \<open>timeout / 500 ms + 2\<close> rounds are enough with a clock that advances
  (\<open>wait_for_hid_ends\<close>, \<open>wait_for_device_ends\<close>), and \<open>restore_ends\<close> composes this for whole commands. Loops over a stream or a
  table end by a measure on what is left to read. The extractor's recursion has the interpreter's limit as its depth, so that an image whose
  directories form a cycle ends in \<open>RecursionError\<close>. All other loops are structural recursions or folds. Times are whole milliseconds.

  \<^bold>\<open>Parameters.\<close> Third-party code and the outside world are arguments: the \<open>hid\<close> package, \<open>subprocess\<close>, the clock, files and
  directories, \<open>zipfile\<close>, \<open>json\<close>, \<open>zlib\<close> and \<open>lzma\<close>, the rename of the operating system with what other processes do at
  the same time. The image pipeline takes the hash functions as an argument, so that witnesses can be evaluated;
  \<open>Backup_Archive.hashlib\<close> is the instance with the computed MD5 and SHA-256.

  \<^bold>\<open>Not modelled.\<close> The declarations of \<open>argparse\<close> and the parsing of arguments (with the argument types \<open>_sha256_argument\<close> and
  \<open>_positive_finite_duration\<close>, which rest on Unicode case folding and on the parsing of floats); the HTTP client behind
  \<open>urlopen\<close> and the regular expression of \<open>--match\<close>, which are parameters; the consistency script
  \<open>verify_protocol_vectors.py\<close>, the SPL reconstruction, the daemon's threads and the CDC transport of the updater, the packaging,
  the camera's own shell scripts and the tests. Error texts that only interpolate numbers are shortened; the progress lines of the transfer are recorded in the world and not printed; \<open>fsync\<close> has no effect.
\<close>

end
